(* ===== verification/Go_Prelude.thy ===== *)
theory Go_Prelude
  imports Main "HOL-Library.Word" "HOL-Library.Sublist"
begin

text \<open>
  Shared ground of the development: the widths of Go's integers, the three ways a Go call can
  end (a value, an error value, a run-time panic), the error values the package returns, and
  the byte orders of \<^verbatim>\<open>encoding/binary\<close>. The byte orders are presented once as an interface, the
  locale \<open>fixed_codec\<close>, and interpreted on the encoders the code uses.
\<close>

unbundle bit_operations_syntax

section \<open>Integers, results, errors\<close>

type_synonym u8 = "8 word"
type_synonym u16 = "16 word"
type_synonym u32 = "32 word"
type_synonym u64 = "64 word"

text \<open>
  The error values of the package and of the standard library calls it makes.
  \<open>ErrIO\<close> stands for any error of the network connection other than end of file;
  \<open>Errorf\<close> for errors built with \<^verbatim>\<open>fmt.Errorf\<close> or \<^verbatim>\<open>errors.New\<close> inside a function,
  named by their fixed text.
\<close>

datatype go_error =
    EOF
  | ErrUnexpectedEOF
  | ErrIO nat
  | ErrInvalidChunkHeader
  | ErrInvalidPriority
  | ErrInvalidChunkStreamID
  | ErrInvalidChunk
  | ErrMaxChunkStreams
  | ErrClosedChunkStream
  | MediaStreamClosed
  | Errorf string

text \<open>A call ends with a value, with an error value, or with a panic (an index out of range,
  a nil dereference) that unwinds the goroutine.\<close>

datatype 'a res = Ok 'a | Err go_error | Panic

fun res_bind :: "'a res \<Rightarrow> ('a \<Rightarrow> 'b res) \<Rightarrow> 'b res" where
  "res_bind (Ok a) f = f a"
| "res_bind (Err e) f = Err e"
| "res_bind Panic f = Panic"

lemma res_bind_eq_Ok: "res_bind m f = Ok b \<longleftrightarrow> (\<exists>a. m = Ok a \<and> f a = Ok b)"
  by (cases m) auto

lemma res_bind_cases:
  "res_bind m f = x \<longleftrightarrow> (case m of Ok a \<Rightarrow> f a = x | Err e \<Rightarrow> Err e = x | Panic \<Rightarrow> Panic = x)"
  by (cases m) auto

lemmas res_case_fundef_cong [fundef_cong] = res.case_cong

section \<open>Hints\<close>

text \<open>\<open>codec_simps\<close> collects the length and decoding laws of the byte codecs;
  \<open>io_simps\<close> the laws of the reader and writer primitives; \<open>wire_simps\<close> the encoders of the
  chunk layer.\<close>

named_theorems codec_simps
named_theorems io_simps
named_theorems wire_simps

section \<open>Words\<close>

lemma unat_le_mono: "a \<le> b \<longleftrightarrow> unat a \<le> unat b" for a b :: "'a::len word"
  by (rule word_le_nat_alt)

lemma unat_less_mono: "a < b \<longleftrightarrow> unat a < unat b" for a b :: "'a::len word"
  by (rule word_less_nat_alt)

lemma drop_bit_small:
  fixes x :: "'a::len word"
  assumes "unat x < 2 ^ n"
  shows "drop_bit n x = 0"
proof -
  have "unat (drop_bit n x) = unat x div 2 ^ n"
    by (simp only: unat_drop_bit_eq drop_bit_nat_def)
  then show ?thesis using assms by (simp add: unat_eq_zero)
qed

lemma take_bit_small:
  fixes x :: "'a::len word"
  assumes "unat x < 2 ^ n"
  shows "take_bit n x = x"
  using assms by (metis drop_bit_small bits_ident push_bit_of_0 add_0)

lemma unat_of_nat_small: "n < 2 ^ LENGTH('a) \<Longrightarrow> unat (word_of_nat n :: 'a::len word) = n"
  by (simp add: unat_of_nat take_bit_nat_eq_self)

text \<open>Go's conversions between unsigned widths truncate or extend.\<close>

lemma unat_ucast_widen:
  fixes x :: "'a::len word"
  assumes "LENGTH('a) \<le> LENGTH('b::len)"
  shows "unat (ucast x :: 'b word) = unat x"
proof -
  have "unat x < 2 ^ LENGTH('a)" by (rule unsigned_less)
  also have "\<dots> \<le> 2 ^ LENGTH('b)" using assms by simp
  finally show ?thesis by (simp add: unsigned_ucast_eq take_bit_nat_eq_self)
qed

lemma unat_ucast_narrow:
  fixes x :: "'a::len word"
  assumes "unat x < 2 ^ LENGTH('b::len)"
  shows "unat (ucast x :: 'b word) = unat x"
  using assms by (simp add: unsigned_ucast_eq take_bit_nat_eq_self)

lemma unat_ucast_u8_u32 [simp]: "unat (ucast (b :: u8) :: u32) = unat b"
  by (rule unat_ucast_widen) simp

lemma ucast_u8_u32_roundtrip:
  fixes x :: u32
  assumes "unat x < 256"
  shows "ucast (ucast x :: u8) = x"
  using assms by (simp add: word_unat_eq_iff unat_ucast_narrow)

section \<open>Lists\<close>

text \<open>A subsequence of a list has its counterpart among the list's counterparts.\<close>

lemma subseq_set: "subseq xs ys \<Longrightarrow> set xs \<subseteq> set ys"
  by (induction rule: list_emb.induct) auto

lemma list_all2_subseq:
  "subseq zs xs \<Longrightarrow> list_all2 P xs ys \<Longrightarrow> \<exists>us. subseq us ys \<and> list_all2 P zs us"
proof (induction arbitrary: ys rule: list_emb.induct)
  case (list_emb_Nil xs)
  show ?case by (intro exI [of _ "[]"]) simp
next
  case (list_emb_Cons zs xs x)
  then obtain y ys' where "ys = y # ys'" "list_all2 P xs ys'" by (auto simp: list_all2_Cons1)
  with list_emb_Cons.IH show ?case by (blast intro: list_emb.list_emb_Cons)
next
  case (list_emb_Cons2 z x zs xs)
  then obtain y ys' where y: "ys = y # ys'" "P x y" "list_all2 P xs ys'" by (auto simp: list_all2_Cons1)
  with list_emb_Cons2.IH obtain us where "subseq us ys'" "list_all2 P zs us" by blast
  with y list_emb_Cons2.hyps(1) show ?case by (intro exI [of _ "y # us"]) auto
qed

section \<open>encoding/binary\<close>

text \<open>
  \<^verbatim>\<open>binary.BigEndian.PutUint32\<close>, \<^verbatim>\<open>binary.BigEndian.Uint32\<close> and their siblings, with the shifts
  and disjunctions of the library's own code. \<^verbatim>\<open>Uint32\<close> starts with the bounds check \<^verbatim>\<open>_ = b[3]\<close>: on
  a slice of fewer than four bytes it panics, on a longer one it reads the first four.
\<close>

definition be32_put :: "u32 \<Rightarrow> u8 list" where
  "be32_put x = [ucast (drop_bit 24 x), ucast (drop_bit 16 x), ucast (drop_bit 8 x), ucast x]"

definition be32_join :: "u8 \<Rightarrow> u8 \<Rightarrow> u8 \<Rightarrow> u8 \<Rightarrow> u32" where
  "be32_join b0 b1 b2 b3 =
     ucast b3 OR push_bit 8 (ucast b2) OR push_bit 16 (ucast b1) OR push_bit 24 (ucast b0)"

fun BigEndian_Uint32 :: "u8 list \<Rightarrow> u32 res" where
  "BigEndian_Uint32 (b0 # b1 # b2 # b3 # _) = Ok (be32_join b0 b1 b2 b3)"
| "BigEndian_Uint32 _ = Panic"

definition le32_put :: "u32 \<Rightarrow> u8 list" where
  "le32_put x = rev (be32_put x)"

fun LittleEndian_Uint32 :: "u8 list \<Rightarrow> u32 res" where
  "LittleEndian_Uint32 (b0 # b1 # b2 # b3 # _) = Ok (be32_join b3 b2 b1 b0)"
| "LittleEndian_Uint32 _ = Panic"

definition be16_put :: "u16 \<Rightarrow> u8 list" where
  "be16_put x = [ucast (drop_bit 8 x), ucast x]"

lemma be32_join_split:
  "be32_join (ucast (drop_bit 24 x)) (ucast (drop_bit 16 x)) (ucast (drop_bit 8 x)) (ucast x) = x"
  for x :: u32
proof (rule bit_word_eqI)
  fix n :: nat
  assume n: "n < LENGTH(32)"
  consider "n < 8" | m where "n = 8 + m" "m < 8" | m where "n = 16 + m" "m < 8"
    | m where "n = 24 + m" "m < 8"
  proof -
    have "n < 8 \<or> n = 8 + (n - 8) \<and> n - 8 < 8 \<or> n = 16 + (n - 16) \<and> n - 16 < 8
      \<or> n = 24 + (n - 24) \<and> n - 24 < 8"
      using n by simp arith
    then show thesis using that by blast
  qed
  then show "bit (be32_join (ucast (drop_bit 24 x)) (ucast (drop_bit 16 x))
      (ucast (drop_bit 8 x)) (ucast x)) n \<longleftrightarrow> bit x n"
    by cases (simp_all add: be32_join_def bit_simps)
qed

lemma BigEndian_Uint32_panics: "BigEndian_Uint32 bs = Panic \<longleftrightarrow> length bs < 4"
  by (cases bs rule: BigEndian_Uint32.cases) auto

lemma LittleEndian_Uint32_panics: "LittleEndian_Uint32 bs = Panic \<longleftrightarrow> length bs < 4"
  by (cases bs rule: LittleEndian_Uint32.cases) auto

lemma BigEndian_Uint32_ok: "4 \<le> length bs \<Longrightarrow> \<exists>x. BigEndian_Uint32 bs = Ok x"
  by (cases bs rule: BigEndian_Uint32.cases) auto

lemma LittleEndian_Uint32_ok: "4 \<le> length bs \<Longrightarrow> \<exists>x. LittleEndian_Uint32 bs = Ok x"
  by (cases bs rule: LittleEndian_Uint32.cases) auto

lemma BigEndian_Uint32_not_Err [simp]: "BigEndian_Uint32 bs \<noteq> Err e"
  by (cases bs rule: BigEndian_Uint32.cases) auto

lemma LittleEndian_Uint32_not_Err [simp]: "LittleEndian_Uint32 bs \<noteq> Err e"
  by (cases bs rule: LittleEndian_Uint32.cases) auto

subsection \<open>Codecs of a fixed width\<close>

text \<open>
  What the header and control-message code relies on: an encoder whose output always has the
  same length, and a decoder that recovers the value from exactly these bytes, whatever bytes
  follow. \<open>vals\<close> holds the values the encoder can represent (a three-byte field loses the top
  byte of a \<^verbatim>\<open>uint32\<close>).
\<close>

locale fixed_codec =
  fixes put :: "'a \<Rightarrow> u8 list"
    and get :: "u8 list \<Rightarrow> 'a res"
    and width :: nat
    and vals :: "'a set"
  assumes put_length: "length (put x) = width"
    and get_put: "x \<in> vals \<Longrightarrow> get (put x @ rest) = Ok x"
begin

lemma get_exact: "x \<in> vals \<Longrightarrow> get (put x) = Ok x"
  using get_put [of x "[]"] by simp

lemma take_put: "take width (put x @ rest) = put x"
  by (simp add: put_length)

lemma drop_put: "drop width (put x @ rest) = rest"
  by (simp add: put_length)

lemma put_inject: "x \<in> vals \<Longrightarrow> y \<in> vals \<Longrightarrow> put x = put y \<longleftrightarrow> x = y"
  by (metis get_exact res.inject(1))

end

text \<open>The three-byte fields of a chunk header: the code encodes into a four-byte buffer and sends
  its tail (\<^verbatim>\<open>tmpBuf[1:]\<close>), and decodes from a buffer whose first byte is zero.\<close>

definition be24_put :: "u32 \<Rightarrow> u8 list" where
  "be24_put x = tl (be32_put x)"

definition be24_get :: "u8 list \<Rightarrow> u32 res" where
  "be24_get bs = BigEndian_Uint32 (0 # bs)"

lemma be24_join:
  "unat x < 2 ^ 24 \<Longrightarrow>
     be32_join 0 (ucast (drop_bit 16 x)) (ucast (drop_bit 8 x)) (ucast x) = x"
  using be32_join_split [of x] drop_bit_small [of x 24] by simp

interpretation be32: fixed_codec be32_put BigEndian_Uint32 4 UNIV
  by unfold_locales (simp_all add: be32_put_def be32_join_split)

interpretation le32: fixed_codec le32_put LittleEndian_Uint32 4 UNIV
  by unfold_locales (simp_all add: le32_put_def be32_put_def be32_join_split)

interpretation be24: fixed_codec be24_put be24_get 3 "{x. unat x < 2 ^ 24}"
  by unfold_locales (simp_all add: be24_put_def be24_get_def be32_put_def be24_join)

lemmas codec_length [codec_simps, simp] = be32.put_length le32.put_length be24.put_length

lemmas codec_get [codec_simps] =
  be32.get_put [OF UNIV_I] le32.get_put [OF UNIV_I] be24.get_put [OF CollectI]
  be32.get_exact [OF UNIV_I] le32.get_exact [OF UNIV_I] be24.get_exact [OF CollectI]

lemma be24_get_total: "length bs = 3 \<Longrightarrow> \<exists>x. be24_get bs = Ok x"
  using BigEndian_Uint32_ok [of "0 # bs"] by (simp add: be24_get_def)

end
