(* ===== verification/Go_IO.thy ===== *)
theory Go_IO
  imports Go_Prelude
begin

text \<open>
  The \<^verbatim>\<open>io\<close> calls of the chunk layer. The package's \<^verbatim>\<open>Reader\<close> and \<^verbatim>\<open>Writer\<close> interfaces
  (\<^verbatim>\<open>src/defines.go\<close>) are served by a \<^verbatim>\<open>bufio\<close> reader and writer over a connection.

  A reader is the bytes that will still arrive and the error that follows them. A writer is the
  bytes accepted so far and the room left before the connection fails (\<open>None\<close>: it never fails,
  as a \<^verbatim>\<open>bytes.Buffer\<close>). Each call is a function of the reader or writer that returns the number
  of bytes the Go code adds to its count, the result, and the new reader or writer.
\<close>

section \<open>Readers\<close>

record reader =
  rbytes :: "u8 list"
  rend :: go_error

type_synonym 'a rd = "reader \<Rightarrow> nat \<times> 'a res \<times> reader"

definition rd_lift :: "'a res \<Rightarrow> 'a rd" where
  "rd_lift x r = (0, x, r)"

definition rd_bind :: "'a rd \<Rightarrow> ('a \<Rightarrow> 'b rd) \<Rightarrow> 'b rd" where
  "rd_bind m f r = (case m r of
       (n, Ok a, r') \<Rightarrow> (case f a r' of (n', x, r'') \<Rightarrow> (n + n', x, r''))
     | (n, Err e, r') \<Rightarrow> (n, Err e, r')
     | (n, Panic, r') \<Rightarrow> (n, Panic, r'))"

definition ReadByte :: "u8 rd" where
  "ReadByte r = (case rbytes r of
       [] \<Rightarrow> (0, Err (rend r), r)
     | b # bs \<Rightarrow> (1, Ok b, r\<lparr>rbytes := bs\<rparr>))"

text \<open>\<^verbatim>\<open>io.ReadFull\<close> into a slice of \<open>k\<close> bytes: a stream that ends inside the slice has been
  consumed, and an end of file there is \<^verbatim>\<open>io.ErrUnexpectedEOF\<close> unless no byte was read. The callers
  count the bytes only after success.\<close>

definition ReadFull :: "nat \<Rightarrow> u8 list rd" where
  "ReadFull k r =
     (if k \<le> length (rbytes r)
      then (k, Ok (take k (rbytes r)), r\<lparr>rbytes := drop k (rbytes r)\<rparr>)
      else (0, Err (if rbytes r \<noteq> [] \<and> rend r = EOF then ErrUnexpectedEOF else rend r),
            r\<lparr>rbytes := []\<rparr>))"

text \<open>\<^verbatim>\<open>io.CopyN(dst, r, k)\<close> where \<open>dst\<close> is a buffer in memory: the bytes that could be read are
  appended to \<open>dst\<close> and counted even when there are fewer than \<open>k\<close> of them.\<close>

definition CopyN_from :: "nat \<Rightarrow> reader \<Rightarrow> u8 list \<times> go_error option \<times> reader" where
  "CopyN_from k r =
     (if k \<le> length (rbytes r)
      then (take k (rbytes r), None, r\<lparr>rbytes := drop k (rbytes r)\<rparr>)
      else (rbytes r, Some (rend r), r\<lparr>rbytes := []\<rparr>))"

subsection \<open>Laws\<close>

lemma rd_bind_Ok [io_simps]:
  "m r = (n, Ok a, r') \<Longrightarrow> rd_bind m f r = (case f a r' of (n', x, r'') \<Rightarrow> (n + n', x, r''))"
  by (simp add: rd_bind_def)

lemma rd_bind_Err [io_simps]: "m r = (n, Err e, r') \<Longrightarrow> rd_bind m f r = (n, Err e, r')"
  by (simp add: rd_bind_def)

lemma rd_lift_apply [simp]: "rd_lift x r = (0, x, r)"
  by (simp add: rd_lift_def)

lemma ReadByte_Cons [simp, io_simps]:
  "ReadByte \<lparr>rbytes = b # bs, rend = e\<rparr> = (1, Ok b, \<lparr>rbytes = bs, rend = e\<rparr>)"
  by (simp add: ReadByte_def)

lemma ReadFull_append [io_simps]:
  "length bs = k \<Longrightarrow>
     ReadFull k \<lparr>rbytes = bs @ rest, rend = e\<rparr> = (k, Ok bs, \<lparr>rbytes = rest, rend = e\<rparr>)"
  by (simp add: ReadFull_def)

lemma CopyN_from_append [io_simps]:
  "length bs = k \<Longrightarrow>
     CopyN_from k \<lparr>rbytes = bs @ rest, rend = e\<rparr> = (bs, None, \<lparr>rbytes = rest, rend = e\<rparr>)"
  by (simp add: CopyN_from_def)

text \<open>
  A read action is \<^emph>\<open>orderly\<close> when it never panics, keeps the error that ends the stream, on
  success has consumed exactly the bytes it counted, and never gives bytes back. Sequencing keeps
  this, so it holds of every parser built from the primitives.
\<close>

definition orderly :: "'a rd \<Rightarrow> bool" where
  "orderly m \<longleftrightarrow> (\<forall>r n x r'. m r = (n, x, r') \<longrightarrow>
     x \<noteq> Panic \<and> rend r' = rend r \<and> length (rbytes r') + n \<le> length (rbytes r) \<and>
     ((\<exists>a. x = Ok a) \<longrightarrow> rbytes r' = drop n (rbytes r) \<and> n \<le> length (rbytes r)))"

lemma orderlyI:
  assumes "\<And>r n x r'. m r = (n, x, r') \<Longrightarrow> x \<noteq> Panic \<and> rend r' = rend r \<and>
     length (rbytes r') + n \<le> length (rbytes r) \<and>
     ((\<exists>a. x = Ok a) \<longrightarrow> rbytes r' = drop n (rbytes r) \<and> n \<le> length (rbytes r))"
  shows "orderly m"
  using assms unfolding orderly_def by blast

lemma orderly_ReadByte [intro]: "orderly ReadByte"
  by (rule orderlyI) (auto simp: ReadByte_def split: list.splits)

lemma orderly_ReadFull [intro]: "orderly (ReadFull k)"
  by (rule orderlyI) (auto simp: ReadFull_def split: if_splits)

lemma orderly_lift [intro]: "x \<noteq> Panic \<Longrightarrow> orderly (rd_lift x)"
  by (rule orderlyI) auto

lemma orderly_bind [intro]:
  assumes m: "orderly m" and f: "\<And>a. orderly (f a)"
  shows "orderly (rd_bind m f)"
proof (rule orderlyI)
  fix r n x r'
  assume run: "rd_bind m f r = (n, x, r')"
  obtain k y s where first: "m r = (k, y, s)" by (cases "m r")
  note law = m [unfolded orderly_def, rule_format, OF first]
  show "x \<noteq> Panic \<and> rend r' = rend r \<and> length (rbytes r') + n \<le> length (rbytes r) \<and>
     ((\<exists>a. x = Ok a) \<longrightarrow> rbytes r' = drop n (rbytes r) \<and> n \<le> length (rbytes r))"
  proof (cases y)
    case (Ok a)
    obtain k' z s' where second: "f a s = (k', z, s')" by (cases "f a s")
    with first run Ok have "n = k + k'" "x = z" "r' = s'" by (simp_all add: rd_bind_def)
    with f [of a, unfolded orderly_def, rule_format, OF second] law Ok show ?thesis
      by (auto simp: add.commute)
  qed (use first run law in \<open>auto simp: rd_bind_def\<close>)
qed

lemma orderly_if: "orderly m \<Longrightarrow> orderly m' \<Longrightarrow> orderly (if P then m else m')"
  by simp

lemma orderly_Ok: "orderly (rd_lift (Ok a))"
  by auto

lemmas orderly_intros = orderly_bind orderly_if orderly_Ok orderly_ReadByte orderly_ReadFull

text \<open>The same for a bind whose continuation is orderly only on the values the first action can
  return.\<close>

lemma orderly_ReadFull_bind:
  assumes "\<And>bs. length bs = k \<Longrightarrow> orderly (f bs)"
  shows "orderly (rd_bind (ReadFull k) f)"
proof -
  have "rd_bind (ReadFull k) f = rd_bind (ReadFull k) (\<lambda>bs. if length bs = k then f bs else rd_lift (Err EOF))"
    by (rule ext) (auto simp: rd_bind_def ReadFull_def)
  moreover have "orderly \<dots>"
    by (intro orderly_bind orderly_ReadFull) (simp add: assms orderly_lift)
  ultimately show ?thesis by simp
qed

lemma orderly_no_panic: "orderly m \<Longrightarrow> m r = (n, x, r') \<Longrightarrow> x \<noteq> Panic"
  by (auto simp: orderly_def)

lemma orderly_consumes:
  "orderly m \<Longrightarrow> m r = (n, Ok a, r') \<Longrightarrow> rbytes r = take n (rbytes r) @ rbytes r' \<and> rend r' = rend r"
  by (auto simp: orderly_def)

lemma orderly_count:
  "orderly m \<Longrightarrow> m r = (n, Ok a, r') \<Longrightarrow> length (rbytes r') + n = length (rbytes r)"
  unfolding orderly_def by fastforce

lemma orderly_length: "orderly m \<Longrightarrow> m r = (n, x, r') \<Longrightarrow> length (rbytes r') + n \<le> length (rbytes r)"
  by (auto simp: orderly_def)

text \<open>A bound on the bytes a read action counts.\<close>

definition at_most :: "'a rd \<Rightarrow> nat \<Rightarrow> bool" where
  "at_most m k \<longleftrightarrow> (\<forall>r. fst (m r) \<le> k)"

lemma at_most_lift: "at_most (rd_lift x) k"
  by (simp add: at_most_def)

lemma at_most_if: "at_most m k \<Longrightarrow> at_most m' k \<Longrightarrow> at_most (if P then m else m') k"
  by simp

lemma at_most_bind:
  assumes m: "at_most m a" and le: "a \<le> k" and f: "\<And>x. at_most (f x) (k - a)"
  shows "at_most (rd_bind m f) k"
  unfolding at_most_def
proof
  fix r
  obtain n x s where first: "m r = (n, x, s)" by (cases "m r")
  then have n: "n \<le> a" using m unfolding at_most_def by (metis fst_conv)
  show "fst (rd_bind m f r) \<le> k"
  proof (cases x)
    case (Ok y)
    have "fst (f y s) \<le> k - a" using f unfolding at_most_def by blast
    with first n le Ok show ?thesis by (cases "f y s") (simp add: rd_bind_def)
  qed (use first n le in \<open>simp_all add: rd_bind_def\<close>)
qed

lemma at_most_ReadByte: "at_most ReadByte 1"
  by (simp add: at_most_def ReadByte_def split: list.split)

lemma at_most_ReadFull: "at_most (ReadFull k) k"
  by (simp add: at_most_def ReadFull_def)

section \<open>Writers\<close>

record writer =
  wout :: "u8 list"
  wroom :: "nat option"
  wfail :: go_error

type_synonym wr = "writer \<Rightarrow> nat \<times> unit res \<times> writer"

text \<open>\<^verbatim>\<open>Write\<close>, \<^verbatim>\<open>WriteByte\<close> and \<^verbatim>\<open>binary.Write\<close> of a fixed-size value: the callers count the bytes
  only when the call succeeds. A write past the room sends what fits and fails.\<close>

definition Write :: "u8 list \<Rightarrow> wr" where
  "Write bs w = (case wroom w of
       None \<Rightarrow> (length bs, Ok (), w\<lparr>wout := wout w @ bs\<rparr>)
     | Some k \<Rightarrow>
         if length bs \<le> k
         then (length bs, Ok (), w\<lparr>wout := wout w @ bs, wroom := Some (k - length bs)\<rparr>)
         else (0, Err (wfail w), w\<lparr>wout := wout w @ take k bs, wroom := Some 0\<rparr>))"

definition WriteByte :: "u8 \<Rightarrow> wr" where
  "WriteByte b = Write [b]"

definition wr_return :: "unit res \<Rightarrow> wr" where
  "wr_return x w = (0, x, w)"

definition wr_then :: "wr \<Rightarrow> wr \<Rightarrow> wr" where
  "wr_then m f w = (case m w of
       (n, Ok _, w') \<Rightarrow> (case f w' of (n', x, w'') \<Rightarrow> (n + n', x, w''))
     | (n, Err e, w') \<Rightarrow> (n, Err e, w')
     | (n, Panic, w') \<Rightarrow> (n, Panic, w'))"

text \<open>\<^verbatim>\<open>io.CopyN(w, buf, k)\<close> out of a buffer in memory: what was accepted is counted even on
  failure; a buffer with fewer than \<open>k\<close> bytes is copied whole and gives \<^verbatim>\<open>io.EOF\<close>. On a failed
  write the buffer has been drained of the bytes handed to the writer.\<close>

definition CopyN_to ::
    "nat \<Rightarrow> u8 list \<Rightarrow> writer \<Rightarrow> nat \<times> go_error option \<times> u8 list \<times> writer" where
  "CopyN_to k buf w = (case Write (take k buf) w of
       (n, Ok _, w') \<Rightarrow> (n, if length buf < k then Some EOF else None, drop k buf, w')
     | (n, Err e, w') \<Rightarrow> (length (wout w') - length (wout w), Some e, drop k buf, w')
     | (n, Panic, w') \<Rightarrow> (n, None, drop k buf, w'))"

subsection \<open>Laws\<close>

text \<open>\<open>emits m bs\<close>: the action hands exactly \<open>bs\<close> to the writer, in one or more writes, and
  succeeds with the count \<open>length bs\<close> when they all fit.\<close>

definition emits :: "wr \<Rightarrow> u8 list \<Rightarrow> bool" where
  "emits m bs \<longleftrightarrow> (\<forall>w.
     (wroom w = None \<longrightarrow> m w = (length bs, Ok (), w\<lparr>wout := wout w @ bs\<rparr>)) \<and>
     (\<forall>k. wroom w = Some k \<and> length bs \<le> k \<longrightarrow>
        m w = (length bs, Ok (), w\<lparr>wout := wout w @ bs, wroom := Some (k - length bs)\<rparr>)) \<and>
     (\<forall>k. wroom w = Some k \<and> k < length bs \<longrightarrow>
        (\<exists>n. m w = (n, Err (wfail w), w\<lparr>wout := wout w @ take k bs, wroom := Some 0\<rparr>))))"

lemma emits_None:
  "emits m bs \<Longrightarrow> wroom w = None \<Longrightarrow> m w = (length bs, Ok (), w\<lparr>wout := wout w @ bs\<rparr>)"
  unfolding emits_def by blast

lemma emits_fits:
  "emits m bs \<Longrightarrow> wroom w = Some k \<Longrightarrow> length bs \<le> k \<Longrightarrow>
     m w = (length bs, Ok (), w\<lparr>wout := wout w @ bs, wroom := Some (k - length bs)\<rparr>)"
  unfolding emits_def by blast

lemma emits_full:
  "emits m bs \<Longrightarrow> wroom w = Some k \<Longrightarrow> k < length bs \<Longrightarrow>
     \<exists>n. m w = (n, Err (wfail w), w\<lparr>wout := wout w @ take k bs, wroom := Some 0\<rparr>)"
  unfolding emits_def by blast

lemma emits_Write [intro]: "emits (Write bs) bs"
  by (simp add: emits_def Write_def)

lemma emits_WriteByte [intro]: "emits (WriteByte b) [b]"
  unfolding WriteByte_def by (rule emits_Write)

lemma emits_return [intro]: "emits (wr_return (Ok ())) []"
  by (simp add: emits_def wr_return_def)

lemma emits_then [intro]:
  assumes a: "emits a xs" and b: "emits b ys"
  shows "emits (wr_then a b) (xs @ ys)"
proof -
  have none: "wr_then a b w = (length (xs @ ys), Ok (), w\<lparr>wout := wout w @ xs @ ys\<rparr>)"
    if "wroom w = None" for w
    using that by (simp add: wr_then_def emits_None [OF a] emits_None [OF b])
  have fits: "wr_then a b w = (length (xs @ ys), Ok (),
       w\<lparr>wout := wout w @ xs @ ys, wroom := Some (k - length (xs @ ys))\<rparr>)"
    if "wroom w = Some k" "length (xs @ ys) \<le> k" for w k
    using that by (simp add: wr_then_def emits_fits [OF a] emits_fits [OF b])
  have full: "\<exists>n. wr_then a b w =
       (n, Err (wfail w), w\<lparr>wout := wout w @ take k (xs @ ys), wroom := Some 0\<rparr>)"
    if k: "wroom w = Some k" and big: "k < length (xs @ ys)" for w k
  proof (cases "length xs \<le> k")
    case True
    let ?w = "w\<lparr>wout := wout w @ xs, wroom := Some (k - length xs)\<rparr>"
    have "\<exists>n. b ?w = (n, Err (wfail ?w), ?w\<lparr>wout := wout ?w @ take (k - length xs) ys, wroom := Some 0\<rparr>)"
      using True big by (intro emits_full [OF b]) auto
    with emits_fits [OF a k True] show ?thesis using True by (auto simp: wr_then_def)
  next
    case False
    with emits_full [OF a k] show ?thesis by (auto simp: wr_then_def)
  qed
  from none fits full show ?thesis unfolding emits_def by blast
qed

lemma emits_WriteByte_then [intro]: "emits f ys \<Longrightarrow> emits (wr_then (WriteByte x) f) (x # ys)"
  using emits_then [OF emits_WriteByte] by simp

lemma CopyN_to_fits [io_simps]:
  "wroom w = None \<Longrightarrow> k \<le> length buf \<Longrightarrow>
     CopyN_to k buf w = (k, None, drop k buf, w\<lparr>wout := wout w @ take k buf\<rparr>)"
  by (simp add: CopyN_to_def Write_def)

end
