(* ===== verification/Rtmp_Message.thy ===== *)
theory Rtmp_Message
  imports Go_Prelude
begin

text \<open>
  The constants of \<^verbatim>\<open>src/defines.go\<close> that the chunk layer uses and the message record of
  \<^verbatim>\<open>src/message.go\<close>.
\<close>

section \<open>Constants\<close>

definition HEADER_FMT_FULL :: u8 where [simp]: "HEADER_FMT_FULL = 0"
definition HEADER_FMT_SAME_STREAM :: u8 where [simp]: "HEADER_FMT_SAME_STREAM = 1"
definition HEADER_FMT_SAME_LENGTH_AND_STREAM :: u8 where
  [simp]: "HEADER_FMT_SAME_LENGTH_AND_STREAM = 2"
definition HEADER_FMT_CONTINUATION :: u8 where [simp]: "HEADER_FMT_CONTINUATION = 3"

definition CS_ID_BASE :: u32 where [simp]: "CS_ID_BASE = 2"
definition CS_ID_PROTOCOL_CONTROL :: u32 where [simp]: "CS_ID_PROTOCOL_CONTROL = 2"
definition CS_ID_COMMAND :: u32 where [simp]: "CS_ID_COMMAND = 3"
definition CS_ID_USER_CONTROL :: u32 where [simp]: "CS_ID_USER_CONTROL = 4"
definition CS_ID_MAX :: u32 where [simp]: "CS_ID_MAX = 100"

definition SET_CHUNK_SIZE :: u8 where [simp]: "SET_CHUNK_SIZE = 1"
definition ABORT_MESSAGE :: u8 where [simp]: "ABORT_MESSAGE = 2"
definition ACKNOWLEDGEMENT :: u8 where [simp]: "ACKNOWLEDGEMENT = 3"
definition USER_CONTROL_MESSAGE :: u8 where [simp]: "USER_CONTROL_MESSAGE = 4"
definition WINDOW_ACKNOWLEDGEMENT_SIZE :: u8 where [simp]: "WINDOW_ACKNOWLEDGEMENT_SIZE = 5"
definition SET_PEER_BANDWIDTH :: u8 where [simp]: "SET_PEER_BANDWIDTH = 6"
definition AUDIO_TYPE :: u8 where [simp]: "AUDIO_TYPE = 8"
definition VIDEO_TYPE :: u8 where [simp]: "VIDEO_TYPE = 9"
definition DATA_AMF0 :: u8 where [simp]: "DATA_AMF0 = 18"
definition COMMAND_AMF0 :: u8 where [simp]: "COMMAND_AMF0 = 20"
definition COMMAND_AMF3 :: u8 where [simp]: "COMMAND_AMF3 = 17"

text \<open>The types the package names and gives no meaning to: messages of these types are handed on.\<close>

definition AGGREGATE_MESSAGE_TYPE :: u8 where "AGGREGATE_MESSAGE_TYPE = 22"
definition SHARED_OBJECT_AMF0 :: u8 where "SHARED_OBJECT_AMF0 = 19"
definition SHARED_OBJECT_AMF3 :: u8 where "SHARED_OBJECT_AMF3 = 16"
definition DATA_AMF3 :: u8 where "DATA_AMF3 = 15"

lemma message_types_distinct:
  "distinct [SET_CHUNK_SIZE, ABORT_MESSAGE, ACKNOWLEDGEMENT, USER_CONTROL_MESSAGE, WINDOW_ACKNOWLEDGEMENT_SIZE,
     SET_PEER_BANDWIDTH, AUDIO_TYPE, VIDEO_TYPE, AGGREGATE_MESSAGE_TYPE, SHARED_OBJECT_AMF0, SHARED_OBJECT_AMF3,
     DATA_AMF0, DATA_AMF3, COMMAND_AMF0, COMMAND_AMF3]"
  by (simp add: AGGREGATE_MESSAGE_TYPE_def SHARED_OBJECT_AMF0_def SHARED_OBJECT_AMF3_def DATA_AMF3_def)

definition DEFAULT_CHUNK_SIZE :: u32 where [simp]: "DEFAULT_CHUNK_SIZE = 128"
definition DEFAULT_WINDOW_SIZE :: u32 where [simp]: "DEFAULT_WINDOW_SIZE = 1048576"

section \<open>Messages\<close>

text \<open>\<open>mBuf\<close> is the unread part of the message's \<^verbatim>\<open>bytes.Buffer\<close>, \<open>None\<close> the nil pointer.\<close>

record message =
  mChunkStreamID :: u32
  mTimestamp :: u32
  mSize :: u32
  mType :: u8
  mStreamID :: u32
  mBuf :: "u8 list option"
  mIsInbound :: bool
  mAbsoluteTimestamp :: u32

text \<open>\<open>data\<close> is \<open>None\<close> for a nil slice: the buffer then stays empty and the size zero, as for an
  empty slice.\<close>

definition NewMessage :: "u32 \<Rightarrow> u8 \<Rightarrow> u32 \<Rightarrow> u32 \<Rightarrow> u8 list option \<Rightarrow> message" where
  "NewMessage csi t sid ts data =
     (let message = \<lparr>mChunkStreamID = csi, mTimestamp = ts, mSize = 0, mType = t, mStreamID = sid,
                     mBuf = Some [], mIsInbound = False, mAbsoluteTimestamp = ts\<rparr>
      in case data of
           None \<Rightarrow> message
         | Some bs \<Rightarrow> message\<lparr>mBuf := Some ([] @ bs), mSize := word_of_nat (length bs)\<rparr>)"

text \<open>The length of the data that remains to be read into an inbound message.\<close>

definition Remain :: "message \<Rightarrow> u32" where
  "Remain message = (case mBuf message of
       None \<Rightarrow> mSize message
     | Some bs \<Rightarrow> mSize message - word_of_nat (length bs))"

lemma Remain_Some [simp]:
  "mBuf m = Some bs \<Longrightarrow> Remain m = mSize m - word_of_nat (length bs)"
  by (simp add: Remain_def)

lemma unat_Remain:
  assumes "mBuf m = Some bs" "length bs \<le> unat (mSize m)"
  shows "unat (Remain m) = unat (mSize m) - length bs"
proof -
  have "unat (mSize m) < 2 ^ LENGTH(32)" by (rule unsigned_less)
  then have "length bs < 2 ^ LENGTH(32)" using assms(2) by linarith
  then have u: "unat (word_of_nat (length bs) :: u32) = length bs"
    by (simp add: unat_of_nat_small)
  then have "(word_of_nat (length bs) :: u32) \<le> mSize m"
    using assms(2) by (simp add: word_le_nat_alt)
  then show ?thesis using assms(1) u by (simp add: unat_sub)
qed

lemma Remain_NewMessage:
  "Remain (NewMessage csi t sid ts data) = 0"
  by (simp add: NewMessage_def Remain_def Let_def split: option.split)

end
