(* ===== verification/Rtmp_Header.thy ===== *)
theory Rtmp_Header
  imports Go_IO Rtmp_Message
begin

text \<open>
  The chunk header of \<^verbatim>\<open>src/header.go\<close>: reading the basic header, reading the message header of a
  given format, writing a header. The reading functions return the byte count of the Go code;
  a partially filled header after an error is not returned, as no caller looks at it.
\<close>

section \<open>The header and its operations\<close>

record header =
  hFmt :: u8
  hChunkStreamID :: u32
  hTimestamp :: u32
  hMessageLength :: u32
  hMessageTypeID :: u8
  hMessageStreamID :: u32
  hExtendedTimestamp :: u32

definition zero_header :: header where
  "zero_header = \<lparr>hFmt = 0, hChunkStreamID = 0, hTimestamp = 0, hMessageLength = 0,
     hMessageTypeID = 0, hMessageStreamID = 0, hExtendedTimestamp = 0\<rparr>"

definition ReadBaseHeader :: "(u8 \<times> u32) rd" where
  "ReadBaseHeader = rd_bind ReadByte (\<lambda>b.
     let fmt = drop_bit 6 b; b = b AND 0x3f in
     if b = 0 then
       rd_bind ReadByte (\<lambda>b. rd_lift (Ok (fmt, 64 + ucast b)))
     else if b = 1 then
       rd_bind ReadByte (\<lambda>b.
         let csi = 64 + ucast b in
         rd_bind ReadByte (\<lambda>b. rd_lift (Ok (fmt, csi + ucast b * 256))))
     else rd_lift (Ok (fmt, ucast b)))"

text \<open>The 3-byte fields are read into \<^verbatim>\<open>tmpBuf[1:4]\<close>, whose first byte stays zero.\<close>

definition read24 :: "u32 rd" where
  "read24 = rd_bind (ReadFull 3) (\<lambda>bs. rd_lift (be24_get bs))"

definition read32_be :: "u32 rd" where
  "read32_be = rd_bind (ReadFull 4) (\<lambda>bs. rd_lift (BigEndian_Uint32 bs))"

definition read32_le :: "u32 rd" where
  "read32_le = rd_bind (ReadFull 4) (\<lambda>bs. rd_lift (LittleEndian_Uint32 bs))"

definition ReadMessageHeader :: "header \<Rightarrow> header rd" where
  "ReadMessageHeader h =
     (if hFmt h = HEADER_FMT_FULL then
        rd_bind read24 (\<lambda>ts. rd_bind read24 (\<lambda>len. rd_bind ReadByte (\<lambda>b. rd_bind read32_le (\<lambda>sid.
          rd_lift (Ok (h\<lparr>hTimestamp := ts, hMessageLength := len, hMessageTypeID := b,
                          hMessageStreamID := sid\<rparr>))))))
      else if hFmt h = HEADER_FMT_SAME_STREAM then
        rd_bind read24 (\<lambda>ts. rd_bind read24 (\<lambda>len. rd_bind ReadByte (\<lambda>b.
          rd_lift (Ok (h\<lparr>hTimestamp := ts, hMessageLength := len, hMessageTypeID := b\<rparr>)))))
      else if hFmt h = HEADER_FMT_SAME_LENGTH_AND_STREAM then
        rd_bind read24 (\<lambda>ts. rd_lift (Ok (h\<lparr>hTimestamp := ts\<rparr>)))
      else rd_lift (Ok h))"

definition has_extended :: "header \<Rightarrow> header option \<Rightarrow> bool" where
  "has_extended h lastheader \<longleftrightarrow>
     hFmt h \<noteq> HEADER_FMT_CONTINUATION \<and> hTimestamp h \<ge> 0xffffff \<or>
     hFmt h = HEADER_FMT_CONTINUATION \<and>
       (case lastheader of None \<Rightarrow> False | Some l \<Rightarrow> hExtendedTimestamp l > 0)"

definition ReadHeader :: "header \<Rightarrow> u8 \<Rightarrow> u32 \<Rightarrow> header option \<Rightarrow> header rd" where
  "ReadHeader h vfmt csi lastheader =
     rd_bind (ReadMessageHeader (h\<lparr>hFmt := vfmt, hChunkStreamID := csi\<rparr>)) (\<lambda>h.
       if has_extended h lastheader
       then rd_bind read32_be (\<lambda>x. rd_lift (Ok (h\<lparr>hExtendedTimestamp := x\<rparr>)))
       else rd_lift (Ok (h\<lparr>hExtendedTimestamp := 0\<rparr>)))"

definition write_basic :: "header \<Rightarrow> wr" where
  "write_basic h =
     (if hChunkStreamID h \<le> 63 then
        WriteByte (push_bit 6 (hFmt h) OR ucast (hChunkStreamID h))
      else if hChunkStreamID h \<le> 319 then
        wr_then (WriteByte (push_bit 6 (hFmt h))) (WriteByte (ucast (hChunkStreamID h - 64)))
      else if hChunkStreamID h \<le> 65599 then
        wr_then (WriteByte (push_bit 6 (hFmt h) OR 0x01))
          (Write (be16_put (ucast (hChunkStreamID h - 64))))
      else wr_return (Err (Errorf ''Unsupport chunk stream ID large then 65599'')))"

definition write_extended :: "header \<Rightarrow> wr" where
  "write_extended h =
     (if hTimestamp h \<ge> 0xffffff then Write (be32_put (hExtendedTimestamp h))
      else wr_return (Ok ()))"

text \<open>The continuation case returns before the extended timestamp is considered; a format above 3
  matches no case and falls through to it.\<close>

definition Header_Write :: "header \<Rightarrow> wr" where
  "Header_Write h = wr_then (write_basic h)
     (if hFmt h = HEADER_FMT_FULL then
        wr_then (Write (be24_put (hTimestamp h)))
          (wr_then (Write (be24_put (hMessageLength h)))
            (wr_then (WriteByte (hMessageTypeID h))
              (wr_then (Write (le32_put (hMessageStreamID h))) (write_extended h))))
      else if hFmt h = HEADER_FMT_SAME_STREAM then
        wr_then (Write (be24_put (hTimestamp h)))
          (wr_then (Write (be24_put (hMessageLength h)))
            (wr_then (WriteByte (hMessageTypeID h)) (write_extended h)))
      else if hFmt h = HEADER_FMT_SAME_LENGTH_AND_STREAM then
        wr_then (Write (be24_put (hTimestamp h))) (write_extended h)
      else if hFmt h = HEADER_FMT_CONTINUATION then wr_return (Ok ())
      else write_extended h)"

definition RealTimestamp :: "header \<Rightarrow> u32" where
  "RealTimestamp h = (if hTimestamp h \<ge> 0xffffff then hExtendedTimestamp h else hTimestamp h)"

section \<open>What a written header looks like\<close>

definition basic_bytes :: "header \<Rightarrow> u8 list" where
  "basic_bytes h =
     (if hChunkStreamID h \<le> 63 then [push_bit 6 (hFmt h) OR ucast (hChunkStreamID h)]
      else if hChunkStreamID h \<le> 319 then [push_bit 6 (hFmt h), ucast (hChunkStreamID h - 64)]
      else (push_bit 6 (hFmt h) OR 0x01) # be16_put (ucast (hChunkStreamID h - 64)))"

definition extended_bytes :: "header \<Rightarrow> u8 list" where
  "extended_bytes h = (if hTimestamp h \<ge> 0xffffff then be32_put (hExtendedTimestamp h) else [])"

definition message_header_bytes :: "header \<Rightarrow> u8 list" where
  "message_header_bytes h =
     (if hFmt h = 0 then be24_put (hTimestamp h) @ be24_put (hMessageLength h) @
        [hMessageTypeID h] @ le32_put (hMessageStreamID h) @ extended_bytes h
      else if hFmt h = 1 then be24_put (hTimestamp h) @ be24_put (hMessageLength h) @
        [hMessageTypeID h] @ extended_bytes h
      else if hFmt h = 2 then be24_put (hTimestamp h) @ extended_bytes h
      else if hFmt h = 3 then []
      else extended_bytes h)"

definition header_bytes :: "header \<Rightarrow> u8 list" where
  "header_bytes h = basic_bytes h @ message_header_bytes h"

lemma emits_write_basic: "hChunkStreamID h \<le> 65599 \<Longrightarrow> emits (write_basic h) (basic_bytes h)"
  using emits_then [OF emits_WriteByte emits_WriteByte]
    emits_then [OF emits_WriteByte emits_Write]
  by (auto simp: write_basic_def basic_bytes_def)

lemma emits_write_extended: "emits (write_extended h) (extended_bytes h)"
  by (auto simp: write_extended_def extended_bytes_def)

lemma emits_Header_Write [wire_simps]:
  assumes "hChunkStreamID h \<le> 65599"
  shows "emits (Header_Write h) (header_bytes h)"
  unfolding Header_Write_def header_bytes_def message_header_bytes_def
  by (intro emits_then emits_write_basic assms)
    (auto intro!: emits_then emits_write_extended)

lemma basic_bytes_nonempty [simp]: "basic_bytes h \<noteq> []"
  by (simp add: basic_bytes_def)

lemma header_bytes_nonempty [simp]: "header_bytes h \<noteq> []"
  by (simp add: header_bytes_def)

section \<open>Reading: well-behaved actions\<close>

lemma orderly_read24 [intro]: "orderly read24"
  unfolding read24_def
proof (rule orderly_ReadFull_bind)
  fix bs :: "u8 list"
  assume "length bs = 3"
  then obtain x where "be24_get bs = Ok x" using be24_get_total by blast
  then show "orderly (rd_lift (be24_get bs))" by auto
qed

lemma orderly_read32_be [intro]: "orderly read32_be"
  unfolding read32_be_def
  by (rule orderly_ReadFull_bind) (auto simp: BigEndian_Uint32_panics)

lemma orderly_read32_le [intro]: "orderly read32_le"
  unfolding read32_le_def
  by (rule orderly_ReadFull_bind) (auto simp: LittleEndian_Uint32_panics)

lemma orderly_ReadBaseHeader [intro]: "orderly ReadBaseHeader"
  unfolding ReadBaseHeader_def Let_def by (intro orderly_intros)

lemma orderly_ReadMessageHeader [intro]: "orderly (ReadMessageHeader h)"
  unfolding ReadMessageHeader_def
  by (intro orderly_intros orderly_read24 orderly_read32_le)

lemma orderly_ReadHeader [intro]: "orderly (ReadHeader h vfmt csi lastheader)"
  unfolding ReadHeader_def
  by (intro orderly_intros orderly_ReadMessageHeader orderly_read32_be)

text \<open>A successful read of a basic header takes at least one byte.\<close>

lemma ReadBaseHeader_Nil: "rbytes r = [] \<Longrightarrow> ReadBaseHeader r = (0, Err (rend r), r)"
  by (simp add: ReadBaseHeader_def rd_bind_def ReadByte_def)

lemma ReadBaseHeader_Cons:
  assumes "rbytes r = b # bs"
  shows "0 < fst (ReadBaseHeader r)"
  using assms
  by (auto simp: ReadBaseHeader_def rd_bind_def ReadByte_def Let_def split: list.splits)

lemma ReadBaseHeader_progress: "ReadBaseHeader r = (n, Ok x, r') \<Longrightarrow> 0 < n"
  using ReadBaseHeader_Nil ReadBaseHeader_Cons [of r] by (cases "rbytes r") auto

section \<open>Reading what was written\<close>

lemma read24_put [io_simps]:
  assumes "unat x < 2 ^ 24"
  shows "read24 \<lparr>rbytes = be24_put x @ rest, rend = e\<rparr> = (3, Ok x, \<lparr>rbytes = rest, rend = e\<rparr>)"
  using assms by (simp add: read24_def rd_bind_def ReadFull_append codec_get)

lemma read32_be_put [io_simps]:
  "read32_be \<lparr>rbytes = be32_put x @ rest, rend = e\<rparr> = (4, Ok x, \<lparr>rbytes = rest, rend = e\<rparr>)"
  by (simp add: read32_be_def rd_bind_def ReadFull_append codec_get)

lemma read32_le_put [io_simps]:
  "read32_le \<lparr>rbytes = le32_put x @ rest, rend = e\<rparr> = (4, Ok x, \<lparr>rbytes = rest, rend = e\<rparr>)"
  by (simp add: read32_le_def rd_bind_def ReadFull_append codec_get)

lemma fmt_byte_high:
  fixes f c :: u8
  assumes "unat f < 4" "unat c < 64"
  shows "drop_bit 6 (push_bit 6 f OR c) = f"
proof -
  have "drop_bit 6 (push_bit 6 f) = take_bit 2 f"
    by (rule bit_word_eqI) (auto simp: bit_simps)
  then show ?thesis using assms drop_bit_small [of c 6] take_bit_small [of f 2]
    by (simp add: drop_bit_or)
qed

lemma fmt_byte_low:
  fixes f c :: u8
  assumes "unat c < 64"
  shows "(push_bit 6 f OR c) AND 0x3f = c"
proof -
  have "(0x3f :: u8) = mask 6" by (simp add: mask_eq_exp_minus_1)
  moreover have "push_bit 6 f AND mask 6 = 0"
    by (rule bit_word_eqI) (auto simp: bit_simps)
  moreover have "c AND mask 6 = c"
    using assms take_bit_small [of c 6] by (simp flip: take_bit_eq_mask)
  ultimately show ?thesis by (simp add: bit.conj_disj_distrib2)
qed

text \<open>Up to 319, the chunk stream ids of the one- and two-byte forms, the basic header is read back
  as written. Ids 0 and 1 have no form of their own.\<close>

lemma ReadBaseHeader_written:
  assumes fmt: "unat (hFmt h) < 4" and csi: "2 \<le> hChunkStreamID h" "hChunkStreamID h \<le> 319"
  shows "ReadBaseHeader \<lparr>rbytes = basic_bytes h @ rest, rend = e\<rparr> =
     (length (basic_bytes h), Ok (hFmt h, hChunkStreamID h), \<lparr>rbytes = rest, rend = e\<rparr>)"
proof (cases "hChunkStreamID h \<le> 63")
  case True
  let ?c = "ucast (hChunkStreamID h) :: u8"
  have lt: "unat (hChunkStreamID h) < 64" using True by (simp add: word_le_nat_alt)
  then have u: "unat ?c = unat (hChunkStreamID h)" by (simp add: unat_ucast_narrow)
  then have c: "unat ?c < 64" using lt by simp
  have "?c \<noteq> 0" "?c \<noteq> 1"
    using u csi(1) by (auto simp: word_le_nat_alt simp del: unat_0 unat_1 dest!: arg_cong [of _ _ unat])
  moreover have widen: "ucast ?c = hChunkStreamID h" using lt by (simp add: ucast_u8_u32_roundtrip)
  moreover note c
  ultimately show ?thesis using True
    by (simp add: ReadBaseHeader_def rd_bind_def basic_bytes_def fmt_byte_high [OF fmt]
        fmt_byte_low Let_def del: drop_bit_or)
next
  case False
  let ?c = "hChunkStreamID h - 64"
  have "unat ?c = unat (hChunkStreamID h) - 64"
    using False by (simp add: unat_sub word_le_nat_alt)
  then have "unat ?c < 256" using csi by (simp add: word_le_nat_alt)
  then have "ucast (ucast ?c :: u8) = ?c" by (rule ucast_u8_u32_roundtrip)
  moreover have "drop_bit 6 (push_bit 6 (hFmt h)) = hFmt h" "push_bit 6 (hFmt h) AND 0x3f = 0"
    using fmt_byte_high [OF fmt, of 0] fmt_byte_low [of 0 "hFmt h"] by simp_all
  ultimately show ?thesis using False csi
    by (simp add: ReadBaseHeader_def rd_bind_def basic_bytes_def Let_def)
qed

text \<open>The fields a header of each format carries; the others are read as zero.\<close>

definition on_wire :: "header \<Rightarrow> header" where
  "on_wire h = \<lparr>
     hFmt = hFmt h,
     hChunkStreamID = hChunkStreamID h,
     hTimestamp = (if hFmt h = 3 then 0 else hTimestamp h),
     hMessageLength = (if hFmt h = 0 \<or> hFmt h = 1 then hMessageLength h else 0),
     hMessageTypeID = (if hFmt h = 0 \<or> hFmt h = 1 then hMessageTypeID h else 0),
     hMessageStreamID = (if hFmt h = 0 then hMessageStreamID h else 0),
     hExtendedTimestamp = (if hFmt h \<noteq> 3 \<and> hTimestamp h \<ge> 0xffffff then hExtendedTimestamp h else 0)\<rparr>"

definition fields_fit :: "header \<Rightarrow> bool" where
  "fields_fit h \<longleftrightarrow> unat (hFmt h) < 4 \<and> unat (hTimestamp h) < 2 ^ 24 \<and> unat (hMessageLength h) < 2 ^ 24"

lemma fmt_cases:
  fixes f :: u8
  assumes "unat f < 4"
  obtains "f = 0" | "f = 1" | "f = 2" | "f = 3"
proof -
  have "f = word_of_nat (unat f)" by simp
  moreover have "unat f = 0 \<or> unat f = 1 \<or> unat f = 2 \<or> unat f = 3" using assms by arith
  ultimately show thesis using that by (elim disjE) simp_all
qed

lemma fmt_iff: "unat (f :: u8) < 4 \<longleftrightarrow> f = 0 \<or> f = 1 \<or> f = 2 \<or> f = 3"
  by (auto elim: fmt_cases)

lemma ReadHeader_written:
  assumes fit: "fields_fit h"
    and ext: "hFmt h = 3 \<Longrightarrow> \<forall>l. lastheader = Some l \<longrightarrow> hExtendedTimestamp l = 0"
  shows "ReadHeader zero_header (hFmt h) (hChunkStreamID h) lastheader
       \<lparr>rbytes = message_header_bytes h @ rest, rend = e\<rparr> =
     (length (message_header_bytes h), Ok (on_wire h), \<lparr>rbytes = rest, rend = e\<rparr>)"
proof -
  note wire = ReadHeader_def ReadMessageHeader_def rd_bind_def message_header_bytes_def on_wire_def
    has_extended_def zero_header_def extended_bytes_def io_simps
  from fit have ts: "unat (hTimestamp h) < 2 ^ 24" and len: "unat (hMessageLength h) < 2 ^ 24"
    and "unat (hFmt h) < 4"
    by (simp_all add: fields_fit_def)
  from this(3) show ?thesis
  proof (cases rule: fmt_cases)
    case 1
    then show ?thesis using ts len
      by (cases "hTimestamp h \<ge> 0xffffff")
        (simp_all add: wire read32_be_put [of _ "[]", simplified])
  next
    case 2
    then show ?thesis using ts len
      by (cases "hTimestamp h \<ge> 0xffffff") (simp_all add: wire)
  next
    case 3
    then show ?thesis using ts
      by (cases "hTimestamp h \<ge> 0xffffff") (simp_all add: wire)
  next
    case 4
    with ext show ?thesis by (cases lastheader) (simp_all add: wire)
  qed
qed

section \<open>Properties\<close>

text \<open>The two reads one after the other, as \<^verbatim>\<open>readChunk\<close> makes them.\<close>

definition read_header :: "header option \<Rightarrow> header rd" where
  "read_header lastheader =
     rd_bind ReadBaseHeader (\<lambda>(vfmt, csi). ReadHeader zero_header vfmt csi lastheader)"

text \<open>C26. A header of any format, on a chunk stream id of the one- or two-byte form (2 to 319), with a
  timestamp and a length that fit three bytes, is read back as the fields its format carries; the
  count of bytes is the same on both sides and nothing after the header is touched. For a
  continuation the last header must not have an extended timestamp.\<close>

theorem header_roundtrip:
  assumes "fields_fit h" and "2 \<le> hChunkStreamID h" and "hChunkStreamID h \<le> 319"
    and "hFmt h = 3 \<Longrightarrow> \<forall>l. lastheader = Some l \<longrightarrow> hExtendedTimestamp l = 0"
    and "wroom w = None"
  shows "\<exists>n bs. Header_Write h w = (n, Ok (), w\<lparr>wout := wout w @ bs\<rparr>) \<and> n = length bs \<and>
     read_header lastheader \<lparr>rbytes = bs @ rest, rend = e\<rparr> =
       (n, Ok (on_wire h), \<lparr>rbytes = rest, rend = e\<rparr>)"
proof -
  have "hChunkStreamID h \<le> 65599" using assms(3) by (simp add: word_le_nat_alt)
  note out = emits_None [OF emits_Header_Write [OF this] assms(5)]
  have fmt: "unat (hFmt h) < 4" using assms(1) by (simp add: fields_fit_def)
  show ?thesis
    using out ReadHeader_written [OF assms(1) assms(4)]
    by (intro exI [of _ "length (header_bytes h)"] exI [of _ "header_bytes h"])
      (simp add: read_header_def rd_bind_def header_bytes_def ReadBaseHeader_written [OF fmt assms(2,3)])
qed

theorem header_roundtrip_witness:
  "\<exists>n bs. Header_Write \<lparr>hFmt = 0, hChunkStreamID = 100, hTimestamp = 0xffffff, hMessageLength = 2,
       hMessageTypeID = 3, hMessageStreamID = 4, hExtendedTimestamp = 0x10000000\<rparr>
       \<lparr>wout = [], wroom = None, wfail = EOF\<rparr> = (n, Ok (), \<lparr>wout = bs, wroom = None, wfail = EOF\<rparr>) \<and>
     n = length bs \<and>
     read_header None \<lparr>rbytes = bs @ [9], rend = EOF\<rparr> =
       (n, Ok \<lparr>hFmt = 0, hChunkStreamID = 100, hTimestamp = 0xffffff, hMessageLength = 2,
          hMessageTypeID = 3, hMessageStreamID = 4, hExtendedTimestamp = 0x10000000\<rparr>,
        \<lparr>rbytes = [9], rend = EOF\<rparr>)"
  using header_roundtrip [of "\<lparr>hFmt = 0, hChunkStreamID = 100, hTimestamp = 0xffffff,
       hMessageLength = 2, hMessageTypeID = 3, hMessageStreamID = 4, hExtendedTimestamp = 0x10000000\<rparr>"
       None "\<lparr>wout = [], wroom = None, wfail = EOF\<rparr>" "[9]" EOF]
  by (simp add: fields_fit_def on_wire_def)

text \<open>The three-byte form does not round-trip: \<^verbatim>\<open>Write\<close> sends the id minus 64 in big-endian order and
  \<^verbatim>\<open>ReadBaseHeader\<close> reads it in little-endian order, so the peer sees the id with the two bytes of its
  offset exchanged; the id is right exactly when these bytes are equal.\<close>

theorem three_byte_id_swapped:
  assumes "unat (hFmt h) < 4" and "319 < hChunkStreamID h" and "hChunkStreamID h \<le> 65599"
    and "wroom w = None"
  defines "off \<equiv> unat (hChunkStreamID h) - 64"
  shows "\<exists>csi. write_basic h w = (3, Ok (), w\<lparr>wout := wout w @ basic_bytes h\<rparr>) \<and>
     ReadBaseHeader \<lparr>rbytes = basic_bytes h @ rest, rend = e\<rparr> =
       (3, Ok (hFmt h, csi), \<lparr>rbytes = rest, rend = e\<rparr>) \<and>
     unat csi = 64 + off div 256 + 256 * (off mod 256) \<and>
     (csi = hChunkStreamID h \<longleftrightarrow> off div 256 = off mod 256)"
proof -
  let ?c = "hChunkStreamID h - 64"
  let ?x = "ucast ?c :: u16"
  let ?hi = "ucast (drop_bit 8 ?x) :: u8" and ?lo = "ucast ?x :: u8"
  have u: "unat ?c = off" and off: "off < 65536"
    using assms(2,3) by (simp_all add: off_def unat_sub word_le_nat_alt word_less_nat_alt)
  have x: "unat ?x = off" using u off by (simp add: unat_ucast_narrow)
  have "unat (drop_bit 8 ?x) = off div 256"
    by (simp only: unat_drop_bit_eq x drop_bit_nat_def) simp
  then have hi: "unat ?hi = off div 256" using off by (simp add: unat_ucast_narrow)
  have "unat ?lo = take_bit LENGTH(8) (unat ?x)" by (rule unsigned_ucast_eq)
  then have lo: "unat ?lo = off mod 256" by (simp only: x take_bit_nat_def) simp
  let ?csi = "64 + ucast ?hi + ucast ?lo * 256 :: u32"
  have "off div 256 < 256" "off mod 256 < 256" using off by auto
  then have csi: "unat ?csi = 64 + off div 256 + 256 * (off mod 256)"
    by (simp add: unat_word_ariths hi lo)
  have bytes: "basic_bytes h = [push_bit 6 (hFmt h) OR 1, ?hi, ?lo]"
    using assms(2) by (auto simp: basic_bytes_def be16_put_def word_le_nat_alt word_less_nat_alt)
  have fmt: "drop_bit 6 (push_bit 6 (hFmt h) OR 1) = hFmt h" "(push_bit 6 (hFmt h) OR 1) AND 0x3f = 1"
    using fmt_byte_high [OF assms(1), of 1] fmt_byte_low [of 1 "hFmt h"] by simp_all
  have sent: "write_basic h w = (3, Ok (), w\<lparr>wout := wout w @ basic_bytes h\<rparr>)"
    using emits_None [OF emits_write_basic [OF assms(3)] assms(4)] bytes by simp
  moreover have read: "ReadBaseHeader \<lparr>rbytes = basic_bytes h @ rest, rend = e\<rparr> =
      (3, Ok (hFmt h, ?csi), \<lparr>rbytes = rest, rend = e\<rparr>)"
    using fmt by (simp add: bytes ReadBaseHeader_def rd_bind_def Let_def del: drop_bit_or)
  moreover have "?csi = hChunkStreamID h \<longleftrightarrow> off div 256 = off mod 256"
  proof -
    have "?csi = hChunkStreamID h \<longleftrightarrow> 64 + off div 256 + 256 * (off mod 256) = off + 64"
      using csi assms(2) by (simp add: word_unat_eq_iff off_def word_less_nat_alt)
    also have "\<dots> \<longleftrightarrow> off div 256 = off mod 256"
      using mult_div_mod_eq [of 256 off] by linarith
    finally show ?thesis .
  qed
  ultimately show ?thesis using csi by blast
qed

theorem three_byte_id_swapped_witness:
  "\<exists>csi. unat csi = 65 \<and>
     ReadBaseHeader \<lparr>rbytes = basic_bytes (zero_header\<lparr>hChunkStreamID := 320\<rparr>) @ [], rend = EOF\<rparr> =
       (3, Ok (0, csi), \<lparr>rbytes = [], rend = EOF\<rparr>) \<and> csi \<noteq> 320"
  using three_byte_id_swapped [of "zero_header\<lparr>hChunkStreamID := 320\<rparr>"
      "\<lparr>wout = [], wroom = None, wfail = EOF\<rparr>" "[]" EOF]
  by (auto simp: zero_header_def)

text \<open>C40. Extended timestamps on continuations: \<^verbatim>\<open>Write\<close> never sends one, but after a header with an
  extended timestamp \<^verbatim>\<open>ReadHeader\<close> expects one, and takes the next four bytes of payload for it.\<close>

theorem continuation_takes_payload:
  assumes "hFmt h = 3" and "2 \<le> hChunkStreamID h" and "hChunkStreamID h \<le> 319"
    and "hExtendedTimestamp l > 0" and "wroom w = None"
  shows "\<exists>n bs. Header_Write h w = (n, Ok (), w\<lparr>wout := wout w @ bs\<rparr>) \<and> n = length bs \<and>
     read_header (Some l) \<lparr>rbytes = bs @ b0 # b1 # b2 # b3 # rest, rend = e\<rparr> =
       (n + 4, Ok (zero_header\<lparr>hFmt := 3, hChunkStreamID := hChunkStreamID h,
          hExtendedTimestamp := be32_join b0 b1 b2 b3\<rparr>), \<lparr>rbytes = rest, rend = e\<rparr>)"
proof -
  have "hChunkStreamID h \<le> 65599" using assms(3) by (simp add: word_le_nat_alt)
  note out = emits_None [OF emits_Header_Write [OF this] assms(5)]
  have fmt: "unat (hFmt h) < 4" using assms(1) by simp
  have "ReadFull 4 \<lparr>rbytes = b0 # b1 # b2 # b3 # rest, rend = e\<rparr> =
      (4, Ok [b0, b1, b2, b3], \<lparr>rbytes = rest, rend = e\<rparr>)"
    using ReadFull_append [of "[b0, b1, b2, b3]" 4 rest e] by simp
  then show ?thesis
    using out assms(1,4) ReadBaseHeader_written [OF fmt assms(2,3)]
    by (intro exI [of _ "length (header_bytes h)"] exI [of _ "header_bytes h"])
      (simp add: read_header_def rd_bind_def header_bytes_def message_header_bytes_def
        ReadHeader_def ReadMessageHeader_def has_extended_def zero_header_def read32_be_def)
qed

theorem continuation_takes_payload_witness:
  "\<exists>n bs. Header_Write (zero_header\<lparr>hFmt := 3, hChunkStreamID := 5\<rparr>)
       \<lparr>wout = [], wroom = None, wfail = EOF\<rparr> = (n, Ok (), \<lparr>wout = bs, wroom = None, wfail = EOF\<rparr>) \<and>
     n = length bs \<and>
     read_header (Some (zero_header\<lparr>hExtendedTimestamp := 0x1000000\<rparr>))
         \<lparr>rbytes = bs @ [1, 2, 3, 4, 5], rend = EOF\<rparr> =
       (n + 4, Ok (zero_header\<lparr>hFmt := 3, hChunkStreamID := 5,
          hExtendedTimestamp := be32_join 1 2 3 4\<rparr>), \<lparr>rbytes = [5], rend = EOF\<rparr>)"
  using continuation_takes_payload [of "zero_header\<lparr>hFmt := 3, hChunkStreamID := 5\<rparr>"
      "zero_header\<lparr>hExtendedTimestamp := 0x1000000\<rparr>" "\<lparr>wout = [], wroom = None, wfail = EOF\<rparr>" 1 2 3 4 "[5]" EOF]
  by (simp add: zero_header_def)

lemma at_most_fields: "at_most read24 3" "at_most read32_be 4" "at_most read32_le 4"
  unfolding read24_def read32_be_def read32_le_def
  by (intro at_most_bind [OF at_most_ReadFull] at_most_lift order_refl)+

lemma at_most_ReadBaseHeader: "at_most ReadBaseHeader 3"
  unfolding ReadBaseHeader_def Let_def
  by (intro at_most_bind [OF at_most_ReadByte] at_most_if at_most_lift) simp_all

lemma at_most_ReadMessageHeader: "at_most (ReadMessageHeader h) 11"
  unfolding ReadMessageHeader_def
  by (intro at_most_bind [OF at_most_ReadByte] at_most_bind [OF at_most_fields(1)]
      at_most_bind [OF at_most_fields(3)] at_most_if at_most_lift) simp_all

lemma at_most_ReadHeader: "at_most (ReadHeader h vfmt csi l) 15"
  unfolding ReadHeader_def
  by (intro at_most_bind [OF at_most_ReadMessageHeader] at_most_bind [OF at_most_fields(2)]
      at_most_if at_most_lift) simp_all

lemma at_most_read_header: "at_most (read_header l) 18"
  unfolding read_header_def
  by (rule at_most_bind [OF at_most_ReadBaseHeader])
    (use at_most_ReadHeader in \<open>auto split: prod.split\<close>)

lemma orderly_read_header [intro]: "orderly (read_header l)"
  unfolding read_header_def by (rule orderly_bind) (auto split: prod.split)

lemma read_header_progress: "read_header l r = (n, Ok h, r') \<Longrightarrow> 1 \<le> n"
  by (auto simp: read_header_def rd_bind_def split: prod.splits res.splits
      dest!: ReadBaseHeader_progress)

text \<open>C38. Reading a header is safe on every input: it never panics, never gives bytes back, and when
  it succeeds it has consumed exactly the counted bytes, at least 1 and at most 18 of them.\<close>

theorem read_header_safe:
  "\<exists>n x r'. read_header lastheader r = (n, x, r') \<and> x \<noteq> Panic \<and> rend r' = rend r \<and>
     length (rbytes r') + n \<le> length (rbytes r) \<and>
     (case x of Ok h \<Rightarrow> 1 \<le> n \<and> n \<le> 18 \<and> rbytes r' = drop n (rbytes r) | _ \<Rightarrow> True)"
proof -
  obtain n x r' where run: "read_header lastheader r = (n, x, r')"
    by (cases "read_header lastheader r")
  have "n \<le> 18" using at_most_read_header [of lastheader] run unfolding at_most_def by (metis fst_conv)
  with run read_header_progress [of lastheader r n _ r'] orderly_read_header [of lastheader]
  show ?thesis by (auto simp: orderly_def split: res.split)
qed

end
