(* ===== verification/Chunk_Reader.thy ===== *)
theory Chunk_Reader
  imports Rtmp_Header
begin

text \<open>
  The chunk stream reader of \<^verbatim>\<open>src/chunkstreamreader.go\<close>: its state, \<^verbatim>\<open>readChunk\<close> with every early
  return, \<^verbatim>\<open>handleMessage\<close>, and the loop \<^verbatim>\<open>ReadFrom\<close>.

  The handler (\<^verbatim>\<open>OnMessage\<close>, \<^verbatim>\<open>OnWindowFull\<close>) cannot reach the reader's fields, so its calls are
  recorded in order in the state. The \<^verbatim>\<open>map[uint32]*inChunkStream\<close> is a map whose entries are the
  pointed-to structures; a structure is reachable only through its one entry.
\<close>

section \<open>State\<close>

record inChunkStream =
  ics_id :: u32
  ics_lastHeader :: "header option"
  ics_lastAbsoluteTimestamp :: u32
  ics_currentMessage :: "message option"

datatype csr_event = OnMessage message | OnWindowFull u32

record chunkStreamReader =
  csr_chunkSize :: u32
  csr_windowSize :: u32
  csr_chunkStreams :: "u32 \<rightharpoonup> inChunkStream"
  csr_events :: "csr_event list"

definition NewChunkStreamReader :: chunkStreamReader where
  "NewChunkStreamReader = \<lparr>csr_chunkSize = DEFAULT_CHUNK_SIZE, csr_windowSize = DEFAULT_WINDOW_SIZE,
     csr_chunkStreams = Map.empty, csr_events = []\<rparr>"

definition new_inChunkStream :: "u32 \<Rightarrow> inChunkStream" where
  "new_inChunkStream csi = \<lparr>ics_id = csi, ics_lastHeader = None, ics_lastAbsoluteTimestamp = 0,
     ics_currentMessage = None\<rparr>"

section \<open>Operations\<close>

text \<open>\<^verbatim>\<open>msg.Buf\<close> is never nil here, as \<^verbatim>\<open>readChunk\<close> makes every message it hands over; the model
  still has the panic of the dereference.\<close>

definition handleMessage :: "chunkStreamReader \<Rightarrow> message \<Rightarrow> chunkStreamReader res" where
  "handleMessage csr msg =
     res_bind
       (if mChunkStreamID msg = CS_ID_PROTOCOL_CONTROL then
          (if mType msg = SET_CHUNK_SIZE then
             (case mBuf msg of None \<Rightarrow> Panic | Some bs \<Rightarrow>
                res_bind (BigEndian_Uint32 bs) (\<lambda>x. Ok (csr\<lparr>csr_chunkSize := x\<rparr>)))
           else if mType msg = WINDOW_ACKNOWLEDGEMENT_SIZE then
             (case mBuf msg of None \<Rightarrow> Panic | Some bs \<Rightarrow>
                res_bind (BigEndian_Uint32 bs) (\<lambda>x. Ok (csr\<lparr>csr_windowSize := x\<rparr>)))
           else Ok csr)
        else Ok csr)
       (\<lambda>csr. Ok (csr\<lparr>csr_events := csr_events csr @ [OnMessage msg]\<rparr>))"

text \<open>The switch on the format: the completed header, the absolute timestamp and the unfinished
  message to continue, or \<^verbatim>\<open>ErrInvalidChunkHeader\<close> when the stream has no last header.\<close>

definition complete_header ::
    "inChunkStream \<Rightarrow> u8 \<Rightarrow> header \<Rightarrow> (header \<times> u32 \<times> message option) res" where
  "complete_header cs vfmt header =
     (if vfmt = HEADER_FMT_FULL then Ok (header, hTimestamp header, None)
      else if vfmt = HEADER_FMT_SAME_STREAM then
        (case ics_lastHeader cs of None \<Rightarrow> Err ErrInvalidChunkHeader | Some l \<Rightarrow>
           let header = header\<lparr>hMessageStreamID := hMessageStreamID l\<rparr>
           in Ok (header, ics_lastAbsoluteTimestamp cs + hTimestamp header, None))
      else if vfmt = HEADER_FMT_SAME_LENGTH_AND_STREAM then
        (case ics_lastHeader cs of None \<Rightarrow> Err ErrInvalidChunkHeader | Some l \<Rightarrow>
           let header = header\<lparr>hMessageStreamID := hMessageStreamID l,
                 hMessageLength := hMessageLength l, hMessageTypeID := hMessageTypeID l\<rparr>
           in Ok (header, ics_lastAbsoluteTimestamp cs + hTimestamp header, None))
      else if vfmt = HEADER_FMT_CONTINUATION then
        (case ics_lastHeader cs of None \<Rightarrow> Err ErrInvalidChunkHeader | Some l \<Rightarrow>
           let header = header\<lparr>hMessageStreamID := hMessageStreamID l,
                 hMessageLength := hMessageLength l, hMessageTypeID := hMessageTypeID l,
                 hTimestamp := hTimestamp l\<rparr>
           in Ok (header, ics_lastAbsoluteTimestamp cs, ics_currentMessage cs))
      else Ok (header, 0, None))"

definition new_inbound :: "u32 \<Rightarrow> header \<Rightarrow> u32 \<Rightarrow> message" where
  "new_inbound csi header absoluteTimestamp = \<lparr>
     mChunkStreamID = csi,
     mTimestamp = RealTimestamp header,
     mSize = hMessageLength header,
     mType = hMessageTypeID header,
     mStreamID = hMessageStreamID header,
     mBuf = Some [],
     mIsInbound = True,
     mAbsoluteTimestamp = absoluteTimestamp\<rparr>"

definition append_buf :: "message \<Rightarrow> u8 list \<Rightarrow> message" where
  "append_buf m bs = m\<lparr>mBuf := map_option (\<lambda>b. b @ bs) (mBuf m)\<rparr>"

text \<open>The part of \<^verbatim>\<open>readChunk\<close> after the header has been read and completed: \<open>cs\<close> is the chunk stream
  with its new last header, \<open>message\<close> the message this chunk belongs to, \<open>continued\<close> whether it
  is the unfinished one. A failed copy leaves the bytes in the message, which is then reachable
  only when it is the unfinished one. The case whose last header is nil returns before the map
  entry changes, but after it was created.\<close>

definition read_payload ::
    "chunkStreamReader \<Rightarrow> u32 \<Rightarrow> inChunkStream \<Rightarrow> message \<Rightarrow> bool \<Rightarrow> int \<Rightarrow> reader \<Rightarrow>
       (int \<times> go_error option \<times> chunkStreamReader \<times> reader) res" where
  "read_payload csr csi cs message continued inCount r =
     (let remain = Remain message;
          lastChunk = \<not> (remain > csr_chunkSize csr);
          remain = (if remain > csr_chunkSize csr then csr_chunkSize csr else remain);
          (bs, err, r) = CopyN_from (unat remain) r;
          message = append_buf message bs;
          inCount = inCount + int (length bs);
          store = (\<lambda>csr cs. csr\<lparr>csr_chunkStreams := (csr_chunkStreams csr)(csi \<mapsto> cs)\<rparr>)
      in case err of
           Some e \<Rightarrow> Ok (inCount, Some e,
             store csr (if continued then cs\<lparr>ics_currentMessage := Some message\<rparr> else cs), r)
         | None \<Rightarrow>
             if lastChunk
             then res_bind (handleMessage csr message) (\<lambda>csr.
                    Ok (inCount, None, store csr (cs\<lparr>ics_currentMessage := None\<rparr>), r))
             else Ok (inCount, None, store csr (cs\<lparr>ics_currentMessage := Some message\<rparr>), r))"

definition readChunk ::
    "chunkStreamReader \<Rightarrow> reader \<Rightarrow> (int \<times> go_error option \<times> chunkStreamReader \<times> reader) res" where
  "readChunk csr r = (case ReadBaseHeader r of
       (n, Panic, r) \<Rightarrow> Panic
     | (n, Err e, r) \<Rightarrow> Ok (int n, Some e, csr, r)
     | (n, Ok (vfmt, csi), r) \<Rightarrow>
         let inCount = int n;
             cs = (case csr_chunkStreams csr csi of None \<Rightarrow> new_inChunkStream csi | Some cs \<Rightarrow> cs);
             csr = csr\<lparr>csr_chunkStreams := (csr_chunkStreams csr)(csi \<mapsto> cs)\<rparr>
         in case ReadHeader zero_header vfmt csi (ics_lastHeader cs) r of
              (n, Panic, r) \<Rightarrow> Panic
            | (n, Err e, r) \<Rightarrow> Ok (inCount, Some e, csr, r)
            | (n, Ok header, r) \<Rightarrow>
                let inCount = inCount + int n
                in case complete_header cs vfmt header of
                     Panic \<Rightarrow> Panic
                   | Err e \<Rightarrow> Ok (inCount, Some e, csr, r)
                   | Ok (header, absoluteTimestamp, current) \<Rightarrow>
                       let message = (case current of
                             None \<Rightarrow> new_inbound csi header absoluteTimestamp
                           | Some m \<Rightarrow> m);
                           cs = cs\<lparr>ics_lastHeader := Some header,
                                   ics_lastAbsoluteTimestamp := absoluteTimestamp\<rparr>
                       in read_payload csr csi cs message (current \<noteq> None) inCount r)"

section \<open>Consumption of the stream\<close>

lemma CopyN_from_length:
  "CopyN_from k r = (bs, err, r') \<Longrightarrow>
     rbytes r = bs @ rbytes r' \<and> rend r' = rend r \<and> length bs \<le> k \<and> (err = None \<longleftrightarrow> length bs = k)"
  by (auto simp: CopyN_from_def split: if_splits)

lemma read_payload_length:
  "read_payload csr csi cs message continued c r = Ok (n, err, csr', r') \<Longrightarrow>
     length (rbytes r') \<le> length (rbytes r) \<and> rend r' = rend r \<and>
     n = c + int (length (rbytes r)) - int (length (rbytes r'))"
  by (auto simp: read_payload_def Let_def res_bind_eq_Ok dest!: CopyN_from_length
      split: prod.splits option.splits if_splits)

lemma read_payload_not_Err: "read_payload csr csi cs message continued c r \<noteq> Err e"
  by (auto simp: read_payload_def Let_def res_bind_cases handleMessage_def
      split: prod.splits option.splits res.splits)

lemma complete_header_not_Panic: "complete_header cs vfmt header \<noteq> Panic"
  by (auto simp: complete_header_def Let_def split: option.splits)

text \<open>The entry of a chunk stream, made on first use.\<close>

definition in_stream :: "chunkStreamReader \<Rightarrow> u32 \<Rightarrow> inChunkStream" where
  "in_stream csr csi =
     (case csr_chunkStreams csr csi of None \<Rightarrow> new_inChunkStream csi | Some cs \<Rightarrow> cs)"

lemma in_stream_Some [simp]: "csr_chunkStreams csr csi = Some cs \<Longrightarrow> in_stream csr csi = cs"
  by (simp add: in_stream_def)

definition touch :: "chunkStreamReader \<Rightarrow> u32 \<Rightarrow> chunkStreamReader" where
  "touch csr csi = csr\<lparr>csr_chunkStreams := (csr_chunkStreams csr)(csi \<mapsto> in_stream csr csi)\<rparr>"

text \<open>How a call of \<^verbatim>\<open>readChunk\<close> can go: it stops in one of the two headers, it stops on a header
  without a predecessor, or it reads the payload.\<close>

lemma readChunk_cases:
  assumes "readChunk csr r = x"
  obtains
    (base_error) n e r' where "ReadBaseHeader r = (n, Err e, r')" "x = Ok (int n, Some e, csr, r')"
  | (header_error) n vfmt csi r' k e r''
    where "ReadBaseHeader r = (n, Ok (vfmt, csi), r')"
      "ReadHeader zero_header vfmt csi (ics_lastHeader (in_stream csr csi)) r' = (k, Err e, r'')"
      "x = Ok (int n, Some e, touch csr csi, r'')"
  | (no_predecessor) n vfmt csi r' k h r''
    where "ReadBaseHeader r = (n, Ok (vfmt, csi), r')"
      "ReadHeader zero_header vfmt csi (ics_lastHeader (in_stream csr csi)) r' = (k, Ok h, r'')"
      "complete_header (in_stream csr csi) vfmt h = Err ErrInvalidChunkHeader"
      "x = Ok (int n + int k, Some ErrInvalidChunkHeader, touch csr csi, r'')"
  | (payload) n vfmt csi r' k h r'' header ts current
    where "ReadBaseHeader r = (n, Ok (vfmt, csi), r')"
      "ReadHeader zero_header vfmt csi (ics_lastHeader (in_stream csr csi)) r' = (k, Ok h, r'')"
      "complete_header (in_stream csr csi) vfmt h = Ok (header, ts, current)"
      "x = read_payload (touch csr csi) csi
         ((in_stream csr csi)\<lparr>ics_lastHeader := Some header, ics_lastAbsoluteTimestamp := ts\<rparr>)
         (case current of None \<Rightarrow> new_inbound csi header ts | Some m \<Rightarrow> m) (current \<noteq> None)
         (int n + int k) r''"
proof -
  obtain n y r' where base: "ReadBaseHeader r = (n, y, r')" by (cases "ReadBaseHeader r")
  show thesis
  proof (cases y)
    case (Err e)
    with base assms base_error show thesis by (simp add: readChunk_def)
  next
    case Panic
    with base orderly_no_panic [OF orderly_ReadBaseHeader base] show thesis by simp
  next
    case (Ok z)
    then obtain vfmt csi where y: "y = Ok (vfmt, csi)" by (cases z) auto
    note base = base [unfolded y]
    let ?cs = "in_stream csr csi"
    obtain k hr r'' where hdr: "ReadHeader zero_header vfmt csi (ics_lastHeader ?cs) r' = (k, hr, r'')"
      by (cases "ReadHeader zero_header vfmt csi (ics_lastHeader ?cs) r'")
    note run = assms [unfolded readChunk_def base, simplified, folded in_stream_def,
        unfolded Let_def hdr, folded touch_def, symmetric]
    show thesis
    proof (cases hr)
      case (Err e)
      show thesis
        by (rule header_error [OF base hdr [unfolded Err]]) (simp add: run Err)
    next
      case Panic
      with orderly_no_panic [OF orderly_ReadHeader hdr] show thesis by simp
    next
      case (Ok h)
      note hdr = hdr [unfolded Ok]
      show thesis
      proof (cases "complete_header ?cs vfmt h")
        case (Err e)
        then have e: "e = ErrInvalidChunkHeader"
          by (auto simp: complete_header_def Let_def split: if_splits option.splits)
        show thesis
          by (rule no_predecessor [OF base hdr]) (simp_all add: run Err \<open>hr = Ok h\<close> e)
      next
        case Panic
        with complete_header_not_Panic show thesis by blast
      next
        case (Ok t)
        obtain header ts current where t: "t = (header, ts, current)" by (cases t)
        show thesis
          by (rule payload [OF base hdr Ok [unfolded t]]) (simp add: run Ok t \<open>hr = Ok h\<close>)
      qed
    qed
  qed
qed

lemma readChunk_not_Err: "readChunk csr r \<noteq> Err e"
  by (rule readChunk_cases [OF refl, of r csr]) (auto simp: read_payload_not_Err)

text \<open>Every call that returns without an error has consumed at least the basic header.\<close>

lemma readChunk_progress:
  assumes "readChunk csr r = Ok (c, None, csr', r')"
  shows "length (rbytes r') < length (rbytes r)"
  using assms
proof (cases rule: readChunk_cases)
  case (payload n vfmt csi s k h s' header ts current)
  note orderly_length [OF orderly_ReadBaseHeader payload(1)]
    ReadBaseHeader_progress [OF payload(1)]
    orderly_length [OF orderly_ReadHeader payload(2)]
    read_payload_length [OF payload(4) [symmetric]]
  then show ?thesis by linarith
qed auto

text \<open>The count of a successful call is the number of bytes consumed.\<close>

lemma readChunk_count:
  assumes "readChunk csr r = Ok (c, None, csr', r')"
  shows "c = int (length (rbytes r)) - int (length (rbytes r'))"
  using assms
proof (cases rule: readChunk_cases)
  case (payload n vfmt csi s k h s' header ts current)
  from orderly_count [OF orderly_ReadBaseHeader payload(1)]
    orderly_count [OF orderly_ReadHeader payload(2)]
    read_payload_length [OF payload(4) [symmetric]]
  show ?thesis by linarith
qed auto

section \<open>The reading loop\<close>

text \<open>
  \<^verbatim>\<open>ReadFrom\<close> calls \<^verbatim>\<open>readChunk\<close> until it returns an error and reports a full window whenever the
  bytes read since the last report reach the window size. It returns only with an error, and it
  returns on every stream: each call that does not fail consumes a byte. The counters are
  \<^verbatim>\<open>int64\<close>; a stream of \<open>2^63\<close> bytes is outside the model.
\<close>

definition window_check :: "chunkStreamReader \<Rightarrow> int \<Rightarrow> int \<Rightarrow> chunkStreamReader \<times> int" where
  "window_check csr inBytes inBytesPreWindow =
     (if inBytes \<ge> inBytesPreWindow + uint (csr_windowSize csr)
      then (csr\<lparr>csr_events := csr_events csr @ [OnWindowFull (word_of_int inBytes)]\<rparr>, inBytes)
      else (csr, inBytesPreWindow))"

function ReadFrom_loop ::
    "chunkStreamReader \<Rightarrow> int \<Rightarrow> int \<Rightarrow> reader \<Rightarrow> (int \<times> go_error \<times> chunkStreamReader) res" where
  "ReadFrom_loop csr inBytes inBytesPreWindow r = (case readChunk csr r of
       Panic \<Rightarrow> Panic
     | Err e \<Rightarrow> Err e
     | Ok (n, err, csr', r') \<Rightarrow>
         (case err of
            Some e \<Rightarrow> Ok (inBytes + n, e, csr')
          | None \<Rightarrow> (case window_check csr' (inBytes + n) inBytesPreWindow of
              (csr'', pre) \<Rightarrow> ReadFrom_loop csr'' (inBytes + n) pre r')))"
  by pat_completeness auto
termination
  by (relation "measure (\<lambda>(csr, inBytes, pre, r). length (rbytes r))")
    (auto dest: readChunk_progress)

declare ReadFrom_loop.simps [simp del]

definition ReadFrom :: "chunkStreamReader \<Rightarrow> reader \<Rightarrow> (int \<times> go_error \<times> chunkStreamReader) res" where
  "ReadFrom csr r = ReadFrom_loop csr 0 0 r"

end
