(* ===== verification/Id_Allocator.thy ===== *)
theory Id_Allocator
  imports Go_Prelude
begin

text \<open>
  The interface of an allocator of 32-bit ids over a table: both \<^verbatim>\<open>CreateChunkStream\<close>
  (\<^verbatim>\<open>src/chunkstreamwriter.go\<close>) and \<^verbatim>\<open>allocateStream\<close> (\<^verbatim>\<open>src/conn.go\<close>) scan the ids in a fixed
  order and take the first one the table does not use. \<open>rank\<close> is the position of an id in the
  scan, \<open>ids\<close> the ids scanned.
\<close>

locale id_allocator =
  fixes alloc :: "(u32 \<rightharpoonup> 'a) \<Rightarrow> u32 option"
    and ids :: "u32 set"
    and rank :: "u32 \<Rightarrow> nat"
  assumes alloc_free: "alloc m = Some i \<Longrightarrow> i \<in> ids \<and> m i = None"
    and alloc_first: "alloc m = Some i \<Longrightarrow> j \<in> ids \<Longrightarrow> rank j < rank i \<Longrightarrow> m j \<noteq> None"
    and alloc_complete: "j \<in> ids \<Longrightarrow> m j = None \<Longrightarrow> \<exists>i. alloc m = Some i"
    and rank_inj: "inj_on rank ids"
begin

lemma alloc_None_iff: "alloc m = None \<longleftrightarrow> ids \<subseteq> dom m"
proof
  assume "alloc m = None"
  then show "ids \<subseteq> dom m" using alloc_complete [of _ m] by force
next
  assume all: "ids \<subseteq> dom m"
  show "alloc m = None"
  proof (cases "alloc m")
    case (Some i)
    with alloc_free [OF this] all show ?thesis by auto
  qed
qed

lemma alloc_keeps: "alloc m = Some i \<Longrightarrow> m \<subseteq>\<^sub>m m(i \<mapsto> x)"
  using alloc_free [of m i] by (auto simp: map_le_def)

lemma alloc_dom: "alloc m = Some i \<Longrightarrow> dom (m(i \<mapsto> x)) = insert i (dom m) \<and> i \<notin> dom m"
  using alloc_free [of m i] by auto

text \<open>The id found is the free one of least rank.\<close>

lemma alloc_eq_iff:
  "alloc m = Some i \<longleftrightarrow> i \<in> ids \<and> m i = None \<and> (\<forall>j\<in>ids. rank j < rank i \<longrightarrow> m j \<noteq> None)"
  (is "_ \<longleftrightarrow> ?least i")
proof
  assume "alloc m = Some i"
  with alloc_free alloc_first show "?least i" by blast
next
  assume i: "?least i"
  then obtain k where k: "alloc m = Some k" using alloc_complete by blast
  from alloc_free [OF this] i have "\<not> rank k < rank i" by blast
  moreover have "\<not> rank i < rank k" using alloc_first [OF k, of i] i by auto
  ultimately have "rank k = rank i" by simp
  with alloc_free [OF k] i rank_inj have "k = i" by (auto dest: inj_onD)
  with k show "alloc m = Some i" by simp
qed

text \<open>An id that is released is the next one found when it comes before every free id.\<close>

lemma alloc_reuse:
  assumes "alloc m = Some i" "j \<in> ids" "rank j < rank i"
  shows "alloc (m(j := None)) = Some j"
  using assms alloc_first [OF assms(1)] unfolding alloc_eq_iff by auto

end

end
