(* ===== verification/Chunk_Writer.thy ===== *)
theory Chunk_Writer
  imports Rtmp_Header Id_Allocator
begin

text \<open>
  The chunk stream writer of \<^verbatim>\<open>src/chunkstreamwriter.go\<close>: its state, the creation of chunk
  streams, the choice of a header format (\<^verbatim>\<open>newHeader\<close>), one chunk (\<^verbatim>\<open>writeChunk\<close>) and one message
  (\<^verbatim>\<open>writeMessage\<close>). The three priority queues are unbuffered channels: a chunk stream carries the
  name of the queue it was given.
\<close>

section \<open>State\<close>

datatype priority = HighPriority | MediumPriority | LowPriority

record outChunkStream =
  ocs_lastHeader :: "header option"
  ocs_lastAbsoluteTimestamp :: u32
  ocs_currentMessage :: "message option"
  ocs_messageQueue :: priority

record chunkStreamWriter =
  csw_chunkSize :: u32
  csw_windowSize :: u32
  csw_chunkStreams :: "u32 \<rightharpoonup> outChunkStream"
  csw_done :: bool

definition new_outChunkStream :: "priority \<Rightarrow> outChunkStream" where
  "new_outChunkStream p = \<lparr>ocs_lastHeader = None, ocs_lastAbsoluteTimestamp = 0,
     ocs_currentMessage = None, ocs_messageQueue = p\<rparr>"

definition NewChunkStreamWriter :: chunkStreamWriter where
  "NewChunkStreamWriter = \<lparr>
     csw_chunkSize = DEFAULT_CHUNK_SIZE,
     csw_windowSize = DEFAULT_WINDOW_SIZE,
     csw_chunkStreams = [CS_ID_PROTOCOL_CONTROL \<mapsto> new_outChunkStream HighPriority,
                         CS_ID_COMMAND \<mapsto> new_outChunkStream HighPriority,
                         CS_ID_USER_CONTROL \<mapsto> new_outChunkStream MediumPriority],
     csw_done = False\<rparr>"

section \<open>Creating chunk streams, closing\<close>

definition priority_of :: "int \<Rightarrow> priority option" where
  "priority_of p = (if p = 0 then Some HighPriority else if p = 1 then Some MediumPriority
     else if p = 2 then Some LowPriority else None)"

text \<open>The loop over the ids below \<^verbatim>\<open>CS_ID_MAX\<close>.\<close>

function find_free :: "(u32 \<rightharpoonup> 'a) \<Rightarrow> u32 \<Rightarrow> u32 option" where
  "find_free m i = (if i < CS_ID_MAX then (case m i of None \<Rightarrow> Some i | Some _ \<Rightarrow> find_free m (i + 1))
     else None)"
  by pat_completeness auto
termination
proof (relation "measure (\<lambda>(m, i). 100 - unat i)")
  fix m :: "u32 \<Rightarrow> 'a option" and i :: u32
  assume "i < CS_ID_MAX"
  then have "unat i < 100" by (simp add: word_less_nat_alt)
  moreover from this have "unat (i + 1) = unat i + 1" by (simp add: unat_word_ariths)
  ultimately show "((m, i + 1), m, i) \<in> measure (\<lambda>(m, i). 100 - unat i)" by simp
qed simp

declare find_free.simps [simp del]

lemma find_free_Some:
  "find_free m i = Some k \<Longrightarrow> i \<le> k \<and> k < CS_ID_MAX \<and> m k = None \<and> (\<forall>j. i \<le> j \<and> j < k \<longrightarrow> m j \<noteq> None)"
proof (induction m i rule: find_free.induct)
  case (1 m i)
  from "1.prems" have lt: "i < CS_ID_MAX" by (subst (asm) find_free.simps) (simp split: if_splits)
  show ?case
  proof (cases "m i")
    case None
    with "1.prems" lt have "k = i" by (subst (asm) find_free.simps) simp
    with lt None show ?thesis by auto
  next
    case (Some x)
    from "1.prems" lt Some have "find_free m (i + 1) = Some k"
      by (subst (asm) find_free.simps) simp
    from "1.IH" [OF lt Some this] have k: "i + 1 \<le> k" "k < CS_ID_MAX" "m k = None"
      "\<forall>j. i + 1 \<le> j \<and> j < k \<longrightarrow> m j \<noteq> None" by auto
    have next_id: "unat (i + 1) = unat i + 1" using lt by (simp add: unat_word_ariths word_less_nat_alt)
    have "i = j \<or> i + 1 \<le> j" if "i \<le> j" for j
      using that unfolding word_le_nat_alt next_id by (metis Suc_eq_plus1 Suc_leI le_neq_implies_less word_unat_eq_iff)
    with k next_id Some show ?thesis by (auto simp: word_le_nat_alt)
  qed
qed

lemma find_free_None: "find_free m i = None \<Longrightarrow> i \<le> j \<Longrightarrow> j < CS_ID_MAX \<Longrightarrow> m j \<noteq> None"
proof (induction m i rule: find_free.induct)
  case (1 m i)
  have lt: "i < CS_ID_MAX" using "1.prems" by simp
  with "1.prems"(1) obtain x where x: "m i = Some x"
    by (subst (asm) find_free.simps) (auto split: option.splits)
  with "1.prems"(1) lt have rest: "find_free m (i + 1) = None"
    by (subst (asm) find_free.simps) simp
  have next_id: "unat (i + 1) = unat i + 1" using lt by (simp add: unat_word_ariths word_less_nat_alt)
  show ?case
  proof (cases "i = j")
    case False
    then have "i + 1 \<le> j" using "1.prems"(2) unfolding word_le_nat_alt next_id
      by (metis Suc_eq_plus1 Suc_leI le_neq_implies_less word_unat_eq_iff)
    with "1.IH" [OF lt x rest] "1.prems" show ?thesis by simp
  qed (use x in simp)
qed

interpretation chunk_ids: id_allocator "\<lambda>m. find_free m CS_ID_BASE" "{i. CS_ID_BASE \<le> i \<and> i < CS_ID_MAX}" unat
proof
  fix m :: "u32 \<rightharpoonup> 'a" and i j :: u32
  show "find_free m CS_ID_BASE = Some i \<Longrightarrow> i \<in> {i. CS_ID_BASE \<le> i \<and> i < CS_ID_MAX} \<and> m i = None"
    using find_free_Some [of m CS_ID_BASE i] by auto
  show "m j \<noteq> None" if "find_free m CS_ID_BASE = Some i" "j \<in> {i. CS_ID_BASE \<le> i \<and> i < CS_ID_MAX}" "unat j < unat i"
    using find_free_Some [OF that(1)] that(2,3) by (auto simp: word_less_nat_alt)
  show "\<exists>i. find_free m CS_ID_BASE = Some i" if "j \<in> {i. CS_ID_BASE \<le> i \<and> i < CS_ID_MAX}" "m j = None"
    using find_free_None [of m CS_ID_BASE j] that by (cases "find_free m CS_ID_BASE") auto
  show "inj_on unat {i :: u32. CS_ID_BASE \<le> i \<and> i < CS_ID_MAX}"
    by (rule inj_onI) (simp only: word_unat_eq_iff)
qed

definition CreateChunkStream :: "chunkStreamWriter \<Rightarrow> int \<Rightarrow> u32 res \<times> chunkStreamWriter" where
  "CreateChunkStream csw p = (case priority_of p of
       None \<Rightarrow> (Err ErrInvalidPriority, csw)
     | Some queue \<Rightarrow> (case find_free (csw_chunkStreams csw) CS_ID_BASE of
           Some i \<Rightarrow> (Ok i, csw\<lparr>csw_chunkStreams := (csw_chunkStreams csw)(i \<mapsto> new_outChunkStream queue)\<rparr>)
         | None \<Rightarrow> (Err ErrMaxChunkStreams, csw)))"

definition Close :: "chunkStreamWriter \<Rightarrow> chunkStreamWriter" where
  "Close csw = csw\<lparr>csw_done := True\<rparr>"

section \<open>The header of a new message\<close>

definition base_header :: "message \<Rightarrow> header" where
  "base_header msg = zero_header\<lparr>hChunkStreamID := mChunkStreamID msg, hMessageLength := mSize msg,
     hMessageTypeID := mType msg, hMessageStreamID := mStreamID msg\<rparr>"

text \<open>The format and the timestamp field, given the last header (already dropped when the timestamp
  did not advance) and the timestamp delta.\<close>

definition choose_format :: "header option \<Rightarrow> u32 \<Rightarrow> u32 \<Rightarrow> header \<Rightarrow> header" where
  "choose_format lastHeader timestamp deltaTimestamp header = (case lastHeader of
       None \<Rightarrow> header\<lparr>hFmt := HEADER_FMT_FULL, hTimestamp := timestamp\<rparr>
     | Some l \<Rightarrow>
         if hMessageStreamID header = hMessageStreamID l then
           if hMessageTypeID header = hMessageTypeID l \<and> hMessageLength header = hMessageLength l then
             (if hFmt l = HEADER_FMT_FULL then
                header\<lparr>hFmt := HEADER_FMT_SAME_LENGTH_AND_STREAM, hTimestamp := deltaTimestamp\<rparr>
              else if hFmt l = HEADER_FMT_SAME_STREAM \<or> hFmt l = HEADER_FMT_SAME_LENGTH_AND_STREAM \<or>
                      hFmt l = HEADER_FMT_CONTINUATION then
                (if hTimestamp l = deltaTimestamp then header\<lparr>hFmt := HEADER_FMT_CONTINUATION\<rparr>
                 else header\<lparr>hFmt := HEADER_FMT_SAME_LENGTH_AND_STREAM, hTimestamp := deltaTimestamp\<rparr>)
              else header)
           else header\<lparr>hFmt := HEADER_FMT_SAME_STREAM, hTimestamp := deltaTimestamp\<rparr>
         else header\<lparr>hFmt := HEADER_FMT_FULL, hTimestamp := timestamp\<rparr>)"

definition set_extended :: "u32 \<Rightarrow> header \<Rightarrow> header" where
  "set_extended timestamp header =
     (if hTimestamp header \<ge> 0xffffff
      then header\<lparr>hExtendedTimestamp := timestamp, hTimestamp := 0xffffff\<rparr>
      else header\<lparr>hExtendedTimestamp := 0\<rparr>)"

definition newHeader :: "outChunkStream \<Rightarrow> (header \<times> outChunkStream) res" where
  "newHeader cs = (case ocs_currentMessage cs of None \<Rightarrow> Panic | Some msg \<Rightarrow>
     let timestamp = mTimestamp msg;
         advanced = ocs_lastAbsoluteTimestamp cs < timestamp;
         deltaTimestamp = (if advanced then timestamp - ocs_lastAbsoluteTimestamp cs else 0);
         lastHeader = (if advanced then ocs_lastHeader cs else None);
         header = set_extended timestamp
           (choose_format lastHeader timestamp deltaTimestamp (base_header msg))
     in Ok (header, cs\<lparr>ocs_lastHeader := Some header, ocs_lastAbsoluteTimestamp := timestamp\<rparr>))"

section \<open>Writing chunks and messages\<close>

definition continuation_header :: "u32 \<Rightarrow> header" where
  "continuation_header csi = zero_header\<lparr>hChunkStreamID := csi, hFmt := HEADER_FMT_CONTINUATION\<rparr>"

definition set_buf :: "outChunkStream \<Rightarrow> message \<Rightarrow> u8 list \<Rightarrow> outChunkStream" where
  "set_buf cs msg buf = cs\<lparr>ocs_currentMessage := Some (msg\<lparr>mBuf := Some buf\<rparr>)\<rparr>"

text \<open>\<^verbatim>\<open>writeChunk\<close> returns the count, the error, the writer's chunk size, the chunk stream and the
  output. Its second half, once the header is out: the size announced by a \<^verbatim>\<open>SET_CHUNK_SIZE\<close>
  message is read before the payload is copied, from whatever is left in its buffer.\<close>

definition copy_payload ::
    "u32 \<Rightarrow> outChunkStream \<Rightarrow> message \<Rightarrow> u8 list \<Rightarrow> int \<Rightarrow> writer \<Rightarrow>
       (int \<times> go_error option \<times> u32 \<times> outChunkStream \<times> writer) res" where
  "copy_payload chunkSize cs msg buf count w =
     (let remain = (word_of_nat (length buf) :: u32);
          remain = (if remain > chunkSize then chunkSize else remain)
      in res_bind (if mType msg = SET_CHUNK_SIZE then BigEndian_Uint32 buf else Ok 0)
           (\<lambda>tmpChunkSize. case CopyN_to (unat remain) buf w of
              (n64, Some e, buf, w) \<Rightarrow>
                Ok (count + int n64, Some e, chunkSize, set_buf cs msg buf, w)
            | (n64, None, buf, w) \<Rightarrow>
                Ok (count + int n64, None, if tmpChunkSize \<noteq> 0 then tmpChunkSize else chunkSize,
                    set_buf cs msg buf, w)))"

definition writeChunk ::
    "u32 \<Rightarrow> outChunkStream \<Rightarrow> writer \<Rightarrow>
       (int \<times> go_error option \<times> u32 \<times> outChunkStream \<times> writer) res" where
  "writeChunk chunkSize cs w = (case ocs_currentMessage cs of None \<Rightarrow> Panic | Some msg \<Rightarrow>
     (case mBuf msg of None \<Rightarrow> Panic | Some buf \<Rightarrow>
       res_bind
         (if word_of_nat (length buf) \<noteq> mSize msg
          then Ok (continuation_header (mChunkStreamID msg), cs)
          else newHeader cs)
         (\<lambda>(header, cs). case Header_Write header w of
            (n, Panic, w) \<Rightarrow> Panic
          | (n, Err e, w) \<Rightarrow> Ok (int n, Some e, chunkSize, cs, w)
          | (n, Ok _, w) \<Rightarrow> copy_payload chunkSize cs msg buf (int n) w)))"

text \<open>The loop of \<^verbatim>\<open>writeMessage\<close>; \<open>None\<close> is a loop that does not end.\<close>

partial_function (option) writeMessage_loop ::
    "u32 \<Rightarrow> outChunkStream \<Rightarrow> int \<Rightarrow> writer \<Rightarrow>
       (int \<times> go_error option \<times> u32 \<times> outChunkStream \<times> writer) res option" where
  "writeMessage_loop chunkSize cs written w = (case ocs_currentMessage cs of
       None \<Rightarrow> Some Panic
     | Some msg \<Rightarrow> (case mBuf msg of
           None \<Rightarrow> Some Panic
         | Some buf \<Rightarrow>
             if length buf > 0 then (case writeChunk chunkSize cs w of
                 Panic \<Rightarrow> Some Panic
               | Err e \<Rightarrow> Some (Err e)
               | Ok (n, Some e, chunkSize', cs', w') \<Rightarrow> Some (Ok (written + n, Some e, chunkSize', cs', w'))
               | Ok (n, None, chunkSize', cs', w') \<Rightarrow> writeMessage_loop chunkSize' cs' (written + n) w')
             else Some (Ok (written, None, chunkSize, cs, w))))"

definition writeMessage ::
    "u32 \<Rightarrow> message \<Rightarrow> outChunkStream \<Rightarrow> writer \<Rightarrow>
       (int \<times> go_error option \<times> u32 \<times> outChunkStream \<times> writer) res option" where
  "writeMessage chunkSize msg cs w =
     writeMessage_loop chunkSize (cs\<lparr>ocs_currentMessage := Some msg\<rparr>) 0 w"

text \<open>The unused \<^verbatim>\<open>checkSetChunkSize\<close>.\<close>

definition checkSetChunkSize :: "chunkStreamWriter \<Rightarrow> message \<Rightarrow> chunkStreamWriter res" where
  "checkSetChunkSize csw msg =
     (if mChunkStreamID msg = CS_ID_PROTOCOL_CONTROL \<and> mType msg = SET_CHUNK_SIZE then
        (case mBuf msg of None \<Rightarrow> Panic | Some bs \<Rightarrow>
           res_bind (BigEndian_Uint32 bs) (\<lambda>x. Ok (csw\<lparr>csw_chunkSize := x\<rparr>)))
      else Ok csw)"

section \<open>Serving one message\<close>

text \<open>
  The closure that \<^verbatim>\<open>Send\<close> hands to \<^verbatim>\<open>WriteTo\<close>: it writes the whole message on the chunk stream
  found by \<^verbatim>\<open>Send\<close>, gives the error to the sender and always returns \<open>(0, nil)\<close> to \<^verbatim>\<open>WriteTo\<close>.
  The first component is the error \<^verbatim>\<open>Send\<close> returns.
\<close>

definition store_stream :: "chunkStreamWriter \<Rightarrow> u32 \<Rightarrow> u32 \<Rightarrow> outChunkStream \<Rightarrow> chunkStreamWriter" where
  "store_stream csw csi chunkSize cs =
     csw\<lparr>csw_chunkSize := chunkSize, csw_chunkStreams := (csw_chunkStreams csw)(csi \<mapsto> cs)\<rparr>"

definition serve ::
    "chunkStreamWriter \<Rightarrow> message \<Rightarrow> writer \<Rightarrow>
       (go_error option \<times> chunkStreamWriter \<times> writer) res option" where
  "serve csw msg w = (case csw_chunkStreams csw (mChunkStreamID msg) of
       None \<Rightarrow> Some (Ok (Some ErrInvalidChunkStreamID, csw, w))
     | Some cs \<Rightarrow> (case writeMessage (csw_chunkSize csw) msg cs w of
           None \<Rightarrow> None
         | Some Panic \<Rightarrow> Some Panic
         | Some (Err e) \<Rightarrow> Some (Err e)
         | Some (Ok (_, err, chunkSize, cs, w)) \<Rightarrow>
             Some (Ok (err, store_stream csw (mChunkStreamID msg) chunkSize cs, w))))"

text \<open>The messages that \<^verbatim>\<open>WriteTo\<close> serves one after the other, with the errors their senders get.\<close>

fun serve_all ::
    "chunkStreamWriter \<Rightarrow> message list \<Rightarrow> writer \<Rightarrow>
       (go_error option list \<times> chunkStreamWriter \<times> writer) res option" where
  "serve_all csw [] w = Some (Ok ([], csw, w))"
| "serve_all csw (msg # msgs) w = (case serve csw msg w of
       None \<Rightarrow> None
     | Some Panic \<Rightarrow> Some Panic
     | Some (Err e) \<Rightarrow> Some (Err e)
     | Some (Ok (err, csw, w)) \<Rightarrow> (case serve_all csw msgs w of
           None \<Rightarrow> None
         | Some Panic \<Rightarrow> Some Panic
         | Some (Err e) \<Rightarrow> Some (Err e)
         | Some (Ok (errs, csw, w)) \<Rightarrow> Some (Ok (err # errs, csw, w))))"

section \<open>Facts about new headers\<close>

lemma base_header_fields [simp]:
  "hFmt (base_header m) = 0" "hTimestamp (base_header m) = 0"
  "hChunkStreamID (base_header m) = mChunkStreamID m" "hMessageLength (base_header m) = mSize m"
  "hMessageTypeID (base_header m) = mType m" "hMessageStreamID (base_header m) = mStreamID m"
  "hExtendedTimestamp (base_header m) = 0"
  by (simp_all add: base_header_def zero_header_def)

lemma choose_format_fields:
  "hChunkStreamID (choose_format l ts d h) = hChunkStreamID h"
  "hMessageLength (choose_format l ts d h) = hMessageLength h"
  "hMessageTypeID (choose_format l ts d h) = hMessageTypeID h"
  "hMessageStreamID (choose_format l ts d h) = hMessageStreamID h"
  by (simp_all add: choose_format_def split: option.split)

lemma set_extended_fields [simp]:
  "hFmt (set_extended ts h) = hFmt h" "hChunkStreamID (set_extended ts h) = hChunkStreamID h"
  "hMessageLength (set_extended ts h) = hMessageLength h"
  "hMessageTypeID (set_extended ts h) = hMessageTypeID h"
  "hMessageStreamID (set_extended ts h) = hMessageStreamID h"
  by (simp_all add: set_extended_def)

lemma set_extended_timestamp: "hTimestamp (set_extended ts h) \<le> 0xffffff"
  by (simp add: set_extended_def linorder_not_le less_imp_le)

lemma choose_format_Fmt: "hFmt h = 0 \<Longrightarrow> unat (hFmt (choose_format l ts d h)) < 4"
  by (simp add: choose_format_def split: option.split)

lemma newHeader_current:
  assumes "ocs_currentMessage cs = Some msg"
  obtains h where "newHeader cs = Ok (h, cs\<lparr>ocs_lastHeader := Some h, ocs_lastAbsoluteTimestamp := mTimestamp msg\<rparr>)"
    "hChunkStreamID h = mChunkStreamID msg" "hMessageLength h = mSize msg"
    "hMessageTypeID h = mType msg" "hMessageStreamID h = mStreamID msg"
    "unat (hFmt h) < 4" "hTimestamp h \<le> 0xffffff"
  using assms
  by (auto simp: newHeader_def Let_def choose_format_fields choose_format_Fmt set_extended_timestamp)

section \<open>Termination of the writing loop\<close>

lemma CopyN_to_drop: "CopyN_to k buf w = (n, err, buf', w') \<Longrightarrow> buf' = drop k buf"
  by (auto simp: CopyN_to_def split: prod.splits res.splits)

lemma copy_payload_result:
  assumes "copy_payload k cs msg buf c w = Ok (n, None, k', cs', w')"
  defines "r \<equiv> word_of_nat (length buf) :: u32"
  shows "cs' = set_buf cs msg (drop (unat (if r > k then k else r)) buf) \<and> (k \<noteq> 0 \<longrightarrow> k' \<noteq> 0)"
proof -
  obtain m err b v where copy: "CopyN_to (unat (if r > k then k else r)) buf w = (m, err, b, v)"
    by (cases "CopyN_to (unat (if r > k then k else r)) buf w")
  from assms copy CopyN_to_drop [OF copy] show ?thesis
    by (auto simp: copy_payload_def Let_def res_bind_eq_Ok split: option.splits if_splits)
qed

lemma writeChunk_progress:
  assumes run: "writeChunk k cs w = Ok (n, None, k', cs', w')"
    and cur: "ocs_currentMessage cs = Some msg" "mBuf msg = Some buf"
    and len: "0 < length buf" "length buf < 2 ^ 32" and k: "k \<noteq> 0"
  shows "k' \<noteq> 0 \<and> (\<exists>buf'. ocs_currentMessage cs' = Some (msg\<lparr>mBuf := Some buf'\<rparr>) \<and>
     length buf' < length buf)"
proof -
  let ?r = "word_of_nat (length buf) :: u32"
  let ?r' = "if ?r > k then k else ?r"
  have "unat ?r = length buf" using len(2) by (simp add: unat_of_nat_small)
  then have "?r \<noteq> 0" using len(1) by auto
  then have "0 < unat ?r'" using k by (simp add: unat_gt_0)
  then have shorter: "length (drop (unat ?r') buf) < length buf" using len(1) by simp
  from run cur obtain hdr cs1 where "(case Header_Write hdr w of
            (n, Panic, w) \<Rightarrow> Panic
          | (n, Err e, w) \<Rightarrow> Ok (int n, Some e, k, cs1, w)
          | (n, Ok _, w) \<Rightarrow> copy_payload k cs1 msg buf (int n) w) = Ok (n, None, k', cs', w')"
    by (auto simp: writeChunk_def res_bind_eq_Ok)
  then obtain c w1 where "copy_payload k cs1 msg buf c w1 = Ok (n, None, k', cs', w')"
    by (cases "Header_Write hdr w"; cases "fst (snd (Header_Write hdr w))") auto
  from copy_payload_result [OF this] shorter k show ?thesis by (auto simp: set_buf_def)
qed

lemma writeMessage_loop_terminates:
  assumes "ocs_currentMessage cs = Some msg" "mBuf msg = Some buf" "length buf < 2 ^ 32" "k \<noteq> 0"
  shows "\<exists>x. writeMessage_loop k cs n w = Some x"
  using assms
proof (induction "length buf" arbitrary: k cs msg buf n w rule: less_induct)
  case less
  show ?case
  proof (cases "buf = []")
    case True
    with less.prems show ?thesis by (subst writeMessage_loop.simps) simp
  next
    case False
    show ?thesis
    proof (cases "\<exists>c k' cs' w'. writeChunk k cs w = Ok (c, None, k', cs', w')")
      case True
      then obtain c k' cs' w' where run: "writeChunk k cs w = Ok (c, None, k', cs', w')" by blast
      from writeChunk_progress [OF run less.prems(1,2)] less.prems(3,4) False obtain buf' where
        "k' \<noteq> 0" and cur: "ocs_currentMessage cs' = Some (msg\<lparr>mBuf := Some buf'\<rparr>)"
        and shorter: "length buf' < length buf"
        by auto
      with less.prems(3) have "\<exists>x. writeMessage_loop k' cs' (n + c) w' = Some x"
        by (intro less.hyps [OF shorter cur]) auto
      with run False less.prems(1,2) show ?thesis by (subst writeMessage_loop.simps) simp
    next
      case stop: False
      with False less.prems(1,2) show ?thesis
        by (subst writeMessage_loop.simps) (auto split: res.split option.split prod.split)
    qed
  qed
qed

section \<open>What a message looks like on the wire\<close>

text \<open>A message is its header, up to a chunk size of payload, and then continuation headers each
  followed by up to a chunk size of payload.\<close>

function cont_wire :: "nat \<Rightarrow> u32 \<Rightarrow> u8 list \<Rightarrow> u8 list" where
  "cont_wire k csi bs = (if bs = [] \<or> k = 0 then []
     else header_bytes (continuation_header csi) @ take k bs @ cont_wire k csi (drop k bs))"
  by pat_completeness auto
termination
  by (relation "measure (\<lambda>(k, csi, bs). length bs)") auto

declare cont_wire.simps [simp del]

lemma cont_wire_Nil [simp]: "cont_wire k csi [] = []"
  by (simp add: cont_wire.simps)

definition message_wire :: "header \<Rightarrow> nat \<Rightarrow> u8 list \<Rightarrow> u8 list" where
  "message_wire h k buf =
     header_bytes h @ take k buf @ cont_wire k (hChunkStreamID h) (drop k buf)"

lemma chunk_length:
  assumes "length buf < 2 ^ 32"
  defines "r \<equiv> word_of_nat (length buf) :: u32"
  shows "unat (if r > k then k else r) = min (unat k) (length buf)"
proof -
  have "unat r = length buf" using assms by (simp add: unat_of_nat_small)
  then show ?thesis by (auto simp: word_less_nat_alt min_def)
qed

lemma copy_payload_unlimited:
  assumes "length buf < 2 ^ 32" "wroom w = None"
    and d: "(if mType msg = SET_CHUNK_SIZE then BigEndian_Uint32 buf else Ok 0) = Ok d"
  shows "copy_payload k cs msg buf c w = Ok (c + int (min (unat k) (length buf)), None,
     if d \<noteq> 0 then d else k, set_buf cs msg (drop (unat k) buf),
     w\<lparr>wout := wout w @ take (unat k) buf\<rparr>)"
proof -
  have "drop (min (unat k) (length buf)) buf = drop (unat k) buf"
    and "take (min (unat k) (length buf)) buf = take (unat k) buf"
    by (auto simp: min_def)
  then show ?thesis
    using CopyN_to_fits [OF assms(2), of "min (unat k) (length buf)" buf] d
    unfolding copy_payload_def Let_def chunk_length [OF assms(1)]
    by (simp split del: if_split)
qed

lemma writeChunk_unlimited:
  assumes cur: "ocs_currentMessage cs = Some msg" "mBuf msg = Some buf"
    and hdr: "(if word_of_nat (length buf) \<noteq> mSize msg
          then Ok (continuation_header (mChunkStreamID msg), cs) else newHeader cs) = Ok (h, cs')"
    and csi: "hChunkStreamID h \<le> 65599"
    and len: "length buf < 2 ^ 32" and room: "wroom w = None"
    and d: "(if mType msg = SET_CHUNK_SIZE then BigEndian_Uint32 buf else Ok 0) = Ok d"
  shows "writeChunk k cs w =
     Ok (int (length (header_bytes h)) + int (min (unat k) (length buf)), None,
         if d \<noteq> 0 then d else k, set_buf cs' msg (drop (unat k) buf),
         w\<lparr>wout := wout w @ header_bytes h @ take (unat k) buf\<rparr>)"
  using cur hdr copy_payload_unlimited [OF len _ d, of "w\<lparr>wout := wout w @ header_bytes h\<rparr>"]
  by (simp add: writeChunk_def emits_None [OF emits_Header_Write [OF csi] room] room
      split del: if_split)

lemma continuation_header_fields [simp]:
  "hFmt (continuation_header csi) = 3" "hChunkStreamID (continuation_header csi) = csi"
  "hTimestamp (continuation_header csi) = 0" "hMessageLength (continuation_header csi) = 0"
  by (simp_all add: continuation_header_def zero_header_def)

text \<open>The rest of a message, once its first chunk is out.\<close>

lemma writeMessage_loop_continuation:
  assumes "ocs_currentMessage cs = Some msg" "mBuf msg = Some buf"
    and "length buf < unat (mSize msg)" "mType msg \<noteq> SET_CHUNK_SIZE"
    and "mChunkStreamID msg \<le> 65599" "k \<noteq> 0" "wroom w = None"
  shows "writeMessage_loop k cs n w =
     Some (Ok (n + int (length (cont_wire (unat k) (mChunkStreamID msg) buf)), None, k,
       set_buf cs msg [], w\<lparr>wout := wout w @ cont_wire (unat k) (mChunkStreamID msg) buf\<rparr>))"
  using assms
proof (induction "length buf" arbitrary: cs msg buf n w rule: less_induct)
  case less
  have size: "unat (mSize msg) < 2 ^ LENGTH(32)" by (rule unsigned_less)
  then have len: "length buf < 2 ^ 32" using less.prems(3) by simp
  show ?case
  proof (cases "buf = []")
    case True
    with less.prems show ?thesis
      by (subst writeMessage_loop.simps) (simp add: set_buf_def)
  next
    case False
    have kpos: "0 < unat k" using less.prems(6) by (simp add: unat_gt_0)
    let ?h = "continuation_header (mChunkStreamID msg)"
    let ?buf = "drop (unat k) buf"
    let ?cs = "set_buf cs msg ?buf" and ?msg = "msg\<lparr>mBuf := Some ?buf\<rparr>"
    let ?w = "w\<lparr>wout := wout w @ header_bytes ?h @ take (unat k) buf\<rparr>"
    let ?n = "int (length (header_bytes ?h)) + int (min (unat k) (length buf))"
    have "(word_of_nat (length buf) :: u32) \<noteq> mSize msg"
      using less.prems(3) len by (metis unat_of_nat_small len_num1 len_bit0 less_irrefl
          size less_trans)
    then have chunk: "writeChunk k cs w = Ok (?n, None, k, ?cs, ?w)"
      using less.prems len writeChunk_unlimited [of cs msg buf ?h cs w 0 k] by simp
    have "writeMessage_loop k ?cs (n + ?n) ?w =
       Some (Ok (n + ?n + int (length (cont_wire (unat k) (mChunkStreamID ?msg) ?buf)), None, k,
         set_buf ?cs ?msg [], ?w\<lparr>wout := wout ?w @ cont_wire (unat k) (mChunkStreamID ?msg) ?buf\<rparr>))"
      using less.prems False kpos by (intro less.hyps) (auto simp: set_buf_def)
    then show ?thesis
      using chunk False less.prems kpos
      by (subst writeMessage_loop.simps) (simp add: cont_wire.simps [of _ _ buf] set_buf_def)
  qed
qed

lemma writeMessage_wire:
  assumes buf: "mBuf msg = Some buf" "buf \<noteq> []" "length buf = unat (mSize msg)"
    and csi: "mChunkStreamID msg \<le> 65599" and k: "k \<noteq> 0" and room: "wroom w = None"
    and hdr: "newHeader (cs\<lparr>ocs_currentMessage := Some msg\<rparr>) = Ok (h, cs')"
    and d: "(if mType msg = SET_CHUNK_SIZE then BigEndian_Uint32 buf else Ok 0) = Ok d"
    and whole: "mType msg = SET_CHUNK_SIZE \<Longrightarrow> length buf \<le> unat k"
  shows "writeMessage k msg cs w =
     Some (Ok (int (length (message_wire h (unat k) buf)), None, if d \<noteq> 0 then d else k,
       set_buf cs' msg [], w\<lparr>wout := wout w @ message_wire h (unat k) buf\<rparr>))"
proof -
  let ?cs = "cs\<lparr>ocs_currentMessage := Some msg\<rparr>"
  let ?h = "header_bytes h"
  let ?w = "w\<lparr>wout := wout w @ ?h @ take (unat k) buf\<rparr>"
  let ?buf = "drop (unat k) buf"
  let ?msg = "msg\<lparr>mBuf := Some ?buf\<rparr>"
  let ?n = "int (length ?h) + int (min (unat k) (length buf))"
  have size: "unat (mSize msg) < 2 ^ LENGTH(32)" by (rule unsigned_less)
  then have len: "length buf < 2 ^ 32" using buf(3) by simp
  have kpos: "0 < unat k" using k by (simp add: unat_gt_0)
  obtain h' where h': "newHeader ?cs = Ok (h', ?cs\<lparr>ocs_lastHeader := Some h', ocs_lastAbsoluteTimestamp := mTimestamp msg\<rparr>)"
    "hChunkStreamID h' = mChunkStreamID msg"
    by (rule newHeader_current [of ?cs msg]) auto
  with hdr have cs': "ocs_currentMessage cs' = Some msg" "hChunkStreamID h = mChunkStreamID msg"
    by auto
  have "(word_of_nat (length buf) :: u32) = mSize msg" using buf(3) by simp
  with buf hdr csi cs' len room d
  have chunk: "writeChunk k ?cs w = Ok (?n, None, if d \<noteq> 0 then d else k, set_buf cs' msg ?buf, ?w)"
    by (intro writeChunk_unlimited) auto
  have step: "writeMessage k msg cs w =
       writeMessage_loop (if d \<noteq> 0 then d else k) (set_buf cs' msg ?buf) (0 + ?n) ?w"
    unfolding writeMessage_def
    by (subst writeMessage_loop.simps) (simp add: buf(1,2) chunk)
  show ?thesis
  proof (cases "?buf = []")
    case True
    with step show ?thesis
      by (subst step, subst writeMessage_loop.simps)
        (auto simp: set_buf_def message_wire_def)
  next
    case False
    with whole have other: "mType msg \<noteq> SET_CHUNK_SIZE" by auto
    with d have "d = 0" by simp
    have "writeMessage_loop k (set_buf cs' msg ?buf) (0 + ?n) ?w =
       Some (Ok (0 + ?n + int (length (cont_wire (unat k) (mChunkStreamID ?msg) ?buf)), None, k,
         set_buf (set_buf cs' msg ?buf) ?msg [],
         ?w\<lparr>wout := wout ?w @ cont_wire (unat k) (mChunkStreamID ?msg) ?buf\<rparr>))"
      using False other csi k room buf(3) kpos
      by (intro writeMessage_loop_continuation) (auto simp: set_buf_def)
    then show ?thesis
      using step \<open>d = 0\<close> cs'(2) by (simp add: set_buf_def message_wire_def min_def)
  qed
qed

end
