(* ===== verification/Chunk_Roundtrip.thy ===== *)
theory Chunk_Roundtrip
  imports Chunk_Reader Chunk_Writer
begin

text \<open>
  The two halves of the chunk layer against each other: what \<^verbatim>\<open>writeMessage\<close> puts on the wire is
  what \<^verbatim>\<open>ReadFrom\<close> delivers to its handler. The relation \<open>in_sync\<close> ties the writer's view of a
  chunk stream to the reader's; serving a message keeps it on every chunk stream.
\<close>

section \<open>Progress of the reading loop\<close>

fun message_of :: "csr_event \<Rightarrow> message option" where
  "message_of (OnMessage m) = Some m"
| "message_of (OnWindowFull n) = None"

text \<open>The messages handed to the handler, in order.\<close>

definition delivered :: "chunkStreamReader \<Rightarrow> message list" where
  "delivered csr = List.map_filter message_of (csr_events csr)"

lemma delivered_append:
  "csr_events csr' = csr_events csr @ [OnMessage m] \<Longrightarrow> delivered csr' = delivered csr @ [m]"
  by (simp add: delivered_def List.map_filter_def)

text \<open>Properties of the reader that a window report does not change.\<close>

definition ignores_windows :: "(chunkStreamReader \<Rightarrow> bool) \<Rightarrow> bool" where
  "ignores_windows P \<longleftrightarrow>
     (\<forall>csr x. P csr \<longrightarrow> P (csr\<lparr>csr_events := csr_events csr @ [OnWindowFull x]\<rparr>))"

text \<open>The loop started on \<open>r\<close> gets, without an error, to \<open>r'\<close> in a state with property \<open>P\<close>.\<close>

definition advances ::
    "chunkStreamReader \<Rightarrow> reader \<Rightarrow> (chunkStreamReader \<Rightarrow> bool) \<Rightarrow> reader \<Rightarrow> bool" where
  "advances csr r P r' \<longleftrightarrow> (\<forall>a b. \<exists>csr' b'. P csr' \<and>
     ReadFrom_loop csr a b r =
       ReadFrom_loop csr' (a + int (length (rbytes r)) - int (length (rbytes r'))) b' r')"

lemma advances_refl: "P csr \<Longrightarrow> advances csr r P r"
  by (auto simp: advances_def)

lemma advances_chunk:
  assumes run: "readChunk csr r = Ok (n, None, csr', r')" and P: "P csr'" "ignores_windows P"
  shows "advances csr r P r'"
  unfolding advances_def
proof (intro allI)
  fix a b
  obtain csr2 b' where win: "window_check csr' (a + n) b = (csr2, b')"
    by (cases "window_check csr' (a + n) b")
  then have "P csr2"
    using P by (auto simp: window_check_def ignores_windows_def split: if_splits)
  moreover have n: "a + int (length (rbytes r)) - int (length (rbytes r')) = a + n"
    using readChunk_count [OF run] by simp
  have "ReadFrom_loop csr a b r =
      ReadFrom_loop csr2 (a + int (length (rbytes r)) - int (length (rbytes r'))) b' r'"
    unfolding n by (subst ReadFrom_loop.simps) (simp add: run win)
  ultimately show "\<exists>csr' b'. P csr' \<and> ReadFrom_loop csr a b r =
      ReadFrom_loop csr' (a + int (length (rbytes r)) - int (length (rbytes r'))) b' r'"
    by blast
qed

lemma advances_trans:
  assumes first: "advances csr r P r'" and next_step: "\<And>csr'. P csr' \<Longrightarrow> advances csr' r' Q r''"
  shows "advances csr r Q r''"
  unfolding advances_def
proof (intro allI)
  fix a b
  let ?a = "a + int (length (rbytes r)) - int (length (rbytes r'))"
  obtain csr' b' where "P csr'" and eq: "ReadFrom_loop csr a b r = ReadFrom_loop csr' ?a b' r'"
    using first unfolding advances_def by blast
  with next_step obtain csr'' b'' where "Q csr''" and "ReadFrom_loop csr' ?a b' r' =
      ReadFrom_loop csr'' (?a + int (length (rbytes r')) - int (length (rbytes r''))) b'' r''"
    unfolding advances_def by blast
  with eq show "\<exists>csr' b'. Q csr' \<and> ReadFrom_loop csr a b r =
      ReadFrom_loop csr' (a + int (length (rbytes r)) - int (length (rbytes r''))) b' r''"
    by (intro exI [of _ csr''] exI [of _ b'']) (simp add: algebra_simps)
qed

lemma advances_mono: "advances csr r P r' \<Longrightarrow> (\<And>csr'. P csr' \<Longrightarrow> Q csr') \<Longrightarrow> advances csr r Q r'"
  unfolding advances_def by blast

section \<open>One chunk\<close>

lemma readChunk_parsed:
  assumes csi: "2 \<le> hChunkStreamID h" "hChunkStreamID h \<le> 319" and fit: "fields_fit h"
    and ext: "hFmt h = 3 \<Longrightarrow>
      \<forall>l. ics_lastHeader (in_stream csr (hChunkStreamID h)) = Some l \<longrightarrow> hExtendedTimestamp l = 0"
    and complete: "complete_header (in_stream csr (hChunkStreamID h)) (hFmt h) (on_wire h) =
      Ok (header, ts, current)"
  shows "readChunk csr \<lparr>rbytes = header_bytes h @ rest, rend = e\<rparr> =
     read_payload
       (touch csr (hChunkStreamID h)) (hChunkStreamID h)
       ((in_stream csr (hChunkStreamID h))\<lparr>ics_lastHeader := Some header, ics_lastAbsoluteTimestamp := ts\<rparr>)
       (case current of None \<Rightarrow> new_inbound (hChunkStreamID h) header ts | Some m \<Rightarrow> m)
       (current \<noteq> None) (int (length (header_bytes h))) \<lparr>rbytes = rest, rend = e\<rparr>"
proof -
  have fmt: "unat (hFmt h) < 4" using fit by (simp add: fields_fit_def)
  show ?thesis
    using complete
    by (simp add: readChunk_def header_bytes_def ReadBaseHeader_written [OF fmt csi] Let_def
        ReadHeader_written [OF fit ext] touch_def flip: in_stream_def)
qed

text \<open>A message may be handed over: the control messages the reader looks into are long enough.\<close>

definition readable_control :: "message \<Rightarrow> bool" where
  "readable_control m \<longleftrightarrow>
     (mChunkStreamID m = 2 \<and> (mType m = SET_CHUNK_SIZE \<or> mType m = WINDOW_ACKNOWLEDGEMENT_SIZE) \<longrightarrow>
       (\<exists>bs. mBuf m = Some bs \<and> 4 \<le> length bs))"

definition chunk_size_after :: "u32 \<Rightarrow> message \<Rightarrow> u32" where
  "chunk_size_after k m =
     (if mChunkStreamID m = 2 \<and> mType m = SET_CHUNK_SIZE
      then (case BigEndian_Uint32 (the (mBuf m)) of Ok x \<Rightarrow> x | _ \<Rightarrow> k) else k)"

lemma handleMessage_readable:
  assumes "readable_control m"
  shows "\<exists>csr'. handleMessage csr m = Ok csr' \<and>
     csr_chunkSize csr' = chunk_size_after (csr_chunkSize csr) m \<and>
     csr_chunkStreams csr' = csr_chunkStreams csr \<and>
     csr_events csr' = csr_events csr @ [OnMessage m]"
  using assms BigEndian_Uint32_ok
  by (fastforce simp: handleMessage_def readable_control_def chunk_size_after_def)

lemma read_payload_last:
  assumes len: "length bs = unat (Remain m)" and le: "Remain m \<le> csr_chunkSize csr"
    and ready: "readable_control (append_buf m bs)"
  shows "\<exists>csr'. read_payload csr csi cs m b c \<lparr>rbytes = bs @ rest, rend = e\<rparr> =
       Ok (c + int (length bs), None, csr', \<lparr>rbytes = rest, rend = e\<rparr>) \<and>
     csr_chunkSize csr' = chunk_size_after (csr_chunkSize csr) (append_buf m bs) \<and>
     csr_chunkStreams csr' = (csr_chunkStreams csr)(csi \<mapsto> cs\<lparr>ics_currentMessage := None\<rparr>) \<and>
     csr_events csr' = csr_events csr @ [OnMessage (append_buf m bs)]"
proof -
  obtain csr' where h: "handleMessage csr (append_buf m bs) = Ok csr'"
    and rest: "csr_chunkSize csr' = chunk_size_after (csr_chunkSize csr) (append_buf m bs)"
      "csr_chunkStreams csr' = csr_chunkStreams csr"
      "csr_events csr' = csr_events csr @ [OnMessage (append_buf m bs)]"
    using handleMessage_readable [OF ready] by blast
  have "read_payload csr csi cs m b c \<lparr>rbytes = bs @ rest, rend = e\<rparr> =
      Ok (c + int (length bs), None,
        csr'\<lparr>csr_chunkStreams := (csr_chunkStreams csr')(csi \<mapsto> cs\<lparr>ics_currentMessage := None\<rparr>)\<rparr>,
        \<lparr>rbytes = rest, rend = e\<rparr>)"
    using le h leD [OF le] by (simp add: read_payload_def CopyN_from_append [OF len] Let_def)
  with rest show ?thesis by simp
qed

lemma read_payload_partial:
  assumes "length bs = unat (csr_chunkSize csr)" "csr_chunkSize csr < Remain m"
  shows "read_payload csr csi cs m b c \<lparr>rbytes = bs @ rest, rend = e\<rparr> =
       Ok (c + int (length bs), None,
         csr\<lparr>csr_chunkStreams := (csr_chunkStreams csr)
           (csi \<mapsto> cs\<lparr>ics_currentMessage := Some (append_buf m bs)\<rparr>)\<rparr>, \<lparr>rbytes = rest, rend = e\<rparr>)"
  using assms by (simp add: read_payload_def CopyN_from_append Let_def)

section \<open>The rest of a message\<close>

text \<open>The fields of a header that a continuation copies.\<close>

definition same_message_fields :: "header \<Rightarrow> header \<Rightarrow> bool" where
  "same_message_fields h h' \<longleftrightarrow> hMessageLength h = hMessageLength h' \<and>
     hMessageTypeID h = hMessageTypeID h' \<and> hMessageStreamID h = hMessageStreamID h'"

text \<open>After the message \<open>m\<close> arrived on chunk stream \<open>csi\<close>: the chunk size it asks for, its
  delivery, and a chunk stream with no unfinished message whose last header has the fields of \<open>l\<close>.\<close>

definition received ::
    "chunkStreamReader \<Rightarrow> u32 \<Rightarrow> message \<Rightarrow> header \<Rightarrow> chunkStreamReader \<Rightarrow> bool" where
  "received csr csi m l csr' \<longleftrightarrow>
     csr_chunkSize csr' = chunk_size_after (csr_chunkSize csr) m \<and>
     delivered csr' = delivered csr @ [m] \<and>
     (\<exists>i l'. csr_chunkStreams csr' = (csr_chunkStreams csr)(csi \<mapsto> i) \<and>
        ics_currentMessage i = None \<and> ics_lastHeader i = Some l' \<and>
        same_message_fields l' l \<and> hExtendedTimestamp l' = 0)"

lemma receivedI:
  assumes "csr_chunkSize csr' = chunk_size_after (csr_chunkSize csr) m"
    and "delivered csr' = delivered csr @ [m]"
    and "csr_chunkStreams csr' = (csr_chunkStreams csr)(csi \<mapsto> i)"
    and "ics_currentMessage i = None" "ics_lastHeader i = Some l'"
    and "same_message_fields l' l" "hExtendedTimestamp l' = 0"
  shows "received csr csi m l csr'"
  using assms unfolding received_def by blast

lemma delivered_window [simp]:
  "delivered (csr\<lparr>csr_events := csr_events csr @ [OnWindowFull x]\<rparr>) = delivered csr"
  by (simp add: delivered_def List.map_filter_def)

lemma ignores_windows_received [intro]: "ignores_windows (received csr csi m l)"
  by (auto simp: ignores_windows_def received_def)

text \<open>In the middle of \<open>m\<close>, whose last header is \<open>l\<close>.\<close>

definition receiving :: "chunkStreamReader \<Rightarrow> u32 \<Rightarrow> message \<Rightarrow> header \<Rightarrow> chunkStreamReader \<Rightarrow> bool" where
  "receiving csr csi m l csr' \<longleftrightarrow>
     csr_chunkSize csr' = csr_chunkSize csr \<and> delivered csr' = delivered csr \<and>
     (\<exists>i l'. csr_chunkStreams csr' = (csr_chunkStreams csr)(csi \<mapsto> i) \<and>
        ics_currentMessage i = Some m \<and> ics_lastHeader i = Some l' \<and>
        same_message_fields l' l \<and> hExtendedTimestamp l' = 0)"

lemma receivingI:
  assumes "csr_chunkSize csr' = csr_chunkSize csr" "delivered csr' = delivered csr"
    and "csr_chunkStreams csr' = (csr_chunkStreams csr)(csi \<mapsto> i)"
    and "ics_currentMessage i = Some m" "ics_lastHeader i = Some l'"
    and "same_message_fields l' l" "hExtendedTimestamp l' = 0"
  shows "receiving csr csi m l csr'"
  using assms unfolding receiving_def by blast

lemma ignores_windows_receiving [intro]: "ignores_windows (receiving csr csi m l)"
  by (auto simp: ignores_windows_def receiving_def)

lemma on_wire_continuation: "on_wire (continuation_header csi) = continuation_header csi"
  by (simp add: on_wire_def continuation_header_def zero_header_def)

lemma fields_fit_continuation [simp]: "fields_fit (continuation_header csi)"
  by (simp add: fields_fit_def)

text \<open>One continuation chunk of \<open>bs\<close>: the last one completes the message, any other leaves it
  unfinished.\<close>

lemma continuation_chunk:
  assumes csi: "2 \<le> csi" "csi \<le> 319" "mChunkStreamID m = csi"
    and i: "receiving csr0 csi m l csr" and m: "mBuf m = Some part"
    and bs: "length bs = min (unat (csr_chunkSize csr)) (unat (Remain m))"
    and ready: "unat (Remain m) \<le> unat (csr_chunkSize csr) \<Longrightarrow> readable_control (append_buf m bs)"
  shows "advances csr \<lparr>rbytes = header_bytes (continuation_header csi) @ bs @ rest, rend = e\<rparr>
     (if unat (Remain m) \<le> unat (csr_chunkSize csr) then received csr0 csi (append_buf m bs) l
      else receiving csr0 csi (append_buf m bs) l)
     \<lparr>rbytes = rest, rend = e\<rparr>"
proof -
  let ?h = "continuation_header csi"
  obtain ics l' where ics: "csr_chunkStreams csr = (csr_chunkStreams csr0)(csi \<mapsto> ics)"
    "ics_currentMessage ics = Some m" "ics_lastHeader ics = Some l'"
    "same_message_fields l' l" "hExtendedTimestamp l' = 0"
    and same: "csr_chunkSize csr = csr_chunkSize csr0" "delivered csr = delivered csr0"
    using i by (auto simp: receiving_def)
  have cs: "in_stream csr csi = ics" using ics(1) by simp
  define header where "header = ?h\<lparr>hMessageStreamID := hMessageStreamID l',
      hMessageLength := hMessageLength l', hMessageTypeID := hMessageTypeID l', hTimestamp := hTimestamp l'\<rparr>"
  have header: "same_message_fields header l" "hExtendedTimestamp header = 0"
    using ics(4) by (simp_all add: header_def same_message_fields_def continuation_header_def zero_header_def)
  have complete: "complete_header (in_stream csr csi) 3 ?h =
      Ok (header, ics_lastAbsoluteTimestamp ics, Some m)"
    using ics(2,3) by (simp add: complete_header_def cs header_def Let_def)
  let ?csr = "csr\<lparr>csr_chunkStreams := (csr_chunkStreams csr)(csi \<mapsto> in_stream csr csi)\<rparr>"
  let ?cs = "(in_stream csr csi)\<lparr>ics_lastHeader := Some header,
      ics_lastAbsoluteTimestamp := ics_lastAbsoluteTimestamp ics\<rparr>"
  let ?r = "\<lparr>rbytes = bs @ rest, rend = e\<rparr>"
  have run: "readChunk csr \<lparr>rbytes = header_bytes ?h @ bs @ rest, rend = e\<rparr> =
      read_payload ?csr csi ?cs m True (int (length (header_bytes ?h))) ?r"
    using readChunk_parsed [of ?h csr header "ics_lastAbsoluteTimestamp ics" "Some m" "bs @ rest" e]
      csi complete ics cs
    by (simp add: on_wire_continuation touch_def)
  show ?thesis
  proof (cases "unat (Remain m) \<le> unat (csr_chunkSize csr)")
    case True
    have "length bs = unat (Remain m)" using bs True by simp
    from read_payload_last [OF this, of ?csr csi ?cs True "int (length (header_bytes ?h))" rest e]
      True ready
    obtain csr' where payload: "read_payload ?csr csi ?cs m True (int (length (header_bytes ?h))) ?r =
        Ok (int (length (header_bytes ?h)) + int (length bs), None, csr', \<lparr>rbytes = rest, rend = e\<rparr>)"
      and post: "csr_chunkSize csr' = chunk_size_after (csr_chunkSize ?csr) (append_buf m bs)"
        "csr_chunkStreams csr' = (csr_chunkStreams ?csr)(csi \<mapsto> ?cs\<lparr>ics_currentMessage := None\<rparr>)"
        "csr_events csr' = csr_events ?csr @ [OnMessage (append_buf m bs)]"
      by (auto simp: word_le_nat_alt)
    have "received csr0 csi (append_buf m bs) l csr'"
      using post header ics same cs
      by (intro receivedI [where i = "?cs\<lparr>ics_currentMessage := None\<rparr>" and l' = header])
        (simp_all add: delivered_append [of csr' csr])
    moreover note run [unfolded payload]
    ultimately have "readChunk csr \<lparr>rbytes = header_bytes ?h @ bs @ rest, rend = e\<rparr> =
        Ok (int (length (header_bytes ?h)) + int (length bs), None, csr', \<lparr>rbytes = rest, rend = e\<rparr>)"
      "received csr0 csi (append_buf m bs) l csr'" by auto
    then show ?thesis using True by (auto intro: advances_chunk)
  next
    case False
    have "length bs = unat (csr_chunkSize ?csr)" using bs False by simp
    from read_payload_partial [OF this, of m csi ?cs True "int (length (header_bytes ?h))" rest e]
    have "readChunk csr \<lparr>rbytes = header_bytes ?h @ bs @ rest, rend = e\<rparr> =
        Ok (int (length (header_bytes ?h)) + int (length bs), None,
          ?csr\<lparr>csr_chunkStreams := (csr_chunkStreams ?csr)
           (csi \<mapsto> ?cs\<lparr>ics_currentMessage := Some (append_buf m bs)\<rparr>)\<rparr>, \<lparr>rbytes = rest, rend = e\<rparr>)"
      using False by (simp add: run word_less_nat_alt)
    moreover have "receiving csr0 csi (append_buf m bs) l
        (?csr\<lparr>csr_chunkStreams := (csr_chunkStreams ?csr)
           (csi \<mapsto> ?cs\<lparr>ics_currentMessage := Some (append_buf m bs)\<rparr>)\<rparr>)"
      using header ics same cs
      by (intro receivingI [where i = "?cs\<lparr>ics_currentMessage := Some (append_buf m bs)\<rparr>" and l' = header])
        (simp_all add: delivered_def)
    ultimately show ?thesis using False by (auto intro: advances_chunk)
  qed
qed

lemma append_buf_append: "append_buf (append_buf m a) b = append_buf m (a @ b)"
  by (cases "mBuf m") (simp_all add: append_buf_def)

lemma append_buf_fields [simp]:
  "mChunkStreamID (append_buf m b) = mChunkStreamID m" "mType (append_buf m b) = mType m"
  "mSize (append_buf m b) = mSize m" "mStreamID (append_buf m b) = mStreamID m"
  "mTimestamp (append_buf m b) = mTimestamp m"
  "mAbsoluteTimestamp (append_buf m b) = mAbsoluteTimestamp m"
  "mBuf m = Some part \<Longrightarrow> mBuf (append_buf m b) = Some (part @ b)"
  by (simp_all add: append_buf_def)

lemma receiving_chunkSize: "receiving csr0 csi m l csr \<Longrightarrow> csr_chunkSize csr = csr_chunkSize csr0"
  by (simp add: receiving_def)

lemma continuation_rest:
  assumes "2 \<le> csi" "csi \<le> 319" "mChunkStreamID m = csi"
    and "receiving csr0 csi m l csr" "mBuf m = Some part"
    and "length part + length buf = unat (mSize m)" "buf \<noteq> []"
    and "csr_chunkSize csr0 \<noteq> 0" "readable_control (append_buf m buf)"
  shows "advances csr \<lparr>rbytes = cont_wire (unat (csr_chunkSize csr0)) csi buf @ rest, rend = e\<rparr>
     (received csr0 csi (append_buf m buf) l) \<lparr>rbytes = rest, rend = e\<rparr>"
  using assms
proof (induction "length buf" arbitrary: csr m part buf rule: less_induct)
  case less
  let ?k = "unat (csr_chunkSize csr0)"
  let ?bs = "take ?k buf" and ?buf = "drop ?k buf"
  have kpos: "0 < ?k" using less.prems(8) by (simp add: unat_gt_0)
  have size: "csr_chunkSize csr = csr_chunkSize csr0" using less.prems(4) by (rule receiving_chunkSize)
  have remain: "unat (Remain m) = length buf"
    using less.prems(5,6) by (subst unat_Remain) auto
  have bs: "length ?bs = min (unat (csr_chunkSize csr)) (unat (Remain m))"
    by (simp add: size remain min.commute)
  have wire: "cont_wire ?k csi buf @ rest =
      header_bytes (continuation_header csi) @ ?bs @ cont_wire ?k csi ?buf @ rest"
    using less.prems(7) kpos by (subst cont_wire.simps) simp
  note chunk = continuation_chunk [OF less.prems(1-5) bs, of "cont_wire ?k csi ?buf @ rest" e]
  show ?case
  proof (cases "length buf \<le> ?k")
    case True
    then show ?thesis using chunk less.prems(9) unfolding wire by (simp add: remain size)
  next
    case False
    have "advances csr' \<lparr>rbytes = cont_wire ?k csi ?buf @ rest, rend = e\<rparr>
        (received csr0 csi (append_buf (append_buf m ?bs) ?buf) l) \<lparr>rbytes = rest, rend = e\<rparr>"
      if "receiving csr0 csi (append_buf m ?bs) l csr'" for csr'
      using that False less.prems kpos
      by (intro less.hyps [where part = "part @ ?bs"]) (auto simp: append_buf_append min_def)
    with chunk False show ?thesis
      unfolding wire by (auto simp: remain size append_buf_append elim!: advances_trans)
  qed
qed

section \<open>Writer and reader in step\<close>

text \<open>Between two messages, the reader has no unfinished message on the chunk stream and its last
  header has the fields of the writer's, so that a header that leaves them out is completed with
  the right ones; no extended timestamp is expected.\<close>

definition in_sync :: "outChunkStream \<Rightarrow> inChunkStream \<Rightarrow> bool" where
  "in_sync out i \<longleftrightarrow> ics_currentMessage i = None \<and>
     (case ocs_lastHeader out of None \<Rightarrow> (case ics_lastHeader i of None \<Rightarrow> True | Some l \<Rightarrow> hExtendedTimestamp l = 0)
      | Some h \<Rightarrow> (case ics_lastHeader i of None \<Rightarrow> False
          | Some l \<Rightarrow> same_message_fields l h \<and> hExtendedTimestamp l = 0 \<and> unat (hFmt h) < 4))"

definition in_step :: "chunkStreamWriter \<Rightarrow> chunkStreamReader \<Rightarrow> bool" where
  "in_step csw csr \<longleftrightarrow> csw_chunkSize csw = csr_chunkSize csr \<and> 4 \<le> unat (csw_chunkSize csw) \<and>
     dom (csr_chunkStreams csr) \<subseteq> dom (csw_chunkStreams csw) \<and>
     (\<forall>csi out. csw_chunkStreams csw csi = Some out \<longrightarrow> in_sync out (in_stream csr csi))"

text \<open>What the code asks of a message it can carry: a non-empty buffer of the announced size, a size
  and a timestamp that fit three bytes, a chunk stream id of the one- or two-byte form; a new chunk
  size goes over the control stream in four bytes and is at least four, a window size has its four
  bytes.\<close>

definition sendable :: "message \<Rightarrow> bool" where
  "sendable msg \<longleftrightarrow> (case mBuf msg of None \<Rightarrow> False | Some buf \<Rightarrow>
     buf \<noteq> [] \<and> length buf = unat (mSize msg) \<and> unat (mSize msg) < 2 ^ 24 \<and>
     mTimestamp msg < 0xffffff \<and> 2 \<le> mChunkStreamID msg \<and> mChunkStreamID msg \<le> 319 \<and>
     (mType msg = SET_CHUNK_SIZE \<longrightarrow> mChunkStreamID msg = 2 \<and> length buf = 4 \<and>
        (case BigEndian_Uint32 buf of Ok x \<Rightarrow> 4 \<le> unat x | _ \<Rightarrow> False)) \<and>
     (mType msg = WINDOW_ACKNOWLEDGEMENT_SIZE \<and> mChunkStreamID msg = 2 \<longrightarrow> 4 \<le> length buf))"

definition same_content :: "message \<Rightarrow> message \<Rightarrow> bool" where
  "same_content sent got \<longleftrightarrow> mChunkStreamID got = mChunkStreamID sent \<and> mType got = mType sent \<and>
     mStreamID got = mStreamID sent \<and> mSize got = mSize sent \<and> mBuf got = mBuf sent \<and> mIsInbound got"

lemma in_step_new: "in_step NewChunkStreamWriter NewChunkStreamReader"
  by (simp add: in_step_def NewChunkStreamWriter_def NewChunkStreamReader_def in_sync_def
      in_stream_def new_inChunkStream_def new_outChunkStream_def)

text \<open>The header chosen for a new message is completed by a reader in sync to the fields of the
  message; unless the format is a continuation, it also gives the message's absolute time.\<close>

lemma newHeader_completed:
  assumes sync: "in_sync out i" and ts: "mTimestamp msg < 0xffffff"
    and new: "newHeader (out\<lparr>ocs_currentMessage := Some msg\<rparr>) = Ok (h, out')"
  shows "hTimestamp h < 0xffffff \<and>
    (\<exists>header abs. complete_header i (hFmt h) (on_wire h) = Ok (header, abs, None) \<and>
      hMessageLength header = mSize msg \<and> hMessageTypeID header = mType msg \<and>
      hMessageStreamID header = mStreamID msg \<and> hExtendedTimestamp header = 0 \<and>
      (hFmt h \<noteq> 3 \<and> ics_lastAbsoluteTimestamp i = ocs_lastAbsoluteTimestamp out \<longrightarrow>
        abs = mTimestamp msg))"
proof -
  let ?adv = "ocs_lastAbsoluteTimestamp out < mTimestamp msg"
  let ?d = "mTimestamp msg - ocs_lastAbsoluteTimestamp out"
  define g where "g = choose_format (if ?adv then ocs_lastHeader out else None) (mTimestamp msg)
      (if ?adv then ?d else 0) (base_header msg)"
  have h: "h = set_extended (mTimestamp msg) g"
    using new by (auto simp: newHeader_def Let_def g_def)
  have d: "?adv \<Longrightarrow> ?d \<le> mTimestamp msg"
    by (meson less_imp_le word_sub_le)
  then have g: "hTimestamp g < 0xffffff"
    using ts by (auto simp: g_def choose_format_def split: option.splits dest: order.strict_trans1)
  then have small: "\<not> 0xffffff \<le> hTimestamp g" by (simp add: linorder_not_le)
  then have h: "h = g\<lparr>hExtendedTimestamp := 0\<rparr>" using h by (simp add: set_extended_def)
  show ?thesis
    using g small sync unfolding h
    by (auto simp: g_def choose_format_def complete_header_def on_wire_def Let_def in_sync_def
        same_message_fields_def fmt_iff split: option.splits if_splits)
qed

text \<open>The first chunk of a message, with header \<open>h\<close>.\<close>

lemma first_chunk:
  assumes csi: "2 \<le> hChunkStreamID h" "hChunkStreamID h \<le> 319" "hChunkStreamID h = csi"
    and fit: "fields_fit h"
    and ext: "\<forall>l. ics_lastHeader (in_stream csr csi) = Some l \<longrightarrow> hExtendedTimestamp l = 0"
    and complete: "complete_header (in_stream csr csi) (hFmt h) (on_wire h) = Ok (header, ts, None)"
    and header: "hMessageLength header = mSize msg" "hExtendedTimestamp header = 0"
    and bs: "length bs = min (unat (csr_chunkSize csr)) (unat (mSize msg))"
  defines "m \<equiv> new_inbound csi header ts"
  assumes ready: "unat (mSize msg) \<le> unat (csr_chunkSize csr) \<Longrightarrow> readable_control (append_buf m bs)"
  shows "advances csr \<lparr>rbytes = header_bytes h @ bs @ rest, rend = e\<rparr>
     (if unat (mSize msg) \<le> unat (csr_chunkSize csr) then received csr csi (append_buf m bs) header
      else receiving csr csi (append_buf m bs) header)
     \<lparr>rbytes = rest, rend = e\<rparr>"
proof -
  let ?csr = "csr\<lparr>csr_chunkStreams := (csr_chunkStreams csr)(csi \<mapsto> in_stream csr csi)\<rparr>"
  let ?cs = "(in_stream csr csi)\<lparr>ics_lastHeader := Some header, ics_lastAbsoluteTimestamp := ts\<rparr>"
  let ?n = "int (length (header_bytes h))"
  have remain: "Remain m = mSize msg" using header by (simp add: m_def new_inbound_def Remain_def)
  have run: "readChunk csr \<lparr>rbytes = header_bytes h @ bs @ rest, rend = e\<rparr> =
      read_payload ?csr csi ?cs m False ?n \<lparr>rbytes = bs @ rest, rend = e\<rparr>"
    using readChunk_parsed [of h csr header ts None "bs @ rest" e] csi fit ext complete
    by (simp add: m_def touch_def)
  show ?thesis
  proof (cases "unat (mSize msg) \<le> unat (csr_chunkSize csr)")
    case True
    have "length bs = unat (Remain m)" using bs True by (simp add: remain)
    from read_payload_last [OF this, of ?csr csi ?cs False ?n rest e] True ready
    obtain csr' where payload: "read_payload ?csr csi ?cs m False ?n \<lparr>rbytes = bs @ rest, rend = e\<rparr> =
        Ok (?n + int (length bs), None, csr', \<lparr>rbytes = rest, rend = e\<rparr>)"
      and post: "csr_chunkSize csr' = chunk_size_after (csr_chunkSize ?csr) (append_buf m bs)"
        "csr_chunkStreams csr' = (csr_chunkStreams ?csr)(csi \<mapsto> ?cs\<lparr>ics_currentMessage := None\<rparr>)"
        "csr_events csr' = csr_events ?csr @ [OnMessage (append_buf m bs)]"
      by (auto simp: word_le_nat_alt remain)
    have "received csr csi (append_buf m bs) header csr'"
      using post header
      by (intro receivedI [where i = "?cs\<lparr>ics_currentMessage := None\<rparr>" and l' = header])
        (simp_all add: delivered_append [of csr' csr] same_message_fields_def)
    with run [unfolded payload] show ?thesis using True by (auto intro: advances_chunk)
  next
    case False
    have "length bs = unat (csr_chunkSize ?csr)" using bs False by simp
    from read_payload_partial [OF this, of m csi ?cs False ?n rest e]
    have "readChunk csr \<lparr>rbytes = header_bytes h @ bs @ rest, rend = e\<rparr> =
        Ok (?n + int (length bs), None, ?csr\<lparr>csr_chunkStreams := (csr_chunkStreams ?csr)
           (csi \<mapsto> ?cs\<lparr>ics_currentMessage := Some (append_buf m bs)\<rparr>)\<rparr>, \<lparr>rbytes = rest, rend = e\<rparr>)"
      using False by (simp add: run remain word_less_nat_alt)
    moreover have "receiving csr csi (append_buf m bs) header
        (?csr\<lparr>csr_chunkStreams := (csr_chunkStreams ?csr)
           (csi \<mapsto> ?cs\<lparr>ics_currentMessage := Some (append_buf m bs)\<rparr>)\<rparr>)"
      using header
      by (intro receivingI [where i = "?cs\<lparr>ics_currentMessage := Some (append_buf m bs)\<rparr>" and l' = header])
        (simp_all add: delivered_def same_message_fields_def)
    ultimately show ?thesis using False by (auto intro: advances_chunk)
  qed
qed

text \<open>A whole message with header \<open>h\<close>: its first chunk and its continuations.\<close>

lemma message_received:
  assumes csi: "2 \<le> hChunkStreamID h" "hChunkStreamID h \<le> 319" "hChunkStreamID h = csi"
    and fit: "fields_fit h"
    and ext: "\<forall>l. ics_lastHeader (in_stream csr csi) = Some l \<longrightarrow> hExtendedTimestamp l = 0"
    and complete: "complete_header (in_stream csr csi) (hFmt h) (on_wire h) = Ok (header, ts, None)"
    and header: "hMessageLength header = mSize msg" "hExtendedTimestamp header = 0"
    and buf: "length buf = unat (mSize msg)" and k: "csr_chunkSize csr \<noteq> 0"
  defines "m \<equiv> new_inbound csi header ts"
  assumes ready: "readable_control (append_buf m buf)"
  shows "advances csr
     \<lparr>rbytes = message_wire h (unat (csr_chunkSize csr)) buf @ rest, rend = e\<rparr>
     (received csr csi (append_buf m buf) header) \<lparr>rbytes = rest, rend = e\<rparr>"
proof -
  let ?k = "unat (csr_chunkSize csr)"
  let ?bs = "take ?k buf" and ?buf = "drop ?k buf"
  have wire: "message_wire h ?k buf @ rest = header_bytes h @ ?bs @ cont_wire ?k csi ?buf @ rest"
    by (simp add: message_wire_def csi)
  have "length ?bs = min ?k (unat (mSize msg))" using buf by (simp add: min.commute)
  note first = first_chunk [OF csi fit ext complete header this, of "cont_wire ?k csi ?buf @ rest" e,
      folded m_def]
  show ?thesis
  proof (cases "length buf \<le> ?k")
    case True
    with first ready buf show ?thesis unfolding wire by simp
  next
    case False
    have fields: "mChunkStreamID m = csi" "mSize m = mSize msg" "mBuf m = Some []"
      using header by (simp_all add: m_def new_inbound_def)
    have "advances csr' \<lparr>rbytes = cont_wire ?k csi ?buf @ rest, rend = e\<rparr>
        (received csr csi (append_buf (append_buf m ?bs) ?buf) header) \<lparr>rbytes = rest, rend = e\<rparr>"
      if "receiving csr csi (append_buf m ?bs) header csr'" for csr'
      using that False buf fields csi k ready
      by (intro continuation_rest [where part = ?bs]) (simp_all add: append_buf_append)
    with first False buf show ?thesis
      unfolding wire by (auto simp: append_buf_append elim!: advances_trans)
  qed
qed

lemma received_in_step:
  assumes step: "in_step csw csr" and got: "received csr csi m l csr'"
    and size: "k' = chunk_size_after (csr_chunkSize csr) m" "4 \<le> unat k'"
    and out: "ocs_lastHeader out = Some h" "same_message_fields l h" "unat (hFmt h) < 4"
  shows "in_step (store_stream csw csi k' out) csr'"
proof -
  obtain i l' where i: "csr_chunkStreams csr' = (csr_chunkStreams csr)(csi \<mapsto> i)"
      "ics_currentMessage i = None" "ics_lastHeader i = Some l'"
      "same_message_fields l' l" "hExtendedTimestamp l' = 0"
    using got by (auto simp: received_def)
  have other: "in_stream csr' c = in_stream csr c" if "c \<noteq> csi" for c
    using i(1) that by (simp add: in_stream_def)
  have "in_sync out i"
    using i out by (simp add: in_sync_def same_message_fields_def)
  then show ?thesis
    using step got size i(1) other
    by (auto simp add: in_step_def store_stream_def received_def)
qed

text \<open>A new chunk stream is in sync with a reader that has not seen its id.\<close>

lemma in_step_create:
  assumes step: "in_step csw csr" and new: "csw_chunkStreams csw i = None"
  shows "in_step (csw\<lparr>csw_chunkStreams := (csw_chunkStreams csw)(i \<mapsto> new_outChunkStream q)\<rparr>) csr"
proof -
  have "csr_chunkStreams csr i = None" using step new by (auto simp: in_step_def)
  then have "in_sync (new_outChunkStream q) (in_stream csr i)"
    by (simp add: in_sync_def in_stream_def new_inChunkStream_def new_outChunkStream_def)
  then show ?thesis using step by (auto simp: in_step_def)
qed

lemma in_step_Close: "in_step csw csr \<Longrightarrow> in_step (Close csw) csr"
  by (auto simp: in_step_def Close_def)

lemma serve_received:
  assumes step: "in_step csw csr" and send: "sendable msg"
    and known: "csw_chunkStreams csw (mChunkStreamID msg) = Some out" and room: "wroom w = None"
  shows "\<exists>csw' bytes.
     serve csw msg w = Some (Ok (None, csw', w\<lparr>wout := wout w @ bytes\<rparr>)) \<and>
     dom (csw_chunkStreams csw') = dom (csw_chunkStreams csw) \<and>
     (\<forall>rest e. advances csr \<lparr>rbytes = bytes @ rest, rend = e\<rparr>
        (\<lambda>csr'. in_step csw' csr' \<and> (\<exists>m. delivered csr' = delivered csr @ [m] \<and> same_content msg m))
        \<lparr>rbytes = rest, rend = e\<rparr>)"
proof -
  let ?csi = "mChunkStreamID msg" and ?k = "csw_chunkSize csw"
  let ?i = "in_stream csr ?csi" and ?out = "out\<lparr>ocs_currentMessage := Some msg\<rparr>"
  obtain buf where buf: "mBuf msg = Some buf" "buf \<noteq> []" "length buf = unat (mSize msg)"
    and small: "unat (mSize msg) < 2 ^ 24" "mTimestamp msg < 0xffffff" "2 \<le> ?csi" "?csi \<le> 319"
    and set_size: "mType msg = SET_CHUNK_SIZE \<Longrightarrow> ?csi = 2 \<and> length buf = 4 \<and>
        (\<exists>x. BigEndian_Uint32 buf = Ok x \<and> 4 \<le> unat x)"
    and set_window: "mType msg = WINDOW_ACKNOWLEDGEMENT_SIZE \<Longrightarrow> ?csi = 2 \<Longrightarrow> 4 \<le> length buf"
    using send by (auto simp: sendable_def split: option.splits res.splits)
  have size: "?k = csr_chunkSize csr" "4 \<le> unat ?k" and sync: "in_sync out ?i"
    using step known by (auto simp: in_step_def)
  then have k: "?k \<noteq> 0" by auto
  obtain h where h: "newHeader ?out = Ok (h, ?out\<lparr>ocs_lastHeader := Some h, ocs_lastAbsoluteTimestamp := mTimestamp msg\<rparr>)"
    "hChunkStreamID h = ?csi" "hMessageLength h = mSize msg" "hMessageTypeID h = mType msg"
    "hMessageStreamID h = mStreamID msg" "unat (hFmt h) < 4"
    by (rule newHeader_current [of ?out msg]) auto
  obtain header ts where complete: "complete_header ?i (hFmt h) (on_wire h) = Ok (header, ts, None)"
    and header: "hMessageLength header = mSize msg" "hMessageTypeID header = mType msg"
      "hMessageStreamID header = mStreamID msg" "hExtendedTimestamp header = 0"
    and ts: "hTimestamp h < 0xffffff"
    using newHeader_completed [OF sync small(2) h(1)] by blast
  have fit: "fields_fit h"
    using ts small(1) h by (simp add: fields_fit_def word_less_nat_alt)
  have ext: "\<forall>l. ics_lastHeader ?i = Some l \<longrightarrow> hExtendedTimestamp l = 0"
    using sync by (auto simp: in_sync_def split: option.splits)
  let ?m = "append_buf (new_inbound ?csi header ts) buf"
  have m: "same_content msg ?m" "mBuf ?m = Some buf" "mChunkStreamID ?m = ?csi" "mType ?m = mType msg"
    using header buf by (simp_all add: same_content_def new_inbound_def append_buf_def)
  have ready: "readable_control ?m"
    using m set_size set_window by (auto simp: readable_control_def)
  have nz: "x \<noteq> 0" if "4 \<le> unat x" for x :: u32 using that by auto
  obtain d where d: "(if mType msg = SET_CHUNK_SIZE then BigEndian_Uint32 buf else Ok 0) = Ok d"
    and after: "(if d \<noteq> 0 then d else ?k) = chunk_size_after (csr_chunkSize csr) ?m"
      "4 \<le> unat (if d \<noteq> 0 then d else ?k)"
    using set_size size m by (cases "mType msg = SET_CHUNK_SIZE") (auto simp: chunk_size_after_def nz)
  let ?k' = "if d \<noteq> 0 then d else ?k"
  let ?out' = "set_buf (?out\<lparr>ocs_lastHeader := Some h, ocs_lastAbsoluteTimestamp := mTimestamp msg\<rparr>) msg []"
  let ?bytes = "message_wire h (unat ?k) buf"
  have "serve csw msg w = Some (Ok (None, store_stream csw ?csi ?k' ?out', w\<lparr>wout := wout w @ ?bytes\<rparr>))"
    using writeMessage_wire [OF buf _ k room h(1) d] small set_size size known
    by (auto simp: serve_def word_le_nat_alt)
  moreover have "dom (csw_chunkStreams (store_stream csw ?csi ?k' ?out')) = dom (csw_chunkStreams csw)"
    using known by (auto simp: store_stream_def)
  moreover have "advances csr \<lparr>rbytes = ?bytes @ rest, rend = e\<rparr>
      (\<lambda>csr'. in_step (store_stream csw ?csi ?k' ?out') csr' \<and>
        (\<exists>m. delivered csr' = delivered csr @ [m] \<and> same_content msg m)) \<lparr>rbytes = rest, rend = e\<rparr>" for rest e
  proof (rule advances_mono)
    show "advances csr \<lparr>rbytes = ?bytes @ rest, rend = e\<rparr> (received csr ?csi ?m header) \<lparr>rbytes = rest, rend = e\<rparr>"
      using message_received [of h ?csi csr header ts msg buf rest e] small h fit ext complete header buf k ready size
      by simp
    fix csr' assume got: "received csr ?csi ?m header csr'"
    have "in_step (store_stream csw ?csi ?k' ?out') csr'"
      using h header
      by (intro received_in_step [OF step got after]) (auto simp: set_buf_def same_message_fields_def)
    with got m(1) show "in_step (store_stream csw ?csi ?k' ?out') csr' \<and>
        (\<exists>m. delivered csr' = delivered csr @ [m] \<and> same_content msg m)"
      by (auto simp: received_def)
  qed
  ultimately show ?thesis by blast
qed

section \<open>Sequences of messages\<close>

lemma serve_all_received:
  assumes "in_step csw csr" "list_all sendable msgs"
    and "list_all (\<lambda>msg. mChunkStreamID msg \<in> dom (csw_chunkStreams csw)) msgs" "wroom w = None"
  shows "\<exists>csw' bytes.
     serve_all csw msgs w = Some (Ok (replicate (length msgs) None, csw', w\<lparr>wout := wout w @ bytes\<rparr>)) \<and>
     (\<forall>rest e. advances csr \<lparr>rbytes = bytes @ rest, rend = e\<rparr>
        (\<lambda>csr'. in_step csw' csr' \<and>
          (\<exists>got. delivered csr' = delivered csr @ got \<and> list_all2 same_content msgs got))
        \<lparr>rbytes = rest, rend = e\<rparr>)"
  using assms
proof (induction msgs arbitrary: csw csr w)
  case Nil
  then show ?case by (intro exI [of _ csw] exI [of _ "[]"]) (auto intro!: advances_refl)
next
  case (Cons msg msgs)
  from Cons.prems obtain out where "csw_chunkStreams csw (mChunkStreamID msg) = Some out" "sendable msg"
    by auto
  from serve_received [OF Cons.prems(1) this(2,1) Cons.prems(4)]
  obtain csw1 bytes1 where one: "serve csw msg w = Some (Ok (None, csw1, w\<lparr>wout := wout w @ bytes1\<rparr>))"
    and doms: "dom (csw_chunkStreams csw1) = dom (csw_chunkStreams csw)"
    and adv1: "\<And>rest e. advances csr \<lparr>rbytes = bytes1 @ rest, rend = e\<rparr>
        (\<lambda>csr'. in_step csw1 csr' \<and> (\<exists>m. delivered csr' = delivered csr @ [m] \<and> same_content msg m))
        \<lparr>rbytes = rest, rend = e\<rparr>"
    by blast
  let ?w = "w\<lparr>wout := wout w @ bytes1\<rparr>"
  have later: "\<exists>csw' bytes.
     serve_all csw1 msgs ?w = Some (Ok (replicate (length msgs) None, csw', ?w\<lparr>wout := wout ?w @ bytes\<rparr>)) \<and>
     (\<forall>rest e. advances csr1 \<lparr>rbytes = bytes @ rest, rend = e\<rparr>
        (\<lambda>csr'. in_step csw' csr' \<and>
          (\<exists>got. delivered csr' = delivered csr1 @ got \<and> list_all2 same_content msgs got))
        \<lparr>rbytes = rest, rend = e\<rparr>)" if "in_step csw1 csr1" for csr1
    using Cons.prems that doms by (intro Cons.IH) auto
  obtain csr0 where "in_step csw1 csr0" using adv1 unfolding advances_def by blast
  from later [OF this] obtain csw' bytes where
    all: "serve_all csw1 msgs ?w = Some (Ok (replicate (length msgs) None, csw', ?w\<lparr>wout := wout ?w @ bytes\<rparr>))"
    by blast
  have adv2: "advances csr1 \<lparr>rbytes = bytes @ rest, rend = e\<rparr>
        (\<lambda>csr'. in_step csw' csr' \<and>
          (\<exists>got. delivered csr' = delivered csr1 @ got \<and> list_all2 same_content msgs got))
        \<lparr>rbytes = rest, rend = e\<rparr>" if "in_step csw1 csr1" for csr1 rest e
    using later [OF that] all by (auto dest: arg_cong [where f = wout])
  have "advances csr \<lparr>rbytes = bytes1 @ bytes @ rest, rend = e\<rparr>
        (\<lambda>csr'. in_step csw' csr' \<and>
          (\<exists>got. delivered csr' = delivered csr @ got \<and> list_all2 same_content (msg # msgs) got))
        \<lparr>rbytes = rest, rend = e\<rparr>" for rest e
  proof (rule advances_trans [OF adv1])
    fix csr1 assume mid: "in_step csw1 csr1 \<and>
        (\<exists>m. delivered csr1 = delivered csr @ [m] \<and> same_content msg m)"
    then show "advances csr1 \<lparr>rbytes = bytes @ rest, rend = e\<rparr>
        (\<lambda>csr'. in_step csw' csr' \<and>
          (\<exists>got. delivered csr' = delivered csr @ got \<and> list_all2 same_content (msg # msgs) got))
        \<lparr>rbytes = rest, rend = e\<rparr>"
      by (intro advances_mono [OF adv2]) fastforce+
  qed
  then show ?case
    using one all by (intro exI [of _ csw'] exI [of _ "bytes1 @ bytes"]) simp
qed

text \<open>A fresh reader of the bytes written so far, whatever follows them, has been handed the messages
  \<open>msgs\<close> and is in step with the writer.\<close>

definition carries :: "chunkStreamWriter \<Rightarrow> writer \<Rightarrow> message list \<Rightarrow> bool" where
  "carries csw w msgs \<longleftrightarrow> wroom w = None \<and>
     (\<forall>rest e. advances NewChunkStreamReader \<lparr>rbytes = wout w @ rest, rend = e\<rparr>
        (\<lambda>csr. in_step csw csr \<and> list_all2 same_content msgs (delivered csr))
        \<lparr>rbytes = rest, rend = e\<rparr>)"

lemma delivered_new: "delivered NewChunkStreamReader = []"
  by (simp add: delivered_def NewChunkStreamReader_def List.map_filter_def)

lemma carries_new: "wroom w = None \<Longrightarrow> wout w = [] \<Longrightarrow> carries NewChunkStreamWriter w []"
  by (auto simp: carries_def in_step_new delivered_new intro!: advances_refl)

lemma carries_keep:
  assumes "carries csw w msgs" and "\<And>csr. in_step csw csr \<Longrightarrow> in_step csw' csr"
  shows "carries csw' w msgs"
  using assms unfolding carries_def by (blast intro: advances_mono)

lemma carries_Close: "carries csw w msgs \<Longrightarrow> carries (Close csw) w msgs"
  by (rule carries_keep [OF _ in_step_Close])

lemma carries_CreateChunkStream:
  assumes "carries csw w msgs" and "CreateChunkStream csw p = (x, csw')"
  shows "carries csw' w msgs"
proof (rule carries_keep [OF assms(1)])
  fix csr assume "in_step csw csr"
  with assms(2) find_free_Some show "in_step csw' csr"
    by (fastforce simp: CreateChunkStream_def split: option.splits intro!: in_step_create)
qed

lemma carries_serve:
  assumes carries: "carries csw w msgs" and send: "sendable msg"
    and known: "csw_chunkStreams csw (mChunkStreamID msg) \<noteq> None"
  shows "\<exists>csw' w'. serve csw msg w = Some (Ok (None, csw', w')) \<and> carries csw' w' (msgs @ [msg])"
proof -
  obtain out where known: "csw_chunkStreams csw (mChunkStreamID msg) = Some out"
    using known by blast
  have room: "wroom w = None" and adv: "\<And>rest e. advances NewChunkStreamReader
      \<lparr>rbytes = wout w @ rest, rend = e\<rparr>
      (\<lambda>csr. in_step csw csr \<and> list_all2 same_content msgs (delivered csr))
      \<lparr>rbytes = rest, rend = e\<rparr>"
    using carries by (auto simp: carries_def)
  have one: "\<exists>csw' bytes.
     serve csw msg w = Some (Ok (None, csw', w\<lparr>wout := wout w @ bytes\<rparr>)) \<and>
     (\<forall>rest e. advances csr \<lparr>rbytes = bytes @ rest, rend = e\<rparr>
        (\<lambda>csr'. in_step csw' csr' \<and> (\<exists>m. delivered csr' = delivered csr @ [m] \<and> same_content msg m))
        \<lparr>rbytes = rest, rend = e\<rparr>)" if "in_step csw csr" for csr
    using serve_received [OF that send known room] by blast
  obtain csr0 where "in_step csw csr0" using adv unfolding advances_def by blast
  from one [OF this] obtain csw' bytes where
    run: "serve csw msg w = Some (Ok (None, csw', w\<lparr>wout := wout w @ bytes\<rparr>))" by blast
  have step: "advances csr \<lparr>rbytes = bytes @ rest, rend = e\<rparr>
        (\<lambda>csr'. in_step csw' csr' \<and> (\<exists>m. delivered csr' = delivered csr @ [m] \<and> same_content msg m))
        \<lparr>rbytes = rest, rend = e\<rparr>" if "in_step csw csr" for csr rest e
    using one [OF that] run by (auto dest: arg_cong [where f = wout])
  have "advances NewChunkStreamReader \<lparr>rbytes = wout w @ bytes @ rest, rend = e\<rparr>
        (\<lambda>csr. in_step csw' csr \<and> list_all2 same_content (msgs @ [msg]) (delivered csr))
        \<lparr>rbytes = rest, rend = e\<rparr>" for rest e
  proof (rule advances_trans [OF adv])
    fix csr
    assume mid: "in_step csw csr \<and> list_all2 same_content msgs (delivered csr)"
    show "advances csr \<lparr>rbytes = bytes @ rest, rend = e\<rparr>
        (\<lambda>csr. in_step csw' csr \<and> list_all2 same_content (msgs @ [msg]) (delivered csr))
        \<lparr>rbytes = rest, rend = e\<rparr>"
      using mid by (intro advances_mono [OF step]) (auto intro!: list_all2_appendI)
  qed
  with run room show ?thesis
    by (intro exI [of _ csw'] exI [of _ "w\<lparr>wout := wout w @ bytes\<rparr>"]) (simp add: carries_def)
qed

lemma ReadFrom_loop_EOF:
  "ReadFrom_loop csr a b \<lparr>rbytes = [], rend = e\<rparr> = Ok (a, e, csr)"
  by (subst ReadFrom_loop.simps) (simp add: readChunk_def ReadBaseHeader_Nil)

lemma carries_read:
  assumes "carries csw w msgs"
  shows "\<exists>csr. ReadFrom NewChunkStreamReader \<lparr>rbytes = wout w, rend = EOF\<rparr> = Ok (int (length (wout w)), EOF, csr) \<and>
     in_step csw csr \<and> list_all2 same_content msgs (delivered csr)"
proof -
  have "advances NewChunkStreamReader \<lparr>rbytes = wout w @ [], rend = EOF\<rparr>
      (\<lambda>csr. in_step csw csr \<and> list_all2 same_content msgs (delivered csr)) \<lparr>rbytes = [], rend = EOF\<rparr>"
    using assms unfolding carries_def by blast
  from this [unfolded advances_def, rule_format, of 0 0] obtain csr b' where
    "in_step csw csr" "list_all2 same_content msgs (delivered csr)"
    "ReadFrom NewChunkStreamReader \<lparr>rbytes = wout w, rend = EOF\<rparr> =
      ReadFrom_loop csr (int (length (wout w))) b' \<lparr>rbytes = [], rend = EOF\<rparr>"
    by (auto simp: ReadFrom_def)
  then show ?thesis by (auto simp: ReadFrom_loop_EOF)
qed

section \<open>Properties\<close>


definition sample_messages :: "message list" where
  "sample_messages =
    [NewMessage 3 20 0 10 (Some (replicate 300 7)),
     NewMessage 2 1 0 20 (Some [0, 0, 16, 0]),
     NewMessage 3 20 0 30 (Some (replicate 300 8))]"


end
