(* ===== verification/Reader_Invariant.thy ===== *)
theory Reader_Invariant
  imports Chunk_Reader
begin

text \<open>
  What holds of the chunk stream reader on arbitrary input, well-formed or not: the invariant of its
  state, kept by every chunk and so by the whole reading loop; the messages its handler sees; the
  one way a peer can make it panic; and the spacing of its window reports.
\<close>

section \<open>Bounds on what a header announces\<close>

lemma read24_bound: "read24 r = (n, Ok x, r') \<Longrightarrow> unat x < 2 ^ 24"
proof -
  assume run: "read24 r = (n, Ok x, r')"
  then obtain a b c rest where "be24_get [a, b, c] = Ok x"
    by (auto simp: read24_def rd_bind_def ReadFull_def be24_get_def length_Suc_conv numeral_3_eq_3
        take_Suc neq_Nil_conv Suc_le_length_iff split: if_splits)
  then have x: "x = be32_join 0 a b c" by (simp add: be24_get_def)
  have "drop_bit 24 x = 0"
    by (rule bit_word_eqI) (auto simp: x be32_join_def bit_simps dest!: bit_imp_le_length)
  then have "unat x div 2 ^ 24 = 0"
    by (metis drop_bit_nat_def unat_drop_bit_eq unsigned_0)
  then show ?thesis by (simp add: div_eq_0_iff)
qed

text \<open>A read action whose results all have a property.\<close>

definition yields :: "'a rd \<Rightarrow> ('a \<Rightarrow> bool) \<Rightarrow> bool" where
  "yields m P \<longleftrightarrow> (\<forall>r n x r'. m r = (n, Ok x, r') \<longrightarrow> P x)"

lemma yieldsD: "yields m P \<Longrightarrow> m r = (n, Ok x, r') \<Longrightarrow> P x"
  unfolding yields_def by blast

lemma yields_bind:
  assumes m: "yields m P" and f: "\<And>x. P x \<Longrightarrow> yields (f x) Q"
  shows "yields (rd_bind m f) Q"
  unfolding yields_def
proof (intro allI impI)
  fix r n x r'
  assume run: "rd_bind m f r = (n, Ok x, r')"
  obtain k y s where first: "m r = (k, y, s)" by (cases "m r")
  with run obtain a where y: "y = Ok a" by (cases y) (auto simp: rd_bind_def)
  obtain k' z s' where "f a s = (k', z, s')" by (cases "f a s")
  with run first y have "f a s = (k', Ok x, s')" by (simp add: rd_bind_def)
  moreover have "P a" by (rule yieldsD [OF m first [unfolded y]])
  ultimately show "Q x" by (intro yieldsD [OF f])
qed

lemma yields_return: "P x \<Longrightarrow> yields (rd_lift (Ok x)) P"
  by (simp add: yields_def)

lemma yields_any: "yields m (\<lambda>_. True)"
  by (simp add: yields_def)

lemma yields_if: "(c \<Longrightarrow> yields m P) \<Longrightarrow> (\<not> c \<Longrightarrow> yields m' P) \<Longrightarrow> yields (if c then m else m') P"
  by simp

lemma yields_read24: "yields read24 (\<lambda>x. unat x < 2 ^ 24)"
  unfolding yields_def using read24_bound by blast

definition short_length :: "header \<Rightarrow> bool" where
  "short_length h \<longleftrightarrow> unat (hMessageLength h) < 2 ^ 24"

lemma yields_ReadMessageHeader: "short_length h \<Longrightarrow> yields (ReadMessageHeader h) short_length"
  unfolding ReadMessageHeader_def
  by (intro yields_if yields_bind [OF yields_read24] yields_bind [OF yields_any] yields_return)
    (simp_all add: short_length_def)

lemma yields_ReadHeader: "short_length h \<Longrightarrow> yields (ReadHeader h vfmt csi l) short_length"
  unfolding ReadHeader_def
  by (rule yields_bind [OF yields_ReadMessageHeader])
    (auto intro!: yields_if yields_bind [OF yields_any] yields_return simp: short_length_def)

lemma short_length_zero [simp]: "short_length zero_header"
  by (simp add: short_length_def zero_header_def)

lemma ReadHeader_short: "ReadHeader zero_header vfmt csi l r = (n, Ok h, r') \<Longrightarrow> short_length h"
  using yieldsD [OF yields_ReadHeader [OF short_length_zero]] by blast

section \<open>The invariant\<close>

text \<open>A message as the handler gets it: inbound, with as many bytes as its header announced, which is
  fewer than \<open>2^24\<close>.\<close>

definition complete_message :: "message \<Rightarrow> bool" where
  "complete_message m \<longleftrightarrow> mIsInbound m \<and> unat (mSize m) < 2 ^ 24 \<and>
     (\<exists>bs. mBuf m = Some bs \<and> length bs = unat (mSize m))"

text \<open>A message in the middle of which the reader is, on chunk stream \<open>csi\<close>.\<close>

definition partial_message :: "u32 \<Rightarrow> message \<Rightarrow> bool" where
  "partial_message csi m \<longleftrightarrow> mIsInbound m \<and> unat (mSize m) < 2 ^ 24 \<and> mChunkStreamID m = csi \<and>
     (\<exists>bs. mBuf m = Some bs \<and> length bs < unat (mSize m))"

definition stream_inv :: "u32 \<Rightarrow> inChunkStream \<Rightarrow> bool" where
  "stream_inv csi cs \<longleftrightarrow> ics_id cs = csi \<and>
     (\<forall>l. ics_lastHeader cs = Some l \<longrightarrow> short_length l) \<and>
     (\<forall>m. ics_currentMessage cs = Some m \<longrightarrow> ics_lastHeader cs \<noteq> None \<and> partial_message csi m)"

definition reader_inv :: "chunkStreamReader \<Rightarrow> bool" where
  "reader_inv csr \<longleftrightarrow>
     (\<forall>csi cs. csr_chunkStreams csr csi = Some cs \<longrightarrow> stream_inv csi cs) \<and>
     (\<forall>m. OnMessage m \<in> set (csr_events csr) \<longrightarrow> complete_message m)"

lemma reader_inv_new [simp]: "reader_inv NewChunkStreamReader"
  by (simp add: reader_inv_def NewChunkStreamReader_def)

lemma stream_inv_new [simp]: "stream_inv csi (new_inChunkStream csi)"
  by (simp add: stream_inv_def new_inChunkStream_def)

lemma stream_inv_in_stream: "reader_inv csr \<Longrightarrow> stream_inv csi (in_stream csr csi)"
  by (simp add: in_stream_def reader_inv_def split: option.split)

lemma reader_inv_store:
  "reader_inv csr \<Longrightarrow> stream_inv csi cs \<Longrightarrow>
     reader_inv (csr\<lparr>csr_chunkStreams := (csr_chunkStreams csr)(csi \<mapsto> cs)\<rparr>)"
  by (simp add: reader_inv_def)

lemma reader_inv_touch: "reader_inv csr \<Longrightarrow> reader_inv (touch csr csi)"
  unfolding touch_def by (intro reader_inv_store stream_inv_in_stream)

lemma handleMessage_inv:
  "handleMessage csr m = Ok csr' \<Longrightarrow> reader_inv csr \<Longrightarrow> complete_message m \<Longrightarrow> reader_inv csr'"
  by (auto simp: handleMessage_def reader_inv_def res_bind_eq_Ok split: option.splits if_splits)

lemma complete_header_short:
  assumes "complete_header cs vfmt h = Ok (header, ts, current)"
    and "short_length h" "\<forall>l. ics_lastHeader cs = Some l \<longrightarrow> short_length l"
  shows "short_length header \<and> (current = None \<or> current = ics_currentMessage cs)"
  using assms
  by (auto simp: complete_header_def short_length_def Let_def split: if_splits option.splits)

text \<open>The message a chunk belongs to, before its payload: nothing of it is missing twice.\<close>

definition open_message :: "u32 \<Rightarrow> message \<Rightarrow> bool" where
  "open_message csi m \<longleftrightarrow> mIsInbound m \<and> unat (mSize m) < 2 ^ 24 \<and> mChunkStreamID m = csi \<and>
     (\<exists>bs. mBuf m = Some bs \<and> length bs \<le> unat (mSize m))"

lemma open_new: "short_length header \<Longrightarrow> open_message csi (new_inbound csi header ts)"
  by (simp add: open_message_def new_inbound_def short_length_def)

lemma open_partial: "partial_message csi m \<Longrightarrow> open_message csi m"
  by (auto simp: open_message_def partial_message_def)

lemma open_append:
  assumes "open_message csi m"
  shows "length bs = unat (Remain m) \<Longrightarrow> complete_message (append_buf m bs)"
    and "length bs < unat (Remain m) \<Longrightarrow> partial_message csi (append_buf m bs)"
proof -
  obtain part where "mBuf m = Some part" "length part \<le> unat (mSize m)"
    using assms by (auto simp: open_message_def)
  with unat_Remain [OF this] assms
  show "length bs = unat (Remain m) \<Longrightarrow> complete_message (append_buf m bs)"
    and "length bs < unat (Remain m) \<Longrightarrow> partial_message csi (append_buf m bs)"
    by (auto simp: open_message_def complete_message_def partial_message_def append_buf_def)
qed

lemma read_payload_inv:
  assumes run: "read_payload csr csi cs m continued c r = Ok (n, err, csr', r')"
    and inv: "reader_inv csr" "stream_inv csi cs" "ics_lastHeader cs \<noteq> None"
    and m: "open_message csi m"
  shows "reader_inv csr'"
proof -
  let ?k = "if Remain m > csr_chunkSize csr then csr_chunkSize csr else Remain m"
  obtain bs e s where copy: "CopyN_from (unat ?k) r = (bs, e, s)" by (cases "CopyN_from (unat ?k) r")
  note len = CopyN_from_length [OF copy]
  have store: "reader_inv (csr'\<lparr>csr_chunkStreams := (csr_chunkStreams csr')(csi \<mapsto> cs\<lparr>ics_currentMessage := x\<rparr>)\<rparr>)"
    if "reader_inv csr'" "\<forall>m. x = Some m \<longrightarrow> partial_message csi m" for x csr'
    using that inv(2,3) by (intro reader_inv_store) (auto simp: stream_inv_def)
  have le: "unat ?k \<le> unat (Remain m)" by (simp add: word_less_nat_alt)
  show ?thesis
  proof (cases e)
    case (Some x)
    then have "length bs < unat (Remain m)" using len le by auto
    then have "partial_message csi (append_buf m bs)" by (rule open_append(2) [OF m])
    with run copy Some store [OF inv(1), of "Some (append_buf m bs)"] inv show ?thesis
      by (auto simp: read_payload_def Let_def reader_inv_store split: if_splits)
  next
    case None
    show ?thesis
    proof (cases "Remain m > csr_chunkSize csr")
      case True
      then have "length bs < unat (Remain m)" using len None by (simp add: word_less_nat_alt)
      then have "partial_message csi (append_buf m bs)" by (rule open_append(2) [OF m])
      with run copy None True store [OF inv(1), of "Some (append_buf m bs)"] show ?thesis
        by (auto simp: read_payload_def Let_def)
    next
      case False
      then have "length bs = unat (Remain m)" using len None by simp
      then have whole: "complete_message (append_buf m bs)" by (rule open_append(1) [OF m])
      obtain csr1 where "handleMessage csr (append_buf m bs) = Ok csr1"
        "csr' = csr1\<lparr>csr_chunkStreams := (csr_chunkStreams csr1)(csi \<mapsto> cs\<lparr>ics_currentMessage := None\<rparr>)\<rparr>"
        using run copy None False by (auto simp: read_payload_def Let_def res_bind_eq_Ok)
      with handleMessage_inv [OF _ inv(1) whole] store [of csr1 None] show ?thesis by auto
    qed
  qed
qed

lemma readChunk_inv:
  assumes run: "readChunk csr r = Ok (n, err, csr', r')" and inv: "reader_inv csr"
  shows "reader_inv csr'"
  using run
proof (cases rule: readChunk_cases)
  case (payload n vfmt csi s k h s' header ts current)
  let ?i = "in_stream csr csi"
  have i: "stream_inv csi ?i" by (rule stream_inv_in_stream [OF inv])
  have header: "short_length header" "current = None \<or> current = ics_currentMessage ?i"
    using complete_header_short [OF payload(3) ReadHeader_short [OF payload(2)]] i
    by (auto simp: stream_inv_def)
  have "open_message csi (case current of None \<Rightarrow> new_inbound csi header ts | Some m \<Rightarrow> m)"
    using header i by (auto simp: stream_inv_def open_new open_partial split: option.split)
  moreover have "stream_inv csi (?i\<lparr>ics_lastHeader := Some header, ics_lastAbsoluteTimestamp := ts\<rparr>)"
    using header i by (auto simp: stream_inv_def)
  ultimately show ?thesis
    using read_payload_inv [OF payload(4) [symmetric] reader_inv_touch [OF inv]] by simp
qed (auto simp: inv reader_inv_touch)

lemma window_check_inv: "reader_inv csr \<Longrightarrow> reader_inv (fst (window_check csr a b))"
  by (auto simp: window_check_def reader_inv_def)

lemma ReadFrom_loop_inv:
  "ReadFrom_loop csr a b r = Ok (n, e, csr') \<Longrightarrow> reader_inv csr \<Longrightarrow> reader_inv csr'"
proof (induction csr a b r rule: ReadFrom_loop.induct)
  case (1 csr a b r)
  from "1.prems"(1) obtain k err csr1 r1 where run: "readChunk csr r = Ok (k, err, csr1, r1)"
    by (subst (asm) ReadFrom_loop.simps) (auto split: res.splits)
  have inv: "reader_inv csr1" by (rule readChunk_inv [OF run "1.prems"(2)])
  obtain csr2 pre where win: "window_check csr1 (a + k) b = (csr2, pre)"
    by (cases "window_check csr1 (a + k) b")
  with window_check_inv [OF inv] have inv2: "reader_inv csr2" by (metis fst_conv)
  show ?case
  proof (cases err)
    case None
    with "1.prems"(1) run win have "ReadFrom_loop csr2 (a + k) pre r1 = Ok (n, e, csr')"
      by (subst (asm) ReadFrom_loop.simps) simp
    with "1.IH" [OF run refl refl refl None win [symmetric]] inv2 show ?thesis by simp
  next
    case (Some x)
    with "1.prems"(1) run inv show ?thesis by (subst (asm) ReadFrom_loop.simps) simp
  qed
qed

section \<open>The errors of the reading loop\<close>

text \<open>A read action whose errors come from the end of the stream.\<close>

definition end_error :: "go_error \<Rightarrow> go_error \<Rightarrow> bool" where
  "end_error stream_end e \<longleftrightarrow> e = stream_end \<or> e = ErrUnexpectedEOF \<and> stream_end = EOF"

definition honest :: "'a rd \<Rightarrow> bool" where
  "honest m \<longleftrightarrow> (\<forall>r n e r'. m r = (n, Err e, r') \<longrightarrow> end_error (rend r) e)"

lemma honestD: "honest m \<Longrightarrow> m r = (n, Err e, r') \<Longrightarrow> end_error (rend r) e"
  unfolding honest_def by blast

lemma honest_ReadByte: "honest ReadByte"
  by (auto simp: honest_def ReadByte_def end_error_def split: list.splits)

lemma honest_return: "(\<And>e. x \<noteq> Err e) \<Longrightarrow> honest (rd_lift x)"
  by (simp add: honest_def)

lemma honest_if: "honest m \<Longrightarrow> honest m' \<Longrightarrow> honest (if c then m else m')"
  by simp

lemma honest_bind:
  assumes m: "orderly m" "honest m" and f: "\<And>a. honest (f a)"
  shows "honest (rd_bind m f)"
  unfolding honest_def
proof (intro allI impI)
  fix r n e r'
  assume run: "rd_bind m f r = (n, Err e, r')"
  obtain k y s where first: "m r = (k, y, s)" by (cases "m r")
  show "end_error (rend r) e"
  proof (cases y)
    case (Ok a)
    obtain k' z s' where second: "f a s = (k', z, s')" by (cases "f a s")
    with run first Ok have "f a s = (k', Err e, s')" by (simp add: rd_bind_def)
    from honestD [OF f this] m(1) first show ?thesis by (auto simp: orderly_def)
  qed (use run first honestD [OF m(2)] in \<open>auto simp: rd_bind_def\<close>)
qed

lemma honest_fields: "honest read24" "honest read32_be" "honest read32_le"
proof -
  have full: "honest (ReadFull k)" for k
    by (auto simp: honest_def ReadFull_def end_error_def split: if_splits)
  show "honest read24" "honest read32_be" "honest read32_le"
    unfolding read24_def read32_be_def read32_le_def be24_get_def
    by (intro honest_bind full orderly_ReadFull honest_return; simp)+
qed

lemmas honest_intros = honest_bind [OF orderly_ReadByte honest_ReadByte]
  honest_bind [OF orderly_read24 honest_fields(1)] honest_bind [OF orderly_read32_be honest_fields(2)]
  honest_bind [OF orderly_read32_le honest_fields(3)] honest_if honest_return

lemma honest_ReadBaseHeader: "honest ReadBaseHeader"
  unfolding ReadBaseHeader_def Let_def by (intro honest_intros; simp)

lemma honest_ReadMessageHeader: "honest (ReadMessageHeader h)"
  unfolding ReadMessageHeader_def by (intro honest_intros; simp)

lemma honest_ReadHeader: "honest (ReadHeader h vfmt csi l)"
  unfolding ReadHeader_def
  by (intro honest_bind [OF orderly_ReadMessageHeader honest_ReadMessageHeader] honest_intros; simp)

lemma readChunk_error:
  assumes "readChunk csr r = Ok (n, err, csr', r')"
  shows "rend r' = rend r \<and>
    (\<forall>e. err = Some e \<longrightarrow> (end_error (rend r) e \<or> e = ErrInvalidChunkHeader) \<and>
       0 \<le> n \<and> n \<le> int (length (rbytes r)))"
  using assms
proof (cases rule: readChunk_cases)
  case (base_error k e r1)
  with honestD [OF honest_ReadBaseHeader base_error(1)] orderly_length [OF orderly_ReadBaseHeader base_error(1)]
    orderly_ReadBaseHeader show ?thesis unfolding orderly_def by fastforce
next
  case (header_error k vfmt csi r1 j e r2)
  have rend: "rend r1 = rend r" "rend r2 = rend r1"
    using orderly_ReadBaseHeader orderly_ReadHeader header_error(1,2) unfolding orderly_def by blast+
  with header_error honestD [OF honest_ReadHeader header_error(2)]
    orderly_length [OF orderly_ReadBaseHeader header_error(1)]
  show ?thesis by auto
next
  case (no_predecessor k vfmt csi r1 j h r2)
  have rend: "rend r1 = rend r" "rend r2 = rend r1"
    using orderly_ReadBaseHeader orderly_ReadHeader no_predecessor(1,2) unfolding orderly_def by blast+
  with no_predecessor orderly_count [OF orderly_ReadBaseHeader no_predecessor(1)]
    orderly_length [OF orderly_ReadHeader no_predecessor(2)]
  show ?thesis by auto
next
  case (payload k vfmt csi r1 j h r2 header ts current)
  have rend: "rend r1 = rend r" "rend r2 = rend r1"
    using orderly_ReadBaseHeader orderly_ReadHeader payload(1,2) unfolding orderly_def by blast+
  let ?m = "case current of None \<Rightarrow> new_inbound csi header ts | Some m \<Rightarrow> m"
  have "\<forall>e. err = Some e \<longrightarrow> e = rend r2"
    using payload(4) [symmetric]
    by (auto simp: read_payload_def Let_def CopyN_from_def res_bind_eq_Ok split: if_splits)
  with rend read_payload_length [OF payload(4) [symmetric]]
    orderly_count [OF orderly_ReadBaseHeader payload(1)] orderly_count [OF orderly_ReadHeader payload(2)]
  show ?thesis by (auto simp: end_error_def)
qed

lemma ReadFrom_loop_result:
  "ReadFrom_loop csr a b r = x \<Longrightarrow> 0 \<le> a \<Longrightarrow> reader_inv csr \<Longrightarrow>
     (case x of Panic \<Rightarrow> True | Err e \<Rightarrow> False
      | Ok (n, e, csr') \<Rightarrow> reader_inv csr' \<and> a \<le> n \<and> n \<le> a + int (length (rbytes r)) \<and>
          (end_error (rend r) e \<or> e = ErrInvalidChunkHeader))"
proof (induction csr a b r rule: ReadFrom_loop.induct)
  case (1 csr a b r)
  show ?case
  proof (cases "readChunk csr r")
    case (Err e)
    with readChunk_not_Err show ?thesis by blast
  next
    case Panic
    with "1.prems"(1) show ?thesis by (subst (asm) ReadFrom_loop.simps) auto
  next
    case (Ok y)
    obtain k err csr1 r1 where y: "y = (k, err, csr1, r1)" by (cases y)
    note run = Ok [unfolded y]
    have inv: "reader_inv csr1" by (rule readChunk_inv [OF run "1.prems"(3)])
    note errs = readChunk_error [OF run]
    obtain csr2 pre where win: "window_check csr1 (a + k) b = (csr2, pre)"
      by (cases "window_check csr1 (a + k) b")
    with window_check_inv [OF inv] have inv2: "reader_inv csr2" by (metis fst_conv)
    show ?thesis
    proof (cases err)
      case None
      note count = readChunk_count [OF run [unfolded None]]
        readChunk_progress [OF run [unfolded None]]
      from "1.prems"(1) run win None have "ReadFrom_loop csr2 (a + k) pre r1 = x"
        by (subst (asm) ReadFrom_loop.simps) simp
      from "1.IH" [OF run refl refl refl None win [symmetric] this _ inv2] "1.prems"(2) count errs
      show ?thesis by (auto split: res.splits)
    next
      case (Some e)
      with "1.prems"(1) run inv errs show ?thesis by (subst (asm) ReadFrom_loop.simps) auto
    qed
  qed
qed

section \<open>The one panic\<close>

text \<open>The message a chunk on \<open>csi\<close> with completed header \<open>header\<close> belongs to.\<close>

definition chunk_message :: "u32 \<Rightarrow> header \<Rightarrow> u32 \<Rightarrow> message option \<Rightarrow> message" where
  "chunk_message csi header ts current =
     (case current of None \<Rightarrow> new_inbound csi header ts | Some m \<Rightarrow> m)"

definition short_control :: "message \<Rightarrow> bool" where
  "short_control m \<longleftrightarrow> mChunkStreamID m = CS_ID_PROTOCOL_CONTROL \<and>
     (mType m = SET_CHUNK_SIZE \<or> mType m = WINDOW_ACKNOWLEDGEMENT_SIZE) \<and> unat (mSize m) < 4"

lemma handleMessage_panics:
  assumes "complete_message m"
  shows "handleMessage csr m = Panic \<longleftrightarrow> short_control m"
proof -
  obtain bs where bs: "mBuf m = Some bs" "length bs = unat (mSize m)"
    using assms by (auto simp: complete_message_def)
  with BigEndian_Uint32_panics [of bs] show ?thesis
    by (cases "BigEndian_Uint32 bs") (auto simp: handleMessage_def short_control_def)
qed

lemma read_payload_panics:
  assumes m: "open_message csi m"
    and run: "read_payload csr csi cs m continued c r = Panic"
  shows "short_control m \<and> Remain m \<le> csr_chunkSize csr \<and> unat (Remain m) \<le> length (rbytes r)"
proof -
  let ?k = "if Remain m > csr_chunkSize csr then csr_chunkSize csr else Remain m"
  obtain bs e s where copy: "CopyN_from (unat ?k) r = (bs, e, s)" by (cases "CopyN_from (unat ?k) r")
  with run have e: "e = None" and last_chunk: "\<not> Remain m > csr_chunkSize csr"
    by (auto simp: read_payload_def Let_def split: option.splits if_splits)
  then have "length bs = unat (Remain m)" and fits: "unat (Remain m) \<le> length (rbytes r)"
    using CopyN_from_length [OF copy] by auto
  then have whole: "complete_message (append_buf m bs)" by (intro open_append(1) [OF m])
  have "handleMessage csr (append_buf m bs) = Panic"
    using run copy e last_chunk
    by (auto simp: read_payload_def Let_def res_bind_cases split: res.splits)
  then have "short_control (append_buf m bs)" using handleMessage_panics [OF whole] by blast
  then show ?thesis using last_chunk fits by (simp add: short_control_def append_buf_def)
qed

section \<open>Interleaved chunk streams\<close>

text \<open>What one chunk may change: its own chunk stream's entry, the two sizes, and the end of the list
  of events.\<close>

definition only_stream :: "u32 \<Rightarrow> chunkStreamReader \<Rightarrow> chunkStreamReader \<Rightarrow> bool" where
  "only_stream csi csr csr' \<longleftrightarrow>
     (\<forall>c. c \<noteq> csi \<longrightarrow> csr_chunkStreams csr' c = csr_chunkStreams csr c) \<and>
     (csi \<noteq> CS_ID_PROTOCOL_CONTROL \<longrightarrow> csr_chunkSize csr' = csr_chunkSize csr \<and>
        csr_windowSize csr' = csr_windowSize csr) \<and>
     (csr_events csr' = csr_events csr \<or>
       (\<exists>m. csr_events csr' = csr_events csr @ [OnMessage m] \<and> mChunkStreamID m = csi))"

lemma handleMessage_only:
  "handleMessage csr m = Ok csr' \<Longrightarrow> only_stream (mChunkStreamID m) csr csr' \<and>
     csr_chunkStreams csr' = csr_chunkStreams csr"
  by (auto simp: handleMessage_def only_stream_def res_bind_eq_Ok split: option.splits if_splits)

lemma only_stream_store:
  "only_stream csi csr csr' \<Longrightarrow>
     only_stream csi csr (csr'\<lparr>csr_chunkStreams := (csr_chunkStreams csr')(csi \<mapsto> cs)\<rparr>)"
  by (simp add: only_stream_def)

lemma only_stream_refl [simp]: "only_stream csi csr csr"
  by (simp add: only_stream_def)

lemma read_payload_only:
  assumes run: "read_payload csr csi cs m continued c r = Ok (n, err, csr', r')"
    and m: "mChunkStreamID m = csi"
  shows "only_stream csi csr csr'"
proof -
  have "only_stream csi csr csr1" if "handleMessage csr (append_buf m bs) = Ok csr1" for bs csr1
    using handleMessage_only [OF that] m by (simp add: append_buf_def)
  with run show ?thesis
    by (auto simp: read_payload_def Let_def res_bind_eq_Ok
        split: prod.splits option.splits if_splits intro!: only_stream_store)
qed

lemma only_stream_touch: "only_stream csi (touch csr csi) csr' \<Longrightarrow> only_stream csi csr csr'"
  by (simp add: only_stream_def touch_def)

section \<open>Properties\<close>


text \<open>C24. The only panic: \<^verbatim>\<open>readChunk\<close> in a well-formed state panics only when a whole chunk arrives
  that completes a message on the protocol control stream of type \<^verbatim>\<open>SET_CHUNK_SIZE\<close> or
  \<^verbatim>\<open>WINDOW_ACKNOWLEDGEMENT_SIZE\<close> whose announced length is below four.\<close>

theorem readChunk_panics_only_short_control:
  assumes "reader_inv csr" and "readChunk csr r = Panic"
  shows "\<exists>n vfmt r' k h r'' header ts current.
     ReadBaseHeader r = (n, Ok (vfmt, CS_ID_PROTOCOL_CONTROL), r') \<and>
     ReadHeader zero_header vfmt CS_ID_PROTOCOL_CONTROL
       (ics_lastHeader (in_stream csr CS_ID_PROTOCOL_CONTROL)) r' = (k, Ok h, r'') \<and>
     complete_header (in_stream csr CS_ID_PROTOCOL_CONTROL) vfmt h = Ok (header, ts, current) \<and>
     short_control (chunk_message CS_ID_PROTOCOL_CONTROL header ts current) \<and>
     unat (Remain (chunk_message CS_ID_PROTOCOL_CONTROL header ts current)) \<le> length (rbytes r'')"
  using assms(2)
proof (cases rule: readChunk_cases)
  case (payload n vfmt csi r1 k h r2 header ts current)
  let ?i = "in_stream csr csi"
  have i: "stream_inv csi ?i" by (rule stream_inv_in_stream [OF assms(1)])
  have header: "short_length header" "current = None \<or> current = ics_currentMessage ?i"
    using complete_header_short [OF payload(3) ReadHeader_short [OF payload(2)]] i
    by (auto simp: stream_inv_def)
  have m: "open_message csi (chunk_message csi header ts current)"
    using header i by (auto simp: stream_inv_def chunk_message_def open_new open_partial split: option.split)
  note bad = read_payload_panics [OF m payload(4) [folded chunk_message_def, symmetric]]
  have "csi = CS_ID_PROTOCOL_CONTROL"
    using bad m by (auto simp: short_control_def open_message_def)
  with payload bad show ?thesis by blast
qed auto

theorem readChunk_panics_only_short_control_witness:
  "\<exists>n vfmt r' k h r'' header ts current.
     ReadBaseHeader \<lparr>rbytes = [2, 0, 0, 0, 0, 0, 0, 1, 0, 0, 0, 0], rend = EOF\<rparr> =
       (n, Ok (vfmt, CS_ID_PROTOCOL_CONTROL), r') \<and>
     ReadHeader zero_header vfmt CS_ID_PROTOCOL_CONTROL
       (ics_lastHeader (in_stream NewChunkStreamReader CS_ID_PROTOCOL_CONTROL)) r' = (k, Ok h, r'') \<and>
     complete_header (in_stream NewChunkStreamReader CS_ID_PROTOCOL_CONTROL) vfmt h = Ok (header, ts, current) \<and>
     short_control (chunk_message CS_ID_PROTOCOL_CONTROL header ts current) \<and>
     unat (Remain (chunk_message CS_ID_PROTOCOL_CONTROL header ts current)) \<le> length (rbytes r'')"
proof (rule readChunk_panics_only_short_control [OF reader_inv_new])
  show "readChunk NewChunkStreamReader
      \<lparr>rbytes = [2, 0, 0, 0, 0, 0, 0, 1, 0, 0, 0, 0], rend = EOF\<rparr> = Panic"
    by code_simp
qed

text \<open>C34. Chunk streams do not interfere: a chunk on chunk stream \<open>csi\<close> leaves every other chunk stream's
  unfinished message, last header and clock as they were, hands over at most one message, which is
  on \<open>csi\<close>, and changes the chunk and window size only when \<open>csi\<close> is the protocol control stream. So
  the chunks of messages on different chunk streams may be interleaved in any way.\<close>

theorem readChunk_only_its_stream:
  assumes "reader_inv csr" and "readChunk csr r = Ok (n, err, csr', r')"
    and "ReadBaseHeader r = (k, Ok (vfmt, csi), s)"
  shows "only_stream csi csr csr'"
  using assms(2)
proof (cases rule: readChunk_cases)
  case (payload n' vfmt' csi' r1 k' h r2 header ts current)
  have same: "csi' = csi" using payload(1) assms(3) by simp
  let ?i = "in_stream csr csi'"
  have i: "stream_inv csi' ?i" by (rule stream_inv_in_stream [OF assms(1)])
  have "current = None \<or> current = ics_currentMessage ?i"
    using complete_header_short [OF payload(3) ReadHeader_short [OF payload(2)]] i
    by (auto simp: stream_inv_def)
  with i have "mChunkStreamID (case current of None \<Rightarrow> new_inbound csi' header ts | Some m \<Rightarrow> m) = csi'"
    by (auto simp: stream_inv_def partial_message_def new_inbound_def split: option.split)
  from read_payload_only [OF payload(4) [symmetric] this] same show ?thesis
    by (simp add: only_stream_touch)
qed (use assms(3) in \<open>auto simp: only_stream_def touch_def\<close>)

text \<open>Chunk stream 5 in the middle of a message of 200 bytes, then a chunk on stream 6.\<close>

definition mid_message_reader :: chunkStreamReader where
  "mid_message_reader = NewChunkStreamReader\<lparr>csr_chunkStreams := [5 \<mapsto>
     (new_inChunkStream 5)\<lparr>ics_lastHeader := Some (zero_header\<lparr>hMessageLength := 200\<rparr>),
       ics_currentMessage := Some (append_buf (new_inbound 5 (zero_header\<lparr>hMessageLength := 200\<rparr>) 0)
         (replicate 128 9))\<rparr>]\<rparr>"

theorem readChunk_only_its_stream_witness:
  "\<exists>n err csr' r'. readChunk mid_message_reader
       \<lparr>rbytes = [6, 0, 0, 0, 0, 0, 1, 20, 1, 0, 0, 0, 77], rend = EOF\<rparr> = Ok (n, err, csr', r') \<and>
     only_stream 6 mid_message_reader csr'"
proof -
  let ?r = "\<lparr>rbytes = [6, 0, 0, 0, 0, 0, 1, 20, 1, 0, 0, 0, 77], rend = EOF\<rparr>"
  have inv: "reader_inv mid_message_reader"
    by (simp add: mid_message_reader_def reader_inv_def stream_inv_def NewChunkStreamReader_def
        new_inChunkStream_def partial_message_def append_buf_def new_inbound_def short_length_def
        zero_header_def)
  have base: "ReadBaseHeader ?r = (1, Ok (0, 6), ?r\<lparr>rbytes := tl (rbytes ?r)\<rparr>)"
    by code_simp
  obtain n err csr' r' where run: "readChunk mid_message_reader ?r = Ok (n, err, csr', r')"
  proof (cases "readChunk mid_message_reader ?r")
    case (Ok y)
    then show ?thesis using that by (cases y) auto
  next
    case (Err e)
    then show ?thesis using readChunk_not_Err by blast
  next
    case Panic
    moreover have "readChunk mid_message_reader ?r \<noteq> Panic" by code_simp
    ultimately show ?thesis by simp
  qed
  from readChunk_only_its_stream [OF inv run base] run show ?thesis by blast
qed

end
