(* ===== verification/Writer_Properties.thy ===== *)
theory Writer_Properties
  imports Chunk_Roundtrip
begin

text \<open>
  What holds of the chunk stream writer by itself: serving ends for every sequence of messages on
  every connection, the chunk size never becomes zero, which ids \<^verbatim>\<open>CreateChunkStream\<close> gives out and
  when it runs out of them, the clock a reader derives from the header \<^verbatim>\<open>newHeader\<close> chooses.
\<close>

section \<open>Serving ends\<close>

lemma newHeader_not_Err: "newHeader cs \<noteq> Err e"
  by (simp add: newHeader_def Let_def split: option.split)

lemma copy_payload_size:
  assumes "copy_payload k cs msg buf c w = y" "k \<noteq> 0"
  shows "(case y of Ok (n, e, k', cs', w') \<Rightarrow> k' \<noteq> 0 | Err e \<Rightarrow> False | Panic \<Rightarrow> True)"
  using assms
  by (cases "BigEndian_Uint32 buf")
    (auto simp: copy_payload_def Let_def split: prod.splits option.splits)

lemma writeChunk_size:
  assumes "writeChunk k cs w = y" "k \<noteq> 0"
  shows "(case y of Ok (n, e, k', cs', w') \<Rightarrow> k' \<noteq> 0 | Err e \<Rightarrow> False | Panic \<Rightarrow> True)"
proof (cases "ocs_currentMessage cs")
  case None
  with assms show ?thesis by (auto simp: writeChunk_def)
next
  case (Some msg)
  show ?thesis
  proof (cases "mBuf msg")
    case None
    with assms Some show ?thesis by (auto simp: writeChunk_def)
  next
    case buf: (Some buf)
    let ?new = "if word_of_nat (length buf) \<noteq> mSize msg
      then Ok (continuation_header (mChunkStreamID msg), cs) else newHeader cs"
    show ?thesis
    proof (cases ?new)
      case (Err e)
      with newHeader_not_Err show ?thesis by (auto split: if_splits)
    next
      case Panic
      with assms Some buf have "y = Panic" unfolding writeChunk_def by simp
      then show ?thesis by simp
    next
      case (Ok a)
      obtain h cs1 where a: "a = (h, cs1)" by (cases a)
      obtain n x w1 where out: "Header_Write h w = (n, x, w1)" by (cases "Header_Write h w")
      have y: "y = (case x of Panic \<Rightarrow> Panic | Err e \<Rightarrow> Ok (int n, Some e, k, cs1, w1)
          | Ok _ \<Rightarrow> copy_payload k cs1 msg buf (int n) w1)"
        using assms(1) Some buf Ok a out unfolding writeChunk_def by (cases x) simp_all
      show ?thesis
        using y copy_payload_size [OF refl assms(2)] assms(2) by (cases x) auto
    qed
  qed
qed

definition serves_on :: "(int \<times> go_error option \<times> u32 \<times> outChunkStream \<times> writer) res option \<Rightarrow> bool" where
  "serves_on x \<longleftrightarrow> (case x of None \<Rightarrow> False | Some Panic \<Rightarrow> True | Some (Err e) \<Rightarrow> False
     | Some (Ok (n, e, k, cs, w)) \<Rightarrow> k \<noteq> 0)"

lemma writeMessage_loop_serves:
  assumes "ocs_currentMessage cs = Some msg" "\<forall>buf. mBuf msg = Some buf \<longrightarrow> length buf < 2 ^ 32" "k \<noteq> 0"
  shows "serves_on (writeMessage_loop k cs n w)"
  using assms
proof (induction "length (the (mBuf msg))" arbitrary: k cs msg n w rule: less_induct)
  case less
  show ?case
  proof (cases "mBuf msg")
    case None
    with less.prems show ?thesis by (subst writeMessage_loop.simps) (simp add: serves_on_def)
  next
    case (Some buf)
    show ?thesis
    proof (cases "buf = []")
      case True
      with Some less.prems show ?thesis by (subst writeMessage_loop.simps) (simp add: serves_on_def)
    next
      case False
      note size = writeChunk_size [OF refl less.prems(3), of cs w]
      show ?thesis
      proof (cases "writeChunk k cs w")
        case (Ok z)
        obtain c e k' cs' w' where z: "z = (c, e, k', cs', w')" by (cases z)
        note run = Ok [unfolded z]
        show ?thesis
        proof (cases e)
          case None
          from writeChunk_progress [OF run [unfolded None] less.prems(1) Some] less.prems Some False
          obtain buf' where cur: "ocs_currentMessage cs' = Some (msg\<lparr>mBuf := Some buf'\<rparr>)"
            and shorter: "length buf' < length buf"
            by auto
          have "serves_on (writeMessage_loop k' cs' (n + c) w')"
            using cur shorter less.prems(2) Some run size
            by (intro less.hyps [OF _ cur]) auto
          with run None Some False less.prems(1) show ?thesis
            by (subst writeMessage_loop.simps) simp
        next
          case err: (Some x)
          with run Some False less.prems(1) size show ?thesis
            by (subst writeMessage_loop.simps) (simp add: serves_on_def)
        qed
      next
        case (Err e)
        with size show ?thesis by simp
      next
        case Panic
        with Some False less.prems(1) show ?thesis
          by (subst writeMessage_loop.simps) (simp add: serves_on_def)
      qed
    qed
  qed
qed

lemma serve_serves:
  assumes "\<forall>buf. mBuf msg = Some buf \<longrightarrow> length buf < 2 ^ 32" "csw_chunkSize csw \<noteq> 0"
  shows "\<exists>y. serve csw msg w = Some y \<and>
     (case y of Ok (e, csw', w') \<Rightarrow> csw_chunkSize csw' \<noteq> 0 | Err e \<Rightarrow> False | Panic \<Rightarrow> True)"
proof (cases "csw_chunkStreams csw (mChunkStreamID msg)")
  case None
  with assms show ?thesis by (simp add: serve_def)
next
  case (Some cs)
  have "serves_on (writeMessage (csw_chunkSize csw) msg cs w)"
    unfolding writeMessage_def using assms by (intro writeMessage_loop_serves [where msg = msg]) auto
  with Some show ?thesis
    by (auto simp: serve_def serves_on_def store_stream_def split: option.splits res.splits)
qed

text \<open>C23. Serving always ends: from a writer whose chunk size is not zero, as that of a new writer,
  every sequence of messages with buffers below \<open>2^32\<close> bytes, of any type and on any chunk stream,
  is served to its end on every connection, failing or not, and the chunk size is never zero
  afterwards, so the loop that sends a chunk size of payload at a time always makes progress.\<close>

theorem serving_ends:
  assumes "csw_chunkSize csw \<noteq> 0"
    and "list_all (\<lambda>msg. \<forall>buf. mBuf msg = Some buf \<longrightarrow> length buf < 2 ^ 32) msgs"
  shows "\<exists>y. serve_all csw msgs w = Some y \<and>
     (case y of Ok (errs, csw', w') \<Rightarrow> length errs = length msgs \<and> csw_chunkSize csw' \<noteq> 0
      | Err e \<Rightarrow> False | Panic \<Rightarrow> True)"
  using assms
proof (induction msgs arbitrary: csw w)
  case (Cons msg msgs)
  then obtain y where y: "serve csw msg w = Some y"
    "(case y of Ok (e, csw', w') \<Rightarrow> csw_chunkSize csw' \<noteq> 0 | Err e \<Rightarrow> False | Panic \<Rightarrow> True)"
    using serve_serves by fastforce
  show ?case
  proof (cases y)
    case (Ok z)
    obtain e csw1 w1 where z: "z = (e, csw1, w1)" by (cases z)
    with y(2) Ok Cons.prems obtain y' where y': "serve_all csw1 msgs w1 = Some y'"
      "(case y' of Ok (errs, csw', w') \<Rightarrow> length errs = length msgs \<and> csw_chunkSize csw' \<noteq> 0
        | Err e \<Rightarrow> False | Panic \<Rightarrow> True)"
      using Cons.IH [of csw1 w1] by auto
    with y(1) Ok z show ?thesis by (cases y') auto
  qed (use y in auto)
qed simp

definition broken_connection :: writer where
  "broken_connection = \<lparr>wout = [], wroom = Some 150, wfail = ErrIO 1\<rparr>"

theorem serving_ends_witness:
  "\<exists>y. serve_all NewChunkStreamWriter sample_messages broken_connection = Some y \<and>
     (case y of Ok (errs, csw', w') \<Rightarrow> length errs = 3 \<and> csw_chunkSize csw' \<noteq> 0
      | Err e \<Rightarrow> False | Panic \<Rightarrow> True)"
proof -
  have size: "csw_chunkSize NewChunkStreamWriter \<noteq> 0" by (simp add: NewChunkStreamWriter_def)
  have bufs: "list_all (\<lambda>msg. \<forall>buf. mBuf msg = Some buf \<longrightarrow> length buf < 2 ^ 32) sample_messages"
    by (simp add: sample_messages_def NewMessage_def)
  have "length sample_messages = 3" by (simp add: sample_messages_def)
  then show ?thesis using serving_ends [OF size bufs, of broken_connection] by (simp only:)
qed

section \<open>Chunk stream ids\<close>

lemma CreateChunkStream_cases:
  assumes "priority_of p = Some q"
  shows "(\<exists>i. find_free (csw_chunkStreams csw) CS_ID_BASE = Some i \<and>
       CreateChunkStream csw p =
         (Ok i, csw\<lparr>csw_chunkStreams := (csw_chunkStreams csw)(i \<mapsto> new_outChunkStream q)\<rparr>)) \<or>
     find_free (csw_chunkStreams csw) CS_ID_BASE = None \<and>
       CreateChunkStream csw p = (Err ErrMaxChunkStreams, csw)"
  using assms by (simp add: CreateChunkStream_def split: option.split)

text \<open>\<open>n\<close> calls one after the other.\<close>

fun create_many :: "nat \<Rightarrow> chunkStreamWriter \<Rightarrow> int \<Rightarrow> u32 res list \<times> chunkStreamWriter" where
  "create_many 0 csw p = ([], csw)"
| "create_many (Suc n) csw p = (case CreateChunkStream csw p of (x, csw) \<Rightarrow>
     (case create_many n csw p of (xs, csw) \<Rightarrow> (x # xs, csw)))"

lemma create_next:
  assumes p: "priority_of p = Some q" and dom: "dom (csw_chunkStreams csw) = {i. 2 \<le> i \<and> unat i < n}"
    and n: "2 \<le> n" "n < 100"
  shows "\<exists>csw'. CreateChunkStream csw p = (Ok (word_of_nat n), csw') \<and>
     dom (csw_chunkStreams csw') = {i. 2 \<le> i \<and> unat i < Suc n}"
proof -
  let ?i = "word_of_nat n :: u32"
  have u: "unat ?i = n" using n by (simp add: unat_of_nat_small)
  have "find_free (csw_chunkStreams csw) CS_ID_BASE = Some ?i"
    unfolding chunk_ids.alloc_eq_iff
  proof (intro conjI ballI impI)
    show "?i \<in> {i. CS_ID_BASE \<le> i \<and> i < CS_ID_MAX}"
      using n u by (simp add: word_le_nat_alt word_less_nat_alt)
    show "csw_chunkStreams csw ?i = None" using dom u by (metis (mono_tags, lifting) domIff less_irrefl mem_Collect_eq)
    fix j :: u32 assume "j \<in> {i. CS_ID_BASE \<le> i \<and> i < CS_ID_MAX}" "unat j < unat ?i"
    then have "j \<in> dom (csw_chunkStreams csw)" using dom u by simp
    then show "csw_chunkStreams csw j \<noteq> None" by (simp add: domIff)
  qed
  then have run: "CreateChunkStream csw p = (Ok ?i,
      csw\<lparr>csw_chunkStreams := (csw_chunkStreams csw)(?i \<mapsto> new_outChunkStream q)\<rparr>)"
    using p by (simp add: CreateChunkStream_def)
  have "dom ((csw_chunkStreams csw)(?i \<mapsto> new_outChunkStream q)) = {i. 2 \<le> i \<and> unat i < Suc n}"
  proof -
    have "x = ?i \<longleftrightarrow> unat x = n" for x using u by (auto simp: word_unat_eq_iff)
    moreover have "2 \<le> ?i" using n u by (simp add: word_le_nat_alt)
    ultimately show ?thesis using dom by (auto simp: less_Suc_eq)
  qed
  with run show ?thesis by auto
qed

lemma create_full:
  assumes p: "priority_of p = Some q" and dom: "dom (csw_chunkStreams csw) = {i. 2 \<le> i \<and> unat i < 100}"
  shows "CreateChunkStream csw p = (Err ErrMaxChunkStreams, csw)"
proof -
  have "find_free (csw_chunkStreams csw) CS_ID_BASE = None"
    unfolding chunk_ids.alloc_None_iff dom by (auto simp: word_less_nat_alt)
  then show ?thesis using p by (simp add: CreateChunkStream_def)
qed

lemma create_many_next:
  assumes p: "priority_of p = Some q"
  shows "dom (csw_chunkStreams csw) = {i. 2 \<le> i \<and> unat i < 100 - n} \<Longrightarrow> n \<le> 98 \<Longrightarrow>
     \<exists>csw'. create_many (n + k) csw p =
       (map (\<lambda>j. Ok (word_of_nat j)) [100 - n..<100] @ replicate k (Err ErrMaxChunkStreams), csw') \<and>
     dom (csw_chunkStreams csw') = {i. 2 \<le> i \<and> unat i < 100}"
proof (induction n arbitrary: csw)
  case 0
  have "create_many k csw p = (replicate k (Err ErrMaxChunkStreams), csw)"
    using create_full [OF p] 0 by (induction k) auto
  with 0 show ?case by simp
next
  case (Suc n)
  have lt: "2 \<le> 100 - Suc n" "100 - Suc n < 100" "Suc (100 - Suc n) = 100 - n" using Suc.prems by auto
  from create_next [OF p Suc.prems(1) lt(1,2)] obtain csw1 where
    one: "CreateChunkStream csw p = (Ok (word_of_nat (100 - Suc n)), csw1)"
    and "dom (csw_chunkStreams csw1) = {i. 2 \<le> i \<and> unat i < 100 - n}"
    unfolding lt(3) by blast
  with Suc.IH [of csw1] Suc.prems obtain csw' where
    "create_many (n + k) csw1 p =
       (map (\<lambda>j. Ok (word_of_nat j)) [100 - n..<100] @ replicate k (Err ErrMaxChunkStreams), csw')"
    "dom (csw_chunkStreams csw') = {i. 2 \<le> i \<and> unat i < 100}" by auto
  moreover have "[100 - Suc n..<100] = (100 - Suc n) # [100 - n..<100]"
    using lt by (metis upt_conv_Cons)
  ultimately show ?case using one by simp
qed

text \<open>C36. \<^verbatim>\<open>CreateChunkStream\<close> gives a new writer's first 95 callers the ids 5 to 99, in this order and
  each once, with the queue of the priority they asked for, and every later caller
  \<^verbatim>\<open>ErrMaxChunkStreams\<close>: nothing ever releases an id, so a connection can create 95 streams in its
  whole life. An invalid priority changes nothing.\<close>

theorem CreateChunkStream_ids:
  "(\<forall>k. \<exists>csw'. create_many (95 + k) NewChunkStreamWriter 2 =
       (map (\<lambda>j. Ok (word_of_nat j)) [5..<100] @ replicate k (Err ErrMaxChunkStreams), csw') \<and>
     dom (csw_chunkStreams csw') = {i. 2 \<le> i \<and> i < CS_ID_MAX}) \<and>
   (\<forall>p csw. case CreateChunkStream csw p of
      (Ok i, csw') \<Rightarrow> csw_chunkStreams csw i = None \<and>
        (\<exists>q. priority_of p = Some q \<and> csw_chunkStreams csw' = (csw_chunkStreams csw)(i \<mapsto> new_outChunkStream q))
    | (Err e, csw') \<Rightarrow> csw' = csw \<and>
        (e = (if priority_of p = None then ErrInvalidPriority else ErrMaxChunkStreams))
    | (Panic, csw') \<Rightarrow> False)"
proof
  have "dom (csw_chunkStreams NewChunkStreamWriter) = {i. 2 \<le> i \<and> unat i < 100 - 95}"
  proof -
    have "i = 2 \<or> i = 3 \<or> i = 4" if "2 \<le> i" "unat i < 5" for i :: u32
    proof -
      have "unat i = 2 \<or> unat i = 3 \<or> unat i = 4" using that by (simp add: word_le_nat_alt) arith
      moreover have "i = word_of_nat (unat i)" by simp
      ultimately show ?thesis by (elim disjE) simp_all
    qed
    moreover have "2 \<le> (3 :: u32)" "2 \<le> (4 :: u32)" by simp_all
    ultimately show ?thesis by (auto simp: NewChunkStreamWriter_def)
  qed
  from create_many_next [OF _ this, of 2 LowPriority]
  show "\<forall>k. \<exists>csw'. create_many (95 + k) NewChunkStreamWriter 2 =
       (map (\<lambda>j. Ok (word_of_nat j)) [5..<100] @ replicate k (Err ErrMaxChunkStreams), csw') \<and>
     dom (csw_chunkStreams csw') = {i. 2 \<le> i \<and> i < CS_ID_MAX}"
    by (simp add: priority_of_def word_less_nat_alt)
  show "\<forall>p csw. case CreateChunkStream csw p of
      (Ok i, csw') \<Rightarrow> csw_chunkStreams csw i = None \<and>
        (\<exists>q. priority_of p = Some q \<and> csw_chunkStreams csw' = (csw_chunkStreams csw)(i \<mapsto> new_outChunkStream q))
    | (Err e, csw') \<Rightarrow> csw' = csw \<and>
        (e = (if priority_of p = None then ErrInvalidPriority else ErrMaxChunkStreams))
    | (Panic, csw') \<Rightarrow> False"
    by (auto simp: CreateChunkStream_def split: option.split dest: find_free_Some)
qed

section \<open>The clock of a chunk stream\<close>


definition third_tag :: message where
  "third_tag = NewMessage 5 9 1 30 (Some (replicate 4 0))"

definition after_two_tags :: outChunkStream where
  "after_two_tags = (new_outChunkStream LowPriority)\<lparr>ocs_lastAbsoluteTimestamp := 20,
     ocs_lastHeader := Some (zero_header\<lparr>hFmt := 2, hChunkStreamID := 5, hTimestamp := 10,
       hMessageLength := 4, hMessageTypeID := 9, hMessageStreamID := 1\<rparr>)\<rparr>"

definition peer_after_two_tags :: inChunkStream where
  "peer_after_two_tags = (new_inChunkStream 5)\<lparr>ics_lastAbsoluteTimestamp := 20,
     ics_lastHeader := ocs_lastHeader after_two_tags\<rparr>"


section \<open>A chunk size below four\<close>

text \<open>Announcing a new chunk size while the chunk size is one, two or three makes the writer
  panic: \<^verbatim>\<open>writeChunk\<close> reads the size again from the buffer of the second chunk, which then holds
  fewer than four bytes.\<close>

theorem small_chunk_size_panics:
  assumes "mBuf msg = Some buf" and "length buf = 4" and "mSize msg = 4"
    and "mType msg = SET_CHUNK_SIZE" and "mChunkStreamID msg \<le> 65599"
    and "k \<noteq> 0" and "unat k < 4" and "wroom w = None"
  shows "writeMessage k msg cs w = Some Panic"
proof -
  let ?cs = "cs\<lparr>ocs_currentMessage := Some msg\<rparr>"
  obtain h where h: "newHeader ?cs = Ok (h, ?cs\<lparr>ocs_lastHeader := Some h, ocs_lastAbsoluteTimestamp := mTimestamp msg\<rparr>)"
    "hChunkStreamID h = mChunkStreamID msg"
    by (rule newHeader_current [of ?cs msg]) auto
  let ?cs1 = "?cs\<lparr>ocs_lastHeader := Some h, ocs_lastAbsoluteTimestamp := mTimestamp msg\<rparr>"
  let ?buf = "drop (unat k) buf"
  let ?msg = "msg\<lparr>mBuf := Some ?buf\<rparr>"
  let ?w = "w\<lparr>wout := wout w @ header_bytes h @ take (unat k) buf\<rparr>"
  obtain d where d: "BigEndian_Uint32 buf = Ok d" using BigEndian_Uint32_ok assms(2) by fastforce
  have "(if word_of_nat (length buf) \<noteq> mSize msg
          then Ok (continuation_header (mChunkStreamID msg), ?cs) else newHeader ?cs) = Ok (h, ?cs1)"
    using assms(2,3) h by simp
  from writeChunk_unlimited [OF _ assms(1) this, of w d k] assms h d
  have first: "writeChunk k ?cs w =
     Ok (int (length (header_bytes h)) + int (min (unat k) (length buf)), None,
         if d \<noteq> 0 then d else k, set_buf ?cs1 msg ?buf, ?w)"
    by simp
  have kpos: "0 < unat k" using assms(6) by (simp add: unat_gt_0)
  have len: "0 < length ?buf" "length ?buf < 4" using kpos assms(2,7) by auto
  then have "BigEndian_Uint32 ?buf = Panic" by (simp add: BigEndian_Uint32_panics)
  moreover have "(word_of_nat (length ?buf) :: u32) \<noteq> 4"
  proof
    assume "(word_of_nat (length ?buf) :: u32) = 4"
    then have "unat (word_of_nat (length ?buf) :: u32) = unat (4 :: u32)" by (rule arg_cong)
    moreover have "unat (word_of_nat (length ?buf) :: u32) = length ?buf"
      using len(2) by (intro unat_of_nat_small) simp
    moreover have "unat (4 :: u32) = 4" by simp
    ultimately show False using len(2) by linarith
  qed
  ultimately have "writeChunk k' (set_buf ?cs1 msg ?buf) ?w = Panic" for k'
    using assms(3,4,8) emits_None [OF emits_Header_Write, of "continuation_header (mChunkStreamID msg)" ?w] assms(5)
    by (simp add: writeChunk_def set_buf_def copy_payload_def)
  then have second: "writeMessage_loop k' (set_buf ?cs1 msg ?buf) n ?w = Some Panic" for k' n
    using len by (subst writeMessage_loop.simps) (simp add: set_buf_def)
  show ?thesis
    unfolding writeMessage_def
    by (subst writeMessage_loop.simps) (use assms(1,2) first second in auto)
qed

theorem small_chunk_size_panics_witness:
  "writeMessage 2 (NewMessage 2 1 0 0 (Some [0, 0, 16, 0])) (new_outChunkStream HighPriority)
     \<lparr>wout = [], wroom = None, wfail = EOF\<rparr> = Some Panic"
  by (rule small_chunk_size_panics [where buf = "[0, 0, 16, 0]"]) (simp_all add: NewMessage_def)

end
