(* ===== verification/Writer_Schedule.thy ===== *)
theory Writer_Schedule
  imports Writer_Properties
begin

text \<open>
  The goroutines around the chunk stream writer: any number of callers of \<^verbatim>\<open>Send\<close>, the one running
  \<^verbatim>\<open>WriteTo\<close>, callers of \<^verbatim>\<open>CreateChunkStream\<close> and of \<^verbatim>\<open>Close\<close>. A step of the relation is what happens
  between two synchronisations on the channels of \<^verbatim>\<open>src/chunkstreamwriter.go\<close>.

  A call of \<^verbatim>\<open>Send\<close> either returns at once (unknown chunk stream) or blocks in its \<^verbatim>\<open>select\<close>. The
  \<^verbatim>\<open>select\<close> of \<^verbatim>\<open>WriteTo\<close> takes any of the blocked calls, whichever queue it offers its closure on, or
  the closed \<^verbatim>\<open>done\<close> channel. The closure runs in the goroutine of \<^verbatim>\<open>WriteTo\<close>, to its end: only this
  goroutine touches the chunk size and the chunk streams' contents, and its caller waits for the
  error. A closure that panics stops every goroutine.
\<close>

section \<open>The step relation\<close>

text \<open>\<open>sc_calls\<close> are the calls of \<^verbatim>\<open>Send\<close> made so far, numbered by the caller; \<open>sc_waiting\<close> the blocked
  ones; \<open>sc_results\<close> what the others returned, in order of their return; \<open>sc_served\<close> those whose
  message was written without an error.\<close>

record sched =
  sc_csw :: chunkStreamWriter
  sc_out :: writer
  sc_running :: bool
  sc_crashed :: bool
  sc_calls :: "nat \<rightharpoonup> message"
  sc_waiting :: "nat list"
  sc_results :: "(nat \<times> go_error option) list"
  sc_served :: "message list"

definition sched_init :: "writer \<Rightarrow> sched" where
  "sched_init w = \<lparr>sc_csw = NewChunkStreamWriter, sc_out = w, sc_running = True, sc_crashed = False,
     sc_calls = Map.empty, sc_waiting = [], sc_results = [], sc_served = []\<rparr>"

definition finish :: "sched \<Rightarrow> nat \<Rightarrow> go_error option \<Rightarrow> sched" where
  "finish s i err = s\<lparr>sc_waiting := remove1 i (sc_waiting s), sc_results := sc_results s @ [(i, err)]\<rparr>"

inductive sched_step :: "sched \<Rightarrow> sched \<Rightarrow> bool" where
  send_unknown:
    "\<lbrakk>\<not> sc_crashed s; sc_calls s i = None;
      csw_chunkStreams (sc_csw s) (mChunkStreamID msg) = None\<rbrakk> \<Longrightarrow>
     sched_step s (s\<lparr>sc_calls := (sc_calls s)(i \<mapsto> msg),
       sc_results := sc_results s @ [(i, Some ErrInvalidChunkStreamID)]\<rparr>)"
| send_wait:
    "\<lbrakk>\<not> sc_crashed s; sc_calls s i = None;
      csw_chunkStreams (sc_csw s) (mChunkStreamID msg) = Some cs\<rbrakk> \<Longrightarrow>
     sched_step s (s\<lparr>sc_calls := (sc_calls s)(i \<mapsto> msg), sc_waiting := sc_waiting s @ [i]\<rparr>)"
| take_message:
    "\<lbrakk>\<not> sc_crashed s; sc_running s; i \<in> set (sc_waiting s); sc_calls s i = Some msg;
      serve (sc_csw s) msg (sc_out s) = Some (Ok (err, csw', w'))\<rbrakk> \<Longrightarrow>
     sched_step s ((finish s i err)\<lparr>sc_csw := csw', sc_out := w',
       sc_served := (if err = None then sc_served s @ [msg] else sc_served s)\<rparr>)"
| take_panic:
    "\<lbrakk>\<not> sc_crashed s; sc_running s; i \<in> set (sc_waiting s); sc_calls s i = Some msg;
      serve (sc_csw s) msg (sc_out s) = Some Panic\<rbrakk> \<Longrightarrow>
     sched_step s (s\<lparr>sc_crashed := True\<rparr>)"
| writer_returns:
    "\<lbrakk>\<not> sc_crashed s; sc_running s; csw_done (sc_csw s)\<rbrakk> \<Longrightarrow> sched_step s (s\<lparr>sc_running := False\<rparr>)"
| send_closed:
    "\<lbrakk>\<not> sc_crashed s; i \<in> set (sc_waiting s); csw_done (sc_csw s)\<rbrakk> \<Longrightarrow>
     sched_step s (finish s i (Some ErrClosedChunkStream))"
| close_writer:
    "\<not> sc_crashed s \<Longrightarrow> sched_step s (s\<lparr>sc_csw := Close (sc_csw s)\<rparr>)"
| create_stream:
    "\<lbrakk>\<not> sc_crashed s; CreateChunkStream (sc_csw s) p = (x, csw')\<rbrakk> \<Longrightarrow>
     sched_step s (s\<lparr>sc_csw := csw'\<rparr>)"

inductive_cases sched_stepE: "sched_step s t"

inductive reachable :: "writer \<Rightarrow> sched \<Rightarrow> bool" for w where
  start: "reachable w (sched_init w)"
| more: "reachable w s \<Longrightarrow> sched_step s t \<Longrightarrow> reachable w t"

section \<open>Bookkeeping of the calls\<close>

definition calls_inv :: "sched \<Rightarrow> bool" where
  "calls_inv s \<longleftrightarrow>
     distinct (sc_waiting s @ map fst (sc_results s)) \<and>
     set (sc_waiting s) \<union> fst ` set (sc_results s) = dom (sc_calls s) \<and>
     (\<forall>i\<in>set (sc_waiting s). \<exists>msg. sc_calls s i = Some msg \<and>
        csw_chunkStreams (sc_csw s) (mChunkStreamID msg) \<noteq> None) \<and>
     map Some (sc_served s) =
       map (sc_calls s \<circ> fst) (filter (\<lambda>(i, err). err = None) (sc_results s)) \<and>
     csw_chunkSize (sc_csw s) \<noteq> 0 \<and> (sc_running s \<or> csw_done (sc_csw s))"

lemma serve_dom:
  assumes "serve csw msg w = Some (Ok (err, csw', w'))"
  shows "dom (csw_chunkStreams csw') = dom (csw_chunkStreams csw) \<and> csw_done csw' = csw_done csw"
  using assms
  by (auto simp: serve_def store_stream_def split: option.splits res.splits if_splits)

lemma CreateChunkStream_mono:
  assumes "CreateChunkStream csw p = (x, csw')"
  shows "dom (csw_chunkStreams csw) \<subseteq> dom (csw_chunkStreams csw') \<and> csw_done csw' = csw_done csw \<and>
     csw_chunkSize csw' = csw_chunkSize csw"
  using assms by (auto simp: CreateChunkStream_def split: option.splits)

lemma filter_calls_cong:
  assumes "\<forall>i \<in> fst ` set rs. m' i = m i"
  shows "map (m' \<circ> fst) (filter P rs) = map (m \<circ> fst) (filter P rs)"
  using assms by (intro map_cong) auto

lemma calls_inv_init: "calls_inv (sched_init w)"
  by (simp add: calls_inv_def sched_init_def NewChunkStreamWriter_def)

text \<open>A call that returns: it leaves the blocked ones and gets its one result.\<close>

lemma calls_inv_finish:
  assumes inv: "calls_inv s" and i: "i \<in> set (sc_waiting s)" and msg: "sc_calls s i = Some msg"
    and csw: "dom (csw_chunkStreams (sc_csw s)) \<subseteq> dom (csw_chunkStreams csw')"
      "csw_chunkSize csw' \<noteq> 0" "sc_running s \<or> csw_done csw'"
  shows "calls_inv ((finish s i err)\<lparr>sc_csw := csw', sc_out := w',
     sc_served := (if err = None then sc_served s @ [msg] else sc_served s)\<rparr>)"
proof -
  have "distinct (remove1 i (sc_waiting s) @ map fst (sc_results s @ [(i, err)]))"
    using inv i by (auto simp: calls_inv_def)
  moreover have "set (remove1 i (sc_waiting s)) \<union> fst ` set (sc_results s @ [(i, err)]) = dom (sc_calls s)"
    using inv i by (auto simp: calls_inv_def)
  moreover have "\<exists>msg. sc_calls s j = Some msg \<and> csw_chunkStreams csw' (mChunkStreamID msg) \<noteq> None"
    if "j \<in> set (remove1 i (sc_waiting s))" for j
  proof -
    have "j \<in> set (sc_waiting s)" using that notin_set_remove1 by fast
    then show ?thesis using inv csw(1) unfolding calls_inv_def by blast
  qed
  ultimately show ?thesis
    using inv msg csw(2,3) by (auto simp: calls_inv_def finish_def)
qed

lemma calls_inv_csw:
  assumes inv: "calls_inv s" and more: "dom (csw_chunkStreams (sc_csw s)) \<subseteq> dom (csw_chunkStreams csw')"
    and rest: "csw_chunkSize csw' \<noteq> 0" "sc_running s \<or> csw_done csw'"
  shows "calls_inv (s\<lparr>sc_csw := csw'\<rparr>)"
proof -
  have keeps: "csw_chunkStreams csw' j \<noteq> None" if "csw_chunkStreams (sc_csw s) j \<noteq> None" for j
    using that more by blast
  have "\<forall>i\<in>set (sc_waiting s). \<exists>m. sc_calls s i = Some m \<and> csw_chunkStreams csw' (mChunkStreamID m) \<noteq> None"
  proof
    fix i assume "i \<in> set (sc_waiting s)"
    then obtain m where "sc_calls s i = Some m" "csw_chunkStreams (sc_csw s) (mChunkStreamID m) \<noteq> None"
      using inv unfolding calls_inv_def by blast
    with keeps show "\<exists>m. sc_calls s i = Some m \<and> csw_chunkStreams csw' (mChunkStreamID m) \<noteq> None"
      by blast
  qed
  then show ?thesis using inv rest unfolding calls_inv_def by simp
qed

lemma calls_inv_new_call:
  assumes inv: "calls_inv s" and i: "sc_calls s i = None"
  shows "i \<notin> set (sc_waiting s)" "i \<notin> fst ` set (sc_results s)"
    "map ((sc_calls s)(i \<mapsto> msg) \<circ> fst) (filter P (sc_results s)) = map (sc_calls s \<circ> fst) (filter P (sc_results s))"
proof -
  have "i \<notin> dom (sc_calls s)" using i by auto
  then show fresh: "i \<notin> set (sc_waiting s)" "i \<notin> fst ` set (sc_results s)"
    using inv unfolding calls_inv_def by blast+
  show "map ((sc_calls s)(i \<mapsto> msg) \<circ> fst) (filter P (sc_results s)) = map (sc_calls s \<circ> fst) (filter P (sc_results s))"
    using fresh(2) by (intro filter_calls_cong) auto
qed

lemma calls_inv_step:
  assumes "sched_step s t" and inv: "calls_inv s"
    and small: "\<forall>i msg buf. sc_calls t i = Some msg \<and> mBuf msg = Some buf \<longrightarrow> length buf < 2 ^ 32"
  shows "calls_inv t"
  using assms(1)
proof cases
  case (send_unknown i msg)
  note new = calls_inv_new_call [OF inv send_unknown(3)]
  have "\<exists>m. ((sc_calls s)(i \<mapsto> msg)) j = Some m \<and> csw_chunkStreams (sc_csw s) (mChunkStreamID m) \<noteq> None"
    if "j \<in> set (sc_waiting s)" for j
    using that new(1) inv by (auto simp: calls_inv_def)
  then show ?thesis using inv new send_unknown(1) by (auto simp: calls_inv_def)
next
  case (send_wait i msg cs)
  note new = calls_inv_new_call [OF inv send_wait(3)]
  have "\<exists>m. ((sc_calls s)(i \<mapsto> msg)) j = Some m \<and> csw_chunkStreams (sc_csw s) (mChunkStreamID m) \<noteq> None"
    if "j \<in> set (sc_waiting s @ [i])" for j
    using that new(1) inv send_wait(4) by (auto simp: calls_inv_def)
  then show ?thesis using inv new send_wait(1) by (auto simp: calls_inv_def)
next
  case (take_message i msg err csw' w')
  have "csw_chunkSize csw' \<noteq> 0"
    using serve_serves [of msg "sc_csw s" "sc_out s"] small inv take_message
    by (auto simp: calls_inv_def finish_def)
  then show ?thesis
    unfolding take_message(1)
    using inv serve_dom [OF take_message(6)] take_message(3)
    by (intro calls_inv_finish [OF inv take_message(4,5)]) (auto simp: calls_inv_def)
next
  case (take_panic i msg)
  then show ?thesis using inv by (simp add: calls_inv_def)
next
  case writer_returns
  then show ?thesis using inv by (simp add: calls_inv_def)
next
  case (send_closed i)
  obtain msg where "sc_calls s i = Some msg" using inv send_closed(3) by (auto simp: calls_inv_def)
  from calls_inv_finish [OF inv send_closed(3) this order_refl, of "Some ErrClosedChunkStream" "sc_out s"]
  show ?thesis using inv send_closed(1) by (simp add: calls_inv_def finish_def)
next
  case close_writer
  then show ?thesis using inv by (simp add: calls_inv_def Close_def)
next
  case (create_stream p x csw')
  note mono = CreateChunkStream_mono [OF create_stream(3)]
  show ?thesis unfolding create_stream(1)
    using mono inv by (intro calls_inv_csw [OF inv]) (auto simp: calls_inv_def)
qed

text \<open>Calls are never forgotten.\<close>

lemma sched_step_calls: "sched_step s t \<Longrightarrow> sc_calls s \<subseteq>\<^sub>m sc_calls t"
  by (erule sched_step.cases) (auto simp: map_le_def finish_def)

lemma map_le_Some: "m \<subseteq>\<^sub>m m' \<Longrightarrow> m i = Some x \<Longrightarrow> m' i = Some x"
  by (metis domI map_le_def)

definition small_calls :: "sched \<Rightarrow> bool" where
  "small_calls s \<longleftrightarrow> (\<forall>i msg buf. sc_calls s i = Some msg \<and> mBuf msg = Some buf \<longrightarrow> length buf < 2 ^ 32)"

lemma reachable_calls_inv: "reachable w s \<Longrightarrow> small_calls s \<Longrightarrow> calls_inv s"
proof (induction rule: reachable.induct)
  case start
  show ?case by (rule calls_inv_init)
next
  case (more s t)
  have "small_calls s"
    using more.prems map_le_Some [OF sched_step_calls [OF more.hyps(2)]]
    unfolding small_calls_def by blast
  then show ?case
    using calls_inv_step [OF more.hyps(2)] more by (auto simp: small_calls_def)
qed

section \<open>What the peer receives\<close>

text \<open>The bytes on the connection, read by the peer's loop, give the messages served so far, and leave
  its reader in step with the writer.\<close>

definition peer_inv :: "sched \<Rightarrow> bool" where
  "peer_inv s \<longleftrightarrow> carries (sc_csw s) (sc_out s) (sc_served s) \<and> \<not> sc_crashed s \<and>
     (\<forall>i err. (i, err) \<in> set (sc_results s) \<longrightarrow>
        err = None \<or> err = Some ErrInvalidChunkStreamID \<or> err = Some ErrClosedChunkStream \<and> csw_done (sc_csw s))"

definition sendable_calls :: "sched \<Rightarrow> bool" where
  "sendable_calls s \<longleftrightarrow> (\<forall>i msg. sc_calls s i = Some msg \<longrightarrow> sendable msg)"

lemma sendable_small: "sendable msg \<Longrightarrow> mBuf msg = Some buf \<Longrightarrow> length buf < 2 ^ 32"
  by (simp add: sendable_def)

lemma sendable_calls_small: "sendable_calls s \<Longrightarrow> small_calls s"
  unfolding sendable_calls_def small_calls_def using sendable_small by blast

lemma sendable_calls_earlier: "sendable_calls t \<Longrightarrow> sched_step s t \<Longrightarrow> sendable_calls s"
  using map_le_Some [OF sched_step_calls] unfolding sendable_calls_def by blast

lemma peer_inv_init: "wroom w = None \<Longrightarrow> wout w = [] \<Longrightarrow> peer_inv (sched_init w)"
  by (simp add: peer_inv_def sched_init_def carries_new)

lemma peer_inv_step:
  assumes "sched_step s t" and peer: "peer_inv s" and calls: "calls_inv s" and send: "sendable_calls t"
  shows "peer_inv t"
  using assms(1)
proof cases
  case (send_unknown i msg)
  then show ?thesis using peer by (auto simp: peer_inv_def)
next
  case (send_wait i msg cs)
  then show ?thesis using peer by (simp add: peer_inv_def)
next
  case (take_message i msg err csw' w')
  have "csw_chunkStreams (sc_csw s) (mChunkStreamID msg) \<noteq> None"
    using calls take_message(4,5) unfolding calls_inv_def by fastforce
  moreover have "sendable msg"
    using send take_message(1,5) by (auto simp: sendable_calls_def finish_def)
  ultimately show ?thesis
    using carries_serve [of "sc_csw s" "sc_out s" "sc_served s" msg] take_message(1,6) peer serve_dom [OF take_message(6)]
    by (auto simp: peer_inv_def finish_def)
next
  case (take_panic i msg)
  have "csw_chunkStreams (sc_csw s) (mChunkStreamID msg) \<noteq> None"
    using calls take_panic(4,5) unfolding calls_inv_def by fastforce
  moreover have "sendable msg"
    using send take_panic(1,5) by (auto simp: sendable_calls_def)
  ultimately show ?thesis using carries_serve [of "sc_csw s" "sc_out s" "sc_served s" msg] peer take_panic(6) by (auto simp: peer_inv_def)
next
  case writer_returns
  then show ?thesis using peer by (simp add: peer_inv_def)
next
  case (send_closed i)
  then show ?thesis using peer by (auto simp: peer_inv_def finish_def)
next
  case close_writer
  then show ?thesis using peer carries_Close [of "sc_csw s"] by (auto simp: peer_inv_def Close_def)
next
  case (create_stream p x csw')
  then show ?thesis
    using peer carries_CreateChunkStream [OF _ create_stream(3)] CreateChunkStream_mono [OF create_stream(3)]
    by (auto simp: peer_inv_def)
qed

lemma reachable_peer_inv:
  "reachable w s \<Longrightarrow> wroom w = None \<Longrightarrow> wout w = [] \<Longrightarrow> sendable_calls s \<Longrightarrow> peer_inv s"
proof (induction rule: reachable.induct)
  case start
  then show ?case by (intro peer_inv_init)
next
  case (more s t)
  have "sendable_calls s" by (rule sendable_calls_earlier [OF more.prems(3) more.hyps(2)])
  with more show ?case
    by (intro peer_inv_step [OF more.hyps(2)] reachable_calls_inv [OF more.hyps(1)] sendable_calls_small) auto
qed

section \<open>Properties\<close>


definition memory_writer :: writer where
  "memory_writer = \<lparr>wout = [], wroom = None, wfail = EOF\<rparr>"

definition sample_command :: message where
  "sample_command = NewMessage 3 20 0 10 (Some (replicate 300 7))"

text \<open>A sender is served, then the writer is closed.\<close>

lemma sample_schedule:
  "\<exists>s. reachable memory_writer s \<and> sendable_calls s \<and> sc_served s = [sample_command] \<and>
     sc_results s = [(0, None)] \<and> sc_waiting s = [1] \<and> csw_done (sc_csw s) \<and> sc_running s \<and>
     sc_calls s = [0 \<mapsto> sample_command, 1 \<mapsto> sample_command] \<and> \<not> sc_crashed s"
proof -
  have send: "sendable sample_command" by (simp add: sample_command_def NewMessage_def sendable_def)
  let ?w = memory_writer
  let ?s1 = "(sched_init ?w)\<lparr>sc_calls := [0 \<mapsto> sample_command], sc_waiting := [0]\<rparr>"
  let ?s2 = "?s1\<lparr>sc_calls := [0 \<mapsto> sample_command, 1 \<mapsto> sample_command], sc_waiting := [0, 1]\<rparr>"
  have out: "csw_chunkStreams NewChunkStreamWriter (mChunkStreamID sample_command) =
      Some (new_outChunkStream HighPriority)"
    by (simp add: NewChunkStreamWriter_def sample_command_def NewMessage_def)
  have "wroom ?w = None" by (simp add: memory_writer_def)
  from serve_received [OF in_step_new send out this] obtain csw' w' where
    run: "serve NewChunkStreamWriter sample_command ?w = Some (Ok (None, csw', w'))" by blast
  let ?s3 = "(finish ?s2 0 None)\<lparr>sc_csw := csw', sc_out := w', sc_served := [sample_command]\<rparr>"
  let ?s4 = "?s3\<lparr>sc_csw := Close (sc_csw ?s3)\<rparr>"
  have "sched_step (sched_init ?w) ?s1"
    using sched_step.send_wait [of "sched_init ?w" 0 sample_command] out by (simp add: sched_init_def)
  moreover have "sched_step ?s1 ?s2"
    using sched_step.send_wait [of ?s1 1 sample_command] out by (simp add: sched_init_def fun_upd_twist)
  moreover have "sched_step ?s2 ?s3"
    using sched_step.take_message [of ?s2 0 sample_command None csw' w'] run by (simp add: sched_init_def)
  moreover have "sched_step ?s3 ?s4"
    by (rule sched_step.close_writer) (simp add: finish_def sched_init_def)
  ultimately have "reachable ?w ?s4" by (intro reachable.more [OF reachable.more [OF reachable.more [OF reachable.more [OF reachable.start]]]])
  with send show ?thesis
    by (intro exI [of _ ?s4]) (auto simp: sendable_calls_def finish_def sched_init_def Close_def)
qed


text \<open>C20. Every call of \<^verbatim>\<open>Send\<close> is answered at most once and none is stranded: the calls are those
  blocked and those that returned, each once; unless a closure has panicked, each blocked call has
  a step that answers it (its message is served while \<^verbatim>\<open>WriteTo\<close> runs, \<^verbatim>\<open>ErrClosedChunkStream\<close> once
  it has returned); and \<^verbatim>\<open>WriteTo\<close> returns only after \<^verbatim>\<open>Close\<close>, never because of a failed write.\<close>

theorem sends_answered:
  assumes "reachable w s" and "small_calls s"
  shows "distinct (sc_waiting s @ map fst (sc_results s))
     \<and> set (sc_waiting s) \<union> fst ` set (sc_results s) = dom (sc_calls s)
     \<and> (sc_crashed s \<or> (\<forall>i\<in>set (sc_waiting s). \<exists>t. sched_step s t \<and>
          (sc_crashed t \<or> i \<notin> set (sc_waiting t) \<and> (\<exists>err. (i, err) \<in> set (sc_results t)))))
     \<and> (sc_running s \<or> csw_done (sc_csw s))"
proof -
  have inv: "calls_inv s" by (rule reachable_calls_inv [OF assms])
  have "\<exists>t. sched_step s t \<and> (sc_crashed t \<or> i \<notin> set (sc_waiting t) \<and> (\<exists>err. (i, err) \<in> set (sc_results t)))"
    if i: "i \<in> set (sc_waiting s)" and ok: "\<not> sc_crashed s" for i
  proof -
    have gone: "i \<notin> set (remove1 i (sc_waiting s))" using inv by (simp add: calls_inv_def)
    obtain msg where msg: "sc_calls s i = Some msg" using inv i unfolding calls_inv_def by blast
    show ?thesis
    proof (cases "sc_running s")
      case True
      have "csw_chunkSize (sc_csw s) \<noteq> 0" using inv by (simp add: calls_inv_def)
      with serve_serves [of msg "sc_csw s" "sc_out s"] assms(2) msg obtain y
        where y: "serve (sc_csw s) msg (sc_out s) = Some y"
          "case y of Ok (e, csw', w') \<Rightarrow> csw_chunkSize csw' \<noteq> 0 | Err e \<Rightarrow> False | Panic \<Rightarrow> True"
        by (auto simp: small_calls_def)
      show ?thesis
      proof (cases y)
        case (Ok z)
        obtain err csw' w' where "z = (err, csw', w')" by (cases z)
        with sched_step.take_message [OF ok True i msg] y Ok gone show ?thesis
          by (fastforce simp: finish_def)
      next
        case Panic
        with sched_step.take_panic [OF ok True i msg] y show ?thesis by fastforce
      qed (use y in simp)
    next
      case False
      then have "csw_done (sc_csw s)" using inv by (simp add: calls_inv_def)
      from sched_step.send_closed [OF ok i this] gone show ?thesis by (fastforce simp: finish_def)
    qed
  qed
  then show ?thesis using inv by (auto simp: calls_inv_def)
qed

theorem sends_answered_witness:
  "\<exists>s t. reachable memory_writer s \<and> sc_waiting s = [1] \<and> csw_done (sc_csw s) \<and> sched_step s t \<and>
     (sc_crashed t \<or> 1 \<notin> set (sc_waiting t) \<and> (\<exists>err. (1, err) \<in> set (sc_results t)))"
proof -
  obtain s where s: "reachable memory_writer s" "sendable_calls s" "sc_waiting s = [1]" "csw_done (sc_csw s)"
    "\<not> sc_crashed s"
    using sample_schedule by blast
  from sends_answered [OF s(1) sendable_calls_small [OF s(2)]] s show ?thesis by auto
qed

end
