(* ===== verification/Control_Messages.thy ===== *)
theory Control_Messages
  imports Chunk_Roundtrip
begin

text \<open>
  The protocol control messages of \<^verbatim>\<open>src/chunkstream.go\<close> and the stream-begin event of \<^verbatim>\<open>src/conn.go\<close>:
  each is built in a buffer with \<^verbatim>\<open>binary.Write\<close> and handed to \<^verbatim>\<open>Send\<close> on the protocol control
  stream. \<^verbatim>\<open>Send\<close> is modelled by its effect when \<^verbatim>\<open>WriteTo\<close> takes the message, \<open>serve\<close>.
\<close>

definition EVENT_STREAM_BEGIN :: u16 where [simp]: "EVENT_STREAM_BEGIN = 0"

text \<open>The other user control events have names; the package sends and reads none of them.\<close>

definition EVENT_STREAM_EOF :: u16 where "EVENT_STREAM_EOF = 1"
definition EVENT_STREAM_DRY :: u16 where "EVENT_STREAM_DRY = 2"
definition EVENT_SET_BUFFER_LENGTH :: u16 where "EVENT_SET_BUFFER_LENGTH = 3"
definition EVENT_STREAM_IS_RECORDED :: u16 where "EVENT_STREAM_IS_RECORDED = 4"
definition EVENT_PING_REQUEST :: u16 where "EVENT_PING_REQUEST = 6"
definition EVENT_PING_RESPONSE :: u16 where "EVENT_PING_RESPONSE = 7"
definition EVENT_REQUEST_VERIFY :: u16 where "EVENT_REQUEST_VERIFY = 0x1a"
definition EVENT_RESPOND_VERIFY :: u16 where "EVENT_RESPOND_VERIFY = 0x1b"
definition EVENT_BUFFER_EMPTY :: u16 where "EVENT_BUFFER_EMPTY = 0x1f"
definition EVENT_BUFFER_READY :: u16 where "EVENT_BUFFER_READY = 0x20"

text \<open>No two events share a number, so the two bytes after the event type tell them apart.\<close>

lemma events_distinct_on_wire:
  "distinct (map be16_put [EVENT_STREAM_BEGIN, EVENT_STREAM_EOF, EVENT_STREAM_DRY, EVENT_SET_BUFFER_LENGTH,
     EVENT_STREAM_IS_RECORDED, EVENT_PING_REQUEST, EVENT_PING_RESPONSE, EVENT_REQUEST_VERIFY, EVENT_RESPOND_VERIFY,
     EVENT_BUFFER_EMPTY, EVENT_BUFFER_READY])"
  by code_simp

text \<open>The limit types of \<^verbatim>\<open>SetPeerBandwidth\<close>.\<close>

definition BANDWIDTH_LIMIT_HARD :: u8 where "BANDWIDTH_LIMIT_HARD = 0"
definition BANDWIDTH_LIMIT_SOFT :: u8 where "BANDWIDTH_LIMIT_SOFT = 1"
definition BANDWIDTH_LIMIT_DYNAMIC :: u8 where "BANDWIDTH_LIMIT_DYNAMIC = 2"

definition control_message :: "u8 \<Rightarrow> u8 list \<Rightarrow> message" where
  "control_message t buf = \<lparr>mChunkStreamID = CS_ID_PROTOCOL_CONTROL, mTimestamp = 0,
     mSize = word_of_nat (length buf), mType = t, mStreamID = 0, mBuf = Some buf,
     mIsInbound = False, mAbsoluteTimestamp = 0\<rparr>"

type_synonym send_result = "(go_error option \<times> chunkStreamWriter \<times> writer) res option"

definition SendSetPeerBandwidth :: "chunkStreamWriter \<Rightarrow> u32 \<Rightarrow> u8 \<Rightarrow> writer \<Rightarrow> send_result" where
  "SendSetPeerBandwidth csw bw limit w =
     serve csw (control_message SET_PEER_BANDWIDTH (be32_put bw @ [limit])) w"

definition SendSetWindowSize :: "chunkStreamWriter \<Rightarrow> u32 \<Rightarrow> writer \<Rightarrow> send_result" where
  "SendSetWindowSize csw sz w =
     serve csw (control_message WINDOW_ACKNOWLEDGEMENT_SIZE (be32_put sz)) w"

definition SendSetChunkSize :: "chunkStreamWriter \<Rightarrow> u32 \<Rightarrow> writer \<Rightarrow> send_result" where
  "SendSetChunkSize csw chunkSize w =
     serve csw (control_message SET_CHUNK_SIZE (be32_put chunkSize)) w"

definition SendAcknowledgement :: "chunkStreamWriter \<Rightarrow> u32 \<Rightarrow> writer \<Rightarrow> send_result" where
  "SendAcknowledgement csw inCount w =
     serve csw (control_message ACKNOWLEDGEMENT (be32_put inCount)) w"

text \<open>Unexported, and sent with the type of an acknowledgement.\<close>

definition sendWindowAcknowledgementSize :: "chunkStreamWriter \<Rightarrow> u32 \<Rightarrow> writer \<Rightarrow> send_result" where
  "sendWindowAcknowledgementSize csw cnt w =
     serve csw (control_message ACKNOWLEDGEMENT (be32_put cnt)) w"

definition stream_begin_message :: "u32 \<Rightarrow> message" where
  "stream_begin_message streamId =
     control_message USER_CONTROL_MESSAGE (be16_put EVENT_STREAM_BEGIN @ be32_put streamId)"

section \<open>On the wire\<close>

text \<open>A control message has time zero, so its header is always a full one.\<close>

definition control_header :: "u8 \<Rightarrow> nat \<Rightarrow> header" where
  "control_header t n = zero_header\<lparr>hChunkStreamID := 2, hMessageLength := word_of_nat n, hMessageTypeID := t\<rparr>"

definition control_bytes :: "u8 \<Rightarrow> u8 list \<Rightarrow> u8 list" where
  "control_bytes t buf = [2, 0, 0, 0, 0, 0, word_of_nat (length buf), t, 0, 0, 0, 0] @ buf"

lemma control_message_fields [simp]:
  "mBuf (control_message t buf) = Some buf" "mType (control_message t buf) = t"
  "mSize (control_message t buf) = word_of_nat (length buf)" "mChunkStreamID (control_message t buf) = 2"
  "mTimestamp (control_message t buf) = 0" "mStreamID (control_message t buf) = 0"
  by (simp_all add: control_message_def)

lemma newHeader_control:
  "newHeader (cs\<lparr>ocs_currentMessage := Some (control_message t buf)\<rparr>) =
     Ok (control_header t (length buf),
       cs\<lparr>ocs_currentMessage := Some (control_message t buf),
          ocs_lastHeader := Some (control_header t (length buf)), ocs_lastAbsoluteTimestamp := 0\<rparr>)"
  by (simp add: newHeader_def choose_format_def set_extended_def base_header_def control_header_def
      zero_header_def Let_def)

lemma control_header_bytes:
  assumes "length buf < 256"
  shows "header_bytes (control_header t (length buf)) @ buf = control_bytes t buf"
proof -
  let ?n = "word_of_nat (length buf) :: u32"
  have n: "unat ?n = length buf" using assms by (simp add: unat_of_nat_small)
  have "drop_bit 8 ?n = 0" "drop_bit 16 ?n = 0"
    using assms n by (simp_all add: drop_bit_small)
  moreover have "ucast ?n = (word_of_nat (length buf) :: u8)"
  proof -
    have "unat (ucast ?n :: u8) = length buf" using assms n by (simp add: unat_ucast_narrow)
    moreover have "unat (word_of_nat (length buf) :: u8) = length buf"
      using assms by (intro unat_of_nat_small) simp
    ultimately show ?thesis by (simp add: word_unat_eq_iff)
  qed
  ultimately show ?thesis
    by (simp add: header_bytes_def basic_bytes_def message_header_bytes_def control_header_def
        control_bytes_def zero_header_def be24_put_def be32_put_def le32_put_def extended_bytes_def)
qed

lemma serve_control:
  assumes known: "csw_chunkStreams csw 2 = Some cs" and room: "wroom w = None"
    and k: "length buf \<le> unat (csw_chunkSize csw)" and buf: "buf \<noteq> []" "length buf < 256"
    and d: "(if t = SET_CHUNK_SIZE then BigEndian_Uint32 buf else Ok 0) = Ok d"
  shows "\<exists>csw'. serve csw (control_message t buf) w =
       Some (Ok (None, csw', w\<lparr>wout := wout w @ control_bytes t buf\<rparr>)) \<and>
     csw_chunkSize csw' = (if d \<noteq> 0 then d else csw_chunkSize csw)"
proof -
  have k0: "csw_chunkSize csw \<noteq> 0" using k buf(1) by auto
  have "length buf = unat (word_of_nat (length buf) :: u32)" using buf(2) by (simp add: unat_of_nat_small)
  with writeMessage_wire [of "control_message t buf" buf "csw_chunkSize csw" w cs, OF _ buf(1) _ _ k0 room newHeader_control, of d] k d
  have "writeMessage (csw_chunkSize csw) (control_message t buf) cs w = Some (Ok (
      int (length (message_wire (control_header t (length buf)) (unat (csw_chunkSize csw)) buf)), None,
      if d \<noteq> 0 then d else csw_chunkSize csw,
      set_buf (cs\<lparr>ocs_currentMessage := Some (control_message t buf),
        ocs_lastHeader := Some (control_header t (length buf)), ocs_lastAbsoluteTimestamp := 0\<rparr>)
        (control_message t buf) [],
      w\<lparr>wout := wout w @ message_wire (control_header t (length buf)) (unat (csw_chunkSize csw)) buf\<rparr>))"
    by simp
  moreover have "message_wire (control_header t (length buf)) (unat (csw_chunkSize csw)) buf = control_bytes t buf"
    using k control_header_bytes [OF buf(2)] by (simp add: message_wire_def)
  ultimately show ?thesis using known by (auto simp: serve_def store_stream_def)
qed

text \<open>What the reader does with it: one call of \<^verbatim>\<open>readChunk\<close>, whatever came before on the stream.\<close>

definition control_inbound :: "u8 \<Rightarrow> u8 list \<Rightarrow> message" where
  "control_inbound t buf = (control_message t buf)\<lparr>mIsInbound := True\<rparr>"

lemma readChunk_control:
  assumes buf: "length buf < 256" and k: "length buf \<le> unat (csr_chunkSize csr)"
  shows "readChunk csr \<lparr>rbytes = control_bytes t buf @ rest, rend = e\<rparr> =
     res_bind (handleMessage (touch csr 2) (control_inbound t buf)) (\<lambda>csr'.
       Ok (int (12 + length buf), None,
         csr'\<lparr>csr_chunkStreams := (csr_chunkStreams csr')(2 \<mapsto>
           (in_stream csr 2)\<lparr>ics_lastHeader := Some (control_header t (length buf)),
             ics_lastAbsoluteTimestamp := 0, ics_currentMessage := None\<rparr>)\<rparr>,
         \<lparr>rbytes = rest, rend = e\<rparr>))"
proof -
  let ?h = "control_header t (length buf)"
  let ?n = "word_of_nat (length buf) :: u32"
  have n: "unat ?n = length buf" using buf by (simp add: unat_of_nat_small)
  have h: "hFmt ?h = 0" "hChunkStreamID ?h = 2" "hTimestamp ?h = 0" "hMessageLength ?h = ?n"
    "on_wire ?h = ?h"
    by (simp_all add: control_header_def zero_header_def on_wire_def)
  have fit: "fields_fit ?h" using buf n h by (simp add: fields_fit_def)
  have complete: "complete_header (in_stream csr 2) 0 ?h = Ok (?h, 0, None)"
    using h by (simp add: complete_header_def)
  have len: "length (header_bytes ?h) = 12"
    using arg_cong [OF control_header_bytes [OF buf, of t], of length] by (simp add: control_bytes_def)
  have m: "new_inbound 2 ?h 0 = control_inbound t [] \<lparr>mSize := ?n\<rparr>" 
    by (simp add: new_inbound_def control_inbound_def control_message_def control_header_def
        zero_header_def RealTimestamp_def)
  have append: "append_buf (new_inbound 2 ?h 0) buf = control_inbound t buf"
    by (simp add: m append_buf_def control_inbound_def control_message_def)
  have remain: "Remain (new_inbound 2 ?h 0) = ?n"
    by (simp add: m Remain_def control_inbound_def control_message_def)
  have small: "\<not> csr_chunkSize csr < ?n" using k n by (simp add: word_less_nat_alt)
  let ?cs = "(in_stream csr 2)\<lparr>ics_lastHeader := Some ?h, ics_lastAbsoluteTimestamp := 0\<rparr>"
  have "readChunk csr \<lparr>rbytes = header_bytes ?h @ buf @ rest, rend = e\<rparr> =
      read_payload (touch csr 2) 2 ?cs (new_inbound 2 ?h 0) False 12 \<lparr>rbytes = buf @ rest, rend = e\<rparr>"
    using readChunk_parsed [of ?h csr ?h 0 None "buf @ rest" e] h fit complete len by simp
  also have "\<dots> = res_bind (handleMessage (touch csr 2) (control_inbound t buf)) (\<lambda>csr.
       Ok (int (12 + length buf), None,
         csr\<lparr>csr_chunkStreams := (csr_chunkStreams csr)(2 \<mapsto> ?cs\<lparr>ics_currentMessage := None\<rparr>)\<rparr>,
         \<lparr>rbytes = rest, rend = e\<rparr>))"
    using small n by (simp add: read_payload_def remain Let_def CopyN_from_append touch_def append)
  finally have run: "readChunk csr \<lparr>rbytes = header_bytes ?h @ buf @ rest, rend = e\<rparr> = \<dots>" .
  show ?thesis
    using run by (simp flip: append_assoc add: control_header_bytes [OF buf])
qed

section \<open>Properties\<close>

text \<open>C37. Announcing a chunk size: \<^verbatim>\<open>SendSetChunkSize\<close> puts exactly these 16 bytes on the wire, and the
  next chunk the peer reads sets its chunk size to the same value; both sides then agree, unless the
  size is zero, which the writer ignores and the reader takes.\<close>

theorem SendSetChunkSize_takes_effect:
  assumes "csw_chunkStreams csw CS_ID_PROTOCOL_CONTROL = Some cs" and "wroom w = None"
    and "4 \<le> unat (csw_chunkSize csw)" and "4 \<le> unat (csr_chunkSize csr)"
  shows "\<exists>csw' csr'.
     SendSetChunkSize csw x w = Some (Ok (None, csw',
       w\<lparr>wout := wout w @ control_bytes SET_CHUNK_SIZE (be32_put x)\<rparr>)) \<and>
     readChunk csr \<lparr>rbytes = control_bytes SET_CHUNK_SIZE (be32_put x) @ rest, rend = e\<rparr> =
       Ok (16, None, csr', \<lparr>rbytes = rest, rend = e\<rparr>) \<and>
     csr_chunkSize csr' = x \<and> csw_chunkSize csw' = (if x \<noteq> 0 then x else csw_chunkSize csw)"
proof -
  have len: "length (be32_put x) = 4" "be32_put x \<noteq> []" by (simp_all add: be32_put_def)
  have d: "(if SET_CHUNK_SIZE = SET_CHUNK_SIZE then BigEndian_Uint32 (be32_put x) else Ok 0) = Ok x"
    by (simp add: codec_get)
  have "csw_chunkStreams csw 2 = Some cs" using assms(1) by simp
  from serve_control [OF this assms(2) _ len(2) _ d] assms(3) len(1) obtain csw' where
    "SendSetChunkSize csw x w = Some (Ok (None, csw',
       w\<lparr>wout := wout w @ control_bytes SET_CHUNK_SIZE (be32_put x)\<rparr>))"
    "csw_chunkSize csw' = (if x \<noteq> 0 then x else csw_chunkSize csw)"
    unfolding SendSetChunkSize_def by auto
  moreover have "\<exists>csr'. readChunk csr \<lparr>rbytes = control_bytes SET_CHUNK_SIZE (be32_put x) @ rest, rend = e\<rparr> =
       Ok (16, None, csr', \<lparr>rbytes = rest, rend = e\<rparr>) \<and> csr_chunkSize csr' = x"
    using assms(4) len(1)
    by (subst readChunk_control) (simp_all add: handleMessage_def control_inbound_def codec_get)
  ultimately show ?thesis by blast
qed

theorem SendSetChunkSize_takes_effect_witness:
  "\<exists>csw' csr'.
     SendSetChunkSize NewChunkStreamWriter 4096 \<lparr>wout = [], wroom = None, wfail = EOF\<rparr> = Some (Ok (None, csw',
       \<lparr>wout = [2, 0, 0, 0, 0, 0, 4, 1, 0, 0, 0, 0, 0, 0, 16, 0], wroom = None, wfail = EOF\<rparr>)) \<and>
     readChunk NewChunkStreamReader
       \<lparr>rbytes = [2, 0, 0, 0, 0, 0, 4, 1, 0, 0, 0, 0, 0, 0, 16, 0] @ [3, 0], rend = EOF\<rparr> =
       Ok (16, None, csr', \<lparr>rbytes = [3, 0], rend = EOF\<rparr>) \<and>
     csr_chunkSize csr' = 4096 \<and> csw_chunkSize csw' = 4096"
proof -
  have bytes: "control_bytes SET_CHUNK_SIZE (be32_put 4096) = [2, 0, 0, 0, 0, 0, 4, 1, 0, 0, 0, 0, 0, 0, 16, 0]"
    by code_simp
  show ?thesis
    using SendSetChunkSize_takes_effect [of NewChunkStreamWriter "new_outChunkStream HighPriority"
        "\<lparr>wout = [], wroom = None, wfail = EOF\<rparr>" NewChunkStreamReader 4096 "[3, 0]" EOF, unfolded bytes]
    by (simp add: NewChunkStreamWriter_def NewChunkStreamReader_def)
qed

text \<open>Announcing a window size, acknowledging and telling a stream has begun: the peer's next chunk
  hands its handler the message as sent; the window size sets the peer's window, and nothing else
  touches a size.\<close>

theorem control_messages_take_effect:
  assumes "csw_chunkStreams csw CS_ID_PROTOCOL_CONTROL = Some cs" and "wroom w = None"
    and "6 \<le> unat (csw_chunkSize csw)" and "6 \<le> unat (csr_chunkSize csr)"
    and "(t, buf) \<in> {(WINDOW_ACKNOWLEDGEMENT_SIZE, be32_put x), (ACKNOWLEDGEMENT, be32_put x),
       (USER_CONTROL_MESSAGE, be16_put EVENT_STREAM_BEGIN @ be32_put x),
       (SET_PEER_BANDWIDTH, be32_put x @ [limit])}"
  shows "\<exists>csw' csr'.
     serve csw (control_message t buf) w = Some (Ok (None, csw', w\<lparr>wout := wout w @ control_bytes t buf\<rparr>)) \<and>
     readChunk csr \<lparr>rbytes = control_bytes t buf @ rest, rend = e\<rparr> =
       Ok (int (12 + length buf), None, csr', \<lparr>rbytes = rest, rend = e\<rparr>) \<and>
     csr_events csr' = csr_events csr @ [OnMessage (control_inbound t buf)] \<and>
     csr_windowSize csr' = (if t = WINDOW_ACKNOWLEDGEMENT_SIZE then x else csr_windowSize csr) \<and>
     csr_chunkSize csr' = csr_chunkSize csr \<and> csw_chunkSize csw' = csw_chunkSize csw"
proof -
  have len: "buf \<noteq> []" "length buf \<le> 6" "t \<noteq> SET_CHUNK_SIZE"
    using assms(5) by (auto simp: be32_put_def be16_put_def)
  have "csw_chunkStreams csw 2 = Some cs" using assms(1) by simp
  from serve_control [OF this assms(2) _ len(1), of t 0] assms(3) len obtain csw' where
    "serve csw (control_message t buf) w = Some (Ok (None, csw', w\<lparr>wout := wout w @ control_bytes t buf\<rparr>))"
    "csw_chunkSize csw' = csw_chunkSize csw"
    by auto
  moreover have "\<exists>csr'. readChunk csr \<lparr>rbytes = control_bytes t buf @ rest, rend = e\<rparr> =
       Ok (int (12 + length buf), None, csr', \<lparr>rbytes = rest, rend = e\<rparr>) \<and>
     csr_events csr' = csr_events csr @ [OnMessage (control_inbound t buf)] \<and>
     csr_windowSize csr' = (if t = WINDOW_ACKNOWLEDGEMENT_SIZE then x else csr_windowSize csr) \<and>
     csr_chunkSize csr' = csr_chunkSize csr"
    using assms(4,5) len
    by (subst readChunk_control) (auto simp: handleMessage_def control_inbound_def codec_get touch_def)
  ultimately show ?thesis by blast
qed

theorem control_messages_take_effect_witness:
  "\<exists>csw' csr'.
     serve NewChunkStreamWriter (control_message WINDOW_ACKNOWLEDGEMENT_SIZE (be32_put 2500000))
       \<lparr>wout = [], wroom = None, wfail = EOF\<rparr> = Some (Ok (None, csw',
         \<lparr>wout = [2, 0, 0, 0, 0, 0, 4, 5, 0, 0, 0, 0, 0, 38, 37, 160], wroom = None, wfail = EOF\<rparr>)) \<and>
     readChunk NewChunkStreamReader
       \<lparr>rbytes = [2, 0, 0, 0, 0, 0, 4, 5, 0, 0, 0, 0, 0, 38, 37, 160], rend = EOF\<rparr> =
       Ok (16, None, csr', \<lparr>rbytes = [], rend = EOF\<rparr>) \<and> csr_windowSize csr' = 2500000"
proof -
  have bytes: "control_bytes WINDOW_ACKNOWLEDGEMENT_SIZE (be32_put 2500000) =
      [2, 0, 0, 0, 0, 0, 4, 5, 0, 0, 0, 0, 0, 38, 37, 160]"
    by code_simp
  have len: "length (be32_put 2500000) = 4" by simp
  show ?thesis
    using control_messages_take_effect [of NewChunkStreamWriter "new_outChunkStream HighPriority"
        "\<lparr>wout = [], wroom = None, wfail = EOF\<rparr>" NewChunkStreamReader
        WINDOW_ACKNOWLEDGEMENT_SIZE "be32_put 2500000" 2500000 0 "[]" EOF, unfolded bytes len]
    by (auto simp: NewChunkStreamWriter_def NewChunkStreamReader_def)
qed

end
