(* ===== verification/Flv_Tag.thy ===== *)
theory Flv_Tag
  imports Rtmp_Message
begin

text \<open>
  The media tags of \<^verbatim>\<open>src/flvtag.go\<close> and the headers read from their first bytes. \<^verbatim>\<open>binary.Read\<close> of a byte
  from an empty buffer fails and leaves its target zero; the code ignores the error.
\<close>

record flvTag =
  ftType :: u8
  ftTimestamp :: u32
  ftSize :: u32
  ftBytes :: "u8 list"

record FlvAudioHeader =
  SoundFormat :: u8
  SoundRate :: u8
  SoundSize :: u8
  SoundType :: u8
  AACPacketType :: u8

record FlvVideoHeader =
  FrameType :: u8
  CodecID :: u8
  AVCPacketType :: u8

definition read_u8 :: "u8 list \<Rightarrow> u8 \<times> u8 list" where
  "read_u8 bs = (case bs of [] \<Rightarrow> (0, []) | b # bs \<Rightarrow> (b, bs))"

definition GetAudioHeader :: "flvTag \<Rightarrow> FlvAudioHeader option" where
  "GetAudioHeader f =
     (if ftType f \<noteq> AUDIO_TYPE then None
      else let (bits, buf) = read_u8 (ftBytes f);
               fmt = drop_bit 4 bits
           in Some \<lparr>SoundFormat = fmt,
                    SoundRate = drop_bit 2 bits AND 3,
                    SoundSize = drop_bit 1 bits AND 1,
                    SoundType = bits AND 1,
                    AACPacketType = (if fmt = 10 then fst (read_u8 buf) else 0)\<rparr>)"

definition GetVideoHeader :: "flvTag \<Rightarrow> FlvVideoHeader option" where
  "GetVideoHeader f =
     (if ftType f \<noteq> VIDEO_TYPE then None
      else let (bits, buf) = read_u8 (ftBytes f);
               codec = bits AND 0xF
           in Some \<lparr>FrameType = drop_bit 4 bits, CodecID = codec,
                    AVCPacketType = (if codec = 7 then fst (read_u8 buf) else 0)\<rparr>)"

section \<open>The bit fields\<close>

text \<open>The first bytes of a tag with the given header fields.\<close>

definition audio_bytes :: "FlvAudioHeader \<Rightarrow> u8 list" where
  "audio_bytes h = (push_bit 4 (SoundFormat h) OR push_bit 2 (SoundRate h) OR
       push_bit 1 (SoundSize h) OR SoundType h) #
     (if SoundFormat h = 10 then [AACPacketType h] else [])"

definition video_bytes :: "FlvVideoHeader \<Rightarrow> u8 list" where
  "video_bytes h = (push_bit 4 (FrameType h) OR CodecID h) #
     (if CodecID h = 7 then [AVCPacketType h] else [])"

definition audio_fields_fit :: "FlvAudioHeader \<Rightarrow> bool" where
  "audio_fields_fit h \<longleftrightarrow> unat (SoundFormat h) < 16 \<and> unat (SoundRate h) < 4 \<and> unat (SoundSize h) < 2 \<and>
     unat (SoundType h) < 2 \<and> (SoundFormat h \<noteq> 10 \<longrightarrow> AACPacketType h = 0)"

definition video_fields_fit :: "FlvVideoHeader \<Rightarrow> bool" where
  "video_fields_fit h \<longleftrightarrow> unat (FrameType h) < 16 \<and> unat (CodecID h) < 16 \<and>
     (CodecID h \<noteq> 7 \<longrightarrow> AVCPacketType h = 0)"

lemma small_bit: "unat x < 2 ^ k \<Longrightarrow> bit x n \<Longrightarrow> n < k" for x :: u8
  by (metis take_bit_small bit_take_bit_iff)

lemma and_masks:
  fixes x :: u8
  shows "x AND 3 = take_bit 2 x" "x AND 0xF = take_bit 4 x"
  by (simp_all add: take_bit_eq_mask mask_eq_exp_minus_1)

lemma bit_and_1: "bit (x AND 1) n \<longleftrightarrow> n = 0 \<and> bit x n" for x :: u8
  by (auto simp: bit_and_iff bit_1_iff)

lemma video_byte:
  fixes a b :: u8
  assumes "unat a < 16" "unat b < 16"
  shows "drop_bit 4 (push_bit 4 a OR b) = a" "(push_bit 4 a OR b) AND 0xF = b"
proof -
  have a: "bit a n \<Longrightarrow> n < 4" and b: "bit b n \<Longrightarrow> n < 4" for n
    using assms small_bit [of a 4 n] small_bit [of b 4 n] by auto
  show "drop_bit 4 (push_bit 4 a OR b) = a"
    by (rule bit_word_eqI) (auto simp: bit_simps dest: b a)
  show "(push_bit 4 a OR b) AND 0xF = b"
    unfolding and_masks by (rule bit_word_eqI) (auto simp: bit_simps dest: b)
qed

lemma audio_byte:
  fixes a b c d :: u8
  assumes "unat a < 16" "unat b < 4" "unat c < 2" "unat d < 2"
  defines "x \<equiv> push_bit 4 a OR push_bit 2 b OR push_bit 1 c OR d"
  shows "drop_bit 4 x = a" "drop_bit 2 x AND 3 = b" "drop_bit 1 x AND 1 = c" "x AND 1 = d"
proof -
  have a: "bit a n \<Longrightarrow> n < 4" and b: "bit b n \<Longrightarrow> n < 2" and c: "bit c n \<Longrightarrow> n = 0"
    and d: "bit d n \<Longrightarrow> n = 0" for n
    using assms(1-4) small_bit [of a 4 n] small_bit [of b 2 n] small_bit [of c 1 n] small_bit [of d 1 n]
    by auto
  have x: "bit x n \<longleftrightarrow> n < 8 \<and> (4 \<le> n \<and> bit a (n - 4) \<or> 2 \<le> n \<and> bit b (n - 2) \<or>
      1 \<le> n \<and> bit c (n - 1) \<or> bit d n)" for n
    unfolding x_def bit_or_iff bit_push_bit_iff by (auto dest: d)
  show "drop_bit 4 x = a"
    by (rule bit_word_eqI) (auto simp only: bit_drop_bit_eq x comp_apply, auto dest: a b c d)
  show "drop_bit 2 x AND 3 = b" unfolding and_masks
    by (rule bit_word_eqI) (auto simp only: bit_drop_bit_eq bit_take_bit_iff x comp_apply, auto dest: a b c d)
  show "drop_bit 1 x AND 1 = c"
    by (rule bit_word_eqI) (auto simp only: bit_drop_bit_eq bit_and_1 x comp_apply, auto dest: a b c d)
  show "x AND 1 = d"
    by (rule bit_word_eqI) (auto simp only: bit_and_1 x, auto dest: a b c d)
qed

section \<open>Properties\<close>

text \<open>The media headers are read from the bit fields of the first byte: a tag whose bytes begin with
  an audio header of given fields (4, 2, 1 and 1 bits, and the AAC packet type for AAC sound), or
  with a video header of given fields (4 and 4 bits, and the AVC packet type for AVC), has exactly
  these fields, and a tag of another type has neither header.\<close>

theorem media_headers_decoded:
  assumes "audio_fields_fit a" and "video_fields_fit v"
  shows "GetAudioHeader \<lparr>ftType = AUDIO_TYPE, ftTimestamp = ts, ftSize = sz, ftBytes = audio_bytes a @ rest\<rparr> = Some a
     \<and> GetVideoHeader \<lparr>ftType = VIDEO_TYPE, ftTimestamp = ts, ftSize = sz, ftBytes = video_bytes v @ rest\<rparr> = Some v
     \<and> (GetAudioHeader f = None) = (ftType f \<noteq> AUDIO_TYPE)
     \<and> (GetVideoHeader f = None) = (ftType f \<noteq> VIDEO_TYPE)"
proof -
  have fa: "unat (SoundFormat a) < 16" "unat (SoundRate a) < 4" "unat (SoundSize a) < 2" "unat (SoundType a) < 2"
    and aac: "SoundFormat a \<noteq> 10 \<Longrightarrow> AACPacketType a = 0"
    using assms(1) by (auto simp: audio_fields_fit_def)
  have fv: "unat (FrameType v) < 16" "unat (CodecID v) < 16" and avc: "CodecID v \<noteq> 7 \<Longrightarrow> AVCPacketType v = 0"
    using assms(2) by (auto simp: video_fields_fit_def)
  have "GetAudioHeader \<lparr>ftType = AUDIO_TYPE, ftTimestamp = ts, ftSize = sz, ftBytes = audio_bytes a @ rest\<rparr> = Some a"
    unfolding GetAudioHeader_def audio_bytes_def read_u8_def
    using audio_byte [OF fa] aac by (cases a) (simp del: push_bit_of_Suc_0 add: Let_def)
  moreover have "GetVideoHeader \<lparr>ftType = VIDEO_TYPE, ftTimestamp = ts, ftSize = sz, ftBytes = video_bytes v @ rest\<rparr> = Some v"
    unfolding GetVideoHeader_def video_bytes_def read_u8_def
    using video_byte [OF fv] avc by (cases v) (simp add: Let_def)
  moreover have "(GetAudioHeader f = None) = (ftType f \<noteq> AUDIO_TYPE)"
    by (simp add: GetAudioHeader_def Let_def split: prod.split)
  moreover have "(GetVideoHeader f = None) = (ftType f \<noteq> VIDEO_TYPE)"
    by (simp add: GetVideoHeader_def Let_def split: prod.split)
  ultimately show ?thesis by blast
qed

theorem media_headers_decoded_witness:
  "GetAudioHeader \<lparr>ftType = AUDIO_TYPE, ftTimestamp = 0, ftSize = 3, ftBytes = [0xAF, 0, 0x12]\<rparr> =
     Some \<lparr>SoundFormat = 10, SoundRate = 3, SoundSize = 1, SoundType = 1, AACPacketType = 0\<rparr> \<and>
   GetVideoHeader \<lparr>ftType = VIDEO_TYPE, ftTimestamp = 0, ftSize = 3, ftBytes = [0x17, 1, 0x12]\<rparr> =
     Some \<lparr>FrameType = 1, CodecID = 7, AVCPacketType = 1\<rparr>"
proof -
  let ?a = "\<lparr>SoundFormat = 10, SoundRate = 3, SoundSize = 1, SoundType = 1, AACPacketType = 0\<rparr>"
  let ?v = "\<lparr>FrameType = 1, CodecID = 7, AVCPacketType = 1\<rparr>"
  have "audio_fields_fit ?a" "video_fields_fit ?v"
    by (simp_all add: audio_fields_fit_def video_fields_fit_def)
  note decoded = media_headers_decoded [OF this, of 0 3 "[0x12]"]
  have "audio_bytes ?a = [0xAF, 0]" "video_bytes ?v = [0x17, 1]" by code_simp+
  with decoded show ?thesis by simp
qed

end
