(* ===== verification/Media_Stream.thy ===== *)
theory Media_Stream
  imports Flv_Tag "HOL-Library.Sublist"
begin

text \<open>
  The publish-subscribe loop of \<^verbatim>\<open>src/mediastream.go\<close>. The loop takes one event at a time from its
  channels: a published tag, a subscription, an unsubscription, or the closed \<^verbatim>\<open>done\<close> channel. A
  run is a list of events in the order taken; a subscriber is the number of its channel, and the
  state records for every channel what the loop sent on it and whether it closed it. The order in
  which the loop visits the subscribers is that of a Go map, which no subscriber can see.
\<close>

section \<open>State\<close>

text \<open>What happens on a subscriber's channel.\<close>

datatype chan_op = SendTag flvTag | CloseChan

record mediaStream =
  ms_dataHeader :: "flvTag option"
  ms_audioHeader :: "flvTag option"
  ms_videoHeader :: "flvTag option"
  ms_subs :: "nat \<rightharpoonup> bool"
  ms_chans :: "nat \<Rightarrow> chan_op list"
  ms_next :: nat
  ms_done :: bool
  ms_running :: bool
  ms_videoBytes :: u64
  ms_audioBytes :: u64
  ms_bytes :: u64
  ms_lastVideoBytes :: u64
  ms_lastAudioBytes :: u64
  ms_lastBytes :: u64
  ms_lastTs :: u64
  ms_videoBps :: u64
  ms_audioBps :: u64
  ms_bps :: u64

definition NewMediaStream :: mediaStream where
  "NewMediaStream = \<lparr>ms_dataHeader = None, ms_audioHeader = None, ms_videoHeader = None,
     ms_subs = Map.empty, ms_chans = (\<lambda>_. []), ms_next = 0, ms_done = False, ms_running = True,
     ms_videoBytes = 0, ms_audioBytes = 0, ms_bytes = 0, ms_lastVideoBytes = 0,
     ms_lastAudioBytes = 0, ms_lastBytes = 0, ms_lastTs = 0, ms_videoBps = 0, ms_audioBps = 0,
     ms_bps = 0\<rparr>"

section \<open>Publishing\<close>

text \<open>\<open>rate d t\<close> stands for \<^verbatim>\<open>ms.toInt(float64(d) / float64(t) * 1000)\<close>, computed in floating point; the
  development does not look into it.\<close>

definition updateBps :: "(u64 \<Rightarrow> u64 \<Rightarrow> u64) \<Rightarrow> u64 \<Rightarrow> mediaStream \<Rightarrow> mediaStream" where
  "updateBps rate ts ms =
     (let tsDelta = ts - ms_lastTs ms in
      ms\<lparr>ms_lastVideoBytes := ms_videoBytes ms, ms_lastAudioBytes := ms_audioBytes ms,
         ms_lastBytes := ms_bytes ms, ms_lastTs := ts,
         ms_videoBps := rate (ms_videoBytes ms - ms_lastVideoBytes ms) tsDelta,
         ms_audioBps := rate (ms_audioBytes ms - ms_lastAudioBytes ms) tsDelta,
         ms_bps := rate (ms_bytes ms - ms_lastBytes ms) tsDelta\<rparr>)"

definition is_aac_header :: "flvTag \<Rightarrow> bool" where
  "is_aac_header tag = (case GetAudioHeader tag of None \<Rightarrow> False
     | Some header \<Rightarrow> SoundFormat header = 10 \<and> AACPacketType header = 0)"

definition is_keyframe :: "flvTag \<Rightarrow> bool" where
  "is_keyframe tag = (case GetVideoHeader tag of None \<Rightarrow> False | Some header \<Rightarrow> FrameType header = 1)"

definition is_avc_header :: "flvTag \<Rightarrow> bool" where
  "is_avc_header tag = (case GetVideoHeader tag of None \<Rightarrow> False
     | Some header \<Rightarrow> FrameType header = 1 \<and> CodecID header = 7 \<and> AVCPacketType header = 0)"

text \<open>The switch on the type: counters and sequence headers.\<close>

definition account :: "(u64 \<Rightarrow> u64 \<Rightarrow> u64) \<Rightarrow> flvTag \<Rightarrow> mediaStream \<Rightarrow> mediaStream" where
  "account rate tag ms =
     (let sz = ucast (ftSize tag);
          ms = ms\<lparr>ms_bytes := ms_bytes ms + sz\<rparr>
      in if ftType tag = AUDIO_TYPE then
           (let ms = ms\<lparr>ms_audioBytes := ms_audioBytes ms + sz\<rparr>
            in if ms_audioHeader ms \<noteq> None then ms
               else if is_aac_header tag then ms\<lparr>ms_audioHeader := Some tag\<rparr> else ms)
         else if ftType tag = VIDEO_TYPE then
           (let ms = ms\<lparr>ms_videoBytes := ms_videoBytes ms + sz\<rparr>;
                ms = (if is_keyframe tag then
                        (let ms = (if is_avc_header tag then ms\<lparr>ms_videoHeader := Some tag\<rparr> else ms)
                         in updateBps rate (ucast (ftTimestamp tag)) ms)
                      else ms)
            in if is_avc_header tag then ms\<lparr>ms_videoHeader := Some tag\<rparr> else ms)
         else if ftType tag = DATA_AMF0 then
           (if ms_dataHeader ms \<noteq> None then ms else ms\<lparr>ms_dataHeader := Some tag\<rparr>)
         else ms)"

text \<open>What a subscriber gets of a tag, and whether it has started afterwards.\<close>

definition gets_tag :: "flvTag \<Rightarrow> bool \<Rightarrow> bool" where
  "gets_tag tag started \<longleftrightarrow> (if \<not> started \<and> ftType tag = VIDEO_TYPE then is_keyframe tag else started)"

definition broadcast :: "flvTag \<Rightarrow> mediaStream \<Rightarrow> mediaStream" where
  "broadcast tag ms = ms\<lparr>
     ms_chans := (\<lambda>c. case ms_subs ms c of
         Some started \<Rightarrow> if gets_tag tag started then ms_chans ms c @ [SendTag tag] else ms_chans ms c
       | None \<Rightarrow> ms_chans ms c),
     ms_subs := (\<lambda>c. case ms_subs ms c of
         Some started \<Rightarrow> Some (started \<or> gets_tag tag started) | None \<Rightarrow> None)\<rparr>"

section \<open>Subscribing\<close>

definition cached_headers :: "mediaStream \<Rightarrow> flvTag list" where
  "cached_headers ms =
     (case ms_dataHeader ms of None \<Rightarrow> [] | Some t \<Rightarrow> [t]) @
     (case ms_videoHeader ms of None \<Rightarrow> [] | Some t \<Rightarrow> [t]) @
     (case ms_audioHeader ms of None \<Rightarrow> [] | Some t \<Rightarrow> [t])"

definition on_chan :: "nat \<Rightarrow> chan_op list \<Rightarrow> mediaStream \<Rightarrow> mediaStream" where
  "on_chan c ops ms = ms\<lparr>ms_chans := (ms_chans ms)(c := ms_chans ms c @ ops)\<rparr>"

definition subscribe :: "mediaStream \<Rightarrow> mediaStream" where
  "subscribe ms =
     (let c = ms_next ms; ms = ms\<lparr>ms_next := c + 1, ms_subs := (ms_subs ms)(c \<mapsto> False)\<rparr>
      in on_chan c (map SendTag (cached_headers ms)) ms)"

definition unsubscribe :: "nat \<Rightarrow> mediaStream \<Rightarrow> mediaStream" where
  "unsubscribe c ms =
     (case ms_subs ms c of None \<Rightarrow> ms
      | Some _ \<Rightarrow> on_chan c [CloseChan] (ms\<lparr>ms_subs := (ms_subs ms)(c := None)\<rparr>))"

text \<open>The deferred function: every subscriber's channel is closed when the loop returns.\<close>

definition shutdown :: "mediaStream \<Rightarrow> mediaStream" where
  "shutdown ms = ms\<lparr>ms_running := False,
     ms_chans := (\<lambda>c. case ms_subs ms c of
         Some _ \<Rightarrow> ms_chans ms c @ [CloseChan] | None \<Rightarrow> ms_chans ms c)\<rparr>"

section \<open>The loop\<close>

text \<open>The events: \<^verbatim>\<open>Publish\<close>, \<^verbatim>\<open>Subscribe\<close> and \<^verbatim>\<open>Unsubscribe\<close> are taken by the loop while it runs (their
  callers are answered by \<^verbatim>\<open>done\<close> otherwise), \<^verbatim>\<open>Close\<close> closes \<^verbatim>\<open>done\<close>, and the loop may return once it is
  closed. An event that cannot be taken leaves the state as it is.\<close>

datatype ms_event = Publish flvTag | Subscribe | Unsubscribe nat | CloseStream | Return

fun ms_step :: "(u64 \<Rightarrow> u64 \<Rightarrow> u64) \<Rightarrow> mediaStream \<Rightarrow> ms_event \<Rightarrow> mediaStream" where
  "ms_step rate ms (Publish tag) = (if ms_running ms then broadcast tag (account rate tag ms) else ms)"
| "ms_step rate ms Subscribe = (if ms_running ms then subscribe ms else ms)"
| "ms_step rate ms (Unsubscribe c) = (if ms_running ms then unsubscribe c ms else ms)"
| "ms_step rate ms CloseStream = ms\<lparr>ms_done := True\<rparr>"
| "ms_step rate ms Return = (if ms_running ms \<and> ms_done ms then shutdown ms else ms)"

definition ms_run :: "(u64 \<Rightarrow> u64 \<Rightarrow> u64) \<Rightarrow> mediaStream \<Rightarrow> ms_event list \<Rightarrow> mediaStream" where
  "ms_run rate = foldl (ms_step rate)"

lemma ms_run_simps [simp]:
  "ms_run rate ms [] = ms"
  "ms_run rate ms (e # es) = ms_run rate (ms_step rate ms e) es"
  "ms_run rate ms (es @ [e]) = ms_step rate (ms_run rate ms es) e"
  by (simp_all add: ms_run_def)

text \<open>\<^verbatim>\<open>IsClosed\<close>, and the answer of \<^verbatim>\<open>Publish\<close> and \<^verbatim>\<open>Subscribe\<close> once the loop has returned.\<close>

definition IsClosed :: "mediaStream \<Rightarrow> bool" where
  "IsClosed ms = ms_done ms"

definition refusal :: "mediaStream \<Rightarrow> go_error option" where
  "refusal ms = (if ms_running ms then None else Some MediaStreamClosed)"

record mediaStreamStats =
  VideoBytes :: u64
  AudioBytes :: u64
  Bytes :: u64
  VideoBytesRate :: u64
  AudioBytesRate :: u64
  BytesRate :: u64

definition Stats :: "mediaStream \<Rightarrow> mediaStreamStats" where
  "Stats ms = \<lparr>VideoBytes = ms_videoBytes ms, AudioBytes = ms_audioBytes ms, Bytes = ms_bytes ms,
     VideoBytesRate = ms_videoBps ms, AudioBytesRate = ms_audioBps ms, BytesRate = ms_bps ms\<rparr>"

section \<open>What an event does not touch\<close>

lemma updateBps_fields [simp]:
  "ms_dataHeader (updateBps rate ts ms) = ms_dataHeader ms"
  "ms_audioHeader (updateBps rate ts ms) = ms_audioHeader ms"
  "ms_videoHeader (updateBps rate ts ms) = ms_videoHeader ms"
  "ms_subs (updateBps rate ts ms) = ms_subs ms" "ms_chans (updateBps rate ts ms) = ms_chans ms"
  "ms_next (updateBps rate ts ms) = ms_next ms" "ms_done (updateBps rate ts ms) = ms_done ms"
  "ms_running (updateBps rate ts ms) = ms_running ms" "ms_bytes (updateBps rate ts ms) = ms_bytes ms"
  "ms_audioBytes (updateBps rate ts ms) = ms_audioBytes ms"
  "ms_videoBytes (updateBps rate ts ms) = ms_videoBytes ms"
  by (simp_all add: updateBps_def Let_def)

lemma account_fields [simp]:
  "ms_subs (account rate tag ms) = ms_subs ms" "ms_chans (account rate tag ms) = ms_chans ms"
  "ms_next (account rate tag ms) = ms_next ms" "ms_done (account rate tag ms) = ms_done ms"
  "ms_running (account rate tag ms) = ms_running ms"
  by (simp_all add: account_def Let_def)

lemma broadcast_fields [simp]:
  "ms_next (broadcast tag ms) = ms_next ms" "ms_done (broadcast tag ms) = ms_done ms"
  "ms_running (broadcast tag ms) = ms_running ms"
  "ms_dataHeader (broadcast tag ms) = ms_dataHeader ms"
  "ms_audioHeader (broadcast tag ms) = ms_audioHeader ms"
  "ms_videoHeader (broadcast tag ms) = ms_videoHeader ms"
  by (simp_all add: broadcast_def)

section \<open>Channel safety\<close>

text \<open>The history of a channel is legal when nothing follows a close: in Go, a send on a closed channel
  and a second close both panic.\<close>

definition sends_only :: "chan_op list \<Rightarrow> bool" where
  "sends_only ops \<longleftrightarrow> CloseChan \<notin> set ops"

definition ended :: "chan_op list \<Rightarrow> bool" where
  "ended ops \<longleftrightarrow> (\<exists>ops'. ops = ops' @ [CloseChan] \<and> sends_only ops')"

definition chans_inv :: "mediaStream \<Rightarrow> bool" where
  "chans_inv ms \<longleftrightarrow> (\<forall>c.
     (if c < ms_next ms
      then (if ms_running ms \<and> ms_subs ms c \<noteq> None then sends_only (ms_chans ms c) else ended (ms_chans ms c))
      else ms_subs ms c = None \<and> ms_chans ms c = []))"

lemma sends_only_simps [simp]:
  "sends_only []" "sends_only (ops @ ops') \<longleftrightarrow> sends_only ops \<and> sends_only ops'"
  "sends_only (SendTag t # ops) \<longleftrightarrow> sends_only ops" "sends_only (map SendTag ts)"
  by (auto simp: sends_only_def)

lemma ended_close [simp]: "ended (ops @ [CloseChan]) \<longleftrightarrow> sends_only ops"
  by (simp add: ended_def)

lemma chans_inv_new [simp]: "chans_inv NewMediaStream"
  by (simp add: chans_inv_def NewMediaStream_def)

lemma chans_inv_step: "chans_inv ms \<Longrightarrow> chans_inv (ms_step rate ms e)"
proof (induction e)
  case (Publish tag)
  then show ?case
    by (auto simp: chans_inv_def broadcast_def split: option.split)
next
  case Subscribe
  then show ?case
    by (auto simp: chans_inv_def subscribe_def on_chan_def Let_def less_Suc_eq)
next
  case (Unsubscribe c)
  have "c < ms_next ms" if "ms_subs ms c \<noteq> None"
    using Unsubscribe that unfolding chans_inv_def by metis
  with Unsubscribe show ?case
    by (auto simp: chans_inv_def unsubscribe_def on_chan_def split: option.split)
next
  case CloseStream
  then show ?case by (simp add: chans_inv_def)
next
  case Return
  then show ?case
    by (auto simp: chans_inv_def shutdown_def split: option.split)
qed

lemma chans_inv_run: "chans_inv ms \<Longrightarrow> chans_inv (ms_run rate ms es)"
  by (induction es arbitrary: ms) (simp_all add: chans_inv_step)

section \<open>What a subscriber receives\<close>

fun published :: "ms_event list \<Rightarrow> flvTag list" where
  "published [] = []"
| "published (Publish tag # es) = tag # published es"
| "published (_ # es) = published es"

lemma published_append: "published (es @ es') = published es @ published es'"
  by (induction es rule: published.induct) simp_all

lemma is_keyframe_video: "is_keyframe tag \<Longrightarrow> ftType tag = VIDEO_TYPE"
  by (simp add: is_keyframe_def GetVideoHeader_def split: option.splits if_splits)

lemma gets_tag_iff: "gets_tag tag started \<longleftrightarrow> started \<or> is_keyframe tag"
  using is_keyframe_video [of tag] by (auto simp: gets_tag_def)

text \<open>The events between which channel \<open>c\<close> stays subscribed.\<close>

definition stays :: "nat \<Rightarrow> ms_event \<Rightarrow> bool" where
  "stays c e \<longleftrightarrow> e \<noteq> Unsubscribe c \<and> e \<noteq> Return"

lemma run_subscribed:
  assumes "list_all (stays c) es" "ms_running ms" "ms_subs ms c = Some started" "c < ms_next ms"
  shows "ms_chans (ms_run rate ms es) c = ms_chans ms c @
     map SendTag (if started then published es else dropWhile (\<lambda>t. \<not> is_keyframe t) (published es))"
  using assms
proof (induction es arbitrary: ms started)
  case (Cons e es)
  show ?case
  proof (cases e)
    case (Publish tag)
    let ?ms = "ms_step rate ms e"
    have "ms_running ?ms" "c < ms_next ?ms" "ms_subs ?ms c = Some (started \<or> is_keyframe tag)"
      "ms_chans ?ms c = ms_chans ms c @ (if started \<or> is_keyframe tag then [SendTag tag] else [])"
      using Publish Cons.prems by (simp_all add: broadcast_def gets_tag_iff)
    with Cons.IH [of ?ms "started \<or> is_keyframe tag"] Cons.prems(1) Publish show ?thesis by simp
  next
    case Subscribe
    let ?ms = "ms_step rate ms e"
    have "ms_running ?ms" "c < ms_next ?ms" "ms_subs ?ms c = Some started" "ms_chans ?ms c = ms_chans ms c"
      using Subscribe Cons.prems by (simp_all add: subscribe_def on_chan_def Let_def)
    with Cons.IH [of ?ms started] Cons.prems(1) Subscribe show ?thesis by simp
  next
    case (Unsubscribe d)
    let ?ms = "ms_step rate ms e"
    have "d \<noteq> c" using Cons.prems(1) Unsubscribe by (auto simp: stays_def)
    then have "ms_running ?ms" "c < ms_next ?ms" "ms_subs ?ms c = Some started" "ms_chans ?ms c = ms_chans ms c"
      using Unsubscribe Cons.prems by (simp_all add: unsubscribe_def on_chan_def split: option.split)
    with Cons.IH [of ?ms started] Cons.prems(1) Unsubscribe show ?thesis by simp
  next
    case CloseStream
    with Cons.IH [of "ms_step rate ms e" started] Cons.prems show ?thesis by simp
  next
    case Return
    with Cons.prems(1) show ?thesis by (simp add: stays_def)
  qed
qed simp

section \<open>The cached headers and the counters\<close>

definition subscriptions :: "ms_event list \<Rightarrow> nat" where
  "subscriptions es = length (filter (\<lambda>e. e = Subscribe) es)"

definition opt_last :: "'a list \<Rightarrow> 'a option" where
  "opt_last xs = (if xs = [] then None else Some (last xs))"

lemma is_aac_audio: "is_aac_header tag \<Longrightarrow> ftType tag = AUDIO_TYPE"
  by (simp add: is_aac_header_def GetAudioHeader_def split: option.splits if_splits)

lemma is_avc_key: "is_avc_header tag \<Longrightarrow> is_keyframe tag"
  by (simp add: is_avc_header_def is_keyframe_def split: option.splits)

definition is_data :: "flvTag \<Rightarrow> bool" where
  "is_data tag \<longleftrightarrow> ftType tag = DATA_AMF0"

lemma account_headers:
  "ms_dataHeader (account rate tag ms) =
     (if ms_dataHeader ms = None \<and> is_data tag then Some tag else ms_dataHeader ms)"
  "ms_audioHeader (account rate tag ms) =
     (if ms_audioHeader ms = None \<and> is_aac_header tag then Some tag else ms_audioHeader ms)"
  "ms_videoHeader (account rate tag ms) = (if is_avc_header tag then Some tag else ms_videoHeader ms)"
  "ms_bytes (account rate tag ms) = ms_bytes ms + ucast (ftSize tag)"
  "ms_audioBytes (account rate tag ms) =
     (if ftType tag = AUDIO_TYPE then ms_audioBytes ms + ucast (ftSize tag) else ms_audioBytes ms)"
  "ms_videoBytes (account rate tag ms) =
     (if ftType tag = VIDEO_TYPE then ms_videoBytes ms + ucast (ftSize tag) else ms_videoBytes ms)"
  using is_aac_audio [of tag] is_avc_key [of tag] is_keyframe_video [of tag]
  by (auto simp: account_def is_data_def Let_def)

lemma find_append: "find P (xs @ ys) = (case find P xs of None \<Rightarrow> find P ys | Some x \<Rightarrow> Some x)"
  by (induction xs) auto

text \<open>What the loop remembers of a run during which it does not return.\<close>

definition remembers :: "ms_event list \<Rightarrow> mediaStream \<Rightarrow> bool" where
  "remembers es ms \<longleftrightarrow> ms_running ms \<and> ms_next ms = subscriptions es \<and>
     ms_dataHeader ms = find is_data (published es) \<and>
     ms_audioHeader ms = find is_aac_header (published es) \<and>
     ms_videoHeader ms = opt_last (filter is_avc_header (published es)) \<and>
     ms_bytes ms = (\<Sum>t\<leftarrow>published es. ucast (ftSize t)) \<and>
     ms_audioBytes ms = (\<Sum>t\<leftarrow>filter (\<lambda>t. ftType t = AUDIO_TYPE) (published es). ucast (ftSize t)) \<and>
     ms_videoBytes ms = (\<Sum>t\<leftarrow>filter (\<lambda>t. ftType t = VIDEO_TYPE) (published es). ucast (ftSize t))"

lemma remembers_step:
  assumes "remembers es ms" "e \<noteq> Return"
  shows "remembers (es @ [e]) (ms_step rate ms e)"
proof (cases e)
  case (Publish tag)
  with assms show ?thesis
    by (auto simp: remembers_def account_headers broadcast_def published_append subscriptions_def
        find_append opt_last_def split: option.split)
next
  case Subscribe
  with assms show ?thesis
    by (simp add: remembers_def subscribe_def on_chan_def Let_def published_append subscriptions_def)
next
  case (Unsubscribe c)
  with assms show ?thesis
    by (simp add: remembers_def unsubscribe_def on_chan_def published_append subscriptions_def
        split: option.split)
qed (use assms in \<open>auto simp: remembers_def published_append subscriptions_def\<close>)

lemma remembers_run: "list_all (\<lambda>e. e \<noteq> Return) es \<Longrightarrow> remembers es (ms_run rate NewMediaStream es)"
proof (induction es rule: rev_induct)
  case Nil
  then show ?case
    by (simp add: remembers_def NewMediaStream_def subscriptions_def opt_last_def)
next
  case (snoc e es)
  then show ?case by (simp add: remembers_step)
qed

section \<open>Where a subscriber's tags come from\<close>

definition channel_tags :: "chan_op list \<Rightarrow> flvTag list" where
  "channel_tags ops = List.map_filter (\<lambda>op. case op of SendTag t \<Rightarrow> Some t | CloseChan \<Rightarrow> None) ops"

lemma channel_tags_simps [simp]:
  "channel_tags [] = []"
  "channel_tags (ops @ ops') = channel_tags ops @ channel_tags ops'"
  "channel_tags [SendTag t] = [t]" "channel_tags [CloseChan] = []"
  "channel_tags (map SendTag ts) = ts"
proof -
  show "channel_tags (map SendTag ts) = ts"
    by (induction ts) (simp_all add: channel_tags_def List.map_filter_def)
qed (simp_all add: channel_tags_def List.map_filter_def)

lemma channel_tags_snoc:
  "channel_tags (ops @ [op]) = channel_tags ops @ (case op of SendTag t \<Rightarrow> [t] | CloseChan \<Rightarrow> [])"
  by (cases op) simp_all

lemma channel_tags_take: "prefix (channel_tags (take n ops)) (channel_tags ops)"
  by (metis append_take_drop_id channel_tags_simps(2) prefixI)

text \<open>Cached headers that were published, then published tags in the order they were published.\<close>

definition relayed :: "flvTag list \<Rightarrow> chan_op list \<Rightarrow> bool" where
  "relayed pubs ops \<longleftrightarrow> (\<exists>hs ts. channel_tags ops = hs @ ts \<and> length hs \<le> 3 \<and> set hs \<subseteq> set pubs \<and> subseq ts pubs)"

definition caches :: "flvTag list \<Rightarrow> mediaStream \<Rightarrow> bool" where
  "caches pubs ms \<longleftrightarrow> set (cached_headers ms) \<subseteq> set pubs"

lemma relayed_more: "relayed pubs ops \<Longrightarrow> relayed (pubs @ pubs') ops"
proof -
  assume "relayed pubs ops"
  then obtain hs ts where *: "channel_tags ops = hs @ ts" "length hs \<le> 3" "set hs \<subseteq> set pubs" "subseq ts pubs"
    by (auto simp: relayed_def)
  have "subseq ts (pubs @ pubs')" by (rule subseq_order.trans [OF *(4) prefix_imp_subseq]) simp
  with * show ?thesis
    unfolding relayed_def by (intro exI [of _ hs] exI [of _ ts]) auto
qed

lemma relayed_tag: "relayed pubs ops \<Longrightarrow> relayed (pubs @ [t]) (ops @ [SendTag t])"
proof -
  assume "relayed pubs ops"
  then obtain hs ts where "channel_tags ops = hs @ ts" "length hs \<le> 3" "set hs \<subseteq> set pubs" "subseq ts pubs"
    by (auto simp: relayed_def)
  then show ?thesis
    unfolding relayed_def by (intro exI [of _ hs] exI [of _ "ts @ [t]"]) (auto intro: list_emb_append_mono)
qed

lemma relayed_close: "relayed pubs ops \<Longrightarrow> relayed pubs (ops @ [CloseChan])"
  by (simp add: relayed_def)

lemma relayed_headers: "caches pubs ms \<Longrightarrow> relayed pubs (map SendTag (cached_headers ms))"
  unfolding relayed_def caches_def
  by (intro exI [of _ "cached_headers ms"] exI [of _ "[]"]) (auto simp: cached_headers_def split: option.split)

lemma caches_account: "caches pubs ms \<Longrightarrow> caches (pubs @ [tag]) (account rate tag ms)"
  by (auto simp: caches_def account_def cached_headers_def Let_def split: option.splits if_splits)

lemma run_relayed:
  "caches (published es) (ms_run rate NewMediaStream es) \<and>
     relayed (published es) (ms_chans (ms_run rate NewMediaStream es) c)"
proof (induction es arbitrary: c rule: rev_induct)
  case Nil
  show ?case by (simp add: caches_def relayed_def NewMediaStream_def cached_headers_def)
next
  case (snoc ev es)
  let ?ms = "ms_run rate NewMediaStream es"
  have caches: "caches (published es) ?ms" and relayed: "\<And>c. relayed (published es) (ms_chans ?ms c)"
    using snoc by blast+
  have new: "ms_chans ?ms (ms_next ?ms) = []" if "ms_running ?ms"
    using chans_inv_run [OF chans_inv_new, of rate es] that unfolding chans_inv_def by (metis less_irrefl)
  show ?case
  proof (cases ev)
    case (Publish tag)
    then show ?thesis
      using caches_account [OF caches, of tag rate] relayed_more [OF relayed, of "[tag]" c] relayed_tag [OF relayed, of tag c]
        caches relayed
      by (auto simp: published_append broadcast_def caches_def cached_headers_def split: option.split)
  next
    case Subscribe
    then show ?thesis
      using caches relayed [of c] relayed_headers [OF caches] new
      by (auto simp: published_append subscribe_def on_chan_def Let_def caches_def cached_headers_def)
  next
    case (Unsubscribe ch)
    then show ?thesis
      using caches relayed [of c] relayed_close [OF relayed, of ch]
      by (auto simp: published_append unsubscribe_def on_chan_def caches_def cached_headers_def split: option.split)
  next
    case CloseStream
    then show ?thesis using caches relayed [of c] by (simp add: published_append caches_def cached_headers_def)
  next
    case Return
    then show ?thesis
      using caches relayed [of c] relayed_close [OF relayed, of c]
      by (auto simp: published_append shutdown_def caches_def cached_headers_def split: option.split)
  qed
qed

section \<open>Properties\<close>

definition opt_list :: "'a option \<Rightarrow> 'a list" where
  "opt_list x = (case x of None \<Rightarrow> [] | Some a \<Rightarrow> [a])"

text \<open>C22. The channels are used legally in every run: nothing is ever sent on or closed after a close, so
  the loop never panics, whichever subscribers come and go and however often a channel is
  unsubscribed; and once the loop has returned every channel it ever gave out is closed, so that
  no subscriber waits for ever.\<close>

theorem subscriber_channels_legal:
  fixes rate :: "u64 \<Rightarrow> u64 \<Rightarrow> u64"
  defines "ms es \<equiv> ms_run rate NewMediaStream es"
  shows "(sends_only (ms_chans (ms es) c) \<or> ended (ms_chans (ms es) c)) \<and>
     (ms_running (ms es) \<or> ms_next (ms es) \<le> c \<or> ended (ms_chans (ms es) c))"
proof -
  have "chans_inv (ms es)" unfolding ms_def by (simp add: chans_inv_run)
  then show ?thesis unfolding chans_inv_def by (metis not_le sends_only_simps(1))
qed

text \<open>C9. What a subscriber receives: a channel subscribed after the events \<open>before\<close> gets the first data
  tag, the latest AVC sequence header and the first AAC sequence header published so far, and then,
  while it stays subscribed, every published tag from the first key frame on, in order.\<close>

theorem subscriber_receives:
  assumes "list_all (\<lambda>e. e \<noteq> Return) before"
    and "list_all (stays (subscriptions before)) later"
  shows "ms_chans (ms_run rate NewMediaStream (before @ Subscribe # later)) (subscriptions before) =
     map SendTag
       (opt_list (find is_data (published before)) @
        opt_list (opt_last (filter is_avc_header (published before))) @
        opt_list (find is_aac_header (published before)) @
        dropWhile (\<lambda>t. \<not> is_keyframe t) (published later))"
proof -
  let ?ms = "ms_run rate NewMediaStream before"
  let ?c = "subscriptions before"
  have mem: "remembers before ?ms" by (rule remembers_run [OF assms(1)])
  have c: "ms_next ?ms = ?c" "ms_running ?ms" using mem by (simp_all add: remembers_def)
  have empty: "ms_chans ?ms ?c = []"
    using chans_inv_run [OF chans_inv_new, of rate before] c unfolding chans_inv_def by (metis less_irrefl)
  let ?ms1 = "subscribe ?ms"
  have "ms_running ?ms1" "ms_subs ?ms1 ?c = Some False" "?c < ms_next ?ms1"
    "ms_chans ?ms1 ?c = map SendTag (cached_headers ?ms)"
    using c empty by (simp_all add: subscribe_def on_chan_def Let_def cached_headers_def)
  from run_subscribed [OF assms(2) this(1,2,3), of rate] this(4)
  have "ms_chans (ms_run rate ?ms1 later) ?c =
      map SendTag (cached_headers ?ms @ dropWhile (\<lambda>t. \<not> is_keyframe t) (published later))"
    by simp
  moreover have "ms_run rate NewMediaStream (before @ Subscribe # later) = ms_run rate ?ms1 later"
    using c by (simp add: ms_run_def)
  moreover have "cached_headers ?ms = opt_list (find is_data (published before)) @
      opt_list (opt_last (filter is_avc_header (published before))) @
      opt_list (find is_aac_header (published before))"
    using mem by (simp add: cached_headers_def remembers_def opt_list_def)
  ultimately show ?thesis by simp
qed

definition sample_tag :: "u8 \<Rightarrow> u8 list \<Rightarrow> flvTag" where
  "sample_tag t bs = \<lparr>ftType = t, ftTimestamp = 0, ftSize = word_of_nat (length bs), ftBytes = bs\<rparr>"

definition sample_run :: "ms_event list" where
  "sample_run = [Publish (sample_tag 18 [2]), Subscribe, Publish (sample_tag 9 [0x17, 0, 1]), Publish (sample_tag 8 [0xAF, 0])]"

definition sample_later :: "ms_event list" where
  "sample_later = [Publish (sample_tag 8 [0xAF, 1]), Publish (sample_tag 9 [0x27, 1]), Unsubscribe 0,
     Publish (sample_tag 9 [0x17, 1, 5]), Publish (sample_tag 8 [0xAF, 1, 6])]"

theorem subscriber_receives_witness:
  "ms_chans (ms_run (\<lambda>d t. 0) NewMediaStream (sample_run @ Subscribe # sample_later)) 1 =
     map SendTag [sample_tag 18 [2], sample_tag 9 [0x17, 0, 1], sample_tag 8 [0xAF, 0], sample_tag 9 [0x17, 1, 5], sample_tag 8 [0xAF, 1, 6]]"
proof -
  have one: "list_all (\<lambda>e. e \<noteq> Return) sample_run" by (simp add: sample_run_def)
  have c: "subscriptions sample_run = 1" by (simp add: sample_run_def subscriptions_def)
  have two: "list_all (stays (subscriptions sample_run)) sample_later"
    unfolding c by (simp add: sample_later_def stays_def)
  have seen: "opt_list (find is_data (published sample_run)) = [sample_tag 18 [2]]"
    "opt_list (opt_last (filter is_avc_header (published sample_run))) = [sample_tag 9 [0x17, 0, 1]]"
    "opt_list (find is_aac_header (published sample_run)) = [sample_tag 8 [0xAF, 0]]"
    "dropWhile (\<lambda>t. \<not> is_keyframe t) (published sample_later) = [sample_tag 9 [0x17, 1, 5], sample_tag 8 [0xAF, 1, 6]]"
    by code_simp+
  show ?thesis using subscriber_receives [OF one two, of "\<lambda>d t. 0"] unfolding c seen by simp
qed

text \<open>The byte counters of \<^verbatim>\<open>Stats\<close>: at any time before the loop returns they are the sums of the sizes
  of the published tags, of the video tags and of the audio tags, as 64-bit integers.\<close>

theorem stats_count_bytes:
  assumes "list_all (\<lambda>e. e \<noteq> Return) es"
  shows "Bytes (Stats (ms_run rate NewMediaStream es)) = (\<Sum>t\<leftarrow>published es. ucast (ftSize t)) \<and>
     AudioBytes (Stats (ms_run rate NewMediaStream es)) =
       (\<Sum>t\<leftarrow>filter (\<lambda>t. ftType t = AUDIO_TYPE) (published es). ucast (ftSize t)) \<and>
     VideoBytes (Stats (ms_run rate NewMediaStream es)) =
       (\<Sum>t\<leftarrow>filter (\<lambda>t. ftType t = VIDEO_TYPE) (published es). ucast (ftSize t))"
  using remembers_run [OF assms, of rate] by (simp add: remembers_def Stats_def)

theorem stats_count_bytes_witness:
  "Bytes (Stats (ms_run (\<lambda>d t. 0) NewMediaStream sample_run)) = 6 \<and>
   AudioBytes (Stats (ms_run (\<lambda>d t. 0) NewMediaStream sample_run)) = 2 \<and>
   VideoBytes (Stats (ms_run (\<lambda>d t. 0) NewMediaStream sample_run)) = 3"
  using stats_count_bytes [of sample_run "\<lambda>d t. 0"] by (simp add: sample_run_def sample_tag_def)

end
