(* ===== verification/Media_Buffer.thy ===== *)
theory Media_Buffer
  imports Flv_Tag "HOL-Library.Sublist"
begin

text \<open>
  The bounded buffer between a media stream and a player, \<^verbatim>\<open>src/mediabuffer.go\<close>. Its loop takes tags
  from the subscription and hands the front of the queue to \<^verbatim>\<open>Get\<close>; a tag that does not fit is
  dropped. The queue is used through an interface, the locale \<open>bounded_fifo\<close>, in which its
  first-in-first-out behaviour is proved once, and which is interpreted on the buffer's operations.
\<close>

section \<open>First in, first out\<close>

text \<open>The client's view of a queue that may refuse an element. \<open>wf\<close> is the provider's invariant.\<close>

locale bounded_fifo =
  fixes wf :: "'q \<Rightarrow> bool"
    and items :: "'q \<Rightarrow> 'a list"
    and accepts :: "'q \<Rightarrow> 'a \<Rightarrow> bool"
    and push :: "'a \<Rightarrow> 'q \<Rightarrow> 'q"
    and front :: "'q \<Rightarrow> 'a option"
    and remove :: "'q \<Rightarrow> 'q"
  assumes push_wf: "wf q \<Longrightarrow> wf (push a q)"
    and push_items: "wf q \<Longrightarrow> items (push a q) = (if accepts q a then items q @ [a] else items q)"
    and front_items: "wf q \<Longrightarrow> front q = (case items q of [] \<Rightarrow> None | x # _ \<Rightarrow> Some x)"
    and remove_wf: "wf q \<Longrightarrow> items q \<noteq> [] \<Longrightarrow> wf (remove q)"
    and remove_items: "wf q \<Longrightarrow> items q \<noteq> [] \<Longrightarrow> items (remove q) = tl (items q)"
begin

text \<open>A run of the loop: \<open>Some a\<close> is an arriving element, \<open>None\<close> a reader that takes the front. The
  result is the queue, the elements delivered and the elements accepted.\<close>

fun run :: "'q \<Rightarrow> 'a option list \<Rightarrow> 'q \<times> 'a list \<times> 'a list" where
  "run q [] = (q, [], [])"
| "run q (Some a # es) = (case run (push a q) es of (q', out, acc) \<Rightarrow>
     (q', out, if accepts q a then a # acc else acc))"
| "run q (None # es) = (case front q of
       None \<Rightarrow> run q es
     | Some x \<Rightarrow> (case run (remove q) es of (q', out, acc) \<Rightarrow> (q', x # out, acc)))"

lemma run_fifo:
  "wf q \<Longrightarrow> run q es = (q', out, acc) \<Longrightarrow> wf q' \<and> items q @ acc = out @ items q'"
proof (induction q es arbitrary: q' out acc rule: run.induct)
  case (2 q a es)
  obtain q1 out1 acc1 where r: "run (push a q) es = (q1, out1, acc1)" by (cases "run (push a q) es")
  from "2.IH" [OF push_wf [OF "2.prems"(1)] r] r "2.prems" push_items [of q a]
  show ?case by (auto split: if_splits)
next
  case (3 q es)
  show ?case
  proof (cases "items q")
    case Nil
    with "3.prems" "3.IH"(1) front_items [of q] show ?thesis by simp
  next
    case (Cons x xs)
    then have f: "front q = Some x" using "3.prems"(1) front_items [of q] by simp
    obtain q1 out1 acc1 where r: "run (remove q) es = (q1, out1, acc1)" by (cases "run (remove q) es")
    from "3.IH"(2) [OF f _ r] r f "3.prems" Cons remove_wf [of q] remove_items [of q]
    show ?thesis by auto
  qed
qed auto

lemma run_accepted: "run q es = (q', out, acc) \<Longrightarrow> subseq acc (List.map_filter id es)"
proof (induction q es arbitrary: q' out acc rule: run.induct)
  case (2 q a es)
  then show ?case by (auto simp: List.map_filter_simps split: prod.splits if_splits)
next
  case (3 q es)
  then show ?case by (auto simp: List.map_filter_simps split: option.splits prod.splits)
qed (auto simp: List.map_filter_simps)

end

section \<open>The buffer\<close>

record mediaBuffer =
  mb_tags :: "flvTag list"
  mb_size :: u32
  mb_maxSize :: u32

definition NewMediaBuffer :: "u32 \<Rightarrow> mediaBuffer" where
  "NewMediaBuffer maxSize = \<lparr>mb_tags = [], mb_size = 0, mb_maxSize = maxSize\<rparr>"

definition fits :: "mediaBuffer \<Rightarrow> flvTag \<Rightarrow> bool" where
  "fits mb t \<longleftrightarrow> mb_size mb + ftSize t < mb_maxSize mb"

definition push :: "flvTag \<Rightarrow> mediaBuffer \<Rightarrow> mediaBuffer" where
  "push t mb =
     (if mb_size mb + ftSize t < mb_maxSize mb
      then mb\<lparr>mb_size := mb_size mb + ftSize t, mb_tags := mb_tags mb @ [t]\<rparr>
      else mb)"

definition front :: "mediaBuffer \<Rightarrow> flvTag option" where
  "front mb = (case mb_tags mb of [] \<Rightarrow> None | t # _ \<Rightarrow> Some t)"

text \<open>\<^verbatim>\<open>remove\<close> is called on the front element only.\<close>

definition remove :: "mediaBuffer \<Rightarrow> mediaBuffer" where
  "remove mb = (case mb_tags mb of [] \<Rightarrow> mb
     | t # ts \<Rightarrow> mb\<lparr>mb_tags := ts, mb_size := mb_size mb - ftSize t\<rparr>)"

text \<open>The size is that of the queued tags, as a 32-bit sum.\<close>

definition size_inv :: "mediaBuffer \<Rightarrow> bool" where
  "size_inv mb \<longleftrightarrow> mb_size mb = (\<Sum>t\<leftarrow>mb_tags mb. ftSize t)"

interpretation mb: bounded_fifo size_inv mb_tags fits push front remove
  by unfold_locales
    (auto simp: size_inv_def push_def fits_def front_def remove_def split: list.splits)

section \<open>The loop\<close>

text \<open>One turn of the loop: a tag or the closing of the subscription, or a \<^verbatim>\<open>Get\<close> that takes the front,
  possible only when the queue is not empty. \<open>mb_open\<close> tells whether the loop still runs; what it
  hands to \<^verbatim>\<open>Get\<close> is recorded. When the subscription is closed the loop returns and closes the
  output, with whatever is still queued.\<close>

datatype mb_event = Arrive flvTag | SubClosed | Take

record mb_loop =
  mbl_buf :: mediaBuffer
  mbl_open :: bool
  mbl_out :: "flvTag list"

fun mb_step :: "mb_loop \<Rightarrow> mb_event \<Rightarrow> mb_loop" where
  "mb_step s (Arrive t) = (if mbl_open s then s\<lparr>mbl_buf := push t (mbl_buf s)\<rparr> else s)"
| "mb_step s SubClosed = s\<lparr>mbl_open := False\<rparr>"
| "mb_step s Take = (if mbl_open s then (case front (mbl_buf s) of None \<Rightarrow> s
      | Some t \<Rightarrow> s\<lparr>mbl_buf := remove (mbl_buf s), mbl_out := mbl_out s @ [t]\<rparr>) else s)"

text \<open>\<^verbatim>\<open>Get\<close> when the loop has returned.\<close>

definition Get_closed :: "mb_loop \<Rightarrow> go_error option" where
  "Get_closed s = (if mbl_open s then None else Some MediaStreamClosed)"

definition mb_start :: "u32 \<Rightarrow> mb_loop" where
  "mb_start maxSize = \<lparr>mbl_buf = NewMediaBuffer maxSize, mbl_open = True, mbl_out = []\<rparr>"

text \<open>The part of a run before the subscription is closed, as the interface sees it.\<close>

fun before_close :: "mb_event list \<Rightarrow> flvTag option list" where
  "before_close [] = []"
| "before_close (Arrive t # es) = Some t # before_close es"
| "before_close (Take # es) = None # before_close es"
| "before_close (SubClosed # es) = []"

lemma mb_step_closed: "\<not> mbl_open s \<Longrightarrow> foldl mb_step s es = s"
proof (induction es)
  case (Cons e es)
  then show ?case by (cases e; cases s) auto
qed simp

lemma loop_is_run:
  assumes "mbl_open s" "mb.run (mbl_buf s) (before_close es) = (q, out, acc)"
  shows "mbl_buf (foldl mb_step s es) = q \<and> mbl_out (foldl mb_step s es) = mbl_out s @ out"
  using assms
proof (induction es arbitrary: s q out acc rule: before_close.induct)
  case (2 t es)
  then show ?case by (auto split: prod.splits)
next
  case (3 es)
  show ?case
  proof (cases "front (mbl_buf s)")
    case None
    with 3 show ?thesis by auto
  next
    case (Some t)
    with 3 show ?thesis by (auto split: prod.splits)
  qed
qed (auto simp: mb_step_closed)

lemma size_sum_bound:
  fixes ts :: "flvTag list"
  assumes "(\<Sum>t\<leftarrow>ts. unat (ftSize t)) < 2 ^ 32"
  shows "unat (\<Sum>t\<leftarrow>ts. ftSize t) = (\<Sum>t\<leftarrow>ts. unat (ftSize t))"
  using assms
proof (induction ts)
  case (Cons t ts)
  then show ?case by (simp add: unat_word_ariths take_bit_nat_eq_self)
qed simp

text \<open>With tags that cannot wrap the 32-bit sum around, the queue stays below the maximum.\<close>

definition queued_bytes :: "mediaBuffer \<Rightarrow> nat" where
  "queued_bytes mb = (\<Sum>t\<leftarrow>mb_tags mb. unat (ftSize t))"

definition bounded :: "mediaBuffer \<Rightarrow> bool" where
  "bounded mb \<longleftrightarrow> size_inv mb \<and> unat (mb_maxSize mb) \<le> 2 ^ 31 \<and>
     (mb_tags mb = [] \<or> queued_bytes mb < unat (mb_maxSize mb))"

lemma bounded_size:
  assumes "bounded mb"
  shows "unat (mb_size mb) = queued_bytes mb" "queued_bytes mb < 2 ^ 32" "queued_bytes mb \<le> 2 ^ 31"
proof -
  show le: "queued_bytes mb \<le> 2 ^ 31" using assms by (auto simp: bounded_def queued_bytes_def)
  then show "queued_bytes mb < 2 ^ 32" by simp
  then show "unat (mb_size mb) = queued_bytes mb"
    using assms size_sum_bound [of "mb_tags mb"] by (simp add: bounded_def size_inv_def queued_bytes_def)
qed

lemma fits_iff:
  assumes "bounded mb" "unat (ftSize t) < 2 ^ 31"
  shows "fits mb t \<longleftrightarrow> queued_bytes mb + unat (ftSize t) < unat (mb_maxSize mb)"
proof -
  have "unat (mb_size mb + ftSize t) = queued_bytes mb + unat (ftSize t)"
    using bounded_size [OF assms(1)] assms(2) by (simp add: unat_word_ariths)
  then show ?thesis by (simp add: fits_def word_less_nat_alt)
qed

lemma bounded_push:
  assumes "bounded mb" "unat (ftSize t) < 2 ^ 31"
  shows "bounded (push t mb)"
proof -
  have inv: "size_inv (push t mb)" using assms(1) mb.push_wf by (simp add: bounded_def)
  show ?thesis
  proof (cases "fits mb t")
    case True
    then have "mb_tags (push t mb) = mb_tags mb @ [t]" "mb_maxSize (push t mb) = mb_maxSize mb"
      by (simp_all add: push_def fits_def)
    then show ?thesis using True inv fits_iff [OF assms] assms(1)
      by (simp add: bounded_def queued_bytes_def)
  next
    case False
    then have "push t mb = mb" by (simp add: push_def fits_def)
    with assms(1) show ?thesis by simp
  qed
qed

lemma bounded_remove:
  assumes "bounded mb" "mb_tags mb \<noteq> []"
  shows "bounded (remove mb)"
  using assms mb.remove_wf [of mb]
  by (auto simp: bounded_def queued_bytes_def remove_def split: list.splits)

definition small_arrival :: "mb_event \<Rightarrow> bool" where
  "small_arrival e = (case e of Arrive t \<Rightarrow> unat (ftSize t) < 2 ^ 31 | _ \<Rightarrow> True)"

lemma bounded_run:
  assumes "bounded (mbl_buf s)" "list_all small_arrival es"
  shows "bounded (mbl_buf (foldl mb_step s es))"
  using assms
proof (induction es arbitrary: s)
  case (Cons e es)
  have "bounded (mbl_buf (mb_step s e))"
  proof (cases e)
    case (Arrive t)
    with Cons.prems show ?thesis by (auto simp: small_arrival_def bounded_push)
  next
    case Take
    with Cons.prems show ?thesis
      by (auto simp: front_def bounded_remove split: list.split)
  qed (use Cons.prems in simp)
  with Cons show ?case by simp
qed simp

section \<open>Properties\<close>

text \<open>C21. The buffer is a bounded queue: in every run of its loop, what \<^verbatim>\<open>Get\<close> has handed out followed by
  what is still queued is a subsequence of the tags that arrived (nothing is duplicated, invented or
  reordered); the bytes queued stay below the maximum; and a tag is dropped exactly when the queued
  bytes with it would reach the maximum. (Tags of \<open>2^31\<close> bytes or more, which no chunk can
  announce, could wrap the 32-bit sum around.)\<close>

theorem buffer_is_bounded_fifo:
  assumes "list_all small_arrival es" and "unat maxSize \<le> 2 ^ 31"
  defines "s \<equiv> foldl mb_step (mb_start maxSize) es"
  shows "subseq (mbl_out s @ mb_tags (mbl_buf s)) (List.map_filter id (before_close es))
     \<and> (mb_tags (mbl_buf s) = [] \<or> queued_bytes (mbl_buf s) < unat maxSize)
     \<and> (unat (ftSize t) < 2 ^ 31 \<longrightarrow> mb_tags (push t (mbl_buf s)) =
          (if queued_bytes (mbl_buf s) + unat (ftSize t) < unat maxSize
           then mb_tags (mbl_buf s) @ [t] else mb_tags (mbl_buf s)))"
proof -
  have start: "size_inv (mbl_buf (mb_start maxSize))" "mb_tags (mbl_buf (mb_start maxSize)) = []"
    "mbl_open (mb_start maxSize)" "mbl_out (mb_start maxSize) = []"
    by (simp_all add: mb_start_def NewMediaBuffer_def size_inv_def)
  obtain q out acc where r: "mb.run (mbl_buf (mb_start maxSize)) (before_close es) = (q, out, acc)"
    by (cases "mb.run (mbl_buf (mb_start maxSize)) (before_close es)")
  have s: "mbl_buf s = q" "mbl_out s = out"
    using loop_is_run [OF start(3) r] start(4) by (simp_all add: s_def)
  have fifo: "acc = out @ mb_tags q" using mb.run_fifo [OF start(1) r] start(2) by simp
  have b: "bounded (mbl_buf s)"
    unfolding s_def using assms(1,2)
    by (intro bounded_run) (simp_all add: bounded_def mb_start_def NewMediaBuffer_def size_inv_def)
  have max: "mb_maxSize (mbl_buf s) = maxSize"
    unfolding s_def
  proof (induction es rule: rev_induct)
    case Nil
    then show ?case by (simp add: mb_start_def NewMediaBuffer_def)
  next
    case (snoc e es)
    then show ?case by (cases e) (auto simp: push_def remove_def split: option.split list.split)
  qed
  have "mb_tags (push t (mbl_buf s)) = (if queued_bytes (mbl_buf s) + unat (ftSize t) < unat maxSize
           then mb_tags (mbl_buf s) @ [t] else mb_tags (mbl_buf s))" if "unat (ftSize t) < 2 ^ 31"
    using fits_iff [OF b that] mb.push_items [of "mbl_buf s" t] b max by (simp add: bounded_def)
  then show ?thesis
    using mb.run_accepted [OF r] fifo s b max by (simp add: bounded_def)
qed

definition arriving :: "nat \<Rightarrow> mb_event" where
  "arriving n = Arrive \<lparr>ftType = 9, ftTimestamp = 0, ftSize = word_of_nat n, ftBytes = replicate n 0\<rparr>"

definition sample_arrivals :: "mb_event list" where
  "sample_arrivals = [arriving 4, arriving 5, arriving 6, Take, arriving 1]"

theorem buffer_is_bounded_fifo_witness:
  "subseq (mbl_out (foldl mb_step (mb_start 10) sample_arrivals) @
       mb_tags (mbl_buf (foldl mb_step (mb_start 10) sample_arrivals)))
     (List.map_filter id (before_close sample_arrivals))
   \<and> map ftSize (mbl_out (foldl mb_step (mb_start 10) sample_arrivals)) = [4]
   \<and> map ftSize (mb_tags (mbl_buf (foldl mb_step (mb_start 10) sample_arrivals))) = [5, 1]"
proof -
  have small: "list_all small_arrival sample_arrivals"
    by (simp add: sample_arrivals_def small_arrival_def arriving_def)
  have ten: "unat (10 :: u32) \<le> 2 ^ 31" by simp
  have "map ftSize (mbl_out (foldl mb_step (mb_start 10) sample_arrivals)) = [4]"
    "map ftSize (mb_tags (mbl_buf (foldl mb_step (mb_start 10) sample_arrivals))) = [5, 1]"
    by code_simp+
  then show ?thesis using buffer_is_bounded_fifo [OF small ten] by blast
qed

end
