(* ===== verification/Sha256.thy ===== *)
theory Sha256
  imports Go_Prelude
begin

text \<open>
  The message authentication code of the handshake: SHA-256 and HMAC as \<^verbatim>\<open>crypto/sha256\<close> and
  \<^verbatim>\<open>crypto/hmac\<close> compute them (FIPS 180-4 and FIPS 198-1), on lists of bytes. The theorems rely
  on nothing about them but the length of the result; \<open>Sha256_Eval\<close> computes them.
\<close>

section \<open>SHA-256\<close>

text \<open>
  The standard defines its constants rather than listing them: the first 32 bits of the fractional
  parts of the cube roots of the first 64 primes, and of the square roots of the first 8. \<open>root_bits k b n a\<close>
  is the largest number \<open>a + x\<close> with \<open>x < 2 ^ b\<close> whose \<open>k\<close>-th power is at most \<open>n\<close>; 35 bits are
  enough, the roots being below 8.
\<close>

primrec root_bits :: "nat \<Rightarrow> nat \<Rightarrow> nat \<Rightarrow> nat \<Rightarrow> nat" where
  "root_bits k 0 n a = a"
| "root_bits k (Suc b) n a = root_bits k b n (if (a + 2 ^ b) ^ k \<le> n then a + 2 ^ b else a)"

definition sha_primes :: "nat list" where
  "sha_primes = filter (\<lambda>p. \<forall>q \<in> set [2..<p]. p mod q \<noteq> 0) [2..<312]"

definition sha_K :: "u32 list" where
  "sha_K = map (\<lambda>p. of_nat (root_bits 3 35 (p * 2 ^ 96) 0)) sha_primes"

definition sha_H0 :: "u32 list" where
  "sha_H0 = map (\<lambda>p. of_nat (root_bits 2 35 (p * 2 ^ 64) 0)) (take 8 sha_primes)"

text \<open>\<open>rotr n\<close> is a rotation to the right.\<close>

definition rotr :: "nat \<Rightarrow> u32 \<Rightarrow> u32" where
  "rotr n x = drop_bit n x OR push_bit (32 - n) x"

definition sha_ch :: "u32 \<Rightarrow> u32 \<Rightarrow> u32 \<Rightarrow> u32" where
  "sha_ch x y z = (x AND y) XOR (NOT x AND z)"

definition sha_maj :: "u32 \<Rightarrow> u32 \<Rightarrow> u32 \<Rightarrow> u32" where
  "sha_maj x y z = (x AND y) XOR (x AND z) XOR (y AND z)"

definition sha_S0 :: "u32 \<Rightarrow> u32" where "sha_S0 x = rotr 2 x XOR rotr 13 x XOR rotr 22 x"
definition sha_S1 :: "u32 \<Rightarrow> u32" where "sha_S1 x = rotr 6 x XOR rotr 11 x XOR rotr 25 x"
definition sha_s0 :: "u32 \<Rightarrow> u32" where "sha_s0 x = rotr 7 x XOR rotr 18 x XOR drop_bit 3 x"
definition sha_s1 :: "u32 \<Rightarrow> u32" where "sha_s1 x = rotr 17 x XOR rotr 19 x XOR drop_bit 10 x"

text \<open>The big-endian words of a block.\<close>

fun block_words :: "u8 list \<Rightarrow> u32 list" where
  "block_words (a # b # c # d # bs) = be32_join a b c d # block_words bs"
| "block_words _ = []"

text \<open>The message schedule, newest word first: each step reads the 2nd, 7th, 15th and 16th last.\<close>

primrec schedule :: "nat \<Rightarrow> u32 list \<Rightarrow> u32 list" where
  "schedule 0 ws = ws"
| "schedule (Suc n) ws =
     schedule n ((sha_s1 (ws ! 1) + ws ! 6 + sha_s0 (ws ! 14) + ws ! 15) # ws)"

datatype sha_state = Sha u32 u32 u32 u32 u32 u32 u32 u32

fun sha_round :: "sha_state \<Rightarrow> u32 \<times> u32 \<Rightarrow> sha_state" where
  "sha_round (Sha a b c d e f g h) (k, w) =
     (let t1 = h + sha_S1 e + sha_ch e f g + k + w;
          t2 = sha_S0 a + sha_maj a b c
      in Sha (t1 + t2) a b c (d + t1) e f g)"

fun sha_add :: "sha_state \<Rightarrow> sha_state \<Rightarrow> sha_state" where
  "sha_add (Sha a b c d e f g h) (Sha a' b' c' d' e' f' g' h') =
     Sha (a + a') (b + b') (c + c') (d + d') (e + e') (f + f') (g + g') (h + h')"

definition sha_block :: "sha_state \<Rightarrow> u8 list \<Rightarrow> sha_state" where
  "sha_block s bs =
     sha_add s (foldl sha_round s (zip sha_K (rev (schedule 48 (rev (block_words bs))))))"

definition sha_pad :: "u8 list \<Rightarrow> u8 list" where
  "sha_pad bs =
     (let n = length bs; z = (119 - n mod 64) mod 64; bits = (word_of_nat (8 * n) :: u64)
      in bs @ 0x80 # replicate z 0 @ be32_put (ucast (drop_bit 32 bits)) @ be32_put (ucast bits))"

function sha_blocks :: "sha_state \<Rightarrow> u8 list \<Rightarrow> sha_state" where
  "sha_blocks s bs = (if bs = [] then s else sha_blocks (sha_block s (take 64 bs)) (drop 64 bs))"
  by pat_completeness auto
termination
  by (relation "measure (\<lambda>(s, bs). length bs)") auto

declare sha_blocks.simps [simp del]

fun sha_init :: "u32 list \<Rightarrow> sha_state" where
  "sha_init [a, b, c, d, e, f, g, h] = Sha a b c d e f g h"
| "sha_init _ = Sha 0 0 0 0 0 0 0 0"

fun sha_bytes :: "sha_state \<Rightarrow> u8 list" where
  "sha_bytes (Sha a b c d e f g h) = concat (map be32_put [a, b, c, d, e, f, g, h])"

definition sha256 :: "u8 list \<Rightarrow> u8 list" where
  "sha256 bs = sha_bytes (sha_blocks (sha_init sha_H0) (sha_pad bs))"

lemma sha256_length [simp]: "length (sha256 bs) = 32"
  by (cases "sha_blocks (sha_init sha_H0) (sha_pad bs)") (simp add: sha256_def)

section \<open>HMAC\<close>

definition hmac_key :: "u8 list \<Rightarrow> u8 list" where
  "hmac_key key = (let k = (if length key > 64 then sha256 key else key) in k @ replicate (64 - length k) 0)"

definition hmac_sha256 :: "u8 list \<Rightarrow> u8 list \<Rightarrow> u8 list" where
  "hmac_sha256 key msg =
     (let k = hmac_key key
      in sha256 (map (\<lambda>b. b XOR 0x5c) k @ sha256 (map (\<lambda>b. b XOR 0x36) k @ msg)))"

lemma hmac_sha256_length [simp]: "length (hmac_sha256 key msg) = 32"
  by (simp add: hmac_sha256_def Let_def)

end
