(* ===== verification/Handshake.thy ===== *)
theory Handshake
  imports Go_IO Sha256
begin

text \<open>
  The server's side of the handshake, \<^verbatim>\<open>src/handshake.go\<close>: where a digest sits in a 1536-byte block,
  how a client's block is validated, how the response is made, and the exchange on a connection.
  Slices and copies keep Go's bounds checks; the bytes of \<^verbatim>\<open>crypto/rand\<close> are parameters.
\<close>

section \<open>Slices and copies\<close>

definition go_slice :: "nat \<Rightarrow> nat \<Rightarrow> 'a list \<Rightarrow> 'a list res" where
  "go_slice a b xs = (if a \<le> b \<and> b \<le> length xs then Ok (take (b - a) (drop a xs)) else Panic)"

text \<open>\<^verbatim>\<open>copy(dst[k:], src)\<close>: the new contents of \<open>dst\<close>.\<close>

definition go_copy :: "'a list \<Rightarrow> nat \<Rightarrow> 'a list \<Rightarrow> 'a list res" where
  "go_copy dst k src =
     (if k \<le> length dst then Ok (take k dst @ take (length dst - k) src @ drop (k + length src) dst)
      else Panic)"

lemma go_copy_Ok: "go_copy dst k src = Ok dst' \<Longrightarrow> length dst' = length dst"
  by (auto simp: go_copy_def min_def split: if_splits)

section \<open>Digests\<close>

definition HANDSHAKE_SIZE :: nat where [simp]: "HANDSHAKE_SIZE = 1536"
definition DIGEST_LENGTH :: nat where [simp]: "DIGEST_LENGTH = 32"

definition GENUINE_FMS_KEY :: "u8 list" where
  "GENUINE_FMS_KEY = [
     0x47, 0x65, 0x6e, 0x75, 0x69, 0x6e, 0x65, 0x20, 0x41, 0x64, 0x6f, 0x62,
     0x65, 0x20, 0x46, 0x6c, 0x61, 0x73, 0x68, 0x20, 0x4d, 0x65, 0x64, 0x69,
     0x61, 0x20, 0x53, 0x65, 0x72, 0x76, 0x65, 0x72, 0x20, 0x30, 0x30, 0x31,
     0xf0, 0xee, 0xc2, 0x4a, 0x80, 0x68, 0xbe, 0xe8, 0x2e, 0x00, 0xd0, 0xd1,
     0x02, 0x9e, 0x7e, 0x57, 0x6e, 0xec, 0x5d, 0x2d, 0x29, 0x80, 0x6f, 0xab,
     0x93, 0xb8, 0xe6, 0x36, 0xcf, 0xeb, 0x31, 0xae]"

definition GENUINE_FP_KEY :: "u8 list" where
  "GENUINE_FP_KEY = [
     0x47, 0x65, 0x6e, 0x75, 0x69, 0x6e, 0x65, 0x20, 0x41, 0x64, 0x6f, 0x62,
     0x65, 0x20, 0x46, 0x6c, 0x61, 0x73, 0x68, 0x20, 0x50, 0x6c, 0x61, 0x79,
     0x65, 0x72, 0x20, 0x30, 0x30, 0x31, 0xf0, 0xee, 0xc2, 0x4a, 0x80, 0x68,
     0xbe, 0xe8, 0x2e, 0x00, 0xd0, 0xd1, 0x02, 0x9e, 0x7e, 0x57, 0x6e, 0xec,
     0x5d, 0x2d, 0x29, 0x80, 0x6f, 0xab, 0x93, 0xb8, 0xe6, 0x36, 0xcf, 0xeb,
     0x31, 0xae]"

definition calculateHMACsha256 :: "u8 list \<Rightarrow> u8 list \<Rightarrow> u8 list" where
  "calculateHMACsha256 msgBytes key = hmac_sha256 key msgBytes"

definition sumBytes :: "u8 list \<Rightarrow> u32" where
  "sumBytes buf = foldl (\<lambda>sum b. sum + ucast b) 0 buf"

definition getDigestOffset0 :: "u8 list \<Rightarrow> u32 res" where
  "getDigestOffset0 buf = res_bind (go_slice 8 12 buf) (\<lambda>s. Ok (sumBytes s mod 728 + 12))"

definition getDigestOffset1 :: "u8 list \<Rightarrow> u32 res" where
  "getDigestOffset1 buf = res_bind (go_slice 772 776 buf) (\<lambda>s. Ok (sumBytes s mod 728 + 776))"

definition getDigestOffset :: "u8 list \<Rightarrow> int \<Rightarrow> u32 res" where
  "getDigestOffset buf scheme =
     (if scheme = 0 then getDigestOffset0 buf
      else if scheme = 1 then getDigestOffset1 buf
      else getDigestOffset0 buf)"

text \<open>The block without its digest: two copies into a zeroed buffer.\<close>

definition without_digest :: "u8 list \<Rightarrow> u32 \<Rightarrow> u8 list res" where
  "without_digest buf off =
     res_bind (go_slice 0 (unat off) buf) (\<lambda>a.
     res_bind (go_copy (replicate (HANDSHAKE_SIZE - DIGEST_LENGTH) 0) 0 a) (\<lambda>tmp.
     res_bind (go_slice (unat (off + 32)) (length buf) buf) (\<lambda>b.
     go_copy tmp (unat off) b)))"

definition validateScheme :: "u8 list \<Rightarrow> int \<Rightarrow> unit res" where
  "validateScheme buf scheme =
     res_bind
       (if scheme = 0 then getDigestOffset0 buf
        else if scheme = 1 then getDigestOffset1 buf
        else Err (Errorf ''validateScheme: invlaid scheme''))
       (\<lambda>digestOffset.
     res_bind (without_digest buf digestOffset) (\<lambda>tempBuffer.
       let hash = calculateHMACsha256 tempBuffer (take 30 GENUINE_FP_KEY) in
     res_bind (go_slice (unat digestOffset) (unat (digestOffset + 32)) buf) (\<lambda>digest.
       if digest \<noteq> hash then Err (Errorf ''validateScheme: digest comparison failed'') else Ok ())))"

text \<open>The loop over the schemes 0 and 1; the scheme is 0 when both fail.\<close>

definition validate :: "u8 list \<Rightarrow> (int \<times> go_error option) res" where
  "validate buf = (case validateScheme buf 0 of
       Panic \<Rightarrow> Panic
     | Ok _ \<Rightarrow> Ok (0, None)
     | Err _ \<Rightarrow> (case validateScheme buf 1 of
           Panic \<Rightarrow> Panic
         | Ok _ \<Rightarrow> Ok (1, None)
         | Err _ \<Rightarrow> Ok (0, Some (Errorf ''all validation schemes failed''))))"

section \<open>The response\<close>

text \<open>\<open>rnd1\<close> are the 1528 random bytes of \<^verbatim>\<open>s1[8:]\<close>, \<open>rnd2\<close> the 1504 random bytes of \<^verbatim>\<open>s2\<close>.\<close>

definition make_s1 :: "u8 list \<Rightarrow> int \<Rightarrow> u8 list res" where
  "make_s1 rnd1 scheme =
     res_bind (go_copy (replicate HANDSHAKE_SIZE 0) 4 (be32_put 0x01020304)) (\<lambda>s1.
     res_bind (go_copy s1 8 rnd1) (\<lambda>s1.
     res_bind (getDigestOffset s1 scheme) (\<lambda>s1off.
     res_bind (without_digest s1 s1off) (\<lambda>s1bytes.
       let s1hash = calculateHMACsha256 s1bytes (take 36 GENUINE_FMS_KEY) in
     go_copy s1 (unat s1off) s1hash))))"

definition make_s2 :: "u8 list \<Rightarrow> int \<Rightarrow> u8 list \<Rightarrow> u8 list res" where
  "make_s2 c1 scheme rnd2 =
     res_bind (getDigestOffset c1 scheme) (\<lambda>c1off.
     res_bind (go_slice (unat c1off) (unat (c1off + 32)) c1) (\<lambda>c1hash.
     res_bind (go_copy (replicate HANDSHAKE_SIZE 0) 0 rnd2) (\<lambda>s2.
     res_bind (go_slice 0 (HANDSHAKE_SIZE - DIGEST_LENGTH) s2) (\<lambda>s2bytes.
       let s2key = calculateHMACsha256 c1hash (take 68 GENUINE_FMS_KEY);
           s2hash = calculateHMACsha256 s2bytes s2key in
     go_copy s2 (HANDSHAKE_SIZE - DIGEST_LENGTH) s2hash))))"

text \<open>The exchange. A failed validation is only logged. The response is written and flushed by one
  goroutine while another discards the client's last block: both have finished when the call
  returns without an error, and the error of either is the error of the call.\<close>

definition SHandshake ::
    "u8 list option \<Rightarrow> u8 list option \<Rightarrow> reader \<Rightarrow> writer \<Rightarrow> unit res \<times> reader \<times> writer" where
  "SHandshake rnd1 rnd2 r w = (case ReadByte r of
       (_, Panic, r) \<Rightarrow> (Panic, r, w)
     | (_, Err e, r) \<Rightarrow> (Err e, r, w)
     | (_, Ok c0, r) \<Rightarrow> (case ReadFull HANDSHAKE_SIZE r of
           (_, Panic, r) \<Rightarrow> (Panic, r, w)
         | (_, Err e, r) \<Rightarrow> (Err e, r, w)
         | (_, Ok c1, r) \<Rightarrow> (case validate c1 of
               Panic \<Rightarrow> (Panic, r, w)
             | Err e \<Rightarrow> (Err e, r, w)
             | Ok (scheme, _) \<Rightarrow> (case rnd1 of
                   None \<Rightarrow> (Err (Errorf ''SHandshake failed to create S1 bytes''), r, w)
                 | Some rnd1 \<Rightarrow> (case make_s1 rnd1 scheme of
                       Panic \<Rightarrow> (Panic, r, w)
                     | Err e \<Rightarrow> (Err e, r, w)
                     | Ok s1 \<Rightarrow> (case rnd2 of
                           None \<Rightarrow> (Err (Errorf ''SHandshake failed to create S2 bytes''), r, w)
                         | Some rnd2 \<Rightarrow> (case make_s2 c1 scheme rnd2 of
                               Panic \<Rightarrow> (Panic, r, w)
                             | Err e \<Rightarrow> (Err e, r, w)
                             | Ok s2 \<Rightarrow>
                                 let response = [0x03] @ s1 @ s2;
                                     (_, written, w) = Write response w;
                                     (_, err, r) = CopyN_from HANDSHAKE_SIZE r
                                 in (if written = Ok () \<and> err = None then Ok ()
                                     else Err (Errorf ''SHandshake connection error''), r, w))))))))"

text \<open>The client's side is a stub.\<close>

definition Handshake :: "reader \<Rightarrow> unit res" where
  "Handshake conn = Err (Errorf ''not implemented'')"

definition doSimpleHandshake :: "reader \<Rightarrow> u8 list \<Rightarrow> unit res" where
  "doSimpleHandshake conn c1 = Err (Errorf ''simple handshake not implemented'')"

section \<open>Blocks that carry their own digest\<close>

definition digest_at :: "nat \<Rightarrow> u8 list \<Rightarrow> u8 list" where
  "digest_at k buf = take 32 (drop k buf)"

definition strip :: "nat \<Rightarrow> u8 list \<Rightarrow> u8 list" where
  "strip k buf = take k buf @ drop (k + 32) buf"

definition place :: "nat \<Rightarrow> u8 list \<Rightarrow> u8 list \<Rightarrow> u8 list" where
  "place k d buf = take k buf @ d @ drop (k + 32) buf"

text \<open>
  The interface of a digest scheme: an offset that depends only on bytes before it and leaves room
  for the digest, and a code of 32 bytes. A block is signed by writing, at its offset, the code of
  the rest of it.
\<close>

locale digest_scheme =
  fixes offset :: "u8 list \<Rightarrow> nat"
    and mac :: "u8 list \<Rightarrow> u8 list"
  assumes offset_bound: "length buf = 1536 \<Longrightarrow> offset buf + 32 \<le> 1536"
    and offset_prefix: "length buf = 1536 \<Longrightarrow> length buf' = 1536 \<Longrightarrow>
      take (offset buf) buf' = take (offset buf) buf \<Longrightarrow> offset buf' = offset buf"
    and mac_length: "length (mac x) = 32"
begin

lemma sign_length: "length buf = 1536 \<Longrightarrow> length (place (offset buf) (mac x) buf) = 1536"
  using offset_bound [of buf] mac_length by (simp add: place_def)

lemma sign_offset: "length buf = 1536 \<Longrightarrow> offset (place (offset buf) (mac x) buf) = offset buf"
  using offset_bound [of buf]
  by (intro offset_prefix sign_length) (simp_all add: place_def)

lemma sign_signed:
  assumes "length buf = 1536"
  defines "b \<equiv> place (offset buf) (mac (strip (offset buf) buf)) buf"
  shows "digest_at (offset b) b = mac (strip (offset b) b)"
proof -
  have "offset b = offset buf" unfolding b_def by (rule sign_offset [OF assms(1)])
  moreover have "strip (offset buf) b = strip (offset buf) buf" "digest_at (offset buf) b = mac (strip (offset buf) buf)"
    using offset_bound [OF assms(1)] mac_length assms(1)
    by (simp_all add: b_def strip_def digest_at_def place_def)
  ultimately show ?thesis by simp
qed

lemma signed_iff:
  assumes "length b = 1536"
  shows "digest_at (offset b) b = mac (strip (offset b) b) \<longleftrightarrow>
     place (offset b) (mac (strip (offset b) b)) b = b"
proof
  assume "digest_at (offset b) b = mac (strip (offset b) b)"
  then have "place (offset b) (mac (strip (offset b) b)) b =
      take (offset b) b @ take 32 (drop (offset b) b) @ drop 32 (drop (offset b) b)"
    by (simp add: place_def digest_at_def add.commute)
  then show "place (offset b) (mac (strip (offset b) b)) b = b" by (simp only: append_take_drop_id)
next
  assume placed: "place (offset b) (mac (strip (offset b) b)) b = b"
  have "digest_at (offset b) (place (offset b) (mac (strip (offset b) b)) b) = mac (strip (offset b) b)"
    using offset_bound [OF assms] mac_length assms by (simp add: digest_at_def place_def)
  with placed show "digest_at (offset b) b = mac (strip (offset b) b)" by simp
qed

end

definition scheme_offset :: "int \<Rightarrow> u8 list \<Rightarrow> nat" where
  "scheme_offset scheme buf = (case getDigestOffset buf scheme of Ok x \<Rightarrow> unat x | _ \<Rightarrow> 0)"

lemma unat_offset: "unat (x mod 728 + 12 :: u32) = unat (x mod 728) + 12"
    "unat (x mod 728 + 776 :: u32) = unat (x mod 728) + 776"
    "unat (x mod 728) < 728" for x :: u32
proof -
  show "unat (x mod 728) < 728" by (simp add: unat_mod_distrib)
  then show "unat (x mod 728 + 12) = unat (x mod 728) + 12" "unat (x mod 728 + 776) = unat (x mod 728) + 776"
    by (simp_all add: unat_word_ariths)
qed

lemma getDigestOffset_Ok:
  assumes "length buf = 1536"
  obtains x where "getDigestOffset buf scheme = Ok x" "unat x = scheme_offset scheme buf"
    "12 \<le> unat x" "unat x + 32 \<le> 1535" "unat (x + 32) = unat x + 32"
    "scheme = 1 \<Longrightarrow> 776 \<le> unat x"
proof -
  let ?s = "sumBytes (take 4 (drop (if scheme = 1 then 772 else 8) buf))"
  let ?x = "if scheme = 1 then ?s mod 728 + 776 else ?s mod 728 + 12"
  have x: "getDigestOffset buf scheme = Ok ?x"
    using assms by (simp add: getDigestOffset_def getDigestOffset0_def getDigestOffset1_def go_slice_def)
  moreover have bound: "12 \<le> unat ?x" "unat ?x + 32 \<le> 1535"
    using unat_offset [of ?s] by (auto simp del: unat_plus_if')
  moreover have "unat (?x + 32) = unat ?x + 32"
    using bound(2) by (simp add: unat_word_ariths del: unat_plus_if')
  moreover have "scheme = 1 \<Longrightarrow> 776 \<le> unat ?x"
    using unat_offset [of ?s] by (auto simp del: unat_plus_if')
  ultimately show thesis using that by (auto simp: scheme_offset_def)
qed

text \<open>The sum of four bytes depends on these bytes only.\<close>

lemma scheme_offset_prefix:
  assumes len: "length buf = 1536" "length buf' = 1536"
    and same: "take (scheme_offset scheme buf) buf' = take (scheme_offset scheme buf) buf"
  shows "scheme_offset scheme buf' = scheme_offset scheme buf"
proof -
  let ?k = "scheme_offset scheme buf"
  let ?i = "if scheme = 1 then 772 else 8"
  have x: "12 \<le> ?k" "scheme = 1 \<Longrightarrow> 776 \<le> ?k"
    by (rule getDigestOffset_Ok [OF len(1), of scheme]; simp)+
  have "?i + 4 \<le> ?k" using x by (cases "scheme = 1") simp_all
  then have "take 4 (drop ?i b) = take 4 (drop ?i (take ?k b))" for b :: "u8 list"
    by (simp add: take_drop min_def)
  then have "take 4 (drop ?i buf') = take 4 (drop ?i buf)" using same by metis
  then show ?thesis
    using len by (simp add: scheme_offset_def getDigestOffset_def getDigestOffset0_def
        getDigestOffset1_def go_slice_def split: if_splits)
qed

interpretation scheme: digest_scheme "scheme_offset scheme" "\<lambda>msg. calculateHMACsha256 msg key"
  for scheme key
proof
  fix buf buf' x :: "u8 list"
  show "length buf = 1536 \<Longrightarrow> scheme_offset scheme buf + 32 \<le> 1536"
    by (erule getDigestOffset_Ok [of buf scheme]) simp
  show "length buf = 1536 \<Longrightarrow> length buf' = 1536 \<Longrightarrow>
      take (scheme_offset scheme buf) buf' = take (scheme_offset scheme buf) buf \<Longrightarrow>
      scheme_offset scheme buf' = scheme_offset scheme buf"
    by (rule scheme_offset_prefix)
  show "length (calculateHMACsha256 x key) = 32" by (simp add: calculateHMACsha256_def)
qed

section \<open>No slice is out of range\<close>

lemma without_digest_Ok:
  assumes "length buf = 1536" "unat off + 32 \<le> 1535" "unat (off + 32) = unat off + 32"
  shows "without_digest buf off = Ok (strip (unat off) buf)"
  using assms by (simp add: without_digest_def go_slice_def go_copy_def strip_def del: unat_plus_if')

text \<open>A client block is valid for a scheme when it carries its own digest.\<close>

definition signed :: "int \<Rightarrow> u8 list \<Rightarrow> u8 list \<Rightarrow> bool" where
  "signed scheme key b \<longleftrightarrow> digest_at (scheme_offset scheme b) b =
     calculateHMACsha256 (strip (scheme_offset scheme b) b) key"

lemma validateScheme_iff:
  assumes len: "length buf = 1536" and scheme: "scheme = 0 \<or> scheme = 1"
  shows "validateScheme buf scheme = (if signed scheme (take 30 GENUINE_FP_KEY) buf then Ok ()
     else Err (Errorf ''validateScheme: digest comparison failed''))"
proof -
  obtain x where x: "getDigestOffset buf scheme = Ok x" "unat x = scheme_offset scheme buf"
    "unat x + 32 \<le> 1535" "unat (x + 32) = unat x + 32"
    using getDigestOffset_Ok [OF len] by metis
  have "go_slice (unat x) (unat (x + 32)) buf = Ok (digest_at (unat x) buf)"
    using x len by (simp add: go_slice_def digest_at_def del: unat_plus_if')
  moreover have "(if scheme = 0 then getDigestOffset0 buf else if scheme = 1 then getDigestOffset1 buf
        else Err (Errorf ''validateScheme: invlaid scheme'')) = Ok x"
    using x(1) scheme by (auto simp: getDigestOffset_def)
  ultimately show ?thesis
    using without_digest_Ok [OF len x(3,4)] x(2)
    by (simp add: validateScheme_def signed_def Let_def)
qed

definition client_scheme :: "u8 list \<Rightarrow> int option" where
  "client_scheme c1 =
     (if signed 0 (take 30 GENUINE_FP_KEY) c1 then Some 0
      else if signed 1 (take 30 GENUINE_FP_KEY) c1 then Some 1 else None)"

lemma validate_cases:
  assumes "length buf = 1536"
  shows "validate buf = (case client_scheme buf of
       Some s \<Rightarrow> Ok (s, None) | None \<Rightarrow> Ok (0, Some (Errorf ''all validation schemes failed'')))"
  using assms by (simp add: validate_def validateScheme_iff client_scheme_def)

lemma make_s1_Ok:
  assumes rnd: "length rnd1 = 1528"
  defines "s \<equiv> [0, 0, 0, 0, 1, 2, 3, 4] @ rnd1"
  shows "make_s1 rnd1 scheme = Ok (place (scheme_offset scheme s)
     (calculateHMACsha256 (strip (scheme_offset scheme s) s) (take 36 GENUINE_FMS_KEY)) s)"
proof -
  have len: "length s = 1536" using rnd by (simp add: s_def)
  obtain x where x: "getDigestOffset s scheme = Ok x" "unat x = scheme_offset scheme s"
    "unat x + 32 \<le> 1535" "unat (x + 32) = unat x + 32"
    using getDigestOffset_Ok [OF len] by metis
  have "be32_put 0x01020304 = [1, 2, 3, 4]" by code_simp
  then have "go_copy (replicate 1536 0) 4 (be32_put 0x01020304) = Ok ([0, 0, 0, 0, 1, 2, 3, 4] @ replicate 1528 0)"
    by (simp add: go_copy_def numeral_eq_Suc)
  moreover have "go_copy ([0, 0, 0, 0, 1, 2, 3, 4] @ replicate 1528 0) 8 rnd1 = Ok s"
    using rnd by (simp add: go_copy_def s_def)
  moreover have "go_copy s (unat x) (calculateHMACsha256 (strip (unat x) s) (take 36 GENUINE_FMS_KEY)) =
      Ok (place (unat x) (calculateHMACsha256 (strip (unat x) s) (take 36 GENUINE_FMS_KEY)) s)"
    using x(3) len by (simp add: go_copy_def place_def calculateHMACsha256_def)
  ultimately show ?thesis
    using x without_digest_Ok [OF len x(3,4)] by (simp add: make_s1_def Let_def)
qed

lemma make_s2_Ok:
  assumes c1: "length c1 = 1536" and rnd: "length rnd2 = 1504"
  shows "make_s2 c1 scheme rnd2 = Ok (rnd2 @ calculateHMACsha256 rnd2
     (calculateHMACsha256 (digest_at (scheme_offset scheme c1) c1) (take 68 GENUINE_FMS_KEY)))"
proof -
  obtain x where x: "getDigestOffset c1 scheme = Ok x" "unat x = scheme_offset scheme c1"
    "unat x + 32 \<le> 1535" "unat (x + 32) = unat x + 32"
    using getDigestOffset_Ok [OF c1] by metis
  have "go_slice (unat x) (unat (x + 32)) c1 = Ok (digest_at (unat x) c1)"
    using x c1 by (simp add: go_slice_def digest_at_def del: unat_plus_if')
  then show ?thesis
    using x(1,2) rnd
    by (auto simp: make_s2_def go_copy_def go_slice_def Let_def calculateHMACsha256_def split: if_splits)
qed

section \<open>Properties\<close>

definition the_Ok :: "'a res \<Rightarrow> 'a" where
  "the_Ok x = (case x of Ok a \<Rightarrow> a)"

text \<open>The response to the client block \<open>c1\<close>.\<close>

definition server_response :: "u8 list \<Rightarrow> u8 list \<Rightarrow> u8 list \<Rightarrow> u8 list" where
  "server_response c1 rnd1 rnd2 =
     (let scheme = (case client_scheme c1 of Some s \<Rightarrow> s | None \<Rightarrow> 0)
      in [3] @ the_Ok (make_s1 rnd1 scheme) @ the_Ok (make_s2 c1 scheme rnd2))"

text \<open>C25. The exchange: given the client's version byte, block and acknowledgement, and random bytes,
  the handshake succeeds, consumes exactly these 3073 bytes and writes exactly the response to the
  block. It does so whatever the version byte and the block are: a block that validates under
  neither scheme is answered like one of scheme 0.\<close>

theorem SHandshake_exchange:
  assumes "length c1 = 1536" and "length c2 = 1536" and "length rnd1 = 1528" and "length rnd2 = 1504"
    and "wroom w = None"
  shows "SHandshake (Some rnd1) (Some rnd2) \<lparr>rbytes = c0 # c1 @ c2 @ rest, rend = e\<rparr> w =
     (Ok (), \<lparr>rbytes = rest, rend = e\<rparr>, w\<lparr>wout := wout w @ server_response c1 rnd1 rnd2\<rparr>)"
proof -
  have "ReadFull 1536 \<lparr>rbytes = c1 @ c2 @ rest, rend = e\<rparr> = (1536, Ok c1, \<lparr>rbytes = c2 @ rest, rend = e\<rparr>)"
    by (rule ReadFull_append [OF assms(1)])
  moreover have "CopyN_from 1536 \<lparr>rbytes = c2 @ rest, rend = e\<rparr> = (c2, None, \<lparr>rbytes = rest, rend = e\<rparr>)"
    by (rule CopyN_from_append [OF assms(2)])
  ultimately show ?thesis
    using make_s1_Ok [OF assms(3)] make_s2_Ok [OF assms(1,4)] assms(5)
    by (simp add: SHandshake_def validate_cases [OF assms(1)] server_response_def the_Ok_def Write_def
        split: option.split)
qed

text \<open>C10. The response is well formed: 3073 bytes, the version 3, a time of zero, the version
  1.2.3.4; the S1 block carries its own digest under the server key at the offset a client computes
  from it, for the scheme of the client (0 when it has none); and S2 ends with the code of its
  random bytes under the key derived from the client's digest.\<close>

theorem response_well_formed:
  assumes "length c1 = 1536" and "length rnd1 = 1528" and "length rnd2 = 1504"
  defines "s \<equiv> (case client_scheme c1 of Some s \<Rightarrow> s | None \<Rightarrow> 0)"
    and "resp \<equiv> server_response c1 rnd1 rnd2"
  shows "length resp = 3073 \<and> take 9 resp = [3, 0, 0, 0, 0, 1, 2, 3, 4] \<and>
     signed s (take 36 GENUINE_FMS_KEY) (take 1536 (drop 1 resp)) \<and>
     drop 1537 resp = rnd2 @ calculateHMACsha256 rnd2
       (calculateHMACsha256 (digest_at (scheme_offset s c1) c1) (take 68 GENUINE_FMS_KEY))"
proof -
  let ?key = "take 36 GENUINE_FMS_KEY"
  let ?b = "[0, 0, 0, 0, 1, 2, 3, 4] @ rnd1"
  let ?s1 = "place (scheme_offset s ?b) (calculateHMACsha256 (strip (scheme_offset s ?b) ?b) ?key) ?b"
  have b: "length ?b = 1536" using assms(2) by simp
  have len: "length ?s1 = 1536" by (rule scheme.sign_length [OF b])
  have "signed s ?key ?s1" unfolding signed_def by (rule scheme.sign_signed [OF b])
  moreover have "12 \<le> scheme_offset s ?b" by (rule getDigestOffset_Ok [OF b, of s]) simp
  then have "take 8 ?s1 = [0, 0, 0, 0, 1, 2, 3, 4]" by (simp add: place_def)
  moreover have resp: "resp = [3] @ ?s1 @ rnd2 @ calculateHMACsha256 rnd2
       (calculateHMACsha256 (digest_at (scheme_offset s c1) c1) (take 68 GENUINE_FMS_KEY))"
    using make_s1_Ok [OF assms(2)] make_s2_Ok [OF assms(1,3)]
    by (simp add: resp_def server_response_def s_def the_Ok_def Let_def)
  ultimately show ?thesis
    using len assms(3) by (simp add: calculateHMACsha256_def)
qed

theorem response_well_formed_witness:
  "length (server_response (replicate 1536 1) (replicate 1528 5) (replicate 1504 6)) = 3073"
  using response_well_formed [of "replicate 1536 1" "replicate 1528 5" "replicate 1504 6"]
  by (simp only: length_replicate simp_thms)

text \<open>C28. Validation accepts exactly the blocks that carry their own digest: scheme 0 or 1 is reported
  when the 32 bytes at the offset of that scheme (0 first) are the code of the rest of the block
  under the first 30 bytes of the player key, an error otherwise; and signing any block under a
  scheme makes it valid. No slice is out of range.\<close>

theorem validate_accepts_signed:
  assumes "length buf = 1536" and "scheme = 0 \<or> scheme = 1"
  defines "key \<equiv> take 30 GENUINE_FP_KEY"
    and "b \<equiv> place (scheme_offset scheme buf)
       (calculateHMACsha256 (strip (scheme_offset scheme buf) buf) (take 30 GENUINE_FP_KEY)) buf"
  shows "validate buf =
       (if signed 0 key buf then Ok (0, None) else if signed 1 key buf then Ok (1, None)
        else Ok (0, Some (Errorf ''all validation schemes failed''))) \<and>
     validateScheme b scheme = Ok () \<and>
     (validateScheme buf scheme = Ok () \<longleftrightarrow> b = buf)"
proof -
  have len: "length b = 1536" unfolding b_def by (rule scheme.sign_length [OF assms(1)])
  have "signed scheme key b" unfolding signed_def key_def b_def by (rule scheme.sign_signed [OF assms(1)])
  moreover have "signed scheme key buf \<longleftrightarrow> b = buf"
    unfolding signed_def key_def b_def by (rule scheme.signed_iff [OF assms(1)])
  ultimately show ?thesis
    using validateScheme_iff [OF len assms(2)] validateScheme_iff [OF assms(1,2)] validate_cases [OF assms(1)]
    by (simp add: client_scheme_def key_def split: if_splits)
qed

end
