(* ===== verification/Rtmp_Command.thy ===== *)
theory Rtmp_Command
  imports Rtmp_Message
begin

text \<open>
  The commands of \<^verbatim>\<open>src/command.go\<close>, the statuses of \<^verbatim>\<open>src/defines.go\<close> and the connection errors of
  \<^verbatim>\<open>src/error.go\<close>. AMF encoding is done by the package goamf, which is not part of the repository:
  its functions are the fields of a parameter. Go's \<^verbatim>\<open>float64\<close> is kept as its 64 bits; the two
  conversions between it and \<^verbatim>\<open>uint32\<close> are written out on the bits.
\<close>

section \<open>Conversions between \<^verbatim>\<open>float64\<close> and \<^verbatim>\<open>uint32\<close>\<close>

text \<open>The position of the highest bit set.\<close>

fun top_bit :: "nat \<Rightarrow> nat" where
  "top_bit n = (if n < 2 then 0 else Suc (top_bit (n div 2)))"

declare top_bit.simps [simp del]

text \<open>\<^verbatim>\<open>float64(x)\<close>: exact, as 32 bits fit the 53-bit significand.\<close>

definition float64_of_uint32 :: "u32 \<Rightarrow> u64" where
  "float64_of_uint32 x =
     (if x = 0 then 0
      else let e = top_bit (unat x)
           in word_of_nat ((1023 + e) * 2 ^ 52 + (unat x - 2 ^ e) * 2 ^ (52 - e)))"

text \<open>\<^verbatim>\<open>uint32(f)\<close> truncates towards zero. For a value that does not fit (negative, too large, infinite or
  not a number) the language leaves the result to the implementation: \<open>other f\<close>.\<close>

definition uint32_of_float64 :: "(u64 \<Rightarrow> u32) \<Rightarrow> u64 \<Rightarrow> u32" where
  "uint32_of_float64 other f =
     (let n = unat f; negative = (n \<ge> 2 ^ 63); e = (n div 2 ^ 52) mod 2 ^ 11; m = n mod 2 ^ 52
      in if e < 1023 then 0
         else if \<not> negative \<and> e < 1023 + 32 then word_of_nat ((2 ^ 52 + m) div 2 ^ (52 - (e - 1023)))
         else other f)"

lemma top_bit_bounds: "0 < n \<Longrightarrow> 2 ^ top_bit n \<le> n \<and> n < 2 ^ Suc (top_bit n)"
proof (induction n rule: top_bit.induct)
  case (1 n)
  show ?case
  proof (cases "n < 2")
    case True
    with 1 show ?thesis by (simp add: top_bit.simps)
  next
    case False
    with 1 have "2 ^ top_bit (n div 2) \<le> n div 2 \<and> n div 2 < 2 ^ Suc (top_bit (n div 2))" by simp
    with False show ?thesis by (subst (1 2) top_bit.simps) (auto simp: power_Suc)
  qed
qed

lemma uint32_float64_roundtrip: "uint32_of_float64 other (float64_of_uint32 x) = x"
proof (cases "x = 0")
  case True
  then show ?thesis by (simp add: float64_of_uint32_def uint32_of_float64_def)
next
  case False
  define n where "n = unat x"
  define e where "e = top_bit n"
  define v where "v = (1023 + e) * 2 ^ 52 + (n - 2 ^ e) * 2 ^ (52 - e)"
  have "0 < n" using False by (simp add: n_def unat_gt_0)
  then have e: "2 ^ e \<le> n" "n < 2 ^ Suc e" using top_bit_bounds [of n] by (simp_all add: e_def)
  have "n < 2 ^ LENGTH(32)" unfolding n_def by (rule unsigned_less)
  then have "(2::nat) ^ e < 2 ^ 32" using e(1) by simp
  then have e31: "e < 32" by (rule power_less_imp_less_exp [rotated]) simp
  have small: "(n - 2 ^ e) * 2 ^ (52 - e) < 2 ^ 52"
  proof -
    have "n - 2 ^ e < 2 ^ e" using e by simp
    then have "(n - 2 ^ e) * 2 ^ (52 - e) < 2 ^ e * 2 ^ (52 - e)" by simp
    also have "\<dots> = 2 ^ 52" using e31 by (simp flip: power_add)
    finally show ?thesis .
  qed
  have "v < (1023 + e) * 2 ^ 52 + 2 ^ 52" using small by (simp add: v_def)
  also have "\<dots> \<le> (1023 + 31) * 2 ^ 52 + 2 ^ 52" using e31 by simp
  finally have v: "v < 2 ^ 63" by simp
  have "float64_of_uint32 x = word_of_nat v"
    unfolding float64_of_uint32_def Let_def v_def e_def n_def using False by (simp only: if_False)
  moreover have "unat (word_of_nat v :: u64) = v" using v by (intro unat_of_nat_small) simp
  ultimately have f: "unat (float64_of_uint32 x) = v" by (simp only:)
  have parts: "(a * k + r) div k = a" "(a * k + r) mod k = r" if "r < k" for a k r :: nat
    using that by simp_all
  have div_mod: "v div 2 ^ 52 = 1023 + e" "v mod 2 ^ 52 = (n - 2 ^ e) * 2 ^ (52 - e)"
    unfolding v_def using parts [OF small] by blast+
  have pow: "(2::nat) ^ 52 = 2 ^ e * 2 ^ (52 - e)" using e31 by (simp flip: power_add)
  have "2 ^ 52 + (n - 2 ^ e) * 2 ^ (52 - e) = (2 ^ e + (n - 2 ^ e)) * 2 ^ (52 - e)"
    by (subst pow) (simp add: algebra_simps)
  also have "\<dots> = n * 2 ^ (52 - e)" using e(1) by simp
  finally have "(2 ^ 52 + v mod 2 ^ 52) div 2 ^ (52 - e) = n" using div_mod by simp
  then show ?thesis
    using e31 v div_mod by (simp add: uint32_of_float64_def Let_def f n_def)
qed

section \<open>Values and statuses\<close>

record Status =
  st_level :: string
  st_code :: string
  st_description :: string

record ConnectProperties =
  cp_fmsVer :: string
  cp_capabilities :: u64
  cp_mode :: u64

record ConnectInformation =
  ci_status :: Status
  ci_data :: string
  ci_objectEncoding :: u64

record NetStreamPlayInfo =
  pi_status :: Status
  pi_details :: string

text \<open>The dynamic types an \<^verbatim>\<open>interface{}\<close> holds here; \<open>VOther\<close> is any other value goamf can return.\<close>

datatype amf_value =
    VNil
  | VString string
  | VFloat u64
  | VObject "(string \<times> amf_value) list"
  | VUint32 u32
  | VStatus Status
  | VConnectProperties ConnectProperties
  | VConnectInformation ConnectInformation
  | VPlayInfo NetStreamPlayInfo
  | VOther nat

definition StatusConnectAccepted :: "string \<Rightarrow> Status" where
  "StatusConnectAccepted desc = \<lparr>st_level = ''status'', st_code = ''NetConnection.Connect.Success'', st_description = desc\<rparr>"
definition StatusConnectRejected :: "string \<Rightarrow> Status" where
  "StatusConnectRejected desc = \<lparr>st_level = ''error'', st_code = ''NetConnection.Connect.Rejected'', st_description = desc\<rparr>"
definition StatusConnectClosed :: "string \<Rightarrow> Status" where
  "StatusConnectClosed desc = \<lparr>st_level = ''status'', st_code = ''NetConnection.Connect.Closed'', st_description = desc\<rparr>"
definition StatusPublishBadName :: "string \<Rightarrow> Status" where
  "StatusPublishBadName desc = \<lparr>st_level = ''error'', st_code = ''NetStream.Publish.BadName'', st_description = desc\<rparr>"
definition StatusPublishStart :: "string \<Rightarrow> Status" where
  "StatusPublishStart desc = \<lparr>st_level = ''status'', st_code = ''NetStream.Publish.Start'', st_description = desc\<rparr>"
definition StatusPlayReset :: "string \<Rightarrow> Status" where
  "StatusPlayReset desc = \<lparr>st_level = ''status'', st_code = ''NetStream.Play.Reset'', st_description = desc\<rparr>"
definition StatusPlayStart :: "string \<Rightarrow> Status" where
  "StatusPlayStart desc = \<lparr>st_level = ''status'', st_code = ''NetStream.Play.Start'', st_description = desc\<rparr>"
definition StatusPlayFailed :: "string \<Rightarrow> Status" where
  "StatusPlayFailed desc = \<lparr>st_level = ''status'', st_code = ''NetStream.Play.Failed'', st_description = desc\<rparr>"
definition StatusCallFailed :: "string \<Rightarrow> Status" where
  "StatusCallFailed desc = \<lparr>st_level = ''error'', st_code = ''NetStream.Call.Failed'', st_description = desc\<rparr>"

text \<open>31 and 1 as \<^verbatim>\<open>float64\<close>.\<close>

definition DefaultConnectProperties :: ConnectProperties where
  "DefaultConnectProperties = \<lparr>cp_fmsVer = ''FMS/3,5,7,7009'', cp_capabilities = float64_of_uint32 31,
     cp_mode = float64_of_uint32 1\<rparr>"

definition DefaultConnectInformation :: ConnectInformation where
  "DefaultConnectInformation = \<lparr>ci_status = StatusConnectAccepted ''Connection accepted.'',
     ci_data = ''3,5,7,7009'', ci_objectEncoding = 0\<rparr>"

section \<open>Raw commands\<close>

record RawCommand =
  rcIsFlex :: bool
  rcStreamID :: u32
  rcTransactionID :: u32
  rcName :: string
  rcObjects :: "amf_value list"

text \<open>The functions of goamf the code calls. The readers take a buffer and give the value and the rest;
  the writers give the bytes they append.\<close>

record amf =
  amf_ReadString :: "u8 list \<Rightarrow> (string \<times> u8 list) res"
  amf_ReadDouble :: "u8 list \<Rightarrow> (u64 \<times> u8 list) res"
  amf_ReadValue :: "u8 list \<Rightarrow> (amf_value \<times> u8 list) res"
  amf_WriteString :: "string \<Rightarrow> u8 list res"
  amf_WriteDouble :: "u64 \<Rightarrow> u8 list res"
  amf_WriteValue :: "amf_value \<Rightarrow> u8 list res"
  amf_other :: "u64 \<Rightarrow> u32"

text \<open>The loop that reads values while the buffer is not empty; \<open>None\<close> if it never ends.\<close>

partial_function (option) read_objects ::
    "amf \<Rightarrow> amf_value list \<Rightarrow> u8 list \<Rightarrow> amf_value list res option" where
  "read_objects a objs buf = (if length buf > 0 then (case amf_ReadValue a buf of
         Panic \<Rightarrow> Some Panic
       | Err e \<Rightarrow> Some (Err e)
       | Ok (obj, buf) \<Rightarrow> read_objects a (objs @ [obj]) buf)
     else Some (Ok objs))"

definition ParseRawCommand :: "amf \<Rightarrow> message \<Rightarrow> RawCommand res option" where
  "ParseRawCommand a msg = (case mBuf msg of None \<Rightarrow> Some Panic | Some buf \<Rightarrow>
     (case (if mType msg = COMMAND_AMF3 then
              (case buf of [] \<Rightarrow> Err EOF | _ # buf \<Rightarrow> Ok (True, buf))
            else if mType msg = COMMAND_AMF0 then Ok (False, buf)
            else Err (Errorf ''invalid message type, cannot parse command'')) of
       Panic \<Rightarrow> Some Panic
     | Err e \<Rightarrow> Some (Err e)
     | Ok (flex, buf) \<Rightarrow> (case amf_ReadString a buf of
         Panic \<Rightarrow> Some Panic
       | Err e \<Rightarrow> Some (Err e)
       | Ok (name, buf) \<Rightarrow> (case amf_ReadDouble a buf of
           Panic \<Rightarrow> Some Panic
         | Err e \<Rightarrow> Some (Err e)
         | Ok (txnid, buf) \<Rightarrow> map_option (\<lambda>x. res_bind x (\<lambda>objs.
             Ok \<lparr>rcIsFlex = flex, rcStreamID = mStreamID msg,
                 rcTransactionID = uint32_of_float64 (amf_other a) txnid, rcName = name,
                 rcObjects = objs\<rparr>)) (read_objects a [] buf)))))"

text \<open>\<^verbatim>\<open>RawCommand.write\<close> into a buffer, and \<^verbatim>\<open>RawCommand.Message\<close>. A buffer of more than \<open>2^32 - 1\<close> bytes
  is refused.\<close>

fun write_objects :: "amf \<Rightarrow> amf_value list \<Rightarrow> u8 list res" where
  "write_objects a [] = Ok []"
| "write_objects a (obj # objs) =
     res_bind (amf_WriteValue a obj) (\<lambda>bs. res_bind (write_objects a objs) (\<lambda>bs'. Ok (bs @ bs')))"

definition RawCommand_write :: "amf \<Rightarrow> RawCommand \<Rightarrow> u8 list res" where
  "RawCommand_write a cmd =
     res_bind (amf_WriteString a (rcName cmd)) (\<lambda>name.
     res_bind (amf_WriteDouble a (float64_of_uint32 (rcTransactionID cmd))) (\<lambda>txnid.
     res_bind (write_objects a (rcObjects cmd)) (\<lambda>objs.
       Ok ((if rcIsFlex cmd then [0x00] else []) @ name @ txnid @ objs))))"

definition RawCommand_Message :: "amf \<Rightarrow> RawCommand \<Rightarrow> message res" where
  "RawCommand_Message a cmd =
     res_bind (RawCommand_write a cmd) (\<lambda>buf.
       if length buf > 2 ^ 32 - 1 then Err (Errorf ''message larger than uint32 max'')
       else Ok \<lparr>mChunkStreamID = CS_ID_COMMAND, mTimestamp = 0, mSize = word_of_nat (length buf),
                mType = COMMAND_AMF0, mStreamID = rcStreamID cmd, mBuf = Some buf,
                mIsInbound = False, mAbsoluteTimestamp = 0\<rparr>)"

section \<open>The commands\<close>

text \<open>The optional arguments carry a value even when they are not set.\<close>

record PlayCommand =
  playStreamID :: u32
  playTransactionID :: u32
  playName :: string
  playStart :: "u64 \<times> bool"

record PublishCommand =
  pubStreamID :: u32
  pubTransactionID :: u32
  pubName :: string
  pubType :: "string \<times> bool"

record ConnectCommand =
  conTransactionID :: u32
  conProperties :: "(string \<times> amf_value) list"

record OnStatusCommand =
  osStreamID :: u32
  osTransactionID :: u32
  osProperties :: amf_value
  osInfo :: amf_value

record DeleteStreamCommand =
  delTransactionID :: u32
  delStreamID :: u32

record ResultCommand =
  resStreamID :: u32
  resTransactionID :: u32
  resProperties :: amf_value
  resInfo :: amf_value

datatype command =
    CPublish PublishCommand
  | CPlay PlayCommand
  | CConnect ConnectCommand
  | CCreateStream u32
  | CDeleteStream DeleteStreamCommand
  | CFCPublish string
  | CResult ResultCommand
  | CError
  | COnStatus OnStatusCommand
  | COnFCPublish Status
  | CRaw RawCommand

definition raw_command :: RawCommand where
  "raw_command = \<lparr>rcIsFlex = False, rcStreamID = 0, rcTransactionID = 0, rcName = [], rcObjects = []\<rparr>"

text \<open>An index into the objects panics when it is out of range.\<close>

definition obj_at :: "RawCommand \<Rightarrow> nat \<Rightarrow> amf_value res" where
  "obj_at raw i = (if i < length (rcObjects raw) then Ok (rcObjects raw ! i) else Panic)"

definition as_string :: "amf_value \<Rightarrow> string \<times> bool" where
  "as_string v = (case v of VString s \<Rightarrow> (s, True) | _ \<Rightarrow> ([], False))"

definition as_float :: "amf_value \<Rightarrow> u64 \<times> bool" where
  "as_float v = (case v of VFloat x \<Rightarrow> (x, True) | _ \<Rightarrow> (0, False))"

definition ParsePlayCommand :: "RawCommand \<Rightarrow> PlayCommand res" where
  "ParsePlayCommand raw =
     (if rcName raw \<noteq> ''play'' then Err (Errorf ''play command name must be play'')
      else if length (rcObjects raw) < 2 then Err (Errorf ''insufficient play arguments'')
      else res_bind (obj_at raw 1) (\<lambda>o1. case as_string o1 of (name, ok) \<Rightarrow>
        if \<not> ok then Err (Errorf ''invalid play stream name'')
        else res_bind (obj_at raw 2) (\<lambda>o2.
          Ok \<lparr>playStreamID = rcStreamID raw, playTransactionID = rcTransactionID raw,
              playName = name, playStart = as_float o2\<rparr>)))"

definition PlayCommand_RawCommand :: "PlayCommand \<Rightarrow> RawCommand" where
  "PlayCommand_RawCommand cmd = raw_command\<lparr>rcName := ''play'', rcStreamID := playStreamID cmd,
     rcTransactionID := playTransactionID cmd,
     rcObjects := (if snd (playStart cmd) then [VNil, VString (playName cmd), VFloat (fst (playStart cmd))]
       else [VNil, VString (playName cmd)])\<rparr>"

definition ParsePublishCommand :: "RawCommand \<Rightarrow> PublishCommand res" where
  "ParsePublishCommand raw =
     (if rcName raw \<noteq> ''publish'' then Err (Errorf ''publish command name must be publish'')
      else if length (rcObjects raw) < 2 then Err (Errorf ''insufficient publish arguments'')
      else res_bind (obj_at raw 1) (\<lambda>o1. case as_string o1 of (name, ok) \<Rightarrow>
        if \<not> ok then Err (Errorf ''invalid publish stream name'')
        else res_bind (obj_at raw 2) (\<lambda>o2.
          Ok \<lparr>pubStreamID = rcStreamID raw, pubTransactionID = rcTransactionID raw,
              pubName = name, pubType = as_string o2\<rparr>)))"

definition PublishCommand_RawCommand :: "PublishCommand \<Rightarrow> RawCommand" where
  "PublishCommand_RawCommand cmd = raw_command\<lparr>rcName := ''publish'', rcStreamID := pubStreamID cmd,
     rcTransactionID := pubTransactionID cmd,
     rcObjects := (if snd (pubType cmd) then [VNil, VString (pubName cmd), VString (fst (pubType cmd))]
       else [VNil, VString (pubName cmd)])\<rparr>"

definition ParseConnectCommand :: "RawCommand \<Rightarrow> ConnectCommand res" where
  "ParseConnectCommand raw =
     (if rcName raw \<noteq> ''connect'' then Err (Errorf ''connect command name must be connect'')
      else if rcStreamID raw \<noteq> 0 then Err (Errorf ''non-zero stream id invalid for connect'')
      else if length (rcObjects raw) < 1 then Err (Errorf ''insufficient connect arguments'')
      else res_bind (obj_at raw 0) (\<lambda>o0.
        Ok \<lparr>conTransactionID = rcTransactionID raw,
            conProperties = (case o0 of VObject props \<Rightarrow> props | _ \<Rightarrow> [])\<rparr>))"

definition ConnectCommand_RawCommand :: "ConnectCommand \<Rightarrow> RawCommand" where
  "ConnectCommand_RawCommand cmd = raw_command\<lparr>rcName := ''connect'',
     rcTransactionID := conTransactionID cmd, rcObjects := [VObject (conProperties cmd)]\<rparr>"

definition OnStatusCommand_RawCommand :: "OnStatusCommand \<Rightarrow> RawCommand" where
  "OnStatusCommand_RawCommand cmd = raw_command\<lparr>rcName := ''onStatus'', rcStreamID := osStreamID cmd,
     rcTransactionID := osTransactionID cmd, rcObjects := [osProperties cmd, osInfo cmd]\<rparr>"

definition CreateStreamCommand_RawCommand :: "u32 \<Rightarrow> RawCommand" where
  "CreateStreamCommand_RawCommand txn = raw_command\<lparr>rcName := ''createStream'', rcTransactionID := txn\<rparr>"

definition ParseCreateStreamCommand :: "RawCommand \<Rightarrow> u32 res" where
  "ParseCreateStreamCommand raw =
     (if rcName raw \<noteq> ''createStream'' then Err (Errorf ''invalid cmd name for createStream'')
      else if rcStreamID raw \<noteq> 0 then Err (Errorf ''createStream can only be invoked on stream 0'')
      else Ok (rcTransactionID raw))"

text \<open>The name is not set, and the id is a \<^verbatim>\<open>uint32\<close>, not a \<^verbatim>\<open>float64\<close>.\<close>

definition DeleteStreamCommand_RawCommand :: "DeleteStreamCommand \<Rightarrow> RawCommand" where
  "DeleteStreamCommand_RawCommand cmd = raw_command\<lparr>rcTransactionID := delTransactionID cmd,
     rcObjects := [VNil, VUint32 (delStreamID cmd)]\<rparr>"

definition ParseDeleteStreamCommand :: "(u64 \<Rightarrow> u32) \<Rightarrow> RawCommand \<Rightarrow> DeleteStreamCommand res" where
  "ParseDeleteStreamCommand other raw =
     (if rcName raw \<noteq> ''deleteStream'' then Err (Errorf ''invalid cmd name for deleteStream'')
      else if rcStreamID raw \<noteq> 0 then Err (Errorf ''deleteStream can only be invoked on stream 0'')
      else if length (rcObjects raw) < 2 then Err (Errorf ''insufficient deleteStream arguments'')
      else res_bind (obj_at raw 1) (\<lambda>o1. case as_float o1 of (deleteId, ok) \<Rightarrow>
        if \<not> ok then Err (Errorf ''invalid deleteStream stream id'')
        else Ok \<lparr>delTransactionID = rcTransactionID raw, delStreamID = uint32_of_float64 other deleteId\<rparr>))"

definition FCPublishCommand_RawCommand :: "string \<Rightarrow> RawCommand" where
  "FCPublishCommand_RawCommand name = raw_command\<lparr>rcName := ''FCPublish'', rcObjects := [VNil, VString name]\<rparr>"

definition ParseFCPublishCommand :: "RawCommand \<Rightarrow> string res" where
  "ParseFCPublishCommand raw =
     (if rcName raw \<noteq> ''FCPublish'' then Err (Errorf ''invalid cmd name for FCPublish'')
      else if rcStreamID raw \<noteq> 0 then Err (Errorf ''FCPublish can only be invoked on stream 0'')
      else if length (rcObjects raw) < 2 then Err (Errorf ''insufficient FCPublish arguments'')
      else res_bind (obj_at raw 1) (\<lambda>o1. case as_string o1 of (name, ok) \<Rightarrow>
        if \<not> ok then Err (Errorf ''invalid FCPublish stream name'') else Ok name))"

definition ResultCommand_RawCommand :: "ResultCommand \<Rightarrow> RawCommand" where
  "ResultCommand_RawCommand cmd = raw_command\<lparr>rcName := ''_result'', rcStreamID := resStreamID cmd,
     rcTransactionID := resTransactionID cmd, rcObjects := [resProperties cmd, resInfo cmd]\<rparr>"

definition ParseResultCommand :: "RawCommand \<Rightarrow> ResultCommand res" where
  "ParseResultCommand raw =
     (if rcName raw \<noteq> ''_result'' then Err (Errorf ''invalid cmd name for _result'')
      else if length (rcObjects raw) < 2 then Err (Errorf ''insufficient _result arguments'')
      else res_bind (obj_at raw 0) (\<lambda>o0. res_bind (obj_at raw 1) (\<lambda>o1.
        Ok \<lparr>resStreamID = rcStreamID raw, resTransactionID = rcTransactionID raw,
            resProperties = o0, resInfo = o1\<rparr>)))"

definition ParseErrorCommand :: "RawCommand \<Rightarrow> unit res" where
  "ParseErrorCommand raw = Panic"

definition OnFCPublishCommand_RawCommand :: "Status \<Rightarrow> RawCommand" where
  "OnFCPublishCommand_RawCommand st = raw_command\<lparr>rcName := ''onFCPublish'', rcObjects := [VNil, VStatus st]\<rparr>"

definition ParseOnFCPublishCommand :: "RawCommand \<Rightarrow> Status res" where
  "ParseOnFCPublishCommand raw = Panic"

text \<open>The method of the interface.\<close>

definition RawCommand_of :: "command \<Rightarrow> RawCommand res" where
  "RawCommand_of cmd = (case cmd of
       CPublish c \<Rightarrow> Ok (PublishCommand_RawCommand c)
     | CPlay c \<Rightarrow> Ok (PlayCommand_RawCommand c)
     | CConnect c \<Rightarrow> Ok (ConnectCommand_RawCommand c)
     | CCreateStream c \<Rightarrow> Ok (CreateStreamCommand_RawCommand c)
     | CDeleteStream c \<Rightarrow> Ok (DeleteStreamCommand_RawCommand c)
     | CFCPublish c \<Rightarrow> Ok (FCPublishCommand_RawCommand c)
     | CResult c \<Rightarrow> Ok (ResultCommand_RawCommand c)
     | CError \<Rightarrow> Panic
     | COnStatus c \<Rightarrow> Ok (OnStatusCommand_RawCommand c)
     | COnFCPublish c \<Rightarrow> Ok (OnFCPublishCommand_RawCommand c)
     | CRaw raw \<Rightarrow> Ok raw)"

definition parse_by_name :: "(u64 \<Rightarrow> u32) \<Rightarrow> RawCommand \<Rightarrow> command res" where
  "parse_by_name other raw =
     (if rcName raw = ''publish'' then res_bind (ParsePublishCommand raw) (\<lambda>c. Ok (CPublish c))
      else if rcName raw = ''play'' then res_bind (ParsePlayCommand raw) (\<lambda>c. Ok (CPlay c))
      else if rcName raw = ''connect'' then res_bind (ParseConnectCommand raw) (\<lambda>c. Ok (CConnect c))
      else if rcName raw = ''createStream'' then res_bind (ParseCreateStreamCommand raw) (\<lambda>c. Ok (CCreateStream c))
      else if rcName raw = ''deleteStream'' then res_bind (ParseDeleteStreamCommand other raw) (\<lambda>c. Ok (CDeleteStream c))
      else if rcName raw = ''FCPublish'' then res_bind (ParseFCPublishCommand raw) (\<lambda>c. Ok (CFCPublish c))
      else if rcName raw = ''_result'' then res_bind (ParseResultCommand raw) (\<lambda>c. Ok (CResult c))
      else if rcName raw = ''_error'' then res_bind (ParseErrorCommand raw) (\<lambda>c. Ok CError)
      else Ok (CRaw raw))"

definition ParseCommand :: "amf \<Rightarrow> message \<Rightarrow> command res option" where
  "ParseCommand a msg = (case ParseRawCommand a msg of
       None \<Rightarrow> None
     | Some Panic \<Rightarrow> Some Panic
     | Some (Err e) \<Rightarrow> Some (Err e)
     | Some (Ok rawCmd) \<Rightarrow> Some (parse_by_name (amf_other a) rawCmd))"

end
