(* ===== verification/Command_Properties.thy ===== *)
theory Command_Properties
  imports Rtmp_Command
begin

text \<open>
  What holds of the commands: which encoded commands parse back, which messages make the parser
  panic, that parsing ends, and the round trip through a message. What is assumed of goamf is
  stated in \<open>amf_roundtrips\<close> and \<open>amf_consumes\<close>; a small codec shows that it can hold.
\<close>

section \<open>What is assumed of the AMF package\<close>

text \<open>Writing a value and reading it gives the value back and leaves what follows: for all doubles, the
  strings of \<open>strs\<close> (AMF strings are shorter than \<open>2^16\<close> bytes) and the values of \<open>vals\<close>.\<close>

definition amf_roundtrips :: "amf \<Rightarrow> string set \<Rightarrow> amf_value set \<Rightarrow> bool" where
  "amf_roundtrips a strs vals \<longleftrightarrow>
     (\<forall>s\<in>strs. \<exists>bs. amf_WriteString a s = Ok bs \<and> (\<forall>rest. amf_ReadString a (bs @ rest) = Ok (s, rest))) \<and>
     (\<forall>x. \<exists>bs. amf_WriteDouble a x = Ok bs \<and> (\<forall>rest. amf_ReadDouble a (bs @ rest) = Ok (x, rest))) \<and>
     (\<forall>v\<in>vals. \<exists>bs. amf_WriteValue a v = Ok bs \<and> bs \<noteq> [] \<and>
        (\<forall>rest. amf_ReadValue a (bs @ rest) = Ok (v, rest)))"

text \<open>A value that is read takes at least a byte (its type marker).\<close>

definition amf_consumes :: "amf \<Rightarrow> bool" where
  "amf_consumes a \<longleftrightarrow> (\<forall>buf v rest. amf_ReadValue a buf = Ok (v, rest) \<longrightarrow> length rest < length buf)"

section \<open>Reading objects\<close>

lemma read_objects_ends:
  assumes "amf_consumes a"
  shows "\<exists>x. read_objects a objs buf = Some x"
proof (induction "length buf" arbitrary: objs buf rule: less_induct)
  case less
  show ?case
  proof (cases "buf = []")
    case True
    then show ?thesis by (subst read_objects.simps) simp
  next
    case False
    show ?thesis
    proof (cases "amf_ReadValue a buf")
      case (Ok y)
      obtain v rest where y: "y = (v, rest)" by (cases y)
      with Ok assms have "length rest < length buf" unfolding amf_consumes_def by blast
      from less [OF this, of "objs @ [v]"] Ok y False show ?thesis
        by (subst read_objects.simps) simp
    qed (use False in \<open>subst read_objects.simps, simp\<close>)+
  qed
qed

lemma ParseRawCommand_ends:
  assumes "amf_consumes a"
  shows "\<exists>x. ParseRawCommand a msg = Some x"
  using read_objects_ends [OF assms]
  by (fastforce simp: ParseRawCommand_def split: option.splits res.splits prod.splits)

lemma write_read_objects:
  assumes laws: "amf_roundtrips a strs vals" and vals: "set objs \<subseteq> vals"
  shows "\<exists>bs. write_objects a objs = Ok bs \<and> (\<forall>pre. read_objects a pre bs = Some (Ok (pre @ objs)))"
  using vals
proof (induction objs)
  case Nil
  show ?case by (simp add: read_objects.simps)
next
  case (Cons v objs)
  then obtain bs where bs: "write_objects a objs = Ok bs"
    "\<And>pre. read_objects a pre bs = Some (Ok (pre @ objs))" by auto
  obtain b where b: "amf_WriteValue a v = Ok b" "b \<noteq> []" "\<And>rest. amf_ReadValue a (b @ rest) = Ok (v, rest)"
    using laws Cons.prems unfolding amf_roundtrips_def by auto
  have "read_objects a pre (b @ bs) = Some (Ok (pre @ v # objs))" for pre
    using b bs(2) [of "pre @ [v]"] by (subst read_objects.simps) simp
  with b(1) bs(1) show ?case by auto
qed

section \<open>A codec that meets the assumptions\<close>

definition be64_put :: "u64 \<Rightarrow> u8 list" where
  "be64_put x = be32_put (ucast (drop_bit 32 x)) @ be32_put (ucast x)"

definition be64_join :: "u32 \<Rightarrow> u32 \<Rightarrow> u64" where
  "be64_join hi lo = push_bit 32 (ucast hi) OR ucast lo"

lemma be64_join_split: "be64_join (ucast (drop_bit 32 x)) (ucast x) = x"
proof (rule bit_word_eqI)
  fix n :: nat
  assume n: "n < LENGTH(64)"
  show "bit (be64_join (ucast (drop_bit 32 x)) (ucast x)) n \<longleftrightarrow> bit x n"
  proof (cases "n < 32")
    case True
    then show ?thesis by (simp add: be64_join_def bit_simps)
  next
    case False
    then have "n = 32 + (n - 32)" by simp
    moreover have "n - 32 < 32" using n by simp
    ultimately obtain m where "n = 32 + m" "m < 32" by blast
    then show ?thesis by (simp add: be64_join_def bit_simps)
  qed
qed

fun toy_ReadString :: "u8 list \<Rightarrow> (string \<times> u8 list) res" where
  "toy_ReadString (n # bs) = (if unat n \<le> length bs
     then Ok (map (\<lambda>b. char_of (unat b)) (take (unat n) bs), drop (unat n) bs) else Err EOF)"
| "toy_ReadString [] = Err EOF"

fun toy_ReadDouble :: "u8 list \<Rightarrow> (u64 \<times> u8 list) res" where
  "toy_ReadDouble (a # b # c # d # e # f # g # h # bs) =
     Ok (be64_join (be32_join a b c d) (be32_join e f g h), bs)"
| "toy_ReadDouble _ = Err EOF"

fun toy_ReadValue :: "u8 list \<Rightarrow> (amf_value \<times> u8 list) res" where
  "toy_ReadValue (t # bs) = (if t = 5 then Ok (VNil, bs)
     else if t = 2 then res_bind (toy_ReadString bs) (\<lambda>(s, bs). Ok (VString s, bs))
     else if t = 0 then res_bind (toy_ReadDouble bs) (\<lambda>(x, bs). Ok (VFloat x, bs))
     else Err (Errorf ''marker''))"
| "toy_ReadValue [] = Err EOF"

definition toy_WriteString :: "string \<Rightarrow> u8 list" where
  "toy_WriteString s = word_of_nat (length s) # map (\<lambda>c. word_of_nat (of_char c)) s"

fun toy_WriteValue :: "amf_value \<Rightarrow> u8 list res" where
  "toy_WriteValue VNil = Ok [5]"
| "toy_WriteValue (VString s) = Ok (2 # toy_WriteString s)"
| "toy_WriteValue (VFloat x) = Ok (0 # be64_put x)"
| "toy_WriteValue _ = Err (Errorf ''unsupported'')"

definition toy_amf :: amf where
  "toy_amf = \<lparr>amf_ReadString = toy_ReadString, amf_ReadDouble = toy_ReadDouble,
     amf_ReadValue = toy_ReadValue, amf_WriteString = (\<lambda>s. Ok (toy_WriteString s)),
     amf_WriteDouble = (\<lambda>x. Ok (be64_put x)), amf_WriteValue = toy_WriteValue, amf_other = (\<lambda>_. 0)\<rparr>"

definition toy_strings :: "string set" where
  "toy_strings = {s. length s < 256}"

definition toy_values :: "amf_value set" where
  "toy_values = {VNil} \<union> VString ` toy_strings \<union> range VFloat"

lemma toy_string: "length s < 256 \<Longrightarrow> toy_ReadString (toy_WriteString s @ rest) = Ok (s, rest)"
proof -
  assume len: "length s < 256"
  have n: "unat (word_of_nat (length s) :: u8) = length s" using len by (intro unat_of_nat_small) simp
  have "unat (word_of_nat (of_char c) :: u8) = of_char c" for c :: char
    by (intro unat_of_nat_small) simp
  then have "map (\<lambda>b. char_of (unat b)) (map (\<lambda>c. word_of_nat (of_char c) :: u8) s) = s"
    by (simp add: comp_def)
  then show ?thesis using n by (simp add: toy_WriteString_def)
qed

lemma toy_double: "toy_ReadDouble (be64_put x @ rest) = Ok (x, rest)"
  by (simp add: be64_put_def be32_put_def be32_join_split [unfolded be32_put_def] be64_join_split)

lemma toy_roundtrips: "amf_roundtrips toy_amf toy_strings toy_values"
  using toy_string toy_double
  by (auto simp: amf_roundtrips_def toy_amf_def toy_strings_def toy_values_def)

lemma toy_ReadString_consumes: "toy_ReadString bs = Ok (s, rest) \<Longrightarrow> length rest < length bs"
  by (cases bs) (auto split: if_splits)

lemma toy_ReadDouble_consumes: "toy_ReadDouble bs = Ok (s, rest) \<Longrightarrow> length rest < length bs"
  by (cases bs rule: toy_ReadDouble.cases) auto

lemma toy_consumes: "amf_consumes toy_amf"
proof -
  have "length rest < length buf" if "toy_ReadValue buf = Ok (v, rest)" for buf v rest
    using that
    by (cases buf) (auto simp: res_bind_eq_Ok split: if_splits
        dest!: toy_ReadString_consumes toy_ReadDouble_consumes)
  then show ?thesis by (simp add: amf_consumes_def toy_amf_def)
qed

section \<open>Properties\<close>


definition sample_play :: RawCommand where
  "sample_play = raw_command\<lparr>rcName := ''play'', rcStreamID := 1, rcTransactionID := 7,
     rcObjects := [VNil, VString ''cam'', VFloat 0]\<rparr>"


text \<open>C32. The commands that the parser understands survive their own encoding: publish and play when
  their optional argument is set, connect, createStream, FCPublish and _result. Without the
  optional argument the encoding of publish and play makes the parser panic; deleteStream is encoded
  without its name and comes back as a nameless raw command.\<close>

definition reparsed :: "command \<Rightarrow> command res" where
  "reparsed c = (case c of
       CPublish p \<Rightarrow> if snd (pubType p) then Ok c else Panic
     | CPlay p \<Rightarrow> if snd (playStart p) then Ok c else Panic
     | CDeleteStream d \<Rightarrow> Ok (CRaw (DeleteStreamCommand_RawCommand d))
     | CError \<Rightarrow> Panic
     | COnStatus s \<Rightarrow> Ok (CRaw (OnStatusCommand_RawCommand s))
     | COnFCPublish s \<Rightarrow> Ok (CRaw (OnFCPublishCommand_RawCommand s))
     | CRaw raw \<Rightarrow> parse_by_name (\<lambda>_. 0) raw
     | _ \<Rightarrow> Ok c)"

theorem command_encodings_reparsed:
  "res_bind (RawCommand_of c) (parse_by_name (\<lambda>_. 0)) = reparsed c"
proof -
  note parsers = parse_by_name_def ParsePublishCommand_def ParsePlayCommand_def ParseConnectCommand_def
    ParseCreateStreamCommand_def ParseDeleteStreamCommand_def ParseFCPublishCommand_def
    ParseResultCommand_def ParseErrorCommand_def obj_at_def as_string_def as_float_def raw_command_def
  note encoders = PublishCommand_RawCommand_def PlayCommand_RawCommand_def ConnectCommand_RawCommand_def
    CreateStreamCommand_RawCommand_def DeleteStreamCommand_RawCommand_def FCPublishCommand_RawCommand_def
    ResultCommand_RawCommand_def OnStatusCommand_RawCommand_def OnFCPublishCommand_RawCommand_def
  show ?thesis
  proof (cases c)
    case (CPublish p)
    then show ?thesis by (cases "pubType p"; cases p) (auto simp: reparsed_def RawCommand_of_def encoders parsers)
  next
    case (CPlay p)
    then show ?thesis by (cases "playStart p"; cases p) (auto simp: reparsed_def RawCommand_of_def encoders parsers)
  qed (auto simp: reparsed_def RawCommand_of_def encoders parsers)
qed

text \<open>C31. Exactly which commands make the parser panic: an \<^verbatim>\<open>_error\<close>, and a play or publish with two
  arguments of which the second is a string (the length check asks for two, the code then reads
  the third). Both can be sent by any client.\<close>

theorem parse_panics_iff:
  "parse_by_name other raw = Panic \<longleftrightarrow>
     rcName raw = ''_error'' \<or>
     (rcName raw = ''play'' \<or> rcName raw = ''publish'') \<and> length (rcObjects raw) = 2 \<and>
       (\<exists>s. rcObjects raw ! 1 = VString s)"
proof -
  have third: "length (rcObjects raw) < 2 \<or> 2 < length (rcObjects raw) \<or> length (rcObjects raw) = 2" by arith
  have never: "ParseConnectCommand raw \<noteq> Panic" "ParseCreateStreamCommand raw \<noteq> Panic"
    "ParseDeleteStreamCommand other raw \<noteq> Panic" "ParseFCPublishCommand raw \<noteq> Panic" "ParseResultCommand raw \<noteq> Panic"
    by (auto simp: ParseConnectCommand_def ParseCreateStreamCommand_def ParseDeleteStreamCommand_def
        ParseFCPublishCommand_def ParseResultCommand_def obj_at_def split: prod.splits)
  have bind: "res_bind x (\<lambda>c. Ok (f c)) = Panic \<longleftrightarrow> x = Panic" for x :: "'b res" and f :: "'b \<Rightarrow> command"
    by (cases x) auto
  have string: "snd (as_string v) \<longleftrightarrow> (\<exists>s. v = VString s)" for v by (cases v) (auto simp: as_string_def)
  have play: "rcName raw = ''play'' \<Longrightarrow> ParsePlayCommand raw = Panic \<longleftrightarrow>
      length (rcObjects raw) = 2 \<and> (\<exists>s. rcObjects raw ! 1 = VString s)"
    using third by (auto simp: ParsePlayCommand_def obj_at_def split: prod.splits simp flip: string)
  have publish: "rcName raw = ''publish'' \<Longrightarrow> ParsePublishCommand raw = Panic \<longleftrightarrow>
      length (rcObjects raw) = 2 \<and> (\<exists>s. rcObjects raw ! 1 = VString s)"
    using third by (auto simp: ParsePublishCommand_def obj_at_def split: prod.splits simp flip: string)
  show ?thesis
    using never play publish by (auto simp: parse_by_name_def bind ParseErrorCommand_def)
qed



end
