(* ===== verification/Rtmp_Util.thy ===== *)
theory Rtmp_Util
  imports Rtmp_Command
begin

text \<open>
  The helpers of \<^verbatim>\<open>src/util.go\<close>: the counters the goroutines of a server share, and the dump of the values
  of a message that \<^verbatim>\<open>conn.OnMessage\<close> logs when it is no command.
\<close>

section \<open>Counters\<close>

text \<open>An \<^verbatim>\<open>int64\<close> behind atomic operations: each is one step, and additions in any order give the same.\<close>

definition Counter_Add :: "u64 \<Rightarrow> u64 \<Rightarrow> u64" where
  "Counter_Add x val = val + x"

definition Counter_Set :: "u64 \<Rightarrow> u64 \<Rightarrow> u64" where
  "Counter_Set x val = x"

lemma Counter_Add_commute: "Counter_Add x (Counter_Add y val) = Counter_Add y (Counter_Add x val)"
  by (simp add: Counter_Add_def)

lemma Counter_Add_undo [simp]: "Counter_Add (- x) (Counter_Add x val) = val"
  by (simp add: Counter_Add_def)

lemma Counter_Add_fold: "fold Counter_Add xs val = val + sum_list xs"
  by (induction xs arbitrary: val) (simp_all add: Counter_Add_def)

section \<open>Dumping a message\<close>

text \<open>The values up to the first that cannot be read; \<open>None\<close> if reading never ends.\<close>

partial_function (option) dumpAmf0 :: "amf \<Rightarrow> amf_value list \<Rightarrow> u8 list \<Rightarrow> amf_value list res option" where
  "dumpAmf0 a objs buf = (if length buf > 0 then (case amf_ReadValue a buf of
         Panic \<Rightarrow> Some Panic
       | Err e \<Rightarrow> Some (Ok objs)
       | Ok (obj, buf) \<Rightarrow> dumpAmf0 a (objs @ [obj]) buf)
     else Some (Ok objs))"

text \<open>The error of \<^verbatim>\<open>ReadByte\<close> is not looked at.\<close>

definition dumpAmf3 :: "amf \<Rightarrow> u8 list \<Rightarrow> amf_value list res option" where
  "dumpAmf3 a buf = dumpAmf0 a [] (case buf of [] \<Rightarrow> [] | _ # buf \<Rightarrow> buf)"

definition dumpAmf :: "amf \<Rightarrow> message \<Rightarrow> amf_value list res option" where
  "dumpAmf a msg =
     (if mType msg = COMMAND_AMF0 then (case mBuf msg of None \<Rightarrow> Some Panic | Some buf \<Rightarrow> dumpAmf0 a [] buf)
      else if mType msg = COMMAND_AMF3 then (case mBuf msg of None \<Rightarrow> Some Panic | Some buf \<Rightarrow> dumpAmf3 a buf)
      else Some (Ok []))"

text \<open>Where the parser reads all objects of a buffer, the dump gives the same.\<close>

lemma dump_objects:
  assumes "read_objects a objs buf = Some (Ok xs)"
  shows "dumpAmf0 a objs buf = Some (Ok xs)"
proof -
  have "\<forall>xs. y = Ok xs \<longrightarrow> dumpAmf0 a objs buf = Some (Ok xs)" if "read_objects a objs buf = Some y" for y
    using that
  proof (rule read_objects.raw_induct [where P = "\<lambda>a objs buf y. \<forall>xs. y = Ok xs \<longrightarrow> dumpAmf0 a objs buf = Some (Ok xs)", rotated])
    fix f :: "amf \<Rightarrow> amf_value list \<Rightarrow> u8 list \<Rightarrow> amf_value list res option" and a objs buf y
    assume IH: "\<And>a objs buf y. f a objs buf = Some y \<Longrightarrow> \<forall>xs. y = Ok xs \<longrightarrow> dumpAmf0 a objs buf = Some (Ok xs)"
      and run: "(if length buf > 0 then (case amf_ReadValue a buf of Panic \<Rightarrow> Some Panic | Err e \<Rightarrow> Some (Err e)
          | Ok (obj, buf) \<Rightarrow> f a (objs @ [obj]) buf) else Some (Ok objs)) = Some y"
    show "\<forall>xs. y = Ok xs \<longrightarrow> dumpAmf0 a objs buf = Some (Ok xs)"
      using run IH by (subst dumpAmf0.simps) (auto split: if_splits res.splits prod.splits)
  qed
  with assms show ?thesis by blast
qed

lemma dump_ends:
  assumes "\<And>buf obj buf'. amf_ReadValue a buf = Ok (obj, buf') \<Longrightarrow> length buf' < length buf"
  shows "\<exists>y. dumpAmf0 a objs buf = Some y"
proof (induction "length buf" arbitrary: objs buf rule: less_induct)
  case less
  then show ?case using assms by (subst dumpAmf0.simps) (auto split: res.split prod.split)
qed

end
