(* ===== verification/Conn_State.thy ===== *)
theory Conn_State
  imports Rtmp_Util Control_Messages Media_Stream Media_Buffer
begin

text \<open>
  The state a server process keeps for its connections (\<^verbatim>\<open>src/conn.go\<close>), their streams
  (\<^verbatim>\<open>src/stream.go\<close>), its two registries (\<^verbatim>\<open>src/server.go\<close>) and its players
  (\<^verbatim>\<open>src/mediaplayer.go\<close>); the errors of \<^verbatim>\<open>src/error.go\<close>; and what a connection sends.

  Go's pointers are numbers: a connection, a stream, a media stream or a player is the index of its
  record in the world. A handler is an action on the world; it ends with an error or with none, may
  panic, and may not end.
\<close>

section \<open>Connection errors\<close>

text \<open>An \<^verbatim>\<open>error\<close> is a plain value or a \<^verbatim>\<open>connError\<close>, which embeds one.\<close>

datatype err = Plain go_error | ConnErr (ce_error: err) (ce_cmd: command) (ce_fatal: bool)

definition NewConnError :: "err \<Rightarrow> command \<Rightarrow> bool \<Rightarrow> err" where
  "NewConnError e cmd fatal = ConnErr e cmd fatal"

definition NewConnErrorStatus :: "err \<Rightarrow> Status \<Rightarrow> bool \<Rightarrow> err" where
  "NewConnErrorStatus e status fatal =
     ConnErr e (COnStatus \<lparr>osStreamID = 0, osTransactionID = 0, osProperties = VNil, osInfo = VStatus status\<rparr>) fatal"

text \<open>\<^verbatim>\<open>Error()\<close>: the texts of the package's errors; \<open>io_text\<close> gives those of the operating system.\<close>

fun go_error_text :: "(nat \<Rightarrow> string) \<Rightarrow> go_error \<Rightarrow> string" where
  "go_error_text io_text EOF = ''EOF''"
| "go_error_text io_text ErrUnexpectedEOF = ''unexpected EOF''"
| "go_error_text io_text (ErrIO n) = io_text n"
| "go_error_text io_text ErrInvalidChunkHeader = ''chunk error: invalid header''"
| "go_error_text io_text ErrInvalidPriority = ''chunk error: invalid priority''"
| "go_error_text io_text ErrInvalidChunkStreamID = ''chunk error: stream id''"
| "go_error_text io_text ErrInvalidChunk = ''chunk error: invalid chunk''"
| "go_error_text io_text ErrMaxChunkStreams = ''chunk error: maximum chunk streams reached''"
| "go_error_text io_text ErrClosedChunkStream = ''chunk error: all chunk streams closed''"
| "go_error_text io_text MediaStreamClosed = ''media stream closed''"
| "go_error_text io_text (Errorf s) = s"

fun err_text :: "(nat \<Rightarrow> string) \<Rightarrow> err \<Rightarrow> string" where
  "err_text io_text (Plain e) = go_error_text io_text e"
| "err_text io_text (ConnErr e cmd fatal) = err_text io_text e"

definition ErrConnectRejected :: "(nat \<Rightarrow> string) \<Rightarrow> err \<Rightarrow> err" where
  "ErrConnectRejected io_text e = NewConnErrorStatus e (StatusConnectRejected (err_text io_text e)) True"
definition ErrPublishBadName :: "(nat \<Rightarrow> string) \<Rightarrow> err \<Rightarrow> err" where
  "ErrPublishBadName io_text e = NewConnErrorStatus e (StatusPublishBadName (err_text io_text e)) True"
definition ErrPlayFailed :: "(nat \<Rightarrow> string) \<Rightarrow> err \<Rightarrow> err" where
  "ErrPlayFailed io_text e = NewConnErrorStatus e (StatusPlayFailed (err_text io_text e)) True"
definition ErrCallFailed :: "(nat \<Rightarrow> string) \<Rightarrow> err \<Rightarrow> bool \<Rightarrow> err" where
  "ErrCallFailed io_text e fatal = NewConnErrorStatus e (StatusCallFailed (err_text io_text e)) fatal"

text \<open>A number under the verb \<^verbatim>\<open>%d\<close>.\<close>

fun decimal :: "nat \<Rightarrow> string" where
  "decimal n = (if n < 10 then [char_of (48 + n)] else decimal (n div 10) @ [char_of (48 + n mod 10)])"

declare decimal.simps [simp del]

section \<open>The state\<close>

record stream_handler =
  sh_mediaStream :: "nat option"
  sh_mediaPlayer :: "nat option"

record stream =
  strm_id :: u32
  strm_csid :: u32
  strm_conn :: nat
  strm_name :: string
  strm_publishing :: bool
  strm_playing :: bool
  strm_handler :: "stream_handler option"

text \<open>The connection's writer accepts bytes until it fails. \<open>cn_tried\<close> are the messages it was asked
  to send, \<open>cn_sent\<close> those whose \<^verbatim>\<open>Send\<close> returned no error.\<close>

record conn =
  cn_app :: string
  cn_streams :: "u32 \<rightharpoonup> nat"
  cn_csw :: chunkStreamWriter
  cn_out :: writer
  cn_closed :: bool
  cn_finished :: bool
  cn_tried :: "message list"
  cn_sent :: "message list"

text \<open>A player reads the channel of its subscription, operation by operation, into its buffer;
  \<open>mp_sent\<close> are the tags it took from the buffer and sent.\<close>

record mediaPlayer =
  mp_ms :: nat
  mp_sub :: nat
  mp_s :: nat
  mp_mb :: mb_loop
  mp_taken :: nat
  mp_started :: bool
  mp_done :: bool
  mp_sent :: "flvTag list"

text \<open>The calls of the user's \<^verbatim>\<open>ServerHandler\<close> that only tell it something.\<close>

datatype callback =
    UConnect nat
  | UCreateStream nat
  | UDestroyStream nat
  | UPublish nat "nat option"
  | UPlay nat "nat option"
  | UClose nat go_error

text \<open>\<open>w_owner\<close> is the \<^verbatim>\<open>stream\<close> field of a media stream. \<open>w_clock\<close> counts the questions put to the
  environment.\<close>

record world =
  w_streams :: "string \<rightharpoonup> nat"
  w_players :: "nat \<rightharpoonup> nat"
  w_connections :: u64
  w_handshakeFails :: u64
  w_conn :: "nat \<Rightarrow> conn"
  w_nconn :: nat
  w_strm :: "nat \<Rightarrow> stream"
  w_nstrm :: nat
  w_media :: "nat \<Rightarrow> mediaStream"
  w_owner :: "nat \<Rightarrow> nat"
  w_nmedia :: nat
  w_player :: "nat \<Rightarrow> mediaPlayer"
  w_nplayer :: nat
  w_log :: "callback list"
  w_clock :: nat

text \<open>What the model does not decide: the AMF package, whether a flush fails, how many more bytes a
  closed connection's buffer accepts, whether the \<^verbatim>\<open>select\<close> of a call on a closed media stream takes
  the refusal, the texts of foreign errors and values, the rates of \<^verbatim>\<open>updateBps\<close>.\<close>

record env =
  e_amf :: amf
  e_flush :: "nat \<Rightarrow> go_error option"
  e_room :: "nat \<Rightarrow> nat"
  e_refuse :: "nat \<Rightarrow> bool"
  e_text :: "nat \<Rightarrow> string"
  e_show :: "amf_value option \<Rightarrow> string"
  e_rate :: "u64 \<Rightarrow> u64 \<Rightarrow> u64"

definition upd_conn :: "nat \<Rightarrow> (conn \<Rightarrow> conn) \<Rightarrow> world \<Rightarrow> world" where
  "upd_conn c f w = w\<lparr>w_conn := (w_conn w)(c := f (w_conn w c))\<rparr>"

definition upd_strm :: "nat \<Rightarrow> (stream \<Rightarrow> stream) \<Rightarrow> world \<Rightarrow> world" where
  "upd_strm s f w = w\<lparr>w_strm := (w_strm w)(s := f (w_strm w s))\<rparr>"

definition upd_player :: "nat \<Rightarrow> (mediaPlayer \<Rightarrow> mediaPlayer) \<Rightarrow> world \<Rightarrow> world" where
  "upd_player p f w = w\<lparr>w_player := (w_player w)(p := f (w_player w p))\<rparr>"

definition tell :: "callback \<Rightarrow> world \<Rightarrow> world" where
  "tell cb w = w\<lparr>w_log := w_log w @ [cb]\<rparr>"

definition tick :: "world \<Rightarrow> world" where
  "tick w = w\<lparr>w_clock := w_clock w + 1\<rparr>"

section \<open>Actions\<close>

text \<open>\<open>None\<close>: the action does not end.\<close>

type_synonym act = "world \<Rightarrow> (err option \<times> world) res option"

definition ret :: "err option \<Rightarrow> act" where
  "ret r w = Some (Ok (r, w))"

text \<open>\<^verbatim>\<open>if err := a; err != nil { return err }; b\<close>\<close>

definition and_then :: "act \<Rightarrow> act \<Rightarrow> act" where
  "and_then a b w = (case a w of Some (Ok (None, w')) \<Rightarrow> b w' | x \<Rightarrow> x)"

text \<open>\<^verbatim>\<open>a; b\<close>, where \<^verbatim>\<open>a\<close> returns nothing or its error is not looked at.\<close>

definition always :: "act \<Rightarrow> act \<Rightarrow> act" where
  "always a b w = (case a w of Some (Ok (_, w')) \<Rightarrow> b w' | x \<Rightarrow> x)"

text \<open>\<^verbatim>\<open>if err := a; err != nil { h(err) }\<close>\<close>

definition on_err :: "act \<Rightarrow> (err \<Rightarrow> act) \<Rightarrow> act" where
  "on_err a h w = (case a w of Some (Ok (Some er, w')) \<Rightarrow> h er w' | x \<Rightarrow> x)"

definition update :: "(world \<Rightarrow> world) \<Rightarrow> act" where
  "update f w = ret None (f w)"

section \<open>Sending on a connection\<close>

text \<open>\<^verbatim>\<open>conn.Send\<close> is \<^verbatim>\<open>chunkStream.Send\<close>: an unknown chunk stream is refused, a closed one too, and
  otherwise the caller gets the error of writing the message.\<close>

definition conn_Send :: "nat \<Rightarrow> message \<Rightarrow> act" where
  "conn_Send c msg w =
     (let cn = w_conn w c in
      if csw_chunkStreams (cn_csw cn) (mChunkStreamID msg) \<noteq> None \<and> csw_done (cn_csw cn)
      then ret (Some (Plain ErrClosedChunkStream)) w
      else (case serve (cn_csw cn) msg (cn_out cn) of
          None \<Rightarrow> None
        | Some Panic \<Rightarrow> Some Panic
        | Some (Err er) \<Rightarrow> Some (Err er)
        | Some (Ok (er, csw, out)) \<Rightarrow>
            ret (map_option Plain er) (upd_conn c (\<lambda>cn. cn\<lparr>cn_csw := csw, cn_out := out,
              cn_tried := cn_tried cn @ [msg],
              cn_sent := (if er = None then cn_sent cn @ [msg] else cn_sent cn)\<rparr>) w)))"

text \<open>\<^verbatim>\<open>Flush\<close> gives the error of an earlier failed write; one that fails makes the later writes fail, as
  those of \<^verbatim>\<open>bufio.Writer\<close> do.\<close>

definition fail_conn :: "go_error \<Rightarrow> conn \<Rightarrow> conn" where
  "fail_conn er cn = cn\<lparr>cn_out := (cn_out cn)\<lparr>wroom := Some 0, wfail := er\<rparr>\<rparr>"

definition conn_Flush :: "env \<Rightarrow> nat \<Rightarrow> act" where
  "conn_Flush e c w =
     (if wroom (cn_out (w_conn w c)) = Some 0 then ret (Some (Plain (wfail (cn_out (w_conn w c))))) w
      else (case e_flush e (w_clock w) of
          None \<Rightarrow> ret None (tick w)
        | Some er \<Rightarrow> ret (Some (Plain er)) (upd_conn c (fail_conn er) (tick w))))"

definition encode_command :: "env \<Rightarrow> command \<Rightarrow> message res" where
  "encode_command e cmd = res_bind (RawCommand_of cmd) (RawCommand_Message (e_amf e))"

definition conn_SendCommand :: "env \<Rightarrow> nat \<Rightarrow> command \<Rightarrow> act" where
  "conn_SendCommand e c cmd w = (case encode_command e cmd of
       Panic \<Rightarrow> Some Panic
     | Err er \<Rightarrow> ret (Some (Plain er)) w
     | Ok msg \<Rightarrow> and_then (conn_Send c msg) (conn_Flush e c) w)"

text \<open>\<^verbatim>\<open>netConn.Close\<close>: what the buffer still takes can no longer reach the peer.\<close>

definition close_net :: "nat \<Rightarrow> conn \<Rightarrow> conn" where
  "close_net room cn = cn\<lparr>cn_closed := True, cn_out := (cn_out cn)\<lparr>
     wroom := Some (case wroom (cn_out cn) of None \<Rightarrow> room | Some k \<Rightarrow> min k room)\<rparr>\<rparr>"

definition conn_Close :: "env \<Rightarrow> nat \<Rightarrow> act" where
  "conn_Close e c w = ret None (upd_conn c (close_net (e_room e (w_clock w))) (tick w))"

text \<open>The error of sending the error's command is not looked at.\<close>

definition conn_Error :: "env \<Rightarrow> nat \<Rightarrow> command \<Rightarrow> bool \<Rightarrow> act" where
  "conn_Error e c cmd fatal =
     always (conn_SendCommand e c cmd) (if fatal then conn_Close e c else ret None)"

definition conn_Fatal :: "env \<Rightarrow> nat \<Rightarrow> err \<Rightarrow> act" where
  "conn_Fatal e c er = (let ce = NewConnErrorStatus er (StatusConnectClosed (err_text (e_text e) er)) True
     in conn_Error e c (ce_cmd ce) (ce_fatal ce))"

definition SendStreamBegin :: "env \<Rightarrow> nat \<Rightarrow> u32 \<Rightarrow> act" where
  "SendStreamBegin e c streamId =
     on_err (conn_Send c (stream_begin_message streamId)) (\<lambda>er. conn_Fatal e c er)"

definition SetChunkSize :: "env \<Rightarrow> nat \<Rightarrow> u32 \<Rightarrow> act" where
  "SetChunkSize e c sz =
     on_err (and_then (conn_Send c (control_message SET_CHUNK_SIZE (be32_put sz))) (conn_Flush e c))
       (\<lambda>er. conn_Fatal e c er)"

definition SetWindowSize :: "env \<Rightarrow> nat \<Rightarrow> u32 \<Rightarrow> act" where
  "SetWindowSize e c sz =
     on_err (and_then (conn_Send c (control_message WINDOW_ACKNOWLEDGEMENT_SIZE (be32_put sz))) (conn_Flush e c))
       (\<lambda>er. conn_Fatal e c (Plain (Errorf (''SetWindowSize failed: '' @ err_text (e_text e) er))))"

definition SetPeerBandwidth :: "env \<Rightarrow> nat \<Rightarrow> u32 \<Rightarrow> u8 \<Rightarrow> act" where
  "SetPeerBandwidth e c sz limit =
     on_err (and_then (conn_Send c (control_message SET_PEER_BANDWIDTH (be32_put sz @ [limit]))) (conn_Flush e c))
       (\<lambda>er. conn_Fatal e c (Plain (Errorf (''SetPeerBandwidthFailed: '' @ err_text (e_text e) er))))"

text \<open>The goroutine \<^verbatim>\<open>OnWindowFull\<close> starts.\<close>

definition conn_OnWindowFull :: "env \<Rightarrow> nat \<Rightarrow> u32 \<Rightarrow> act" where
  "conn_OnWindowFull e c count =
     always
       (on_err (conn_Send c (control_message ACKNOWLEDGEMENT (be32_put count)))
         (\<lambda>er. conn_Fatal e c (Plain (Errorf (''OnWindowFull error: '' @ err_text (e_text e) er)))))
       (on_err (conn_Flush e c)
         (\<lambda>er. conn_Fatal e c (Plain (Errorf (''OnWindowFull flush error: '' @ err_text (e_text e) er)))))"

section \<open>Sending on a stream\<close>

definition stream_Send :: "nat \<Rightarrow> message \<Rightarrow> act" where
  "stream_Send s msg w = (let st = w_strm w s in
     conn_Send (strm_conn st) (msg\<lparr>mChunkStreamID := strm_csid st, mStreamID := strm_id st\<rparr>) w)"

definition stream_SendCommand :: "env \<Rightarrow> nat \<Rightarrow> command \<Rightarrow> act" where
  "stream_SendCommand e s cmd w = (case encode_command e cmd of
       Panic \<Rightarrow> Some Panic
     | Err er \<Rightarrow> ret (Some (Plain er)) w
     | Ok msg \<Rightarrow> and_then (stream_Send s msg) (conn_Flush e (strm_conn (w_strm w s))) w)"

end
