(* ===== verification/Server_Registry.thy ===== *)
theory Server_Registry
  imports Conn_State Id_Allocator
begin

text \<open>
  The tables of ids: the registries of published streams and of players (\<^verbatim>\<open>src/server.go\<close>), each a Go
  map behind a mutex, and the table of the streams of a connection (\<^verbatim>\<open>allocateStream\<close> and
  \<^verbatim>\<open>deleteStream\<close> of \<^verbatim>\<open>src/conn.go\<close>). The contract of a registry is the locale \<open>registry\<close>, interpreted
  on both; the scan of \<^verbatim>\<open>allocateStream\<close> is an \<open>id_allocator\<close>.
\<close>

section \<open>The contract of a registry\<close>

text \<open>The first registration of a key wins until it is deleted.\<close>

locale registry =
  fixes lookup :: "'k \<Rightarrow> 's \<Rightarrow> 'v option"
    and put :: "'k \<Rightarrow> 'v \<Rightarrow> 's \<Rightarrow> bool \<times> 's"
    and del :: "'k \<Rightarrow> 's \<Rightarrow> 's"
  assumes put_answer: "fst (put k v s) \<longleftrightarrow> lookup k s = None"
    and lookup_put: "lookup k' (snd (put k v s)) =
      (if k' = k \<and> lookup k s = None then Some v else lookup k' s)"
    and lookup_del: "lookup k' (del k s) = (if k' = k then None else lookup k' s)"
begin

lemma put_taken: "lookup k s = Some u \<Longrightarrow> \<not> fst (put k v s) \<and> lookup k' (snd (put k v s)) = lookup k' s"
  by (simp add: put_answer lookup_put)

lemma put_twice: "\<not> fst (put k v' (snd (put k v s)))"
  by (simp add: put_answer lookup_put)

lemma put_after_del: "fst (put k v (del k s))"
  by (simp add: put_answer lookup_del)

lemma put_free_unique:
  assumes "fst (put k v s)" "lookup k' s \<noteq> Some v"
  shows "lookup k' (snd (put k v s)) = Some v \<longleftrightarrow> k' = k"
  using assms by (auto simp: put_answer lookup_put)

text \<open>Of any sequence of registrations under one key exactly the first is accepted.\<close>

fun put_all :: "'k \<Rightarrow> 'v list \<Rightarrow> 's \<Rightarrow> bool list \<times> 's" where
  "put_all k [] s = ([], s)"
| "put_all k (v # vs) s = (case put k v s of (ok, s') \<Rightarrow> (case put_all k vs s' of (oks, s'') \<Rightarrow> (ok # oks, s'')))"

lemma put_all_taken:
  "lookup k s = Some u \<Longrightarrow> fst (put_all k vs s) = replicate (length vs) False \<and> lookup k (snd (put_all k vs s)) = Some u"
proof (induction vs arbitrary: s)
  case (Cons v vs)
  from put_taken [OF Cons.prems, of v k] Cons.prems have
    "\<not> fst (put k v s)" "lookup k (snd (put k v s)) = Some u" by simp_all
  with Cons.IH [of "snd (put k v s)"] show ?case by (auto split: prod.splits)
qed simp

lemma put_all_first:
  assumes "lookup k s = None"
  shows "fst (put_all k (v # vs) s) = True # replicate (length vs) False \<and>
     lookup k (snd (put_all k (v # vs) s)) = Some v"
proof -
  have "fst (put k v s)" "lookup k (snd (put k v s)) = Some v"
    using assms by (simp_all add: put_answer lookup_put)
  with put_all_taken [of k "snd (put k v s)" v vs] show ?thesis by (auto split: prod.splits)
qed

end

section \<open>Published streams\<close>

definition getStream :: "string \<Rightarrow> world \<Rightarrow> nat option" where
  "getStream name w = w_streams w name"

definition putStream :: "string \<Rightarrow> nat \<Rightarrow> world \<Rightarrow> bool \<times> world" where
  "putStream name ms w = (case w_streams w name of
       None \<Rightarrow> (True, w\<lparr>w_streams := (w_streams w)(name \<mapsto> ms)\<rparr>)
     | Some _ \<Rightarrow> (False, w))"

definition delStream :: "string \<Rightarrow> world \<Rightarrow> world" where
  "delStream name w = w\<lparr>w_streams := (w_streams w)(name := None)\<rparr>"

interpretation streams: registry getStream putStream delStream
  by unfold_locales (auto simp: getStream_def putStream_def delStream_def split: option.splits)

section \<open>Players\<close>

definition getPlayer :: "nat \<Rightarrow> world \<Rightarrow> nat option" where
  "getPlayer s w = w_players w s"

definition putPlayer :: "nat \<Rightarrow> nat \<Rightarrow> world \<Rightarrow> bool \<times> world" where
  "putPlayer s p w = (case w_players w s of
       None \<Rightarrow> (True, w\<lparr>w_players := (w_players w)(s \<mapsto> p)\<rparr>)
     | Some _ \<Rightarrow> (False, w))"

definition delPlayer :: "nat \<Rightarrow> world \<Rightarrow> world" where
  "delPlayer s w = w\<lparr>w_players := (w_players w)(s := None)\<rparr>"

interpretation players: registry getPlayer putPlayer delPlayer
  by unfold_locales (auto simp: getPlayer_def putPlayer_def delPlayer_def split: option.splits)

section \<open>The streams of a connection\<close>

text \<open>\<^verbatim>\<open>for i := uint32(1); ; i += 1\<close>: the counter wraps around, and the loop does not end when every
  id is taken.\<close>

partial_function (option) first_unused :: "(u32 \<rightharpoonup> nat) \<Rightarrow> u32 \<Rightarrow> u32 option" where
  "first_unused m i = (if m i = None then Some i else first_unused m (i + 1))"

lemma first_unused_step:
  "first_unused m i = (if m i = None then Some i else first_unused m (i + 1))"
  by (rule first_unused.simps)

lemma first_unused_reaches:
  "(\<forall>j<n. m (i + word_of_nat j) \<noteq> None) \<Longrightarrow> m (i + word_of_nat n) = None \<Longrightarrow>
     first_unused m i = Some (i + word_of_nat n)"
proof (induction n arbitrary: i)
  case 0
  then show ?case by (subst first_unused_step) simp
next
  case (Suc n)
  have "m (i + word_of_nat 0) \<noteq> None" using Suc.prems(1) by blast
  moreover have "first_unused m (i + 1) = Some (i + 1 + word_of_nat n)"
  proof (rule Suc.IH)
    show "\<forall>j<n. m (i + 1 + word_of_nat j) \<noteq> None"
    proof (intro allI impI)
      fix j assume "j < n"
      then have "m (i + word_of_nat (Suc j)) \<noteq> None" using Suc.prems(1) by blast
      then show "m (i + 1 + word_of_nat j) \<noteq> None" by (simp add: add.assoc)
    qed
    show "m (i + 1 + word_of_nat n) = None" using Suc.prems(2) by (simp add: add.assoc)
  qed
  moreover have "first_unused m i = first_unused m (i + 1)"
    using calculation(1) by (subst first_unused_step) auto
  ultimately show ?case by (simp add: add.assoc)
qed

text \<open>The distance of an id from the start of the scan.\<close>

definition scan_rank :: "u32 \<Rightarrow> nat" where
  "scan_rank i = unat (i - 1)"

lemma scan_rank_word: "1 + word_of_nat (scan_rank i) = i"
  by (simp add: scan_rank_def)

lemma first_unused_least:
  assumes "m j = None"
  shows "first_unused m 1 = Some (1 + word_of_nat (LEAST n. m (1 + word_of_nat n) = None))"
    and "m (1 + word_of_nat (LEAST n. m (1 + word_of_nat n) = None)) = None"
    and "(LEAST n. m (1 + word_of_nat n) = None) \<le> scan_rank j"
proof -
  let ?P = "\<lambda>n. m (1 + word_of_nat n) = None"
  have ex: "?P (scan_rank j)" using assms by (simp only: scan_rank_word)
  show free: "?P (LEAST n. ?P n)" by (rule LeastI [of ?P, OF ex])
  show "(LEAST n. ?P n) \<le> scan_rank j" by (rule Least_le [of ?P, OF ex])
  show "first_unused m 1 = Some (1 + word_of_nat (LEAST n. ?P n))"
    by (rule first_unused_reaches [of "LEAST n. ?P n" m 1]) (blast dest: not_less_Least, rule free)
qed

lemma first_unused_Some: "first_unused m i = Some k \<Longrightarrow> m k = None"
  by (rule first_unused.raw_induct [where P = "\<lambda>m i k. m k = None", rotated]) (auto split: if_splits)

lemma first_unused_full: "\<forall>j. m j \<noteq> None \<Longrightarrow> first_unused m i = None"
  using first_unused_Some by (metis not_Some_eq)

interpretation stream_ids: id_allocator "\<lambda>m. first_unused m 1" UNIV scan_rank
proof
  fix m :: "u32 \<rightharpoonup> nat" and i j :: u32
  show "\<exists>i. first_unused m 1 = Some i" if "m j = None"
    using first_unused_least(1) [of m j, OF that] by blast
  show "i \<in> UNIV \<and> m i = None" if some: "first_unused m 1 = Some i"
  proof -
    obtain k where "m k = None" using some first_unused_full [of m 1] by fastforce
    from first_unused_least(1,2) [of m k, OF this] some show ?thesis by simp
  qed
  show "m j \<noteq> None" if some: "first_unused m 1 = Some i" and lt: "scan_rank j < scan_rank i"
  proof
    assume free: "m j = None"
    let ?l = "LEAST n. m (1 + word_of_nat n) = None"
    have "i = 1 + word_of_nat ?l" "?l \<le> scan_rank j"
      using first_unused_least(1,3) [of m j, OF free] some by simp_all
    moreover have "scan_rank (1 + word_of_nat ?l) \<le> ?l"
      by (simp add: scan_rank_def unsigned_of_nat take_bit_nat_less_eq_self)
    ultimately show False using lt by simp
  qed
next
  show "inj_on scan_rank UNIV"
    by (rule inj_onI) (metis scan_rank_word)
qed

definition newStream :: "u32 \<Rightarrow> nat \<Rightarrow> u32 \<Rightarrow> stream" where
  "newStream i c csid = \<lparr>strm_id = i, strm_csid = csid, strm_conn = c, strm_name = [],
     strm_publishing = False, strm_playing = False, strm_handler = None\<rparr>"

text \<open>The stream allocated, with the new world.\<close>

definition allocateStream :: "nat \<Rightarrow> u32 \<Rightarrow> world \<Rightarrow> (nat \<times> world) option" where
  "allocateStream c csid w = (case first_unused (cn_streams (w_conn w c)) 1 of
       None \<Rightarrow> None
     | Some i \<Rightarrow> (let s = w_nstrm w in
         Some (s, upd_conn c (\<lambda>cn. cn\<lparr>cn_streams := (cn_streams cn)(i \<mapsto> s)\<rparr>)
           (w\<lparr>w_strm := (w_strm w)(s := newStream i c csid), w_nstrm := s + 1\<rparr>))))"

definition deleteStream :: "nat \<Rightarrow> u32 \<Rightarrow> world \<Rightarrow> nat option \<times> world" where
  "deleteStream c streamid w = (case cn_streams (w_conn w c) streamid of
       None \<Rightarrow> (None, w)
     | Some s \<Rightarrow> (Some s, upd_conn c (\<lambda>cn. cn\<lparr>cn_streams := (cn_streams cn)(streamid := None)\<rparr>) w))"

end
