(* ===== verification/Media_Player.thy ===== *)
theory Media_Player
  imports Server_Registry
begin

text \<open>
  The calls of the rest of the server on a media stream, and the player of \<^verbatim>\<open>src/mediaplayer.go\<close>: a
  buffer subscribed to a media stream whose tags are sent on a stream. The loop of the buffer takes
  what the media stream put on the channel of the subscription, one operation at a time
  (\<open>player_receive\<close>); the loop of the player takes a tag from the buffer and sends it
  (\<open>player_turn\<close>).
\<close>

section \<open>Calls on a media stream\<close>

definition media_event :: "env \<Rightarrow> nat \<Rightarrow> ms_event \<Rightarrow> world \<Rightarrow> world" where
  "media_event e m ev w = w\<lparr>w_media := (w_media w)(m := ms_step (e_rate e) (w_media w m) ev)\<rparr>"

text \<open>The loop has returned, or the stream is closed and the \<^verbatim>\<open>select\<close> of the caller takes \<^verbatim>\<open>done\<close>.\<close>

definition refused :: "env \<Rightarrow> nat \<Rightarrow> world \<Rightarrow> bool" where
  "refused e m w \<longleftrightarrow> \<not> ms_running (w_media w m) \<or> ms_done (w_media w m) \<and> e_refuse e (w_clock w)"

definition media_Publish :: "env \<Rightarrow> nat \<Rightarrow> flvTag \<Rightarrow> act" where
  "media_Publish e m tag w =
     (if refused e m w then ret (Some (Plain MediaStreamClosed)) (tick w)
      else ret None (media_event e m (Publish tag) (tick w)))"

text \<open>The new channel.\<close>

definition media_Subscribe :: "env \<Rightarrow> nat \<Rightarrow> world \<Rightarrow> nat res \<times> world" where
  "media_Subscribe e m w =
     (if refused e m w then (Err MediaStreamClosed, tick w)
      else (Ok (ms_next (w_media w m)), media_event e m Subscribe (tick w)))"

definition media_Unsubscribe :: "env \<Rightarrow> nat \<Rightarrow> nat \<Rightarrow> world \<Rightarrow> world" where
  "media_Unsubscribe e m ch w =
     (if refused e m w then tick w else media_event e m (Unsubscribe ch) (tick w))"

definition media_Close :: "env \<Rightarrow> nat \<Rightarrow> world \<Rightarrow> world" where
  "media_Close e m w = media_event e m CloseStream w"

text \<open>\<^verbatim>\<open>NewMediaStream(name, stream)\<close>; the name is for the log.\<close>

definition new_media :: "nat \<Rightarrow> world \<Rightarrow> nat \<times> world" where
  "new_media s w = (let m = w_nmedia w in
     (m, w\<lparr>w_media := (w_media w)(m := NewMediaStream), w_owner := (w_owner w)(m := s), w_nmedia := m + 1\<rparr>))"

section \<open>The player\<close>

text \<open>The buffer holds up to 4 MB.\<close>

definition NewMediaPlayer :: "env \<Rightarrow> nat \<Rightarrow> nat \<Rightarrow> world \<Rightarrow> nat res \<times> world" where
  "NewMediaPlayer e m s w = (case media_Subscribe e m w of
       (Ok ch, w) \<Rightarrow> (let p = w_nplayer w in
         (Ok p, w\<lparr>w_player := (w_player w)(p := \<lparr>mp_ms = m, mp_sub = ch, mp_s = s,
            mp_mb = mb_start (4 * 1024 * 1024), mp_taken = 0, mp_started = False, mp_done = False, mp_sent = []\<rparr>),
            w_nplayer := p + 1\<rparr>))
     | (Err er, w) \<Rightarrow> (Err er, w)
     | (Panic, w) \<Rightarrow> (Panic, w))"

definition mp_Start :: "nat \<Rightarrow> world \<Rightarrow> world" where
  "mp_Start p w = upd_player p (\<lambda>mp. mp\<lparr>mp_started := True\<rparr>) w"

definition mp_Close :: "env \<Rightarrow> nat \<Rightarrow> world \<Rightarrow> world" where
  "mp_Close e p w = media_Unsubscribe e (mp_ms (w_player w p)) (mp_sub (w_player w p)) w"

definition tag_message :: "flvTag \<Rightarrow> message" where
  "tag_message tag = \<lparr>mChunkStreamID = 0, mTimestamp = ftTimestamp tag, mSize = ftSize tag,
     mType = ftType tag, mStreamID = 0, mBuf = Some (ftBytes tag), mIsInbound = False, mAbsoluteTimestamp = 0\<rparr>"

definition writeTag :: "nat \<Rightarrow> flvTag \<Rightarrow> act" where
  "writeTag p tag w = stream_Send (mp_s (w_player w p)) (tag_message tag) w"

text \<open>The loop of the buffer takes the next operation of its channel.\<close>

definition player_receive :: "nat \<Rightarrow> world \<Rightarrow> world" where
  "player_receive p w = (let mp = w_player w p; ops = ms_chans (w_media w (mp_ms mp)) (mp_sub mp) in
     if mp_taken mp < length ops
     then upd_player p (\<lambda>mp. mp\<lparr>mp_taken := mp_taken mp + 1,
            mp_mb := mb_step (mp_mb mp) (case ops ! mp_taken mp of SendTag t \<Rightarrow> Arrive t | CloseChan \<Rightarrow> SubClosed)\<rparr>) w
     else w)"

text \<open>The deferred calls when the loop of the player returns.\<close>

definition player_return :: "env \<Rightarrow> nat \<Rightarrow> world \<Rightarrow> world" where
  "player_return e p w = mp_Close e p (upd_player p (\<lambda>mp. mp\<lparr>mp_done := True\<rparr>) w)"

text \<open>One turn of the loop of a started player: \<^verbatim>\<open>Get\<close> blocks while the buffer is open and empty.\<close>

definition player_turn :: "env \<Rightarrow> nat \<Rightarrow> act" where
  "player_turn e p w = (let mp = w_player w p in
     if \<not> mp_started mp \<or> mp_done mp then ret None w
     else if \<not> mbl_open (mp_mb mp) then ret None (player_return e p w)
     else (case front (mbl_buf (mp_mb mp)) of
         None \<Rightarrow> ret None w
       | Some tag \<Rightarrow> (let w = upd_player p (\<lambda>mp. mp\<lparr>mp_mb := mb_step (mp_mb mp) Take\<rparr>) w in
           (case writeTag p tag w of
               Some (Ok (None, w)) \<Rightarrow> ret None (upd_player p (\<lambda>mp. mp\<lparr>mp_sent := mp_sent mp @ [tag]\<rparr>) w)
             | Some (Ok (Some er, w)) \<Rightarrow> ret None (player_return e p w)
             | x \<Rightarrow> x))))"

end
