(* ===== verification/Rtmp_Server.thy ===== *)
theory Rtmp_Server
  imports Media_Player
begin

text \<open>
  The dispatch of what a connection receives: \<^verbatim>\<open>src/conn.go\<close>, \<^verbatim>\<open>src/stream.go\<close> and the handlers of
  \<^verbatim>\<open>src/server.go\<close> between them. A message goes from \<^verbatim>\<open>conn.OnMessage\<close> to the parser and on to
  \<^verbatim>\<open>OnCommand\<close> or \<^verbatim>\<open>OnReceive\<close>; a command goes through the user's \<^verbatim>\<open>Invoke\<close>, which is given an invoker for the
  server's own handling, which ends in the default handling of the connection or the stream.
\<close>

section \<open>The user's handler\<close>

text \<open>\<^verbatim>\<open>ServerHandler.Invoke(conn, stream, cmd, callback)\<close> is a parameter of the handlers; that of the
  repository's server calls the callback.\<close>

type_synonym user_invoke = "nat \<Rightarrow> nat option \<Rightarrow> command \<Rightarrow> (command \<Rightarrow> act) \<Rightarrow> act"

definition demo_Invoke :: user_invoke where
  "demo_Invoke c s cmd callback = callback cmd"

section \<open>Callbacks into the server\<close>

definition sc_OnConnect :: "nat \<Rightarrow> world \<Rightarrow> world" where
  "sc_OnConnect c w = tell (UConnect c) w"

definition sc_OnCreateStream :: "nat \<Rightarrow> world \<Rightarrow> world" where
  "sc_OnCreateStream s w = tell (UCreateStream s)
     (upd_strm s (\<lambda>st. st\<lparr>strm_handler := Some \<lparr>sh_mediaStream = None, sh_mediaPlayer = None\<rparr>\<rparr>) w)"

definition close_media_of :: "env \<Rightarrow> nat \<Rightarrow> world \<Rightarrow> world" where
  "close_media_of e s w = (case getStream (strm_name (w_strm w s)) w of
       None \<Rightarrow> w
     | Some m \<Rightarrow> delStream (strm_name (w_strm w s)) (media_Close e m w))"

definition close_player_of :: "env \<Rightarrow> nat \<Rightarrow> world \<Rightarrow> world" where
  "close_player_of e s w = (case getPlayer s w of
       None \<Rightarrow> w
     | Some p \<Rightarrow> delPlayer s (mp_Close e p w))"

definition sc_OnDestroyStream :: "env \<Rightarrow> nat \<Rightarrow> world \<Rightarrow> world" where
  "sc_OnDestroyStream e s w =
     (let w = (if strm_publishing (w_strm w s) then close_media_of e s w else w);
          w = (if strm_playing (w_strm w s) then close_player_of e s w else w)
      in tell (UDestroyStream s) w)"

definition ss_OnPublish :: "nat \<Rightarrow> world \<Rightarrow> world" where
  "ss_OnPublish s w = (let m = getStream (strm_name (w_strm w s)) w in
     tell (UPublish s m)
       (upd_strm s (\<lambda>st. st\<lparr>strm_handler := map_option (\<lambda>h. h\<lparr>sh_mediaStream := m\<rparr>) (strm_handler st)\<rparr>) w))"

definition ss_OnPlay :: "nat \<Rightarrow> world \<Rightarrow> world" where
  "ss_OnPlay s w = (let p = getPlayer s w in
     tell (UPlay s p)
       (upd_strm s (\<lambda>st. st\<lparr>strm_handler := map_option (\<lambda>h. h\<lparr>sh_mediaPlayer := p\<rparr>) (strm_handler st)\<rparr>) w))"

text \<open>A received media message is published; \<^verbatim>\<open>Publish\<close>'s error is not looked at.\<close>

definition ss_OnReceive :: "env \<Rightarrow> stream_handler \<Rightarrow> message \<Rightarrow> act" where
  "ss_OnReceive e h msg w = (case sh_mediaStream h of
       None \<Rightarrow> ret None w
     | Some m \<Rightarrow>
         if mType msg = VIDEO_TYPE \<or> mType msg = AUDIO_TYPE \<or> mType msg = DATA_AMF0
         then (case mBuf msg of
             None \<Rightarrow> Some Panic
           | Some bs \<Rightarrow> always (media_Publish e m \<lparr>ftType = mType msg,
               ftTimestamp = mAbsoluteTimestamp msg, ftSize = mSize msg, ftBytes = bs\<rparr>) (ret None) w)
         else ret None w)"

section \<open>The default handling of a stream\<close>

definition play_status :: "Status \<Rightarrow> string \<Rightarrow> command" where
  "play_status st name = COnStatus \<lparr>osStreamID = 0, osTransactionID = 0, osProperties = VNil,
     osInfo = VPlayInfo \<lparr>pi_status = st, pi_details = name\<rparr>\<rparr>"

definition stream_invokePublish :: "env \<Rightarrow> nat \<Rightarrow> PublishCommand \<Rightarrow> act" where
  "stream_invokePublish e s cmd w =
     (if length (pubName cmd) = 0
      then ret (Some (ErrPublishBadName (e_text e) (Plain (Errorf ''invalid publish stream name'')))) w
      else and_then
        (conn_SendCommand e (strm_conn (w_strm w s)) (COnStatus \<lparr>osStreamID = pubStreamID cmd,
           osTransactionID = pubTransactionID cmd, osProperties = VNil,
           osInfo = VStatus (StatusPublishStart (''Publishing '' @ pubName cmd @ ''.''))\<rparr>))
        (\<lambda>w. let w = upd_strm s (\<lambda>st. st\<lparr>strm_name := pubName cmd, strm_publishing := True\<rparr>) w in
           ret None (if strm_handler (w_strm w s) \<noteq> None then ss_OnPublish s w else w)) w)"

definition stream_invokePlay :: "env \<Rightarrow> nat \<Rightarrow> PlayCommand \<Rightarrow> act" where
  "stream_invokePlay e s cmd w =
     (if length (playName cmd) = 0
      then ret (Some (ErrPlayFailed (e_text e) (Plain (Errorf ''invalid play stream name'')))) w
      else and_then (stream_SendCommand e s (play_status (StatusPlayReset ''reset'') (playName cmd)))
        (and_then (stream_SendCommand e s (play_status (StatusPlayStart ''play'') (playName cmd)))
          (\<lambda>w. let w = upd_strm s (\<lambda>st. st\<lparr>strm_name := playName cmd, strm_playing := True\<rparr>) w in
             ret None (if strm_handler (w_strm w s) \<noteq> None then ss_OnPlay s w else w))) w)"

definition stream_Invoke :: "env \<Rightarrow> nat \<Rightarrow> command \<Rightarrow> act" where
  "stream_Invoke e s cmd = (case cmd of
       CPublish c \<Rightarrow> stream_invokePublish e s c
     | CPlay c \<Rightarrow> stream_invokePlay e s c
     | _ \<Rightarrow> ret None)"

section \<open>The server's handling of a stream\<close>

definition ss_invokePublish :: "env \<Rightarrow> nat \<Rightarrow> PublishCommand \<Rightarrow> (command \<Rightarrow> act) \<Rightarrow> act" where
  "ss_invokePublish e s cmd callback w = (case new_media s w of (m, w) \<Rightarrow>
     (case putStream (pubName cmd) m w of
         (False, w) \<Rightarrow> ret (Some (ErrPublishBadName (e_text e)
             (Plain (Errorf (''invalid stream name: '' @ pubName cmd))))) (media_Close e m w)
       | (True, w) \<Rightarrow> on_err (callback (CPublish cmd)) (\<lambda>er w.
           ret (Some er) (media_Close e m (delStream (pubName cmd) w))) w))"

definition ss_invokePlay :: "env \<Rightarrow> nat \<Rightarrow> PlayCommand \<Rightarrow> (command \<Rightarrow> act) \<Rightarrow> act" where
  "ss_invokePlay e s cmd callback w = (case getStream (playName cmd) w of
       None \<Rightarrow> ret (Some (ErrPlayFailed (e_text e)
           (Plain (Errorf (''invalid stream name: '' @ playName cmd))))) w
     | Some m \<Rightarrow> (case NewMediaPlayer e m s w of
         (Panic, w) \<Rightarrow> Some Panic
       | (Err er, w) \<Rightarrow> ret (Some (ErrPlayFailed (e_text e) (Plain er))) w
       | (Ok p, w) \<Rightarrow> (let w = (case putPlayer s p w of
               (True, w) \<Rightarrow> w
             | (False, w) \<Rightarrow> delPlayer s (mp_Close e p w)) in
           (case callback (CPlay cmd) w of
               Some (Ok (Some er, w)) \<Rightarrow> ret (Some er) (mp_Close e p (delPlayer s w))
             | Some (Ok (None, w)) \<Rightarrow> ret None (mp_Start p w)
             | x \<Rightarrow> x))))"

definition ss_DoInvoke :: "env \<Rightarrow> nat \<Rightarrow> (command \<Rightarrow> act) \<Rightarrow> command \<Rightarrow> act" where
  "ss_DoInvoke e s callback cmd = (case cmd of
       CPublish c \<Rightarrow> ss_invokePublish e s c callback
     | CPlay c \<Rightarrow> ss_invokePlay e s c callback
     | _ \<Rightarrow> callback cmd)"

definition ss_Invoke :: "env \<Rightarrow> user_invoke \<Rightarrow> nat \<Rightarrow> command \<Rightarrow> (command \<Rightarrow> act) \<Rightarrow> act" where
  "ss_Invoke e user s cmd callback w =
     user (strm_conn (w_strm w s)) (Some s) cmd (ss_DoInvoke e s callback) w"

text \<open>\<^verbatim>\<open>stream.OnCommand\<close> and \<^verbatim>\<open>stream.OnReceive\<close>.\<close>

definition stream_OnCommand :: "env \<Rightarrow> user_invoke \<Rightarrow> nat \<Rightarrow> command \<Rightarrow> act" where
  "stream_OnCommand e user s cmd w = (case strm_handler (w_strm w s) of
       Some _ \<Rightarrow> ss_Invoke e user s cmd (stream_Invoke e s) w
     | None \<Rightarrow> stream_Invoke e s cmd w)"

definition stream_OnReceive :: "env \<Rightarrow> nat \<Rightarrow> message \<Rightarrow> act" where
  "stream_OnReceive e s msg w = (case strm_handler (w_strm w s) of
       Some h \<Rightarrow> ss_OnReceive e h msg w
     | None \<Rightarrow> ret None w)"

section \<open>The default handling of a connection\<close>

text \<open>The value of a property: a later one of the same name replaces an earlier one.\<close>

definition property :: "(string \<times> amf_value) list \<Rightarrow> string \<Rightarrow> amf_value option" where
  "property props k = map_of (rev props) k"

definition conn_invokeConnect :: "env \<Rightarrow> nat \<Rightarrow> ConnectCommand \<Rightarrow> act" where
  "conn_invokeConnect e c cmd = (case property (conProperties cmd) ''app'' of
       Some (VString app) \<Rightarrow>
         (\<lambda>w. always (SetWindowSize e c 2500000)
           (always (SetPeerBandwidth e c 2500000 2)
             (always (SendStreamBegin e c 0)
               (always (SetChunkSize e c 4096)
                 (and_then (conn_SendCommand e c (CResult \<lparr>resStreamID = 0,
                      resTransactionID = conTransactionID cmd,
                      resProperties = VConnectProperties DefaultConnectProperties,
                      resInfo = VConnectInformation DefaultConnectInformation\<rparr>))
                   (update (sc_OnConnect c))))))
           (upd_conn c (\<lambda>cn. cn\<lparr>cn_app := app\<rparr>) w))
     | v \<Rightarrow> ret (Some (ErrConnectRejected (e_text e) (Plain (Errorf (''invalid app: '' @ e_show e v))))))"

definition conn_invokeCreateStream :: "env \<Rightarrow> nat \<Rightarrow> u32 \<Rightarrow> act" where
  "conn_invokeCreateStream e c txn w = (case CreateChunkStream (cn_csw (w_conn w c)) 2 of
       (Panic, csw) \<Rightarrow> Some Panic
     | (Err er, csw) \<Rightarrow> ret (Some (Plain er)) w
     | (Ok csid, csw) \<Rightarrow> (case allocateStream c csid (upd_conn c (\<lambda>cn. cn\<lparr>cn_csw := csw\<rparr>) w) of
         None \<Rightarrow> None
       | Some (s, w) \<Rightarrow>
           and_then (conn_SendCommand e c (CResult \<lparr>resStreamID = 0, resTransactionID = txn,
               resProperties = VNil, resInfo = VUint32 (strm_id (w_strm w s))\<rparr>))
             (always (SendStreamBegin e c (strm_id (w_strm w s))) (update (sc_OnCreateStream s))) w))"

definition conn_invokeDeleteStream :: "env \<Rightarrow> nat \<Rightarrow> DeleteStreamCommand \<Rightarrow> act" where
  "conn_invokeDeleteStream e c cmd w = (case deleteStream c (delStreamID cmd) w of
       (None, w) \<Rightarrow> ret (Some (ErrCallFailed (e_text e)
           (Plain (Errorf (''no such stream id: '' @ decimal (unat (delStreamID cmd))))) True)) w
     | (Some s, w) \<Rightarrow> ret None (sc_OnDestroyStream e s w))"

definition conn_invokeFCPublish :: "env \<Rightarrow> nat \<Rightarrow> string \<Rightarrow> act" where
  "conn_invokeFCPublish e c name =
     (if length name = 0 then ret (Some (ErrPublishBadName (e_text e) (Plain (Errorf ''invalid stream name''))))
      else conn_SendCommand e c (COnFCPublish (StatusPublishStart (''FCPublish to stream '' @ name))))"

definition conn_Invoke :: "env \<Rightarrow> nat \<Rightarrow> command \<Rightarrow> act" where
  "conn_Invoke e c cmd = (case cmd of
       CConnect x \<Rightarrow> conn_invokeConnect e c x
     | CCreateStream txn \<Rightarrow> conn_invokeCreateStream e c txn
     | CDeleteStream x \<Rightarrow> conn_invokeDeleteStream e c x
     | CFCPublish name \<Rightarrow> conn_invokeFCPublish e c name
     | _ \<Rightarrow> ret None)"

section \<open>The server's handling of a connection\<close>

definition sc_invokeConnect :: "env \<Rightarrow> ConnectCommand \<Rightarrow> (command \<Rightarrow> act) \<Rightarrow> act" where
  "sc_invokeConnect e cmd callback =
     (if property (conProperties cmd) ''app'' \<noteq> Some (VString ''app'')
      then ret (Some (ErrConnectRejected (e_text e)
        (Plain (Errorf (''invalid app: '' @ e_show e (property (conProperties cmd) ''app''))))))
      else callback (CConnect cmd))"

definition sc_DoInvoke :: "env \<Rightarrow> (command \<Rightarrow> act) \<Rightarrow> command \<Rightarrow> act" where
  "sc_DoInvoke e callback cmd = (case cmd of
       CConnect x \<Rightarrow> sc_invokeConnect e x callback
     | _ \<Rightarrow> callback cmd)"

definition sc_Invoke :: "env \<Rightarrow> user_invoke \<Rightarrow> nat \<Rightarrow> command \<Rightarrow> (command \<Rightarrow> act) \<Rightarrow> act" where
  "sc_Invoke e user c cmd callback = user c None cmd (sc_DoInvoke e callback)"

section \<open>What a connection receives\<close>

text \<open>The stream id of a command is that of its re-encoding.\<close>

definition conn_OnCommand :: "env \<Rightarrow> user_invoke \<Rightarrow> nat \<Rightarrow> command \<Rightarrow> act" where
  "conn_OnCommand e user c cmd = (case RawCommand_of cmd of
       Panic \<Rightarrow> (\<lambda>w. Some Panic)
     | Err er \<Rightarrow> (\<lambda>w. Some (Err er))
     | Ok raw \<Rightarrow> on_err
         (if rcStreamID raw = 0 then sc_Invoke e user c cmd (conn_Invoke e c)
          else (\<lambda>w. case cn_streams (w_conn w c) (rcStreamID raw) of
              Some s \<Rightarrow> stream_OnCommand e user s cmd w
            | None \<Rightarrow> ret (Some (Plain (Errorf ''invalid stream id specified''))) w))
         (\<lambda>er. conn_Fatal e c er))"

definition conn_OnReceive :: "env \<Rightarrow> nat \<Rightarrow> message \<Rightarrow> act" where
  "conn_OnReceive e c msg w =
     (if mStreamID msg = 0 then ret None w
      else (case cn_streams (w_conn w c) (mStreamID msg) of
          Some s \<Rightarrow> stream_OnReceive e s msg w
        | None \<Rightarrow> conn_Fatal e c (Plain (Errorf ''invalid message stream id'')) w))"

definition conn_OnMessage :: "env \<Rightarrow> user_invoke \<Rightarrow> nat \<Rightarrow> message \<Rightarrow> act" where
  "conn_OnMessage e user c msg w =
     (if mType msg = COMMAND_AMF3 \<or> mType msg = COMMAND_AMF0
      then (case ParseCommand (e_amf e) msg of
          None \<Rightarrow> None
        | Some Panic \<Rightarrow> Some Panic
        | Some (Err er) \<Rightarrow> (case dumpAmf (e_amf e) msg of
            None \<Rightarrow> None
          | Some Panic \<Rightarrow> Some Panic
          | Some _ \<Rightarrow> conn_OnReceive e c msg w)
        | Some (Ok cmd) \<Rightarrow> conn_OnCommand e user c cmd w)
      else conn_OnReceive e c msg w)"

section \<open>The life of a connection\<close>

definition new_conn :: "writer \<Rightarrow> conn" where
  "new_conn out = \<lparr>cn_app = [], cn_streams = Map.empty, cn_csw = NewChunkStreamWriter, cn_out = out,
     cn_closed = False, cn_finished = False, cn_tried = [], cn_sent = []\<rparr>"

definition NewConn :: "writer \<Rightarrow> world \<Rightarrow> world" where
  "NewConn out w = w\<lparr>w_conn := (w_conn w)(w_nconn w := new_conn out), w_nconn := w_nconn w + 1\<rparr>"

text \<open>\<^verbatim>\<open>server.handle\<close>; \<open>shake\<close> is what the handshake returned.\<close>

definition handle :: "go_error option \<Rightarrow> writer \<Rightarrow> world \<Rightarrow> world" where
  "handle shake out w =
     (let w = w\<lparr>w_connections := Counter_Add 1 (w_connections w)\<rparr> in
      case shake of
        Some er \<Rightarrow> w\<lparr>w_handshakeFails := Counter_Add 1 (w_handshakeFails w), w_connections := Counter_Add (-1) (w_connections w)\<rparr>
      | None \<Rightarrow> NewConn out w)"

definition sc_OnClose :: "nat \<Rightarrow> go_error \<Rightarrow> world \<Rightarrow> world" where
  "sc_OnClose c er w = (let w = tell (UClose c er) w in w\<lparr>w_connections := Counter_Add (-1) (w_connections w)\<rparr>)"

text \<open>\<^verbatim>\<open>waitClose\<close> once reading or writing has ended with \<open>er\<close>; \<open>order\<close> is the order in which the map of the
  streams is visited.\<close>

definition waitClose :: "env \<Rightarrow> nat \<Rightarrow> go_error \<Rightarrow> nat list \<Rightarrow> world \<Rightarrow> world" where
  "waitClose e c er order w =
     (let w = upd_conn c (\<lambda>cn. close_net (e_room e (w_clock w)) (cn\<lparr>cn_csw := Close (cn_csw cn)\<rparr>)) (tick w);
          w = fold (sc_OnDestroyStream e) order w
      in upd_conn c (\<lambda>cn. cn\<lparr>cn_finished := True\<rparr>) (sc_OnClose c er w))"

end
