(* ===== verification/Writer_Failure.thy ===== *)
theory Writer_Failure
  imports Chunk_Roundtrip
begin

text \<open>
  Writing on a connection that fails: once a write has failed every later one fails, and of a message on
  which a write fails the first bytes have been written, those that fitted.
\<close>

section \<open>Failed writers stay failed\<close>

definition fails_for_good :: "writer \<Rightarrow> go_error option \<Rightarrow> writer \<Rightarrow> bool" where
  "fails_for_good w err w' \<longleftrightarrow> (wroom w = Some 0 \<or> err \<noteq> None \<longrightarrow> wroom w' = Some 0)"

lemma CopyN_to_fails:
  assumes "CopyN_to k buf w = (n, err, buf', w')" and "k \<le> length buf"
  shows "fails_for_good w err w'"
  using assms by (auto simp: CopyN_to_def Write_def fails_for_good_def split: option.splits if_splits)

lemma emits_fails:
  assumes "emits m bs" and "m w = (n, x, w')"
  shows "fails_for_good w (case x of Err e \<Rightarrow> Some e | _ \<Rightarrow> None) w'"
proof (cases "wroom w")
  case None
  with emits_None [OF assms(1)] assms(2) show ?thesis by (auto simp: fails_for_good_def)
next
  case (Some k)
  show ?thesis
  proof (cases "length bs \<le> k")
    case True
    with emits_fits [OF assms(1) Some] assms(2) Some show ?thesis by (auto simp: fails_for_good_def)
  next
    case False
    with emits_full [OF assms(1) Some] assms(2) show ?thesis by (auto simp: fails_for_good_def)
  qed
qed

lemma copy_payload_fails:
  assumes "copy_payload k cs msg buf c w = Ok (n, err, k', cs', w')" and "length buf < 2 ^ 32"
  shows "fails_for_good w err w'"
proof -
  let ?r = "word_of_nat (length buf) :: u32"
  let ?k = "unat (if ?r > k then k else ?r)"
  obtain m e b v where copy: "CopyN_to ?k buf w = (m, e, b, v)" by (cases "CopyN_to ?k buf w")
  have "?k \<le> length buf" using chunk_length [OF assms(2), of k] by simp
  from CopyN_to_fails [OF copy this] assms(1) copy show ?thesis
    by (auto simp: copy_payload_def Let_def res_bind_eq_Ok split: option.splits if_splits)
qed

definition chunk_small :: "outChunkStream \<Rightarrow> bool" where
  "chunk_small cs \<longleftrightarrow> (\<forall>msg. ocs_currentMessage cs = Some msg \<longrightarrow>
     mChunkStreamID msg \<le> 65599 \<and> (\<forall>buf. mBuf msg = Some buf \<longrightarrow> length buf < 2 ^ 32))"

lemma copy_payload_cs:
  assumes "copy_payload k cs msg buf c w = Ok (n, err, k', cs', w')"
  shows "\<exists>j. cs' = set_buf cs msg (drop j buf)"
proof -
  let ?r = "word_of_nat (length buf) :: u32"
  obtain m e b v where copy: "CopyN_to (unat (if ?r > k then k else ?r)) buf w = (m, e, b, v)"
    by (cases "CopyN_to (unat (if ?r > k then k else ?r)) buf w")
  with assms CopyN_to_drop [OF copy] show ?thesis
    by (auto simp: copy_payload_def Let_def res_bind_eq_Ok split: option.splits)
qed

lemma writeChunk_fails:
  assumes run: "writeChunk k cs w = Ok (n, err, k', cs', w')" and small: "chunk_small cs"
  shows "fails_for_good w err w' \<and> chunk_small cs'"
proof -
  obtain msg where msg: "ocs_currentMessage cs = Some msg" using run by (auto simp: writeChunk_def split: option.splits)
  obtain buf where buf: "mBuf msg = Some buf" using run msg by (auto simp: writeChunk_def split: option.splits)
  have csi: "mChunkStreamID msg \<le> 65599" and len: "length buf < 2 ^ 32"
    using small msg buf by (auto simp: chunk_small_def)
  let ?new = "if word_of_nat (length buf) \<noteq> mSize msg
     then Ok (continuation_header (mChunkStreamID msg), cs) else newHeader cs"
  obtain h cs1 where new: "?new = Ok (h, cs1)"
    using run msg buf by (auto simp: writeChunk_def res_bind_eq_Ok)
  have h: "hChunkStreamID h \<le> 65599" and cs1: "ocs_currentMessage cs1 = Some msg"
    using new csi newHeader_current [OF msg] msg by (force split: if_splits)+
  obtain m x w1 where out: "Header_Write h w = (m, x, w1)" by (cases "Header_Write h w")
  note first = emits_fails [OF emits_Header_Write [OF h] out]
  have small1: "chunk_small cs1" using cs1 csi len buf by (simp add: chunk_small_def)
  show ?thesis
  proof (cases x)
    case (Ok u)
    then have copy: "copy_payload k cs1 msg buf (int m) w1 = Ok (n, err, k', cs', w')"
      using run msg buf new out by (auto simp: writeChunk_def)
    obtain j where "cs' = set_buf cs1 msg (drop j buf)" using copy_payload_cs [OF copy] by blast
    with copy_payload_fails [OF copy len] first Ok csi len show ?thesis
      by (auto simp: fails_for_good_def chunk_small_def set_buf_def)
  next
    case (Err e)
    with run msg buf new out first small1 show ?thesis by (auto simp: writeChunk_def fails_for_good_def)
  next
    case Panic
    with run msg buf new out show ?thesis by (simp add: writeChunk_def)
  qed
qed

lemma writeMessage_loop_fails:
  assumes "writeMessage_loop k cs n w = Some y" and "chunk_small cs"
  shows "case y of Ok (n', err, k', cs', w') \<Rightarrow> fails_for_good w err w' | _ \<Rightarrow> True"
proof -
  let ?P = "\<lambda>k cs n w y. chunk_small cs \<longrightarrow>
     (case y of Ok (n', err, k', cs', w') \<Rightarrow> fails_for_good w err w' | _ \<Rightarrow> True)"
  have "?P k cs n w y"
  proof (rule writeMessage_loop.raw_induct [where P = ?P, OF _ assms(1)], goal_cases)
    case (1 loop k cs n w y)
    show ?case
    proof
      assume small: "chunk_small cs"
      show "case y of Ok (n', err, k', cs', w') \<Rightarrow> fails_for_good w err w' | _ \<Rightarrow> True"
      proof (cases "writeChunk k cs w")
        case (Ok z)
        obtain c e k1 cs1 w1 where z: "z = (c, e, k1, cs1, w1)" by (cases z)
        note chunk = writeChunk_fails [OF Ok [unfolded z] small]
        show ?thesis
        proof (cases e)
          case None
          with 1(1) [of k1 cs1 "n + c" w1] 1(2) Ok z chunk show ?thesis
            by (auto simp: fails_for_good_def split: option.splits if_splits res.splits)
        next
          case (Some er)
          with 1(2) Ok z chunk show ?thesis
            by (auto simp: fails_for_good_def split: option.splits if_splits)
        qed
      next
        case (Err e)
        from 1(2) show ?thesis
          by (auto simp: fails_for_good_def Err split: option.splits if_splits)
      next
        case Panic
        from 1(2) show ?thesis
          by (auto simp: fails_for_good_def Panic split: option.splits if_splits)
      qed
    qed
  qed
  with assms(2) show ?thesis by blast
qed

lemma serve_fails:
  assumes "serve csw msg w = Some (Ok (err, csw', w'))" and "mChunkStreamID msg \<le> 65599"
    and "\<forall>buf. mBuf msg = Some buf \<longrightarrow> length buf < 2 ^ 32"
    and "csw_chunkStreams csw (mChunkStreamID msg) \<noteq> None"
  shows "fails_for_good w err w'"
proof -
  obtain cs where cs: "csw_chunkStreams csw (mChunkStreamID msg) = Some cs" using assms(4) by blast
  obtain n k' cs' where run: "writeMessage (csw_chunkSize csw) msg cs w = Some (Ok (n, err, k', cs', w'))"
    using assms(1) cs by (auto simp: serve_def split: option.splits res.splits)
  have "chunk_small (cs\<lparr>ocs_currentMessage := Some msg\<rparr>)"
    using assms(2,3) by (simp add: chunk_small_def)
  from writeMessage_loop_fails [OF run [unfolded writeMessage_def] this] show ?thesis by simp
qed

text \<open>What holds of a writer whatever is written: it has no room left and its bytes stay as they are.\<close>

definition room_law :: "(writer \<Rightarrow> bool) \<Rightarrow> bool" where
  "room_law P \<longleftrightarrow> (\<forall>w bs. P w \<longrightarrow> P (snd (snd (Write bs w))))"

lemma room_laws: "room_law (\<lambda>w. wroom w = Some 0 \<and> wout w = out)"
  by (auto simp: room_law_def Write_def)

definition stuck :: "(writer \<Rightarrow> bool) \<Rightarrow> wr \<Rightarrow> bool" where
  "stuck P m \<longleftrightarrow> (\<forall>w. P w \<longrightarrow> P (snd (snd (m w))))"

lemma stuck_Write: "room_law P \<Longrightarrow> stuck P (Write bs)"
  by (simp add: stuck_def room_law_def)

lemma stuck_return: "stuck P (wr_return x)"
  by (simp add: stuck_def wr_return_def)

lemma stuck_then: "stuck P a \<Longrightarrow> stuck P b \<Longrightarrow> stuck P (wr_then a b)"
  by (fastforce simp: stuck_def wr_then_def split: prod.splits res.splits)

lemma stuck_Header_Write: "room_law P \<Longrightarrow> stuck P (Header_Write h)"
  unfolding Header_Write_def write_basic_def write_extended_def WriteByte_def
  by (auto intro!: stuck_then stuck_Write stuck_return)

lemma CopyN_to_stuck:
  assumes "room_law P" "CopyN_to k buf w = (n, err, buf', w')" "P w"
  shows "P w'"
  using assms(1) [unfolded room_law_def, rule_format, OF assms(3), of "take k buf"] assms(2)
  by (auto simp: CopyN_to_def split: prod.splits res.splits)

lemma writeChunk_stuck:
  assumes law: "room_law P" and run: "writeChunk k cs w = Ok (n, err, k', cs', w')" and room: "P w"
  shows "P w'"
proof -
  obtain msg buf where msg: "ocs_currentMessage cs = Some msg" "mBuf msg = Some buf"
    using run by (auto simp: writeChunk_def split: option.splits)
  then obtain h cs1 where y: "(case Header_Write h w of
         (n, Panic, w) \<Rightarrow> Panic
       | (n, Err e, w) \<Rightarrow> Ok (int n, Some e, k, cs1, w)
       | (n, Ok _, w) \<Rightarrow> copy_payload k cs1 msg buf (int n) w) = Ok (n, err, k', cs', w')"
    using run by (auto simp: writeChunk_def res_bind_eq_Ok)
  obtain m x w1 where out: "Header_Write h w = (m, x, w1)" by (cases "Header_Write h w")
  note y = y [unfolded out]
  have w1: "P w1"
    using stuck_Header_Write [OF law, of h, unfolded stuck_def, rule_format, OF room] out by simp
  show ?thesis
  proof (cases x)
    case (Ok u)
    let ?r = "word_of_nat (length buf) :: u32"
    obtain m e b v where copy: "CopyN_to (unat (if ?r > k then k else ?r)) buf w1 = (m, e, b, v)"
      by (cases "CopyN_to (unat (if ?r > k then k else ?r)) buf w1")
    from CopyN_to_stuck [OF law this w1] y Ok copy show ?thesis
      by (auto simp: copy_payload_def Let_def res_bind_eq_Ok split: option.splits)
  qed (use y w1 in auto)
qed

lemma writeMessage_loop_stuck:
  assumes law: "room_law P" and "writeMessage_loop k cs n w = Some y" and "P w"
  shows "case y of Ok (n', err, k', cs', w') \<Rightarrow> P w' | _ \<Rightarrow> True"
proof -
  let ?P = "\<lambda>k cs n w y. P w \<longrightarrow>
     (case y of Ok (n', err, k', cs', w') \<Rightarrow> P w' | _ \<Rightarrow> True)"
  have "?P k cs n w y"
  proof (rule writeMessage_loop.raw_induct [where P = ?P, OF _ assms(2)], goal_cases)
    case (1 loop k cs n w y)
    show ?case
    proof
      assume room: "P w"
      show "case y of Ok (n', err, k', cs', w') \<Rightarrow> P w' | _ \<Rightarrow> True"
      proof (cases "writeChunk k cs w")
        case (Ok z)
        obtain c e k1 cs1 w1 where z: "z = (c, e, k1, cs1, w1)" by (cases z)
        note chunk = writeChunk_stuck [OF law Ok [unfolded z] room]
        show ?thesis
        proof (cases e)
          case None
          with 1(1) [of k1 cs1 "n + c" w1] 1(2) Ok z chunk room show ?thesis
            by (auto split: option.splits if_splits res.splits)
        next
          case (Some er)
          with 1(2) Ok z chunk room show ?thesis by (auto split: option.splits if_splits)
        qed
      next
        case (Err e)
        from 1(2) room show ?thesis by (auto simp: Err split: option.splits if_splits)
      next
        case Panic
        from 1(2) room show ?thesis by (auto simp: Panic split: option.splits if_splits)
      qed
    qed
  qed
  with assms(3) show ?thesis by blast
qed

lemma serve_stuck:
  assumes law: "room_law P" and "serve csw msg w = Some (Ok (err, csw', w'))" and "P w"
  shows "P w'"
proof (cases "csw_chunkStreams csw (mChunkStreamID msg)")
  case None
  with assms show ?thesis by (simp add: serve_def)
next
  case (Some cs)
  then obtain n k' cs' where "writeMessage (csw_chunkSize csw) msg cs w = Some (Ok (n, err, k', cs', w'))"
    using assms(2) by (auto simp: serve_def split: option.splits res.splits)
  from writeMessage_loop_stuck [OF law this [unfolded writeMessage_def] assms(3)] show ?thesis by simp
qed

section \<open>A message that does not fit\<close>

text \<open>A writer after bytes that fit, and after bytes that do not: what fits of these has been written.\<close>

definition fits_all :: "writer \<Rightarrow> u8 list \<Rightarrow> bool" where
  "fits_all w bs \<longleftrightarrow> (\<forall>k. wroom w = Some k \<longrightarrow> length bs \<le> k)"

definition put_all :: "writer \<Rightarrow> u8 list \<Rightarrow> writer" where
  "put_all w bs = w\<lparr>wout := wout w @ bs, wroom := map_option (\<lambda>k. k - length bs) (wroom w)\<rparr>"

definition put_some :: "writer \<Rightarrow> u8 list \<Rightarrow> writer" where
  "put_some w bs = w\<lparr>wout := wout w @ take (the (wroom w)) bs, wroom := Some 0\<rparr>"

lemma put_all_append: "put_all (put_all w as) bs = put_all w (as @ bs)"
  by (cases "wroom w") (simp_all add: put_all_def)

lemma put_all_fields [simp]: "wout (put_all w bs) = wout w @ bs" "wfail (put_all w bs) = wfail w"
  by (simp_all add: put_all_def)

lemma put_all_unlimited: "wroom w = None \<Longrightarrow> put_all w bs = w\<lparr>wout := wout w @ bs\<rparr>"
  by (simp add: put_all_def)

lemma fits_all_append: "fits_all w (as @ bs) \<longleftrightarrow> fits_all w as \<and> fits_all (put_all w as) bs"
  by (cases "wroom w") (auto simp: fits_all_def put_all_def)

lemma put_some_append: "fits_all w as \<Longrightarrow> \<not> fits_all (put_all w as) bs \<Longrightarrow> put_some (put_all w as) bs = put_some w (as @ bs)"
  by (auto simp: put_some_def put_all_def fits_all_def)

lemma put_some_early: "\<not> fits_all w as \<Longrightarrow> put_some w as = put_some w (as @ bs)"
  by (auto simp: put_some_def fits_all_def)

text \<open>An action that writes \<open>bs\<close> and returns \<open>y\<close> without an error where they fit; where they do not it
  writes what fits and fails. \<open>ans\<close> tells an answer without an error, \<open>bad\<close> one with an error.\<close>

definition spends :: "(writer \<Rightarrow> 'a) \<Rightarrow> (writer \<Rightarrow> 'a) \<Rightarrow> (go_error \<Rightarrow> writer \<Rightarrow> 'a \<Rightarrow> bool) \<Rightarrow> u8 list \<Rightarrow> bool" where
  "spends f ans bad bs \<longleftrightarrow> (\<forall>w.
     (fits_all w bs \<longrightarrow> f w = ans (put_all w bs)) \<and>
     (\<not> fits_all w bs \<longrightarrow> (\<exists>er. bad er (put_some w bs) (f w))))"

lemma spendsD:
  "spends f ans bad bs \<Longrightarrow> fits_all w bs \<Longrightarrow> f w = ans (put_all w bs)"
  "spends f ans bad bs \<Longrightarrow> \<not> fits_all w bs \<Longrightarrow> \<exists>er. bad er (put_some w bs) (f w)"
  unfolding spends_def by blast+

definition chunk_bad :: "go_error \<Rightarrow> writer \<Rightarrow> (int \<times> go_error option \<times> u32 \<times> outChunkStream \<times> writer) res \<Rightarrow> bool" where
  "chunk_bad er w y \<longleftrightarrow> (\<exists>n k cs. y = Ok (n, Some er, k, cs, w))"

lemma emits_spends:
  assumes "emits m bs"
  shows "fits_all w bs \<Longrightarrow> m w = (length bs, Ok (), put_all w bs)"
    "\<not> fits_all w bs \<Longrightarrow> \<exists>n. m w = (n, Err (wfail w), put_some w bs)"
proof -
  show "fits_all w bs \<Longrightarrow> m w = (length bs, Ok (), put_all w bs)"
    using emits_None [OF assms] emits_fits [OF assms] by (cases "wroom w") (auto simp: fits_all_def put_all_def)
  show "\<not> fits_all w bs \<Longrightarrow> \<exists>n. m w = (n, Err (wfail w), put_some w bs)"
    using emits_full [OF assms] by (cases "wroom w") (auto simp: fits_all_def put_some_def)
qed

lemma CopyN_to_spends:
  assumes "k \<le> length buf"
  shows "fits_all w (take k buf) \<Longrightarrow> CopyN_to k buf w = (k, None, drop k buf, put_all w (take k buf))"
    "\<not> fits_all w (take k buf) \<Longrightarrow> \<exists>n. CopyN_to k buf w = (n, Some (wfail w), drop k buf, put_some w (take k buf))"
  using assms emits_spends [OF emits_Write [of "take k buf"], of w] by (auto simp: CopyN_to_def)

lemma copy_payload_spends:
  assumes run: "copy_payload k cs msg buf c w0 = Ok (n, None, k', cs', w0')" and len: "length buf < 2 ^ 32"
  shows "\<exists>bs. wout w0' = wout w0 @ bs \<and>
     spends (copy_payload k cs msg buf c) (\<lambda>w. Ok (n, None, k', cs', w)) chunk_bad bs"
proof -
  let ?r = "word_of_nat (length buf) :: u32"
  let ?k = "unat (if ?r > k then k else ?r)" and ?size = "if mType msg = SET_CHUNK_SIZE then BigEndian_Uint32 buf else Ok 0"
  have k: "?k \<le> length buf" using chunk_length [OF len, of k] by simp
  obtain t where t: "?size = Ok t" using run by (auto simp: copy_payload_def Let_def res_bind_eq_Ok)
  have run_w: "copy_payload k cs msg buf c w = (case CopyN_to ?k buf w of
       (n64, Some e, buf, w) \<Rightarrow> Ok (c + int n64, Some e, k, set_buf cs msg buf, w)
     | (n64, None, buf, w) \<Rightarrow> Ok (c + int n64, None, if t \<noteq> 0 then t else k, set_buf cs msg buf, w))" for w
    by (simp only: copy_payload_def Let_def t res_bind.simps)
  have fits: "fits_all w0 (take ?k buf)"
    using run CopyN_to_spends(2) [OF k, of w0] unfolding run_w by (cases "fits_all w0 (take ?k buf)") auto
  have "spends (copy_payload k cs msg buf c) (\<lambda>w. Ok (n, None, k', cs', w)) chunk_bad (take ?k buf)"
    unfolding spends_def
  proof (intro allI conjI impI)
    fix w assume "fits_all w (take ?k buf)"
    then show "copy_payload k cs msg buf c w = Ok (n, None, k', cs', put_all w (take ?k buf))"
      using run CopyN_to_spends(1) [OF k fits] CopyN_to_spends(1) [OF k, of w] unfolding run_w by simp
  next
    fix w assume "\<not> fits_all w (take ?k buf)"
    then show "\<exists>er. chunk_bad er (put_some w (take ?k buf)) (copy_payload k cs msg buf c w)"
      using CopyN_to_spends(2) [OF k, of w] unfolding run_w chunk_bad_def by auto
  qed
  moreover have "wout w0' = wout w0 @ take ?k buf"
    using run CopyN_to_spends(1) [OF k fits] unfolding run_w by auto
  ultimately show ?thesis by blast
qed

lemma writeChunk_spends:
  assumes run: "writeChunk k cs w0 = Ok (n, None, k', cs', w0')" and small: "chunk_small cs"
  shows "\<exists>bs. wout w0' = wout w0 @ bs \<and> spends (writeChunk k cs) (\<lambda>w. Ok (n, None, k', cs', w)) chunk_bad bs"
proof -
  obtain msg buf where msg: "ocs_currentMessage cs = Some msg" "mBuf msg = Some buf"
    using run by (auto simp: writeChunk_def split: option.splits)
  have csi: "mChunkStreamID msg \<le> 65599" and len: "length buf < 2 ^ 32"
    using small msg by (auto simp: chunk_small_def)
  let ?new = "if word_of_nat (length buf) \<noteq> mSize msg
     then Ok (continuation_header (mChunkStreamID msg), cs) else newHeader cs"
  obtain h cs1 where new: "?new = Ok (h, cs1)" using run msg by (auto simp: writeChunk_def res_bind_eq_Ok)
  have run_w: "writeChunk k cs w = (case Header_Write h w of
       (n, Panic, w) \<Rightarrow> Panic
     | (n, Err e, w) \<Rightarrow> Ok (int n, Some e, k, cs1, w)
     | (n, Ok _, w) \<Rightarrow> copy_payload k cs1 msg buf (int n) w)" for w
    by (simp only: writeChunk_def msg option.case new res_bind.simps prod.case)
  have "hChunkStreamID h \<le> 65599" using new csi newHeader_current [OF msg(1)] by (force split: if_splits)
  note head = emits_spends [OF emits_Header_Write [OF this]]
  let ?h = "header_bytes h"
  have fits: "fits_all w0 ?h" using run head(2) [of w0] unfolding run_w by (cases "fits_all w0 ?h") auto
  with run head(1) have "copy_payload k cs1 msg buf (int (length ?h)) (put_all w0 ?h) = Ok (n, None, k', cs', w0')"
    unfolding run_w by simp
  from copy_payload_spends [OF this len] obtain bs where
    bs: "wout w0' = (wout w0 @ ?h) @ bs"
      "spends (copy_payload k cs1 msg buf (int (length ?h))) (\<lambda>w. Ok (n, None, k', cs', w)) chunk_bad bs"
    by auto
  have "spends (writeChunk k cs) (\<lambda>w. Ok (n, None, k', cs', w)) chunk_bad (?h @ bs)"
    unfolding spends_def
  proof (intro allI conjI impI)
    fix w assume "fits_all w (?h @ bs)"
    then show "writeChunk k cs w = Ok (n, None, k', cs', put_all w (?h @ bs))"
      using head(1) spendsD(1) [OF bs(2)] unfolding run_w fits_all_append by (simp add: put_all_append)
  next
    fix w assume cut: "\<not> fits_all w (?h @ bs)"
    show "\<exists>er. chunk_bad er (put_some w (?h @ bs)) (writeChunk k cs w)"
    proof (cases "fits_all w ?h")
      case True
      with cut have more: "\<not> fits_all (put_all w ?h) bs" by (simp add: fits_all_append)
      from spendsD(2) [OF bs(2) this] True show ?thesis
        unfolding run_w by (simp add: head(1) put_some_append [OF True more])
    next
      case False
      with head(2) [OF False] show ?thesis
        unfolding run_w chunk_bad_def by (auto simp: put_some_early [OF False, of bs])
    qed
  qed
  with bs(1) show ?thesis by auto
qed

lemma writeChunk_small:
  "writeChunk k cs w = Ok (n, err, k', cs', w') \<Longrightarrow> chunk_small cs \<Longrightarrow> chunk_small cs'"
  using writeChunk_fails by blast

definition loop_bad ::
    "go_error \<Rightarrow> writer \<Rightarrow> (int \<times> go_error option \<times> u32 \<times> outChunkStream \<times> writer) res option \<Rightarrow> bool" where
  "loop_bad er w y \<longleftrightarrow> (\<exists>z. y = Some z \<and> chunk_bad er w z)"

text \<open>One step of the loop before a run of the rest.\<close>

lemma spends_loop_step:
  assumes msg: "ocs_currentMessage cs = Some msg" "mBuf msg = Some buf" "buf \<noteq> []"
    and chunk: "spends (writeChunk k cs) (\<lambda>w. Ok (c, None, k1, cs1, w)) chunk_bad as"
    and rest: "spends (writeMessage_loop k1 cs1 (n + c)) ans loop_bad bs"
  shows "spends (writeMessage_loop k cs n) ans loop_bad (as @ bs)"
proof -
  have step: "writeMessage_loop k cs n w = (case writeChunk k cs w of
       Panic \<Rightarrow> Some Panic
     | Err e \<Rightarrow> Some (Err e)
     | Ok (m, Some e, j, ds, w') \<Rightarrow> Some (Ok (n + m, Some e, j, ds, w'))
     | Ok (m, None, j, ds, w') \<Rightarrow> writeMessage_loop j ds (n + m) w')" for w
    by (subst writeMessage_loop.simps) (simp add: msg)
  show ?thesis
    unfolding spends_def
  proof (intro allI conjI impI)
    fix w assume "fits_all w (as @ bs)"
    then show "writeMessage_loop k cs n w = ans (put_all w (as @ bs))"
      using spendsD(1) [OF chunk] spendsD(1) [OF rest] unfolding step fits_all_append by (simp add: put_all_append)
  next
    fix w assume cut: "\<not> fits_all w (as @ bs)"
    show "\<exists>er. loop_bad er (put_some w (as @ bs)) (writeMessage_loop k cs n w)"
    proof (cases "fits_all w as")
      case True
      with cut have more: "\<not> fits_all (put_all w as) bs" by (simp add: fits_all_append)
      from spendsD(2) [OF rest this] True show ?thesis
        unfolding step by (simp add: spendsD(1) [OF chunk] put_some_append [OF True more])
    next
      case False
      with spendsD(2) [OF chunk False] show ?thesis
        unfolding step chunk_bad_def loop_bad_def by (auto simp: put_some_early [OF False, of bs])
    qed
  qed
qed

lemma writeMessage_loop_spends:
  assumes "writeMessage_loop k cs n w0 = Some y" and "chunk_small cs" and "y = Ok (n', None, k', cs', w0')"
  shows "\<exists>bs. wout w0' = wout w0 @ bs \<and>
     spends (writeMessage_loop k cs n) (\<lambda>w. Some (Ok (n', None, k', cs', w))) loop_bad bs"
proof -
  let ?P = "\<lambda>k cs n w0 y. chunk_small cs \<longrightarrow> y = Ok (n', None, k', cs', w0') \<longrightarrow>
     (\<exists>bs. wout w0' = wout w0 @ bs \<and> spends (writeMessage_loop k cs n) (\<lambda>w. Some (Ok (n', None, k', cs', w))) loop_bad bs)"
  have "?P k cs n w0 y"
  proof (rule writeMessage_loop.raw_induct [where P = ?P, OF _ assms(1)], goal_cases)
    case (1 loop k cs n w0 y)
    show ?case
    proof (intro impI)
      assume small: "chunk_small cs" and y: "y = Ok (n', None, k', cs', w0')"
      obtain msg buf where msg: "ocs_currentMessage cs = Some msg" "mBuf msg = Some buf"
        using 1(2) y by (auto split: option.splits)
      show "\<exists>bs. wout w0' = wout w0 @ bs \<and>
         spends (writeMessage_loop k cs n) (\<lambda>w. Some (Ok (n', None, k', cs', w))) loop_bad bs"
      proof (cases "buf = []")
        case True
        then have "writeMessage_loop k cs n w = Some (Ok (n, None, k, cs, w))" for w
          by (subst writeMessage_loop.simps) (simp add: msg)
        moreover have "y = Ok (n, None, k, cs, w0)" using 1(2) msg True by simp
        ultimately show ?thesis
          using y by (auto simp: spends_def fits_all_def put_all_def map_option.identity intro!: exI [of _ "[]"])
      next
        case False
        then obtain c k1 cs1 w1 where chunk: "writeChunk k cs w0 = Ok (c, None, k1, cs1, w1)"
          and loop: "loop k1 cs1 (n + c) w1 = Some y"
          using 1(2) msg y by (auto split: res.splits option.splits)
        obtain as where as: "wout w1 = wout w0 @ as" "spends (writeChunk k cs) (\<lambda>w. Ok (c, None, k1, cs1, w)) chunk_bad as"
          using writeChunk_spends [OF chunk small] by blast
        obtain bs where bs: "wout w0' = wout w1 @ bs"
          "spends (writeMessage_loop k1 cs1 (n + c)) (\<lambda>w. Some (Ok (n', None, k', cs', w))) loop_bad bs"
          using 1(1) [OF loop] writeChunk_small [OF chunk small] y by blast
        from spends_loop_step [OF msg False as(2) bs(2)] as(1) bs(1) show ?thesis by auto
      qed
    qed
  qed
  with assms(2,3) show ?thesis by blast
qed

text \<open>A message served where it fits is served the same way wherever it fits, and fails where it does
  not.\<close>

definition serve_bad :: "go_error \<Rightarrow> writer \<Rightarrow> (go_error option \<times> chunkStreamWriter \<times> writer) res option \<Rightarrow> bool" where
  "serve_bad er w y \<longleftrightarrow> (\<exists>csw. y = Some (Ok (Some er, csw, w)))"

lemma serve_spends:
  assumes "serve csw msg w0 = Some (Ok (None, csw', w0'))" and "sendable msg"
  shows "\<exists>bs. wout w0' = wout w0 @ bs \<and> spends (serve csw msg) (\<lambda>w. Some (Ok (None, csw', w))) serve_bad bs"
proof -
  obtain cs where cs: "csw_chunkStreams csw (mChunkStreamID msg) = Some cs"
    using assms(1) by (auto simp: serve_def split: option.splits)
  obtain n k' cs' where run: "writeMessage (csw_chunkSize csw) msg cs w0 = Some (Ok (n, None, k', cs', w0'))"
    and csw': "csw' = store_stream csw (mChunkStreamID msg) k' cs'"
    using assms(1) cs by (auto simp: serve_def split: option.splits res.splits)
  have "mChunkStreamID msg \<le> 65599" "\<forall>buf. mBuf msg = Some buf \<longrightarrow> length buf < 2 ^ 32"
    using assms(2) by (auto simp: sendable_def word_le_nat_alt split: option.splits)
  then have "chunk_small (cs\<lparr>ocs_currentMessage := Some msg\<rparr>)" by (simp add: chunk_small_def)
  from writeMessage_loop_spends [OF run [unfolded writeMessage_def] this refl] obtain bs where
    bs: "wout w0' = wout w0 @ bs"
      "spends (writeMessage (csw_chunkSize csw) msg cs) (\<lambda>w. Some (Ok (n, None, k', cs', w))) loop_bad bs"
    unfolding writeMessage_def by blast
  have "spends (serve csw msg) (\<lambda>w. Some (Ok (None, csw', w))) serve_bad bs"
    unfolding spends_def
  proof (intro allI conjI impI)
    fix w assume "fits_all w bs"
    from spendsD(1) [OF bs(2) this] cs csw' show "serve csw msg w = Some (Ok (None, csw', put_all w bs))"
      by (simp add: serve_def)
  next
    fix w assume "\<not> fits_all w bs"
    from spendsD(2) [OF bs(2) this] cs show "\<exists>er. serve_bad er (put_some w bs) (serve csw msg w)"
      by (auto simp: serve_def serve_bad_def loop_bad_def chunk_bad_def)
  qed
  with bs(1) show ?thesis by blast
qed

text \<open>After a failure nothing is written and no call returns without an error.\<close>

lemma writeChunk_failed:
  assumes small: "chunk_small cs" and room: "wroom w = Some 0"
  shows "writeChunk k cs w \<noteq> Ok (n, None, k', cs', w')"
proof
  assume run: "writeChunk k cs w = Ok (n, None, k', cs', w')"
  obtain msg buf where msg: "ocs_currentMessage cs = Some msg" "mBuf msg = Some buf"
    using run by (auto simp: writeChunk_def split: option.splits)
  have csi: "mChunkStreamID msg \<le> 65599" using small msg by (auto simp: chunk_small_def)
  obtain h cs1 where new: "(if word_of_nat (length buf) \<noteq> mSize msg
     then Ok (continuation_header (mChunkStreamID msg), cs) else newHeader cs) = Ok (h, cs1)"
    using run msg by (auto simp: writeChunk_def res_bind_eq_Ok)
  have "hChunkStreamID h \<le> 65599" using new csi newHeader_current [OF msg(1)] by (force split: if_splits)
  moreover have "header_bytes h \<noteq> []" by simp
  then have "\<not> fits_all w (header_bytes h)" using room by (simp add: fits_all_def)
  ultimately obtain m where "Header_Write h w = (m, Err (wfail w), put_some w (header_bytes h))"
    using emits_spends(2) [OF emits_Header_Write] by blast
  with run msg new show False by (simp add: writeChunk_def)
qed

lemma serve_failed:
  assumes s: "serve csw msg w = Some (Ok (err, csw', w'))" and send: "sendable msg" and room: "wroom w = Some 0"
  shows "err \<noteq> None \<and> wroom w' = Some 0 \<and> wout w' = wout w"
proof -
  have "wroom w' = Some 0 \<and> wout w' = wout w"
    using serve_stuck [OF room_laws [of "wout w"] s] room by simp
  moreover have "err \<noteq> None"
  proof
    assume "err = None"
    then obtain cs n k' cs' where "writeMessage (csw_chunkSize csw) msg cs w = Some (Ok (n, None, k', cs', w'))"
      using s by (auto simp: serve_def split: option.splits res.splits)
    moreover obtain buf where buf: "mBuf msg = Some buf" "buf \<noteq> []" "mChunkStreamID msg \<le> 65599" "length buf < 2 ^ 32"
      using send by (auto simp: sendable_def word_le_nat_alt split: option.splits)
    ultimately obtain m j ds v where
      "writeChunk (csw_chunkSize csw) (cs\<lparr>ocs_currentMessage := Some msg\<rparr>) w = Ok (m, None, j, ds, v)"
      unfolding writeMessage_def by (subst (asm) writeMessage_loop.simps) (auto split: res.splits option.splits)
    moreover have "chunk_small (cs\<lparr>ocs_currentMessage := Some msg\<rparr>)" using buf by (simp add: chunk_small_def)
    ultimately show False using writeChunk_failed [OF _ room] by blast
  qed
  ultimately show ?thesis by blast
qed

end
