(* ===== verification/Conn_Effects.thy ===== *)
theory Conn_Effects
  imports Rtmp_Server Writer_Failure
begin

text \<open>
  What sending on a connection can change. A connection whose writer has failed stays failed, and a
  failed \<^verbatim>\<open>Send\<close> leaves it failed; the tables of streams, the registries, the media streams and the
  players are not touched (\<open>quiet\<close>).
\<close>

section \<open>What is on the wire\<close>

text \<open>A connection on which a write failed: its bytes end within those of one message after the ones whose
  \<^verbatim>\<open>Send\<close> returned no error.\<close>

definition torn :: "conn \<Rightarrow> bool" where
  "torn cn \<longleftrightarrow> wroom (cn_out cn) = Some 0 \<and> (\<exists>csw out csw' out' msg. msg \<in> set (cn_tried cn) \<and>
     carries csw out (cn_sent cn) \<and> prefix (wout out) (wout (cn_out cn)) \<and>
     carries csw' out' (cn_sent cn @ [msg]) \<and> prefix (wout (cn_out cn)) (wout out'))"

lemma tornI:
  "\<lbrakk>wroom (cn_out cn) = Some 0; msg \<in> set (cn_tried cn); carries csw out (cn_sent cn); prefix (wout out) (wout (cn_out cn));
    carries csw' out' (cn_sent cn @ [msg]); prefix (wout (cn_out cn)) (wout out')\<rbrakk> \<Longrightarrow> torn cn"
  unfolding torn_def by blast

lemma torn_mono:
  assumes "torn cn" and "wroom (cn_out cn') = Some 0" "wout (cn_out cn') = wout (cn_out cn)"
    and "cn_sent cn' = cn_sent cn" "set (cn_tried cn) \<subseteq> set (cn_tried cn')"
  shows "torn cn'"
  using assms(1,5) unfolding torn_def assms(2-4) by blast

text \<open>As long as every message the connection was asked to send is sendable, its bytes carry the
  messages whose \<^verbatim>\<open>Send\<close> returned no error, unless a write failed within one more.\<close>

definition unlimited :: "writer \<Rightarrow> writer" where
  "unlimited w = w\<lparr>wroom := None\<rparr>"

lemma unlimited_fields [simp]: "wroom (unlimited w) = None" "wout (unlimited w) = wout w"
  by (simp_all add: unlimited_def)

definition wired :: "conn \<Rightarrow> bool" where
  "wired cn \<longleftrightarrow> (list_all sendable (cn_tried cn) \<longrightarrow>
     carries (cn_csw cn) (unlimited (cn_out cn)) (cn_sent cn) \<or> torn cn)"

lemma wired_fields [simp]:
  "wired (cn\<lparr>cn_app := a\<rparr>) = wired cn" "wired (cn\<lparr>cn_streams := s\<rparr>) = wired cn"
  "wired (cn\<lparr>cn_finished := b\<rparr>) = wired cn" "wired (cn\<lparr>cn_closed := b\<rparr>) = wired cn"
  by (simp_all add: wired_def torn_def)

lemma carries_same: "wout w' = wout w \<Longrightarrow> wroom w' = None \<Longrightarrow> carries csw w msgs \<Longrightarrow> carries csw w' msgs"
  by (simp add: carries_def)

text \<open>Changes that write nothing: a connection is closed, its writer fails, a chunk stream is made.\<close>

lemma wired_change:
  assumes "wired cn" and "\<And>csr. in_step (cn_csw cn) csr \<Longrightarrow> in_step (cn_csw cn') csr"
    and "wout (cn_out cn') = wout (cn_out cn)" and "wroom (cn_out cn) = Some 0 \<Longrightarrow> wroom (cn_out cn') = Some 0"
    and "cn_tried cn' = cn_tried cn" "cn_sent cn' = cn_sent cn"
  shows "wired cn'"
proof -
  have "carries (cn_csw cn') (unlimited (cn_out cn')) (cn_sent cn')"
    if "carries (cn_csw cn) (unlimited (cn_out cn)) (cn_sent cn)"
    using carries_keep [OF carries_same [OF _ _ that]] assms(2,3,6) by simp
  moreover have "torn cn'" if "torn cn"
    using torn_mono [OF that] assms(3-6) that by (simp add: torn_def)
  ultimately show ?thesis using assms(1,5) unfolding wired_def by auto
qed

lemma wired_close_net: "wired cn \<Longrightarrow> wired (close_net room cn)"
  by (erule wired_change) (simp_all add: close_net_def)

lemma wired_Close: "wired cn \<Longrightarrow> wired (cn\<lparr>cn_csw := Close (cn_csw cn)\<rparr>)"
  by (erule wired_change) (simp_all add: in_step_Close)

lemma wired_fail_conn: "wired cn \<Longrightarrow> wired (fail_conn er cn)"
  by (erule wired_change) (simp_all add: fail_conn_def)

lemma wired_CreateChunkStream:
  "wired cn \<Longrightarrow> CreateChunkStream (cn_csw cn) p = (x, csw) \<Longrightarrow> wired (cn\<lparr>cn_csw := csw\<rparr>)"
  by (auto simp: wired_def torn_def intro: carries_CreateChunkStream)

lemma wired_new: "wout out = [] \<Longrightarrow> wired (new_conn out)"
  by (simp add: wired_def new_conn_def carries_new)

text \<open>A message is served on a connection: where its bytes fit they are carried, where they do not the
  connection is torn.\<close>

lemma wired_serve:
  assumes wired: "wired cn" and s: "serve (cn_csw cn) msg (cn_out cn) = Some (Ok (er, csw, out))"
  shows "wired (cn\<lparr>cn_csw := csw, cn_out := out, cn_tried := cn_tried cn @ [msg],
      cn_sent := (if er = None then cn_sent cn @ [msg] else cn_sent cn)\<rparr>)"
    (is "wired ?cn")
  unfolding wired_def
proof
  assume "list_all sendable (cn_tried ?cn)"
  then have send: "sendable msg" and "list_all sendable (cn_tried cn)" by simp_all
  with wired have "carries (cn_csw cn) (unlimited (cn_out cn)) (cn_sent cn) \<or> torn cn" by (simp add: wired_def)
  then show "carries (cn_csw ?cn) (unlimited (cn_out ?cn)) (cn_sent ?cn) \<or> torn ?cn"
  proof
    assume "torn cn"
    then have "wroom (cn_out cn) = Some 0" by (simp add: torn_def)
    from serve_failed [OF s send this] have "torn ?cn" by (intro torn_mono [OF \<open>torn cn\<close>]) auto
    then show ?thesis ..
  next
    assume carries: "carries (cn_csw cn) (unlimited (cn_out cn)) (cn_sent cn)"
    show ?thesis
    proof (cases "csw_chunkStreams (cn_csw cn) (mChunkStreamID msg) = None")
      case True
      with s carries show ?thesis by (auto simp: serve_def)
    next
      case False
      from carries_serve [OF carries send False] obtain csw' w' where
        s': "serve (cn_csw cn) msg (unlimited (cn_out cn)) = Some (Ok (None, csw', w'))"
        and carries': "carries csw' w' (cn_sent cn @ [msg])" by blast
      from serve_spends [OF s' send] obtain bs where
        bs: "wout w' = wout (cn_out cn) @ bs" "spends (serve (cn_csw cn) msg) (\<lambda>w. Some (Ok (None, csw', w))) serve_bad bs"
        by auto
      show ?thesis
      proof (cases "fits_all (cn_out cn) bs")
        case True
        with s spendsD(1) [OF bs(2)] have "er = None" "csw = csw'" "out = put_all (cn_out cn) bs" by auto
        with carries_same [OF _ _ carries', of "unlimited out"] bs(1) show ?thesis by simp
      next
        case False
        with s spendsD(2) [OF bs(2) False] have er: "er \<noteq> None" "out = put_some (cn_out cn) bs"
          by (auto simp: serve_bad_def)
        have "torn ?cn"
          by (rule tornI [where msg = msg and csw = "cn_csw cn" and out = "unlimited (cn_out cn)" and csw' = csw' and out' = w'])
            (use carries carries' bs(1) er in \<open>auto simp: put_some_def take_is_prefix\<close>)
        then show ?thesis by simp
      qed
    qed
  qed
qed

section \<open>Quiet actions\<close>

text \<open>What a quiet action keeps: everything but the application's name, the output, the writer's contents
  and the clock; a closed connection stays closed, messages sent stay sent and on the wire.\<close>

definition conn_core :: "conn \<Rightarrow> (u32 \<rightharpoonup> nat) \<times> u32 set \<times> bool \<times> bool" where
  "conn_core cn = (cn_streams cn, dom (csw_chunkStreams (cn_csw cn)), csw_done (cn_csw cn),
     cn_finished cn)"

definition quiet :: "world \<Rightarrow> world \<Rightarrow> bool" where
  "quiet w w' \<longleftrightarrow>
     (\<exists>conns clock. w' = w\<lparr>w_conn := conns, w_clock := clock\<rparr> \<and>
       (\<forall>c. conn_core (conns c) = conn_core (w_conn w c) \<and>
         (wroom (cn_out (w_conn w c)) = Some 0 \<longrightarrow> wroom (cn_out (conns c)) = Some 0) \<and>
         (cn_closed (w_conn w c) \<longrightarrow> cn_closed (conns c)) \<and>
         prefix (cn_sent (w_conn w c)) (cn_sent (conns c)) \<and> (wired (w_conn w c) \<longrightarrow> wired (conns c))))"

text \<open>An action within a relation leads from a world only to worlds related to it. The combinators stay
  within a preorder.\<close>

definition within :: "(world \<Rightarrow> world \<Rightarrow> bool) \<Rightarrow> act \<Rightarrow> bool" where
  "within R a \<longleftrightarrow> (\<forall>w r w'. a w = Some (Ok (r, w')) \<longrightarrow> R w w')"

lemma withinD: "within R a \<Longrightarrow> a w = Some (Ok (r, w')) \<Longrightarrow> R w w'"
  by (auto simp: within_def)

lemma within_ret: "reflp R \<Longrightarrow> within R (ret r)"
  by (simp add: within_def ret_def reflpD)

lemma and_then_cases:
  assumes "and_then a b w = Some (Ok (r, w'))"
  obtains "a w = Some (Ok (r, w'))" "r \<noteq> None"
    | w1 where "a w = Some (Ok (None, w1))" "b w1 = Some (Ok (r, w'))"
  using assms unfolding and_then_def by (auto split: option.splits res.splits)

lemma always_cases:
  assumes "always a b w = Some (Ok (r, w'))"
  obtains r1 w1 where "a w = Some (Ok (r1, w1))" "b w1 = Some (Ok (r, w'))"
  using assms unfolding always_def by (auto split: option.splits res.splits)

lemma on_err_cases:
  assumes "on_err a h w = Some (Ok (r, w'))"
  obtains "a w = Some (Ok (None, w'))" "r = None"
    | er w1 where "a w = Some (Ok (Some er, w1))" "h er w1 = Some (Ok (r, w'))"
  using assms unfolding on_err_def by (auto split: option.splits res.splits)

lemma within_and_then: "transp R \<Longrightarrow> within R a \<Longrightarrow> within R b \<Longrightarrow> within R (and_then a b)"
  unfolding within_def by (blast elim: and_then_cases dest: transpD)

lemma within_always: "transp R \<Longrightarrow> within R a \<Longrightarrow> within R b \<Longrightarrow> within R (always a b)"
  unfolding within_def by (blast elim: always_cases dest: transpD)

lemma within_on_err: "transp R \<Longrightarrow> within R a \<Longrightarrow> (\<And>er. within R (h er)) \<Longrightarrow> within R (on_err a h)"
  unfolding within_def by (blast elim: on_err_cases dest: transpD)

lemma within_if: "within R a \<Longrightarrow> within R b \<Longrightarrow> within R (if P then a else b)"
  by simp

abbreviation quiet_act :: "act \<Rightarrow> bool" where
  "quiet_act \<equiv> within quiet"

named_theorems quiet_intros

lemma quiet_refl: "quiet w w"
  unfolding quiet_def by (rule exI [of _ "w_conn w"], rule exI [of _ "w_clock w"]) simp

lemma quiet_trans: "quiet w w' \<Longrightarrow> quiet w' w'' \<Longrightarrow> quiet w w''"
proof -
  assume "quiet w w'" "quiet w' w''"
  then obtain conns clock conns' clock' where w': "w' = w\<lparr>w_conn := conns, w_clock := clock\<rparr>"
    and w'': "w'' = w'\<lparr>w_conn := conns', w_clock := clock'\<rparr>"
    and 1: "conn_core (conns c) = conn_core (w_conn w c)"
      "wroom (cn_out (w_conn w c)) = Some 0 \<Longrightarrow> wroom (cn_out (conns c)) = Some 0"
      "cn_closed (w_conn w c) \<Longrightarrow> cn_closed (conns c)"
      "prefix (cn_sent (w_conn w c)) (cn_sent (conns c))" "wired (w_conn w c) \<Longrightarrow> wired (conns c)"
    and 2: "conn_core (conns' c) = conn_core (conns c)"
      "wroom (cn_out (conns c)) = Some 0 \<Longrightarrow> wroom (cn_out (conns' c)) = Some 0"
      "cn_closed (conns c) \<Longrightarrow> cn_closed (conns' c)"
      "prefix (cn_sent (conns c)) (cn_sent (conns' c))" "wired (conns c) \<Longrightarrow> wired (conns' c)" for c
    unfolding quiet_def by (elim exE conjE) simp
  have "conn_core (conns' c) = conn_core (w_conn w c) \<and>
      (wroom (cn_out (w_conn w c)) = Some 0 \<longrightarrow> wroom (cn_out (conns' c)) = Some 0) \<and>
      (cn_closed (w_conn w c) \<longrightarrow> cn_closed (conns' c)) \<and>
      prefix (cn_sent (w_conn w c)) (cn_sent (conns' c)) \<and> (wired (w_conn w c) \<longrightarrow> wired (conns' c))" for c
    using 1 [of c] 2 [of c] prefix_order.trans [OF 1(4) 2(4), of c] by simp
  then show ?thesis
    unfolding quiet_def w'' w' by (intro exI [of _ conns'] exI [of _ clock']) simp
qed

lemma quiet_preorder: "reflp quiet" "transp quiet"
  by (auto intro!: reflpI transpI quiet_refl intro: quiet_trans)

lemmas [quiet_intros] =
  within_ret [OF quiet_preorder(1)] within_and_then [OF quiet_preorder(2)]
  within_always [OF quiet_preorder(2)] within_on_err [OF quiet_preorder(2)] within_if

lemma quiet_upd:
  assumes "conn_core (f (w_conn w c)) = conn_core (w_conn w c)"
    and "wroom (cn_out (w_conn w c)) = Some 0 \<Longrightarrow> wroom (cn_out (f (w_conn w c))) = Some 0"
    and "cn_closed (w_conn w c) \<Longrightarrow> cn_closed (f (w_conn w c))"
    and "prefix (cn_sent (w_conn w c)) (cn_sent (f (w_conn w c)))"
    and "wired (w_conn w c) \<Longrightarrow> wired (f (w_conn w c))"
  shows "quiet w (upd_conn c f w)" "quiet w (upd_conn c f (tick w))"
proof -
  let ?conns = "(w_conn w)(c := f (w_conn w c))"
  have same: "\<forall>d. conn_core (?conns d) = conn_core (w_conn w d) \<and>
      (wroom (cn_out (w_conn w d)) = Some 0 \<longrightarrow> wroom (cn_out (?conns d)) = Some 0) \<and>
      (cn_closed (w_conn w d) \<longrightarrow> cn_closed (?conns d)) \<and> prefix (cn_sent (w_conn w d)) (cn_sent (?conns d)) \<and>
      (wired (w_conn w d) \<longrightarrow> wired (?conns d))"
    using assms by simp
  have "upd_conn c f w = w\<lparr>w_conn := ?conns, w_clock := w_clock w\<rparr>" by (simp add: upd_conn_def)
  with same show "quiet w (upd_conn c f w)" unfolding quiet_def by blast
  have "upd_conn c f (tick w) = w\<lparr>w_conn := ?conns, w_clock := w_clock w + 1\<rparr>"
    by (simp add: upd_conn_def tick_def)
  with same show "quiet w (upd_conn c f (tick w))" unfolding quiet_def by blast
qed

lemma quiet_tick: "quiet w (tick w)"
  unfolding quiet_def tick_def by (rule exI [of _ "w_conn w"], rule exI [of _ "w_clock w + 1"]) simp

lemma serve_dom_core:
  "serve csw msg w = Some (Ok (err, csw', w')) \<Longrightarrow>
     dom (csw_chunkStreams csw') = dom (csw_chunkStreams csw) \<and> csw_done csw' = csw_done csw"
  by (auto simp: serve_def store_stream_def split: option.splits res.splits if_splits)

lemma quiet_conn_Send [quiet_intros]: "quiet_act (conn_Send c msg)"
  unfolding within_def
proof (intro allI impI)
  fix w r w' assume run: "conn_Send c msg w = Some (Ok (r, w'))"
  show "quiet w w'"
  proof (cases "csw_chunkStreams (cn_csw (w_conn w c)) (mChunkStreamID msg) \<noteq> None \<and> csw_done (cn_csw (w_conn w c))")
    case True
    with run show ?thesis by (auto simp: conn_Send_def ret_def quiet_refl)
  next
    case False
    with run obtain er csw out where s: "serve (cn_csw (w_conn w c)) msg (cn_out (w_conn w c)) = Some (Ok (er, csw, out))"
      and w': "w' = upd_conn c (\<lambda>cn. cn\<lparr>cn_csw := csw, cn_out := out, cn_tried := cn_tried cn @ [msg],
              cn_sent := (if er = None then cn_sent cn @ [msg] else cn_sent cn)\<rparr>) w"
      by (auto simp: conn_Send_def ret_def Let_def split: option.splits res.splits)
    show ?thesis unfolding w'
      using serve_dom_core [OF s] serve_stuck [OF room_laws s] wired_serve [OF _ s]
      by (intro quiet_upd) (simp_all add: conn_core_def)
  qed
qed

lemma quiet_conn_Flush [quiet_intros]: "quiet_act (conn_Flush e c)"
  by (auto simp: within_def conn_Flush_def ret_def quiet_refl quiet_tick fail_conn_def conn_core_def
      split: option.splits if_splits intro!: quiet_upd wired_fail_conn)

lemma quiet_conn_Close [quiet_intros]: "quiet_act (conn_Close e c)"
  by (auto simp: within_def conn_Close_def ret_def conn_core_def wired_close_net intro!: quiet_upd) (simp_all add: close_net_def)

lemma quiet_conn_SendCommand [quiet_intros]: "quiet_act (conn_SendCommand e c cmd)"
  unfolding within_def conn_SendCommand_def
  by (auto simp: ret_def quiet_refl split: res.splits
      dest: withinD [OF within_and_then [OF quiet_preorder(2) quiet_conn_Send quiet_conn_Flush]])

lemma quiet_stream_Send [quiet_intros]: "quiet_act (stream_Send s msg)"
  unfolding within_def stream_Send_def Let_def by (blast dest: withinD [OF quiet_conn_Send])

lemma quiet_stream_SendCommand [quiet_intros]: "quiet_act (stream_SendCommand e s cmd)"
  unfolding within_def stream_SendCommand_def
  by (auto simp: ret_def quiet_refl split: res.splits
      dest: withinD [OF within_and_then [OF quiet_preorder(2) quiet_stream_Send quiet_conn_Flush]])

lemma quiet_conn_Fatal [quiet_intros]: "quiet_act (conn_Fatal e c er)"
  unfolding conn_Fatal_def conn_Error_def Let_def by (intro quiet_intros)

lemma quiet_announcements [quiet_intros]:
  "quiet_act (SendStreamBegin e c i)" "quiet_act (SetChunkSize e c k)" "quiet_act (SetWindowSize e c k)"
  "quiet_act (SetPeerBandwidth e c k limit)" "quiet_act (conn_OnWindowFull e c k)"
  unfolding SendStreamBegin_def SetChunkSize_def SetWindowSize_def SetPeerBandwidth_def conn_OnWindowFull_def
  by (intro quiet_intros)+

text \<open>On a connection that has failed no command is sent.\<close>

lemma send_flush_failed:
  assumes run: "and_then a (conn_Flush e c) w = Some (Ok (r, w'))" and a: "quiet_act a"
    and room: "wroom (cn_out (w_conn w c)) = Some 0"
  shows "r \<noteq> None"
  using run
proof (cases rule: and_then_cases)
  case (2 w1)
  have "wroom (cn_out (w_conn w1 c)) = Some 0"
    using withinD [OF a 2(1)] room by (auto simp: quiet_def)
  with 2(2) show ?thesis by (auto simp: conn_Flush_def ret_def)
qed

lemma conn_SendCommand_failed:
  assumes "conn_SendCommand e c cmd w = Some (Ok (r, w'))" and "wroom (cn_out (w_conn w c)) = Some 0"
  shows "r \<noteq> None"
  using assms send_flush_failed [OF _ quiet_conn_Send]
  by (auto simp: conn_SendCommand_def ret_def split: res.splits)

lemma stream_SendCommand_failed:
  assumes "stream_SendCommand e s cmd w = Some (Ok (r, w'))"
    and "wroom (cn_out (w_conn w (strm_conn (w_strm w s)))) = Some 0"
  shows "r \<noteq> None"
  using assms send_flush_failed [OF _ quiet_stream_Send]
  by (auto simp: stream_SendCommand_def ret_def split: res.splits)

end
