(* ===== verification/Server_Invariant.thy ===== *)
theory Server_Invariant
  imports Conn_Effects
begin

text \<open>
  The goroutines of a server as a step relation on the world, and the invariant that ties the
  registry of published names to the streams: a stream that publishes owns the name it publishes
  under. The invariant needs clients that do not play on a stream they publish on; what happens
  otherwise is in \<^verbatim>\<open>Server_Properties\<close>.
\<close>

section \<open>Steps\<close>

text \<open>The user's handler may refuse a command or pass it on, once or more, and nothing else: whatever the
  callback keeps, it keeps.\<close>

locale server_handler =
  fixes user :: user_invoke
  assumes passes_on: "(\<And>w r w'. P w \<Longrightarrow> callback cmd w = Some (Ok (r, w')) \<Longrightarrow> P w') \<Longrightarrow>
     P w \<Longrightarrow> user c s cmd callback w = Some (Ok (r, w')) \<Longrightarrow> P w'"

interpretation demo: server_handler demo_Invoke
  by unfold_locales (simp add: demo_Invoke_def)

text \<open>A step is one call that a goroutine makes to its end: an accepted connection, a message handled in
  the reading goroutine of its connection, an acknowledgement, the end of a connection, a turn of the
  loop of a media stream, a buffer or a player, a subscription by user code. \<open>ok\<close> restricts what the
  clients send.\<close>

inductive server_step :: "env \<Rightarrow> user_invoke \<Rightarrow> (world \<Rightarrow> nat \<Rightarrow> message \<Rightarrow> bool) \<Rightarrow> world \<Rightarrow> world \<Rightarrow> bool"
  for e user ok where
  accept: "wout out = [] \<Longrightarrow> server_step e user ok w (handle shake out w)"
| receive_message:
    "\<lbrakk>c < w_nconn w; \<not> cn_finished (w_conn w c); ok w c msg;
      conn_OnMessage e user c msg w = Some (Ok (r, w'))\<rbrakk> \<Longrightarrow> server_step e user ok w w'"
| window_full:
    "\<lbrakk>c < w_nconn w; conn_OnWindowFull e c n w = Some (Ok (r, w'))\<rbrakk> \<Longrightarrow> server_step e user ok w w'"
| finish_conn:
    "\<lbrakk>c < w_nconn w; \<not> cn_finished (w_conn w c); distinct order;
      set order = ran (cn_streams (w_conn w c))\<rbrakk> \<Longrightarrow> server_step e user ok w (waitClose e c er order w)"
| media_returns: "server_step e user ok w (media_event e m Return w)"
| buffer_receives: "p < w_nplayer w \<Longrightarrow> server_step e user ok w (player_receive p w)"
| player_turns: "p < w_nplayer w \<Longrightarrow> player_turn e p w = Some (Ok (r, w')) \<Longrightarrow> server_step e user ok w w'"
| user_subscribes: "m < w_nmedia w \<Longrightarrow> server_step e user ok w (snd (media_Subscribe e m w))"
| user_unsubscribes:
    "\<lbrakk>m < w_nmedia w; \<forall>p<w_nplayer w. mp_ms (w_player w p) = m \<longrightarrow> mp_sub (w_player w p) \<noteq> ch\<rbrakk> \<Longrightarrow>
     server_step e user ok w (media_Unsubscribe e m ch w)"

definition no_conn :: conn where
  "no_conn = new_conn \<lparr>wout = [], wroom = None, wfail = EOF\<rparr>"

definition world_init :: world where
  "world_init = \<lparr>w_streams = Map.empty, w_players = Map.empty, w_connections = 0, w_handshakeFails = 0,
     w_conn = (\<lambda>_. no_conn), w_nconn = 0, w_strm = (\<lambda>_. newStream 0 0 0), w_nstrm = 0,
     w_media = (\<lambda>_. NewMediaStream), w_owner = (\<lambda>_. 0), w_nmedia = 0,
     w_player = (\<lambda>_. \<lparr>mp_ms = 0, mp_sub = 0, mp_s = 0, mp_mb = mb_start 0, mp_taken = 0,
       mp_started = False, mp_done = False, mp_sent = []\<rparr>), w_nplayer = 0, w_log = [], w_clock = 0\<rparr>"

inductive server_reachable :: "env \<Rightarrow> user_invoke \<Rightarrow> (world \<Rightarrow> nat \<Rightarrow> message \<Rightarrow> bool) \<Rightarrow> world \<Rightarrow> bool"
  for e user ok where
  start: "server_reachable e user ok world_init"
| more: "server_reachable e user ok w \<Longrightarrow> server_step e user ok w w' \<Longrightarrow> server_reachable e user ok w'"

text \<open>The client does not play on a stream it publishes on.\<close>

definition polite :: "env \<Rightarrow> world \<Rightarrow> nat \<Rightarrow> message \<Rightarrow> bool" where
  "polite e w c msg \<longleftrightarrow> (\<forall>cmd s. ParseCommand (e_amf e) msg = Some (Ok (CPlay cmd)) \<longrightarrow>
     cn_streams (w_conn w c) (playStreamID cmd) = Some s \<longrightarrow> \<not> strm_publishing (w_strm w s))"

section \<open>The invariant\<close>

text \<open>The streams in the table of a connection that is not finished.\<close>

definition live :: "world \<Rightarrow> nat \<Rightarrow> bool" where
  "live w s \<longleftrightarrow> (\<exists>c i. \<not> cn_finished (w_conn w c) \<and> cn_streams (w_conn w c) i = Some s)"

definition owns_name :: "world \<Rightarrow> nat \<Rightarrow> bool" where
  "owns_name w s \<longleftrightarrow> (\<exists>m h. w_streams w (strm_name (w_strm w s)) = Some m \<and> w_owner w m = s \<and>
     strm_handler (w_strm w s) = Some h \<and> sh_mediaStream h = Some m)"

definition publishers_own :: "world \<Rightarrow> bool" where
  "publishers_own w \<longleftrightarrow> (\<forall>s. live w s \<longrightarrow> strm_publishing (w_strm w s) \<longrightarrow> owns_name w s)"

definition registered_open :: "world \<Rightarrow> bool" where
  "registered_open w \<longleftrightarrow> (\<forall>n m. w_streams w n = Some m \<longrightarrow> m < w_nmedia w \<and>
     ms_running (w_media w m) \<and> \<not> ms_done (w_media w m) \<and> w_owner w m < w_nstrm w \<and>
     (\<forall>n'. w_streams w n' = Some m \<longrightarrow> n' = n))"

text \<open>A stream whose creation could not be answered has no handler; its connection has failed.\<close>

definition failed :: "world \<Rightarrow> nat \<Rightarrow> bool" where
  "failed w c \<longleftrightarrow> wroom (cn_out (w_conn w c)) = Some 0"

definition unhandled_failed :: "world \<Rightarrow> bool" where
  "unhandled_failed w \<longleftrightarrow> (\<forall>s. live w s \<longrightarrow> strm_handler (w_strm w s) = None \<longrightarrow>
     \<not> strm_publishing (w_strm w s) \<and> failed w (strm_conn (w_strm w s)))"

definition csids :: "world \<Rightarrow> nat \<Rightarrow> u32 set" where
  "csids w c = dom (csw_chunkStreams (cn_csw (w_conn w c)))"

definition tables_ok :: "world \<Rightarrow> bool" where
  "tables_ok w \<longleftrightarrow>
     (\<forall>c i s. cn_streams (w_conn w c) i = Some s \<longrightarrow> c < w_nconn w \<and> s < w_nstrm w \<and>
        strm_id (w_strm w s) = i \<and> strm_conn (w_strm w s) = c \<and>
        strm_csid (w_strm w s) \<in> csids w c - {2, 3, 4}) \<and>
     (\<forall>c i j s t. cn_streams (w_conn w c) i = Some s \<longrightarrow> cn_streams (w_conn w c) j = Some t \<longrightarrow>
        strm_csid (w_strm w s) = strm_csid (w_strm w t) \<longrightarrow> i = j) \<and>
     (\<forall>c. {2, 3, 4} \<subseteq> csids w c \<and> (\<forall>i\<in>csids w c. 2 \<le> i \<and> i < 100) \<and>
        (csw_done (cn_csw (w_conn w c)) \<longrightarrow> cn_finished (w_conn w c)))"

definition server_inv :: "world \<Rightarrow> bool" where
  "server_inv w \<longleftrightarrow> tables_ok w \<and> publishers_own w \<and> registered_open w \<and> unhandled_failed w"

lemma server_inv_init: "server_inv world_init"
  by (auto simp: server_inv_def tables_ok_def publishers_own_def registered_open_def unhandled_failed_def
      world_init_def no_conn_def new_conn_def live_def csids_def NewChunkStreamWriter_def)

section \<open>Calm actions\<close>

text \<open>What the invariant does not look at: the players, the tags of the media streams, the output of
  the connections.\<close>

definition calm :: "world \<Rightarrow> world \<Rightarrow> bool" where
  "calm w w' \<longleftrightarrow> w_streams w' = w_streams w \<and> w_owner w' = w_owner w \<and> w_nmedia w' = w_nmedia w \<and>
     w_strm w' = w_strm w \<and> w_nstrm w' = w_nstrm w \<and> w_nconn w' = w_nconn w \<and>
     (\<forall>c. conn_core (w_conn w' c) = conn_core (w_conn w c) \<and> (failed w c \<longrightarrow> failed w' c)) \<and>
     (\<forall>m. ms_running (w_media w' m) = ms_running (w_media w m) \<and> ms_done (w_media w' m) = ms_done (w_media w m))"

lemma calm_refl: "calm w w"
  by (simp add: calm_def)

lemma calm_trans: "calm w w' \<Longrightarrow> calm w' w'' \<Longrightarrow> calm w w''"
  by (simp add: calm_def)

lemma quiet_calm: "quiet w w' \<Longrightarrow> calm w w'"
  by (auto simp: quiet_def calm_def failed_def)

lemma conn_core_fields:
  assumes "conn_core cn' = conn_core cn"
  shows "cn_streams cn' = cn_streams cn" "cn_finished cn' = cn_finished cn"
    "dom (csw_chunkStreams (cn_csw cn')) = dom (csw_chunkStreams (cn_csw cn))"
    "csw_done (cn_csw cn') = csw_done (cn_csw cn)"
  using assms by (auto simp: conn_core_def)

lemma calm_fields:
  assumes "calm w w'"
  shows "w_streams w' = w_streams w" "w_owner w' = w_owner w" "w_nmedia w' = w_nmedia w"
    "w_strm w' = w_strm w" "w_nstrm w' = w_nstrm w" "w_nconn w' = w_nconn w"
    "cn_streams (w_conn w' c) = cn_streams (w_conn w c)" "cn_finished (w_conn w' c) = cn_finished (w_conn w c)"
    "csids w' c = csids w c" "failed w c \<Longrightarrow> failed w' c"
    "ms_running (w_media w' m) = ms_running (w_media w m)" "ms_done (w_media w' m) = ms_done (w_media w m)"
    "live w' s = live w s" "csw_done (cn_csw (w_conn w' c)) = csw_done (cn_csw (w_conn w c))"
proof -
  have "conn_core (w_conn w' c) = conn_core (w_conn w c)" for c using assms by (simp add: calm_def)
  note core = conn_core_fields [OF this]
  show "w_streams w' = w_streams w" "w_owner w' = w_owner w" "w_nmedia w' = w_nmedia w"
    "w_strm w' = w_strm w" "w_nstrm w' = w_nstrm w" "w_nconn w' = w_nconn w"
    "cn_streams (w_conn w' c) = cn_streams (w_conn w c)" "cn_finished (w_conn w' c) = cn_finished (w_conn w c)"
    "csids w' c = csids w c" "failed w c \<Longrightarrow> failed w' c"
    "ms_running (w_media w' m) = ms_running (w_media w m)" "ms_done (w_media w' m) = ms_done (w_media w m)"
    "live w' s = live w s" "csw_done (cn_csw (w_conn w' c)) = csw_done (cn_csw (w_conn w c))"
    using assms core by (simp_all add: calm_def csids_def live_def)
qed

lemma server_inv_calm: "calm w w' \<Longrightarrow> server_inv w \<Longrightarrow> server_inv w'"
  by (simp add: server_inv_def tables_ok_def publishers_own_def owns_name_def registered_open_def
      unhandled_failed_def calm_fields [of w w'])

lemma calm_media_event: "ev \<noteq> CloseStream \<Longrightarrow> ev \<noteq> Return \<Longrightarrow> calm w (media_event e m ev w)"
  by (cases ev)
    (simp_all add: calm_def media_event_def failed_def subscribe_def unsubscribe_def on_chan_def Let_def
      split: option.split)

lemma calm_tick: "calm w (tick w)"
  by (simp add: calm_def tick_def failed_def)

lemma calm_tell: "calm w (tell cb w)"
  by (simp add: calm_def tell_def failed_def)

lemma calm_upd_player: "calm w (upd_player p f w)"
  by (simp add: calm_def upd_player_def failed_def)

lemma calm_media_Unsubscribe: "calm w (media_Unsubscribe e m ch w)"
  unfolding media_Unsubscribe_def
  by (auto intro: calm_tick calm_trans [OF calm_tick calm_media_event])

lemma calm_mp_Close: "calm w (mp_Close e p w)"
  unfolding mp_Close_def by (rule calm_media_Unsubscribe)

lemma calm_media_Subscribe: "media_Subscribe e m w = (x, w') \<Longrightarrow> calm w w'"
  unfolding media_Subscribe_def
  by (auto split: if_splits intro: calm_tick calm_trans [OF calm_tick calm_media_event])

lemma calm_NewMediaPlayer: "NewMediaPlayer e m s w = (x, w') \<Longrightarrow> calm w w'"
proof -
  assume new: "NewMediaPlayer e m s w = (x, w')"
  obtain y w1 where sub: "media_Subscribe e m w = (y, w1)" by (cases "media_Subscribe e m w")
  have "calm w w1" by (rule calm_media_Subscribe [OF sub])
  moreover have "calm w1 w'" using new sub
    by (cases y) (auto simp: NewMediaPlayer_def Let_def calm_def failed_def)
  ultimately show ?thesis by (rule calm_trans)
qed

lemma calm_players: "calm w (delPlayer s w)" "calm w (snd (putPlayer s p w))"
  by (simp_all add: calm_def delPlayer_def putPlayer_def failed_def split: option.split)

lemma calm_player_return: "calm w (player_return e p w)"
  unfolding player_return_def by (rule calm_trans [OF calm_upd_player calm_mp_Close])

lemma calm_player_turn: "player_turn e p w = Some (Ok (r, w')) \<Longrightarrow> calm w w'"
proof -
  assume run: "player_turn e p w = Some (Ok (r, w'))"
  let ?w = "upd_player p (\<lambda>mp. mp\<lparr>mp_mb := mb_step (mp_mb mp) Take\<rparr>) w"
  show ?thesis
  proof (cases "mp_started (w_player w p) \<and> \<not> mp_done (w_player w p) \<and> mbl_open (mp_mb (w_player w p)) \<and>
      front (mbl_buf (mp_mb (w_player w p))) \<noteq> None")
    case False
    with run show ?thesis
      by (auto simp: player_turn_def Let_def ret_def calm_refl calm_player_return split: if_splits)
  next
    case True
    then obtain tag where "front (mbl_buf (mp_mb (w_player w p))) = Some tag" by blast
    with True run obtain x w1 where sent: "writeTag p tag ?w = Some (Ok (x, w1))"
      and w': "w' = (case x of None \<Rightarrow> upd_player p (\<lambda>mp. mp\<lparr>mp_sent := mp_sent mp @ [tag]\<rparr>) w1
          | Some er \<Rightarrow> player_return e p w1)"
      by (auto simp: player_turn_def Let_def ret_def split: option.splits res.splits)
    have "calm ?w w1"
      using withinD [OF quiet_stream_Send] sent unfolding writeTag_def by (blast intro: quiet_calm)
    then have "calm w w1" by (rule calm_trans [OF calm_upd_player])
    then show ?thesis
      unfolding w' by (cases x) (auto intro: calm_trans calm_upd_player calm_player_return)
  qed
qed

lemma calm_player_receive: "calm w (player_receive p w)"
  by (simp add: player_receive_def Let_def calm_refl calm_upd_player)

section \<open>Changes of one stream\<close>

text \<open>\<open>same_place\<close>: what ties a stream to its connection.\<close>

definition same_place :: "stream \<Rightarrow> stream \<Rightarrow> bool" where
  "same_place st st' \<longleftrightarrow> strm_id st' = strm_id st \<and> strm_conn st' = strm_conn st \<and> strm_csid st' = strm_csid st"

lemma upd_strm_fields [simp]:
  "w_streams (upd_strm s f w) = w_streams w" "w_owner (upd_strm s f w) = w_owner w"
  "w_nmedia (upd_strm s f w) = w_nmedia w" "w_nstrm (upd_strm s f w) = w_nstrm w"
  "w_nconn (upd_strm s f w) = w_nconn w" "w_conn (upd_strm s f w) = w_conn w"
  "w_media (upd_strm s f w) = w_media w" "w_players (upd_strm s f w) = w_players w"
  "w_player (upd_strm s f w) = w_player w" "w_nplayer (upd_strm s f w) = w_nplayer w"
  "w_strm (upd_strm s f w) s = f (w_strm w s)" "t \<noteq> s \<Longrightarrow> w_strm (upd_strm s f w) t = w_strm w t"
  "live (upd_strm s f w) = live w" "csids (upd_strm s f w) = csids w" "failed (upd_strm s f w) = failed w"
  by (simp_all add: upd_strm_def live_def csids_def failed_def fun_eq_iff)

lemma tell_fields [simp]:
  "w_streams (tell cb w) = w_streams w" "w_owner (tell cb w) = w_owner w"
  "w_nmedia (tell cb w) = w_nmedia w" "w_nstrm (tell cb w) = w_nstrm w" "w_strm (tell cb w) = w_strm w"
  "w_nconn (tell cb w) = w_nconn w" "w_conn (tell cb w) = w_conn w" "w_media (tell cb w) = w_media w"
  "w_players (tell cb w) = w_players w" "w_player (tell cb w) = w_player w"
  "w_nplayer (tell cb w) = w_nplayer w" "live (tell cb w) = live w"
  by (simp_all add: tell_def live_def fun_eq_iff)

lemma server_inv_upd_strm:
  assumes inv: "server_inv w" and place: "same_place (w_strm w s) (f (w_strm w s))"
    and own: "live w s \<Longrightarrow> strm_publishing (f (w_strm w s)) \<Longrightarrow> owns_name (upd_strm s f w) s"
    and unhandled: "live w s \<Longrightarrow> strm_handler (f (w_strm w s)) = None \<Longrightarrow>
      \<not> strm_publishing (f (w_strm w s)) \<and> failed w (strm_conn (w_strm w s))"
  shows "server_inv (upd_strm s f w)"
proof -
  let ?w = "upd_strm s f w"
  have strm: "same_place (w_strm w t) (w_strm ?w t)" for t
    using place by (cases "t = s") (simp_all add: same_place_def)
  have "tables_ok ?w"
    using inv strm by (simp add: server_inv_def tables_ok_def same_place_def)
  moreover have "publishers_own ?w"
    unfolding publishers_own_def
  proof (intro allI impI)
    fix t assume t: "live ?w t" "strm_publishing (w_strm ?w t)"
    show "owns_name ?w t"
    proof (cases "t = s")
      case True
      with own t show ?thesis by simp
    next
      case False
      with inv t show ?thesis by (simp add: server_inv_def publishers_own_def owns_name_def)
    qed
  qed
  moreover have "registered_open ?w" using inv by (simp add: server_inv_def registered_open_def)
  moreover have "unhandled_failed ?w"
    unfolding unhandled_failed_def
  proof (intro allI impI)
    fix t assume t: "live ?w t" "strm_handler (w_strm ?w t) = None"
    show "\<not> strm_publishing (w_strm ?w t) \<and> failed ?w (strm_conn (w_strm ?w t))"
    proof (cases "t = s")
      case True
      with unhandled t place show ?thesis by (simp add: same_place_def)
    next
      case False
      with inv t show ?thesis by (simp add: server_inv_def unhandled_failed_def)
    qed
  qed
  ultimately show ?thesis by (simp add: server_inv_def)
qed

section \<open>Publishing\<close>

lemma new_media_fields [simp]:
  "fst (new_media s w) = w_nmedia w" "w_nmedia (snd (new_media s w)) = w_nmedia w + 1"
  "w_streams (snd (new_media s w)) = w_streams w" "w_strm (snd (new_media s w)) = w_strm w"
  "w_nstrm (snd (new_media s w)) = w_nstrm w" "w_conn (snd (new_media s w)) = w_conn w"
  "w_nconn (snd (new_media s w)) = w_nconn w" "w_players (snd (new_media s w)) = w_players w"
  "w_media (snd (new_media s w)) = (w_media w)(w_nmedia w := NewMediaStream)"
  "w_owner (snd (new_media s w)) = (w_owner w)(w_nmedia w := s)"
  "w_player (snd (new_media s w)) = w_player w" "w_nplayer (snd (new_media s w)) = w_nplayer w"
  by (simp_all add: new_media_def Let_def)

text \<open>The parts of the invariant about the connections and their tables.\<close>

lemma inv_same_streams:
  assumes "w_conn w' = w_conn w" "w_nconn w' = w_nconn w" "w_strm w' = w_strm w" "w_nstrm w' = w_nstrm w"
  shows "tables_ok w' = tables_ok w" "unhandled_failed w' = unhandled_failed w" "live w' = live w"
    "csids w' = csids w" "failed w' = failed w"
proof -
  show eqs: "live w' = live w" "csids w' = csids w" "failed w' = failed w"
    using assms by (simp_all add: live_def csids_def failed_def fun_eq_iff)
  show "tables_ok w' = tables_ok w" "unhandled_failed w' = unhandled_failed w"
    unfolding tables_ok_def unhandled_failed_def eqs assms by simp_all
qed

lemma server_inv_new_media:
  assumes inv: "server_inv w"
  shows "server_inv (snd (new_media s w))" (is "server_inv ?w")
proof -
  note same = inv_same_streams [of ?w w, simplified]
  have reg: "m < w_nmedia w" if "w_streams w n = Some m" for n m
    using inv that by (auto simp: server_inv_def registered_open_def)
  have fresh: "m \<noteq> w_nmedia w" if "w_streams w n = Some m" for n m using reg [OF that] by simp
  have "publishers_own ?w"
    unfolding publishers_own_def same
  proof (intro allI impI)
    fix t assume t: "live w t" "strm_publishing (w_strm ?w t)"
    then have "owns_name w t" using inv by (simp add: server_inv_def publishers_own_def)
    then show "owns_name ?w t" using fresh by (auto simp: owns_name_def)
  qed
  moreover have "registered_open ?w"
    unfolding registered_open_def
  proof (intro allI impI)
    fix n m assume "w_streams ?w n = Some m"
    then have m: "w_streams w n = Some m" by simp
    have "m < w_nmedia w \<and> ms_running (w_media w m) \<and> \<not> ms_done (w_media w m) \<and> w_owner w m < w_nstrm w \<and>
        (\<forall>n'. w_streams w n' = Some m \<longrightarrow> n' = n)"
      using inv m unfolding server_inv_def registered_open_def by blast
    with fresh [OF m] show "m < w_nmedia ?w \<and> ms_running (w_media ?w m) \<and> \<not> ms_done (w_media ?w m) \<and>
        w_owner ?w m < w_nstrm ?w \<and> (\<forall>n'. w_streams ?w n' = Some m \<longrightarrow> n' = n)"
      by simp
  qed
  ultimately show ?thesis using inv same by (simp add: server_inv_def)
qed

text \<open>Registering an open media stream that is not registered yet.\<close>

lemma server_inv_register:
  assumes inv: "server_inv w" and free: "w_streams w n = None"
    and m: "m < w_nmedia w" "ms_running (w_media w m)" "\<not> ms_done (w_media w m)" "w_owner w m < w_nstrm w"
      "\<And>n'. w_streams w n' \<noteq> Some m"
  shows "server_inv (w\<lparr>w_streams := (w_streams w)(n \<mapsto> m)\<rparr>)" (is "server_inv ?w")
proof -
  note same = inv_same_streams [of ?w w, simplified]
  have "publishers_own ?w"
    unfolding publishers_own_def same
  proof (intro allI impI)
    fix t assume t: "live w t" "strm_publishing (w_strm ?w t)"
    then have "owns_name w t" using inv by (simp add: server_inv_def publishers_own_def)
    then show "owns_name ?w t" using free by (auto simp: owns_name_def)
  qed
  moreover have "registered_open ?w"
    unfolding registered_open_def
  proof (intro allI impI)
    fix n1 m1 assume r: "w_streams ?w n1 = Some m1"
    show "m1 < w_nmedia ?w \<and> ms_running (w_media ?w m1) \<and> \<not> ms_done (w_media ?w m1) \<and>
        w_owner ?w m1 < w_nstrm ?w \<and> (\<forall>n'. w_streams ?w n' = Some m1 \<longrightarrow> n' = n1)"
    proof (cases "n1 = n")
      case True
      with r m show ?thesis by auto
    next
      case False
      then have m1: "w_streams w n1 = Some m1" using r by simp
      then have "m1 \<noteq> m" using m(5) by blast
      moreover have "m1 < w_nmedia w \<and> ms_running (w_media w m1) \<and> \<not> ms_done (w_media w m1) \<and>
          w_owner w m1 < w_nstrm w \<and> (\<forall>n'. w_streams w n' = Some m1 \<longrightarrow> n' = n1)"
        using inv m1 unfolding server_inv_def registered_open_def by blast
      ultimately show ?thesis by auto
    qed
  qed
  ultimately show ?thesis using inv same by (simp add: server_inv_def)
qed

lemma server_inv_unregister:
  assumes inv: "server_inv w" and m: "w_streams w n = Some m"
    and unused: "\<And>t. live w t \<Longrightarrow> strm_publishing (w_strm w t) \<Longrightarrow> strm_name (w_strm w t) \<noteq> n"
  shows "server_inv (delStream n (media_Close e m w))" (is "server_inv ?w")
proof -
  have live: "live ?w = live w" "csids ?w = csids w" "failed ?w = failed w"
    by (simp_all add: live_def csids_def failed_def delStream_def media_Close_def media_event_def fun_eq_iff)
  have strm: "w_strm ?w = w_strm w" "w_streams ?w = (w_streams w)(n := None)" "w_owner ?w = w_owner w"
    "w_nmedia ?w = w_nmedia w" "w_nstrm ?w = w_nstrm w" "w_conn ?w = w_conn w" "w_nconn ?w = w_nconn w"
    "w_media ?w = (w_media w)(m := (w_media w m)\<lparr>ms_done := True\<rparr>)"
    by (simp_all add: delStream_def media_Close_def media_event_def)
  have "publishers_own ?w"
    unfolding publishers_own_def live strm
  proof (intro allI impI)
    fix t assume t: "live w t" "strm_publishing (w_strm w t)"
    with unused have "strm_name (w_strm w t) \<noteq> n" by blast
    with inv t show "owns_name ?w t"
      unfolding server_inv_def publishers_own_def owns_name_def strm by auto
  qed
  moreover have "registered_open ?w"
    unfolding registered_open_def strm
  proof (intro allI impI)
    fix n' m' assume a: "((w_streams w)(n := None)) n' = Some m'"
    then have n': "n' \<noteq> n" "w_streams w n' = Some m'" by (auto split: if_splits)
    with inv m have "m' \<noteq> m" by (auto simp: server_inv_def registered_open_def)
    with n' inv show "m' < w_nmedia w \<and> ms_running (((w_media w)(m := (w_media w m)\<lparr>ms_done := True\<rparr>)) m') \<and>
        \<not> ms_done (((w_media w)(m := (w_media w m)\<lparr>ms_done := True\<rparr>)) m') \<and> w_owner w m' < w_nstrm w \<and>
        (\<forall>n''. ((w_streams w)(n := None)) n'' = Some m' \<longrightarrow> n'' = n')"
      by (auto simp: server_inv_def registered_open_def)
  qed
  moreover have "tables_ok ?w" "unhandled_failed ?w"
    using inv unfolding server_inv_def tables_ok_def unhandled_failed_def live strm by simp_all
  ultimately show ?thesis by (simp add: server_inv_def)
qed

text \<open>A media stream that is not registered may be closed.\<close>

lemma server_inv_close_other:
  assumes inv: "server_inv w" and m: "\<And>n. w_streams w n \<noteq> Some m"
  shows "server_inv (media_Close e m w)"
proof -
  let ?w = "media_Close e m w"
  have live: "live ?w = live w" "csids ?w = csids w" "failed ?w = failed w" "w_strm ?w = w_strm w"
    "w_streams ?w = w_streams w" "w_owner ?w = w_owner w"
    by (simp_all add: live_def csids_def failed_def media_Close_def media_event_def fun_eq_iff)
  have "registered_open ?w"
    using inv m by (auto simp: server_inv_def registered_open_def media_Close_def media_event_def)
  moreover have "publishers_own ?w" "tables_ok ?w" "unhandled_failed ?w"
    using inv unfolding server_inv_def tables_ok_def unhandled_failed_def publishers_own_def owns_name_def live
    by (simp_all add: media_Close_def media_event_def)
  ultimately show ?thesis by (simp add: server_inv_def)
qed

end
