(* ===== verification/Server_Preserves.thy ===== *)
theory Server_Preserves
  imports Server_Invariant
begin

text \<open>
  Every handler and every step of a server keeps the invariant of \<^verbatim>\<open>Server_Invariant\<close>, whatever the
  user's handler does with its callback, as long as the codec encodes the reply to \<^verbatim>\<open>createStream\<close>
  and the clients are polite.
\<close>

section \<open>Results of an action\<close>

text \<open>\<open>keeps P a\<close>: what \<open>P\<close> says holds after the action too, if it returns.\<close>

abbreviation keeps :: "(world \<Rightarrow> bool) \<Rightarrow> act \<Rightarrow> bool" where
  "keeps P \<equiv> within (\<lambda>w w'. P w \<longrightarrow> P w')"

lemma keeps_preorder: "reflp (\<lambda>w w'. P w \<longrightarrow> P w')" "transp (\<lambda>w w'. P w \<longrightarrow> P w')"
  by (auto intro!: reflpI transpI)

lemmas keeps_intros =
  within_ret [OF keeps_preorder(1)] within_and_then [OF keeps_preorder(2)]
  within_always [OF keeps_preorder(2)] within_on_err [OF keeps_preorder(2)] within_if

lemma keepsD: "keeps P a \<Longrightarrow> P w \<Longrightarrow> a w = Some (Ok (r, w')) \<Longrightarrow> P w'"
  by (auto simp: within_def)

lemma keepsI: "(\<And>w r w'. P w \<Longrightarrow> a w = Some (Ok (r, w')) \<Longrightarrow> P w') \<Longrightarrow> keeps P a"
  by (auto simp: within_def)

text \<open>What the callback keeps, the user's handler keeps.\<close>

context server_handler
begin

lemma keeps_user: "keeps P (callback cmd) \<Longrightarrow> keeps P (user c s cmd callback)"
  using passes_on [of P callback cmd] unfolding within_def by blast

end

lemma server_inv_quiet: "quiet w w' \<Longrightarrow> server_inv w \<Longrightarrow> server_inv w'"
  by (blast intro: server_inv_calm quiet_calm)

section \<open>Publishing\<close>

text \<open>The name is the stream's own and \<^verbatim>\<open>OnPublish\<close> records the media stream.\<close>

lemma stream_invokePublish_inv:
  assumes inv: "server_inv w" and handler: "strm_handler (w_strm w s) \<noteq> None"
    and own: "w_streams w (pubName cmd) = Some m" "w_owner w m = s"
    and run: "stream_invokePublish e s cmd w = Some (Ok (r, w'))"
  shows "server_inv w' \<and> (r \<noteq> None \<longrightarrow> calm w w')"
proof -
  let ?send = "conn_SendCommand e (strm_conn (w_strm w s)) (COnStatus \<lparr>osStreamID = pubStreamID cmd,
           osTransactionID = pubTransactionID cmd, osProperties = VNil,
           osInfo = VStatus (StatusPublishStart (''Publishing '' @ pubName cmd @ ''.''))\<rparr>)"
  let ?pub = "\<lambda>st. st\<lparr>strm_name := pubName cmd, strm_publishing := True\<rparr>"
  let ?rest = "\<lambda>w. let w = upd_strm s ?pub w in
       ret None (if strm_handler (w_strm w s) \<noteq> None then ss_OnPublish s w else w)"
  show ?thesis
  proof (cases "pubName cmd = []")
    case True
    with run inv show ?thesis by (auto simp: stream_invokePublish_def ret_def calm_refl)
  next
    case False
    then have "and_then ?send ?rest w = Some (Ok (r, w'))" using run by (simp add: stream_invokePublish_def)
    then show ?thesis
    proof (cases rule: and_then_cases)
      case 1
      have "quiet w w'" by (rule withinD [OF quiet_conn_SendCommand 1(1)])
      with inv show ?thesis by (blast intro: server_inv_quiet quiet_calm)
    next
      case (2 w1)
      have calm: "calm w w1" by (rule quiet_calm [OF withinD [OF quiet_conn_SendCommand 2(1)]])
      note same = calm_fields [OF calm]
      obtain h where h: "strm_handler (w_strm w1 s) = Some h" using handler same by auto
      let ?f = "\<lambda>st. st\<lparr>strm_name := pubName cmd, strm_publishing := True,
        strm_handler := Some (h\<lparr>sh_mediaStream := Some m\<rparr>)\<rparr>"
      have w': "w' = tell (UPublish s (Some m)) (upd_strm s ?f w1)" and r: "r = None"
        using 2(2) h own same
        by (simp_all add: Let_def ret_def ss_OnPublish_def getStream_def) (simp add: upd_strm_def)
      have "owns_name (upd_strm s ?f w1) s"
        using own same by (auto simp: owns_name_def)
      then have "server_inv (upd_strm s ?f w1)"
        by (intro server_inv_upd_strm server_inv_calm [OF calm inv]) (simp_all add: same_place_def)
      then show ?thesis unfolding w' r by (auto intro: server_inv_calm [OF calm_tell])
    qed
  qed
qed

lemma ss_invokePublish_inv:
  assumes inv: "server_inv w" and s: "s < w_nstrm w" "strm_handler (w_strm w s) \<noteq> None"
    and run: "ss_invokePublish e s cmd (stream_Invoke e s) w = Some (Ok (r, w'))"
  shows "server_inv w'"
proof -
  define w0 where "w0 = snd (new_media s w)"
  let ?m = "w_nmedia w" and ?w = w0
  have new: "new_media s w = (?m, ?w)" by (simp add: new_media_def Let_def w0_def)
  note fields = new_media_fields [of s w, folded w0_def]
  have inv1: "server_inv ?w" unfolding w0_def by (rule server_inv_new_media [OF inv])
  have fresh: "w_streams w n \<noteq> Some ?m" for n
    using inv by (auto simp: server_inv_def registered_open_def)
  show ?thesis
  proof (cases "w_streams w (pubName cmd)")
    case (Some m0)
    then have "w' = media_Close e ?m ?w"
      using run new fields by (simp add: ss_invokePublish_def putStream_def ret_def)
    then show ?thesis using fresh fields by (auto intro!: server_inv_close_other inv1)
  next
    case None
    let ?reg = "?w\<lparr>w_streams := (w_streams ?w)(pubName cmd \<mapsto> ?m)\<rparr>"
    have inv2: "server_inv ?reg"
      using None s fresh fields
      by (intro server_inv_register inv1) (simp_all add: NewMediaStream_def)
    have "on_err (stream_invokePublish e s cmd) (\<lambda>er w.
           ret (Some er) (media_Close e ?m (delStream (pubName cmd) w))) ?reg = Some (Ok (r, w'))"
      using run new None fields by (simp add: ss_invokePublish_def putStream_def stream_Invoke_def)
    then show ?thesis
    proof (cases rule: on_err_cases)
      case 1
      show ?thesis
        by (rule stream_invokePublish_inv [OF inv2 _ _ _ 1(1), of ?m, THEN conjunct1]) (simp_all add: s fields)
    next
      case (2 er w1)
      have "server_inv w1 \<and> (Some er \<noteq> None \<longrightarrow> calm ?reg w1)"
        by (rule stream_invokePublish_inv [OF inv2 _ _ _ 2(1), of ?m]) (simp_all add: s fields)
      then have w1: "server_inv w1" "calm ?reg w1" by simp_all
      note same = calm_fields [OF w1(2)]
      have live: "live ?reg t = live w t" for t by (simp add: live_def fields)
      have unused: "strm_name (w_strm w1 t) \<noteq> pubName cmd" if "live w1 t" "strm_publishing (w_strm w1 t)" for t
      proof -
        have "live w t" "strm_publishing (w_strm w t)" using that same live fields by simp_all
        then have "w_streams w (strm_name (w_strm w t)) \<noteq> None"
          using inv by (auto simp: server_inv_def publishers_own_def owns_name_def)
        with None same fields show ?thesis by auto
      qed
      have "w' = delStream (pubName cmd) (media_Close e ?m w1)"
        using 2(2) by (auto simp add: ret_def media_Close_def media_event_def delStream_def)
      moreover have "w_streams w1 (pubName cmd) = Some ?m" using same by simp
      ultimately show ?thesis using server_inv_unregister [OF w1(1) _ unused] by simp
    qed
  qed
qed

section \<open>Playing\<close>

text \<open>Playing changes the name of the stream, which is why it must not be publishing.\<close>

lemma stream_invokePlay_inv:
  assumes inv: "server_inv w" and handler: "strm_handler (w_strm w s) \<noteq> None"
    and quietly: "\<not> strm_publishing (w_strm w s)"
    and run: "stream_invokePlay e s cmd w = Some (Ok (r, w'))"
  shows "server_inv w'"
proof -
  let ?upd = "\<lambda>st. st\<lparr>strm_name := playName cmd, strm_playing := True\<rparr>"
  let ?rest = "\<lambda>w. let w = upd_strm s ?upd w in
       ret None (if strm_handler (w_strm w s) \<noteq> None then ss_OnPlay s w else w)"
  have rest: "server_inv w'" if "calm w w1" "?rest w1 = Some (Ok (r, w'))" for w1
  proof -
    note same = calm_fields [OF that(1)]
    obtain h where h: "strm_handler (w_strm w1 s) = Some h" using handler same by auto
    let ?f = "\<lambda>st. st\<lparr>strm_name := playName cmd, strm_playing := True,
      strm_handler := Some (h\<lparr>sh_mediaPlayer := getPlayer s w1\<rparr>)\<rparr>"
    have w': "w' = tell (UPlay s (getPlayer s w1)) (upd_strm s ?f w1)"
      using that(2) h
      by (simp add: Let_def ret_def ss_OnPlay_def getPlayer_def) (simp add: upd_strm_def)
    have "server_inv (upd_strm s ?f w1)"
      using quietly same
      by (intro server_inv_upd_strm server_inv_calm [OF that(1) inv]) (simp_all add: same_place_def)
    then show ?thesis unfolding w' by (rule server_inv_calm [OF calm_tell])
  qed
  show ?thesis
  proof (cases "playName cmd = []")
    case True
    with run inv show ?thesis by (simp add: stream_invokePlay_def ret_def)
  next
    case False
    let ?s1 = "stream_SendCommand e s (play_status (StatusPlayReset ''reset'') (playName cmd))"
    let ?s2 = "stream_SendCommand e s (play_status (StatusPlayStart ''play'') (playName cmd))"
    have "and_then ?s1 (and_then ?s2 ?rest) w = Some (Ok (r, w'))"
      using run False by (simp add: stream_invokePlay_def)
    then show ?thesis
    proof (cases rule: and_then_cases)
      case 1
      show ?thesis using withinD [OF quiet_stream_SendCommand 1(1)] inv by (rule server_inv_quiet)
    next
      case (2 w1)
      note q1 = withinD [OF quiet_stream_SendCommand 2(1)]
      from 2(2) show ?thesis
      proof (cases rule: and_then_cases)
        case 1
        show ?thesis
          using quiet_trans [OF q1 withinD [OF quiet_stream_SendCommand 1(1)]] inv by (rule server_inv_quiet)
      next
        case (2 w2)
        show ?thesis
          using quiet_calm [OF quiet_trans [OF q1 withinD [OF quiet_stream_SendCommand 2(1)]]] 2(2) by (rule rest)
      qed
    qed
  qed
qed

lemma ss_invokePlay_cases:
  assumes run: "ss_invokePlay e s cmd (stream_Invoke e s) w = Some (Ok (r, w'))"
  obtains "r \<noteq> None" "calm w w'"
    | w1 w2 where "calm w w1" "stream_invokePlay e s cmd w1 = Some (Ok (r, w2))" "calm w2 w'"
proof (cases "getStream (playName cmd) w")
  case None
  with run that(1) show ?thesis by (auto simp: ss_invokePlay_def ret_def calm_refl)
next
  case (Some m)
  obtain x w1 where new: "NewMediaPlayer e m s w = (x, w1)" by (cases "NewMediaPlayer e m s w")
  note calm1 = calm_NewMediaPlayer [OF new]
  show ?thesis
  proof (cases x)
    case (Ok p)
    let ?w = "case putPlayer s p w1 of (True, w) \<Rightarrow> w | (False, w) \<Rightarrow> delPlayer s (mp_Close e p w)"
    obtain ok w2 where put: "putPlayer s p w1 = (ok, w2)" by (cases "putPlayer s p w1")
    have calm2: "calm w1 w2" using calm_players(2) [of w1 s p] put by simp
    have "calm w2 ?w" using put by (cases ok) (auto intro: calm_refl calm_trans calm_mp_Close calm_players)
    then have calm: "calm w ?w" by (rule calm_trans [OF calm_trans [OF calm1 calm2]])
    obtain er w3 where play: "stream_invokePlay e s cmd ?w = Some (Ok (er, w3))"
      and w': "w' = (case er of None \<Rightarrow> mp_Start p w3 | Some er \<Rightarrow> mp_Close e p (delPlayer s w3))" "r = er"
      using run Some new Ok
      by (auto simp: ss_invokePlay_def stream_Invoke_def Let_def ret_def split: option.splits res.splits)
    have "calm w3 w'"
      unfolding w'(1) by (cases er) (auto simp: mp_Start_def intro: calm_upd_player calm_trans [OF calm_players(1) calm_mp_Close])
    with calm play [folded w'(2)] show ?thesis by (rule that(2))
  next
    case (Err er)
    with run Some new have "w' = w1" "r \<noteq> None" by (auto simp: ss_invokePlay_def ret_def)
    with calm1 show ?thesis by (intro that(1)) simp_all
  next
    case Panic
    with run Some new show ?thesis by (simp add: ss_invokePlay_def)
  qed
qed

lemma ss_invokePlay_inv:
  assumes inv: "server_inv w" and handler: "strm_handler (w_strm w s) \<noteq> None"
    and quietly: "\<not> strm_publishing (w_strm w s)"
    and run: "ss_invokePlay e s cmd (stream_Invoke e s) w = Some (Ok (r, w'))"
  shows "server_inv w'"
  using run
proof (cases rule: ss_invokePlay_cases)
  case 1
  from 1(2) show ?thesis using inv by (rule server_inv_calm)
next
  case (2 w1 w2)
  have "server_inv w2"
    using handler quietly calm_fields(4) [OF 2(1)]
    by (intro stream_invokePlay_inv [OF server_inv_calm [OF 2(1) inv] _ _ 2(2)]) simp_all
  with 2(3) show ?thesis by (rule server_inv_calm)
qed

section \<open>Creating a stream\<close>

lemma CreateChunkStream_Ok:
  assumes "CreateChunkStream csw p = (Ok i, csw')"
  shows "csw_chunkStreams csw i = None \<and> 2 \<le> i \<and> i < 100 \<and> csw_done csw' = csw_done csw \<and>
     dom (csw_chunkStreams csw') = insert i (dom (csw_chunkStreams csw))"
  using assms find_free_Some [of "csw_chunkStreams csw" CS_ID_BASE i]
  by (auto simp: CreateChunkStream_def split: option.splits)

lemma encode_command_fields:
  assumes "encode_command e cmd = Ok msg"
  shows "mChunkStreamID msg = 3 \<and> (\<forall>buf. mBuf msg = Some buf \<longrightarrow> length buf < 2 ^ 32)"
  using assms
  by (auto simp: encode_command_def RawCommand_Message_def res_bind_eq_Ok split: if_splits)

text \<open>A command that could be encoded and could not be sent has met a failed connection.\<close>

lemma conn_SendCommand_error:
  assumes run: "conn_SendCommand e c cmd w = Some (Ok (Some er, w'))"
    and enc: "encode_command e cmd = Ok msg"
    and open_conn: "3 \<in> csids w c" "\<not> csw_done (cn_csw (w_conn w c))"
  shows "failed w' c"
proof -
  note msg = encode_command_fields [OF enc]
  have known: "csw_chunkStreams (cn_csw (w_conn w c)) (mChunkStreamID msg) \<noteq> None"
    using open_conn(1) msg by (auto simp: csids_def)
  have "and_then (conn_Send c msg) (conn_Flush e c) w = Some (Ok (Some er, w'))"
    using run enc by (simp add: conn_SendCommand_def)
  then show ?thesis
  proof (cases rule: and_then_cases)
    case 1
    then obtain er' csw out where s: "serve (cn_csw (w_conn w c)) msg (cn_out (w_conn w c)) = Some (Ok (Some er', csw, out))"
      and w': "cn_out (w_conn w' c) = out"
      using open_conn(2)
      by (auto simp: conn_Send_def ret_def upd_conn_def Let_def split: option.splits res.splits)
    have "fails_for_good (cn_out (w_conn w c)) (Some er') out"
      using msg known by (intro serve_fails [OF s]) (auto simp: word_le_nat_alt)
    with w' show ?thesis by (simp add: failed_def fails_for_good_def)
  next
    case (2 w1)
    then show ?thesis
      by (auto simp: conn_Flush_def ret_def failed_def upd_conn_def fail_conn_def split: if_splits option.splits)
  qed
qed

text \<open>While its reply is sent, the new stream has no handler yet.\<close>

definition creating :: "nat \<Rightarrow> world \<Rightarrow> bool" where
  "creating s w \<longleftrightarrow> tables_ok w \<and> publishers_own w \<and> registered_open w \<and>
     (\<forall>t. live w t \<longrightarrow> t \<noteq> s \<longrightarrow> strm_handler (w_strm w t) = None \<longrightarrow>
        \<not> strm_publishing (w_strm w t) \<and> failed w (strm_conn (w_strm w t))) \<and>
     \<not> strm_publishing (w_strm w s)"

lemma creating_calm: "calm w w' \<Longrightarrow> creating s w \<Longrightarrow> creating s w'"
  by (simp add: creating_def tables_ok_def publishers_own_def owns_name_def registered_open_def
      calm_fields [of w w'])

lemma creating_failed:
  "creating s w \<Longrightarrow> failed w (strm_conn (w_strm w s)) \<Longrightarrow> server_inv w"
  unfolding creating_def server_inv_def unhandled_failed_def by blast

lemma creating_handled:
  assumes "creating s w"
  shows "server_inv (upd_strm s (\<lambda>st. st\<lparr>strm_handler := Some h\<rparr>) w)" (is "server_inv ?w")
proof -
  have strm: "same_place (w_strm w t) (w_strm ?w t)" "strm_publishing (w_strm ?w t) = strm_publishing (w_strm w t)"
    for t by (cases "t = s"; simp add: same_place_def)+
  have "tables_ok ?w"
    using assms strm(1) by (simp add: creating_def tables_ok_def same_place_def)
  moreover have "publishers_own ?w"
    unfolding publishers_own_def
  proof (intro allI impI)
    fix t assume t: "live ?w t" "strm_publishing (w_strm ?w t)"
    then have "t \<noteq> s" using strm(2) assms by (auto simp: creating_def)
    with t assms show "owns_name ?w t" by (simp add: creating_def publishers_own_def owns_name_def)
  qed
  moreover have "registered_open ?w" using assms by (simp add: creating_def registered_open_def)
  moreover have "unhandled_failed ?w"
    unfolding unhandled_failed_def
  proof (intro allI impI)
    fix t assume t: "live ?w t" "strm_handler (w_strm ?w t) = None"
    then have "t \<noteq> s" by auto
    with t assms show "\<not> strm_publishing (w_strm ?w t) \<and> failed ?w (strm_conn (w_strm ?w t))"
      by (simp add: creating_def)
  qed
  ultimately show ?thesis by (simp add: server_inv_def)
qed

lemma allocated_creating:
  assumes inv: "server_inv w" and c: "c < w_nconn w"
    and new: "CreateChunkStream (cn_csw (w_conn w c)) p = (Ok csid, csw)"
    and alloc: "allocateStream c csid (upd_conn c (\<lambda>cn. cn\<lparr>cn_csw := csw\<rparr>) w) = Some (s, w')"
  shows "creating s w' \<and> strm_conn (w_strm w' s) = c \<and> s = w_nstrm w \<and>
     cn_finished (w_conn w' c) = cn_finished (w_conn w c) \<and> c < w_nconn w'"
proof -
  let ?cn = "w_conn w c"
  note csid = CreateChunkStream_Ok [OF new]
  obtain i where i: "first_unused (cn_streams ?cn) 1 = Some i"
    and s: "s = w_nstrm w"
    and w': "w' = upd_conn c (\<lambda>cn. cn\<lparr>cn_streams := (cn_streams cn)(i \<mapsto> s)\<rparr>)
           ((upd_conn c (\<lambda>cn. cn\<lparr>cn_csw := csw\<rparr>) w)\<lparr>w_strm := (w_strm w)(s := newStream i c csid), w_nstrm := s + 1\<rparr>)"
    using alloc by (auto simp: allocateStream_def upd_conn_def Let_def split: option.splits)
  have free: "cn_streams ?cn i = None" using stream_ids.alloc_free [OF i] by simp
  have tab: "d < w_nconn w \<and> t < w_nstrm w \<and> strm_id (w_strm w t) = j \<and> strm_conn (w_strm w t) = d \<and>
      strm_csid (w_strm w t) \<in> csids w d - {2, 3, 4}" if "cn_streams (w_conn w d) j = Some t" for d j t
    using inv that unfolding server_inv_def tables_ok_def by blast
  have inj: "j = k" if "cn_streams (w_conn w d) j = Some t" "cn_streams (w_conn w d) k = Some u"
      "strm_csid (w_strm w t) = strm_csid (w_strm w u)" for d j k t u
    using inv that unfolding server_inv_def tables_ok_def by blast
  have ids: "{2, 3, 4} \<subseteq> csids w d \<and> (\<forall>i\<in>csids w d. 2 \<le> i \<and> i < 100) \<and>
      (csw_done (cn_csw (w_conn w d)) \<longrightarrow> cn_finished (w_conn w d))" for d
    using inv unfolding server_inv_def tables_ok_def by blast
  have fresh: "csid \<notin> csids w c" using csid by (auto simp: csids_def)
  then have special: "csid \<notin> {2, 3, 4}" using ids [of c] by blast
  have streams: "cn_streams (w_conn w' d) j = Some t \<longleftrightarrow>
      (d = c \<and> j = i \<and> t = s \<or> (d, j) \<noteq> (c, i) \<and> cn_streams (w_conn w d) j = Some t)" for d j t
    by (auto simp: w' upd_conn_def)
  have csids: "csids w' d = (if d = c then insert csid (csids w d) else csids w d)" for d
    using csid by (simp add: w' csids_def upd_conn_def)
  have strm: "w_strm w' t = (if t = s then newStream i c csid else w_strm w t)" for t
    by (simp add: w' upd_conn_def)
  have old: "t \<noteq> s" if "cn_streams (w_conn w d) j = Some t" for d j t using tab [OF that] s by auto
  have counts: "w_nconn w' = w_nconn w" "w_nstrm w' = s + 1" "w_streams w' = w_streams w"
    "w_owner w' = w_owner w" "w_media w' = w_media w" "w_nmedia w' = w_nmedia w"
    by (simp_all add: w' upd_conn_def)
  have fin: "cn_finished (w_conn w' d) = cn_finished (w_conn w d)"
    "csw_done (cn_csw (w_conn w' d)) = csw_done (cn_csw (w_conn w d))" "failed w' d = failed w d" for d
    using csid by (simp_all add: w' upd_conn_def failed_def)
  have live: "live w' t \<Longrightarrow> t \<noteq> s \<Longrightarrow> live w t" for t
    by (auto simp: live_def streams fin)
  have "tables_ok w'"
    unfolding tables_ok_def
  proof (intro conjI allI impI)
    fix d j t assume "cn_streams (w_conn w' d) j = Some t"
    then consider "d = c" "j = i" "t = s" | "cn_streams (w_conn w d) j = Some t" using streams by blast
    then have "d < w_nconn w' \<and> t < w_nstrm w' \<and> strm_id (w_strm w' t) = j \<and> strm_conn (w_strm w' t) = d \<and>
        strm_csid (w_strm w' t) \<in> csids w' d - {2, 3, 4}"
    proof cases
      case 1
      then show ?thesis using c special by (simp add: counts strm csids newStream_def)
    next
      case 2
      with tab [OF 2] old [OF 2] s show ?thesis by (auto simp: counts strm csids)
    qed
    then show "d < w_nconn w'" "t < w_nstrm w'" "strm_id (w_strm w' t) = j" "strm_conn (w_strm w' t) = d"
      "strm_csid (w_strm w' t) \<in> csids w' d - {2, 3, 4}" by blast+
  next
    fix d j k t u
    assume a: "cn_streams (w_conn w' d) j = Some t" "cn_streams (w_conn w' d) k = Some u"
      and same: "strm_csid (w_strm w' t) = strm_csid (w_strm w' u)"
    have other: "strm_csid (w_strm w v) \<noteq> csid" if "cn_streams (w_conn w c) l = Some v" for l v
      using tab [OF that] fresh by auto
    show "j = k"
      using a same unfolding streams strm
      by (auto simp: newStream_def split: if_splits dest: old other inj)
  next
    fix d
    show "{2, 3, 4} \<subseteq> csids w' d" using ids [of d] by (auto simp: csids)
    show "\<forall>i\<in>csids w' d. 2 \<le> i \<and> i < 100" using ids [of d] csid by (auto simp: csids)
    show "cn_finished (w_conn w' d)" if "csw_done (cn_csw (w_conn w' d))"
      using ids [of d] that by (simp add: fin)
  qed
  moreover have "publishers_own w'"
    unfolding publishers_own_def
  proof (intro allI impI)
    fix t assume t: "live w' t" "strm_publishing (w_strm w' t)"
    then have "t \<noteq> s" by (auto simp: strm newStream_def)
    with t inv live show "owns_name w' t"
      by (simp add: server_inv_def publishers_own_def owns_name_def strm counts)
  qed
  moreover have "registered_open w'"
    using inv s by (fastforce simp: server_inv_def registered_open_def counts)
  moreover have "\<not> strm_publishing (w_strm w' t) \<and> failed w' (strm_conn (w_strm w' t))"
    if "live w' t" "t \<noteq> s" "strm_handler (w_strm w' t) = None" for t
    using inv live [OF that(1,2)] that(2,3)
    by (simp add: server_inv_def unhandled_failed_def strm fin)
  moreover have "\<not> strm_publishing (w_strm w' s)" "strm_conn (w_strm w' s) = c"
    by (simp_all add: strm newStream_def)
  ultimately show ?thesis using s fin c by (simp add: creating_def counts)
qed

text \<open>The codec encodes the reply.\<close>

definition encodes_create_reply :: "env \<Rightarrow> bool" where
  "encodes_create_reply e \<longleftrightarrow> (\<forall>txn i. \<exists>msg. encode_command e (CResult \<lparr>resStreamID = 0,
     resTransactionID = txn, resProperties = VNil, resInfo = VUint32 i\<rparr>) = Ok msg)"

lemma conn_invokeCreateStream_inv:
  assumes enc: "encodes_create_reply e" and inv: "server_inv w"
    and c: "c < w_nconn w" "\<not> cn_finished (w_conn w c)"
    and run: "conn_invokeCreateStream e c txn w = Some (Ok (r, w'))"
  shows "server_inv w'"
proof -
  obtain x csw where new: "CreateChunkStream (cn_csw (w_conn w c)) 2 = (x, csw)"
    by (cases "CreateChunkStream (cn_csw (w_conn w c)) 2")
  show ?thesis
  proof (cases x)
    case (Ok csid)
    note new = new [unfolded Ok]
    let ?reply = "\<lambda>i. CResult \<lparr>resStreamID = 0, resTransactionID = txn, resProperties = VNil, resInfo = VUint32 i\<rparr>"
    obtain s w1 where alloc: "allocateStream c csid (upd_conn c (\<lambda>cn. cn\<lparr>cn_csw := csw\<rparr>) w) = Some (s, w1)"
      and rest: "and_then (conn_SendCommand e c (?reply (strm_id (w_strm w1 s))))
           (always (SendStreamBegin e c (strm_id (w_strm w1 s))) (update (sc_OnCreateStream s))) w1 = Some (Ok (r, w'))"
      using run new by (auto simp: conn_invokeCreateStream_def split: option.splits)
    have made: "creating s w1" "strm_conn (w_strm w1 s) = c" "\<not> cn_finished (w_conn w1 c)"
      using allocated_creating [OF inv c(1) new alloc] c(2) by blast+
    obtain msg where msg: "encode_command e (?reply (strm_id (w_strm w1 s))) = Ok msg"
      using enc unfolding encodes_create_reply_def by blast
    have tab: "3 \<in> csids w1 c" "\<not> csw_done (cn_csw (w_conn w1 c))"
      using made unfolding creating_def tables_ok_def by blast+
    from rest show ?thesis
    proof (cases rule: and_then_cases)
      case 1
      then obtain er where er: "r = Some er" by blast
      have calm: "calm w1 w'" by (rule quiet_calm [OF withinD [OF quiet_conn_SendCommand 1(1)]])
      have "failed w' c" by (rule conn_SendCommand_error [OF 1(1) [unfolded er] msg tab])
      with creating_failed [OF creating_calm [OF calm made(1)]] made(2) calm_fields(4) [OF calm] show ?thesis
        by simp
    next
      case (2 w2)
      from 2(2) obtain r3 w3 where begin_sent: "SendStreamBegin e c (strm_id (w_strm w1 s)) w2 = Some (Ok (r3, w3))"
        and w': "w' = sc_OnCreateStream s w3"
        by (auto simp: update_def ret_def elim: always_cases)
      have "calm w1 w3"
        using withinD [OF quiet_conn_SendCommand 2(1)] withinD [OF quiet_announcements(1) begin_sent]
        by (blast intro: quiet_calm quiet_trans)
      from creating_handled [OF creating_calm [OF this made(1)]] show ?thesis
        unfolding w' sc_OnCreateStream_def by (rule server_inv_calm [OF calm_tell])
    qed
  next
    case (Err er)
    with run new inv show ?thesis by (simp add: conn_invokeCreateStream_def ret_def)
  next
    case Panic
    with run new show ?thesis by (simp add: conn_invokeCreateStream_def)
  qed
qed

section \<open>Destroying streams\<close>

text \<open>Taking streams out of tables, and ending connections.\<close>

definition shrinks :: "world \<Rightarrow> world \<Rightarrow> bool" where
  "shrinks w w' \<longleftrightarrow> w_streams w' = w_streams w \<and> w_owner w' = w_owner w \<and> w_nmedia w' = w_nmedia w \<and>
     w_strm w' = w_strm w \<and> w_nstrm w' = w_nstrm w \<and> w_nconn w' = w_nconn w \<and> w_media w' = w_media w \<and>
     (\<forall>c. cn_streams (w_conn w' c) \<subseteq>\<^sub>m cn_streams (w_conn w c) \<and> csids w' c = csids w c \<and>
        (cn_finished (w_conn w c) \<longrightarrow> cn_finished (w_conn w' c)) \<and> (failed w c \<longrightarrow> failed w' c) \<and>
        (csw_done (cn_csw (w_conn w' c)) \<longrightarrow> cn_finished (w_conn w' c)))"

lemma shrinks_table:
  "shrinks w w' \<Longrightarrow> cn_streams (w_conn w' c) i = Some s \<Longrightarrow> cn_streams (w_conn w c) i = Some s"
  unfolding shrinks_def by (metis domI map_le_def)

lemma shrinks_live: "shrinks w w' \<Longrightarrow> live w' s \<Longrightarrow> live w s"
  using shrinks_table [of w w'] unfolding live_def shrinks_def by blast

lemma server_inv_shrinks:
  assumes sh: "shrinks w w'" and inv: "server_inv w"
  shows "server_inv w'"
proof -
  note table = shrinks_table [OF sh] and live = shrinks_live [OF sh]
  note same = sh [unfolded shrinks_def]
  have part: "c < w_nconn w \<and> s < w_nstrm w \<and> strm_id (w_strm w s) = i \<and> strm_conn (w_strm w s) = c \<and>
      strm_csid (w_strm w s) \<in> csids w c - {2, 3, 4}" if "cn_streams (w_conn w c) i = Some s" for c i s
    using inv that unfolding server_inv_def tables_ok_def by blast
  have inj: "i = j" if "cn_streams (w_conn w c) i = Some s" "cn_streams (w_conn w c) j = Some t"
      "strm_csid (w_strm w s) = strm_csid (w_strm w t)" for c i j s t
    using inv that unfolding server_inv_def tables_ok_def by blast
  have ids: "{2, 3, 4} \<subseteq> csids w c \<and> (\<forall>i\<in>csids w c. 2 \<le> i \<and> i < 100)" for c
    using inv unfolding server_inv_def tables_ok_def by blast
  have "tables_ok w'"
    unfolding tables_ok_def
  proof (intro conjI allI impI)
    fix c i s assume "cn_streams (w_conn w' c) i = Some s"
    from part [OF table [OF this]] same
    show "c < w_nconn w'" "s < w_nstrm w'" "strm_id (w_strm w' s) = i" "strm_conn (w_strm w' s) = c"
      "strm_csid (w_strm w' s) \<in> csids w' c - {2, 3, 4}"
      by simp_all
  next
    fix c i j s t
    assume "cn_streams (w_conn w' c) i = Some s" "cn_streams (w_conn w' c) j = Some t"
      "strm_csid (w_strm w' s) = strm_csid (w_strm w' t)"
    with inj [OF table table] same show "i = j" by simp
  next
    fix c
    show "{2, 3, 4} \<subseteq> csids w' c" "\<forall>i\<in>csids w' c. 2 \<le> i \<and> i < 100" using ids [of c] same by simp_all
    show "csw_done (cn_csw (w_conn w' c)) \<Longrightarrow> cn_finished (w_conn w' c)" using same by blast
  qed
  moreover have "publishers_own w'"
    using inv same live by (simp add: server_inv_def publishers_own_def owns_name_def)
  moreover have "registered_open w'"
    using inv same by (simp add: server_inv_def registered_open_def)
  moreover have "unhandled_failed w'"
    using inv same live by (simp add: server_inv_def unhandled_failed_def)
  ultimately show ?thesis by (simp add: server_inv_def)
qed

text \<open>A stream may be destroyed when no table has it and the name it publishes under, if still
  registered, is its own.\<close>

definition removable :: "world \<Rightarrow> nat \<Rightarrow> bool" where
  "removable w s \<longleftrightarrow> \<not> live w s \<and> (strm_publishing (w_strm w s) \<longrightarrow>
     (\<forall>m. w_streams w (strm_name (w_strm w s)) = Some m \<longrightarrow> w_owner w m = s))"

lemma removable_calm: "calm w w' \<Longrightarrow> removable w s \<Longrightarrow> removable w' s"
  by (simp add: removable_def calm_fields [of w w'])

lemma calm_close_player_of: "calm w (close_player_of e s w)"
  unfolding close_player_of_def
  by (auto split: option.split intro: calm_refl calm_trans [OF calm_mp_Close calm_players(1)])

lemma close_media_of_inv:
  assumes inv: "server_inv w" and s: "removable w s" "strm_publishing (w_strm w s)"
  shows "server_inv (close_media_of e s w) \<and> (\<forall>t. removable w t \<longrightarrow> removable (close_media_of e s w) t) \<and>
     w_strm (close_media_of e s w) = w_strm w \<and> w_conn (close_media_of e s w) = w_conn w"
proof (cases "w_streams w (strm_name (w_strm w s))")
  case None
  with inv show ?thesis by (simp add: close_media_of_def getStream_def)
next
  case (Some m)
  let ?w = "delStream (strm_name (w_strm w s)) (media_Close e m w)"
  have w': "close_media_of e s w = ?w" using Some by (simp add: close_media_of_def getStream_def)
  have own: "w_owner w m = s" "\<not> live w s" using s Some unfolding removable_def by blast+
  have "strm_name (w_strm w t) \<noteq> strm_name (w_strm w s)" if t: "live w t" "strm_publishing (w_strm w t)" for t
  proof
    assume eq: "strm_name (w_strm w t) = strm_name (w_strm w s)"
    have "owns_name w t" using inv t unfolding server_inv_def publishers_own_def by blast
    then have "w_owner w m = t" using Some unfolding owns_name_def eq by auto
    with own t show False by simp
  qed
  then have "server_inv ?w" by (intro server_inv_unregister [OF inv Some]) blast
  moreover have "removable ?w t" if "removable w t" for t
    using that by (auto simp: removable_def live_def delStream_def media_Close_def media_event_def)
  ultimately show ?thesis
    unfolding w' by (simp add: delStream_def media_Close_def media_event_def)
qed

lemma sc_OnDestroyStream_inv:
  assumes inv: "server_inv w" and s: "removable w s"
  shows "server_inv (sc_OnDestroyStream e s w) \<and> (\<forall>t. removable w t \<longrightarrow> removable (sc_OnDestroyStream e s w) t)"
proof -
  let ?w1 = "if strm_publishing (w_strm w s) then close_media_of e s w else w"
  have one: "server_inv ?w1" "\<And>t. removable w t \<Longrightarrow> removable ?w1 t"
    using close_media_of_inv [OF inv s, of e] inv by auto
  have "calm ?w1 (sc_OnDestroyStream e s w)"
    unfolding sc_OnDestroyStream_def Let_def
    by (auto intro!: calm_tell calm_trans [OF calm_close_player_of calm_tell])
  with one show ?thesis by (blast intro: server_inv_calm removable_calm)
qed

lemma fold_OnDestroyStream_inv:
  "server_inv w \<Longrightarrow> (\<forall>s\<in>set order. removable w s) \<Longrightarrow> server_inv (fold (sc_OnDestroyStream e) order w)"
  by (induction order arbitrary: w) (use sc_OnDestroyStream_inv in auto)

text \<open>A live stream is in one table only, under its own id.\<close>

lemma live_place:
  assumes "server_inv w" "cn_streams (w_conn w c) i = Some s" "cn_streams (w_conn w d) j = Some s"
  shows "d = c \<and> j = i"
  using assms unfolding server_inv_def tables_ok_def by metis

lemma removed_removable:
  assumes inv: "server_inv w" and s: "live w s" and sh: "shrinks w w'" and gone: "\<not> live w' s"
  shows "removable w' s"
  using assms unfolding removable_def shrinks_def
  by (auto simp: server_inv_def publishers_own_def owns_name_def)

lemma conn_invokeDeleteStream_inv:
  assumes inv: "server_inv w" and c: "\<not> cn_finished (w_conn w c)"
    and run: "conn_invokeDeleteStream e c cmd w = Some (Ok (r, w'))"
  shows "server_inv w'"
proof (cases "cn_streams (w_conn w c) (delStreamID cmd)")
  case None
  with run inv show ?thesis by (simp add: conn_invokeDeleteStream_def deleteStream_def ret_def)
next
  case (Some s)
  let ?w = "upd_conn c (\<lambda>cn. cn\<lparr>cn_streams := (cn_streams cn)(delStreamID cmd := None)\<rparr>) w"
  have w': "w' = sc_OnDestroyStream e s ?w"
    using run Some by (simp add: conn_invokeDeleteStream_def deleteStream_def ret_def)
  have done_fin: "csw_done (cn_csw (w_conn w d)) \<longrightarrow> cn_finished (w_conn w d)" for d
    using inv unfolding server_inv_def tables_ok_def by blast
  have sh: "shrinks w ?w"
    using done_fin by (auto simp: shrinks_def upd_conn_def csids_def failed_def map_le_def)
  have "live w s" using Some c by (auto simp: live_def)
  moreover have "\<not> live ?w s"
    using live_place [OF inv Some] by (auto simp: live_def upd_conn_def split: if_splits)
  ultimately have "removable ?w s" using removed_removable [OF inv _ sh] by blast
  then show ?thesis
    unfolding w' using sc_OnDestroyStream_inv [OF server_inv_shrinks [OF sh inv]] by blast
qed

section \<open>The end of a connection\<close>

text \<open>Destroying a stream does not look at the connections.\<close>

lemma sc_OnDestroyStream_upd_conn:
  "sc_OnDestroyStream e s (upd_conn c f w) = upd_conn c f (sc_OnDestroyStream e s w)"
  by (simp add: sc_OnDestroyStream_def close_media_of_def close_player_of_def getStream_def getPlayer_def
      delStream_def delPlayer_def media_Close_def media_event_def mp_Close_def media_Unsubscribe_def
      refused_def tick_def tell_def upd_conn_def Let_def split: option.split)

lemma fold_OnDestroyStream_upd_conn:
  "fold (sc_OnDestroyStream e) order (upd_conn c f w) = upd_conn c f (fold (sc_OnDestroyStream e) order w)"
  by (induction order arbitrary: w) (simp_all add: sc_OnDestroyStream_upd_conn)

definition finish_net :: "nat \<Rightarrow> conn \<Rightarrow> conn" where
  "finish_net room cn = (close_net room (cn\<lparr>cn_csw := Close (cn_csw cn)\<rparr>))\<lparr>cn_finished := True\<rparr>"

lemma waitClose_eq:
  "waitClose e c er order w = sc_OnClose c er
     (fold (sc_OnDestroyStream e) order (upd_conn c (finish_net (e_room e (w_clock w))) (tick w)))"
proof -
  have "upd_conn c f (upd_conn c g w) = upd_conn c (f \<circ> g) w" for f g w
    by (simp add: upd_conn_def)
  moreover have "upd_conn c f (sc_OnClose c er w) = sc_OnClose c er (upd_conn c f w)" for f w
    by (simp add: upd_conn_def sc_OnClose_def tell_def Let_def)
  moreover have "(\<lambda>cn. cn\<lparr>cn_finished := True\<rparr>) \<circ>
      (\<lambda>cn. close_net room (cn\<lparr>cn_csw := Close (cn_csw cn)\<rparr>)) = finish_net room" for room
    by (simp add: fun_eq_iff finish_net_def)
  ultimately show ?thesis
    unfolding waitClose_def Let_def by (simp flip: fold_OnDestroyStream_upd_conn)
qed

lemma finish_net_shrinks:
  assumes "server_inv w"
  shows "shrinks w (upd_conn c (finish_net room) w)"
proof -
  have "csw_done (cn_csw (w_conn w d)) \<longrightarrow> cn_finished (w_conn w d)" for d
    using assms unfolding server_inv_def tables_ok_def by blast
  then show ?thesis
    by (auto simp: shrinks_def upd_conn_def csids_def failed_def finish_net_def close_net_def Close_def)
qed

lemma waitClose_inv:
  assumes inv: "server_inv w" and c: "\<not> cn_finished (w_conn w c)"
    and order: "set order = ran (cn_streams (w_conn w c))"
  shows "server_inv (waitClose e c er order w)"
proof -
  let ?t = "tick w"
  let ?w = "upd_conn c (finish_net (e_room e (w_clock w))) ?t"
  have inv': "server_inv ?t" by (rule server_inv_calm [OF calm_tick inv])
  note sh = finish_net_shrinks [OF inv', of c "e_room e (w_clock w)"]
  have "removable ?w s" if "s \<in> set order" for s
  proof -
    have "s \<in> ran (cn_streams (w_conn w c))" using that order by (simp only:)
    then obtain i where i: "cn_streams (w_conn ?t c) i = Some s" by (auto simp: ran_def tick_def)
    then have "live ?t s" using c by (auto simp: live_def tick_def)
    moreover have "\<not> live ?w s"
      using live_place [OF inv' i] by (auto simp: live_def upd_conn_def finish_net_def close_net_def split: if_splits)
    ultimately show ?thesis using removed_removable [OF inv' _ sh] by blast
  qed
  then have "server_inv (fold (sc_OnDestroyStream e) order ?w)"
    by (intro fold_OnDestroyStream_inv server_inv_shrinks [OF sh inv']) blast
  moreover have "calm x (sc_OnClose c er x)" for x
    by (simp add: sc_OnClose_def tell_def calm_def failed_def Let_def)
  ultimately show ?thesis unfolding waitClose_eq by (blast intro: server_inv_calm)
qed

section \<open>Dispatch\<close>

lemma calm_ss_OnReceive: "ss_OnReceive e h msg w = Some (Ok (r, w')) \<Longrightarrow> calm w w'"
  by (auto simp: ss_OnReceive_def always_def media_Publish_def ret_def split: option.splits if_splits
      intro: calm_refl calm_tick calm_trans [OF calm_tick calm_media_event])

lemma calm_conn_OnReceive:
  assumes "conn_OnReceive e c msg w = Some (Ok (r, w'))"
  shows "calm w w'"
  using assms withinD [OF quiet_conn_Fatal]
  by (fastforce simp: conn_OnReceive_def stream_OnReceive_def ret_def calm_refl
      split: if_splits option.splits intro: calm_ss_OnReceive quiet_calm)

text \<open>A command on a stream. The stream stays what it is while the user's handler runs.\<close>

definition handled :: "nat \<Rightarrow> command \<Rightarrow> world \<Rightarrow> bool" where
  "handled s cmd w \<longleftrightarrow> server_inv w \<and> s < w_nstrm w \<and> strm_handler (w_strm w s) \<noteq> None \<and>
     ((\<exists>x. cmd = CPlay x) \<longrightarrow> \<not> strm_publishing (w_strm w s))"

text \<open>Handlers keep the stream's record, but for what they record in it.\<close>

definition strm_grows :: "world \<Rightarrow> world \<Rightarrow> bool" where
  "strm_grows w w' \<longleftrightarrow> w_nstrm w \<le> w_nstrm w' \<and>
     (\<forall>s. strm_handler (w_strm w s) \<noteq> None \<longrightarrow> strm_handler (w_strm w' s) \<noteq> None)"

lemma strm_grows_refl: "strm_grows w w"
  by (simp add: strm_grows_def)

lemma strm_grows_trans: "strm_grows w w' \<Longrightarrow> strm_grows w' w'' \<Longrightarrow> strm_grows w w''"
  by (simp add: strm_grows_def)

lemma strm_grows_preorder: "reflp strm_grows" "transp strm_grows"
  by (auto intro!: reflpI transpI strm_grows_refl intro: strm_grows_trans)

lemma strm_grows_calm: "calm w w' \<Longrightarrow> strm_grows w w'"
  by (simp add: strm_grows_def calm_fields [of w w'])

lemma strm_grows_quiet: "quiet w w' \<Longrightarrow> strm_grows w w'"
  by (blast intro: strm_grows_calm quiet_calm)

lemma strm_grows_OnEvent:
  "strm_grows w (ss_OnPublish s w)" "strm_grows w (ss_OnPlay s w)"
  "strm_grows w (upd_strm s (\<lambda>st. st\<lparr>strm_name := n, strm_publishing := True\<rparr>) w)"
  "strm_grows w (upd_strm s (\<lambda>st. st\<lparr>strm_name := n, strm_playing := True\<rparr>) w)"
  by (auto simp: strm_grows_def ss_OnPublish_def ss_OnPlay_def Let_def upd_strm_def)

lemma strm_grows_media:
  "strm_grows w (media_Close e m w)" "strm_grows w (delStream n w)" "strm_grows w (snd (new_media s w))"
  "strm_grows w (snd (putStream n m w))"
  by (simp_all add: strm_grows_def media_Close_def media_event_def delStream_def putStream_def split: option.split)

lemma stream_invokePublish_grows: "within strm_grows (stream_invokePublish e s cmd)"
proof -
  have rest: "within strm_grows (\<lambda>w. let w = upd_strm s (\<lambda>st. st\<lparr>strm_name := n, strm_publishing := True\<rparr>) w in
       ret None (if strm_handler (w_strm w s) \<noteq> None then ss_OnPublish s w else w))" for n
    using strm_grows_OnEvent(3) strm_grows_trans [OF strm_grows_OnEvent(3) strm_grows_OnEvent(1)]
    by (auto simp: within_def Let_def ret_def split: if_splits)
  have send: "within strm_grows (conn_SendCommand e c x)" for c x
    using withinD [OF quiet_conn_SendCommand] by (auto simp: within_def intro: strm_grows_quiet)
  show ?thesis
    unfolding stream_invokePublish_def within_def
    using withinD [OF within_and_then [OF strm_grows_preorder(2) send rest]]
    by (auto simp: ret_def strm_grows_refl split: if_splits)
qed

lemma stream_invokePlay_grows:
  "within (\<lambda>w w'. strm_grows w w' \<and> (\<forall>t. strm_publishing (w_strm w' t) = strm_publishing (w_strm w t)))
     (stream_invokePlay e s cmd)" (is "within ?R _")
proof -
  have trans: "transp ?R" by (auto intro!: transpI intro: strm_grows_trans)
  have calm: "calm w w' \<Longrightarrow> ?R w w'" for w w' by (simp add: strm_grows_calm calm_fields)
  have onplay: "strm_publishing (w_strm (ss_OnPlay s w) t) = strm_publishing (w_strm w t)" for w t
    by (simp add: ss_OnPlay_def Let_def upd_strm_def)
  have rest: "within ?R (\<lambda>w. let w = upd_strm s (\<lambda>st. st\<lparr>strm_name := n, strm_playing := True\<rparr>) w in
       ret None (if strm_handler (w_strm w s) \<noteq> None then ss_OnPlay s w else w))" for n
    using strm_grows_OnEvent(4) strm_grows_trans [OF strm_grows_OnEvent(4) strm_grows_OnEvent(2)]
    by (auto simp: within_def Let_def ret_def onplay split: if_splits)
      (auto simp: upd_strm_def split: if_splits)
  have send: "within ?R (stream_SendCommand e s x)" for x
    using withinD [OF quiet_stream_SendCommand] calm unfolding within_def by (blast intro: quiet_calm)
  show ?thesis
    unfolding stream_invokePlay_def within_def
    using withinD [OF within_and_then [OF trans send within_and_then [OF trans send rest]]]
    by (auto simp: ret_def strm_grows_refl split: if_splits)
qed

lemma ss_invokePublish_grows: "within strm_grows (ss_invokePublish e s cmd (stream_Invoke e s))"
  unfolding within_def
proof (intro allI impI)
  fix w r w' assume run: "ss_invokePublish e s cmd (stream_Invoke e s) w = Some (Ok (r, w'))"
  obtain m w0 where new: "new_media s w = (m, w0)" by (cases "new_media s w")
  obtain ok w1 where put: "putStream (pubName cmd) m w0 = (ok, w1)" by (cases "putStream (pubName cmd) m w0")
  have start: "strm_grows w w1"
    using strm_grows_trans [OF strm_grows_media(3) [of w s] strm_grows_media(4) [of "snd (new_media s w)" "pubName cmd" m]]
      new put by simp
  show "strm_grows w w'"
  proof (cases ok)
    case False
    with run new put have "w' = media_Close e m w1" by (simp add: ss_invokePublish_def ret_def)
    with start strm_grows_media(1) show ?thesis by (blast intro: strm_grows_trans)
  next
    case True
    then have "on_err (stream_invokePublish e s cmd) (\<lambda>er w.
           ret (Some er) (media_Close e m (delStream (pubName cmd) w))) w1 = Some (Ok (r, w'))"
      using run new put by (simp add: ss_invokePublish_def stream_Invoke_def)
    then show ?thesis
    proof (cases rule: on_err_cases)
      case 1
      with start withinD [OF stream_invokePublish_grows] show ?thesis by (blast intro: strm_grows_trans)
    next
      case (2 er w2)
      have "strm_grows w2 w'"
        using 2(2) strm_grows_trans [OF strm_grows_media(2) strm_grows_media(1)] by (auto simp: ret_def)
      with start withinD [OF stream_invokePublish_grows 2(1)] show ?thesis by (blast intro: strm_grows_trans)
    qed
  qed
qed

lemma ss_invokePlay_grows:
  assumes run: "ss_invokePlay e s cmd (stream_Invoke e s) w = Some (Ok (r, w'))"
  shows "strm_grows w w' \<and> strm_publishing (w_strm w' s) = strm_publishing (w_strm w s)"
  using run
proof (cases rule: ss_invokePlay_cases)
  case 1
  from 1(2) show ?thesis by (simp add: strm_grows_calm calm_fields [OF 1(2)])
next
  case (2 w1 w2)
  have "strm_grows w1 w2 \<and> strm_publishing (w_strm w2 s) = strm_publishing (w_strm w1 s)"
    using withinD [OF stream_invokePlay_grows 2(2)] by blast
  then show ?thesis
    using strm_grows_calm [OF 2(1)] strm_grows_calm [OF 2(3)] calm_fields(4) [OF 2(1)] calm_fields(4) [OF 2(3)]
    by (auto intro: strm_grows_trans)
qed

text \<open>The server's handling of a command on a stream, and with it the user's.\<close>

lemma handled_DoInvoke:
  assumes "handled s cmd w" and run: "ss_DoInvoke e s (stream_Invoke e s) cmd w = Some (Ok (r, w'))"
  shows "handled s cmd w'"
proof (cases cmd)
  case (CPublish x)
  then have "ss_invokePublish e s x (stream_Invoke e s) w = Some (Ok (r, w'))" using run by (simp add: ss_DoInvoke_def)
  with ss_invokePublish_inv withinD [OF ss_invokePublish_grows] assms(1) CPublish show ?thesis
    by (fastforce simp: handled_def strm_grows_def)
next
  case (CPlay x)
  then have play: "ss_invokePlay e s x (stream_Invoke e s) w = Some (Ok (r, w'))" using run by (simp add: ss_DoInvoke_def)
  have "server_inv w'" using assms(1) CPlay by (intro ss_invokePlay_inv [OF _ _ _ play]) (auto simp: handled_def)
  with ss_invokePlay_grows [OF play] assms(1) CPlay show ?thesis
    by (auto simp: handled_def strm_grows_def)
qed (use assms in \<open>auto simp: ss_DoInvoke_def stream_Invoke_def ret_def\<close>)

lemma stream_OnCommand_inv:
  assumes user: "server_handler user" and inv: "server_inv w" and s: "live w s" "strm_conn (w_strm w s) = c"
    and polite: "\<And>x. cmd = CPlay x \<Longrightarrow> \<not> strm_publishing (w_strm w s)"
    and run: "stream_OnCommand e user s cmd w = Some (Ok (r, w'))"
  shows "server_inv w'"
proof (cases "strm_handler (w_strm w s)")
  case (Some h)
  have "s < w_nstrm w" using inv s(1) unfolding live_def server_inv_def tables_ok_def by blast
  then have "handled s cmd w" using inv Some polite by (auto simp: handled_def)
  moreover have "user (strm_conn (w_strm w s)) (Some s) cmd (ss_DoInvoke e s (stream_Invoke e s)) w = Some (Ok (r, w'))"
    using run Some by (simp add: stream_OnCommand_def ss_Invoke_def)
  moreover have "keeps (handled s cmd) (user (strm_conn (w_strm w s)) (Some s) cmd (ss_DoInvoke e s (stream_Invoke e s)))"
    by (rule server_handler.keeps_user [OF user]) (rule keepsI, rule handled_DoInvoke)
  ultimately have "handled s cmd w'" by (blast dest: keepsD)
  then show ?thesis by (simp add: handled_def)
next
  case None
  then have bad: "wroom (cn_out (w_conn w c)) = Some 0"
    using inv s by (auto simp: server_inv_def unhandled_failed_def failed_def)
  have "quiet w w'"
  proof (cases cmd)
    case (CPublish x)
    then have "stream_invokePublish e s x w = Some (Ok (r, w'))"
      using run None by (simp add: stream_OnCommand_def stream_Invoke_def)
    then show ?thesis
      using s(2) conn_SendCommand_failed [OF _ bad] withinD [OF quiet_conn_SendCommand]
      by (fastforce simp: stream_invokePublish_def ret_def quiet_refl split: if_splits elim!: and_then_cases)
  next
    case (CPlay x)
    then have "stream_invokePlay e s x w = Some (Ok (r, w'))"
      using run None by (simp add: stream_OnCommand_def stream_Invoke_def)
    then show ?thesis
      using s(2) stream_SendCommand_failed [of e s _ w] bad withinD [OF quiet_stream_SendCommand]
      by (fastforce simp: stream_invokePlay_def ret_def quiet_refl split: if_splits elim!: and_then_cases)
  qed (use run None in \<open>auto simp: stream_OnCommand_def stream_Invoke_def ret_def quiet_refl\<close>)
  then show ?thesis using inv by (rule server_inv_quiet)
qed

text \<open>A command on the connection.\<close>

definition serving :: "nat \<Rightarrow> world \<Rightarrow> bool" where
  "serving c w \<longleftrightarrow> server_inv w \<and> c < w_nconn w \<and> \<not> cn_finished (w_conn w c)"

lemma serving_calm: "calm w w' \<Longrightarrow> serving c w \<Longrightarrow> serving c w'"
  using server_inv_calm [of w w'] by (simp add: serving_def calm_fields [of w w'])

lemma serving_quiet_act: "quiet_act a \<Longrightarrow> keeps (serving c) a"
  unfolding within_def by (blast intro: serving_calm quiet_calm)

lemma conn_stays_after:
  "w_nconn (sc_OnDestroyStream e s w) = w_nconn w" "w_conn (sc_OnDestroyStream e s w) = w_conn w"
  by (simp_all add: sc_OnDestroyStream_def close_media_of_def close_player_of_def
      delStream_def delPlayer_def media_Close_def media_event_def mp_Close_def media_Unsubscribe_def
      tick_def Let_def split: option.split)

lemma serving_CreateStream:
  assumes enc: "encodes_create_reply e"
  shows "keeps (serving c) (conn_invokeCreateStream e c txn)"
proof (rule keepsI)
  fix w r w' assume w: "serving c w" and run: "conn_invokeCreateStream e c txn w = Some (Ok (r, w'))"
  have "server_inv w'" using w by (intro conn_invokeCreateStream_inv [OF enc _ _ _ run]) (auto simp: serving_def)
  moreover have "c < w_nconn w' \<and> \<not> cn_finished (w_conn w' c)"
  proof -
    obtain x csw where new: "CreateChunkStream (cn_csw (w_conn w c)) 2 = (x, csw)"
      by (cases "CreateChunkStream (cn_csw (w_conn w c)) 2")
    show ?thesis
    proof (cases x)
      case (Ok csid)
      obtain s w1 where alloc: "allocateStream c csid (upd_conn c (\<lambda>cn. cn\<lparr>cn_csw := csw\<rparr>) w) = Some (s, w1)"
        using run new Ok by (auto simp: conn_invokeCreateStream_def split: option.splits)
      have w1: "c < w_nconn w1 \<and> \<not> cn_finished (w_conn w1 c)"
        using allocated_creating [OF _ _ new [unfolded Ok] alloc] w by (auto simp: serving_def)
      have frame: "within (\<lambda>w w'. w_nconn w' = w_nconn w \<and> cn_finished (w_conn w' c) = cn_finished (w_conn w c))
         (and_then (conn_SendCommand e c (CResult \<lparr>resStreamID = 0, resTransactionID = txn,
               resProperties = VNil, resInfo = VUint32 (strm_id (w_strm w1 s))\<rparr>))
             (always (SendStreamBegin e c (strm_id (w_strm w1 s))) (update (sc_OnCreateStream s))))" (is "within ?R _")
      proof (intro within_and_then within_always)
        show "transp ?R" by (auto intro: transpI)
        then show "transp ?R" .
        have quiet: "within ?R a" if "quiet_act a" for a
          unfolding within_def using calm_fields(6,8) [OF quiet_calm [OF withinD [OF that]]] by blast
        show "within ?R (conn_SendCommand e c x)" for x by (rule quiet [OF quiet_conn_SendCommand])
        show "within ?R (SendStreamBegin e c i)" for i by (rule quiet [OF quiet_announcements(1)])
        show "within ?R (update (sc_OnCreateStream s))"
          by (simp add: within_def update_def ret_def sc_OnCreateStream_def)
      qed
      have "and_then (conn_SendCommand e c (CResult \<lparr>resStreamID = 0, resTransactionID = txn,
               resProperties = VNil, resInfo = VUint32 (strm_id (w_strm w1 s))\<rparr>))
             (always (SendStreamBegin e c (strm_id (w_strm w1 s))) (update (sc_OnCreateStream s))) w1 = Some (Ok (r, w'))"
        using run new Ok alloc by (simp add: conn_invokeCreateStream_def)
      from withinD [OF frame this] w1 show ?thesis by simp
    next
      case (Err er)
      with run new w show ?thesis by (simp add: conn_invokeCreateStream_def ret_def serving_def)
    next
      case Panic
      with run new show ?thesis by (simp add: conn_invokeCreateStream_def)
    qed
  qed
  ultimately show "serving c w'" by (simp add: serving_def)
qed

lemma serving_DeleteStream: "keeps (serving c) (conn_invokeDeleteStream e c x)"
proof (rule keepsI)
  fix w r w' assume w: "serving c w" and run: "conn_invokeDeleteStream e c x w = Some (Ok (r, w'))"
  have "server_inv w'" using w by (intro conn_invokeDeleteStream_inv [OF _ _ run]) (auto simp: serving_def)
  moreover have "w_nconn w' = w_nconn w \<and> cn_finished (w_conn w' c) = cn_finished (w_conn w c)"
    using run by (auto simp: conn_invokeDeleteStream_def deleteStream_def ret_def conn_stays_after upd_conn_def
        split: option.splits)
  ultimately show "serving c w'" using w by (simp add: serving_def)
qed

lemma serving_Connect: "keeps (serving c) (conn_invokeConnect e c x)"
proof (rule keepsI)
  fix w r w' assume w: "serving c w" and run: "conn_invokeConnect e c x w = Some (Ok (r, w'))"
  let ?tail = "always (SetWindowSize e c 2500000)
           (always (SetPeerBandwidth e c 2500000 2)
             (always (SendStreamBegin e c 0)
               (always (SetChunkSize e c 4096)
                 (and_then (conn_SendCommand e c (CResult \<lparr>resStreamID = 0,
                      resTransactionID = conTransactionID x,
                      resProperties = VConnectProperties DefaultConnectProperties,
                      resInfo = VConnectInformation DefaultConnectInformation\<rparr>))
                   (update (sc_OnConnect c))))))"
  have connected: "keeps (serving c) (update (sc_OnConnect c))"
    by (rule keepsI) (auto simp: update_def ret_def sc_OnConnect_def intro: serving_calm [OF calm_tell])
  have tail: "keeps (serving c) ?tail"
    by (intro keeps_intros connected serving_quiet_act [OF quiet_announcements(1)]
        serving_quiet_act [OF quiet_announcements(2)] serving_quiet_act [OF quiet_announcements(3)]
        serving_quiet_act [OF quiet_announcements(4)] serving_quiet_act [OF quiet_conn_SendCommand])
  have app: "serving c (upd_conn c (\<lambda>cn. cn\<lparr>cn_app := a\<rparr>) w)" for a
    using w by (rule serving_calm [OF quiet_calm, rotated]) (rule quiet_upd, simp_all add: conn_core_def)
  show "serving c w'"
  proof (cases "\<exists>a. property (conProperties x) ''app'' = Some (VString a)")
    case True
    then obtain a where "property (conProperties x) ''app'' = Some (VString a)" by blast
    then have "?tail (upd_conn c (\<lambda>cn. cn\<lparr>cn_app := a\<rparr>) w) = Some (Ok (r, w'))"
      using run by (simp add: conn_invokeConnect_def)
    with tail app show ?thesis by (blast dest: keepsD)
  next
    case False
    then have "w' = w"
      using run by (auto simp: conn_invokeConnect_def ret_def split: option.splits amf_value.splits)
    with w show ?thesis by simp
  qed
qed

lemma serving_Invoke:
  assumes "encodes_create_reply e"
  shows "keeps (serving c) (conn_Invoke e c cmd)"
proof -
  have "keeps (serving c) (conn_invokeFCPublish e c n)" for n
    unfolding conn_invokeFCPublish_def
    by (intro keeps_intros serving_quiet_act [OF quiet_conn_SendCommand])
  moreover have "keeps (serving c) (ret None)" by (intro keeps_intros)
  ultimately show ?thesis
    using serving_Connect serving_CreateStream [OF assms] serving_DeleteStream
    by (cases cmd) (simp_all add: conn_Invoke_def)
qed

lemma serving_sc_Invoke:
  assumes user: "server_handler user" and enc: "encodes_create_reply e"
  shows "keeps (serving c) (sc_Invoke e user c cmd (conn_Invoke e c))"
  unfolding sc_Invoke_def
proof (rule server_handler.keeps_user [OF user])
  have "keeps (serving c) (sc_invokeConnect e x (conn_Invoke e c))" for x
    unfolding sc_invokeConnect_def using serving_Invoke [OF enc] by (intro keeps_intros)
  then show "keeps (serving c) (sc_DoInvoke e (conn_Invoke e c) cmd)"
    using serving_Invoke [OF enc] by (cases cmd) (simp_all add: sc_DoInvoke_def)
qed

lemma stream_Command_id:
  assumes "RawCommand_of cmd = Ok raw" and "cmd = CPlay x"
  shows "rcStreamID raw = playStreamID x"
  using assms by (auto simp: RawCommand_of_def PlayCommand_RawCommand_def)

lemma conn_OnCommand_inv:
  assumes user: "server_handler user" and enc: "encodes_create_reply e"
    and w: "serving c w"
    and polite: "\<And>x s. cmd = CPlay x \<Longrightarrow> cn_streams (w_conn w c) (playStreamID x) = Some s \<Longrightarrow>
      \<not> strm_publishing (w_strm w s)"
    and run: "conn_OnCommand e user c cmd w = Some (Ok (r, w'))"
  shows "server_inv w'"
proof -
  obtain raw where raw: "RawCommand_of cmd = Ok raw"
    using run by (auto simp: conn_OnCommand_def split: res.splits)
  let ?a = "if rcStreamID raw = 0 then sc_Invoke e user c cmd (conn_Invoke e c)
      else (\<lambda>w. case cn_streams (w_conn w c) (rcStreamID raw) of
              Some s \<Rightarrow> stream_OnCommand e user s cmd w
            | None \<Rightarrow> ret (Some (Plain (Errorf ''invalid stream id specified''))) w)"
  have a: "server_inv w1" if call: "?a w = Some (Ok (x, w1))" for x w1
  proof (cases "rcStreamID raw = 0")
    case True
    with call have "sc_Invoke e user c cmd (conn_Invoke e c) w = Some (Ok (x, w1))" by simp
    then have "serving c w1" by (rule keepsD [OF serving_sc_Invoke [OF user enc] w])
    then show ?thesis by (simp add: serving_def)
  next
    case False
    show ?thesis
    proof (cases "cn_streams (w_conn w c) (rcStreamID raw)")
      case None
      then have "w1 = w" using call False by (simp add: ret_def)
      with w show ?thesis by (simp only: serving_def)
    next
      case (Some s)
      have inv: "server_inv w" using w by (simp add: serving_def)
      have "live w s" using Some w by (auto simp: live_def serving_def)
      moreover have "strm_conn (w_strm w s) = c"
        using inv Some unfolding server_inv_def tables_ok_def by blast
      moreover have "\<not> strm_publishing (w_strm w s)" if "cmd = CPlay y" for y
        using polite [OF that] stream_Command_id [OF raw that] Some by simp
      moreover have "stream_OnCommand e user s cmd w = Some (Ok (x, w1))" using call False Some by simp
      ultimately show ?thesis by (intro stream_OnCommand_inv [OF user inv])
    qed
  qed
  have "on_err ?a (conn_Fatal e c) w = Some (Ok (r, w'))"
    using run raw by (simp add: conn_OnCommand_def)
  then show ?thesis
  proof (cases rule: on_err_cases)
    case 1
    show ?thesis by (rule a [OF 1(1)])
  next
    case (2 er w1)
    show ?thesis by (rule server_inv_quiet [OF withinD [OF quiet_conn_Fatal 2(2)] a [OF 2(1)]])
  qed
qed

lemma conn_OnMessage_inv:
  assumes user: "server_handler user" and enc: "encodes_create_reply e"
    and w: "serving c w" and polite: "polite e w c msg"
    and run: "conn_OnMessage e user c msg w = Some (Ok (r, w'))"
  shows "server_inv w'"
proof (cases "\<exists>cmd. (mType msg = COMMAND_AMF3 \<or> mType msg = COMMAND_AMF0) \<and> ParseCommand (e_amf e) msg = Some (Ok cmd)")
  case True
  then obtain cmd where cmd: "ParseCommand (e_amf e) msg = Some (Ok cmd)"
    "conn_OnCommand e user c cmd w = Some (Ok (r, w'))"
    using run by (auto simp: conn_OnMessage_def)
  show ?thesis
    using polite cmd(1) by (intro conn_OnCommand_inv [OF user enc w _ cmd(2)]) (auto simp: polite_def)
next
  case False
  then have "conn_OnReceive e c msg w = Some (Ok (r, w'))"
    using run by (auto simp: conn_OnMessage_def split: if_splits option.splits res.splits)
  from calm_conn_OnReceive [OF this] w show ?thesis by (simp add: server_inv_calm serving_def)
qed

section \<open>Steps\<close>

lemma server_inv_new_conn:
  assumes inv: "server_inv w"
  shows "server_inv (NewConn out w)"
proof -
  let ?w = "NewConn out w"
  have none: "cn_streams (w_conn w (w_nconn w)) i = None" for i
  proof (cases "cn_streams (w_conn w (w_nconn w)) i")
    case (Some s)
    with inv have "w_nconn w < w_nconn w" unfolding server_inv_def tables_ok_def by blast
    then show ?thesis by simp
  qed
  have streams: "cn_streams (w_conn ?w c) i = cn_streams (w_conn w c) i" for c i
    using none by (simp add: NewConn_def new_conn_def)
  have other: "w_conn ?w c = w_conn w c" if "cn_streams (w_conn w c) i = Some s" for c i s
    using none that by (auto simp: NewConn_def)
  have same: "w_strm ?w = w_strm w" "w_nstrm ?w = w_nstrm w" "w_streams ?w = w_streams w"
    "w_owner ?w = w_owner w" "w_media ?w = w_media w" "w_nmedia ?w = w_nmedia w" "w_nconn ?w = w_nconn w + 1"
    by (simp_all add: NewConn_def)
  have live: "live ?w s = live w s" for s
    unfolding live_def streams using other by metis
  have csids: "csids ?w c = (if c = w_nconn w then {2, 3, 4} else csids w c)" for c
    by (auto simp: csids_def NewConn_def new_conn_def NewChunkStreamWriter_def)
  have place: "csids ?w c = csids w c" "failed ?w c = failed w c" if "cn_streams (w_conn w c) i = Some s" for c i s
    using other [OF that] by (simp_all add: csids_def failed_def)
  have part: "c < w_nconn w \<and> s < w_nstrm w \<and> strm_id (w_strm w s) = i \<and> strm_conn (w_strm w s) = c \<and>
      strm_csid (w_strm w s) \<in> csids w c - {2, 3, 4}" if "cn_streams (w_conn w c) i = Some s" for c i s
    using inv that unfolding server_inv_def tables_ok_def by blast
  have "tables_ok ?w"
    unfolding tables_ok_def streams same
  proof (intro conjI allI impI)
    fix c i s assume t: "cn_streams (w_conn w c) i = Some s"
    from part [OF t] place(1) [OF t]
    show "c < w_nconn w + 1" "s < w_nstrm w" "strm_id (w_strm w s) = i" "strm_conn (w_strm w s) = c"
      "strm_csid (w_strm w s) \<in> csids ?w c - {2, 3, 4}" by simp_all
  next
    fix c i j s t assume "cn_streams (w_conn w c) i = Some s" "cn_streams (w_conn w c) j = Some t"
      "strm_csid (w_strm w s) = strm_csid (w_strm w t)"
    then show "i = j" using inv unfolding server_inv_def tables_ok_def by blast
  next
    fix c
    have "{2, 3, 4} \<subseteq> csids w c \<and> (\<forall>i\<in>csids w c. 2 \<le> i \<and> i < 100) \<and>
        (csw_done (cn_csw (w_conn w c)) \<longrightarrow> cn_finished (w_conn w c))"
      using inv unfolding server_inv_def tables_ok_def by blast
    then show "{2, 3, 4} \<subseteq> csids ?w c" "\<forall>i\<in>csids ?w c. 2 \<le> i \<and> i < 100"
      "csw_done (cn_csw (w_conn ?w c)) \<Longrightarrow> cn_finished (w_conn ?w c)"
      unfolding csids by (simp_all add: NewConn_def new_conn_def NewChunkStreamWriter_def split: if_splits)
  qed
  moreover have "publishers_own ?w" "registered_open ?w"
    using inv by (simp_all add: server_inv_def publishers_own_def owns_name_def registered_open_def live same)
  moreover have "unhandled_failed ?w"
    unfolding unhandled_failed_def live same
  proof (intro allI impI)
    fix s assume s: "live w s" "strm_handler (w_strm w s) = None"
    then obtain c i where "cn_streams (w_conn w c) i = Some s" by (auto simp: live_def)
    with place(2) part s inv show "\<not> strm_publishing (w_strm w s) \<and> failed ?w (strm_conn (w_strm w s))"
      by (auto simp: server_inv_def unhandled_failed_def)
  qed
  ultimately show ?thesis by (simp add: server_inv_def)
qed

lemma server_inv_counters:
  "server_inv (w\<lparr>w_connections := a\<rparr>) = server_inv w"
  "server_inv (w\<lparr>w_handshakeFails := b\<rparr>) = server_inv w"
  by (simp_all add: server_inv_def tables_ok_def publishers_own_def owns_name_def registered_open_def
      unhandled_failed_def live_def csids_def failed_def)

lemma server_inv_media_returns:
  assumes inv: "server_inv w"
  shows "server_inv (media_event e m Return w)"
proof -
  let ?w = "media_event e m Return w"
  note same = inv_same_streams [of ?w w, simplified media_event_def, simplified]
  have "registered_open ?w"
    using inv by (auto simp: server_inv_def registered_open_def media_event_def shutdown_def)
  moreover have "publishers_own ?w"
    using inv by (auto simp: server_inv_def publishers_own_def owns_name_def live_def media_event_def)
  ultimately show ?thesis
    using inv same by (simp add: server_inv_def media_event_def)
qed

lemma server_step_inv:
  assumes user: "server_handler user" and enc: "encodes_create_reply e"
    and step: "server_step e user (polite e) w w'" and inv: "server_inv w"
  shows "server_inv w'"
  using step
proof cases
  case (accept out shake)
  then show ?thesis
    using inv server_inv_new_conn [of "w\<lparr>w_connections := Counter_Add 1 (w_connections w)\<rparr>" out]
    by (auto simp: handle_def Let_def server_inv_counters split: option.split)
next
  case (receive_message c msg r)
  then show ?thesis using inv by (intro conn_OnMessage_inv [OF user enc]) (auto simp: serving_def)
next
  case (window_full c n r)
  then show ?thesis using withinD [OF quiet_announcements(5)] inv by (blast intro: server_inv_quiet)
next
  case (finish_conn c order er)
  then show ?thesis using waitClose_inv [OF inv] by blast
next
  case (media_returns m)
  then show ?thesis using server_inv_media_returns [OF inv] by simp
next
  case (buffer_receives p)
  then show ?thesis using server_inv_calm [OF calm_player_receive inv] by simp
next
  case (player_turns p r)
  then show ?thesis using calm_player_turn inv by (blast intro: server_inv_calm)
next
  case (user_subscribes m)
  then show ?thesis
    using server_inv_calm [OF calm_media_Subscribe inv] by (metis surjective_pairing)
next
  case (user_unsubscribes m ch)
  then show ?thesis using server_inv_calm [OF calm_media_Unsubscribe inv] by simp
qed

lemma server_reachable_inv:
  assumes "server_handler user" "encodes_create_reply e" "server_reachable e user (polite e) w"
  shows "server_inv w"
  using assms(3)
proof induction
  case start
  show ?case by (rule server_inv_init)
next
  case (more w w')
  then show ?case using server_step_inv [OF assms(1,2)] by blast
qed

end
