(* ===== verification/Server_Success.thy ===== *)
theory Server_Success
  imports Server_Preserves
begin

text \<open>
  Handlers on a healthy connection: its writer has not failed and some peer is in step with it. Every
  send succeeds, and \<^verbatim>\<open>connect\<close>, \<^verbatim>\<open>createStream\<close>, \<^verbatim>\<open>publish\<close> and \<^verbatim>\<open>play\<close> run to their end.
\<close>

section \<open>Healthy connections\<close>

definition healthy :: "world \<Rightarrow> nat \<Rightarrow> bool" where
  "healthy w c \<longleftrightarrow> (\<exists>csr. in_step (cn_csw (w_conn w c)) csr) \<and> wroom (cn_out (w_conn w c)) = None \<and>
     \<not> csw_done (cn_csw (w_conn w c)) \<and> {2, 3} \<subseteq> csids w c"

definition flushes :: "env \<Rightarrow> bool" where
  "flushes e \<longleftrightarrow> (\<forall>n. e_flush e n = None)"

text \<open>\<open>sent_more c msgs w w'\<close>: exactly \<open>msgs\<close> were sent on \<open>c\<close>, and nothing else happened.\<close>

definition sent_more :: "nat \<Rightarrow> message list \<Rightarrow> world \<Rightarrow> world \<Rightarrow> bool" where
  "sent_more c msgs w w' \<longleftrightarrow> quiet w w' \<and> healthy w' c \<and>
     cn_sent (w_conn w' c) = cn_sent (w_conn w c) @ msgs \<and>
     cn_tried (w_conn w' c) = cn_tried (w_conn w c) @ msgs \<and> list_all sendable msgs \<and> cn_app (w_conn w' c) = cn_app (w_conn w c) \<and>
     cn_closed (w_conn w' c) = cn_closed (w_conn w c) \<and> (\<forall>d. d \<noteq> c \<longrightarrow> w_conn w' d = w_conn w d)"

lemma sent_more_trans:
  "sent_more c ms w w' \<Longrightarrow> sent_more c ms' w' w'' \<Longrightarrow> sent_more c (ms @ ms') w w''"
  unfolding sent_more_def by (auto intro: quiet_trans)

lemma conn_Send_healthy:
  assumes ok: "healthy w c" and send: "sendable msg" and known: "mChunkStreamID msg \<in> csids w c"
  shows "\<exists>w'. conn_Send c msg w = Some (Ok (None, w')) \<and> sent_more c [msg] w w'"
proof -
  let ?cn = "w_conn w c"
  obtain csr where step: "in_step (cn_csw ?cn) csr" using ok by (auto simp: healthy_def)
  obtain out where out: "csw_chunkStreams (cn_csw ?cn) (mChunkStreamID msg) = Some out"
    using known by (auto simp: csids_def)
  have room: "wroom (cn_out ?cn) = None" using ok by (simp add: healthy_def)
  from serve_received [OF step send out room] obtain csw bytes where
    s: "serve (cn_csw ?cn) msg (cn_out ?cn) = Some (Ok (None, csw, (cn_out ?cn)\<lparr>wout := wout (cn_out ?cn) @ bytes\<rparr>))"
    and adv: "advances csr \<lparr>rbytes = bytes @ [], rend = EOF\<rparr>
        (\<lambda>csr'. in_step csw csr' \<and> (\<exists>m. delivered csr' = delivered csr @ [m] \<and> same_content msg m))
        \<lparr>rbytes = [], rend = EOF\<rparr>"
    by blast
  obtain csr' where csr': "in_step csw csr'" using adv unfolding advances_def by blast
  note dom = serve_dom_core [OF s]
  let ?w = "upd_conn c (\<lambda>cn. cn\<lparr>cn_csw := csw, cn_out := (cn_out ?cn)\<lparr>wout := wout (cn_out ?cn) @ bytes\<rparr>,
     cn_tried := cn_tried cn @ [msg], cn_sent := cn_sent cn @ [msg]\<rparr>) w"
  have run: "conn_Send c msg w = Some (Ok (None, ?w))"
    using ok s by (simp add: conn_Send_def Let_def healthy_def ret_def)
  have "healthy ?w c"
    using ok csr' dom room by (auto simp: healthy_def upd_conn_def csids_def)
  then have "sent_more c [msg] w ?w"
    using withinD [OF quiet_conn_Send run] send by (simp add: sent_more_def upd_conn_def)
  with run show ?thesis by blast
qed

lemma conn_Flush_healthy:
  assumes "healthy w c" and "flushes e"
  shows "\<exists>w'. conn_Flush e c w = Some (Ok (None, w')) \<and> sent_more c [] w w'"
proof -
  have run: "conn_Flush e c w = Some (Ok (None, tick w))"
    using assms by (simp add: conn_Flush_def healthy_def flushes_def ret_def)
  have "healthy (tick w) c" using assms by (simp add: healthy_def tick_def csids_def)
  then have "sent_more c [] w (tick w)"
    using quiet_tick by (simp add: sent_more_def) (simp add: tick_def)
  with run show ?thesis by blast
qed

lemma and_then_healthy:
  assumes "\<exists>w1. a w = Some (Ok (None, w1)) \<and> sent_more c ms w w1"
    and "\<And>w1. sent_more c ms w w1 \<Longrightarrow> \<exists>w2. b w1 = Some (Ok (None, w2)) \<and> sent_more c ms' w1 w2"
  shows "\<exists>w2. and_then a b w = Some (Ok (None, w2)) \<and> sent_more c (ms @ ms') w w2"
  using assms unfolding and_then_def by (fastforce intro: sent_more_trans)

lemma sent_more_tried:
  "sent_more c ms w w' \<Longrightarrow> list_all sendable (cn_tried (w_conn w c)) \<Longrightarrow> list_all sendable (cn_tried (w_conn w' c))"
  by (simp add: sent_more_def)

lemma sent_more_healthy: "sent_more c ms w w' \<Longrightarrow> healthy w' c"
  by (simp add: sent_more_def)

lemma sent_more_csids: "sent_more c ms w w' \<Longrightarrow> csids w' d = csids w d"
  by (rule calm_fields(9) [OF quiet_calm]) (simp add: sent_more_def)

lemma send_flush_healthy:
  assumes "healthy w c" "flushes e" "sendable msg" "mChunkStreamID msg \<in> csids w c"
  shows "\<exists>w'. and_then (conn_Send c msg) (conn_Flush e c) w = Some (Ok (None, w')) \<and> sent_more c [msg] w w'"
  using and_then_healthy [of "conn_Send c msg" w c "[msg]" "conn_Flush e c" "[]",
      OF conn_Send_healthy [OF assms(1,3,4)]] conn_Flush_healthy [OF sent_more_healthy assms(2)]
  by simp

definition sends :: "env \<Rightarrow> command \<Rightarrow> message \<Rightarrow> bool" where
  "sends e cmd msg \<longleftrightarrow> encode_command e cmd = Ok msg \<and> sendable msg"

lemma conn_SendCommand_healthy:
  assumes "healthy w c" "flushes e" "sends e cmd msg"
  shows "\<exists>w'. conn_SendCommand e c cmd w = Some (Ok (None, w')) \<and> sent_more c [msg] w w'"
proof -
  have "mChunkStreamID msg \<in> csids w c"
    using assms(1,3) encode_command_fields by (auto simp: sends_def healthy_def)
  from send_flush_healthy [OF assms(1,2) _ this] assms(3) show ?thesis
    by (simp add: conn_SendCommand_def sends_def)
qed

text \<open>On a stream a command goes out on the stream's chunk stream, under its id.\<close>

definition on_stream :: "stream \<Rightarrow> message \<Rightarrow> message" where
  "on_stream st msg = msg\<lparr>mChunkStreamID := strm_csid st, mStreamID := strm_id st\<rparr>"

lemma sendable_on_stream:
  assumes "sends e cmd msg" and "5 \<le> strm_csid st" "strm_csid st < 100"
  shows "sendable (on_stream st msg)"
proof -
  have "mType msg = COMMAND_AMF0"
    using assms(1) by (auto simp: sends_def encode_command_def RawCommand_Message_def res_bind_eq_Ok split: if_splits)
  moreover have "2 \<le> strm_csid st \<and> strm_csid st \<le> 319"
    using assms(2,3) by (auto simp: word_le_nat_alt word_less_nat_alt)
  ultimately show ?thesis
    using assms(1) by (auto simp: sends_def sendable_def on_stream_def split: option.splits)
qed

lemma stream_SendCommand_healthy:
  assumes "healthy w c" "flushes e" "sends e cmd msg" "strm_conn (w_strm w s) = c"
    and "strm_csid (w_strm w s) \<in> csids w c" "5 \<le> strm_csid (w_strm w s)" "strm_csid (w_strm w s) < 100"
  shows "\<exists>w'. stream_SendCommand e s cmd w = Some (Ok (None, w')) \<and> sent_more c [on_stream (w_strm w s) msg] w w'"
proof -
  have "mChunkStreamID (on_stream (w_strm w s) msg) \<in> csids w c" using assms(5) by (simp add: on_stream_def)
  from send_flush_healthy [OF assms(1,2) sendable_on_stream [OF assms(3,6,7)] this] assms(3,4) show ?thesis
    by (simp add: stream_SendCommand_def sends_def stream_Send_def Let_def on_stream_def and_then_def)
qed

lemma sendable_control:
  "sendable (stream_begin_message i)" "4 \<le> unat k \<Longrightarrow> sendable (control_message SET_CHUNK_SIZE (be32_put k))"
  "sendable (control_message WINDOW_ACKNOWLEDGEMENT_SIZE (be32_put k))"
  "sendable (control_message SET_PEER_BANDWIDTH (be32_put k @ [l]))"
  by (simp_all add: stream_begin_message_def control_message_def sendable_def be32_put_def be16_put_def codec_get)
    (simp_all add: be32_join_split)

lemma announcements_healthy:
  assumes ok: "healthy w c" and flush: "flushes e"
  shows "\<exists>w'. SendStreamBegin e c i w = Some (Ok (None, w')) \<and> sent_more c [stream_begin_message i] w w'"
    and "4 \<le> unat k \<Longrightarrow> \<exists>w'. SetChunkSize e c k w = Some (Ok (None, w')) \<and>
      sent_more c [control_message SET_CHUNK_SIZE (be32_put k)] w w'"
    and "\<exists>w'. SetWindowSize e c k w = Some (Ok (None, w')) \<and>
      sent_more c [control_message WINDOW_ACKNOWLEDGEMENT_SIZE (be32_put k)] w w'"
    and "\<exists>w'. SetPeerBandwidth e c k l w = Some (Ok (None, w')) \<and>
      sent_more c [control_message SET_PEER_BANDWIDTH (be32_put k @ [l])] w w'"
proof -
  have two: "mChunkStreamID (control_message t b) \<in> csids w c" "mChunkStreamID (stream_begin_message i) \<in> csids w c"
    for t b using ok by (simp_all add: healthy_def stream_begin_message_def)
  show "\<exists>w'. SendStreamBegin e c i w = Some (Ok (None, w')) \<and> sent_more c [stream_begin_message i] w w'"
    using conn_Send_healthy [OF ok sendable_control(1) two(2)]
    by (fastforce simp: SendStreamBegin_def on_err_def)
  show "4 \<le> unat k \<Longrightarrow> \<exists>w'. SetChunkSize e c k w = Some (Ok (None, w')) \<and>
      sent_more c [control_message SET_CHUNK_SIZE (be32_put k)] w w'"
    using send_flush_healthy [OF ok flush sendable_control(2) [of k] two(1)]
    by (fastforce simp: SetChunkSize_def on_err_def)
  show "\<exists>w'. SetWindowSize e c k w = Some (Ok (None, w')) \<and>
      sent_more c [control_message WINDOW_ACKNOWLEDGEMENT_SIZE (be32_put k)] w w'"
    using send_flush_healthy [OF ok flush sendable_control(3) [of k] two(1)]
    by (fastforce simp: SetWindowSize_def on_err_def)
  show "\<exists>w'. SetPeerBandwidth e c k l w = Some (Ok (None, w')) \<and>
      sent_more c [control_message SET_PEER_BANDWIDTH (be32_put k @ [l])] w w'"
    using send_flush_healthy [OF ok flush sendable_control(4) [of k l] two(1)]
    by (fastforce simp: SetPeerBandwidth_def on_err_def)
qed


lemma always_healthy:
  assumes "\<exists>w1. a w = Some (Ok (None, w1)) \<and> sent_more c ms w w1"
    and "\<And>w1. sent_more c ms w w1 \<Longrightarrow> \<exists>w2. b w1 = Some (Ok (r, w2)) \<and> sent_more c ms' w1 w2"
  shows "\<exists>w2. always a b w = Some (Ok (r, w2)) \<and> sent_more c (ms @ ms') w w2"
  using assms unfolding always_def by (fastforce intro: sent_more_trans)

section \<open>The handling of connect\<close>

definition connect_reply :: "u32 \<Rightarrow> command" where
  "connect_reply txn = CResult \<lparr>resStreamID = 0, resTransactionID = txn,
     resProperties = VConnectProperties DefaultConnectProperties,
     resInfo = VConnectInformation DefaultConnectInformation\<rparr>"

text \<open>What precedes the reply.\<close>

definition connect_announcements :: "message list" where
  "connect_announcements = [control_message WINDOW_ACKNOWLEDGEMENT_SIZE (be32_put 2500000),
     control_message SET_PEER_BANDWIDTH (be32_put 2500000 @ [2]), stream_begin_message 0,
     control_message SET_CHUNK_SIZE (be32_put 4096)]"

lemma healthy_set_app:
  "healthy (upd_conn c (\<lambda>cn. cn\<lparr>cn_app := app\<rparr>) w) c \<longleftrightarrow> healthy w c"
  by (simp add: healthy_def upd_conn_def csids_def)

lemma connect_sequence_healthy:
  assumes ok: "healthy w c" and flush: "flushes e" and send: "sends e (connect_reply txn) msg"
  shows "\<exists>w'. always (SetWindowSize e c 2500000) (always (SetPeerBandwidth e c 2500000 2)
             (always (SendStreamBegin e c 0) (always (SetChunkSize e c 4096)
                (conn_SendCommand e c (connect_reply txn))))) w = Some (Ok (None, w')) \<and>
     sent_more c (connect_announcements @ [msg]) w w'"
proof -
  note step = announcements_healthy [OF sent_more_healthy flush]
  have last: "\<exists>w2. conn_SendCommand e c (connect_reply txn) w1 = Some (Ok (None, w2)) \<and> sent_more c [msg] w1 w2"
    if "sent_more c ms w0 w1" for w0 w1 ms
    by (rule conn_SendCommand_healthy [OF sent_more_healthy [OF that] flush send])
  have four: "4 \<le> unat (4096 :: u32)" by simp
  show ?thesis
    unfolding connect_announcements_def append_Cons append_Nil
    by (rule always_healthy [where ms = "[x]" and ms' = "y # zs" for x y zs, simplified],
        rule announcements_healthy(3) [OF ok flush],
        rule always_healthy [where ms = "[x]" and ms' = "y # zs" for x y zs, simplified],
        erule step(4),
        rule always_healthy [where ms = "[x]" and ms' = "y # zs" for x y zs, simplified],
        erule step(1),
        rule always_healthy [where ms = "[x]" and ms' = "y # zs" for x y zs, simplified],
        erule step(2) [OF _ four], erule last)
qed

lemma always_and_then: "always a (and_then b u) = and_then (always a b) u"
  by (rule ext) (simp add: always_def and_then_def split: option.split res.split)

lemma conn_invokeConnect_healthy:
  assumes app: "property (conProperties cmd) ''app'' = Some (VString app)"
    and ok: "healthy w c" and flush: "flushes e" and send: "sends e (connect_reply (conTransactionID cmd)) msg"
  shows "\<exists>w1. conn_invokeConnect e c cmd w = Some (Ok (None, sc_OnConnect c w1)) \<and>
     sent_more c (connect_announcements @ [msg]) (upd_conn c (\<lambda>cn. cn\<lparr>cn_app := app\<rparr>) w) w1"
proof -
  from connect_sequence_healthy [of "upd_conn c (\<lambda>cn. cn\<lparr>cn_app := app\<rparr>) w" c e "conTransactionID cmd" msg]
    ok flush send obtain w1 where
    "always (SetWindowSize e c 2500000) (always (SetPeerBandwidth e c 2500000 2)
       (always (SendStreamBegin e c 0) (always (SetChunkSize e c 4096)
         (conn_SendCommand e c (connect_reply (conTransactionID cmd)))))) (upd_conn c (\<lambda>cn. cn\<lparr>cn_app := app\<rparr>) w)
        = Some (Ok (None, w1))"
    and "sent_more c (connect_announcements @ [msg]) (upd_conn c (\<lambda>cn. cn\<lparr>cn_app := app\<rparr>) w) w1"
    by (auto simp: healthy_set_app)
  moreover from this(1) have "conn_invokeConnect e c cmd w = Some (Ok (None, sc_OnConnect c w1))"
    unfolding conn_invokeConnect_def app connect_reply_def always_and_then
    by (simp add: and_then_def update_def ret_def)
  ultimately show ?thesis by blast
qed

section \<open>The handling of createStream\<close>

definition create_reply :: "u32 \<Rightarrow> u32 \<Rightarrow> command" where
  "create_reply txn i = CResult \<lparr>resStreamID = 0, resTransactionID = txn, resProperties = VNil,
     resInfo = VUint32 i\<rparr>"

text \<open>The world in which the reply is sent: stream \<open>s\<close> is filed under \<open>i\<close> and chunk stream \<open>csid\<close> is open.\<close>

definition with_stream :: "nat \<Rightarrow> u32 \<Rightarrow> u32 \<Rightarrow> world \<Rightarrow> world" where
  "with_stream c csid i w = (let s = w_nstrm w in
     upd_conn c (\<lambda>cn. cn\<lparr>
         cn_csw := (cn_csw cn)\<lparr>csw_chunkStreams := (csw_chunkStreams (cn_csw cn))(csid \<mapsto> new_outChunkStream LowPriority)\<rparr>,
         cn_streams := (cn_streams cn)(i \<mapsto> s)\<rparr>)
       (w\<lparr>w_strm := (w_strm w)(s := newStream i c csid), w_nstrm := s + 1\<rparr>))"

lemma with_stream_healthy:
  assumes "healthy w c" and "csid \<notin> csids w c"
  shows "healthy (with_stream c csid i w) c"
proof -
  obtain csr where "in_step (cn_csw (w_conn w c)) csr" using assms(1) by (auto simp: healthy_def)
  from in_step_create [OF this, of csid] assms(2)
  have "in_step ((cn_csw (w_conn w c))\<lparr>csw_chunkStreams :=
      (csw_chunkStreams (cn_csw (w_conn w c)))(csid \<mapsto> new_outChunkStream LowPriority)\<rparr>) csr"
    by (simp add: csids_def domIff)
  with assms(1) show ?thesis
    by (auto simp: healthy_def with_stream_def Let_def upd_conn_def csids_def)
qed

lemma conn_invokeCreateStream_healthy:
  assumes ok: "healthy w c" and flush: "flushes e" and send: "sends e (create_reply txn i) msg"
    and csid: "find_free (csw_chunkStreams (cn_csw (w_conn w c))) CS_ID_BASE = Some csid"
    and i: "first_unused (cn_streams (w_conn w c)) 1 = Some i"
  shows "\<exists>w1. conn_invokeCreateStream e c txn w = Some (Ok (None, sc_OnCreateStream (w_nstrm w) w1)) \<and>
     sent_more c [msg, stream_begin_message i] (with_stream c csid i w) w1"
proof -
  let ?w = "with_stream c csid i w"
  have "csid \<notin> csids w c" using find_free_Some [OF csid] by (simp add: csids_def domIff)
  note ok' = with_stream_healthy [OF ok this, of i]
  have id: "strm_id (w_strm ?w (w_nstrm w)) = i"
    by (simp add: with_stream_def Let_def upd_conn_def newStream_def)
  obtain w1 where w1: "conn_SendCommand e c (create_reply txn i) ?w = Some (Ok (None, w1))" "sent_more c [msg] ?w w1"
    using conn_SendCommand_healthy [OF ok' flush send] by blast
  obtain w2 where w2: "SendStreamBegin e c i w1 = Some (Ok (None, w2))" "sent_more c [stream_begin_message i] w1 w2"
    using announcements_healthy(1) [OF sent_more_healthy [OF w1(2)] flush] by blast
  have "conn_invokeCreateStream e c txn w = Some (Ok (None, sc_OnCreateStream (w_nstrm w) w2))"
    using csid i w1(1) w2(1) id
    by (simp add: conn_invokeCreateStream_def CreateChunkStream_def priority_of_def allocateStream_def Let_def
        upd_conn_def with_stream_def create_reply_def and_then_def always_def update_def ret_def)
  moreover have "sent_more c [msg, stream_begin_message i] ?w w2"
    using sent_more_trans [OF w1(2) w2(2)] by simp
  ultimately show ?thesis by blast
qed

section \<open>The handling of publish\<close>

definition publish_reply :: "PublishCommand \<Rightarrow> command" where
  "publish_reply cmd = COnStatus \<lparr>osStreamID = pubStreamID cmd, osTransactionID = pubTransactionID cmd,
     osProperties = VNil, osInfo = VStatus (StatusPublishStart (''Publishing '' @ pubName cmd @ ''.''))\<rparr>"

text \<open>The new media stream is registered before the reply is sent, and the stream marked after it.\<close>

definition registering :: "nat \<Rightarrow> PublishCommand \<Rightarrow> world \<Rightarrow> world" where
  "registering s cmd w = (snd (new_media s w))\<lparr>w_streams := (w_streams w)(pubName cmd \<mapsto> w_nmedia w)\<rparr>"

definition now_publishing :: "nat \<Rightarrow> PublishCommand \<Rightarrow> world \<Rightarrow> world" where
  "now_publishing s cmd w = ss_OnPublish s (upd_strm s (\<lambda>st. st\<lparr>strm_name := pubName cmd, strm_publishing := True\<rparr>) w)"

lemma registering_fields [simp]:
  "w_streams (registering s cmd w) = (w_streams w)(pubName cmd \<mapsto> w_nmedia w)"
  "w_owner (registering s cmd w) = (w_owner w)(w_nmedia w := s)" "w_strm (registering s cmd w) = w_strm w"
  "w_media (registering s cmd w) = (w_media w)(w_nmedia w := NewMediaStream)"
  "w_nmedia (registering s cmd w) = Suc (w_nmedia w)" "w_conn (registering s cmd w) = w_conn w"
  "w_nconn (registering s cmd w) = w_nconn w" "w_nstrm (registering s cmd w) = w_nstrm w"
  "w_log (registering s cmd w) = w_log w" "w_players (registering s cmd w) = w_players w"
  "csids (registering s cmd w) = csids w" "healthy (registering s cmd w) c = healthy w c"
  by (simp_all add: registering_def new_media_def Let_def csids_def fun_eq_iff healthy_def)

lemma publish_free:
  assumes "w_streams w (pubName cmd) = None"
  shows "ss_DoInvoke e s (stream_Invoke e s) (CPublish cmd) w =
      on_err (stream_invokePublish e s cmd)
        (\<lambda>er w'. ret (Some er) (media_Close e (w_nmedia w) (delStream (pubName cmd) w'))) (registering s cmd w)"
  using assms by (simp add: ss_DoInvoke_def ss_invokePublish_def new_media_def putStream_def Let_def
      registering_def stream_Invoke_def)

lemma publish_taken:
  assumes "w_streams w (pubName cmd) = Some m"
  shows "ss_DoInvoke e s callback (CPublish cmd) w = Some (Ok (Some (ErrPublishBadName (e_text e)
     (Plain (Errorf (''invalid stream name: '' @ pubName cmd)))), media_Close e (w_nmedia w) (snd (new_media s w))))"
  using assms
  by (simp add: ss_DoInvoke_def ss_invokePublish_def new_media_def putStream_def Let_def ret_def)

lemma stream_invokePublish_sent:
  assumes name: "pubName cmd \<noteq> []" and handler: "strm_handler (w_strm w s) \<noteq> None"
    and sent: "conn_SendCommand e (strm_conn (w_strm w s)) (publish_reply cmd) w = Some (Ok (x, w1))"
  shows "stream_invokePublish e s cmd w = Some (Ok (x, if x = None then now_publishing s cmd w1 else w1))"
proof -
  have "w_strm w1 = w_strm w"
    using calm_fields(4) [OF quiet_calm [OF withinD [OF quiet_conn_SendCommand sent]]] .
  with name handler sent show ?thesis
    by (auto simp: stream_invokePublish_def publish_reply_def now_publishing_def and_then_def Let_def ret_def
        split: option.split)
qed

lemma now_publishing_fields:
  assumes quiet: "quiet (registering s cmd w) w1" and handler: "strm_handler (w_strm w s) = Some h"
  defines "w' \<equiv> now_publishing s cmd w1"
  shows "w_streams w' = (w_streams w)(pubName cmd \<mapsto> w_nmedia w)" "w_owner w' (w_nmedia w) = s"
    "w_strm w' = (w_strm w)(s := (w_strm w s)\<lparr>strm_name := pubName cmd, strm_publishing := True,
       strm_handler := Some (h\<lparr>sh_mediaStream := Some (w_nmedia w)\<rparr>)\<rparr>)"
    "ms_running (w_media w' (w_nmedia w))" "\<not> ms_done (w_media w' (w_nmedia w))"
    "w_log w' = w_log w @ [UPublish s (Some (w_nmedia w))]" "w_conn w' = w_conn w1"
    "w_nconn w' = w_nconn w" "w_nstrm w' = w_nstrm w" "w_players w' = w_players w"
    "w_media w' (w_nmedia w) = NewMediaStream"
proof -
  note same = calm_fields [OF quiet_calm [OF quiet]]
  have "w_log w1 = w_log w" "w_players w1 = w_players w" "w_media w1 (w_nmedia w) = NewMediaStream"
    using quiet by (auto simp: quiet_def)
  then show "w_streams w' = (w_streams w)(pubName cmd \<mapsto> w_nmedia w)" "w_owner w' (w_nmedia w) = s"
    "w_strm w' = (w_strm w)(s := (w_strm w s)\<lparr>strm_name := pubName cmd, strm_publishing := True,
       strm_handler := Some (h\<lparr>sh_mediaStream := Some (w_nmedia w)\<rparr>)\<rparr>)"
    "ms_running (w_media w' (w_nmedia w))" "\<not> ms_done (w_media w' (w_nmedia w))"
    "w_log w' = w_log w @ [UPublish s (Some (w_nmedia w))]" "w_conn w' = w_conn w1"
    "w_nconn w' = w_nconn w" "w_nstrm w' = w_nstrm w" "w_players w' = w_players w"
    "w_media w' (w_nmedia w) = NewMediaStream"
    using same handler
    by (simp_all add: w'_def now_publishing_def ss_OnPublish_def Let_def getStream_def NewMediaStream_def)
      (simp_all add: upd_strm_def tell_def)
qed

lemma publish_healthy:
  assumes free: "w_streams w (pubName cmd) = None" and name: "pubName cmd \<noteq> []"
    and handler: "strm_handler (w_strm w s) \<noteq> None"
    and ok: "healthy w (strm_conn (w_strm w s))" and flush: "flushes e" and send: "sends e (publish_reply cmd) msg"
  shows "\<exists>w1. ss_DoInvoke e s (stream_Invoke e s) (CPublish cmd) w = Some (Ok (None, now_publishing s cmd w1)) \<and>
     sent_more (strm_conn (w_strm w s)) [msg] (registering s cmd w) w1"
proof -
  obtain w1 where w1: "conn_SendCommand e (strm_conn (w_strm w s)) (publish_reply cmd) (registering s cmd w) =
      Some (Ok (None, w1))" "sent_more (strm_conn (w_strm w s)) [msg] (registering s cmd w) w1"
    using conn_SendCommand_healthy [of "registering s cmd w", OF _ flush send] ok by auto
  have "stream_invokePublish e s cmd (registering s cmd w) = Some (Ok (None, now_publishing s cmd w1))"
    using stream_invokePublish_sent [of cmd "registering s cmd w" s e None w1] name handler w1(1) by simp
  then show ?thesis using w1(2) unfolding publish_free [OF free] by (auto simp: on_err_def)
qed

section \<open>The handling of play\<close>

text \<open>The new player subscribes and is registered before the two statuses are sent; it starts at the end.\<close>

definition joining :: "env \<Rightarrow> nat \<Rightarrow> nat \<Rightarrow> world \<Rightarrow> world" where
  "joining e m s w = snd (putPlayer s (w_nplayer w) (snd (NewMediaPlayer e m s w)))"

definition playing :: "nat \<Rightarrow> PlayCommand \<Rightarrow> world \<Rightarrow> world" where
  "playing s cmd w = ss_OnPlay s (upd_strm s (\<lambda>st. st\<lparr>strm_name := playName cmd, strm_playing := True\<rparr>) w)"

abbreviation new_player :: "nat \<Rightarrow> nat \<Rightarrow> nat \<Rightarrow> mediaPlayer" where
  "new_player m ch s \<equiv> \<lparr>mp_ms = m, mp_sub = ch, mp_s = s, mp_mb = mb_start (4 * 1024 * 1024),
     mp_taken = 0, mp_started = False, mp_done = False, mp_sent = []\<rparr>"

lemma joining_fields:
  assumes open_media: "\<not> refused e m w" and free: "w_players w s = None"
  defines "w' \<equiv> joining e m s w"
  shows "w_player w' = (w_player w)(w_nplayer w := new_player m (ms_next (w_media w m)) s)"
    "w_nplayer w' = Suc (w_nplayer w)" "w_players w' = (w_players w)(s \<mapsto> w_nplayer w)"
    "w_media w' = (w_media w)(m := ms_step (e_rate e) (w_media w m) Subscribe)"
    "w_strm w' = w_strm w" "w_conn w' = w_conn w" "w_streams w' = w_streams w" "w_log w' = w_log w"
    "healthy w' c = healthy w c" "csids w' c = csids w c"
  using assms by (simp_all add: w'_def joining_def NewMediaPlayer_def media_Subscribe_def Let_def putPlayer_def
      media_event_def tick_def healthy_def csids_def)

lemma play_run:
  assumes reg: "w_streams w (playName cmd) = Some m" and open_media: "\<not> refused e m w"
    and free: "w_players w s = None"
    and run: "stream_invokePlay e s cmd (joining e m s w) = Some (Ok (None, w2))"
  shows "ss_DoInvoke e s (stream_Invoke e s) (CPlay cmd) w = Some (Ok (None, mp_Start (w_nplayer w) w2))"
proof -
  obtain w1 where new: "NewMediaPlayer e m s w = (Ok (w_nplayer w), w1)" "w_players w1 = w_players w"
    using open_media by (auto simp: NewMediaPlayer_def media_Subscribe_def Let_def media_event_def tick_def)
  have "putPlayer s (w_nplayer w) w1 = (True, joining e m s w)"
    using new free by (simp add: joining_def putPlayer_def)
  with new(1) reg run show ?thesis
    by (simp add: ss_DoInvoke_def ss_invokePlay_def getStream_def stream_Invoke_def ret_def)
qed

abbreviation play_reply :: "(string \<Rightarrow> Status) \<Rightarrow> string \<Rightarrow> PlayCommand \<Rightarrow> command" where
  "play_reply st word cmd \<equiv> play_status (st word) (playName cmd)"

lemma stream_invokePlay_healthy:
  fixes w s defines "c \<equiv> strm_conn (w_strm w s)" and "st \<equiv> w_strm w s"
  assumes name: "playName cmd \<noteq> []" and handler: "strm_handler st \<noteq> None"
    and ok: "healthy w c" and flush: "flushes e"
    and csid: "strm_csid st \<in> csids w c" "5 \<le> strm_csid st" "strm_csid st < 100"
    and send: "sends e (play_reply StatusPlayReset ''reset'' cmd) msg1" "sends e (play_reply StatusPlayStart ''play'' cmd) msg2"
  shows "\<exists>w1. stream_invokePlay e s cmd w = Some (Ok (None, playing s cmd w1)) \<and>
     sent_more c [on_stream st msg1, on_stream st msg2] w w1"
proof -
  obtain w1 where w1: "stream_SendCommand e s (play_reply StatusPlayReset ''reset'' cmd) w = Some (Ok (None, w1))"
    "sent_more c [on_stream st msg1] w w1"
    using stream_SendCommand_healthy [OF ok flush send(1)] csid by (auto simp: c_def st_def)
  have strm: "w_strm w1 = w_strm w"
    using w1(2) calm_fields(4) [OF quiet_calm] by (auto simp: sent_more_def)
  obtain w2 where w2: "stream_SendCommand e s (play_reply StatusPlayStart ''play'' cmd) w1 = Some (Ok (None, w2))"
    "sent_more c [on_stream st msg2] w1 w2"
    using stream_SendCommand_healthy [OF sent_more_healthy [OF w1(2)] flush send(2), of s] csid strm
      sent_more_csids [OF w1(2)] by (auto simp: c_def st_def)
  have strm2: "w_strm w2 = w_strm w1"
    using w2(2) calm_fields(4) [OF quiet_calm] by (auto simp: sent_more_def)
  have "stream_invokePlay e s cmd w = Some (Ok (None, playing s cmd w2))"
    using name handler w1(1) w2(1) strm strm2
    by (auto simp: stream_invokePlay_def and_then_def playing_def Let_def ret_def st_def)
  moreover have "sent_more c [on_stream st msg1, on_stream st msg2] w w2"
    using sent_more_trans [OF w1(2) w2(2)] by simp
  ultimately show ?thesis by blast
qed

lemma play_healthy:
  fixes w s defines "c \<equiv> strm_conn (w_strm w s)" and "st \<equiv> w_strm w s"
  assumes reg: "w_streams w (playName cmd) = Some m" and open_media: "\<not> refused e m w"
    and free: "w_players w s = None"
    and name: "playName cmd \<noteq> []" and handler: "strm_handler st \<noteq> None"
    and ok: "healthy w c" and flush: "flushes e"
    and csid: "strm_csid st \<in> csids w c" "5 \<le> strm_csid st" "strm_csid st < 100"
    and send: "sends e (play_reply StatusPlayReset ''reset'' cmd) msg1" "sends e (play_reply StatusPlayStart ''play'' cmd) msg2"
  shows "\<exists>w1. ss_DoInvoke e s (stream_Invoke e s) (CPlay cmd) w =
       Some (Ok (None, mp_Start (w_nplayer w) (playing s cmd w1))) \<and>
     sent_more c [on_stream st msg1, on_stream st msg2] (joining e m s w) w1"
proof -
  note j = joining_fields [OF open_media free]
  from stream_invokePlay_healthy [of cmd "joining e m s w" s e msg1 msg2] assms obtain w1 where
    "stream_invokePlay e s cmd (joining e m s w) = Some (Ok (None, playing s cmd w1))"
    "sent_more c [on_stream st msg1, on_stream st msg2] (joining e m s w) w1"
    by (auto simp: j)
  with play_run [OF reg open_media free] show ?thesis by blast
qed

lemma playing_fields:
  fixes e m s w cmd w1
  defines "w' \<equiv> mp_Start (w_nplayer w) (playing s cmd w1)"
  assumes open_media: "\<not> refused e m w" and free: "w_players w s = None" and handler: "strm_handler (w_strm w s) = Some h"
    and quiet: "quiet (joining e m s w) w1"
  shows "w_players w' = (w_players w)(s \<mapsto> w_nplayer w)" "w_streams w' = w_streams w"
    "w_player w' = (w_player w)(w_nplayer w := (new_player m (ms_next (w_media w m)) s)\<lparr>mp_started := True\<rparr>)"
    "w_media w' = (w_media w)(m := ms_step (e_rate e) (w_media w m) Subscribe)"
    "w_strm w' = (w_strm w)(s := (w_strm w s)\<lparr>strm_name := playName cmd, strm_playing := True,
       strm_handler := Some (h\<lparr>sh_mediaPlayer := Some (w_nplayer w)\<rparr>)\<rparr>)"
    "w_log w' = w_log w @ [UPlay s (Some (w_nplayer w))]" "w_conn w' = w_conn w1"
    "w_nplayer w' = Suc (w_nplayer w)"
proof -
  note j = joining_fields [OF open_media free]
  have same: "w_streams w1 = w_streams (joining e m s w)" "w_strm w1 = w_strm (joining e m s w)"
    "w_players w1 = w_players (joining e m s w)" "w_player w1 = w_player (joining e m s w)"
    "w_media w1 = w_media (joining e m s w)" "w_log w1 = w_log (joining e m s w)"
    "w_nplayer w1 = w_nplayer (joining e m s w)"
    using quiet by (auto simp: quiet_def)
  show "w_players w' = (w_players w)(s \<mapsto> w_nplayer w)" "w_streams w' = w_streams w"
    "w_player w' = (w_player w)(w_nplayer w := (new_player m (ms_next (w_media w m)) s)\<lparr>mp_started := True\<rparr>)"
    "w_media w' = (w_media w)(m := ms_step (e_rate e) (w_media w m) Subscribe)"
    "w_strm w' = (w_strm w)(s := (w_strm w s)\<lparr>strm_name := playName cmd, strm_playing := True,
       strm_handler := Some (h\<lparr>sh_mediaPlayer := Some (w_nplayer w)\<rparr>)\<rparr>)"
    "w_log w' = w_log w @ [UPlay s (Some (w_nplayer w))]" "w_conn w' = w_conn w1"
    "w_nplayer w' = Suc (w_nplayer w)"
    using handler
    by (simp_all add: w'_def mp_Start_def playing_def ss_OnPlay_def Let_def getPlayer_def same j upd_player_def tell_def upd_strm_def)
qed

section \<open>A command that arrives\<close>

lemma command_arrives:
  assumes parse: "ParseCommand (e_amf e) msg = Some (Ok cmd)" and cmd_type: "mType msg = COMMAND_AMF0"
    and raw: "RawCommand_of cmd = Ok raw"
  shows "conn_OnMessage e user c msg w = on_err
      (if rcStreamID raw = 0 then sc_Invoke e user c cmd (conn_Invoke e c)
       else (\<lambda>w. case cn_streams (w_conn w c) (rcStreamID raw) of
           Some s \<Rightarrow> stream_OnCommand e user s cmd w
         | None \<Rightarrow> ret (Some (Plain (Errorf ''invalid stream id specified''))) w))
      (\<lambda>er. conn_Fatal e c er) w"
  using assms by (simp add: conn_OnMessage_def conn_OnCommand_def)

lemma stream_command_arrives:
  assumes parse: "ParseCommand (e_amf e) msg = Some (Ok cmd)" and cmd_type: "mType msg = COMMAND_AMF0"
    and raw: "RawCommand_of cmd = Ok raw" "rcStreamID raw \<noteq> 0"
    and strm: "cn_streams (w_conn w c) (rcStreamID raw) = Some s" "strm_handler (w_strm w s) \<noteq> None"
    and done_ok: "ss_DoInvoke e s (stream_Invoke e s) cmd w = Some (Ok (None, w'))"
  shows "conn_OnMessage e demo_Invoke c msg w = Some (Ok (None, w'))"
  using strm done_ok unfolding command_arrives [OF parse cmd_type raw(1)]
  by (auto simp: raw(2) on_err_def stream_OnCommand_def ss_Invoke_def demo_Invoke_def)

lemma conn_command_arrives:
  assumes parse: "ParseCommand (e_amf e) msg = Some (Ok cmd)" and cmd_type: "mType msg = COMMAND_AMF0"
    and raw: "RawCommand_of cmd = Ok raw" "rcStreamID raw = 0"
    and done_ok: "sc_DoInvoke e (conn_Invoke e c) cmd w = Some (Ok (None, w'))"
  shows "conn_OnMessage e demo_Invoke c msg w = Some (Ok (None, w'))"
  using done_ok unfolding command_arrives [OF parse cmd_type raw(1)]
  by (auto simp: raw(2) on_err_def sc_Invoke_def demo_Invoke_def)

end
