(* ===== verification/Sample_Server.thy ===== *)
theory Sample_Server
  imports Server_Success
begin

text \<open>
  A small codec and an environment without faults, and a run of the server in them: a client that
  connects, creates two streams, publishes on one and plays on the other.
\<close>

section \<open>The codec\<close>

text \<open>A command name is one byte; so is every value.\<close>

definition sample_names :: "string list" where
  "sample_names = [''connect'', ''createStream'', ''publish'', ''play'', ''deleteStream'']"

definition sample_value :: "u8 \<Rightarrow> amf_value" where
  "sample_value b = (if b = 5 then VNil else if b = 6 then VObject [(''app'', VString ''app'')]
     else if b < 64 then VFloat (float64_of_uint32 (ucast b)) else VString [char_of (unat b)])"

definition sample_amf :: amf where
  "sample_amf = \<lparr>
     amf_ReadString = (\<lambda>bs. case bs of [] \<Rightarrow> Err EOF | b # bs \<Rightarrow>
       if unat b < length sample_names then Ok (sample_names ! unat b, bs) else Err EOF),
     amf_ReadDouble = (\<lambda>bs. Ok (0, bs)),
     amf_ReadValue = (\<lambda>bs. case bs of [] \<Rightarrow> Err EOF | b # bs \<Rightarrow> Ok (sample_value b, bs)),
     amf_WriteString = (\<lambda>s. Ok [2]), amf_WriteDouble = (\<lambda>x. Ok [0]),
     amf_WriteValue = (\<lambda>v. Ok [5]), amf_other = (\<lambda>_. 0)\<rparr>"

definition sample_env :: env where
  "sample_env = \<lparr>e_amf = sample_amf, e_flush = (\<lambda>_. None), e_room = (\<lambda>_. 0), e_refuse = (\<lambda>_. False),
     e_text = (\<lambda>_. []), e_show = (\<lambda>_. []), e_rate = (\<lambda>_ _. 0)\<rparr>"

definition sample_reply :: "u32 \<Rightarrow> message" where
  "sample_reply sid = \<lparr>mChunkStreamID = CS_ID_COMMAND, mTimestamp = 0, mSize = 4, mType = COMMAND_AMF0,
     mStreamID = sid, mBuf = Some [2, 0, 5, 5], mIsInbound = False, mAbsoluteTimestamp = 0\<rparr>"

lemma sample_replies:
  "sends sample_env (connect_reply txn) (sample_reply 0)"
  "sends sample_env (create_reply txn i) (sample_reply 0)"
  "sends sample_env (publish_reply pub) (sample_reply (pubStreamID pub))"
  "sends sample_env (play_status st name) (sample_reply 0)"
  by (simp_all add: connect_reply_def create_reply_def publish_reply_def play_status_def RawCommand_of_def
      ResultCommand_RawCommand_def OnStatusCommand_RawCommand_def raw_command_def sends_def encode_command_def
      RawCommand_Message_def RawCommand_write_def sample_env_def sample_amf_def sendable_def sample_reply_def)

lemma sample_encodes: "encodes_create_reply sample_env"
  using sample_replies(2) unfolding encodes_create_reply_def sends_def create_reply_def by blast

lemma sample_flushes: "flushes sample_env"
  by (simp add: flushes_def sample_env_def)

section \<open>What the client sends\<close>

definition sample_command :: "u32 \<Rightarrow> u8 list \<Rightarrow> message" where
  "sample_command sid bs = NewMessage 3 COMMAND_AMF0 sid 0 (Some bs)"

definition sample_connect :: message where "sample_connect = sample_command 0 [0, 6]"
definition sample_create :: message where "sample_create = sample_command 0 [1]"
definition sample_publish :: "u32 \<Rightarrow> u8 \<Rightarrow> message" where "sample_publish sid b = sample_command sid [2, 5, b, 5]"
definition sample_play :: "u32 \<Rightarrow> message" where "sample_play sid = sample_command sid [3, 5, 100, 5]"
definition sample_delete :: "u8 \<Rightarrow> message" where "sample_delete i = sample_command 0 [4, 5, i]"

lemma sample_types [simp]:
  "mType sample_connect = COMMAND_AMF0" "mType sample_create = COMMAND_AMF0" "mType (sample_publish sid b) = COMMAND_AMF0"
  "mType (sample_play sid) = COMMAND_AMF0" "mType (sample_delete i) = COMMAND_AMF0"
  by (simp_all add: sample_connect_def sample_create_def sample_publish_def sample_play_def sample_delete_def
      sample_command_def NewMessage_def Let_def)

abbreviation sample_pub :: "u32 \<Rightarrow> string \<Rightarrow> PublishCommand" where
  "sample_pub sid name \<equiv> \<lparr>pubStreamID = sid, pubTransactionID = 0, pubName = name, pubType = ([], False)\<rparr>"

abbreviation sample_plays :: "u32 \<Rightarrow> string \<Rightarrow> PlayCommand" where
  "sample_plays sid name \<equiv> \<lparr>playStreamID = sid, playTransactionID = 0, playName = name, playStart = (0, False)\<rparr>"

lemma sample_byte: "64 \<le> b \<Longrightarrow> b \<noteq> 5 \<and> b \<noteq> 6 \<and> \<not> b < (64 :: u8)"
  by (auto simp: word_le_nat_alt word_less_nat_alt)

lemma sample_parses:
  "ParseCommand (e_amf sample_env) sample_connect =
     Some (Ok (CConnect \<lparr>conTransactionID = 0, conProperties = [(''app'', VString ''app'')]\<rparr>))"
  "ParseCommand (e_amf sample_env) sample_create = Some (Ok (CCreateStream 0))"
  "64 \<le> b \<Longrightarrow> ParseCommand (e_amf sample_env) (sample_publish sid b) = Some (Ok (CPublish (sample_pub sid [char_of (unat b)])))"
  "ParseCommand (e_amf sample_env) (sample_play sid) = Some (Ok (CPlay (sample_plays sid ''d'')))"
  by (simp_all add: ParseCommand_def ParseRawCommand_def sample_env_def sample_amf_def sample_names_def
      sample_connect_def sample_create_def sample_publish_def sample_play_def sample_command_def NewMessage_def Let_def
      read_objects.simps sample_byte sample_value_def uint32_of_float64_def parse_by_name_def ParseConnectCommand_def
      ParseCreateStreamCommand_def ParsePublishCommand_def ParsePlayCommand_def obj_at_def as_string_def as_float_def
      char_of_def bit_0)

section \<open>The run\<close>

abbreviation sample_reachable :: "world \<Rightarrow> bool" where
  "sample_reachable \<equiv> server_reachable sample_env demo_Invoke (polite sample_env)"

text \<open>One connection, in order.\<close>

definition sample_at :: "world \<Rightarrow> bool" where
  "sample_at w \<longleftrightarrow> sample_reachable w \<and> w_nconn w = 1 \<and> \<not> cn_finished (w_conn w 0) \<and> healthy w 0 \<and>
     list_all sendable (cn_tried (w_conn w 0))"

lemma sample_inv: "sample_at w \<Longrightarrow> server_inv w"
  unfolding sample_at_def
  using server_reachable_inv [OF demo.server_handler_axioms sample_encodes] by blast

lemma sample_receives:
  assumes "sample_at w" and "conn_OnMessage sample_env demo_Invoke 0 msg w = Some (Ok (r, w'))"
    and "polite sample_env w 0 msg" and "w_nconn w' = 1" "\<not> cn_finished (w_conn w' 0)" "healthy w' 0"
    and "list_all sendable (cn_tried (w_conn w' 0))"
  shows "sample_at w'"
  using assms server_reachable.more [OF _ receive_message [of 0 w "polite sample_env" msg sample_env demo_Invoke r w']]
  unfolding sample_at_def by auto

definition sample_out :: writer where
  "sample_out = \<lparr>wout = [], wroom = None, wfail = EOF\<rparr>"

definition sample_start :: world where
  "sample_start = handle None sample_out world_init"

lemma sample_start: "sample_at sample_start"
  "cn_streams (w_conn sample_start 0) = Map.empty" "w_nstrm sample_start = 0" "w_streams sample_start = Map.empty"
  "w_players sample_start = Map.empty" "csids sample_start 0 = {2, 3, 4}"
proof -
  have "sample_reachable sample_start"
    unfolding sample_start_def by (rule server_reachable.more [OF server_reachable.start accept]) (simp add: sample_out_def)
  moreover have conn: "w_conn sample_start 0 = new_conn sample_out"
    by (simp add: sample_start_def handle_def NewConn_def world_init_def)
  then show csids: "csids sample_start 0 = {2, 3, 4}"
    by (auto simp: csids_def new_conn_def NewChunkStreamWriter_def)
  show "cn_streams (w_conn sample_start 0) = Map.empty" using conn by (simp add: new_conn_def)
  show "w_nstrm sample_start = 0" "w_streams sample_start = Map.empty" "w_players sample_start = Map.empty"
    by (simp_all add: sample_start_def handle_def NewConn_def world_init_def)
  moreover have "healthy sample_start 0"
    unfolding healthy_def conn csids
    by (intro conjI exI [of _ NewChunkStreamReader])
      (simp_all add: new_conn_def in_step_new sample_out_def, simp add: NewChunkStreamWriter_def)
  moreover have "w_nconn sample_start = 1" "\<not> cn_finished (w_conn sample_start 0)"
    "list_all sendable (cn_tried (w_conn sample_start 0))"
    using conn by (simp_all add: sample_start_def handle_def NewConn_def world_init_def new_conn_def)
  ultimately show "sample_at sample_start" by (simp add: sample_at_def)
qed

text \<open>Creating a stream.\<close>

definition sample_creates :: "world \<Rightarrow> u32 \<Rightarrow> u32 \<Rightarrow> world \<Rightarrow> bool" where
  "sample_creates w i csid w' \<longleftrightarrow> sample_at w' \<and> cn_streams (w_conn w' 0) = (cn_streams (w_conn w 0))(i \<mapsto> w_nstrm w) \<and>
     w_nstrm w' = Suc (w_nstrm w) \<and> csids w' 0 = insert csid (csids w 0) \<and> csid \<notin> csids w 0 \<and>
     w_strm w' = (w_strm w)(w_nstrm w := (newStream i 0 csid)\<lparr>
       strm_handler := Some \<lparr>sh_mediaStream = None, sh_mediaPlayer = None\<rparr>\<rparr>) \<and>
     w_streams w' = w_streams w \<and> w_players w' = w_players w"

lemma sample_create:
  assumes w: "sample_at w" and i: "first_unused (cn_streams (w_conn w 0)) 1 = Some i"
    and room: "j \<notin> csids w 0" "2 \<le> j" "j < 100"
  shows "\<exists>w' csid. sample_creates w i csid w'"
proof -
  have "csw_chunkStreams (cn_csw (w_conn w 0)) j = None" using room(1) by (simp add: csids_def domIff)
  then obtain csid where csid: "find_free (csw_chunkStreams (cn_csw (w_conn w 0))) CS_ID_BASE = Some csid"
    using room(2,3) find_free_None [of "csw_chunkStreams (cn_csw (w_conn w 0))" CS_ID_BASE j]
    by (cases "find_free (csw_chunkStreams (cn_csw (w_conn w 0))) CS_ID_BASE") auto
  then have fresh: "csid \<notin> csids w 0" using find_free_Some [OF csid] by (simp add: csids_def domIff)
  have ok: "healthy w 0" using w by (simp add: sample_at_def)
  from conn_invokeCreateStream_healthy [OF ok sample_flushes sample_replies(2) csid i] obtain w1 where
    run: "conn_invokeCreateStream sample_env 0 0 w = Some (Ok (None, sc_OnCreateStream (w_nstrm w) w1))"
    and more: "sent_more 0 [sample_reply 0, stream_begin_message i] (with_stream 0 csid i w) w1" by blast
  let ?w' = "sc_OnCreateStream (w_nstrm w) w1"
  have quiet: "quiet (with_stream 0 csid i w) w1" using more by (simp add: sent_more_def)
  note same = calm_fields [OF quiet_calm [OF quiet]]
  have ids: "csids w1 0 = insert csid (csids w 0)"
    unfolding same(9) by (auto simp: with_stream_def upd_conn_def Let_def csids_def)
  have players: "w_players w1 = w_players w"
    using quiet by (auto simp: quiet_def with_stream_def upd_conn_def Let_def)
  have arrives: "conn_OnMessage sample_env demo_Invoke 0 sample_create w = Some (Ok (None, ?w'))"
    by (rule conn_command_arrives [OF sample_parses(2), where raw = "CreateStreamCommand_RawCommand 0"])
      (simp_all add: RawCommand_of_def CreateStreamCommand_RawCommand_def raw_command_def sc_DoInvoke_def conn_Invoke_def run)
  have "polite sample_env w 0 sample_create"
    unfolding polite_def sample_parses by simp
  moreover have "healthy ?w' 0"
    using sent_more_healthy [OF more] by (simp add: sc_OnCreateStream_def healthy_def csids_def)
  moreover have "w_nconn ?w' = 1" "\<not> cn_finished (w_conn ?w' 0)"
    using w by (simp_all add: sc_OnCreateStream_def same) (simp_all add: with_stream_def upd_conn_def Let_def sample_at_def)
  moreover have "list_all sendable (cn_tried (w_conn ?w' 0))"
    using w sent_more_tried [OF more] by (simp add: sc_OnCreateStream_def sample_at_def with_stream_def upd_conn_def Let_def)
  ultimately have "sample_at ?w'" by (intro sample_receives [OF w arrives])
  moreover have "csids ?w' 0 = csids w1 0" by (simp add: sc_OnCreateStream_def csids_def)
  ultimately have "sample_creates w i csid ?w'"
    using fresh players ids
    by (simp add: sample_creates_def sc_OnCreateStream_def same)
      (simp add: with_stream_def upd_conn_def Let_def upd_strm_def tell_def same)
  then show ?thesis by blast
qed

text \<open>Publishing a name of one letter, playing ''d''.\<close>

lemma sample_publish:
  assumes w: "sample_at w" and s: "cn_streams (w_conn w 0) sid = Some s" "strm_handler (w_strm w s) = Some h"
    and sid: "sid \<noteq> 0" and letter: "64 \<le> (b :: u8)" "name = [char_of (unat b)]" and free: "w_streams w name = None"
  shows "\<exists>w'. sample_at w' \<and> cn_streams (w_conn w' 0) = cn_streams (w_conn w 0) \<and> csids w' 0 = csids w 0 \<and>
     w_nstrm w' = w_nstrm w \<and> w_streams w' = (w_streams w)(name \<mapsto> w_nmedia w) \<and> w_owner w' (w_nmedia w) = s \<and>
     w_strm w' = (w_strm w)(s := (w_strm w s)\<lparr>strm_name := name, strm_publishing := True,
       strm_handler := Some (h\<lparr>sh_mediaStream := Some (w_nmedia w)\<rparr>)\<rparr>) \<and>
     w_media w' (w_nmedia w) = NewMediaStream \<and> w_players w' = w_players w"
proof -
  let ?cmd = "sample_pub sid name"
  have c: "strm_conn (w_strm w s) = 0"
    using sample_inv [OF w] s(1) unfolding server_inv_def tables_ok_def by blast
  have ok: "healthy w (strm_conn (w_strm w s))" using w c by (simp add: sample_at_def)
  have free': "w_streams w (pubName ?cmd) = None" using free by simp
  from publish_healthy [OF free' _ _ ok sample_flushes sample_replies(3)] s(2) letter(2) obtain w1 where
    run: "ss_DoInvoke sample_env s (stream_Invoke sample_env s) (CPublish ?cmd) w = Some (Ok (None, now_publishing s ?cmd w1))"
    and more: "sent_more 0 [sample_reply sid] (registering s ?cmd w) w1" by (auto simp: c)
  let ?w' = "now_publishing s ?cmd w1"
  have quiet: "quiet (registering s ?cmd w) w1" using more by (simp add: sent_more_def)
  note fields = now_publishing_fields [OF quiet s(2)]
  note same = calm_fields [OF quiet_calm [OF quiet]]
  have parses: "ParseCommand (e_amf sample_env) (sample_publish sid b) = Some (Ok (CPublish ?cmd))"
    using sample_parses(3) [OF letter(1)] letter(2) by simp
  have arrives: "conn_OnMessage sample_env demo_Invoke 0 (sample_publish sid b) w = Some (Ok (None, ?w'))"
    by (rule stream_command_arrives [OF parses _ _ _ _ _ run, where raw = "PublishCommand_RawCommand ?cmd"])
      (simp_all add: s sid RawCommand_of_def PublishCommand_RawCommand_def raw_command_def)
  have "polite sample_env w 0 (sample_publish sid b)" unfolding polite_def parses by simp
  moreover have csids: "csids ?w' 0 = csids w 0" using same(9) [of 0] by (simp add: csids_def fields)
  moreover have "healthy ?w' 0" using sent_more_healthy [OF more] by (simp add: healthy_def csids_def fields)
  moreover have "w_nconn ?w' = 1" "\<not> cn_finished (w_conn ?w' 0)"
    using w same(8) [of 0] by (simp_all add: fields sample_at_def)
  moreover have "list_all sendable (cn_tried (w_conn ?w' 0))"
    using w sent_more_tried [OF more] by (simp add: fields sample_at_def registering_def new_media_def Let_def)
  ultimately have "sample_at ?w'" by (intro sample_receives [OF w arrives])
  then show ?thesis
    using csids same(7) [of 0] by (intro exI [of _ ?w']) (simp add: fields)
qed

lemma sample_place:
  assumes w: "sample_at w" and s: "cn_streams (w_conn w 0) sid = Some s"
  shows "strm_conn (w_strm w s) = 0" "strm_csid (w_strm w s) \<in> csids w 0" "5 \<le> strm_csid (w_strm w s)"
    "strm_csid (w_strm w s) < 100"
proof -
  have place: "strm_conn (w_strm w s) = 0" "strm_csid (w_strm w s) \<in> csids w 0 - {2, 3, 4}"
    using sample_inv [OF w] s unfolding server_inv_def tables_ok_def by blast+
  moreover have "2 \<le> strm_csid (w_strm w s)" "strm_csid (w_strm w s) < 100"
    using sample_inv [OF w] place(2) unfolding server_inv_def tables_ok_def by blast+
  ultimately show "strm_conn (w_strm w s) = 0" "strm_csid (w_strm w s) \<in> csids w 0" "5 \<le> strm_csid (w_strm w s)"
    "strm_csid (w_strm w s) < 100"
    by (auto simp: word_le_nat_alt word_less_nat_alt word_unat_eq_iff)
qed

lemma sample_play:
  assumes w: "sample_at w" and s: "cn_streams (w_conn w 0) sid = Some s" "strm_handler (w_strm w s) = Some h"
    "sid \<noteq> 0" "\<not> strm_publishing (w_strm w s)" and reg: "w_streams w ''d'' = Some m" and free: "w_players w s = None"
  shows "\<exists>w1. sample_at (mp_Start (w_nplayer w) (playing s (sample_plays sid ''d'') w1)) \<and>
     quiet (joining sample_env m s w) w1"
proof -
  let ?cmd = "sample_plays sid ''d''"
  note place = sample_place [OF w s(1)]
  have ok: "healthy w (strm_conn (w_strm w s))" using w place by (simp add: sample_at_def)
  moreover have reg': "w_streams w (playName ?cmd) = Some m" using reg by simp
  moreover have "ms_running (w_media w m)" "\<not> ms_done (w_media w m)"
    using sample_inv [OF w] reg unfolding server_inv_def registered_open_def by blast+
  then have open_media: "\<not> refused sample_env m w" by (simp add: refused_def)
  ultimately obtain w1 where
    run: "ss_DoInvoke sample_env s (stream_Invoke sample_env s) (CPlay ?cmd) w =
        Some (Ok (None, mp_Start (w_nplayer w) (playing s ?cmd w1)))"
    and more: "sent_more 0 [on_stream (w_strm w s) (sample_reply 0), on_stream (w_strm w s) (sample_reply 0)]
        (joining sample_env m s w) w1"
    using play_healthy [OF reg' open_media free _ _ ok sample_flushes _ _ _ sample_replies(4) sample_replies(4)]
      place s(2) by (auto simp: place(1))
  let ?w' = "mp_Start (w_nplayer w) (playing s ?cmd w1)"
  note j = joining_fields [OF open_media free]
  have quiet: "quiet (joining sample_env m s w) w1" using more by (simp add: sent_more_def)
  note same = calm_fields [OF quiet_calm [OF quiet]]
  have arrives: "conn_OnMessage sample_env demo_Invoke 0 (sample_play sid) w = Some (Ok (None, ?w'))"
    by (rule stream_command_arrives [OF sample_parses(4) _ _ _ _ _ run, where raw = "PlayCommand_RawCommand ?cmd"])
      (simp_all add: s RawCommand_of_def PlayCommand_RawCommand_def raw_command_def)
  have conn: "w_conn ?w' = w_conn w1" "w_nconn ?w' = w_nconn w1"
    by (simp_all add: playing_def ss_OnPlay_def mp_Start_def upd_player_def Let_def)
  have "polite sample_env w 0 (sample_play sid)" unfolding polite_def sample_parses using s by simp
  moreover have "healthy ?w' 0"
    using sent_more_healthy [OF more] unfolding healthy_def csids_def conn .
  moreover have "w_nconn ?w' = 1" "\<not> cn_finished (w_conn ?w' 0)"
    using w same(6) same(8) [of 0] unfolding conn sample_at_def
    by (simp_all add: j joining_def NewMediaPlayer_def media_Subscribe_def putPlayer_def Let_def media_event_def tick_def
        split: option.split)
  moreover have "list_all sendable (cn_tried (w_conn ?w' 0))"
    using w sent_more_tried [OF more] unfolding conn j(6) by (simp add: sample_at_def)
  ultimately have "sample_at ?w'" by (intro sample_receives [OF w arrives])
  with quiet show ?thesis by blast
qed

text \<open>Two streams; one of them publishes.\<close>

abbreviation no_media :: stream_handler where
  "no_media \<equiv> \<lparr>sh_mediaStream = None, sh_mediaPlayer = None\<rparr>"

lemma sample_two_streams:
  "\<exists>w i j. sample_at w \<and> cn_streams (w_conn w 0) = [1 \<mapsto> 0, 2 \<mapsto> 1] \<and> w_streams w = Map.empty \<and>
     w_players w = Map.empty \<and> w_strm w 0 = (newStream 1 0 i)\<lparr>strm_handler := Some no_media\<rparr> \<and>
     w_strm w 1 = (newStream 2 0 j)\<lparr>strm_handler := Some no_media\<rparr>"
proof -
  have one: "first_unused Map.empty 1 = Some 1"
    by (subst first_unused.simps) simp
  have two: "first_unused [1 \<mapsto> s] 1 = Some 2" for s
    by (subst first_unused.simps, subst first_unused.simps) simp
  obtain w1 i where w1: "sample_creates sample_start 1 i w1"
    using sample_create [OF sample_start(1), of 1 5] one by (auto simp: sample_start)
  have "\<exists>j. j \<notin> {i, 2, 3, 4} \<and> 2 \<le> j \<and> j < 100" for i :: u32
    by (rule exI [of _ "if i = 5 then 6 else 5"]) simp
  then obtain j where "j \<notin> csids w1 0" "2 \<le> j" "j < 100"
    using w1 by (auto simp: sample_creates_def sample_start)
  then obtain w2 k where w2: "sample_creates w1 2 k w2"
    using sample_create [of w1 2 j] two w1 by (auto simp: sample_creates_def sample_start)
  show ?thesis
    using w1 w2 by (intro exI [of _ w2] exI [of _ i] exI [of _ k]) (simp add: sample_creates_def sample_start)
qed

lemma sample_publishing:
  "\<exists>w m i. sample_at w \<and> cn_streams (w_conn w 0) = [1 \<mapsto> 0, 2 \<mapsto> 1] \<and> w_streams w = [''d'' \<mapsto> m] \<and>
     w_players w = Map.empty \<and> strm_name (w_strm w 0) = ''d'' \<and> strm_publishing (w_strm w 0) \<and>
     w_owner w m = 0 \<and> strm_handler (w_strm w 0) = Some (no_media\<lparr>sh_mediaStream := Some m\<rparr>) \<and>
     w_strm w 1 = (newStream 2 0 i)\<lparr>strm_handler := Some no_media\<rparr> \<and> w_media w m = NewMediaStream"
proof -
  obtain w i j where w: "sample_at w" "cn_streams (w_conn w 0) = [1 \<mapsto> 0, 2 \<mapsto> 1]" "w_streams w = Map.empty"
     "w_players w = Map.empty" "w_strm w 0 = (newStream 1 0 i)\<lparr>strm_handler := Some no_media\<rparr>"
     "w_strm w 1 = (newStream 2 0 j)\<lparr>strm_handler := Some no_media\<rparr>"
    using sample_two_streams by blast
  have d: "''d'' = [char_of (unat (100 :: u8))]" by (simp add: char_of_def bit_0)
  have "strm_handler (w_strm w 0) = Some no_media" using w(5) by simp
  from sample_publish [OF w(1) _ this _ _ d, of 1] w obtain w' where
    w': "sample_at w'" "cn_streams (w_conn w' 0) = [1 \<mapsto> 0, 2 \<mapsto> 1]" "w_streams w' = [''d'' \<mapsto> w_nmedia w]"
      "w_players w' = Map.empty" "w_owner w' (w_nmedia w) = 0"
      "w_media w' (w_nmedia w) = NewMediaStream"
      "w_strm w' = (w_strm w)(0 := (w_strm w 0)\<lparr>strm_name := ''d'', strm_publishing := True,
         strm_handler := Some (no_media\<lparr>sh_mediaStream := Some (w_nmedia w)\<rparr>)\<rparr>)"
    by auto
  then show ?thesis
    using w(6) by (intro exI [of _ w'] exI [of _ "w_nmedia w"] exI [of _ j]) simp
qed

lemma sample_two_publishers:
  "\<exists>w m m' h. sample_at w \<and> cn_streams (w_conn w 0) = [1 \<mapsto> 0, 2 \<mapsto> 1] \<and> w_players w = Map.empty \<and>
     w_streams w ''d'' = Some m \<and> w_streams w ''e'' = Some m' \<and> strm_publishing (w_strm w 1) \<and>
     strm_name (w_strm w 1) = ''e'' \<and> strm_handler (w_strm w 1) = Some h"
proof -
  obtain w m i where w: "sample_at w" "cn_streams (w_conn w 0) = [1 \<mapsto> 0, 2 \<mapsto> 1]" "w_streams w = [''d'' \<mapsto> m]"
     "w_players w = Map.empty" "w_strm w 1 = (newStream 2 0 i)\<lparr>strm_handler := Some no_media\<rparr>"
    using sample_publishing by blast
  have e: "''e'' = [char_of (unat (101 :: u8))]" by (simp add: char_of_def bit_0)
  have "strm_handler (w_strm w 1) = Some no_media" using w(5) by simp
  from sample_publish [OF w(1) _ this _ _ e, of 2] w obtain w' where
    "sample_at w'" "cn_streams (w_conn w' 0) = [1 \<mapsto> 0, 2 \<mapsto> 1]" "w_streams w' = [''d'' \<mapsto> m, ''e'' \<mapsto> w_nmedia w]"
      "w_players w' = Map.empty" "strm_publishing (w_strm w' 1)" "strm_name (w_strm w' 1) = ''e''"
      "strm_handler (w_strm w' 1) = Some (no_media\<lparr>sh_mediaStream := Some (w_nmedia w)\<rparr>)"
    by auto
  then show ?thesis
    by (intro exI [of _ w'] exI [of _ m] exI [of _ "w_nmedia w"] exI conjI) simp_all
qed

end
