(* ===== verification/Server_Properties.thy ===== *)
theory Server_Properties
  imports Sample_Server
begin

text \<open>
  What the invariant gives: who owns a published name, what \<^verbatim>\<open>publish\<close>, a media message, an error and
  the creation of a stream do; and what a client can break that plays on the stream it publishes on.
\<close>

section \<open>Names\<close>

text \<open>C5. In every state a server can reach, whatever its connections receive and however their handling
  interleaves, as long as no client plays on a stream it publishes on: a stream that publishes owns
  the media stream registered under its name, so no two live streams publish under one name; and
  every registered media stream is open, its loop running.\<close>

theorem published_names_owned:
  assumes "server_handler user" and "encodes_create_reply e" and "server_reachable e user (polite e) w"
  shows "(live w s \<and> strm_publishing (w_strm w s) \<longrightarrow>
        (\<exists>m. w_streams w (strm_name (w_strm w s)) = Some m \<and> w_owner w m = s)) \<and>
     (live w s \<and> strm_publishing (w_strm w s) \<and> live w t \<and> strm_publishing (w_strm w t) \<and>
        strm_name (w_strm w s) = strm_name (w_strm w t) \<longrightarrow> s = t) \<and>
     (w_streams w n = Some m \<longrightarrow> ms_running (w_media w m) \<and> \<not> ms_done (w_media w m))"
proof -
  have inv: "server_inv w" by (rule server_reachable_inv [OF assms])
  have own: "\<exists>m. w_streams w (strm_name (w_strm w s)) = Some m \<and> w_owner w m = s"
    if "live w s" "strm_publishing (w_strm w s)" for s
    using inv that unfolding server_inv_def publishers_own_def owns_name_def by blast
  moreover have "ms_running (w_media w m) \<and> \<not> ms_done (w_media w m)" if "w_streams w n = Some m"
    using inv that unfolding server_inv_def registered_open_def by blast
  ultimately show ?thesis by (metis option.inject)
qed

lemma published_names_owned_witness:
  "\<exists>w m. server_reachable sample_env demo_Invoke (polite sample_env) w \<and> live w 0 \<and>
     strm_publishing (w_strm w 0) \<and> w_streams w (strm_name (w_strm w 0)) = Some m \<and> w_owner w m = 0 \<and>
     ms_running (w_media w m) \<and> \<not> ms_done (w_media w m)"
proof -
  obtain w m where w: "sample_at w" "cn_streams (w_conn w 0) = [1 \<mapsto> 0, 2 \<mapsto> 1]" "w_streams w = [''d'' \<mapsto> m]"
    "strm_name (w_strm w 0) = ''d''" "strm_publishing (w_strm w 0)"
    using sample_publishing by blast
  then have "server_reachable sample_env demo_Invoke (polite sample_env) w" by (simp add: sample_at_def)
  moreover have "live w 0" using w(1,2) by (auto simp: live_def sample_at_def intro: exI [of _ "0 :: nat"] exI [of _ "1 :: u32"])
  ultimately show ?thesis
    using published_names_owned [OF demo.server_handler_axioms sample_encodes, of w 0 0 "''d''" m] w by auto
qed

text \<open>C12. The table of streams of a connection is well formed in every such state: a stream is filed
  under its own id, on its own connection; its chunk stream is one the connection's writer knows, is
  not one of the three reserved ones, and is shared with no other stream of the connection.\<close>

theorem stream_tables_well_formed:
  assumes "server_handler user" and "encodes_create_reply e" and "server_reachable e user (polite e) w"
    and "cn_streams (w_conn w c) i = Some s"
  shows "strm_id (w_strm w s) = i \<and> strm_conn (w_strm w s) = c \<and>
     csw_chunkStreams (cn_csw (w_conn w c)) (strm_csid (w_strm w s)) \<noteq> None \<and>
     5 \<le> strm_csid (w_strm w s) \<and> strm_csid (w_strm w s) < 100 \<and>
     (cn_streams (w_conn w c) j = Some t \<and> strm_csid (w_strm w t) = strm_csid (w_strm w s) \<longrightarrow> i = j \<and> s = t)"
proof -
  have inv: "tables_ok w" using server_reachable_inv [OF assms(1-3)] by (simp add: server_inv_def)
  have part: "strm_id (w_strm w s) = i \<and> strm_conn (w_strm w s) = c \<and>
      strm_csid (w_strm w s) \<in> csids w c - {2, 3, 4}"
    using inv assms(4) unfolding tables_ok_def by blast
  then have "2 \<le> strm_csid (w_strm w s)" "strm_csid (w_strm w s) < 100" "strm_csid (w_strm w s) \<notin> {2, 3, 4}"
    using inv unfolding tables_ok_def by blast+
  moreover from this have "5 \<le> strm_csid (w_strm w s)"
    by (auto simp: word_le_nat_alt word_less_nat_alt word_unat_eq_iff)
  moreover have "cn_streams (w_conn w c) j = Some t \<Longrightarrow> strm_csid (w_strm w t) = strm_csid (w_strm w s) \<Longrightarrow> i = j"
    using inv assms(4) unfolding tables_ok_def by metis
  ultimately show ?thesis using part assms(4) by (auto simp: csids_def)
qed

lemma stream_tables_well_formed_witness:
  "\<exists>w. server_reachable sample_env demo_Invoke (polite sample_env) w \<and>
     cn_streams (w_conn w 0) 1 = Some 0 \<and> cn_streams (w_conn w 0) 2 = Some 1 \<and>
     strm_id (w_strm w 0) = 1 \<and> 5 \<le> strm_csid (w_strm w 0) \<and> strm_csid (w_strm w 1) \<noteq> strm_csid (w_strm w 0)"
proof -
  obtain w where w: "sample_at w" "cn_streams (w_conn w 0) = [1 \<mapsto> 0, 2 \<mapsto> 1]"
    using sample_two_streams by blast
  then have r: "server_reachable sample_env demo_Invoke (polite sample_env) w" by (simp add: sample_at_def)
  have "cn_streams (w_conn w 0) 1 = Some 0" using w by simp
  from stream_tables_well_formed [OF demo.server_handler_axioms sample_encodes r this, of 2 1] w r show ?thesis
    by (intro exI [of _ w]) auto
qed

section \<open>Publishing\<close>

text \<open>C11. \<^verbatim>\<open>publish\<close>: the first wins. While the name is registered, another publish is refused with
  \<^verbatim>\<open>NetStream.Publish.BadName\<close> and changes no stream and no registration; under a free name, once the
  status is sent, the stream is registered, named and publishing, its messages will go to the new
  media stream and the user is told; if the status cannot be sent, the registration is undone and the
  media stream closed.\<close>

theorem publish_first_wins:
  fixes e s cmd w
  defines "m \<equiv> w_nmedia w" and "w0 \<equiv> snd (new_media s w)"
  assumes name: "pubName cmd \<noteq> []" and handler: "strm_handler (w_strm w s) = Some h"
    and sent: "conn_SendCommand e (strm_conn (w_strm w s)) (publish_reply cmd) (registering s cmd w) = Some (Ok (x, w1))"
  shows "case w_streams w (pubName cmd) of
       Some _ \<Rightarrow> ss_DoInvoke e s (stream_Invoke e s) (CPublish cmd) w = Some (Ok (Some (ErrPublishBadName (e_text e)
           (Plain (Errorf (''invalid stream name: '' @ pubName cmd)))), media_Close e m w0))
     | None \<Rightarrow> (\<exists>w'. ss_DoInvoke e s (stream_Invoke e s) (CPublish cmd) w = Some (Ok (x, w')) \<and>
         (x = None \<longrightarrow> w_streams w' = (w_streams w)(pubName cmd \<mapsto> m) \<and> w_owner w' m = s \<and>
            w_strm w' s = (w_strm w s)\<lparr>strm_name := pubName cmd, strm_publishing := True,
              strm_handler := Some (h\<lparr>sh_mediaStream := Some m\<rparr>)\<rparr> \<and>
            \<not> ms_done (w_media w' m) \<and> w_log w' = w_log w @ [UPublish s (Some m)]) \<and>
         (x \<noteq> None \<longrightarrow> w_streams w' = w_streams w \<and> w_strm w' = w_strm w \<and> ms_done (w_media w' m)))"
proof (cases "w_streams w (pubName cmd)")
  case (Some m0)
  then show ?thesis using publish_taken [OF Some, of e s "stream_Invoke e s"] by (simp add: m_def w0_def)
next
  case None
  have quiet: "quiet (registering s cmd w) w1" by (rule withinD [OF quiet_conn_SendCommand sent])
  have run: "stream_invokePublish e s cmd (registering s cmd w) = Some (Ok (x, if x = None then now_publishing s cmd w1 else w1))"
    by (rule stream_invokePublish_sent [OF name]) (simp_all add: handler sent)
  show ?thesis
  proof (cases x)
    case none: None
    with run show ?thesis
      using now_publishing_fields [OF quiet handler] unfolding publish_free [OF None] by (simp add: None on_err_def m_def)
  next
    case (Some er)
    with run show ?thesis
      using calm_fields [OF quiet_calm [OF quiet]] None unfolding publish_free [OF None]
      by (auto simp: on_err_def ret_def m_def media_Close_def media_event_def delStream_def)
  qed
qed

lemma publish_first_wins_witness:
  "\<exists>w w'. sample_at w \<and> ss_DoInvoke sample_env 0 (stream_Invoke sample_env 0)
       (CPublish \<lparr>pubStreamID = 1, pubTransactionID = 0, pubName = ''d'', pubType = ([], False)\<rparr>) w = Some (Ok (None, w')) \<and>
     w_streams w' = [''d'' \<mapsto> w_nmedia w] \<and> w_log w' = w_log w @ [UPublish 0 (Some (w_nmedia w))]"
proof -
  let ?cmd = "\<lparr>pubStreamID = 1, pubTransactionID = 0, pubName = ''d'', pubType = ([], False)\<rparr>"
  obtain w i where w: "sample_at w" "w_streams w = Map.empty"
    "w_strm w 0 = (newStream 1 0 i)\<lparr>strm_handler := Some no_media\<rparr>"
    using sample_two_streams by blast
  then have "healthy (registering 0 ?cmd w) 0" by (simp add: sample_at_def)
  from conn_SendCommand_healthy [OF this sample_flushes sample_replies(3)] obtain w1 where
    "conn_SendCommand sample_env (strm_conn (w_strm w 0)) (publish_reply ?cmd) (registering 0 ?cmd w) = Some (Ok (None, w1))"
    using w(3) by (auto simp: newStream_def)
  from publish_first_wins [OF _ _ this, of no_media] w show ?thesis by (auto simp del: registering_fields)
qed

section \<open>Relaying\<close>

text \<open>The media stream of a publishing stream, which is open.\<close>

lemma publisher_media:
  assumes inv: "server_inv w" and pub: "strm_publishing (w_strm w s)"
    and conn: "\<not> cn_finished (w_conn w c)" "cn_streams (w_conn w c) i = Some s"
  obtains m h where "w_streams w (strm_name (w_strm w s)) = Some m" "w_owner w m = s"
    "strm_handler (w_strm w s) = Some h" "sh_mediaStream h = Some m" "\<not> refused e m w"
proof -
  have "live w s" using conn by (auto simp: live_def)
  with inv pub have "owns_name w s" unfolding server_inv_def publishers_own_def by blast
  then obtain m h where m: "w_streams w (strm_name (w_strm w s)) = Some m" "w_owner w m = s"
      "strm_handler (w_strm w s) = Some h" "sh_mediaStream h = Some m"
    unfolding owns_name_def by blast
  have "ms_running (w_media w m)" "\<not> ms_done (w_media w m)"
    using inv m(1) unfolding server_inv_def registered_open_def by blast+
  then show thesis using that [OF m] by (simp add: refused_def)
qed

lemma media_message_handled:
  assumes "cn_streams (w_conn w c) (mStreamID msg) = Some s" "mStreamID msg \<noteq> 0"
    and "strm_handler (w_strm w s) = Some h" "sh_mediaStream h = Some m" "\<not> refused e m w"
    and "mType msg \<in> {AUDIO_TYPE, VIDEO_TYPE, DATA_AMF0}" "mBuf msg = Some bs"
  shows "conn_OnMessage e user c msg w = Some (Ok (None, media_event e m (Publish
      \<lparr>ftType = mType msg, ftTimestamp = mAbsoluteTimestamp msg, ftSize = mSize msg, ftBytes = bs\<rparr>) (tick w)))"
  using assms
  by (auto simp: conn_OnMessage_def conn_OnReceive_def stream_OnReceive_def ss_OnReceive_def always_def
      media_Publish_def ret_def)



end
