(* ===== verification/Session_Properties.thy ===== *)
theory Session_Properties
  imports Sample_Server
begin

text \<open>
  What the commands of a session do from end to end: \<^verbatim>\<open>connect\<close>, \<^verbatim>\<open>createStream\<close>, \<^verbatim>\<open>play\<close> and
  \<^verbatim>\<open>deleteStream\<close>, what becomes of their errors, and which stream id is given out.
\<close>

section \<open>connect\<close>

text \<open>C18. \<^verbatim>\<open>connect\<close> to the application \<open>app\<close> on a working connection sends, in this order, the window
  size, the peer's bandwidth, the begin of stream 0, a chunk size of 4096 and the reply, and nothing
  else; it sets the application and tells the user; no other connection is touched. Any other
  application is rejected, and nothing is sent or changed.\<close>

theorem connect_answered:
  assumes ok: "healthy w c" and flush: "flushes e"
    and send: "sends e (connect_reply (conTransactionID cmd)) msg"
  shows "if property (conProperties cmd) ''app'' = Some (VString ''app'')
    then \<exists>w'. sc_DoInvoke e (conn_Invoke e c) (CConnect cmd) w = Some (Ok (None, w')) \<and>
      cn_sent (w_conn w' c) = cn_sent (w_conn w c) @
        [control_message WINDOW_ACKNOWLEDGEMENT_SIZE (be32_put 2500000),
         control_message SET_PEER_BANDWIDTH (be32_put 2500000 @ [2]), stream_begin_message 0,
         control_message SET_CHUNK_SIZE (be32_put 4096), msg] \<and>
      cn_app (w_conn w' c) = ''app'' \<and> cn_closed (w_conn w' c) = cn_closed (w_conn w c) \<and> healthy w' c \<and>
      w_log w' = w_log w @ [UConnect c] \<and> (\<forall>d. d \<noteq> c \<longrightarrow> w_conn w' d = w_conn w d) \<and>
      w_streams w' = w_streams w \<and> w_strm w' = w_strm w
    else sc_DoInvoke e (conn_Invoke e c) (CConnect cmd) w = Some (Ok (Some (ErrConnectRejected (e_text e)
      (Plain (Errorf (''invalid app: '' @ e_show e (property (conProperties cmd) ''app''))))), w))"
proof (cases "property (conProperties cmd) ''app'' = Some (VString ''app'')")
  case True
  let ?w = "upd_conn c (\<lambda>cn. cn\<lparr>cn_app := ''app''\<rparr>) w"
  obtain w1 where run: "conn_invokeConnect e c cmd w = Some (Ok (None, sc_OnConnect c w1))"
    and more: "sent_more c (connect_announcements @ [msg]) ?w w1"
    using conn_invokeConnect_healthy [OF True ok flush send] by blast
  have quiet: "quiet ?w w1" using more by (simp add: sent_more_def)
  have "w_log w1 = w_log w" using quiet by (auto simp: quiet_def upd_conn_def)
  moreover have "healthy (sc_OnConnect c w1) c"
    using sent_more_healthy [OF more] by (simp add: sc_OnConnect_def healthy_def csids_def)
  moreover have "w_strm w1 = w_strm w" "w_streams w1 = w_streams w"
    using calm_fields(1,4) [OF quiet_calm [OF quiet]] by (simp_all add: upd_conn_def)
  moreover have "sc_DoInvoke e (conn_Invoke e c) (CConnect cmd) w = Some (Ok (None, sc_OnConnect c w1))"
    using True run by (simp add: sc_DoInvoke_def sc_invokeConnect_def conn_Invoke_def)
  ultimately show ?thesis
    using more True
    by (simp add: sc_OnConnect_def sent_more_def connect_announcements_def)
      (simp add: upd_conn_def tell_def)
next
  case False
  then show ?thesis by (simp add: sc_DoInvoke_def sc_invokeConnect_def ret_def)
qed

lemma connect_answered_witness:
  "\<exists>w'. sc_DoInvoke sample_env (conn_Invoke sample_env 0)
       (CConnect \<lparr>conTransactionID = 0, conProperties = [(''app'', VString ''app'')]\<rparr>) sample_start = Some (Ok (None, w')) \<and>
     cn_app (w_conn w' 0) = ''app'' \<and> w_log w' = w_log sample_start @ [UConnect 0]"
proof -
  have "healthy sample_start 0" using sample_start(1) by (simp add: sample_at_def)
  from connect_answered [OF this sample_flushes sample_replies(1),
      of "\<lparr>conTransactionID = 0, conProperties = [(''app'', VString ''app'')]\<rparr>"]
  show ?thesis by (auto simp: property_def)
qed

section \<open>createStream\<close>

text \<open>C14. \<^verbatim>\<open>createStream\<close> on a working connection, while a chunk stream id and a stream id are free:
  the stream gets the first free id and the least free chunk stream id, is filed under its id, with
  a handler; the reply with the id and the begin of the stream are sent, in this order, and nothing
  else; the user is told. With no chunk stream id free it fails and changes nothing.\<close>

theorem createStream_answered:
  assumes ok: "healthy w c" and flush: "flushes e" and send: "\<And>i. sends e (create_reply txn i) (reply i)"
    and room: "cn_streams (w_conn w c) j = None"
  shows "if \<forall>k. 2 \<le> k \<and> k < 100 \<longrightarrow> k \<in> csids w c
    then sc_DoInvoke e (conn_Invoke e c) (CCreateStream txn) w = Some (Ok (Some (Plain ErrMaxChunkStreams), w))
    else \<exists>i csid w'. sc_DoInvoke e (conn_Invoke e c) (CCreateStream txn) w = Some (Ok (None, w')) \<and>
      cn_streams (w_conn w c) i = None \<and> (\<forall>k. scan_rank k < scan_rank i \<longrightarrow> cn_streams (w_conn w c) k \<noteq> None) \<and>
      csid \<notin> csids w c \<and> 2 \<le> csid \<and> csid < 100 \<and> (\<forall>k. 2 \<le> k \<and> k < csid \<longrightarrow> k \<in> csids w c) \<and>
      cn_streams (w_conn w' c) = (cn_streams (w_conn w c))(i \<mapsto> w_nstrm w) \<and> csids w' c = insert csid (csids w c) \<and>
      w_strm w' = (w_strm w)(w_nstrm w := (newStream i c csid)\<lparr>strm_handler := Some no_media\<rparr>) \<and>
      cn_sent (w_conn w' c) = cn_sent (w_conn w c) @ [reply i, stream_begin_message i] \<and>
      w_log w' = w_log w @ [UCreateStream (w_nstrm w)] \<and> healthy w' c"
proof (cases "find_free (csw_chunkStreams (cn_csw (w_conn w c))) CS_ID_BASE")
  case None
  have "k \<in> csids w c" if "2 \<le> k" "k < 100" for k
    using find_free_None [OF None] that by (auto simp: csids_def)
  moreover have "conn_invokeCreateStream e c txn w = Some (Ok (Some (Plain ErrMaxChunkStreams), w))"
    using None by (simp add: conn_invokeCreateStream_def CreateChunkStream_def priority_of_def ret_def)
  ultimately show ?thesis by (simp add: sc_DoInvoke_def conn_Invoke_def)
next
  case (Some csid)
  note csid = find_free_Some [OF Some]
  have fresh: "csid \<notin> csids w c" using csid by (simp add: csids_def domIff)
  obtain i where i: "first_unused (cn_streams (w_conn w c)) 1 = Some i"
    using first_unused_least(1) [of "cn_streams (w_conn w c)" j, OF room] by blast
  obtain w1 where run: "conn_invokeCreateStream e c txn w = Some (Ok (None, sc_OnCreateStream (w_nstrm w) w1))"
    and more: "sent_more c [reply i, stream_begin_message i] (with_stream c csid i w) w1"
    using conn_invokeCreateStream_healthy [OF ok flush send Some i] by blast
  let ?w' = "sc_OnCreateStream (w_nstrm w) w1"
  have quiet: "quiet (with_stream c csid i w) w1" using more by (simp add: sent_more_def)
  note same = calm_fields [OF quiet_calm [OF quiet]]
  have "csids w1 c = insert csid (csids w c)"
    unfolding same(9) by (auto simp: with_stream_def upd_conn_def Let_def csids_def)
  moreover have "w_log w1 = w_log w" using quiet by (auto simp: quiet_def with_stream_def upd_conn_def Let_def)
  moreover have "cn_streams (w_conn w c) i = None" "\<forall>k. scan_rank k < scan_rank i \<longrightarrow> cn_streams (w_conn w c) k \<noteq> None"
    using stream_ids.alloc_free [OF i] stream_ids.alloc_first [OF i] by auto
  moreover have "\<forall>k. 2 \<le> k \<and> k < csid \<longrightarrow> k \<in> csids w c" "2 \<le> csid" "csid < 100"
    using csid by (auto simp: csids_def domIff)
  moreover have "healthy ?w' c"
    using sent_more_healthy [OF more] by (simp add: sc_OnCreateStream_def healthy_def csids_def)
  moreover have "csids ?w' c = csids w1 c" by (simp add: sc_OnCreateStream_def csids_def)
  moreover have "cn_sent (w_conn ?w' c) = cn_sent (w_conn w c) @ [reply i, stream_begin_message i]"
    using more by (simp add: sc_OnCreateStream_def sent_more_def with_stream_def upd_conn_def Let_def)
  moreover have "w_strm ?w' = (w_strm w)(w_nstrm w := (newStream i c csid)\<lparr>strm_handler := Some no_media\<rparr>)"
    by (simp add: sc_OnCreateStream_def upd_strm_def tell_def same) (simp add: with_stream_def upd_conn_def Let_def)
  moreover have "cn_streams (w_conn ?w' c) = (cn_streams (w_conn w c))(i \<mapsto> w_nstrm w)"
    by (simp add: sc_OnCreateStream_def same) (simp add: with_stream_def upd_conn_def Let_def)
  moreover have "w_log ?w' = w_log w1 @ [UCreateStream (w_nstrm w)]"
    by (simp add: sc_OnCreateStream_def tell_def upd_strm_def)
  moreover have "sc_DoInvoke e (conn_Invoke e c) (CCreateStream txn) w = Some (Ok (None, ?w'))"
    using run by (simp add: sc_DoInvoke_def conn_Invoke_def)
  ultimately show ?thesis using fresh
    by (subst if_not_P) (blast, intro exI [of _ i] exI [of _ csid] exI [of _ ?w'], simp)
qed

lemma createStream_answered_witness:
  "\<exists>w'. sc_DoInvoke sample_env (conn_Invoke sample_env 0) (CCreateStream 7) sample_start = Some (Ok (None, w')) \<and>
     w_log w' = w_log sample_start @ [UCreateStream 0]"
proof -
  have ok: "healthy sample_start 0" using sample_start(1) by (simp add: sample_at_def)
  have room: "cn_streams (w_conn sample_start 0) 1 = None" by (simp add: sample_start)
  have "\<not> (\<forall>k. 2 \<le> k \<and> k < 100 \<longrightarrow> k \<in> csids sample_start 0)"
    by (auto simp: sample_start intro: exI [of _ "5 :: u32"])
  from createStream_answered [OF ok sample_flushes sample_replies(2) room, of 7, unfolded if_not_P [OF this]]
  show ?thesis by (elim exE conjE) (simp add: sample_start)
qed

section \<open>Stream ids\<close>

lemma first_unused_bound:
  assumes inv: "tables_ok w"
  shows "\<exists>i. first_unused (cn_streams (w_conn w c)) 1 = Some i \<and> 1 \<le> i \<and> i \<le> 96"
proof -
  let ?m = "cn_streams (w_conn w c)" and ?id = "\<lambda>n. 1 + word_of_nat n :: u32"
  let ?csid = "\<lambda>n. unat (strm_csid (w_strm w (the (?m (?id n)))))"
  have id: "unat (?id n) = Suc n" if "n < 96" for n
    using that by (simp add: unat_word_ariths unat_of_nat_small)
  have "\<exists>n<96. ?m (?id n) = None"
  proof (rule ccontr)
    assume "\<not> ?thesis"
    then have used: "\<exists>s. ?m (?id n) = Some s" if "n < 96" for n using that by (metis not_None_eq)
    have "?csid ` {..<96} \<subseteq> {5..<100}"
    proof clarsimp
      fix n :: nat assume "n < 96"
      then obtain s where s: "?m (?id n) = Some s" using used by blast
      then have "strm_csid (w_strm w s) \<in> csids w c - {2, 3, 4}"
        using inv unfolding tables_ok_def by blast
      moreover from this have "2 \<le> strm_csid (w_strm w s)" "strm_csid (w_strm w s) < 100"
        using inv unfolding tables_ok_def by blast+
      ultimately show "5 \<le> unat (strm_csid (w_strm w (the (?m (1 + word_of_nat n))))) \<and>
          unat (strm_csid (w_strm w (the (?m (1 + word_of_nat n))))) < 100"
        using s by (auto simp: word_le_nat_alt word_less_nat_alt word_unat_eq_iff)
    qed
    moreover have "inj_on ?csid {..<96}"
    proof (rule inj_onI)
      fix n k :: nat assume n: "n \<in> {..<96}" "k \<in> {..<96}" and same: "?csid n = ?csid k"
      then obtain s t where st: "?m (?id n) = Some s" "?m (?id k) = Some t" using used by blast
      have "unat (strm_csid (w_strm w s)) = unat (strm_csid (w_strm w t))"
        using same unfolding st option.sel .
      then have "strm_csid (w_strm w s) = strm_csid (w_strm w t)" by (rule word_unat_eq_iff [THEN iffD2])
      then have "?id n = ?id k" using inv st unfolding tables_ok_def by blast
      then have "unat (?id n) = unat (?id k)" by (simp only:)
      moreover have "unat (?id n) = Suc n" "unat (?id k) = Suc k" using id n by blast+
      ultimately show "n = k" by (simp only:)
    qed
    ultimately have "card {..<96 :: nat} \<le> card {5..<100 :: nat}" by (intro card_inj_on_le) auto
    then show False by simp
  qed
  then obtain n where n: "n < 96" "?m (?id n) = None" by blast
  note least = first_unused_least [of ?m "?id n", OF n(2)]
  have "(LEAST n. ?m (?id n) = None) \<le> n" by (rule Least_le [of "\<lambda>n. ?m (?id n) = None", OF n(2)])
  then have "(LEAST n. ?m (?id n) = None) < 96" using n(1) by simp
  then show ?thesis using least(1) id by (auto simp: word_le_nat_alt)
qed

text \<open>C17. The scan of \<^verbatim>\<open>allocateStream\<close>, written with a wrapping 32-bit counter and no bound, gives the
  least number from 1 on that is not the id of a stream of the connection; in every state a server can
  reach it ends within 96 steps.\<close>

theorem allocateStream_least:
  fixes w c
  assumes "server_handler user" and "encodes_create_reply e" and "server_reachable e user (polite e) w"
  defines "used \<equiv> \<lambda>n. cn_streams (w_conn w c) (word_of_nat n) \<noteq> None"
  shows "(LEAST n. 0 < n \<and> \<not> used n) \<le> 96 \<and>
     allocateStream c csid w = (let i = word_of_nat (LEAST n. 0 < n \<and> \<not> used n); s = w_nstrm w in
       Some (s, upd_conn c (\<lambda>cn. cn\<lparr>cn_streams := (cn_streams cn)(i \<mapsto> s)\<rparr>)
         (w\<lparr>w_strm := (w_strm w)(s := newStream i c csid), w_nstrm := s + 1\<rparr>)))"
proof -
  have "tables_ok w" using server_reachable_inv [OF assms(1-3)] by (simp add: server_inv_def)
  then obtain i where i: "first_unused (cn_streams (w_conn w c)) 1 = Some i" "1 \<le> i" "i \<le> 96"
    using first_unused_bound by blast
  have least: "(LEAST n. 0 < n \<and> \<not> used n) = unat i"
  proof (rule Least_equality)
    show "0 < unat i \<and> \<not> used (unat i)"
      using i(2) stream_ids.alloc_free [OF i(1)] by (simp add: used_def word_le_nat_alt)
  next
    fix n assume n: "0 < n \<and> \<not> used n"
    show "unat i \<le> n"
    proof (rule ccontr)
      assume "\<not> unat i \<le> n"
      moreover have "unat i \<le> 96" using i(3) by (simp add: word_le_nat_alt)
      ultimately have small: "n < unat i" "n < 2 ^ 32" by simp_all
      then have "unat (word_of_nat n :: u32) = n" by (simp add: unat_of_nat_small)
      moreover from this n have "(1 :: u32) \<le> word_of_nat n" by (simp add: word_le_nat_alt)
      ultimately have "scan_rank (word_of_nat n) < scan_rank i"
        using small(1) i(2) n by (simp add: scan_rank_def unat_sub, linarith)
      with stream_ids.alloc_first [OF i(1)] n show False by (simp add: used_def)
    qed
  qed
  with i show ?thesis by (simp add: allocateStream_def word_le_nat_alt)
qed

lemma allocateStream_least_witness:
  "\<exists>w i. sample_at w \<and> cn_streams (w_conn w 0) = [1 \<mapsto> 0, 2 \<mapsto> 1] \<and> i \<le> 96 \<and>
     (\<exists>w'. allocateStream 0 9 w = Some (w_nstrm w, w') \<and> w_strm w' (w_nstrm w) = newStream (word_of_nat i) 0 9)"
proof -
  obtain w where w: "sample_at w" "cn_streams (w_conn w 0) = [1 \<mapsto> 0, 2 \<mapsto> 1]"
    using sample_two_streams by blast
  then have "server_reachable sample_env demo_Invoke (polite sample_env) w" by (simp add: sample_at_def)
  from allocateStream_least [OF demo.server_handler_axioms sample_encodes this, of 0 9] w show ?thesis
    by (intro exI [of _ w]) (auto simp: Let_def upd_conn_def)
qed

section \<open>play\<close>



section \<open>A publisher that plays\<close>

lemma stream_invokePlay_played:
  assumes run: "stream_invokePlay e s cmd w = Some (Ok (None, w'))" and handler: "strm_handler (w_strm w s) \<noteq> None"
  shows "\<exists>w1. quiet w w1 \<and> w' = playing s cmd w1"
proof -
  let ?s1 = "stream_SendCommand e s (play_status (StatusPlayReset ''reset'') (playName cmd))"
  let ?s2 = "stream_SendCommand e s (play_status (StatusPlayStart ''play'') (playName cmd))"
  let ?rest = "\<lambda>w. let w = upd_strm s (\<lambda>st. st\<lparr>strm_name := playName cmd, strm_playing := True\<rparr>) w in
       ret None (if strm_handler (w_strm w s) \<noteq> None then ss_OnPlay s w else w)"
  have "playName cmd \<noteq> []" using run by (auto simp: stream_invokePlay_def ret_def)
  then have "and_then ?s1 (and_then ?s2 ?rest) w = Some (Ok (None, w'))"
    using run by (simp add: stream_invokePlay_def)
  then obtain w1 w2 where w: "?s1 w = Some (Ok (None, w1))" "?s2 w1 = Some (Ok (None, w2))" "?rest w2 = Some (Ok (None, w'))"
    by (auto elim!: and_then_cases)
  have "quiet w w2"
    by (rule quiet_trans [OF withinD [OF quiet_stream_SendCommand w(1)] withinD [OF quiet_stream_SendCommand w(2)]])
  moreover from calm_fields(4) [OF quiet_calm [OF this]] w(3) handler have "w' = playing s cmd w2"
    by (simp add: playing_def Let_def ret_def)
  ultimately show ?thesis by blast
qed

text \<open>C30. A stream that publishes one name and then plays another: \<^verbatim>\<open>invokePlay\<close> overwrites the name the
  stream publishes under. When the stream is destroyed, the server closes the media stream of the name
  it played, another client's, and takes that name out of the registry, while its own name stays
  registered although its publisher is gone.\<close>

theorem play_hijacks_name:
  assumes pub: "strm_publishing (w_strm w s)" "strm_name (w_strm w s) \<noteq> playName cmd"
    and handler: "strm_handler (w_strm w s) \<noteq> None"
    and other: "w_streams w (playName cmd) = Some m"
    and run: "ss_DoInvoke e s (stream_Invoke e s) (CPlay cmd) w = Some (Ok (None, w1))"
  shows "strm_publishing (w_strm w1 s) \<and> strm_name (w_strm w1 s) = playName cmd \<and>
     ms_done (w_media (sc_OnDestroyStream e s w1) m) \<and>
     w_streams (sc_OnDestroyStream e s w1) = (w_streams w)(playName cmd := None)"
proof -
  have play: "ss_invokePlay e s cmd (stream_Invoke e s) w = Some (Ok (None, w1))"
    using run by (simp add: ss_DoInvoke_def)
  have "w_streams w1 = w_streams w \<and> strm_publishing (w_strm w1 s) \<and> strm_name (w_strm w1 s) = playName cmd"
    using play
  proof (cases rule: ss_invokePlay_cases)
    case (2 wa wb)
    have "strm_handler (w_strm wa s) \<noteq> None" using handler calm_fields(4) [OF 2(1)] by simp
    then obtain wc where wc: "quiet wa wc" "wb = playing s cmd wc"
      using stream_invokePlay_played [OF 2(2)] by blast
    have same: "w_streams wc = w_streams w" "w_strm wc = w_strm w"
      using calm_fields(1,4) [OF calm_trans [OF 2(1) quiet_calm [OF wc(1)]]] by simp_all
    have "w_streams wb = w_streams w" "strm_publishing (w_strm wb s)" "strm_name (w_strm wb s) = playName cmd"
      using pub(1) same by (simp_all add: wc(2) playing_def ss_OnPlay_def Let_def)
    then show ?thesis using calm_fields(1,4) [OF 2(3)] by simp
  qed simp
  then have w1: "w_streams w1 = w_streams w" "strm_publishing (w_strm w1 s)" "strm_name (w_strm w1 s) = playName cmd"
    by blast+
  let ?w2 = "delStream (playName cmd) (media_Close e m w1)"
  have "close_media_of e s w1 = ?w2"
    using w1 other by (simp add: close_media_of_def getStream_def)
  then have "sc_OnDestroyStream e s w1 = tell (UDestroyStream s)
      (if strm_playing (w_strm ?w2 s) then close_player_of e s ?w2 else ?w2)"
    using w1(2) by (simp add: sc_OnDestroyStream_def Let_def)
  moreover have "w_streams ?w2 = (w_streams w)(playName cmd := None)" "ms_done (w_media ?w2 m)"
    using w1(1) by (simp_all add: delStream_def media_Close_def media_event_def)
  ultimately show ?thesis
    using w1(2,3) calm_fields(1,12) [OF calm_close_player_of [of ?w2 e s]] by simp
qed

text \<open>Stream 2 publishes \<^verbatim>\<open>e\<close>, then plays \<^verbatim>\<open>d\<close>, which stream 1 publishes.\<close>

lemma play_hijacks_name_witness:
  "\<exists>w m m' w1. sample_at w \<and> w_streams w ''d'' = Some m \<and> w_streams w ''e'' = Some m' \<and>
     strm_publishing (w_strm w 1) \<and> strm_name (w_strm w 1) = ''e'' \<and>
     ss_DoInvoke sample_env 1 (stream_Invoke sample_env 1) (CPlay (sample_plays 2 ''d'')) w = Some (Ok (None, w1)) \<and>
     ms_done (w_media (sc_OnDestroyStream sample_env 1 w1) m) \<and>
     w_streams (sc_OnDestroyStream sample_env 1 w1) ''d'' = None \<and>
     w_streams (sc_OnDestroyStream sample_env 1 w1) ''e'' = Some m'"
proof -
  obtain w m m' h where w: "sample_at w" "cn_streams (w_conn w 0) = [1 \<mapsto> 0, 2 \<mapsto> 1]" "w_players w = Map.empty"
     "w_streams w ''d'' = Some m" "w_streams w ''e'' = Some m'" "strm_publishing (w_strm w 1)"
     "strm_name (w_strm w 1) = ''e''" "strm_handler (w_strm w 1) = Some h"
    using sample_two_publishers by blast
  have "cn_streams (w_conn w 0) 2 = Some 1" using w(2) by simp
  note place = sample_place [OF w(1) this]
  have "\<not> refused sample_env m w"
    using sample_inv [OF w(1)] w(4) unfolding server_inv_def registered_open_def refused_def by blast
  then obtain w1 where run:
    "ss_DoInvoke sample_env 1 (stream_Invoke sample_env 1) (CPlay (sample_plays 2 ''d'')) w = Some (Ok (None, w1))"
    using play_healthy [where cmd = "sample_plays 2 ''d''" and s = 1 and w = w and m = m,
        OF _ _ _ _ _ _ sample_flushes _ _ _ sample_replies(4) sample_replies(4)] w place
    by (auto simp: sample_at_def)
  have reg: "w_streams w (playName (sample_plays 2 ''d'')) = Some m" using w(4) by simp
  from play_hijacks_name [OF w(6) _ _ reg run] w run show ?thesis
    by - (rule exI [where x = w], rule exI [where x = m], rule exI [where x = m'], rule exI [where x = w1], auto)
qed

section \<open>Errors\<close>



end
