(* ===== verification/Server_Growth.thy ===== *)
theory Server_Growth
  imports Server_Success
begin

text \<open>
  What only grows: the ids handed out, the channels of the media streams, the messages sent on a
  connection; and what handling a message leaves alone: the connections there are, how many of
  them have ended, and that their bytes carry the messages sent. For each handler the same lemma states both, the first under the condition that
  the registry and the handler's own stream are in range.
\<close>

section \<open>The relations\<close>

definition counts :: "world \<Rightarrow> world \<Rightarrow> bool" where
  "counts w w' \<longleftrightarrow> w_nconn w' = w_nconn w \<and> w_connections w' = w_connections w \<and>
     (\<forall>c. cn_finished (w_conn w' c) = cn_finished (w_conn w c) \<and> (wired (w_conn w c) \<longrightarrow> wired (w_conn w' c)))"

text \<open>What a player has done so far, where it reads and where it sends.\<close>

definition player_core :: "mediaPlayer \<Rightarrow> nat \<times> nat \<times> nat \<times> mb_loop \<times> nat \<times> flvTag list" where
  "player_core mp = (mp_ms mp, mp_sub mp, mp_s mp, mp_mb mp, mp_taken mp, mp_sent mp)"

definition in_place :: "world \<Rightarrow> mediaPlayer \<Rightarrow> bool" where
  "in_place w mp \<longleftrightarrow> mp_ms mp < w_nmedia w \<and> mp_s mp < w_nstrm w \<and> strm_conn (w_strm w (mp_s mp)) < w_nconn w"

definition unused :: "mediaPlayer \<Rightarrow> bool" where
  "unused mp \<longleftrightarrow> mp_mb mp = mb_start (4 * 1024 * 1024) \<and> mp_taken mp = 0 \<and> mp_sent mp = []"

text \<open>\<open>grows X\<close>: the players in \<open>X\<close> may have moved on.\<close>

definition grows :: "nat set \<Rightarrow> world \<Rightarrow> world \<Rightarrow> bool" where
  "grows X w w' \<longleftrightarrow> w_nconn w \<le> w_nconn w' \<and>
     (\<forall>c<w_nconn w. prefix (cn_sent (w_conn w c)) (cn_sent (w_conn w' c))) \<and>
     w_nstrm w \<le> w_nstrm w' \<and> (\<forall>s<w_nstrm w. same_place (w_strm w s) (w_strm w' s)) \<and>
     w_nmedia w \<le> w_nmedia w' \<and>
     (\<forall>m<w_nmedia w. \<forall>ch. prefix (ms_chans (w_media w m) ch) (ms_chans (w_media w' m) ch)) \<and>
     w_nplayer w \<le> w_nplayer w' \<and>
     (\<forall>p<w_nplayer w. p \<notin> X \<longrightarrow> player_core (w_player w' p) = player_core (w_player w p)) \<and>
     (\<forall>p. w_nplayer w \<le> p \<longrightarrow> p < w_nplayer w' \<longrightarrow> p \<notin> X \<longrightarrow> unused (w_player w' p) \<and> in_place w' (w_player w' p))"

definition reg_bound :: "world \<Rightarrow> bool" where
  "reg_bound w \<longleftrightarrow> (\<forall>n m. w_streams w n = Some m \<longrightarrow> m < w_nmedia w)"

definition good :: "nat set \<Rightarrow> world \<Rightarrow> bool" where
  "good S w \<longleftrightarrow> reg_bound w \<and> (\<forall>s\<in>S. s < w_nstrm w \<and> strm_conn (w_strm w s) < w_nconn w)"

text \<open>The media streams have moved on without taking a tag; a stream has a media stream in its handler only
  while it publishes.\<close>

definition silent :: "env \<Rightarrow> mediaStream \<Rightarrow> mediaStream \<Rightarrow> bool" where
  "silent e ms ms' \<longleftrightarrow> (\<exists>evs. published evs = [] \<and> ms' = ms_run (e_rate e) ms evs)"

definition ready :: "stream \<Rightarrow> bool" where
  "ready st \<longleftrightarrow> (\<forall>h. strm_handler st = Some h \<longrightarrow> sh_mediaStream h \<noteq> None \<longrightarrow> strm_publishing st)"

definition unpublished :: "env \<Rightarrow> world \<Rightarrow> world \<Rightarrow> bool" where
  "unpublished e w w' \<longleftrightarrow> w_nmedia w \<le> w_nmedia w' \<and>
     (\<forall>m<w_nmedia w. w_owner w' m = w_owner w m \<and> silent e (w_media w m) (w_media w' m)) \<and>
     (\<forall>m. w_nmedia w \<le> m \<longrightarrow> m < w_nmedia w' \<longrightarrow> silent e NewMediaStream (w_media w' m)) \<and>
     ((\<forall>s. ready (w_strm w s)) \<longrightarrow> (\<forall>s. ready (w_strm w' s)))"

text \<open>\<open>grown\<close> is what every handler does, \<open>steady\<close> what every handler but that of media messages does.\<close>

definition grown :: "nat set \<Rightarrow> world \<Rightarrow> world \<Rightarrow> bool" where
  "grown S w w' \<longleftrightarrow> counts w w' \<and> (good S w \<longrightarrow> good S w' \<and> grows {} w w')"

definition steady :: "env \<Rightarrow> nat set \<Rightarrow> world \<Rightarrow> world \<Rightarrow> bool" where
  "steady e S w w' \<longleftrightarrow> grown S w w' \<and> unpublished e w w'"

lemma silent_refl [simp]: "silent e ms ms"
  unfolding silent_def by (rule exI [of _ "[]"]) simp

lemma silent_trans: "silent e ms ms' \<Longrightarrow> silent e ms' ms'' \<Longrightarrow> silent e ms ms''"
  unfolding silent_def ms_run_def by (metis append_Nil foldl_append published_append)

lemma silent_step: "published [ev] = [] \<Longrightarrow> silent e ms (ms_step (e_rate e) ms ev)"
  unfolding silent_def by (rule exI [of _ "[ev]"]) simp

lemma unpublished_refl: "unpublished e w w"
  by (simp add: unpublished_def)

lemma unpublished_trans:
  assumes 1: "unpublished e w w'" and 2: "unpublished e w' w''"
  shows "unpublished e w w''"
  unfolding unpublished_def
proof (intro conjI allI impI)
  show "w_nmedia w \<le> w_nmedia w''" using 1 2 by (simp add: unpublished_def)
  have le: "w_nmedia w \<le> w_nmedia w'" using 1 by (simp add: unpublished_def)
  fix m
  show "w_owner w'' m = w_owner w m" "silent e (w_media w m) (w_media w'' m)" if "m < w_nmedia w"
    using 1 2 that le unfolding unpublished_def by (force intro: silent_trans)+
  show "silent e NewMediaStream (w_media w'' m)" if "w_nmedia w \<le> m" "m < w_nmedia w''"
  proof (cases "m < w_nmedia w'")
    case True
    with 1 2 that show ?thesis unfolding unpublished_def by (blast intro: silent_trans)
  next
    case False
    with 2 that show ?thesis unfolding unpublished_def by simp
  qed
qed (use 1 2 in \<open>simp add: unpublished_def\<close>)

lemma unpublished_same:
  "w_nmedia w' = w_nmedia w \<Longrightarrow> w_owner w' = w_owner w \<Longrightarrow> w_media w' = w_media w \<Longrightarrow> w_strm w' = w_strm w \<Longrightarrow>
     unpublished e w w'"
  by (simp add: unpublished_def)

lemma counts_refl: "counts w w"
  by (simp add: counts_def)

lemma grows_refl: "grows X w w"
  by (simp add: grows_def same_place_def)

lemma same_place_trans: "same_place a b \<Longrightarrow> same_place b c \<Longrightarrow> same_place a c"
  by (simp add: same_place_def)

lemma player_core_kept:
  assumes "player_core mp' = player_core mp"
  shows "unused mp' = unused mp" "mp_ms mp' = mp_ms mp" "mp_s mp' = mp_s mp" "mp_sub mp' = mp_sub mp"
    "mp_mb mp' = mp_mb mp" "mp_taken mp' = mp_taken mp" "mp_sent mp' = mp_sent mp"
  using assms by (simp_all add: player_core_def unused_def)

lemma in_place_grows:
  assumes "in_place w mp" "grows X w w'" "player_core mp' = player_core mp"
  shows "in_place w' mp'"
proof -
  note core = player_core_kept [OF assms(3)]
  have at: "mp_s mp < w_nstrm w" "mp_ms mp < w_nmedia w" "strm_conn (w_strm w (mp_s mp)) < w_nconn w"
    using assms(1) by (simp_all add: in_place_def)
  have "same_place (w_strm w (mp_s mp)) (w_strm w' (mp_s mp))" "w_nstrm w \<le> w_nstrm w'" "w_nmedia w \<le> w_nmedia w'"
    "w_nconn w \<le> w_nconn w'"
    using assms(2) at(1) unfolding grows_def by blast+
  with at core show ?thesis by (simp add: in_place_def same_place_def)
qed

lemma grows_trans:
  assumes 1: "grows X w w'" and 2: "grows X w' w''"
  shows "grows X w w''"
  unfolding grows_def
proof (intro conjI allI impI)
  show "w_nconn w \<le> w_nconn w''" "w_nstrm w \<le> w_nstrm w''" "w_nmedia w \<le> w_nmedia w''" "w_nplayer w \<le> w_nplayer w''"
    using 1 2 by (auto simp: grows_def)
  have le: "w_nconn w \<le> w_nconn w'" "w_nstrm w \<le> w_nstrm w'" "w_nmedia w \<le> w_nmedia w'" "w_nplayer w \<le> w_nplayer w'"
    using 1 by (simp_all add: grows_def)
  show "prefix (cn_sent (w_conn w c)) (cn_sent (w_conn w'' c))" if "c < w_nconn w" for c
    using 1 2 that le unfolding grows_def by (meson order_less_le_trans prefix_order.trans)
  show "same_place (w_strm w s) (w_strm w'' s)" if "s < w_nstrm w" for s
    using 1 2 that le unfolding grows_def by (meson order_less_le_trans same_place_trans)
  show "prefix (ms_chans (w_media w m) ch) (ms_chans (w_media w'' m) ch)" if "m < w_nmedia w" for m ch
    using 1 2 that le unfolding grows_def by (meson order_less_le_trans prefix_order.trans)
  show "player_core (w_player w'' p) = player_core (w_player w p)" if "p < w_nplayer w" "p \<notin> X" for p
    using 1 2 that le unfolding grows_def by (metis order_less_le_trans)
  fix p assume p: "w_nplayer w \<le> p" "p < w_nplayer w''" "p \<notin> X"
  have "unused (w_player w'' p) \<and> in_place w'' (w_player w'' p)"
  proof (cases "p < w_nplayer w'")
    case True
    then have core: "player_core (w_player w'' p) = player_core (w_player w' p)" using 2 p unfolding grows_def by blast
    have "unused (w_player w' p)" "in_place w' (w_player w' p)" using 1 p True unfolding grows_def by blast+
    with core player_core_kept(1) [OF core] in_place_grows [OF _ 2 core] show ?thesis by blast
  next
    case False
    with 2 p show ?thesis unfolding grows_def by (meson linorder_not_le)
  qed
  then show "unused (w_player w'' p)" "in_place w'' (w_player w'' p)" by blast+
qed

lemma grown_refl: "grown S w w"
  by (simp add: grown_def counts_refl grows_refl)

lemma grown_trans: "grown S w w' \<Longrightarrow> grown S w' w'' \<Longrightarrow> grown S w w''"
  unfolding grown_def by (auto intro: grows_trans simp: counts_def)

lemma grown_preorder: "reflp (grown S)" "transp (grown S)"
  by (auto intro!: reflpI transpI grown_refl intro: grown_trans)

lemma steady_grown: "steady e S w w' \<Longrightarrow> grown S w w'"
  by (simp add: steady_def)

lemma steady_refl: "steady e S w w"
  by (simp add: steady_def grown_refl unpublished_refl)

lemma steady_trans: "steady e S w w' \<Longrightarrow> steady e S w' w'' \<Longrightarrow> steady e S w w''"
  unfolding steady_def by (blast intro: grown_trans unpublished_trans)

lemma steady_preorder: "reflp (steady e S)" "transp (steady e S)"
  by (auto intro!: reflpI transpI steady_refl intro: steady_trans)

named_theorems steady_intros

lemmas [steady_intros] =
  within_ret [OF steady_preorder(1)] within_and_then [OF steady_preorder(2)]
  within_always [OF steady_preorder(2)] within_on_err [OF steady_preorder(2)] within_if

text \<open>A handler that is steady with no stream of its own is steady with one.\<close>

lemma grown_mono:
  assumes "grown {} w w'"
  shows "grown S w w'"
  unfolding grown_def
proof (intro conjI impI)
  show counts: "counts w w'" using assms by (simp add: grown_def)
  assume g: "good S w"
  then have "good {} w" by (simp add: good_def)
  with assms have g': "good {} w'" and gr: "grows {} w w'" by (simp_all add: grown_def)
  have "s < w_nstrm w' \<and> strm_conn (w_strm w' s) < w_nconn w'" if "s \<in> S" for s
  proof -
    have s: "s < w_nstrm w" "strm_conn (w_strm w s) < w_nconn w" using g that by (auto simp: good_def)
    have "same_place (w_strm w s) (w_strm w' s)" "w_nstrm w \<le> w_nstrm w'" "w_nconn w \<le> w_nconn w'"
      using gr s(1) unfolding grows_def by blast+
    with s show ?thesis by (simp add: same_place_def)
  qed
  with g' show "good S w'" by (simp add: good_def)
  show "grows {} w w'" by (rule gr)
qed

section \<open>Changes that are steady\<close>

lemma steady_mono: "steady e {} w w' \<Longrightarrow> steady e S w w'"
  by (simp add: steady_def grown_mono)

lemma grownI:
  assumes "counts w w'" "reg_bound w \<Longrightarrow> reg_bound w'" "reg_bound w \<Longrightarrow> grows {} w w'"
  shows "grown S w w'"
proof (rule grown_mono)
  show "grown {} w w'" unfolding grown_def good_def ball_empty using assms by blast
qed

lemma steadyI:
  assumes "counts w w'" "reg_bound w \<Longrightarrow> reg_bound w'" "reg_bound w \<Longrightarrow> grows {} w w'" "unpublished e w w'"
  shows "steady e S w w'"
  unfolding steady_def using grownI [OF assms(1-3)] assms(4) by blast

lemma quiet_steady: "quiet w w' \<Longrightarrow> steady e S w w'"
proof -
  assume "quiet w w'"
  then obtain conns clock where w': "w' = w\<lparr>w_conn := conns, w_clock := clock\<rparr>"
    and conns: "\<forall>c. conn_core (conns c) = conn_core (w_conn w c) \<and> prefix (cn_sent (w_conn w c)) (cn_sent (conns c)) \<and>
      (wired (w_conn w c) \<longrightarrow> wired (conns c))"
    unfolding quiet_def by blast
  have "cn_finished (conns c) = cn_finished (w_conn w c)" for c using conns by (simp add: conn_core_def)
  with conns show ?thesis
    unfolding w' by (intro steadyI) (simp_all add: counts_def reg_bound_def grows_def unpublished_def same_place_def)
qed

lemma quiet_act_steady: "quiet_act a \<Longrightarrow> within (steady e S) a"
  by (auto simp: within_def intro: quiet_steady)

lemma steady_tell: "steady e S w (tell cb w)"
  by (intro steadyI) (simp_all add: tell_def counts_def reg_bound_def grows_def unpublished_def same_place_def)

lemma steady_tick: "steady e S w (tick w)"
  by (intro steadyI) (simp_all add: tick_def counts_def reg_bound_def grows_def unpublished_def same_place_def)

lemma steady_upd_strm:
  "same_place (w_strm w s) (f (w_strm w s)) \<Longrightarrow> (ready (w_strm w s) \<Longrightarrow> ready (f (w_strm w s))) \<Longrightarrow>
     steady e S w (upd_strm s f w)"
  by (intro steadyI) (auto simp: upd_strm_def counts_def reg_bound_def grows_def unpublished_def same_place_def)

lemma steady_upd_player:
  "player_core (f (w_player w p)) = player_core (w_player w p) \<Longrightarrow> steady e S w (upd_player p f w)"
  by (intro steadyI) (auto simp: upd_player_def counts_def reg_bound_def grows_def unpublished_def same_place_def)

lemma steady_upd_conn:
  "cn_finished (f (w_conn w c)) = cn_finished (w_conn w c) \<Longrightarrow> cn_sent (f (w_conn w c)) = cn_sent (w_conn w c) \<Longrightarrow>
     (wired (w_conn w c) \<Longrightarrow> wired (f (w_conn w c))) \<Longrightarrow> steady e S w (upd_conn c f w)"
  by (intro steadyI) (auto simp: upd_conn_def counts_def reg_bound_def grows_def unpublished_def same_place_def)

lemma steady_registries:
  "steady e S w (delStream n w)" "steady e S w (delPlayer t w)" "steady e S w (snd (putPlayer t p w))"
  by (intro steadyI; auto simp: delStream_def delPlayer_def putPlayer_def counts_def reg_bound_def grows_def unpublished_def
      same_place_def split: option.split)+

lemma ms_step_prefix: "prefix (ms_chans ms ch) (ms_chans (ms_step rate ms ev) ch)"
proof (cases ev)
  case (Publish t)
  then show ?thesis by (simp add: broadcast_def split: option.split)
qed (auto simp: subscribe_def unsubscribe_def shutdown_def on_chan_def Let_def split: option.split)

lemma grown_media_event: "grown S w (media_event e m ev w)"
  by (intro grownI) (simp_all add: media_event_def counts_def reg_bound_def grows_def same_place_def ms_step_prefix)

lemma steady_media_event: "published [ev] = [] \<Longrightarrow> steady e S w (media_event e m ev w)"
  by (intro steadyI) (simp_all add: silent_step media_event_def counts_def reg_bound_def grows_def unpublished_def same_place_def ms_step_prefix)

lemma steady_snd: "f w = (x, w') \<Longrightarrow> steady e S w (snd (f w)) \<Longrightarrow> steady e S w w'"
  by simp

lemma steady_media_Close: "steady e S w (media_Close e m w)"
  unfolding media_Close_def by (rule steady_media_event) simp

lemma steady_media_Unsubscribe: "steady e S w (media_Unsubscribe e m ch w)"
  unfolding media_Unsubscribe_def
  by (auto intro: steady_tick steady_trans [OF steady_tick steady_media_event])

lemma steady_mp_Close: "steady e S w (mp_Close e p w)"
  unfolding mp_Close_def by (rule steady_media_Unsubscribe)

lemma steady_media_Subscribe: "steady e S w (snd (media_Subscribe e m w))"
  unfolding media_Subscribe_def
  by (auto intro: steady_tick steady_trans [OF steady_tick steady_media_event])

lemma grown_media_Publish: "within (grown S) (media_Publish e m tag)"
  unfolding within_def media_Publish_def ret_def
  by (auto split: if_splits intro: steady_grown [OF steady_tick] grown_trans [OF steady_grown [OF steady_tick] grown_media_event])

lemma steady_new_media: "steady e S w (snd (new_media s w))"
  by (intro steadyI) (auto simp: new_media_def Let_def counts_def reg_bound_def grows_def unpublished_def same_place_def
      intro: less_SucI)

lemma steady_events: "strm_publishing (w_strm w s) \<Longrightarrow> steady e S w (ss_OnPublish s w)" "steady e S w (ss_OnPlay s w)"
  unfolding ss_OnPublish_def ss_OnPlay_def Let_def
  by (rule steady_trans [OF steady_upd_strm steady_tell]; auto simp: same_place_def ready_def)+

lemma steady_destroy: "steady e S w (sc_OnDestroyStream e s w)"
proof -
  have media: "steady e S w (close_media_of e s w)" for w
    by (simp add: close_media_of_def steady_refl split: option.split)
      (blast intro: steady_trans steady_media_Close steady_registries)
  have player: "steady e S w (close_player_of e s w)" for w
    by (simp add: close_player_of_def steady_refl split: option.split)
      (blast intro: steady_trans steady_mp_Close steady_registries)
  show ?thesis
    unfolding sc_OnDestroyStream_def Let_def
    by (rule steady_trans [OF _ steady_tell], rule steady_trans [where w' = "if strm_publishing (w_strm w s) then close_media_of e s w else w"])
      (auto simp: steady_refl media player)
qed

section \<open>Handlers\<close>

lemma within_case_err: "within R a \<Longrightarrow> within R b \<Longrightarrow> within R (\<lambda>w. if P w then a w else b w)"
  by (simp add: within_def)

lemma steady_stream_invokePublish: "within (steady e S) (stream_invokePublish e s cmd)"
proof -
  let ?f = "\<lambda>st. st\<lparr>strm_name := pubName cmd, strm_publishing := True\<rparr>"
  have named: "steady e S w (upd_strm s ?f w)" for w
    by (rule steady_upd_strm) (simp_all add: same_place_def ready_def)
  have "strm_publishing (w_strm (upd_strm s ?f w) s)" for w by (simp add: upd_strm_def)
  then have told: "steady e S w (ss_OnPublish s (upd_strm s ?f w))" for w
    by (rule steady_trans [OF named steady_events(1)])
  have tail: "within (steady e S) (\<lambda>w. let w = upd_strm s ?f w in
           ret None (if strm_handler (w_strm w s) \<noteq> None then ss_OnPublish s w else w))"
    using named told by (auto simp: within_def Let_def ret_def)
  have "within (steady e S) (and_then (conn_SendCommand e c x) (\<lambda>w. let w = upd_strm s (\<lambda>st. st\<lparr>strm_name := pubName cmd,
         strm_publishing := True\<rparr>) w in ret None (if strm_handler (w_strm w s) \<noteq> None then ss_OnPublish s w else w)))" for c x
    by (intro steady_intros tail quiet_act_steady quiet_conn_SendCommand)
  then show ?thesis
    unfolding stream_invokePublish_def within_def by (auto simp: ret_def steady_refl split: if_splits)
qed

lemma steady_stream_invokePlay: "within (steady e S) (stream_invokePlay e s cmd)"
proof -
  have tail: "within (steady e S) (\<lambda>w. let w = upd_strm s (\<lambda>st. st\<lparr>strm_name := playName cmd, strm_playing := True\<rparr>) w in
           ret None (if strm_handler (w_strm w s) \<noteq> None then ss_OnPlay s w else w))"
    unfolding within_def Let_def ret_def
    by (auto split: if_splits intro!: steady_upd_strm steady_trans [OF steady_upd_strm steady_events(2)]
        simp: same_place_def ready_def)
  show ?thesis
    unfolding stream_invokePlay_def if_distribR
    by (intro within_case_err steady_intros tail quiet_act_steady quiet_stream_SendCommand)
qed

lemma steady_stream_Invoke: "within (steady e S) (stream_Invoke e s cmd)"
  by (cases cmd) (auto simp: stream_Invoke_def steady_stream_invokePublish steady_stream_invokePlay
      intro: steady_intros)

text \<open>A new media stream is in range when its name is registered.\<close>

lemma steady_register:
  assumes "m < w_nmedia w"
  shows "steady e S w (w\<lparr>w_streams := (w_streams w)(n \<mapsto> m)\<rparr>)"
  using assms by (intro steadyI) (auto simp: counts_def reg_bound_def grows_def unpublished_def same_place_def)

lemma steady_ss_invokePublish: "within (steady e S) (ss_invokePublish e s cmd (stream_Invoke e s))"
  unfolding within_def
proof (intro allI impI)
  fix w r w' assume run: "ss_invokePublish e s cmd (stream_Invoke e s) w = Some (Ok (r, w'))"
  obtain m w0 where new: "new_media s w = (m, w0)" by (cases "new_media s w")
  have w0: "steady e S w w0" using steady_new_media [of e S w s] new by simp
  have m: "m < w_nmedia w0" using new by (auto simp: new_media_def Let_def)
  show "steady e S w w'"
  proof (cases "w_streams w0 (pubName cmd)")
    case None
    let ?w = "w0\<lparr>w_streams := (w_streams w0)(pubName cmd \<mapsto> m)\<rparr>"
    from run new None have "on_err (stream_Invoke e s (CPublish cmd))
        (\<lambda>er w. ret (Some er) (media_Close e m (delStream (pubName cmd) w))) ?w = Some (Ok (r, w'))"
      by (simp add: ss_invokePublish_def putStream_def)
    then have "steady e S ?w w'"
    proof (cases rule: on_err_cases)
      case 1
      show ?thesis by (rule withinD [OF steady_stream_Invoke 1(1)])
    next
      case (2 er w1)
      have "steady e S ?w w1" by (rule withinD [OF steady_stream_Invoke 2(1)])
      moreover have "w' = media_Close e m (delStream (pubName cmd) w1)" using 2(2) by (simp add: ret_def)
      ultimately show ?thesis
        using steady_trans [OF steady_registries(1) steady_media_Close] by (blast intro: steady_trans)
    qed
    then show ?thesis using steady_trans [OF w0 steady_register [OF m]] by (blast intro: steady_trans)
  next
    case (Some m')
    with run new have "w' = media_Close e m w0" by (simp add: ss_invokePublish_def putStream_def ret_def)
    with w0 show ?thesis by (blast intro: steady_trans steady_media_Close)
  qed
qed

text \<open>A new player is in range when its media stream is registered and its stream is in range.\<close>

lemma steady_NewMediaPlayer:
  assumes new: "NewMediaPlayer e m s w = (x, w')" and reg: "w_streams w n = Some m" and s: "s \<in> S"
  shows "steady e S w w'"
proof (cases "refused e m w")
  case True
  with new have "w' = tick w" by (auto simp: NewMediaPlayer_def media_Subscribe_def)
  then show ?thesis by (simp add: steady_tick)
next
  case False
  let ?w1 = "media_event e m Subscribe (tick w)"
  have w': "w' = ?w1\<lparr>w_player := (w_player ?w1)(w_nplayer ?w1 := new_player m (ms_next (w_media w m)) s),
      w_nplayer := w_nplayer ?w1 + 1\<rparr>" (is "_ = ?w2")
    using new False by (auto simp: NewMediaPlayer_def media_Subscribe_def Let_def)
  have first: "steady e S w ?w1" by (rule steady_trans [OF steady_tick steady_media_event]) simp
  have "grown S ?w1 ?w2" if "m < w_nmedia ?w1"
    unfolding grown_def
  proof (intro conjI impI)
    show "counts ?w1 ?w2" by (simp add: counts_def)
    assume g: "good S ?w1"
    then show "good S ?w2" by (simp add: good_def reg_bound_def)
    have "s < w_nstrm ?w1" "strm_conn (w_strm ?w1 s) < w_nconn ?w1" using g s by (auto simp: good_def)
    with that show "grows {} ?w1 ?w2"
      by (auto simp: grows_def unpublished_def same_place_def unused_def in_place_def)
  qed
  moreover have "m < w_nmedia ?w1" if "good S w"
    using that reg by (auto simp: good_def reg_bound_def media_event_def tick_def)
  moreover have "counts w ?w2"
    by (simp add: counts_def media_event_def tick_def)
  moreover have "unpublished e ?w1 ?w2" by (rule unpublished_same) simp_all
  ultimately show ?thesis
    using first grows_trans unpublished_trans unfolding w' steady_def grown_def by blast
qed

lemma steady_mp_Start: "steady e S w (mp_Start p w)"
  unfolding mp_Start_def by (rule steady_upd_player) (simp add: player_core_def)

lemma steady_ss_invokePlay:
  assumes s: "s \<in> S"
  shows "within (steady e S) (ss_invokePlay e s cmd (stream_Invoke e s))"
  unfolding within_def
proof (intro allI impI)
  fix w r w' assume run: "ss_invokePlay e s cmd (stream_Invoke e s) w = Some (Ok (r, w'))"
  show "steady e S w w'"
  proof (cases "getStream (playName cmd) w")
    case None
    with run show ?thesis by (simp add: ss_invokePlay_def ret_def steady_refl)
  next
    case (Some m)
    obtain x w1 where new: "NewMediaPlayer e m s w = (x, w1)" by (cases "NewMediaPlayer e m s w")
    have first: "steady e S w w1"
      using Some by (intro steady_NewMediaPlayer [OF new _ s]) (simp add: getStream_def)
    show ?thesis
    proof (cases x)
      case (Ok p)
      let ?w = "case putPlayer s p w1 of (True, w) \<Rightarrow> w | (False, w) \<Rightarrow> delPlayer s (mp_Close e p w)"
      obtain ok w2 where put: "putPlayer s p w1 = (ok, w2)" by (cases "putPlayer s p w1")
      have second: "steady e S w1 w2" using steady_registries(3) [of e S w1 s p] put by simp
      have "steady e S w2 ?w"
        using put steady_trans [OF steady_mp_Close steady_registries(2)] by (cases ok) (simp_all add: steady_refl)
      then have start: "steady e S w ?w" by (rule steady_trans [OF steady_trans [OF first second]])
      obtain er w3 where play: "stream_Invoke e s (CPlay cmd) ?w = Some (Ok (er, w3))"
        and w': "w' = (case er of None \<Rightarrow> mp_Start p w3 | Some er \<Rightarrow> mp_Close e p (delPlayer s w3))"
        using run Some new Ok
        by (auto simp: ss_invokePlay_def Let_def ret_def split: option.splits res.splits)
      have "steady e S w3 w'"
        unfolding w' using steady_trans [OF steady_registries(2) steady_mp_Close]
        by (cases er) (simp_all add: steady_mp_Start)
      then show ?thesis
        by (rule steady_trans [OF steady_trans [OF start withinD [OF steady_stream_Invoke play]]])
    qed (use run Some new first in \<open>simp_all add: ss_invokePlay_def ret_def\<close>)
  qed
qed

lemma steady_ss_DoInvoke: "s \<in> S \<Longrightarrow> within (steady e S) (ss_DoInvoke e s (stream_Invoke e s) cmd)"
  by (cases cmd) (simp_all add: ss_DoInvoke_def steady_ss_invokePublish steady_ss_invokePlay steady_stream_Invoke)

context server_handler
begin

lemma within_user:
  assumes pre: "reflp R" "transp R" and callback: "within R (callback cmd)"
  shows "within R (user c s cmd callback)"
  unfolding within_def
proof (intro allI impI)
  fix w r w' assume "user c s cmd callback w = Some (Ok (r, w'))"
  then show "R w w'"
    using passes_on [of "R w" callback cmd w c s r w'] pre withinD [OF callback] by (blast dest: transpD reflpD)
qed

end

lemma steady_stream_OnCommand:
  assumes user: "server_handler user" and s: "s \<in> S"
  shows "within (steady e S) (stream_OnCommand e user s cmd)"
proof -
  have "within (steady e S) (user c so cmd (ss_DoInvoke e s (stream_Invoke e s)))" for c so
    using user steady_preorder steady_ss_DoInvoke [OF s] by (rule server_handler.within_user)
  then show ?thesis
    using steady_stream_Invoke unfolding within_def stream_OnCommand_def ss_Invoke_def by (auto split: option.splits)
qed

lemma steady_conn_Invoke: "within (steady e S) (conn_Invoke e c cmd)"
proof -
  have connect: "within (steady e S) (conn_invokeConnect e c x)" for x
  proof -
    let ?tail = "always (SetWindowSize e c 2500000) (always (SetPeerBandwidth e c 2500000 2)
             (always (SendStreamBegin e c 0) (always (SetChunkSize e c 4096)
                 (and_then (conn_SendCommand e c (CResult \<lparr>resStreamID = 0,
                      resTransactionID = conTransactionID x,
                      resProperties = VConnectProperties DefaultConnectProperties,
                      resInfo = VConnectInformation DefaultConnectInformation\<rparr>))
                   (update (sc_OnConnect c))))))"
    have told: "within (steady e S) (update (sc_OnConnect c))"
      by (simp add: within_def update_def ret_def sc_OnConnect_def steady_tell)
    have tail: "within (steady e S) ?tail"
      by (intro told steady_intros quiet_act_steady quiet_announcements quiet_conn_SendCommand)
    have "steady e S w w'" if "?tail (upd_conn c (\<lambda>cn. cn\<lparr>cn_app := app\<rparr>) w) = Some (Ok (r, w'))" for app w r w'
      by (rule steady_trans [OF steady_upd_conn withinD [OF tail that]]) simp_all
    then show ?thesis
      unfolding within_def conn_invokeConnect_def
      by (auto simp: ret_def steady_refl split: option.splits amf_value.splits)
  qed
  have create: "within (steady e S) (conn_invokeCreateStream e c txn)" for txn
    unfolding within_def
  proof (intro allI impI)
    fix w r w' assume run: "conn_invokeCreateStream e c txn w = Some (Ok (r, w'))"
    obtain x csw where new: "CreateChunkStream (cn_csw (w_conn w c)) 2 = (x, csw)"
      by (cases "CreateChunkStream (cn_csw (w_conn w c)) 2")
    show "steady e S w w'"
    proof (cases x)
      case (Ok csid)
      let ?w0 = "upd_conn c (\<lambda>cn. cn\<lparr>cn_csw := csw\<rparr>) w"
      obtain s w1 where alloc: "allocateStream c csid ?w0 = Some (s, w1)"
        and rest: "and_then (conn_SendCommand e c (CResult \<lparr>resStreamID = 0, resTransactionID = txn,
               resProperties = VNil, resInfo = VUint32 (strm_id (w_strm w1 s))\<rparr>))
             (always (SendStreamBegin e c (strm_id (w_strm w1 s))) (update (sc_OnCreateStream s))) w1 = Some (Ok (r, w'))"
        using run new Ok by (auto simp: conn_invokeCreateStream_def split: option.splits)
      have "steady e S w ?w0"
        by (rule steady_upd_conn) (auto intro: wired_CreateChunkStream [OF _ new])
      moreover have "steady e S ?w0 w1"
        using alloc by (intro steadyI) (auto simp: allocateStream_def Let_def upd_conn_def counts_def reg_bound_def
            grows_def unpublished_def same_place_def simp: ready_def newStream_def split: option.splits)
      moreover
      have told: "within (steady e S) (update (sc_OnCreateStream s))"
        unfolding within_def update_def ret_def sc_OnCreateStream_def
        by (auto intro: steady_trans [OF steady_upd_strm steady_tell] simp: same_place_def ready_def)
      have "within (steady e S) (and_then (conn_SendCommand e c (CResult \<lparr>resStreamID = 0, resTransactionID = txn,
             resProperties = VNil, resInfo = VUint32 (strm_id (w_strm w1 s))\<rparr>))
           (always (SendStreamBegin e c (strm_id (w_strm w1 s))) (update (sc_OnCreateStream s))))"
        by (intro told steady_intros quiet_act_steady quiet_announcements quiet_conn_SendCommand)
      from withinD [OF this rest] have "steady e S w1 w'" .
      ultimately show ?thesis by (blast intro: steady_trans)
    qed (use run new in \<open>simp_all add: conn_invokeCreateStream_def ret_def steady_refl\<close>)
  qed
  have delete: "within (steady e S) (conn_invokeDeleteStream e c x)" for x
    unfolding within_def conn_invokeDeleteStream_def deleteStream_def
    by (auto simp: ret_def steady_refl split: option.splits
        intro: steady_trans [OF steady_upd_conn steady_destroy])
  have "within (steady e S) (conn_invokeFCPublish e c n)" for n
    unfolding conn_invokeFCPublish_def by (intro steady_intros quiet_act_steady quiet_conn_SendCommand)
  with connect create delete show ?thesis
    by (cases cmd) (auto simp: conn_Invoke_def intro: steady_intros)
qed

lemma steady_sc_Invoke:
  assumes "server_handler user"
  shows "within (steady e S) (sc_Invoke e user c cmd (conn_Invoke e c))"
  unfolding sc_Invoke_def
proof (rule server_handler.within_user [OF assms steady_preorder])
  show "within (steady e S) (sc_DoInvoke e (conn_Invoke e c) cmd)"
    by (cases cmd) (simp_all add: sc_DoInvoke_def sc_invokeConnect_def steady_conn_Invoke within_if steady_intros)
qed

lemma grown_conn_OnReceive: "within (grown S) (conn_OnReceive e c msg)"
proof -
  have "within (grown S) (always (media_Publish e m tag) (ret None))" for m tag
    by (intro within_always [OF grown_preorder(2)] within_ret [OF grown_preorder(1)] grown_media_Publish)
  moreover have "within (grown S) (conn_Fatal e c er)" for er
    using quiet_act_steady [OF quiet_conn_Fatal] steady_grown unfolding within_def by blast
  ultimately show ?thesis
    unfolding within_def conn_OnReceive_def stream_OnReceive_def ss_OnReceive_def
    by (auto simp: ret_def grown_refl split: option.splits if_splits)
qed

text \<open>The streams of a connection are in range.\<close>

definition table_good :: "world \<Rightarrow> nat \<Rightarrow> bool" where
  "table_good w c \<longleftrightarrow> (\<forall>i s. cn_streams (w_conn w c) i = Some s \<longrightarrow> good {s} w)"

lemma conn_OnCommand_steady:
  assumes user: "server_handler user" and cmd: "conn_OnCommand e user c cmd w = Some (Ok (r, w'))"
  shows "\<exists>S. steady e S w w' \<and> (reg_bound w \<and> table_good w c \<longrightarrow> good S w)"
proof -
  have fatal: "within (steady e S) (conn_Fatal e c er)" for S er by (rule quiet_act_steady [OF quiet_conn_Fatal])
  obtain raw where "RawCommand_of cmd = Ok raw" using cmd by (auto simp: conn_OnCommand_def split: res.splits)
  with cmd have raw: "on_err
       (if rcStreamID raw = 0 then sc_Invoke e user c cmd (conn_Invoke e c)
        else (\<lambda>w. case cn_streams (w_conn w c) (rcStreamID raw) of
            Some s \<Rightarrow> stream_OnCommand e user s cmd w
          | None \<Rightarrow> ret (Some (Plain (Errorf ''invalid stream id specified''))) w))
       (\<lambda>er. conn_Fatal e c er) w = Some (Ok (r, w'))"
    by (simp add: conn_OnCommand_def)
  have after: "steady e S w w'" if "\<And>x w1. (if rcStreamID raw = 0 then sc_Invoke e user c cmd (conn_Invoke e c)
        else (\<lambda>w. case cn_streams (w_conn w c) (rcStreamID raw) of
            Some s \<Rightarrow> stream_OnCommand e user s cmd w
          | None \<Rightarrow> ret (Some (Plain (Errorf ''invalid stream id specified''))) w)) w = Some (Ok (x, w1)) \<Longrightarrow>
        steady e S w w1" for S
    using raw that fatal by (elim on_err_cases) (blast dest: withinD intro: steady_trans)+
  show ?thesis
  proof (cases "rcStreamID raw = 0")
    case True
    then show ?thesis
      using withinD [OF steady_sc_Invoke [OF user, of _ "{}"]] by (intro exI [of _ "{}"]) (auto simp: good_def intro: after)
  next
    case stream: False
    show ?thesis
    proof (cases "cn_streams (w_conn w c) (rcStreamID raw)")
      case None
      with stream show ?thesis
        by (intro exI [of _ "{}"]) (auto simp: good_def ret_def steady_refl intro!: after)
    next
      case (Some s)
      with stream have "steady e {s} w w'"
        using withinD [OF steady_stream_OnCommand [OF user, of s "{s}"]] by (intro after) auto
      with Some show ?thesis by (intro exI [of _ "{s}"]) (auto simp: table_good_def)
    qed
  qed
qed

lemma conn_OnMessage_cases:
  assumes "conn_OnMessage e user c msg w = Some (Ok (r, w'))"
  obtains cmd where "conn_OnCommand e user c cmd w = Some (Ok (r, w'))"
    | "conn_OnReceive e c msg w = Some (Ok (r, w'))"
  using assms unfolding conn_OnMessage_def by (auto split: if_splits option.splits res.splits)

lemma conn_OnMessage_steady:
  assumes user: "server_handler user" and run: "conn_OnMessage e user c msg w = Some (Ok (r, w'))"
  shows "counts w w' \<and> (reg_bound w \<and> table_good w c \<longrightarrow> grows {} w w')"
  using run
proof (cases rule: conn_OnMessage_cases)
  case (1 cmd)
  from conn_OnCommand_steady [OF user this] show ?thesis by (auto simp: steady_def grown_def)
next
  case 2
  from withinD [OF grown_conn_OnReceive [of "{}"] 2] show ?thesis by (simp add: grown_def good_def)
qed

section \<open>What is published\<close>

definition tag_of :: "message \<Rightarrow> flvTag" where
  "tag_of msg = \<lparr>ftType = mType msg, ftTimestamp = mAbsoluteTimestamp msg, ftSize = mSize msg,
     ftBytes = (case mBuf msg of Some bs \<Rightarrow> bs | None \<Rightarrow> [])\<rparr>"

text \<open>A message is published, on the media stream of the stream it came on, or no media stream takes a tag.\<close>

definition publishes :: "env \<Rightarrow> nat \<Rightarrow> message \<Rightarrow> world \<Rightarrow> world \<Rightarrow> bool" where
  "publishes e c msg w w' \<longleftrightarrow> (\<exists>s h m. cn_streams (w_conn w c) (mStreamID msg) = Some s \<and>
     strm_handler (w_strm w s) = Some h \<and> sh_mediaStream h = Some m \<and>
     w' = media_event e m (Publish (tag_of msg)) (tick w))"

lemma conn_OnReceive_publishes:
  assumes run: "conn_OnReceive e c msg w = Some (Ok (r, w'))"
  shows "unpublished e w w' \<or> publishes e c msg w w'"
proof -
  have fatal: "unpublished e w w'" if "conn_Fatal e c er w = Some (Ok (r, w'))" for er
    using withinD [OF quiet_act_steady [OF quiet_conn_Fatal] that] by (simp add: steady_def)
  have "unpublished e w w' \<or> w' = media_event e m (Publish tag) (tick w)"
    if "always (media_Publish e m tag) (ret None) w = Some (Ok (r, w'))" for m tag
    using that steady_tick [of e "{}" w]
    by (auto simp: always_def media_Publish_def ret_def steady_def split: if_splits)
  moreover have "unpublished e w w" by (rule unpublished_refl)
  ultimately show ?thesis
    using run fatal unfolding conn_OnReceive_def stream_OnReceive_def ss_OnReceive_def publishes_def tag_of_def
    by (fastforce simp: ret_def split: option.splits if_splits)
qed

lemma conn_OnMessage_publishes:
  assumes user: "server_handler user" and run: "conn_OnMessage e user c msg w = Some (Ok (r, w'))"
  shows "unpublished e w w' \<or> publishes e c msg w w'"
  using run
proof (cases rule: conn_OnMessage_cases)
  case (1 cmd)
  from conn_OnCommand_steady [OF user this] show ?thesis by (auto simp: steady_def)
qed (rule conn_OnReceive_publishes)

end
