(* ===== verification/Server_Pipeline.thy ===== *)
theory Server_Pipeline
  imports Server_Growth Sample_Server
begin

text \<open>
  Two invariants of whole runs of a server: how many connections its counter says are open, and what
  each player has sent compared with the channel of its subscription.
\<close>

section \<open>Connections\<close>

definition active :: "world \<Rightarrow> nat set" where
  "active w = {c. c < w_nconn w \<and> \<not> cn_finished (w_conn w c)}"

lemma finite_active: "finite (active w)"
  by (simp add: active_def)

lemma counts_active: "counts w w' \<Longrightarrow> active w' = active w \<and> w_connections w' = w_connections w"
  by (simp add: counts_def active_def)

lemma grown_counts: "grown S w w' \<Longrightarrow> counts w w'"
  by (simp add: grown_def)

lemma steady_counts: "steady e S w w' \<Longrightarrow> counts w w'"
  by (rule grown_counts [OF steady_grown])

lemma steady_grows: "steady e {} w w' \<Longrightarrow> reg_bound w \<Longrightarrow> grows {} w w'"
  by (simp add: steady_def grown_def good_def)

lemma counts_trans: "counts w w' \<Longrightarrow> counts w' w'' \<Longrightarrow> counts w w''"
  by (simp add: counts_def)

lemma player_turn_cases:
  fixes e p w
  defines "taken \<equiv> upd_player p (\<lambda>mp. mp\<lparr>mp_mb := mb_step (mp_mb mp) Take\<rparr>) w"
  assumes run: "player_turn e p w = Some (Ok (r, w'))"
  obtains (idle) "w' = w" | (returned) "w' = player_return e p w"
    | (sent) tag w1 where "mbl_open (mp_mb (w_player w p))" "front (mbl_buf (mp_mb (w_player w p))) = Some tag"
        "writeTag p tag taken = Some (Ok (None, w1))" "w' = upd_player p (\<lambda>mp. mp\<lparr>mp_sent := mp_sent mp @ [tag]\<rparr>) w1"
    | (broken) tag er w1 where "mbl_open (mp_mb (w_player w p))" "front (mbl_buf (mp_mb (w_player w p))) = Some tag"
        "writeTag p tag taken = Some (Ok (Some er, w1))" "w' = player_return e p w1"
proof (cases "mp_started (w_player w p) \<and> \<not> mp_done (w_player w p) \<and> mbl_open (mp_mb (w_player w p)) \<and>
      front (mbl_buf (mp_mb (w_player w p))) \<noteq> None")
  case False
  with run have "w' = w \<or> w' = player_return e p w"
    by (auto simp: player_turn_def Let_def ret_def split: if_splits)
  with that(1,2) show ?thesis by blast
next
  case True
  then obtain tag where tag: "front (mbl_buf (mp_mb (w_player w p))) = Some tag" by blast
  with True run obtain x w1 where out: "writeTag p tag taken = Some (Ok (x, w1))"
    and w': "w' = (case x of None \<Rightarrow> upd_player p (\<lambda>mp. mp\<lparr>mp_sent := mp_sent mp @ [tag]\<rparr>) w1
        | Some er \<Rightarrow> player_return e p w1)"
    by (auto simp: player_turn_def Let_def ret_def taken_def split: option.splits res.splits)
  show ?thesis
  proof (cases x)
    case None
    with True tag out w' show ?thesis by (intro that(3)) simp_all
  next
    case (Some er)
    with True tag out w' show ?thesis by (intro that(4)) simp_all
  qed
qed

lemma counts_player_turn:
  assumes run: "player_turn e p w = Some (Ok (r, w'))"
  shows "counts w w'"
proof -
  have upd: "counts w (upd_player p f w)" for f w by (simp add: counts_def upd_player_def)
  have returns: "counts w (player_return e p w)" for w
    unfolding player_return_def by (rule counts_trans [OF upd steady_counts [OF steady_mp_Close]])
  have sends: "counts w w1" if "writeTag p tag w = Some (Ok (x, w1))" for w w1 x tag
    using that withinD [OF quiet_stream_Send] quiet_steady steady_counts unfolding writeTag_def by blast
  from run show ?thesis
  proof (cases rule: player_turn_cases)
    case idle
    then show ?thesis by (simp add: counts_refl)
  next
    case returned
    then show ?thesis by (simp add: returns)
  next
    case (sent tag w1)
    show ?thesis
      unfolding sent(4) by (rule counts_trans [OF counts_trans [OF upd sends [OF sent(3)]] upd])
  next
    case (broken tag er w1)
    show ?thesis
      unfolding broken(4) by (rule counts_trans [OF counts_trans [OF upd sends [OF broken(3)]] returns])
  qed
qed

lemma counts_waitClose:
  assumes c: "c < w_nconn w" "\<not> cn_finished (w_conn w c)"
  shows "active (waitClose e c er order w) = active w - {c}"
    "w_connections (waitClose e c er order w) = w_connections w - 1"
proof -
  let ?w1 = "upd_conn c (\<lambda>cn. close_net (e_room e (w_clock w)) (cn\<lparr>cn_csw := Close (cn_csw cn)\<rparr>)) (tick w)"
  let ?w2 = "fold (sc_OnDestroyStream e) order ?w1"
  have "counts w ?w1" by (simp add: counts_def upd_conn_def tick_def wired_close_net wired_Close) (simp add: close_net_def)
  moreover have "counts w1 (fold (sc_OnDestroyStream e) order w1)" for w1
    by (induction order arbitrary: w1)
      (auto simp: counts_refl intro: counts_trans [OF steady_counts [OF steady_destroy [where S = "{}"]]])
  ultimately have "counts w ?w2" by (blast intro: counts_trans)
  note same = this [unfolded counts_def]
  have eq: "waitClose e c er order w = upd_conn c (\<lambda>cn. cn\<lparr>cn_finished := True\<rparr>) (sc_OnClose c er ?w2)"
    by (simp add: waitClose_def Let_def)
  show "active (waitClose e c er order w) = active w - {c}"
    using c same unfolding eq active_def
    by (auto simp: sc_OnClose_def upd_conn_def tell_def)
  show "w_connections (waitClose e c er order w) = w_connections w - 1"
    using same unfolding eq by (simp add: sc_OnClose_def upd_conn_def tell_def Counter_Add_def)
qed

definition counted :: "world \<Rightarrow> bool" where
  "counted w \<longleftrightarrow> w_connections w = word_of_nat (card (active w))"

lemma counted_counts: "counts w w' \<Longrightarrow> counted w \<Longrightarrow> counted w'"
  using counts_active by (auto simp: counted_def)

lemma counted_handle:
  assumes "counted w"
  shows "counted (handle shake out w)"
proof (cases shake)
  case None
  let ?w = "handle shake out w"
  have "active ?w = insert (w_nconn w) (active w)"
    by (auto simp: None active_def handle_def NewConn_def new_conn_def Let_def)
  moreover have "w_nconn w \<notin> active w" by (simp add: active_def)
  ultimately have "card (active ?w) = Suc (card (active w))" by (simp add: finite_active)
  with assms show ?thesis by (simp add: counted_def None handle_def NewConn_def Let_def Counter_Add_def)
next
  case (Some er)
  with assms show ?thesis by (simp add: counted_def handle_def Let_def active_def)
qed

lemma counted_step:
  assumes user: "server_handler user" and step: "server_step e user ok w w'" and inv: "counted w"
  shows "counted w'"
  using step
proof cases
  case (accept out shake)
  with inv show ?thesis by (simp add: counted_handle)
next
  case (receive_message c msg r)
  then show ?thesis using conn_OnMessage_steady [OF user] inv by (blast intro: counted_counts)
next
  case (window_full c n r)
  have "quiet w w'" by (rule withinD [OF quiet_announcements(5) window_full(2)])
  then show ?thesis using inv quiet_steady steady_counts by (blast intro: counted_counts)
next
  case (finish_conn c order er)
  have "c \<in> active w" using finish_conn by (simp add: active_def)
  then have "0 < card (active w)" using finite_active card_gt_0_iff by blast
  then have "(word_of_nat (card (active w - {c})) :: u64) = word_of_nat (card (active w)) - 1"
    using \<open>c \<in> active w\<close> by (simp add: finite_active of_nat_diff)
  then show ?thesis
    using inv finish_conn counts_waitClose [of c w e er order] by (simp add: counted_def)
next
  case (media_returns m)
  then show ?thesis using inv grown_counts [OF grown_media_event] by (blast intro: counted_counts)
next
  case (buffer_receives p)
  have "counts w w'" using buffer_receives(1)
    by (simp add: player_receive_def Let_def counts_def upd_player_def)
  then show ?thesis using inv by (rule counted_counts)
next
  case (player_turns p r)
  show ?thesis by (rule counted_counts [OF counts_player_turn [OF player_turns(2)] inv])
next
  case (user_subscribes m)
  then show ?thesis using inv steady_counts [OF steady_media_Subscribe] by (blast intro: counted_counts)
next
  case (user_unsubscribes m ch)
  then show ?thesis using inv steady_counts [OF steady_media_Unsubscribe] by (blast intro: counted_counts)
qed



section \<open>Players\<close>

text \<open>What the player's buffer has read of the channel, what it holds, and what went out.\<close>

definition read_of :: "world \<Rightarrow> mediaPlayer \<Rightarrow> chan_op list" where
  "read_of w mp = take (mp_taken mp) (ms_chans (w_media w (mp_ms mp)) (mp_sub mp))"

definition held :: "mediaPlayer \<Rightarrow> flvTag list" where
  "held mp = mb_tags (mbl_buf (mp_mb mp))"

definition messages_of :: "world \<Rightarrow> mediaPlayer \<Rightarrow> message list" where
  "messages_of w mp = map (\<lambda>t. on_stream (w_strm w (mp_s mp)) (tag_message t)) (mp_sent mp)"

definition pipe :: "world \<Rightarrow> mediaPlayer \<Rightarrow> bool" where
  "pipe w mp \<longleftrightarrow> in_place w mp \<and> mp_taken mp \<le> length (ms_chans (w_media w (mp_ms mp)) (mp_sub mp)) \<and>
     subseq (mp_sent mp @ held mp) (channel_tags (read_of w mp)) \<and>
     subseq (messages_of w mp) (cn_sent (w_conn w (strm_conn (w_strm w (mp_s mp)))))"

lemma pipe_unused: "unused mp \<Longrightarrow> in_place w mp \<Longrightarrow> pipe w mp"
  by (simp add: pipe_def unused_def held_def messages_of_def mb_start_def NewMediaBuffer_def)

lemma take_prefix: "prefix xs ys \<Longrightarrow> n \<le> length xs \<Longrightarrow> take n ys = take n xs"
  by (auto simp: prefix_def)

lemma pipe_grows:
  assumes pipe: "pipe w mp" and grow: "grows X w w'" and core: "player_core mp' = player_core mp"
  shows "pipe w' mp'"
proof -
  note same = player_core_kept [OF core]
  have at: "mp_ms mp < w_nmedia w" "mp_s mp < w_nstrm w" "strm_conn (w_strm w (mp_s mp)) < w_nconn w"
    using pipe by (simp_all add: pipe_def in_place_def)
  have chan: "prefix (ms_chans (w_media w (mp_ms mp)) (mp_sub mp)) (ms_chans (w_media w' (mp_ms mp)) (mp_sub mp))"
    and place: "same_place (w_strm w (mp_s mp)) (w_strm w' (mp_s mp))"
    and sent: "prefix (cn_sent (w_conn w (strm_conn (w_strm w (mp_s mp))))) (cn_sent (w_conn w' (strm_conn (w_strm w (mp_s mp)))))"
    using grow at unfolding grows_def by blast+
  have "in_place w' mp'" using in_place_grows [OF _ grow core] pipe by (simp add: pipe_def)
  moreover have "mp_taken mp \<le> length (ms_chans (w_media w' (mp_ms mp)) (mp_sub mp))"
    using pipe prefix_length_le [OF chan] by (simp add: pipe_def)
  moreover have "read_of w' mp' = read_of w mp"
    using pipe take_prefix [OF chan] by (simp add: read_of_def same pipe_def)
  moreover have "messages_of w' mp' = messages_of w mp"
    using place by (simp add: messages_of_def same on_stream_def same_place_def)
  moreover have "subseq (messages_of w mp) (cn_sent (w_conn w' (strm_conn (w_strm w (mp_s mp)))))"
    using pipe prefix_imp_subseq [OF sent] by (auto simp: pipe_def intro: subseq_order.trans)
  ultimately show ?thesis using pipe place by (simp add: pipe_def same held_def same_place_def)
qed

definition pipes :: "world \<Rightarrow> bool" where
  "pipes w \<longleftrightarrow> (\<forall>p<w_nplayer w. pipe w (w_player w p))"

lemma pipes_grows:
  assumes pipes: "pipes w" and grow: "grows X w w'" and moved: "\<And>p. p \<in> X \<Longrightarrow> p < w_nplayer w' \<Longrightarrow> pipe w' (w_player w' p)"
  shows "pipes w'"
  unfolding pipes_def
proof (intro allI impI)
  fix p assume p: "p < w_nplayer w'"
  show "pipe w' (w_player w' p)"
  proof (cases "p \<in> X")
    case True
    then show ?thesis using moved p by blast
  next
    case False
    show ?thesis
    proof (cases "p < w_nplayer w")
      case True
      then have "player_core (w_player w' p) = player_core (w_player w p)" using grow False unfolding grows_def by blast
      with pipes True show ?thesis unfolding pipes_def by (blast intro: pipe_grows [OF _ grow])
    next
      case old: False
      then have "unused (w_player w' p)" "in_place w' (w_player w' p)"
        using grow False p unfolding grows_def by (meson linorder_not_le)+
      then show ?thesis by (rule pipe_unused)
    qed
  qed
qed

lemma grows_upd_player: "grows {p} w (upd_player p f w)"
  by (simp add: grows_def upd_player_def same_place_def)

lemma grows_mono: "grows {} w w' \<Longrightarrow> p < w_nplayer w \<Longrightarrow> grows {p} w w'"
  unfolding grows_def by simp

subsection \<open>Reading the channel\<close>

lemma pipe_receive:
  assumes pipe: "pipe w (w_player w p)"
  shows "pipe (player_receive p w) (w_player (player_receive p w) p)"
proof (cases "mp_taken (w_player w p) < length (ms_chans (w_media w (mp_ms (w_player w p))) (mp_sub (w_player w p)))")
  case False
  then have "player_receive p w = w" by (simp add: player_receive_def Let_def)
  with pipe show ?thesis by simp
next
  case True
  let ?mp = "w_player w p" and ?ops = "ms_chans (w_media w (mp_ms (w_player w p))) (mp_sub (w_player w p))"
  define ev where "ev = (case ?ops ! mp_taken ?mp of SendTag t \<Rightarrow> Arrive t | CloseChan \<Rightarrow> SubClosed)"
  let ?mp' = "?mp\<lparr>mp_taken := mp_taken ?mp + 1, mp_mb := mb_step (mp_mb ?mp) ev\<rparr>"
  have w': "player_receive p w = upd_player p (\<lambda>mp. mp\<lparr>mp_taken := mp_taken mp + 1, mp_mb := mb_step (mp_mb mp) ev\<rparr>) w"
    using True by (simp add: player_receive_def Let_def ev_def upd_player_def)
  have read: "channel_tags (read_of w ?mp') = channel_tags (read_of w ?mp) @
      (case ?ops ! mp_taken ?mp of SendTag t \<Rightarrow> [t] | CloseChan \<Rightarrow> [])"
    using True by (simp add: read_of_def take_Suc_conv_app_nth split: chan_op.split)
  have held: "subseq (held ?mp') (held ?mp @ (case ?ops ! mp_taken ?mp of SendTag t \<Rightarrow> [t] | CloseChan \<Rightarrow> []))"
    by (cases "?ops ! mp_taken ?mp") (auto simp: ev_def held_def push_def subseq_rev_drop_many)
  have "subseq (mp_sent ?mp @ held ?mp') (mp_sent ?mp @ held ?mp @ (case ?ops ! mp_taken ?mp of SendTag t \<Rightarrow> [t] | CloseChan \<Rightarrow> []))"
    using held by (simp only: subseq_append')
  also have "subseq \<dots> (channel_tags (read_of w ?mp'))"
    unfolding read append_assoc [symmetric] subseq_append
    using pipe unfolding pipe_def by blast
  finally have "subseq (mp_sent ?mp @ held ?mp') (channel_tags (read_of w ?mp'))" .
  then show ?thesis
    using pipe True unfolding w' upd_player_def
    by (simp add: pipe_def in_place_def messages_of_def read_of_def)
qed

subsection \<open>Sending\<close>

lemma stream_Send_sent:
  assumes "stream_Send s msg w = Some (Ok (None, w'))"
  shows "cn_sent (w_conn w' (strm_conn (w_strm w s))) = cn_sent (w_conn w (strm_conn (w_strm w s))) @ [on_stream (w_strm w s) msg]"
  using assms
  by (auto simp: stream_Send_def conn_Send_def on_stream_def Let_def ret_def upd_conn_def split: option.splits res.splits if_splits)

lemma front_held:
  assumes "mbl_open mbl" "front (mbl_buf mbl) = Some tag"
  shows "mb_tags (mbl_buf mbl) = tag # mb_tags (mbl_buf (mb_step mbl Take))"
  using assms by (auto simp: front_def remove_def split: list.splits)

lemma player_turn_pipe:
  assumes p: "p < w_nplayer w" and reg: "reg_bound w" and pipe: "pipe w (w_player w p)"
    and run: "player_turn e p w = Some (Ok (r, w'))"
  shows "grows {p} w w' \<and> pipe w' (w_player w' p)"
proof -
  let ?take = "\<lambda>mp. mp\<lparr>mp_mb := mb_step (mp_mb mp) Take\<rparr>"
  let ?mp = "w_player w p" and ?w0 = "upd_player p ?take w"
  have returns: "grows {p} w1 (player_return e p w1)" "pipe (player_return e p w1) (w_player (player_return e p w1) p)"
    if "reg_bound w1" "pipe w1 (w_player w1 p)" "p < w_nplayer w1" for w1
  proof -
    let ?w2 = "upd_player p (\<lambda>mp. mp\<lparr>mp_done := True\<rparr>) w1"
    have "good {} w1" using that(1) by (simp add: good_def)
    moreover have "steady e {} w1 ?w2" by (rule steady_upd_player) (simp add: player_core_def)
    then have "steady e {} w1 (player_return e p w1)"
      unfolding player_return_def by (rule steady_trans [OF _ steady_mp_Close])
    ultimately have gr: "grows {} w1 (player_return e p w1)" by (simp add: steady_def grown_def)
    then have "player_core (w_player (player_return e p w1) p) = player_core (w_player w1 p)"
      using that(3) unfolding grows_def by blast
    then show "pipe (player_return e p w1) (w_player (player_return e p w1) p)" by (rule pipe_grows [OF that(2) gr])
    show "grows {p} w1 (player_return e p w1)" by (rule grows_mono [OF gr that(3)])
  qed
  have first: "grows {p} w ?w0" by (rule grows_upd_player)
  have sends: "grows {p} ?w0 w1" "w_strm w1 = w_strm w" "w_player w1 = w_player ?w0" "reg_bound w1"
      "p < w_nplayer w1" "w_media w1 = w_media w" "w_nmedia w1 = w_nmedia w" "w_nstrm w1 = w_nstrm w" "w_nconn w1 = w_nconn w"
    if "writeTag p tag ?w0 = Some (Ok (x, w1))" for x w1 tag
  proof -
    have quiet: "quiet ?w0 w1" using withinD [OF quiet_stream_Send] that unfolding writeTag_def by blast
    have r0: "reg_bound ?w0" using reg by (simp add: reg_bound_def upd_player_def)
    with quiet_steady [OF quiet, of e "{}"] have "grows {} ?w0 w1" by (simp add: steady_def grown_def good_def)
    then show "grows {p} ?w0 w1" using p by (intro grows_mono) (simp_all add: upd_player_def)
    show "w_strm w1 = w_strm w" "w_player w1 = w_player ?w0" "p < w_nplayer w1" "w_media w1 = w_media w"
      "w_nmedia w1 = w_nmedia w" "w_nstrm w1 = w_nstrm w" "w_nconn w1 = w_nconn w"
      using quiet p by (auto simp: quiet_def upd_player_def)
    show "reg_bound w1" using quiet r0 by (auto simp: quiet_def reg_bound_def)
  qed
  have player0: "w_player ?w0 p = ?take ?mp" by (simp add: upd_player_def)
  from run show ?thesis
  proof (cases rule: player_turn_cases)
    case idle
    with pipe show ?thesis by (simp add: grows_refl)
  next
    case returned
    with returns [OF reg pipe p] show ?thesis by simp
  next
    case (sent tag w1)
    note w1 = sends [OF sent(3)]
    let ?c = "strm_conn (w_strm w (mp_s ?mp))"
    let ?msg = "on_stream (w_strm w (mp_s ?mp)) (tag_message tag)"
    have out: "cn_sent (w_conn w1 ?c) = cn_sent (w_conn w ?c) @ [?msg]"
      using stream_Send_sent [of "mp_s ?mp" "tag_message tag" ?w0 w1] sent(3)
      by (simp add: writeTag_def upd_player_def)
    let ?mp1 = "?mp\<lparr>mp_mb := mb_step (mp_mb ?mp) Take, mp_sent := mp_sent ?mp @ [tag]\<rparr>"
    have mp1: "w_player w' p = ?mp1" using w1(3) by (simp add: sent(4) upd_player_def)
    have "held ?mp = tag # held ?mp1"
      using front_held [OF sent(1,2)] by (simp add: held_def)
    then have "mp_sent ?mp1 @ held ?mp1 = mp_sent ?mp @ held ?mp" by simp
    moreover have "read_of w' ?mp1 = read_of w ?mp" using w1 by (simp add: read_of_def sent(4) upd_player_def)
    ultimately have "subseq (mp_sent ?mp1 @ held ?mp1) (channel_tags (read_of w' ?mp1))"
      using pipe by (simp only: pipe_def)
    moreover have "messages_of w' ?mp1 = messages_of w ?mp @ [?msg]"
      using w1 by (simp add: messages_of_def sent(4) upd_player_def)
    then have "subseq (messages_of w' ?mp1) (cn_sent (w_conn w' ?c))"
      using pipe out by (simp add: sent(4) upd_player_def pipe_def)
    ultimately have "pipe w' (w_player w' p)"
      using pipe w1 unfolding mp1
      by (simp add: pipe_def in_place_def sent(4) upd_player_def)
    moreover have "grows {p} w w'"
      unfolding sent(4) by (rule grows_trans [OF grows_trans [OF first w1(1)] grows_upd_player])
    ultimately show ?thesis by blast
  next
    case (broken tag er w1)
    note w1 = sends [OF broken(3)]
    let ?c = "strm_conn (w_strm w (mp_s ?mp))"
    have held: "held ?mp = tag # held (?take ?mp)"
      using front_held [OF broken(1,2)] by (simp add: held_def)
    have gr: "prefix (cn_sent (w_conn w c)) (cn_sent (w_conn w1 c))" if "c < w_nconn w" for c
      using w1(1) that unfolding grows_def by (simp add: upd_player_def)
    have "subseq (mp_sent ?mp @ held (?take ?mp)) (mp_sent ?mp @ held ?mp)"
      unfolding held subseq_append' by (rule list_emb_Cons [OF subseq_order.refl])
    also have "subseq \<dots> (channel_tags (read_of w ?mp))" using pipe by (simp add: pipe_def)
    finally have "subseq (mp_sent ?mp @ held (?take ?mp)) (channel_tags (read_of w ?mp))" .
    moreover have "prefix (cn_sent (w_conn w ?c)) (cn_sent (w_conn w1 ?c))"
      by (rule gr) (use pipe in \<open>simp add: pipe_def in_place_def\<close>)
    then have "subseq (cn_sent (w_conn w ?c)) (cn_sent (w_conn w1 ?c))" by (rule prefix_imp_subseq)
    then have "subseq (messages_of w ?mp) (cn_sent (w_conn w1 ?c))"
      using pipe unfolding pipe_def by (blast intro: subseq_order.trans)
    ultimately have "pipe w1 (w_player w1 p)"
      using pipe w1 player0 by (simp add: pipe_def in_place_def read_of_def messages_of_def held_def)
    with returns [OF w1(4) this w1(5)] show ?thesis
      unfolding broken(4) using grows_trans [OF grows_trans [OF first w1(1)]] by blast
  qed
qed

subsection \<open>Every step\<close>

lemma inv_good: "server_inv w \<Longrightarrow> reg_bound w \<and> table_good w c \<and> good {} w"
  unfolding server_inv_def registered_open_def tables_ok_def reg_bound_def table_good_def good_def by blast

lemma grows_fold_destroy: "steady e {} w (fold (sc_OnDestroyStream e) order w)"
  by (induction order arbitrary: w) (auto simp: steady_refl intro: steady_trans [OF steady_destroy])

lemma waitClose_grows:
  assumes "reg_bound w"
  shows "grows {} w (waitClose e c er order w)"
proof -
  let ?w1 = "upd_conn c (\<lambda>cn. close_net (e_room e (w_clock w)) (cn\<lparr>cn_csw := Close (cn_csw cn)\<rparr>)) (tick w)"
  let ?w2 = "fold (sc_OnDestroyStream e) order ?w1"
  have "steady e {} w ?w1"
    by (rule steady_trans [OF steady_tick steady_upd_conn]) (simp_all add: wired_close_net wired_Close, simp_all add: close_net_def)
  then have "steady e {} w ?w2" by (rule steady_trans [OF _ grows_fold_destroy])
  then have "grows {} w ?w2" using assms by (rule steady_grows)
  moreover have "grows {} ?w2 (waitClose e c er order w)"
    by (simp add: waitClose_def Let_def sc_OnClose_def grows_def upd_conn_def tell_def same_place_def)
  ultimately show ?thesis by (rule grows_trans)
qed

lemma handle_grows: "grows {} w (handle shake out w)"
  by (cases shake) (auto simp: handle_def NewConn_def Let_def grows_def same_place_def)

lemma pipes_step:
  assumes user: "server_handler user" and inv: "server_inv w" and pipes: "pipes w" and step: "server_step e user ok w w'"
  shows "pipes w'"
proof -
  have calmly: "pipes w'" if "grows {} w w'" by (rule pipes_grows [OF pipes that]) simp
  have easy: "pipes w'" if "grown {} w w'"
    using that inv_good [OF inv] by (intro calmly) (simp add: grown_def)
  show ?thesis
    using step
  proof cases
    case (accept out shake)
    then show ?thesis using handle_grows by (intro calmly) simp
  next
    case (receive_message c msg r)
    then show ?thesis using conn_OnMessage_steady [OF user] inv_good [OF inv] by (intro calmly) blast
  next
    case (window_full c n r)
    show ?thesis by (rule easy [OF steady_grown [OF quiet_steady [OF withinD [OF quiet_announcements(5) window_full(2)]]]])
  next
    case (finish_conn c order er)
    then show ?thesis using waitClose_grows inv_good [OF inv] by (intro calmly) blast
  next
    case (media_returns m)
    then show ?thesis using grown_media_event by (intro easy) simp
  next
    case (buffer_receives p)
    have gr: "grows {p} w w'"
      using buffer_receives by (simp add: player_receive_def Let_def grows_refl grows_upd_player)
    have "pipe w' (w_player w' p)"
      using pipes buffer_receives pipe_receive unfolding pipes_def by blast
    then show ?thesis by (intro pipes_grows [OF pipes gr]) auto
  next
    case (player_turns p r)
    have "pipe w (w_player w p)" using pipes player_turns(1) by (simp add: pipes_def)
    then have "grows {p} w w' \<and> pipe w' (w_player w' p)"
      using inv_good [OF inv] by (intro player_turn_pipe [OF player_turns(1) _ _ player_turns(2)]) blast+
    then show ?thesis by (intro pipes_grows [OF pipes, of "{p}"]) auto
  next
    case (user_subscribes m)
    then show ?thesis using steady_grown [OF steady_media_Subscribe] by (intro easy) simp
  next
    case (user_unsubscribes m ch)
    then show ?thesis using steady_grown [OF steady_media_Unsubscribe] by (intro easy) simp
  qed
qed

lemma reachable_pipes:
  assumes user: "server_handler user" and enc: "encodes_create_reply e" and r: "server_reachable e user (polite e) w"
  shows "pipes w"
  using r
proof induction
  case start
  show ?case by (simp add: pipes_def world_init_def)
next
  case (more w w')
  show ?case
    by (rule pipes_step [OF user server_reachable_inv [OF user enc more.hyps(1)] more.IH more.hyps(2)])
qed

text \<open>A run of the sample server: stream 1 publishes, stream 2 plays, a key frame is relayed.\<close>

definition key_frame :: flvTag where
  "key_frame = \<lparr>ftType = VIDEO_TYPE, ftTimestamp = 40, ftSize = 3, ftBytes = [0x17, 1, 7]\<rparr>"

definition sample_video :: message where
  "sample_video = NewMessage 5 VIDEO_TYPE 1 40 (Some [0x17, 1, 7])"

lemma sample_watching:
  "\<exists>w m p. sample_at w \<and> cn_streams (w_conn w 0) = [1 \<mapsto> 0, 2 \<mapsto> 1] \<and> p < w_nplayer w \<and>
     w_player w p = (new_player m 0 1)\<lparr>mp_started := True\<rparr> \<and>
     strm_handler (w_strm w 0) = Some (no_media\<lparr>sh_mediaStream := Some m\<rparr>) \<and>
     w_media w m = ms_step (e_rate sample_env) NewMediaStream Subscribe \<and>
     strm_publishing (w_strm w 0) \<and> w_streams w (strm_name (w_strm w 0)) = Some m"
proof -
  obtain w m i where w: "sample_at w" "cn_streams (w_conn w 0) = [1 \<mapsto> 0, 2 \<mapsto> 1]" "w_streams w = [''d'' \<mapsto> m]"
     "w_players w = Map.empty" "strm_handler (w_strm w 0) = Some (no_media\<lparr>sh_mediaStream := Some m\<rparr>)"
     "w_strm w 1 = (newStream 2 0 i)\<lparr>strm_handler := Some no_media\<rparr>" "w_media w m = NewMediaStream"
     "strm_publishing (w_strm w 0)" "strm_name (w_strm w 0) = ''d''"
    using sample_publishing by blast
  have s: "cn_streams (w_conn w 0) 2 = Some 1" "strm_handler (w_strm w 1) = Some no_media" "(2 :: u32) \<noteq> 0"
    "\<not> strm_publishing (w_strm w 1)" "w_streams w ''d'' = Some m" "w_players w 1 = None"
    using w by (simp_all add: newStream_def)
  obtain w1 where at: "sample_at (mp_Start (w_nplayer w) (playing 1 (sample_plays 2 ''d'') w1))"
    and quiet: "quiet (joining sample_env m 1 w) w1"
    using sample_play [OF w(1) s] by blast
  have "\<not> refused sample_env m w" using w(7) by (simp add: refused_def NewMediaStream_def)
  note fields = playing_fields [where cmd = "sample_plays 2 ''d''", OF this s(6) s(2) quiet]
  have "cn_streams (w_conn w1 0) = cn_streams (w_conn w 0)"
    using calm_fields(7) [OF quiet_calm [OF quiet], of 0] joining_fields(6) [OF \<open>\<not> refused sample_env m w\<close> s(6)] by simp
  then show ?thesis
    using at w
    by - (rule exI [where x = "mp_Start (w_nplayer w) (playing 1 (sample_plays 2 ''d'') w1)"], rule exI [where x = m],
      rule exI [where x = "w_nplayer w"], simp del: One_nat_def add: fields, simp add: NewMediaStream_def)
qed

lemma key_frame_relayed:
  "ms_chans (ms_step rate (ms_step rate NewMediaStream Subscribe) (Publish key_frame)) 0 = [SendTag key_frame]"
proof -
  have "is_keyframe key_frame" by code_simp
  then have "gets_tag key_frame False" by (simp add: gets_tag_iff)
  then show ?thesis
    by (simp add: subscribe_def on_chan_def Let_def NewMediaStream_def cached_headers_def broadcast_def)
qed

lemma sample_relayed:
  "\<exists>w p. sample_reachable w \<and> p < w_nplayer w \<and> mp_sent (w_player w p) = [key_frame] \<and> mp_taken (w_player w p) = 1 \<and>
     strm_conn (w_strm w (mp_s (w_player w p))) = 0 \<and> healthy w 0 \<and> list_all sendable (cn_tried (w_conn w 0)) \<and>
     cn_sent (w_conn w 0) \<noteq> []"
proof -
  obtain w m p where w: "sample_at w" "cn_streams (w_conn w 0) = [1 \<mapsto> 0, 2 \<mapsto> 1]" "p < w_nplayer w"
     "w_player w p = (new_player m 0 1)\<lparr>mp_started := True\<rparr>"
     "strm_handler (w_strm w 0) = Some (no_media\<lparr>sh_mediaStream := Some m\<rparr>)"
     "w_media w m = ms_step (e_rate sample_env) NewMediaStream Subscribe"
    using sample_watching by blast
  define w2 where "w2 = media_event sample_env m (Publish key_frame) (tick w)"
  have "ms_running (w_media w m)" "\<not> ms_done (w_media w m)"
    using w(6) by (simp_all add: subscribe_def on_chan_def Let_def NewMediaStream_def)
  then have "conn_OnMessage sample_env demo_Invoke 0 sample_video w = Some (Ok (None, w2))"
    using w(2,5)
    by (simp add: conn_OnMessage_def conn_OnReceive_def stream_OnReceive_def ss_OnReceive_def sample_video_def
        NewMessage_def Let_def always_def media_Publish_def refused_def ret_def w2_def key_frame_def)
  moreover have "polite sample_env w 0 sample_video"
    by (simp add: polite_def ParseCommand_def ParseRawCommand_def sample_video_def NewMessage_def Let_def)
  moreover have conn: "w_conn w2 = w_conn w" "w_nconn w2 = w_nconn w" "w_strm w2 = w_strm w" "w_player w2 = w_player w"
    "w_nplayer w2 = w_nplayer w"
    by (simp_all add: w2_def media_event_def tick_def)
  ultimately have "sample_at w2"
    using w(1) by (intro sample_receives [OF w(1)]) (simp_all add: sample_at_def healthy_def csids_def)
  define w3 where "w3 = player_receive p w2"
  have chan: "ms_chans (w_media w2 m) 0 = [SendTag key_frame]"
    using key_frame_relayed [of "e_rate sample_env"] w(6) by (simp add: w2_def media_event_def tick_def)
  have "push key_frame (NewMediaBuffer (4 * 1024 * 1024)) =
      \<lparr>mb_tags = [key_frame], mb_size = 3, mb_maxSize = 4 * 1024 * 1024\<rparr>"
    by (simp add: push_def NewMediaBuffer_def key_frame_def)
  then have player: "w_player w3 p = (new_player m 0 1)\<lparr>mp_started := True, mp_taken := 1,
      mp_mb := \<lparr>mbl_buf = \<lparr>mb_tags = [key_frame], mb_size = 3, mb_maxSize = 4 * 1024 * 1024\<rparr>, mbl_open = True, mbl_out = []\<rparr>\<rparr>"
    using chan w(4) conn by (simp add: w3_def player_receive_def Let_def upd_player_def mb_start_def)
  have same: "w_conn w3 = w_conn w" "w_strm w3 = w_strm w" "w_nplayer w3 = w_nplayer w"
    using conn by (simp_all add: w3_def player_receive_def Let_def upd_player_def)
  have r3: "sample_reachable w3"
    unfolding w3_def
  proof (rule server_reachable.more [OF _ buffer_receives])
    show "sample_reachable w2" using \<open>sample_at w2\<close> by (simp add: sample_at_def)
    show "p < w_nplayer w2" using w(3) conn by simp
  qed
  let ?w4 = "upd_player p (\<lambda>mp. mp\<lparr>mp_mb := mb_step (mp_mb mp) Take\<rparr>) w3"
  have strm: "cn_streams (w_conn w 0) 2 = Some 1" using w(2) by simp
  note place = sample_place [OF w(1) strm]
  have ok: "healthy ?w4 0" using w(1) same by (simp add: sample_at_def healthy_def csids_def upd_player_def)
  have send: "sendable (on_stream (w_strm w 1) (tag_message key_frame))"
    using place by (auto simp: sendable_def on_stream_def tag_message_def key_frame_def word_le_nat_alt word_less_nat_alt)
  have known: "mChunkStreamID (on_stream (w_strm w 1) (tag_message key_frame)) \<in> csids ?w4 0"
    using place same by (simp add: on_stream_def csids_def upd_player_def)
  obtain w5 where w5: "conn_Send 0 (on_stream (w_strm w 1) (tag_message key_frame)) ?w4 = Some (Ok (None, w5))"
    "sent_more 0 [on_stream (w_strm w 1) (tag_message key_frame)] ?w4 w5"
    using conn_Send_healthy [OF ok send known] by blast
  have "writeTag p key_frame ?w4 = Some (Ok (None, w5))"
    using w5(1) place(1) player same
    by (simp add: writeTag_def stream_Send_def Let_def on_stream_def upd_player_def)
  then have turn: "player_turn sample_env p w3 = Some (Ok (None, upd_player p (\<lambda>mp. mp\<lparr>mp_sent := mp_sent mp @ [key_frame]\<rparr>) w5))"
    using player by (simp add: player_turn_def Let_def front_def ret_def)
  let ?w6 = "upd_player p (\<lambda>mp. mp\<lparr>mp_sent := mp_sent mp @ [key_frame]\<rparr>) w5"
  have "p < w_nplayer w3" using w(3) same by simp
  from server_reachable.more [OF r3 player_turns [OF this turn]] have "sample_reachable ?w6" .
  moreover have "w_player w5 = w_player ?w4" "w_nplayer w5 = w_nplayer w3"
    using w5(2) by (auto simp: sent_more_def quiet_def upd_player_def)
  moreover have "w_strm w5 = w_strm w"
    using w5(2) same by (auto simp: sent_more_def quiet_def upd_player_def)
  moreover have "healthy w5 0" "list_all sendable (cn_tried (w_conn w5 0))" "cn_sent (w_conn w5 0) \<noteq> []"
    using w5(2) w(1) same by (simp_all add: sent_more_def sample_at_def upd_player_def)
  ultimately show ?thesis
    using player w(3) same place(1)
    by - (rule exI [where x = ?w6], rule exI [where x = p], simp add: upd_player_def healthy_def csids_def)
qed

text \<open>What a player has sent. In every state a server can reach with polite clients: the tags a
  player has sent, followed by those its buffer holds, are a subsequence of the tags its buffer has
  read so far from the channel of its subscription (none is invented, repeated or reordered; some may
  have been dropped by the full buffer); and each tag it has sent went out on the player's own stream,
  as a message with the type, time, size and payload of the tag, in this order among the messages
  the connection has sent.\<close>

theorem player_sends_its_channel:
  fixes w p
  defines "mp \<equiv> w_player w p" and "st \<equiv> w_strm w (mp_s (w_player w p))"
  assumes "server_handler user" and "encodes_create_reply e" and "server_reachable e user (polite e) w"
    and "p < w_nplayer w"
  shows "subseq (mp_sent mp @ mb_tags (mbl_buf (mp_mb mp)))
       (channel_tags (take (mp_taken mp) (ms_chans (w_media w (mp_ms mp)) (mp_sub mp)))) \<and>
     subseq (map (\<lambda>t. (tag_message t)\<lparr>mChunkStreamID := strm_csid st, mStreamID := strm_id st\<rparr>) (mp_sent mp))
       (cn_sent (w_conn w (strm_conn st)))"
proof -
  have "pipe w mp" using reachable_pipes [OF assms(3-5)] assms(6) by (simp add: pipes_def mp_def)
  then show ?thesis
    by (simp add: pipe_def held_def read_of_def messages_of_def on_stream_def st_def mp_def)
qed

lemma player_sends_its_channel_witness:
  "\<exists>w p. sample_reachable w \<and> p < w_nplayer w \<and> mp_sent (w_player w p) = [key_frame] \<and>
     (tag_message key_frame)\<lparr>mChunkStreamID := strm_csid (w_strm w (mp_s (w_player w p))),
        mStreamID := strm_id (w_strm w (mp_s (w_player w p)))\<rparr>
       \<in> set (cn_sent (w_conn w (strm_conn (w_strm w (mp_s (w_player w p))))))"
proof -
  obtain w p where w: "sample_reachable w" "p < w_nplayer w" "mp_sent (w_player w p) = [key_frame]"
    using sample_relayed by blast
  from player_sends_its_channel [OF demo.server_handler_axioms sample_encodes w(1,2)] w show ?thesis
    by - (rule exI [where x = w], rule exI [where x = p], simp add: subseq_singleton_left)
qed

end
