(* ===== verification/Reader_Prefix.thy ===== *)
theory Reader_Prefix
  imports Chunk_Roundtrip Reader_Invariant
begin

text \<open>
  The reader of \<^verbatim>\<open>src/chunkstreamreader.go\<close> on a stream of which only a part has arrived: a peer that
  has got the first bytes of a stream has made the first of the calls it makes on the whole of it. The
  buffered writer of a connection holds back what is not flushed, so this is what a peer sees at any time.
\<close>

section \<open>Read actions on a longer stream\<close>

definition extend_by :: "u8 list \<Rightarrow> go_error \<Rightarrow> reader \<Rightarrow> reader" where
  "extend_by rest e r = \<lparr>rbytes = rbytes r @ rest, rend = e\<rparr>"

text \<open>An action that succeeds does the same when more bytes follow.\<close>

definition patient :: "'a rd \<Rightarrow> bool" where
  "patient m \<longleftrightarrow> (\<forall>r n a r' rest e. m r = (n, Ok a, r') \<longrightarrow> m (extend_by rest e r) = (n, Ok a, extend_by rest e r'))"

lemma patientD: "patient m \<Longrightarrow> m r = (n, Ok a, r') \<Longrightarrow> m (extend_by rest e r) = (n, Ok a, extend_by rest e r')"
  unfolding patient_def by blast

lemma patient_bind:
  assumes m: "patient m" and f: "\<And>a. patient (f a)"
  shows "patient (rd_bind m f)"
  unfolding patient_def
proof (intro allI impI)
  fix r n x r' rest e
  assume run: "rd_bind m f r = (n, Ok x, r')"
  then obtain k a s k' where first: "m r = (k, Ok a, s)" and second: "f a s = (k', Ok x, r')" "n = k + k'"
    by (auto simp: rd_bind_def split: prod.splits res.splits)
  from patientD [OF m first] patientD [OF f second(1)] second(2)
  show "rd_bind m f (extend_by rest e r) = (n, Ok x, extend_by rest e r')" by (simp add: rd_bind_def)
qed

lemma patient_if: "patient m \<Longrightarrow> patient m' \<Longrightarrow> patient (if c then m else m')"
  by simp

lemma patient_return: "patient (rd_lift x)"
  by (simp add: patient_def)

lemma patient_ReadByte: "patient ReadByte"
  by (auto simp: patient_def ReadByte_def extend_by_def split: list.splits)

lemma patient_ReadFull: "patient (ReadFull k)"
  by (auto simp: patient_def ReadFull_def extend_by_def split: if_splits)

lemmas patient_intros = patient_bind patient_if patient_return patient_ReadByte patient_ReadFull

lemma patient_ReadBaseHeader: "patient ReadBaseHeader"
  unfolding ReadBaseHeader_def Let_def by (intro patient_intros)

lemma patient_ReadHeader: "patient (ReadHeader h vfmt csi l)"
  unfolding ReadHeader_def ReadMessageHeader_def read24_def read32_be_def read32_le_def by (intro patient_intros)

lemma CopyN_from_extend:
  "CopyN_from k r = (bs, None, r') \<Longrightarrow> CopyN_from k (extend_by rest e r) = (bs, None, extend_by rest e r')"
  by (auto simp: CopyN_from_def extend_by_def split: if_splits)

section \<open>One chunk\<close>

text \<open>What has been handed to the handler after a call: as before if the call failed; and the same on a
  longer stream if it did not.\<close>

lemma read_payload_failed:
  "read_payload csr csi cs m continued c r = Ok (n, Some er, csr', r') \<Longrightarrow> csr_events csr' = csr_events csr"
  by (auto simp: read_payload_def Let_def res_bind_eq_Ok split: prod.splits option.splits if_splits)

lemma read_payload_extend:
  assumes "read_payload csr csi cs m continued c r = Ok (n, None, csr', r')"
  shows "read_payload csr csi cs m continued c (extend_by rest e r) = Ok (n, None, csr', extend_by rest e r')"
proof -
  let ?k = "unat (if Remain m > csr_chunkSize csr then csr_chunkSize csr else Remain m)"
  obtain bs er r1 where copy: "CopyN_from ?k r = (bs, er, r1)" by (cases "CopyN_from ?k r")
  then have "er = None" using assms by (auto simp: read_payload_def Let_def split: option.splits)
  with copy have "CopyN_from ?k (extend_by rest e r) = (bs, None, extend_by rest e r1)"
    by (simp add: CopyN_from_extend)
  with assms copy \<open>er = None\<close> show ?thesis
    by (auto simp: read_payload_def Let_def res_bind_eq_Ok split: if_splits)
qed

lemma res_bind_eq_Panic: "res_bind m f = Panic \<longleftrightarrow> m = Panic \<or> (\<exists>a. m = Ok a \<and> f a = Panic)"
  by (cases m) simp_all

lemma read_payload_panic_extend:
  assumes "read_payload csr csi cs m continued c r = Panic"
  shows "read_payload csr csi cs m continued c (extend_by rest e r) = Panic"
proof -
  let ?k = "unat (if Remain m > csr_chunkSize csr then csr_chunkSize csr else Remain m)"
  obtain bs er r1 where copy: "CopyN_from ?k r = (bs, er, r1)" by (cases "CopyN_from ?k r")
  then have "er = None" using assms by (auto simp: read_payload_def Let_def split: option.splits)
  with copy have "CopyN_from ?k (extend_by rest e r) = (bs, None, extend_by rest e r1)"
    by (simp add: CopyN_from_extend)
  with assms copy \<open>er = None\<close> show ?thesis
    by (auto simp: read_payload_def Let_def res_bind_eq_Panic split: if_splits)
qed

lemma readChunk_failed:
  assumes "readChunk csr r = Ok (n, Some er, csr', r')"
  shows "csr_events csr' = csr_events csr"
  using assms
  by (cases rule: readChunk_cases) (auto simp: touch_def dest: read_payload_failed [OF sym])

lemma readChunk_payload:
  assumes "ReadBaseHeader r = (n, Ok (vfmt, csi), r')"
    and "ReadHeader zero_header vfmt csi (ics_lastHeader (in_stream csr csi)) r' = (k, Ok h, r'')"
    and "complete_header (in_stream csr csi) vfmt h = Ok (header, ts, current)"
  shows "readChunk csr r = read_payload (touch csr csi) csi
     ((in_stream csr csi)\<lparr>ics_lastHeader := Some header, ics_lastAbsoluteTimestamp := ts\<rparr>)
     (case current of None \<Rightarrow> new_inbound csi header ts | Some m \<Rightarrow> m) (current \<noteq> None) (int n + int k) r''"
  using assms by (simp add: readChunk_def Let_def touch_def flip: in_stream_def)

lemma readChunk_extend:
  assumes "readChunk csr r = Ok (n, None, csr', r')"
  shows "readChunk csr (extend_by rest e r) = Ok (n, None, csr', extend_by rest e r')"
  using assms
proof (cases rule: readChunk_cases)
  case (payload k vfmt csi r1 j h r2 header ts current)
  show ?thesis
    unfolding readChunk_payload [OF patientD [OF patient_ReadBaseHeader payload(1)]
      patientD [OF patient_ReadHeader payload(2)] payload(3)]
    by (rule read_payload_extend) (simp add: payload(4))
qed auto

lemma readChunk_panic_extend:
  assumes "readChunk csr r = Panic"
  shows "readChunk csr (extend_by rest e r) = Panic"
  using assms
proof (cases rule: readChunk_cases)
  case (payload k vfmt csi r1 j h r2 header ts current)
  show ?thesis
    unfolding readChunk_payload [OF patientD [OF patient_ReadBaseHeader payload(1)]
      patientD [OF patient_ReadHeader payload(2)] payload(3)]
    by (rule read_payload_panic_extend) (simp add: payload(4))
qed auto

section \<open>The loop\<close>

lemma handleMessage_events:
  "handleMessage csr m = Ok csr' \<Longrightarrow> csr_events csr' = csr_events csr @ [OnMessage m]"
  by (auto simp: handleMessage_def res_bind_eq_Ok split: option.splits if_splits)

lemma read_payload_events:
  "read_payload csr csi cs m continued c r = Ok (n, err, csr', r') \<Longrightarrow> prefix (csr_events csr) (csr_events csr')"
  by (auto simp: read_payload_def Let_def res_bind_eq_Ok dest!: handleMessage_events
      split: prod.splits option.splits if_splits)

lemma readChunk_events:
  assumes "readChunk csr r = Ok (n, err, csr', r')"
  shows "prefix (csr_events csr) (csr_events csr')"
  using assms
proof (cases rule: readChunk_cases)
  case (payload k vfmt csi r1 j h r2 header ts current)
  from read_payload_events [OF payload(4) [symmetric]] show ?thesis by (simp add: touch_def)
qed (auto simp: touch_def)

lemma window_check_events: "window_check csr a b = (csr', c) \<Longrightarrow> prefix (csr_events csr) (csr_events csr')"
  by (auto simp: window_check_def split: if_splits)

lemma ReadFrom_loop_cases:
  assumes "ReadFrom_loop csr a b r = Ok (n, er, csr')"
  obtains (failed) k r' where "readChunk csr r = Ok (k, Some er, csr', r')" "n = a + k"
  | (went_on) k csr1 r1 csr2 c where "readChunk csr r = Ok (k, None, csr1, r1)"
      "window_check csr1 (a + k) b = (csr2, c)" "ReadFrom_loop csr2 (a + k) c r1 = Ok (n, er, csr')"
  using assms
  by (subst (asm) ReadFrom_loop.simps) (auto split: res.splits option.splits prod.splits)

lemma ReadFrom_loop_events:
  "ReadFrom_loop csr a b r = Ok (n, er, csr') \<Longrightarrow> prefix (csr_events csr) (csr_events csr')"
proof (induction csr a b r rule: ReadFrom_loop.induct)
  case (1 csr a b r)
  from "1.prems" show ?case
  proof (cases rule: ReadFrom_loop_cases)
    case (failed k r')
    from readChunk_events [OF failed(1)] show ?thesis .
  next
    case (went_on k csr1 r1 csr2 c)
    note readChunk_events [OF went_on(1)] window_check_events [OF went_on(2)]
      "1.IH" [OF went_on(1) refl refl refl refl went_on(2) [symmetric] went_on(3)]
    then show ?thesis by (meson prefix_order.trans)
  qed
qed

lemma ReadFrom_loop_cut:
  "ReadFrom_loop csr a b (extend_by rest e r) = Ok (n, er, csr') \<Longrightarrow>
     \<exists>n0 er0 csr0. ReadFrom_loop csr a b r = Ok (n0, er0, csr0) \<and> prefix (csr_events csr0) (csr_events csr')"
proof (induction csr a b r rule: ReadFrom_loop.induct)
  case (1 csr a b r)
  show ?case
  proof (cases "readChunk csr r")
    case Panic
    with "1.prems" readChunk_panic_extend [OF Panic] show ?thesis by (subst (asm) ReadFrom_loop.simps) simp
  next
    case (Err x)
    with readChunk_not_Err show ?thesis by blast
  next
    case (Ok x)
    obtain k err csr1 r1 where x: "readChunk csr r = Ok (k, err, csr1, r1)" using Ok by (cases x) auto
    show ?thesis
    proof (cases err)
      case (Some er0)
      with x have "ReadFrom_loop csr a b r = Ok (a + k, er0, csr1)" by (subst ReadFrom_loop.simps) simp
      with readChunk_failed [OF x [unfolded Some]] ReadFrom_loop_events [OF "1.prems"] show ?thesis by simp
    next
      case None
      note x = x [unfolded None]
      obtain csr2 c where win: "window_check csr1 (a + k) b = (csr2, c)" by fastforce
      have "ReadFrom_loop csr2 (a + k) c (extend_by rest e r1) = Ok (n, er, csr')"
        using "1.prems" readChunk_extend [OF x] win by (subst (asm) ReadFrom_loop.simps) simp
      from "1.IH" [OF x refl refl refl refl win [symmetric] this] show ?thesis
        using x win by (subst ReadFrom_loop.simps) simp
    qed
  qed
qed

section \<open>Property\<close>

lemma delivered_prefix: "prefix (csr_events csr) (csr_events csr') \<Longrightarrow> prefix (delivered csr) (delivered csr')"
  by (auto simp: delivered_def List.map_filter_def prefix_def)

text \<open>A peer that has got a prefix of a stream.\<close>

lemma ReadFrom_cut:
  assumes "prefix arrived bytes" and "ReadFrom csr \<lparr>rbytes = bytes, rend = e\<rparr> = Ok (n, er, csr')"
  shows "\<exists>n0 er0 csr0. ReadFrom csr \<lparr>rbytes = arrived, rend = e0\<rparr> = Ok (n0, er0, csr0) \<and>
     prefix (csr_events csr0) (csr_events csr')"
proof -
  obtain rest where "bytes = arrived @ rest" using assms(1) by (auto simp: prefix_def)
  then have "ReadFrom_loop csr 0 0 (extend_by rest e \<lparr>rbytes = arrived, rend = e0\<rparr>) = Ok (n, er, csr')"
    using assms(2) by (simp add: ReadFrom_def extend_by_def)
  from ReadFrom_loop_cut [OF this] show ?thesis by (simp add: ReadFrom_def)
qed

end
