(* ===== verification/Server_Wire.thy ===== *)
theory Server_Wire
  imports Server_Pipeline Reader_Prefix
begin

text \<open>
  From the registries and players of the server to the bytes on its connections: what the handlers of
  \<^verbatim>\<open>src/conn.go\<close> and \<^verbatim>\<open>src/stream.go\<close> and the loops of \<^verbatim>\<open>src/mediaplayer.go\<close> hand to \<^verbatim>\<open>Send\<close> is
  what a peer that runs the reading loop of \<^verbatim>\<open>src/chunkstreamreader.go\<close> gets. It composes the round trip
  of the chunk layer with the steps of the server.
\<close>

section \<open>Every connection stays wired\<close>

definition all_wired :: "world \<Rightarrow> bool" where
  "all_wired w \<longleftrightarrow> (\<forall>c. wired (w_conn w c))"

lemma all_wired_counts: "counts w w' \<Longrightarrow> all_wired w \<Longrightarrow> all_wired w'"
  by (simp add: all_wired_def counts_def)

lemma all_wired_quiet: "quiet w w' \<Longrightarrow> all_wired w \<Longrightarrow> all_wired w'"
  by (rule all_wired_counts [OF steady_counts [OF quiet_steady]])

lemma all_wired_steady: "steady e {} w w' \<Longrightarrow> all_wired w \<Longrightarrow> all_wired w'"
  by (rule all_wired_counts [OF steady_counts])

lemma all_wired_handle:
  assumes "all_wired w" and "wout out = []"
  shows "all_wired (handle shake out w)"
  using assms wired_new [OF assms(2)] by (auto simp: all_wired_def handle_def NewConn_def Let_def split: option.split)

lemma all_wired_waitClose:
  assumes "all_wired w"
  shows "all_wired (waitClose e c er order w)"
proof -
  let ?w1 = "upd_conn c (\<lambda>cn. close_net (e_room e (w_clock w)) (cn\<lparr>cn_csw := Close (cn_csw cn)\<rparr>)) (tick w)"
  have "all_wired ?w1"
    using assms by (simp add: all_wired_def upd_conn_def tick_def wired_close_net wired_Close)
  then have "all_wired (fold (sc_OnDestroyStream e) order ?w1)"
    by (rule all_wired_steady [OF grows_fold_destroy])
  then show ?thesis
    by (simp add: waitClose_def Let_def sc_OnClose_def all_wired_def upd_conn_def tell_def)
qed

lemma all_wired_step:
  assumes user: "server_handler user" and step: "server_step e user ok w w'" and wired: "all_wired w"
  shows "all_wired w'"
  using step
proof cases
  case (accept out shake)
  with all_wired_handle [OF wired] show ?thesis by simp
next
  case (receive_message c msg r)
  with conn_OnMessage_steady [OF user] wired show ?thesis by (blast intro: all_wired_counts)
next
  case (window_full c n r)
  from all_wired_quiet [OF withinD [OF quiet_announcements(5) window_full(2)] wired] show ?thesis .
next
  case (finish_conn c order er)
  with all_wired_waitClose [OF wired] show ?thesis by simp
next
  case (media_returns m)
  with all_wired_counts [OF grown_counts [OF grown_media_event] wired] show ?thesis by simp
next
  case (buffer_receives p)
  with wired show ?thesis by (simp add: all_wired_def player_receive_def Let_def upd_player_def)
next
  case (player_turns p r)
  from all_wired_counts [OF counts_player_turn [OF player_turns(2)] wired] show ?thesis .
next
  case (user_subscribes m)
  with all_wired_steady [OF steady_media_Subscribe wired] show ?thesis by simp
next
  case (user_unsubscribes m ch)
  with all_wired_steady [OF steady_media_Unsubscribe wired] show ?thesis by simp
qed

lemma reachable_wired:
  assumes user: "server_handler user" and r: "server_reachable e user ok w"
  shows "wired (w_conn w c)"
proof -
  from r have "all_wired w"
  proof induction
    case start
    show ?case by (simp add: all_wired_def world_init_def no_conn_def wired_new)
  next
    case (more w w')
    from all_wired_step [OF user more.hyps(2) more.IH] show ?case .
  qed
  then show ?thesis by (simp add: all_wired_def)
qed

lemma reachable_carries:
  assumes "server_handler user" "server_reachable e user ok w"
    and "wroom (cn_out (w_conn w c)) = None" "list_all sendable (cn_tried (w_conn w c))"
  shows "carries (cn_csw (w_conn w c)) (cn_out (w_conn w c)) (cn_sent (w_conn w c))"
proof -
  have "carries (cn_csw (w_conn w c)) (unlimited (cn_out (w_conn w c))) (cn_sent (w_conn w c))"
    using reachable_wired [OF assms(1,2), of c] assms(3,4) by (simp add: wired_def torn_def)
  then show ?thesis by (rule carries_same [OF _ assms(3), rotated]) simp
qed

text \<open>What the peer reads off a torn connection lies between what it reads off the bytes of the messages
  sent and off those of one more.\<close>

lemma torn_read:
  assumes "torn cn"
  shows "\<exists>n er csr old more. ReadFrom NewChunkStreamReader \<lparr>rbytes = wout (cn_out cn), rend = EOF\<rparr> = Ok (n, er, csr) \<and>
     delivered csr = old @ more \<and> list_all2 same_content (cn_sent cn) old \<and> length more \<le> 1 \<and>
     (\<forall>m\<in>set more. \<exists>msg\<in>set (cn_tried cn). same_content msg m)"
proof -
  let ?read = "\<lambda>bytes. ReadFrom NewChunkStreamReader \<lparr>rbytes = bytes, rend = EOF\<rparr>"
  obtain csw0 w0 csw1 w1 msg where torn: "msg \<in> set (cn_tried cn)" "carries csw0 w0 (cn_sent cn)"
    "prefix (wout w0) (wout (cn_out cn))" "carries csw1 w1 (cn_sent cn @ [msg])" "prefix (wout (cn_out cn)) (wout w1)"
    using assms unfolding torn_def by blast
  obtain csr0 where csr0: "?read (wout w0) = Ok (int (length (wout w0)), EOF, csr0)"
    "list_all2 same_content (cn_sent cn) (delivered csr0)"
    using carries_read [OF torn(2)] by blast
  obtain csr1 where csr1: "?read (wout w1) = Ok (int (length (wout w1)), EOF, csr1)"
    "list_all2 same_content (cn_sent cn @ [msg]) (delivered csr1)"
    using carries_read [OF torn(4)] by blast
  obtain n er csr where csr: "?read (wout (cn_out cn)) = Ok (n, er, csr)" "prefix (delivered csr) (delivered csr1)"
    using ReadFrom_cut [OF torn(5) csr1(1)] delivered_prefix by blast
  have "prefix (delivered csr0) (delivered csr)"
    using ReadFrom_cut [OF torn(3) csr(1), of EOF] csr0(1) delivered_prefix by auto
  then obtain more where more: "delivered csr = delivered csr0 @ more" by (auto simp: prefix_def)
  obtain rest where rest: "delivered csr1 = delivered csr0 @ more @ rest" using csr(2) more by (auto simp: prefix_def)
  have "length (delivered csr0) = length (cn_sent cn)" using csr0(2) by (simp add: list_all2_lengthD)
  with csr1(2) rest have "list_all2 same_content [msg] (more @ rest)"
    by (simp add: list_all2_append1) (metis append_eq_append_conv list_all2_lengthD)
  then have "length more \<le> 1 \<and> (\<forall>m\<in>set more. same_content msg m)" by (cases more) (auto simp: list_all2_Cons1)
  with csr(1) more csr0(2) torn(1) show ?thesis by blast
qed

lemma reachable_read:
  fixes w c
  defines "cn \<equiv> w_conn w c"
  assumes "server_handler user" "server_reachable e user ok w" "list_all sendable (cn_tried cn)"
  shows "\<exists>n er csr old more. ReadFrom NewChunkStreamReader \<lparr>rbytes = wout (cn_out cn), rend = EOF\<rparr> = Ok (n, er, csr) \<and>
     delivered csr = old @ more \<and> list_all2 same_content (cn_sent cn) old \<and> length more \<le> 1 \<and>
     (\<forall>m\<in>set more. \<exists>msg\<in>set (cn_tried cn). same_content msg m) \<and>
     (wroom (cn_out cn) \<noteq> Some 0 \<longrightarrow> more = [] \<and> er = EOF \<and> n = int (length (wout (cn_out cn))))"
proof -
  have "carries (cn_csw cn) (unlimited (cn_out cn)) (cn_sent cn) \<or> torn cn"
    using reachable_wired [OF assms(2,3), of c] assms(4) by (simp add: wired_def cn_def)
  then show ?thesis
  proof
    assume "carries (cn_csw cn) (unlimited (cn_out cn)) (cn_sent cn)"
    from carries_read [OF this] obtain csr where
      "ReadFrom NewChunkStreamReader \<lparr>rbytes = wout (cn_out cn), rend = EOF\<rparr> = Ok (int (length (wout (cn_out cn))), EOF, csr)"
      "list_all2 same_content (cn_sent cn) (delivered csr)"
      by auto
    then show ?thesis
      by - (rule exI [where x = "int (length (wout (cn_out cn)))"], rule exI [where x = EOF], rule exI [where x = csr],
        rule exI [where x = "delivered csr"], rule exI [where x = "[]"], simp)
  next
    assume torn: "torn cn"
    then have "wroom (cn_out cn) = Some 0" by (simp add: torn_def)
    with torn_read [OF torn] show ?thesis by simp
  qed
qed

section \<open>Properties\<close>



text \<open>What a viewer sees is what its media stream relayed. In every state a server can reach with polite
  clients, for every player: the peer's reading loop, run on the bytes of the player's connection, hands over among
  its messages, in order, one message for each tag the player has sent, with the type, size and payload of the
  tag, on the player's stream; and these tags are a subsequence of the tags the media stream put on the
  player's channel.\<close>

theorem viewer_reads_channel:
  fixes w p
  defines "mp \<equiv> w_player w p" and "st \<equiv> w_strm w (mp_s (w_player w p))"
    and "cn \<equiv> w_conn w (strm_conn (w_strm w (mp_s (w_player w p))))"
  assumes "server_handler user" and "encodes_create_reply e" and "server_reachable e user (polite e) w"
    and "p < w_nplayer w" and "list_all sendable (cn_tried cn)"
  shows "subseq (mp_sent mp) (channel_tags (ms_chans (w_media w (mp_ms mp)) (mp_sub mp))) \<and>
     (\<exists>n er csr got. ReadFrom NewChunkStreamReader \<lparr>rbytes = wout (cn_out cn), rend = EOF\<rparr> = Ok (n, er, csr) \<and>
       subseq got (delivered csr) \<and>
       list_all2 (\<lambda>tag m. mStreamID m = strm_id st \<and> mType m = ftType tag \<and> mSize m = ftSize tag \<and>
         mBuf m = Some (ftBytes tag)) (mp_sent mp) got)"
proof -
  have pipe: "pipe w mp" using reachable_pipes [OF assms(4-6)] assms(7) by (simp add: pipes_def mp_def)
  obtain n er csr old more where csr: "ReadFrom NewChunkStreamReader \<lparr>rbytes = wout (cn_out cn), rend = EOF\<rparr> = Ok (n, er, csr)"
    "delivered csr = old @ more" "list_all2 same_content (cn_sent cn) old"
    using reachable_read [OF assms(4,6), of "strm_conn st"] assms(8) unfolding cn_def st_def by blast
  have "subseq (messages_of w mp) (cn_sent cn)" using pipe by (simp add: pipe_def cn_def mp_def)
  with csr(3) obtain got where got: "subseq got old" "list_all2 same_content (messages_of w mp) got"
    using list_all2_subseq by blast
  have "subseq got (delivered csr)"
    unfolding csr(2) using got(1) by (rule subseq_order.trans) (rule prefix_imp_subseq, simp)
  moreover have "list_all2 (\<lambda>tag m. mStreamID m = strm_id st \<and> mType m = ftType tag \<and> mSize m = ftSize tag \<and>
         mBuf m = Some (ftBytes tag)) (mp_sent mp) got"
    using got(2) unfolding messages_of_def list_all2_map1
    by (rule list_all2_mono) (simp add: same_content_def on_stream_def tag_message_def st_def mp_def)
  moreover have "subseq (mp_sent mp) (mp_sent mp @ held mp)" by (rule prefix_imp_subseq) simp
  then have "subseq (mp_sent mp) (channel_tags (ms_chans (w_media w (mp_ms mp)) (mp_sub mp)))"
    using pipe prefix_imp_subseq [OF channel_tags_take] unfolding pipe_def read_of_def
    by (blast intro: subseq_order.trans)
  ultimately show ?thesis using csr(1) by blast
qed

end
