(* ===== verification/Server_Provenance.thy ===== *)
theory Server_Provenance
  imports Server_Wire
begin

text \<open>
  Where the tags of a media stream come from: a run of the server keeps the list of the messages its
  connections received, and the tags a media stream took are those of messages received on its owner's
  stream, in order. With what the players send and what the peers read this gives the path of a
  publisher's message through the whole server.
\<close>

section \<open>Runs\<close>

text \<open>The steps of a server other than the handling of a received message are those of \<open>server_step\<close>
  when no message is accepted.\<close>

inductive server_run :: "env \<Rightarrow> user_invoke \<Rightarrow> (world \<Rightarrow> nat \<Rightarrow> message \<Rightarrow> bool) \<Rightarrow> (nat \<times> message) list \<Rightarrow> world \<Rightarrow> bool"
  for e user ok where
  run_start: "server_run e user ok [] world_init"
| run_receive:
    "\<lbrakk>server_run e user ok msgs w; c < w_nconn w; \<not> cn_finished (w_conn w c); ok w c msg;
      conn_OnMessage e user c msg w = Some (Ok (r, w'))\<rbrakk> \<Longrightarrow> server_run e user ok (msgs @ [(c, msg)]) w'"
| run_other:
    "\<lbrakk>server_run e user ok msgs w; server_step e user (\<lambda>_ _ _. False) w w'\<rbrakk> \<Longrightarrow> server_run e user ok msgs w'"

lemma server_step_mono:
  "server_step e user ok w w' \<Longrightarrow> (\<And>w c msg. ok w c msg \<Longrightarrow> ok' w c msg) \<Longrightarrow> server_step e user ok' w w'"
  by (induction rule: server_step.induct) (auto intro: server_step.intros)

lemma server_run_reachable: "server_run e user ok msgs w \<Longrightarrow> server_reachable e user ok w"
proof (induction rule: server_run.induct)
  case run_start
  show ?case by (rule server_reachable.start)
next
  case (run_receive msgs w c msg r w')
  from server_reachable.more [OF run_receive.IH receive_message [of c w ok msg e user r w']] run_receive.hyps
  show ?case by blast
next
  case (run_other msgs w w')
  from server_reachable.more [OF run_other.IH server_step_mono [OF run_other.hyps(2)]] show ?case by simp
qed

lemma server_step_split:
  "server_step e user ok w w' \<Longrightarrow> server_step e user (\<lambda>_ _ _. False) w w' \<or>
     (\<exists>c msg r. c < w_nconn w \<and> \<not> cn_finished (w_conn w c) \<and> ok w c msg \<and>
        conn_OnMessage e user c msg w = Some (Ok (r, w')))"
  by (induction rule: server_step.induct) (auto intro: server_step.intros)

lemma server_reachable_run: "server_reachable e user ok w \<Longrightarrow> \<exists>msgs. server_run e user ok msgs w"
proof (induction rule: server_reachable.induct)
  case start
  show ?case by (rule exI [of _ "[]"]) (rule run_start)
next
  case (more w w')
  then obtain msgs where run: "server_run e user ok msgs w" by blast
  from server_step_split [OF more.hyps(2)] show ?case
  proof
    assume "server_step e user (\<lambda>_ _ _. False) w w'"
    with run show ?thesis by (blast intro: run_other)
  qed (use run in \<open>blast intro: run_receive\<close>)
qed

section \<open>The other steps publish nothing\<close>

lemma unpublished_quiet: "quiet w w' \<Longrightarrow> unpublished e w w'"
  using quiet_steady [of w w' e "{}"] by (simp add: steady_def)

lemma unpublished_upd_player: "unpublished e w (upd_player p f w)"
  by (rule unpublished_same) (simp_all add: upd_player_def)

lemma unpublished_player_turn:
  assumes run: "player_turn e p w = Some (Ok (r, w'))"
  shows "unpublished e w w'"
proof -
  have "unpublished e w (mp_Close e p w)" for w
    using steady_mp_Close [of e "{}"] by (simp add: steady_def)
  then have returns: "unpublished e w (player_return e p w)" for w
    unfolding player_return_def by (rule unpublished_trans [OF unpublished_upd_player])
  have sends: "unpublished e w w1" if "writeTag p tag w = Some (Ok (x, w1))" for w w1 x tag
    using that withinD [OF quiet_stream_Send] unpublished_quiet unfolding writeTag_def by blast
  from run show ?thesis
  proof (cases rule: player_turn_cases)
    case idle
    then show ?thesis by (simp add: unpublished_refl)
  next
    case returned
    then show ?thesis by (simp add: returns)
  next
    case (sent tag w1)
    show ?thesis
      unfolding sent(4)
      by (rule unpublished_trans [OF unpublished_trans [OF unpublished_upd_player sends [OF sent(3)]] unpublished_upd_player])
  next
    case (broken tag er w1)
    show ?thesis
      unfolding broken(4)
      by (rule unpublished_trans [OF unpublished_trans [OF unpublished_upd_player sends [OF broken(3)]] returns])
  qed
qed

lemma unpublished_waitClose: "unpublished e w (waitClose e c er order w)"
proof -
  let ?w1 = "upd_conn c (\<lambda>cn. close_net (e_room e (w_clock w)) (cn\<lparr>cn_csw := Close (cn_csw cn)\<rparr>)) (tick w)"
  let ?w2 = "fold (sc_OnDestroyStream e) order ?w1"
  have "unpublished e w ?w1" by (rule unpublished_same) (simp_all add: upd_conn_def tick_def)
  moreover have "unpublished e ?w1 ?w2" using grows_fold_destroy [of e ?w1 order] by (simp add: steady_def)
  moreover have "unpublished e ?w2 (waitClose e c er order w)"
    by (rule unpublished_same) (simp_all add: waitClose_def Let_def sc_OnClose_def upd_conn_def tell_def)
  ultimately show ?thesis by (blast intro: unpublished_trans)
qed

lemma other_step:
  assumes step: "server_step e user (\<lambda>_ _ _. False) w w'" and inv: "server_inv w" and pipes: "pipes w"
  shows "unpublished e w w' \<and> (\<exists>X. grows X w w')"
proof -
  have steady: "unpublished e w w' \<and> (\<exists>X. grows X w w')" if "steady e {} w w'"
    using that inv_good [OF inv] steady_grows [OF that] by (auto simp: steady_def)
  show ?thesis
    using step
  proof cases
    case (accept out shake)
    moreover have "unpublished e w (handle shake out w)"
      by (rule unpublished_same) (simp_all add: handle_def NewConn_def Let_def split: option.split)
    ultimately show ?thesis using handle_grows by blast
  next
    case (window_full c n r)
    from steady [OF quiet_steady [OF withinD [OF quiet_announcements(5) window_full(2)]]] show ?thesis .
  next
    case (finish_conn c order er)
    then show ?thesis using unpublished_waitClose waitClose_grows inv_good [OF inv] by blast
  next
    case (media_returns m)
    then have "steady e {} w w'" by (simp add: steady_media_event)
    then show ?thesis by (rule steady)
  next
    case (buffer_receives p)
    then show ?thesis
      using unpublished_upd_player grows_upd_player unpublished_refl grows_refl
      by (simp add: player_receive_def Let_def) blast
  next
    case (player_turns p r)
    have "pipe w (w_player w p)" using pipes player_turns(1) by (simp add: pipes_def)
    then have "grows {p} w w'"
      using inv_good [OF inv] player_turn_pipe [OF player_turns(1) _ _ player_turns(2)] by blast
    with unpublished_player_turn [OF player_turns(2)] show ?thesis by blast
  next
    case (user_subscribes m)
    then have "steady e {} w w'" by (simp add: steady_media_Subscribe)
    then show ?thesis by (rule steady)
  next
    case (user_unsubscribes m ch)
    then have "steady e {} w w'" by (simp add: steady_media_Unsubscribe)
    then show ?thesis by (rule steady)
  qed simp
qed

section \<open>Every tag was received\<close>

text \<open>The tags of the messages received on the stream id of stream \<open>s\<close>, on its connection.\<close>

definition received_on :: "world \<Rightarrow> nat \<Rightarrow> (nat \<times> message) list \<Rightarrow> flvTag list" where
  "received_on w s msgs = map (\<lambda>(c, msg). tag_of msg)
     (filter (\<lambda>(c, msg). c = strm_conn (w_strm w s) \<and> mStreamID msg = strm_id (w_strm w s)) msgs)"

definition from_owner :: "env \<Rightarrow> (nat \<times> message) list \<Rightarrow> world \<Rightarrow> nat \<Rightarrow> bool" where
  "from_owner e msgs w m \<longleftrightarrow> (\<exists>evs. w_media w m = ms_run (e_rate e) NewMediaStream evs \<and>
     (published evs \<noteq> [] \<longrightarrow> w_owner w m < w_nstrm w) \<and>
     subseq (published evs) (received_on w (w_owner w m) msgs))"

definition provenance :: "env \<Rightarrow> (nat \<times> message) list \<Rightarrow> world \<Rightarrow> bool" where
  "provenance e msgs w \<longleftrightarrow> (\<forall>s. ready (w_strm w s)) \<and> (\<forall>m<w_nmedia w. from_owner e msgs w m)"

lemma received_on_same:
  "same_place (w_strm w s) (w_strm w' s) \<Longrightarrow> received_on w' s msgs = received_on w s msgs"
  by (simp add: received_on_def same_place_def)

lemma received_on_more: "prefix (received_on w s msgs) (received_on w s (msgs @ msgs'))"
  by (simp add: received_on_def)

lemma from_owner_more: "from_owner e msgs w m \<Longrightarrow> from_owner e (msgs @ msgs') w m"
  unfolding from_owner_def using received_on_more by (blast intro: subseq_order.trans prefix_imp_subseq)

lemma from_owner_silent:
  assumes own: "from_owner e msgs w m" and silent: "silent e (w_media w m) (w_media w' m)"
    and owner: "w_owner w' m = w_owner w m" and grows: "grows X w w'"
  shows "from_owner e msgs w' m"
proof -
  obtain evs where evs: "w_media w m = ms_run (e_rate e) NewMediaStream evs"
    "published evs \<noteq> [] \<longrightarrow> w_owner w m < w_nstrm w"
    "subseq (published evs) (received_on w (w_owner w m) msgs)"
    using own by (auto simp: from_owner_def)
  obtain evs' where evs': "published evs' = []" "w_media w' m = ms_run (e_rate e) (w_media w m) evs'"
    using silent by (auto simp: silent_def)
  have "w_media w' m = ms_run (e_rate e) NewMediaStream (evs @ evs')" by (simp add: evs evs' ms_run_def)
  moreover have "published (evs @ evs') = published evs" by (simp add: evs' published_append)
  moreover have "w_nstrm w \<le> w_nstrm w'" using grows by (simp add: grows_def)
  moreover have "subseq (published evs) (received_on w' (w_owner w m) msgs)"
  proof (cases "published evs = []")
    case False
    then have "same_place (w_strm w (w_owner w m)) (w_strm w' (w_owner w m))"
      using grows evs(2) unfolding grows_def by blast
    with evs(3) show ?thesis by (simp add: received_on_same)
  qed simp
  ultimately show ?thesis using evs(2) owner unfolding from_owner_def by (intro exI [of _ "evs @ evs'"]) auto
qed

lemma from_owner_new:
  assumes "silent e NewMediaStream (w_media w m)"
  shows "from_owner e msgs w m"
proof -
  obtain evs where "published evs = []" "w_media w m = ms_run (e_rate e) NewMediaStream evs"
    using assms by (auto simp: silent_def)
  then show ?thesis unfolding from_owner_def by (intro exI [of _ evs]) simp
qed

lemma provenance_unpublished:
  assumes prov: "provenance e msgs w" and un: "unpublished e w w'" and grows: "grows X w w'"
  shows "provenance e msgs w'"
  unfolding provenance_def
proof (intro conjI allI impI)
  show "ready (w_strm w' s)" for s using prov un by (simp add: provenance_def unpublished_def)
  fix m assume m: "m < w_nmedia w'"
  show "from_owner e msgs w' m"
  proof (cases "m < w_nmedia w")
    case True
    with un prov show ?thesis
      unfolding unpublished_def provenance_def by (blast intro: from_owner_silent [OF _ _ _ grows])
  next
    case False
    with un m show ?thesis unfolding unpublished_def by (intro from_owner_new) simp
  qed
qed

lemma provenance_more: "provenance e msgs w \<Longrightarrow> provenance e (msgs @ msgs') w"
  by (simp add: provenance_def from_owner_more)

lemma provenance_publishes:
  assumes prov: "provenance e msgs w" and inv: "server_inv w" and c: "\<not> cn_finished (w_conn w c)"
    and pub: "publishes e c msg w w'"
  shows "provenance e (msgs @ [(c, msg)]) w'"
proof -
  obtain s h m where s: "cn_streams (w_conn w c) (mStreamID msg) = Some s" "strm_handler (w_strm w s) = Some h"
    "sh_mediaStream h = Some m" and w': "w' = media_event e m (Publish (tag_of msg)) (tick w)"
    using pub by (auto simp: publishes_def)
  have "strm_publishing (w_strm w s)" using prov s by (auto simp: provenance_def ready_def)
  moreover have "live w s" using c s(1) by (auto simp: live_def)
  ultimately have "owns_name w s" using inv by (simp add: server_inv_def publishers_own_def)
  then have owner: "w_owner w m = s" using s by (auto simp: owns_name_def)
  have place: "strm_id (w_strm w s) = mStreamID msg" "strm_conn (w_strm w s) = c" "s < w_nstrm w"
    using inv s(1) unfolding server_inv_def tables_ok_def by blast+
  have same: "w_strm w' = w_strm w" "w_owner w' = w_owner w" "w_nmedia w' = w_nmedia w" "w_nstrm w' = w_nstrm w"
    "w_media w' n = (if n = m then ms_step (e_rate e) (w_media w m) (Publish (tag_of msg)) else w_media w n)" for n
    by (simp_all add: w' media_event_def tick_def)
  have "from_owner e (msgs @ [(c, msg)]) w' n" if n: "n < w_nmedia w" for n
  proof -
    have own: "from_owner e msgs w n" using prov n by (simp add: provenance_def)
    show ?thesis
    proof (cases "n = m")
      case False
      with from_owner_more [OF own, of "[(c, msg)]"] show ?thesis by (simp add: from_owner_def same received_on_def)
    next
      case True
      obtain evs where evs: "w_media w m = ms_run (e_rate e) NewMediaStream evs"
        "subseq (published evs) (received_on w s msgs)"
        using own owner True by (auto simp: from_owner_def)
      have "received_on w' s (msgs @ [(c, msg)]) = received_on w s msgs @ [tag_of msg]"
        using place by (simp add: received_on_def same)
      with evs True show ?thesis
        unfolding True from_owner_def same owner
        by (intro exI [of _ "evs @ [Publish (tag_of msg)]"]) (simp add: published_append place(3) list_emb_append_mono)
    qed
  qed
  with prov show ?thesis by (simp add: provenance_def same)
qed

lemma run_provenance:
  assumes user: "server_handler user" and enc: "encodes_create_reply e" and run: "server_run e user (polite e) msgs w"
  shows "provenance e msgs w"
  using run
proof induction
  case run_start
  show ?case by (simp add: provenance_def world_init_def ready_def newStream_def)
next
  case (run_receive msgs w c msg r w')
  note r = server_run_reachable [OF run_receive.hyps(1)]
  note inv = server_reachable_inv [OF user enc r]
  from conn_OnMessage_publishes [OF user run_receive.hyps(5)] show ?case
  proof
    assume un: "unpublished e w w'"
    have "grows {} w w'"
      using conn_OnMessage_steady [OF user run_receive.hyps(5)] inv_good [OF inv] by blast
    from provenance_more [OF provenance_unpublished [OF run_receive.IH un this]] show ?thesis .
  next
    assume "publishes e c msg w w'"
    from provenance_publishes [OF run_receive.IH inv run_receive.hyps(3) this] show ?thesis .
  qed
next
  case (run_other msgs w w')
  note r = server_run_reachable [OF run_other.hyps(1)]
  from other_step [OF run_other.hyps(2) server_reachable_inv [OF user enc r] reachable_pipes [OF user enc r]]
  show ?case using provenance_unpublished [OF run_other.IH] by blast
qed

section \<open>Properties\<close>



end
