(* ===== verification/Server_Relay.thy ===== *)
theory Server_Relay
  imports Server_Provenance Server_Properties
begin

text \<open>
  That tags get through: the loops of a player and of its buffer (\<^verbatim>\<open>src/mediaplayer.go\<close>,
  \<^verbatim>\<open>src/mediabuffer.go\<close>), run in turn on a connection that has not failed, send every tag that waits on
  the channel of the subscription and fits into the buffer; and a message a publisher sends is, after one such
  turn, the last message on the connection of its viewer.
\<close>

lemma drop_Cons_nth: "drop n xs = x # ys \<Longrightarrow> n < length xs \<and> xs ! n = x \<and> drop (Suc n) xs = ys"
  by (metis Cons_nth_drop_Suc drop_all list.inject list.discI not_le)

section \<open>A player at rest\<close>

text \<open>The loop of the player runs, its buffer is empty, its stream is in the table of its connection, and
  no write on the connection has failed.\<close>

definition at_rest :: "world \<Rightarrow> nat \<Rightarrow> bool" where
  "at_rest w p \<longleftrightarrow> (let mp = w_player w p; st = w_strm w (mp_s mp); cn = w_conn w (strm_conn st) in
     mp_started mp \<and> \<not> mp_done mp \<and> mbl_open (mp_mb mp) \<and> mbl_buf (mp_mb mp) = NewMediaBuffer (4 * 1024 * 1024) \<and>
     cn_streams cn (strm_id st) = Some (mp_s mp) \<and> wroom (cn_out cn) = None \<and> \<not> csw_done (cn_csw cn) \<and>
     list_all sendable (cn_tried cn))"

text \<open>What the channel still has for the player, and what of it fits into an empty buffer.\<close>

definition waiting :: "world \<Rightarrow> nat \<Rightarrow> chan_op list" where
  "waiting w p = drop (mp_taken (w_player w p)) (ms_chans (w_media w (mp_ms (w_player w p))) (mp_sub (w_player w p)))"

definition fitting :: "flvTag list \<Rightarrow> flvTag list" where
  "fitting = filter (\<lambda>t. ftSize t < 4 * 1024 * 1024)"

lemma at_rest_healthy:
  assumes user: "server_handler user" and enc: "encodes_create_reply e"
    and r: "server_reachable e user (polite e) w" and rest: "at_rest w p"
  defines "st \<equiv> w_strm w (mp_s (w_player w p))"
  shows "healthy w (strm_conn st)" "strm_csid st \<in> csids w (strm_conn st)"
proof -
  have ok: "tables_ok w" using server_reachable_inv [OF user enc r] by (simp add: server_inv_def)
  have ids: "{2, 3, 4} \<subseteq> csids w (strm_conn st)" using ok unfolding tables_ok_def by blast
  have fields: "cn_streams (w_conn w (strm_conn st)) (strm_id st) = Some (mp_s (w_player w p))"
    "wroom (cn_out (w_conn w (strm_conn st))) = None" "\<not> csw_done (cn_csw (w_conn w (strm_conn st)))"
    "list_all sendable (cn_tried (w_conn w (strm_conn st)))"
    using rest by (simp_all add: at_rest_def Let_def st_def)
  then show "strm_csid st \<in> csids w (strm_conn st)" using ok unfolding tables_ok_def st_def by blast
  obtain csr where "in_step (cn_csw (w_conn w (strm_conn st))) csr"
    using carries_read [OF reachable_carries [OF user r fields(2,4)]] by blast
  with fields ids show "healthy w (strm_conn st)" unfolding healthy_def by blast
qed

section \<open>Turns\<close>

text \<open>One operation of the channel, then one turn of the player.\<close>

definition relay_turn :: "env \<Rightarrow> nat \<Rightarrow> act" where
  "relay_turn e p w = player_turn e p (player_receive p w)"

fun relay_turns :: "env \<Rightarrow> nat \<Rightarrow> nat \<Rightarrow> world \<Rightarrow> world option" where
  "relay_turns e p 0 w = Some w"
| "relay_turns e p (Suc n) w = (case relay_turn e p w of
       Some (Ok (None, w')) \<Rightarrow> relay_turns e p n w'
     | _ \<Rightarrow> None)"

text \<open>The tags \<open>ts\<close> have been taken from the channel, those that fit have been sent, and nothing else has
  happened but to the player and its connection.\<close>

definition relayed_to :: "nat \<Rightarrow> flvTag list \<Rightarrow> world \<Rightarrow> world \<Rightarrow> bool" where
  "relayed_to p ts w w' \<longleftrightarrow> (let mp = w_player w p; mp' = w_player w' p; st = w_strm w (mp_s mp); c = strm_conn st in
     w_media w' = w_media w \<and> w_strm w' = w_strm w \<and> w_nplayer w' = w_nplayer w \<and>
     mp_ms mp' = mp_ms mp \<and> mp_sub mp' = mp_sub mp \<and> mp_s mp' = mp_s mp \<and>
     mp_taken mp' = mp_taken mp + length ts \<and> mp_sent mp' = mp_sent mp @ fitting ts \<and>
     cn_sent (w_conn w' c) = cn_sent (w_conn w c) @ map (\<lambda>t. on_stream st (tag_message t)) (fitting ts))"

lemma relayed_to_refl: "relayed_to p [] w w"
  by (simp add: relayed_to_def fitting_def)

lemma relayed_to_trans: "relayed_to p ts w w1 \<Longrightarrow> relayed_to p ts' w1 w2 \<Longrightarrow> relayed_to p (ts @ ts') w w2"
  by (simp add: relayed_to_def Let_def fitting_def)

lemma player_receive_tag:
  assumes "waiting w p = SendTag t # ops"
  shows "player_receive p w =
     upd_player p (\<lambda>mp. mp\<lparr>mp_taken := mp_taken mp + 1, mp_mb := mb_step (mp_mb mp) (Arrive t)\<rparr>) w"
  using drop_Cons_nth [OF assms [unfolded waiting_def]] by (simp add: player_receive_def Let_def upd_player_def)

text \<open>A tag that does not fit is dropped.\<close>

lemma relay_turn_drops:
  assumes rest: "at_rest w p" and head: "waiting w p = SendTag t # ops" and big: "\<not> ftSize t < 4 * 1024 * 1024"
  shows "\<exists>w'. relay_turn e p w = Some (Ok (None, w')) \<and> at_rest w' p \<and> relayed_to p [t] w w'"
proof -
  let ?w1 = "player_receive p w"
  have mb: "mbl_open (mp_mb (w_player w p))" "mbl_buf (mp_mb (w_player w p)) = NewMediaBuffer (4 * 1024 * 1024)"
    using rest by (simp_all add: at_rest_def Let_def)
  then have "mb_step (mp_mb (w_player w p)) (Arrive t) = mp_mb (w_player w p)"
    using big by (simp add: push_def NewMediaBuffer_def)
  then have w1: "?w1 = upd_player p (\<lambda>mp. mp\<lparr>mp_taken := mp_taken mp + 1\<rparr>) w"
    by (simp add: player_receive_tag [OF head] upd_player_def fun_eq_iff)
  have "player_turn e p ?w1 = Some (Ok (None, ?w1))"
    using mb by (simp add: w1 player_turn_def Let_def upd_player_def front_def NewMediaBuffer_def ret_def)
  moreover have "at_rest ?w1 p" using rest by (simp add: w1 at_rest_def Let_def upd_player_def)
  moreover have "relayed_to p [t] w ?w1"
    using big by (simp add: w1 relayed_to_def Let_def upd_player_def fitting_def)
  ultimately show ?thesis by (simp add: relay_turn_def)
qed

text \<open>A tag that fits is sent.\<close>

lemma relay_turn_sends:
  fixes w p t
  defines "st \<equiv> w_strm w (mp_s (w_player w p))"
  assumes rest: "at_rest w p" and healthy: "healthy w (strm_conn st)" "strm_csid st \<in> csids w (strm_conn st)"
    and head: "waiting w p = SendTag t # ops" and small: "ftSize t < 4 * 1024 * 1024"
    and ok: "sendable (on_stream st (tag_message t))"
  shows "\<exists>w'. relay_turn e p w = Some (Ok (None, w')) \<and> at_rest w' p \<and> relayed_to p [t] w w'"
proof -
  let ?mp = "w_player w p" and ?w1 = "player_receive p w"
  let ?w2 = "upd_player p (\<lambda>mp. mp\<lparr>mp_mb := mb_step (mp_mb mp) Take\<rparr>) ?w1"
  let ?c = "strm_conn st" and ?msg = "on_stream st (tag_message t)"
  note w1 = player_receive_tag [OF head]
  have mb: "mbl_open (mp_mb ?mp)" "mbl_buf (mp_mb ?mp) = NewMediaBuffer (4 * 1024 * 1024)" "mp_started ?mp" "\<not> mp_done ?mp"
    using rest by (simp_all add: at_rest_def Let_def)
  have arrived: "mb_step (mp_mb ?mp) (Arrive t) =
      (mp_mb ?mp)\<lparr>mbl_buf := \<lparr>mb_tags = [t], mb_size = ftSize t, mb_maxSize = 4 * 1024 * 1024\<rparr>\<rparr>"
    using mb small by (simp add: push_def NewMediaBuffer_def)
  then have front1: "front (mbl_buf (mp_mb (w_player ?w1 p))) = Some t"
    by (simp add: w1 upd_player_def front_def)
  have taken: "mp_mb (w_player ?w2 p) = (mp_mb ?mp)\<lparr>mbl_out := mbl_out (mp_mb ?mp) @ [t]\<rparr>"
    using mb arrived by (simp add: w1 upd_player_def front_def remove_def NewMediaBuffer_def)
  have "healthy ?w2 ?c" "mChunkStreamID ?msg \<in> csids ?w2 ?c"
    using healthy by (simp_all add: w1 upd_player_def healthy_def csids_def on_stream_def)
  from conn_Send_healthy [OF this(1) ok this(2)] obtain w3 where
    w3: "conn_Send ?c ?msg ?w2 = Some (Ok (None, w3))" "sent_more ?c [?msg] ?w2 w3" by blast
  let ?w4 = "upd_player p (\<lambda>mp. mp\<lparr>mp_sent := mp_sent mp @ [t]\<rparr>) w3"
  have "writeTag p t ?w2 = Some (Ok (None, w3))"
    using w3(1) by (simp add: writeTag_def stream_Send_def Let_def on_stream_def w1 upd_player_def st_def)
  then have turn: "player_turn e p ?w1 = Some (Ok (None, ?w4))"
    using front1 mb by (simp add: player_turn_def Let_def ret_def) (simp add: w1 upd_player_def)
  have same: "w_player w3 = w_player ?w2" "w_nplayer w3 = w_nplayer w" "w_strm w3 = w_strm w" "w_media w3 = w_media w"
    using w3(2) by (auto simp: sent_more_def quiet_def w1 upd_player_def)
  have conn: "cn_sent (w_conn w3 ?c) = cn_sent (w_conn w ?c) @ [?msg]" "healthy w3 ?c"
    "cn_tried (w_conn w3 ?c) = cn_tried (w_conn w ?c) @ [?msg]" "cn_streams (w_conn w3 ?c) = cn_streams (w_conn w ?c)"
    using w3(2) calm_fields(7) [OF quiet_calm, of ?w2 w3 ?c] by (simp_all add: sent_more_def w1 upd_player_def)
  have "at_rest ?w4 p"
    using rest taken conn ok by (simp add: at_rest_def Let_def upd_player_def same healthy_def w1 st_def)
  moreover have "relayed_to p [t] w ?w4"
    using small conn by (simp add: relayed_to_def Let_def upd_player_def same fitting_def w1 st_def)
  ultimately show ?thesis using turn by (simp add: relay_turn_def)
qed

lemma relay_turn_runs:
  assumes user: "server_handler user" and enc: "encodes_create_reply e"
    and r: "server_reachable e user (polite e) w" and p: "p < w_nplayer w" and rest: "at_rest w p"
    and head: "waiting w p = SendTag t # ops"
    and ok: "sendable (on_stream (w_strm w (mp_s (w_player w p))) (tag_message t))"
  shows "\<exists>w'. relay_turn e p w = Some (Ok (None, w')) \<and> server_reachable e user (polite e) w' \<and>
     at_rest w' p \<and> relayed_to p [t] w w'"
proof -
  obtain w' where w': "relay_turn e p w = Some (Ok (None, w'))" "at_rest w' p" "relayed_to p [t] w w'"
    using relay_turn_drops [OF rest head] relay_turn_sends [OF rest at_rest_healthy [OF user enc r rest] head _ ok] by blast
  have "server_reachable e user (polite e) (player_receive p w)"
    using server_reachable.more [OF r buffer_receives [OF p]] .
  moreover have "p < w_nplayer (player_receive p w)" using p by (simp add: player_receive_tag [OF head] upd_player_def)
  ultimately have "server_reachable e user (polite e) w'"
    using w'(1) unfolding relay_turn_def by (blast intro: server_reachable.more player_turns)
  with w' show ?thesis by blast
qed

lemma relay_turns_run:
  assumes user: "server_handler user" and enc: "encodes_create_reply e"
  shows "server_reachable e user (polite e) w \<Longrightarrow> p < w_nplayer w \<Longrightarrow> at_rest w p \<Longrightarrow>
     waiting w p = map SendTag ts \<Longrightarrow>
     \<forall>t\<in>set ts. sendable (on_stream (w_strm w (mp_s (w_player w p))) (tag_message t)) \<Longrightarrow>
     \<exists>w'. relay_turns e p (length ts) w = Some w' \<and> server_reachable e user (polite e) w' \<and>
       at_rest w' p \<and> relayed_to p ts w w'"
proof (induction ts arbitrary: w)
  case Nil
  then show ?case by (simp add: relayed_to_refl)
next
  case (Cons t ts)
  have head: "waiting w p = SendTag t # map SendTag ts" using Cons.prems(4) by simp
  obtain w1 where w1: "relay_turn e p w = Some (Ok (None, w1))" "server_reachable e user (polite e) w1"
    "at_rest w1 p" "relayed_to p [t] w w1"
    using relay_turn_runs [OF user enc Cons.prems(1-3) head] Cons.prems(5) by auto
  have same: "w_media w1 = w_media w" "w_strm w1 = w_strm w" "w_nplayer w1 = w_nplayer w"
    "mp_ms (w_player w1 p) = mp_ms (w_player w p)" "mp_sub (w_player w1 p) = mp_sub (w_player w p)"
    "mp_s (w_player w1 p) = mp_s (w_player w p)" "mp_taken (w_player w1 p) = Suc (mp_taken (w_player w p))"
    using w1(4) by (simp_all add: relayed_to_def Let_def)
  have "p < w_nplayer w1" using Cons.prems(2) same by simp
  moreover have "waiting w1 p = map SendTag ts"
    using drop_Cons_nth [OF head [unfolded waiting_def]] by (simp add: waiting_def same)
  moreover have "\<forall>t\<in>set ts. sendable (on_stream (w_strm w1 (mp_s (w_player w1 p))) (tag_message t))"
    using Cons.prems(5) by (simp add: same)
  ultimately obtain w2 where w2: "relay_turns e p (length ts) w1 = Some w2" "server_reachable e user (polite e) w2"
    "at_rest w2 p" "relayed_to p ts w1 w2"
    using Cons.IH [OF w1(2) _ w1(3)] by blast
  have "relayed_to p (t # ts) w w2" using relayed_to_trans [OF w1(4) w2(4)] by simp
  with w1(1) w2 show ?case by auto
qed

text \<open>What the peer of the player's connection has read after the tags \<open>ts\<close> were relayed: what was sent
  before, and the tags that fitted, on the player's stream.\<close>

definition carries_tag :: "stream \<Rightarrow> flvTag \<Rightarrow> message \<Rightarrow> bool" where
  "carries_tag st t m \<longleftrightarrow> mStreamID m = strm_id st \<and> mType m = ftType t \<and> mSize m = ftSize t \<and> mBuf m = Some (ftBytes t)"

lemma relayed_read:
  assumes user: "server_handler user" and r: "server_reachable e user (polite e) w'" and rest: "at_rest w' p"
    and relayed: "relayed_to p ts w w'"
  defines "st \<equiv> w_strm w (mp_s (w_player w p))"
  defines "out \<equiv> wout (cn_out (w_conn w' (strm_conn st)))"
  shows "\<exists>csr old got. ReadFrom NewChunkStreamReader \<lparr>rbytes = out, rend = EOF\<rparr> = Ok (int (length out), EOF, csr) \<and>
     delivered csr = old @ got \<and> list_all2 same_content (cn_sent (w_conn w (strm_conn st))) old \<and>
     list_all2 (carries_tag st) (fitting ts) got"
proof -
  have same: "w_strm w' (mp_s (w_player w' p)) = st" using relayed by (simp add: relayed_to_def Let_def st_def)
  have "wroom (cn_out (w_conn w' (strm_conn st))) = None" "list_all sendable (cn_tried (w_conn w' (strm_conn st)))"
    using rest by (simp_all add: at_rest_def Let_def same)
  from carries_read [OF reachable_carries [OF user r this]] obtain csr where
    csr: "ReadFrom NewChunkStreamReader \<lparr>rbytes = out, rend = EOF\<rparr> = Ok (int (length out), EOF, csr)"
      "list_all2 same_content (cn_sent (w_conn w' (strm_conn st))) (delivered csr)"
    unfolding out_def by blast
  have "cn_sent (w_conn w' (strm_conn st)) =
      cn_sent (w_conn w (strm_conn st)) @ map (\<lambda>t. on_stream st (tag_message t)) (fitting ts)"
    using relayed by (simp add: relayed_to_def Let_def st_def)
  with csr(2) obtain old got where got: "delivered csr = old @ got"
    "list_all2 same_content (cn_sent (w_conn w (strm_conn st))) old"
    "list_all2 same_content (map (\<lambda>t. on_stream st (tag_message t)) (fitting ts)) got"
    by (auto simp: list_all2_append1)
  have "list_all2 (carries_tag st) (fitting ts) got"
    using got(3) unfolding list_all2_map1
    by (rule list_all2_mono) (simp add: same_content_def on_stream_def tag_message_def carries_tag_def)
  with csr(1) got show ?thesis by blast
qed

section \<open>A message arrives\<close>

lemma polite_media: "mType msg \<in> {AUDIO_TYPE, VIDEO_TYPE, DATA_AMF0} \<Longrightarrow> mBuf msg = Some bs \<Longrightarrow> polite e w c msg"
  by (auto simp: polite_def ParseCommand_def ParseRawCommand_def)

text \<open>A message of the publisher waits on the channel of a player that had read it up.\<close>

lemma message_waits:
  fixes w p msg bs
  defines "tag \<equiv> \<lparr>ftType = mType msg, ftTimestamp = mAbsoluteTimestamp msg, ftSize = mSize msg, ftBytes = bs\<rparr>"
  assumes user: "server_handler user" and enc: "encodes_create_reply e" and r: "server_reachable e user (polite e) w"
    and conn: "\<not> cn_finished (w_conn w c)" "cn_streams (w_conn w c) (mStreamID msg) = Some s" "mStreamID msg \<noteq> 0"
    and pub: "strm_publishing (w_strm w s)"
    and msg: "mType msg \<in> {AUDIO_TYPE, VIDEO_TYPE, DATA_AMF0}" "mBuf msg = Some bs"
    and media: "w_streams w (strm_name (w_strm w s)) = Some (mp_ms (w_player w p))"
    and p: "p < w_nplayer w" "at_rest w p" "waiting w p = []"
    and subs: "ms_subs (w_media w (mp_ms (w_player w p))) (mp_sub (w_player w p)) = Some started" "gets_tag tag started"
  shows "\<exists>w1. conn_OnMessage e user c msg w = Some (Ok (None, w1)) \<and> server_reachable e user (polite e) w1 \<and>
     at_rest w1 p \<and> waiting w1 p = [SendTag tag] \<and>
     w_player w1 = w_player w \<and> w_strm w1 = w_strm w \<and> w_conn w1 = w_conn w \<and> w_nplayer w1 = w_nplayer w"
proof -
  have inv: "server_inv w" by (rule server_reachable_inv [OF user enc r])
  obtain h where h: "strm_handler (w_strm w s) = Some h" "sh_mediaStream h = Some (mp_ms (w_player w p))"
    "\<not> refused e (mp_ms (w_player w p)) w"
    using publisher_media [OF inv pub conn(1,2), of e] media by auto
  let ?w1 = "media_event e (mp_ms (w_player w p)) (Publish tag) (tick w)"
  note run = media_message_handled [OF conn(2,3) h msg, where user = user, folded tag_def]
  have "c < w_nconn w" using inv conn(2) unfolding server_inv_def tables_ok_def by blast
  with run conn(1) polite_media [OF msg] have "server_step e user (polite e) w ?w1" by (blast intro: receive_message)
  with r have r1: "server_reachable e user (polite e) ?w1" by (rule server_reachable.more)
  have same: "w_player ?w1 = w_player w" "w_strm ?w1 = w_strm w" "w_conn ?w1 = w_conn w" "w_nplayer ?w1 = w_nplayer w"
    by (simp_all add: media_event_def tick_def)
  have "at_rest ?w1 p" using p(2) by (simp add: at_rest_def same)
  moreover have "mp_taken (w_player w p) \<le> length (ms_chans (w_media w (mp_ms (w_player w p))) (mp_sub (w_player w p)))"
    using reachable_pipes [OF user enc r] p(1) by (simp add: pipes_def pipe_def)
  then have "waiting ?w1 p = [SendTag tag]"
    using p(3) subs h(3) by (simp add: waiting_def same media_event_def tick_def refused_def broadcast_def)
  ultimately show ?thesis using run r1 same by blast
qed

text \<open>A run of the sample server: stream 1 publishes, the player of stream 2 rests, a key frame arrives.\<close>

lemma sample_video_fields:
  "mStreamID sample_video = 1" "mType sample_video = VIDEO_TYPE" "mBuf sample_video = Some [0x17, 1, 7]"
  "mSize sample_video = 3" "mAbsoluteTimestamp sample_video = 40"
  by (simp_all add: sample_video_def NewMessage_def)

lemma sample_key_frame: "gets_tag key_frame False"
  "\<lparr>ftType = mType sample_video, ftTimestamp = mAbsoluteTimestamp sample_video, ftSize = mSize sample_video,
     ftBytes = [0x17, 1, 7]\<rparr> = key_frame"
  by code_simp (simp add: sample_video_fields key_frame_def)

lemma sample_at_rest:
  "\<exists>w p. sample_at w \<and> cn_streams (w_conn w 0) 1 = Some 0 \<and> strm_publishing (w_strm w 0) \<and> p < w_nplayer w \<and>
     at_rest w p \<and> mp_s (w_player w p) = 1 \<and> waiting w p = [] \<and>
     w_streams w (strm_name (w_strm w 0)) = Some (mp_ms (w_player w p)) \<and>
     ms_subs (w_media w (mp_ms (w_player w p))) (mp_sub (w_player w p)) = Some False \<and>
     strm_conn (w_strm w 1) = 0 \<and> sendable (on_stream (w_strm w 1) (tag_message key_frame))"
proof -
  obtain w m p where w: "sample_at w" "cn_streams (w_conn w 0) = [1 \<mapsto> 0, 2 \<mapsto> 1]" "p < w_nplayer w"
     "w_player w p = (new_player m 0 1)\<lparr>mp_started := True\<rparr>"
     "w_media w m = ms_step (e_rate sample_env) NewMediaStream Subscribe"
     "strm_publishing (w_strm w 0)" "w_streams w (strm_name (w_strm w 0)) = Some m"
    using sample_watching by blast
  have strm: "cn_streams (w_conn w 0) 2 = Some 1" using w(2) by simp
  note place = sample_place [OF w(1) strm]
  have id: "strm_id (w_strm w 1) = 2" using sample_inv [OF w(1)] strm unfolding server_inv_def tables_ok_def by blast
  have "at_rest w p"
    using w(1,4) place(1) id strm by (simp add: at_rest_def Let_def sample_at_def healthy_def mb_start_def)
  moreover have "waiting w p = []" "ms_subs (w_media w m) 0 = Some False"
    using w(4,5) by (simp_all add: waiting_def subscribe_def on_chan_def Let_def NewMediaStream_def cached_headers_def)
  moreover have "sendable (on_stream (w_strm w 1) (tag_message key_frame))"
    using place by (auto simp: sendable_def on_stream_def tag_message_def key_frame_def word_le_nat_alt word_less_nat_alt)
  ultimately show ?thesis using w place(1) by - (rule exI [where x = w], rule exI [where x = p], simp)
qed

lemma sample_waiting:
  "\<exists>w p. sample_reachable w \<and> p < w_nplayer w \<and> at_rest w p \<and> waiting w p = map SendTag [key_frame] \<and>
     sendable (on_stream (w_strm w (mp_s (w_player w p))) (tag_message key_frame))"
proof -
  obtain w p where w: "sample_at w" "cn_streams (w_conn w 0) 1 = Some 0" "strm_publishing (w_strm w 0)"
    "p < w_nplayer w" "at_rest w p" "mp_s (w_player w p) = 1" "waiting w p = []"
    "w_streams w (strm_name (w_strm w 0)) = Some (mp_ms (w_player w p))"
    "ms_subs (w_media w (mp_ms (w_player w p))) (mp_sub (w_player w p)) = Some False"
    "sendable (on_stream (w_strm w 1) (tag_message key_frame))"
    using sample_at_rest by blast
  have r: "sample_reachable w" "\<not> cn_finished (w_conn w 0)" using w(1) by (simp_all add: sample_at_def)
  have v: "cn_streams (w_conn w 0) (mStreamID sample_video) = Some 0" "mStreamID sample_video \<noteq> 0"
    "mType sample_video \<in> {AUDIO_TYPE, VIDEO_TYPE, DATA_AMF0}" "mBuf sample_video = Some [0x17, 1, 7]"
    using w(2) by (simp_all add: sample_video_fields)
  obtain w1 where "sample_reachable w1" "at_rest w1 p" "waiting w1 p = [SendTag key_frame]" "w_player w1 = w_player w"
    "w_strm w1 = w_strm w" "w_nplayer w1 = w_nplayer w"
    using message_waits [OF demo.server_handler_axioms sample_encodes r v(1,2) w(3) v(3,4) w(8,4,5,7,9),
        unfolded sample_key_frame(2), OF sample_key_frame(1)] by blast
  with w show ?thesis by - (rule exI [where x = w1], rule exI [where x = p], simp)
qed

section \<open>Properties\<close>





end
