(* ===== verification/Server_Stats.thy ===== *)
theory Server_Stats
  imports Rtmp_Server
begin

text \<open>
  The traffic of a server: the counters that every read and write of its connections adds to
  (\<^verbatim>\<open>netCounter\<close> of \<^verbatim>\<open>src/netconn.go\<close>), the goroutine of \<^verbatim>\<open>Serve\<close> that turns them into rates once a
  second, and \<^verbatim>\<open>Stats\<close> (\<^verbatim>\<open>src/server.go\<close>).

  The goroutines meet only in the atomic operations of the counters, so an execution is the sequence of
  these operations; the body of the ticker is split at each of its loads, and the connections may count
  in between.
\<close>

section \<open>Counting the bytes of a connection\<close>

record traffic =
  bytesIn :: u64
  bytesOut :: u64
  bpsIn :: u64
  bpsOut :: u64

text \<open>What the network gave or took, with its error, is passed on unchanged.\<close>

definition netCounter_Read :: "nat \<times> go_error option \<Rightarrow> traffic \<Rightarrow> (nat \<times> go_error option) \<times> traffic" where
  "netCounter_Read r t = (case r of (n, err) \<Rightarrow> ((n, err), t\<lparr>bytesIn := Counter_Add (word_of_nat n) (bytesIn t)\<rparr>))"

definition netCounter_Write :: "nat \<times> go_error option \<Rightarrow> traffic \<Rightarrow> (nat \<times> go_error option) \<times> traffic" where
  "netCounter_Write r t = (case r of (n, err) \<Rightarrow> ((n, err), t\<lparr>bytesOut := Counter_Add (word_of_nat n) (bytesOut t)\<rparr>))"

text \<open>A connection keeps the idle time it is given; nothing reads it. Its buffered reader and writer are
  those of \<open>Go_IO\<close>.\<close>

record netConn =
  nc_maxIdle :: int

definition NewNetConn :: netConn where
  "NewNetConn = \<lparr>nc_maxIdle = 0\<rparr>"

definition SetMaxIdle :: "int \<Rightarrow> netConn \<Rightarrow> netConn" where
  "SetMaxIdle t n = n\<lparr>nc_maxIdle := t\<rparr>"

section \<open>The ticker\<close>

text \<open>Where the goroutine is: at its \<^verbatim>\<open>select\<close>, or before one of the four loads that follow a tick. A time
  is in nanoseconds; a tick carries the time of it and the time since the tick before.\<close>

datatype ticker_at =
    AtSelect
  | AtRateIn int int
  | AtLastIn int int
  | AtRateOut int int
  | AtLastOut int int
  | AtEnd

record ticker =
  tk_lastIn :: u64
  tk_lastOut :: u64
  tk_lastTick :: "int option"
  tk_at :: ticker_at

datatype meter_event =
    NetRead "nat \<times> go_error option"
  | NetWrite "nat \<times> go_error option"
  | Tick int
  | RateIn
  | LastIn
  | RateOut
  | LastOut
  | TickerDone

text \<open>\<open>rate x d\<close> is \<^verbatim>\<open>int64(float64(x) / delta)\<close> for the \<^verbatim>\<open>delta\<close> seconds that \<open>d\<close> nanoseconds are.\<close>

fun meter_step :: "(u64 \<Rightarrow> int \<Rightarrow> u64) \<Rightarrow> meter_event \<Rightarrow> traffic \<times> ticker \<Rightarrow> (traffic \<times> ticker) option" where
  "meter_step rate (NetRead r) (t, tk) = Some (snd (netCounter_Read r t), tk)"
| "meter_step rate (NetWrite r) (t, tk) = Some (snd (netCounter_Write r t), tk)"
| "meter_step rate (Tick now) (t, tk) = (if tk_at tk \<noteq> AtSelect then None
     else Some (t, case tk_lastTick tk of
         None \<Rightarrow> tk\<lparr>tk_lastTick := Some now\<rparr>
       | Some before \<Rightarrow> tk\<lparr>tk_at := AtRateIn now (now - before)\<rparr>))"
| "meter_step rate RateIn (t, tk) = (case tk_at tk of
       AtRateIn now d \<Rightarrow> Some (t\<lparr>bpsIn := Counter_Set (rate (bytesIn t - tk_lastIn tk) d) (bpsIn t)\<rparr>,
         tk\<lparr>tk_at := AtLastIn now d\<rparr>)
     | _ \<Rightarrow> None)"
| "meter_step rate LastIn (t, tk) = (case tk_at tk of
       AtLastIn now d \<Rightarrow> Some (t, tk\<lparr>tk_lastIn := bytesIn t, tk_at := AtRateOut now d\<rparr>)
     | _ \<Rightarrow> None)"
| "meter_step rate RateOut (t, tk) = (case tk_at tk of
       AtRateOut now d \<Rightarrow> Some (t\<lparr>bpsOut := Counter_Set (rate (bytesOut t - tk_lastOut tk) d) (bpsOut t)\<rparr>,
         tk\<lparr>tk_at := AtLastOut now d\<rparr>)
     | _ \<Rightarrow> None)"
| "meter_step rate LastOut (t, tk) = (case tk_at tk of
       AtLastOut now d \<Rightarrow> Some (t, tk\<lparr>tk_lastOut := bytesOut t, tk_lastTick := Some now, tk_at := AtSelect\<rparr>)
     | _ \<Rightarrow> None)"
| "meter_step rate TickerDone (t, tk) = (if tk_at tk \<noteq> AtSelect then None else Some (t, tk\<lparr>tk_at := AtEnd\<rparr>))"

fun meter_run :: "(u64 \<Rightarrow> int \<Rightarrow> u64) \<Rightarrow> meter_event list \<Rightarrow> traffic \<times> ticker \<Rightarrow> (traffic \<times> ticker) option" where
  "meter_run rate [] s = Some s"
| "meter_run rate (ev # evs) s = Option.bind (meter_step rate ev s) (meter_run rate evs)"

definition new_traffic :: traffic where
  "new_traffic = \<lparr>bytesIn = 0, bytesOut = 0, bpsIn = 0, bpsOut = 0\<rparr>"

definition new_ticker :: ticker where
  "new_ticker = \<lparr>tk_lastIn = 0, tk_lastOut = 0, tk_lastTick = None, tk_at = AtSelect\<rparr>"

section \<open>Stats\<close>

record ServerStats =
  Connections :: u64
  HandshakeFailures :: u64
  BytesIn :: u64
  BytesOut :: u64
  BytesInRate :: u64
  BytesOutRate :: u64

definition server_Stats :: "world \<Rightarrow> traffic \<Rightarrow> ServerStats" where
  "server_Stats w t = \<lparr>Connections = w_connections w, HandshakeFailures = w_handshakeFails w,
     BytesIn = bytesIn t, BytesOut = bytesOut t, BytesInRate = bpsIn t, BytesOutRate = bpsOut t\<rparr>"

section \<open>What the counters count\<close>

fun bytes_read :: "meter_event list \<Rightarrow> nat" where
  "bytes_read [] = 0"
| "bytes_read (NetRead (n, err) # evs) = n + bytes_read evs"
| "bytes_read (_ # evs) = bytes_read evs"

fun bytes_written :: "meter_event list \<Rightarrow> nat" where
  "bytes_written [] = 0"
| "bytes_written (NetWrite (n, err) # evs) = n + bytes_written evs"
| "bytes_written (_ # evs) = bytes_written evs"

fun ticks :: "meter_event list \<Rightarrow> int list" where
  "ticks [] = []"
| "ticks (Tick now # evs) = now # ticks evs"
| "ticks (_ # evs) = ticks evs"

lemma bytes_read_append [simp]: "bytes_read (xs @ ys) = bytes_read xs + bytes_read ys"
  by (induction xs rule: bytes_read.induct) simp_all

lemma bytes_written_append [simp]: "bytes_written (xs @ ys) = bytes_written xs + bytes_written ys"
  by (induction xs rule: bytes_written.induct) simp_all

lemma ticks_append [simp]: "ticks (xs @ ys) = ticks xs @ ticks ys"
  by (induction xs rule: ticks.induct) simp_all

lemma meter_run_append: "meter_run rate (xs @ ys) s = Option.bind (meter_run rate xs s) (meter_run rate ys)"
proof (induction xs arbitrary: s)
  case (Cons x xs)
  then show ?case by (cases "meter_step rate x s") simp_all
qed simp

text \<open>The operations since the last one of a kind, all of them if there is none.\<close>

definition since :: "meter_event \<Rightarrow> meter_event list \<Rightarrow> meter_event list" where
  "since ev evs = rev (takeWhile (\<lambda>x. x \<noteq> ev) (rev evs))"

lemma since_snoc: "since ev (evs @ [x]) = (if x = ev then [] else since ev evs @ [x])"
  by (simp add: since_def)

lemma since_Nil [simp]: "since ev [] = []"
  by (simp add: since_def)

text \<open>The last two ticks, while the rates are being computed.\<close>

definition last_ticks :: "meter_event list \<Rightarrow> int \<Rightarrow> int \<Rightarrow> bool" where
  "last_ticks evs now d \<longleftrightarrow> (\<exists>ts before. ticks evs = ts @ [before, now] \<and> d = now - before)"

definition metered :: "meter_event list \<Rightarrow> traffic \<times> ticker \<Rightarrow> bool" where
  "metered evs s \<longleftrightarrow> (case s of (t, tk) \<Rightarrow>
     bytesIn t = word_of_nat (bytes_read evs) \<and> bytesOut t = word_of_nat (bytes_written evs) \<and>
     bytesIn t - tk_lastIn tk = word_of_nat (bytes_read (since LastIn evs)) \<and>
     bytesOut t - tk_lastOut tk = word_of_nat (bytes_written (since LastOut evs)) \<and>
     (case tk_at tk of
         AtRateIn now d \<Rightarrow> last_ticks evs now d
       | AtLastIn now d \<Rightarrow> last_ticks evs now d
       | AtRateOut now d \<Rightarrow> last_ticks evs now d
       | AtLastOut now d \<Rightarrow> last_ticks evs now d
       | _ \<Rightarrow> tk_lastTick tk = (if ticks evs = [] then None else Some (last (ticks evs)))))"

lemma last_ticks_snoc: "ticks [ev] = [] \<Longrightarrow> last_ticks (evs @ [ev]) now d = last_ticks evs now d"
  by (simp add: last_ticks_def)

lemma last_ticks_last: "last_ticks evs now d \<Longrightarrow> ticks evs \<noteq> [] \<and> last (ticks evs) = now"
  by (auto simp: last_ticks_def)

lemma metered_start: "metered [] (new_traffic, new_ticker)"
  by (simp add: metered_def new_traffic_def new_ticker_def)

lemma metered_step:
  assumes "metered evs s" and "meter_step rate ev s = Some s'"
  shows "metered (evs @ [ev]) s'"
proof -
  obtain t tk where s: "s = (t, tk)" by (cases s)
  note simps = metered_def since_snoc last_ticks_snoc
  show ?thesis
  proof (cases ev)
    case (NetRead r)
    with assms s show ?thesis
      by (cases r; cases "tk_at tk") (auto simp: simps netCounter_Read_def Counter_Add_def diff_add_eq)
  next
    case (NetWrite r)
    with assms s show ?thesis
      by (cases r; cases "tk_at tk") (auto simp: simps netCounter_Write_def Counter_Add_def diff_add_eq)
  next
    case (Tick now)
    with assms s show ?thesis
      by (cases "ticks evs" rule: rev_cases; cases "tk_at tk"; cases "tk_lastTick tk")
        (auto simp: metered_def since_snoc last_ticks_def)
  next
    case LastOut
    with assms s show ?thesis by (cases "tk_at tk") (auto simp: simps dest: last_ticks_last)
  qed (use assms s in \<open>cases "tk_at tk"; auto simp: simps Counter_Set_def\<close>)+
qed

lemma metered_run:
  "metered evs0 s \<Longrightarrow> meter_run rate evs s = Some s' \<Longrightarrow> metered (evs0 @ evs) s'"
proof (induction evs arbitrary: evs0 s)
  case (Cons ev evs)
  then obtain s1 where s1: "meter_step rate ev s = Some s1" "meter_run rate evs s1 = Some s'"
    by (auto simp: bind_eq_Some_conv)
  from Cons.IH [OF metered_step [OF Cons.prems(1) s1(1)] s1(2)] show ?case by simp
qed simp

lemmas metered_reachable = metered_run [OF metered_start, simplified]

lemma rate_stored:
  assumes "meter_run rate (evs @ [ev]) (new_traffic, new_ticker) = Some (t, tk)"
  shows "ev = RateIn \<Longrightarrow> \<exists>ts before now. ticks evs = ts @ [before, now] \<and>
       bpsIn t = rate (word_of_nat (bytes_read (since LastIn evs))) (now - before)"
    and "ev = RateOut \<Longrightarrow> \<exists>ts before now. ticks evs = ts @ [before, now] \<and>
       bpsOut t = rate (word_of_nat (bytes_written (since LastOut evs))) (now - before)"
proof -
  obtain s where s: "meter_run rate evs (new_traffic, new_ticker) = Some s" "meter_step rate ev s = Some (t, tk)"
    using assms by (auto simp: meter_run_append bind_eq_Some_conv)
  obtain t0 tk0 where t0: "s = (t0, tk0)" by (cases s)
  have before: "metered evs (t0, tk0)" using metered_reachable [OF s(1)] t0 by simp
  show "\<exists>ts before now. ticks evs = ts @ [before, now] \<and>
      bpsIn t = rate (word_of_nat (bytes_read (since LastIn evs))) (now - before)" if "ev = RateIn"
    using before s(2) that t0 by (auto simp: metered_def last_ticks_def Counter_Set_def split: ticker_at.splits)
  show "\<exists>ts before now. ticks evs = ts @ [before, now] \<and>
      bpsOut t = rate (word_of_nat (bytes_written (since LastOut evs))) (now - before)" if "ev = RateOut"
    using before s(2) that t0 by (auto simp: metered_def last_ticks_def Counter_Set_def split: ticker_at.splits)
qed

text \<open>The first rate divides all that was counted since the start by the time of one tick.\<close>

lemma first_rate_counts_all:
  assumes "meter_run rate (evs @ [RateIn]) (new_traffic, new_ticker) = Some (t, tk)" and "LastIn \<notin> set evs"
  shows "\<exists>ts before now. ticks evs = ts @ [before, now] \<and> bpsIn t = rate (word_of_nat (bytes_read evs)) (now - before)"
proof -
  have "takeWhile (\<lambda>x. x \<noteq> LastIn) (rev evs) = rev evs" using assms(2) by (subst takeWhile_eq_all_conv) auto
  then have "since LastIn evs = evs" by (simp only: since_def rev_rev_ident)
  with rate_stored(1) [OF assms(1)] show ?thesis by simp
qed

section \<open>Properties\<close>

text \<open>C27. What \<^verbatim>\<open>Stats\<close> reports of the traffic. However the reads and writes of the connections and the
  loads of the ticker interleave: the byte counters are the sums of the counts of all reads and of all
  writes so far, failed ones included (as 64-bit numbers, none is lost); and a rate that is stored is
  the rate, over the time between the last two ticks, of the bytes counted since its last load of the
  counter, which for the first rate are those counted since the start.\<close>

theorem traffic_counted:
  assumes "meter_run rate (evs @ [ev]) (new_traffic, new_ticker) = Some (t, tk)"
  shows "BytesIn (server_Stats w t) = word_of_nat (bytes_read (evs @ [ev])) \<and>
     BytesOut (server_Stats w t) = word_of_nat (bytes_written (evs @ [ev])) \<and>
     (ev = RateIn \<longrightarrow> (\<exists>ts before now. ticks evs = ts @ [before, now] \<and>
        BytesInRate (server_Stats w t) = rate (word_of_nat (bytes_read (since LastIn evs))) (now - before))) \<and>
     (ev = RateOut \<longrightarrow> (\<exists>ts before now. ticks evs = ts @ [before, now] \<and>
        BytesOutRate (server_Stats w t) = rate (word_of_nat (bytes_written (since LastOut evs))) (now - before)))"
  using metered_reachable [OF assms] rate_stored [OF assms] by (simp add: server_Stats_def metered_def)

text \<open>The rate of whole numbers of seconds.\<close>

definition per_second :: "u64 \<Rightarrow> int \<Rightarrow> u64" where
  "per_second x d = word_of_int (sint x div (d div 1000000000))"

text \<open>8000 bytes before the first tick, 500 in the second after it: the first rate is 8500 a second, and
  the 300 bytes counted between its two loads enter no rate.\<close>

definition sample_traffic :: "meter_event list" where
  "sample_traffic = [NetRead (8000, None), Tick 1000000000, NetRead (500, None), NetRead (0, Some EOF),
     Tick 2000000000, RateIn, NetRead (300, None), LastIn, RateOut, LastOut, Tick 3000000000]"

lemma traffic_counted_witness:
  "\<exists>t tk. meter_run per_second (sample_traffic @ [RateIn]) (new_traffic, new_ticker) = Some (t, tk) \<and>
     (\<forall>w. BytesIn (server_Stats w t) = 8800 \<and> BytesInRate (server_Stats w t) = 0)"
proof -
  obtain t tk where run: "meter_run per_second (sample_traffic @ [RateIn]) (new_traffic, new_ticker) = Some (t, tk)"
    by (simp add: sample_traffic_def new_traffic_def new_ticker_def netCounter_Read_def)
  from traffic_counted [OF run] run show ?thesis
    by (auto simp: sample_traffic_def since_def per_second_def append_eq_Cons_conv)
qed

end
