(* ===== verification/Starvation.thy ===== *)
theory Starvation
  imports Rtmp_Server "HOL-Library.Signed_Division"
begin

text \<open>
  The consumer of media streams in the demo server (\<^verbatim>\<open>TrackStarvation\<close> of
  \<^verbatim>\<open>src/cmd/rtmpserver/server.go\<close>): it subscribes to a published stream and compares, every five
  seconds, the time that passed with the media time that arrived, over the last 25 intervals.
\<close>

section \<open>The tracker\<close>

text \<open>Times are read from the clock in nanoseconds; \<open>None\<close> is the zero time.\<close>

record tracker =
  tr_curTs :: u64
  tr_lastTs :: u64
  tr_lastClock :: "int option"
  tr_history :: "u64 list"

definition new_tracker :: tracker where
  "new_tracker = \<lparr>tr_curTs = 0, tr_lastTs = 0, tr_lastClock = None, tr_history = []\<rparr>"

text \<open>What a tick logs.\<close>

record starvation_report =
  rep_sum :: u64
  rep_len :: u64
  rep_starved :: bool
  rep_starvation :: u64

text \<open>A received value, the closed channel, or a tick with the readings of \<^verbatim>\<open>time.Since\<close> and of
  \<^verbatim>\<open>time.Now\<close>.\<close>

datatype tracker_event = Received flvTag | Closed | Ticked int int

text \<open>\<^verbatim>\<open>time.Since(lastClock).Nanoseconds() / 1000000\<close>\<close>

definition millis_since :: "int \<Rightarrow> int \<Rightarrow> u64" where
  "millis_since lastClock now = word_of_int ((now - lastClock) sdiv 1000000)"

definition push_history :: "u64 \<Rightarrow> u64 list \<Rightarrow> u64 list" where
  "push_history x history = (let history = x # history in if length history > 25 then butlast history else history)"

text \<open>\<open>starved sum clockDelta len\<close> is the comparison of floating-point numbers in the second log line.\<close>

definition track_tick :: "(u64 \<Rightarrow> u64 \<Rightarrow> nat \<Rightarrow> bool) \<Rightarrow> int \<Rightarrow> int \<Rightarrow> tracker \<Rightarrow> tracker \<times> starvation_report option" where
  "track_tick starved since now tr = (case tr_lastClock tr of
       None \<Rightarrow> (tr\<lparr>tr_lastTs := tr_curTs tr, tr_lastClock := Some now\<rparr>, None)
     | Some lastClock \<Rightarrow> (let
           streamDelta = tr_curTs tr - tr_lastTs tr;
           clockDelta = millis_since lastClock since;
           history = push_history (clockDelta - streamDelta) (tr_history tr);
           sum = fold (+) history 0
         in (tr\<lparr>tr_lastTs := tr_curTs tr, tr_lastClock := Some now, tr_history := history\<rparr>,
             Some \<lparr>rep_sum = sum, rep_len = word_of_nat (length history),
               rep_starved = starved sum clockDelta (length history),
               rep_starvation = word_of_int (sint sum sdiv int (length history))\<rparr>)))"

text \<open>One turn of the loop; \<open>None\<close> when it returns.\<close>

fun track_step :: "(u64 \<Rightarrow> u64 \<Rightarrow> nat \<Rightarrow> bool) \<Rightarrow> tracker_event \<Rightarrow> tracker \<Rightarrow> (tracker \<times> starvation_report option) option" where
  "track_step starved (Received tag) tr =
     Some (if ftType tag = VIDEO_TYPE then tr\<lparr>tr_curTs := ucast (ftTimestamp tag)\<rparr> else tr, None)"
| "track_step starved Closed tr = None"
| "track_step starved (Ticked since now) tr = Some (track_tick starved since now tr)"

text \<open>The state and the reports after a sequence of turns; the turns after the return are not taken.\<close>

fun track_loop :: "(u64 \<Rightarrow> u64 \<Rightarrow> nat \<Rightarrow> bool) \<Rightarrow> tracker_event list \<Rightarrow> tracker \<Rightarrow> tracker \<times> starvation_report list \<times> bool" where
  "track_loop starved [] tr = (tr, [], False)"
| "track_loop starved (ev # evs) tr = (case track_step starved ev tr of
       None \<Rightarrow> (tr, [], True)
     | Some (tr, rep) \<Rightarrow> (case track_loop starved evs tr of
           (tr, reps, returned) \<Rightarrow> (tr, (case rep of None \<Rightarrow> reps | Some rep \<Rightarrow> rep # reps), returned)))"

text \<open>The whole goroutine: \<open>turns ch\<close> are the turns of the loop on the channel of the subscription, and
  the subscription is given up on the return.\<close>

definition TrackStarvation :: "env \<Rightarrow> (u64 \<Rightarrow> u64 \<Rightarrow> nat \<Rightarrow> bool) \<Rightarrow> nat \<Rightarrow> (nat \<Rightarrow> tracker_event list) \<Rightarrow> world \<Rightarrow>
    starvation_report list \<times> world" where
  "TrackStarvation e starved m turns w = (case media_Subscribe e m w of
       (Ok ch, w) \<Rightarrow> (case track_loop starved (turns ch) new_tracker of
           (tr, reps, returned) \<Rightarrow> (reps, if returned then media_Unsubscribe e m ch w else w))
     | (_, w) \<Rightarrow> ([], w))"

section \<open>The window\<close>

text \<open>What the clock and the stream showed at each tick: the media time, and the two readings.\<close>

fun marks :: "u64 \<Rightarrow> tracker_event list \<Rightarrow> (u64 \<times> int \<times> int) list" where
  "marks ts [] = []"
| "marks ts (Received tag # evs) = marks (if ftType tag = VIDEO_TYPE then ucast (ftTimestamp tag) else ts) evs"
| "marks ts (Closed # evs) = []"
| "marks ts (Ticked since now # evs) = (ts, since, now) # marks ts evs"

text \<open>The time from one mark to the next, and how far the media lagged behind it.\<close>

fun gap :: "u64 \<times> int \<times> int \<Rightarrow> u64 \<times> int \<times> int \<Rightarrow> u64" where
  "gap (ts, since, now) (ts', since', now') = millis_since now since'"

fun lag :: "u64 \<times> int \<times> int \<Rightarrow> u64 \<times> int \<times> int \<Rightarrow> u64" where
  "lag (ts, since, now) (ts', since', now') = millis_since now since' - (ts' - ts)"

fun steps :: "('a \<Rightarrow> 'a \<Rightarrow> 'b) \<Rightarrow> 'a list \<Rightarrow> 'b list" where
  "steps f [] = []"
| "steps f [x] = []"
| "steps f (x # y # xs) = f x y # steps f (y # xs)"

lemma steps_snoc: "xs \<noteq> [] \<Longrightarrow> steps f (xs @ [y]) = steps f xs @ [f (last xs) y]"
  by (induction f xs rule: steps.induct) simp_all

lemma length_steps [simp]: "length (steps f xs) = length xs - 1"
  by (induction f xs rule: steps.induct) simp_all

lemma drop_steps: "drop n (steps f xs) = steps f (drop n xs)"
proof (induction n arbitrary: xs)
  case (Suc n)
  then show ?case by (cases xs rule: remdups_adj.cases) simp_all
qed simp

text \<open>Over consecutive marks the media times cancel out.\<close>

lemma lag_telescopes:
  "ms \<noteq> [] \<Longrightarrow> sum_list (steps lag ms) = sum_list (steps gap ms) - (fst (last ms) - fst (hd ms))"
proof (induction ms rule: induct_list012)
  case (3 x y zs)
  then show ?case by (cases x; cases y) (simp add: algebra_simps)
qed simp_all

lemma push_history_take: "push_history x (take 25 xs) = take 25 (x # xs)"
proof (cases "length xs < 25")
  case False
  then have "xs \<noteq> []" "length (take 25 xs) = 25" by auto
  then have "butlast (x # take 25 xs) = x # take 24 xs" by (simp add: butlast_take)
  with False show ?thesis by (simp add: push_history_def Let_def)
qed (simp add: push_history_def)

lemma fold_plus_sum_list: "fold (+) xs x = x + sum_list xs" for x :: u64
  by (induction xs arbitrary: x) (simp_all add: algebra_simps)

section \<open>What the tracker holds\<close>

fun media_time :: "u64 \<Rightarrow> tracker_event list \<Rightarrow> u64" where
  "media_time ts [] = ts"
| "media_time ts (Received tag # evs) = media_time (if ftType tag = VIDEO_TYPE then ucast (ftTimestamp tag) else ts) evs"
| "media_time ts (_ # evs) = media_time ts evs"

lemma marks_append: "Closed \<notin> set evs \<Longrightarrow> marks ts (evs @ evs') = marks ts evs @ marks (media_time ts evs) evs'"
  by (induction ts evs rule: media_time.induct) auto

lemma media_time_append: "media_time ts (evs @ evs') = media_time (media_time ts evs) evs'"
  by (induction ts evs rule: media_time.induct) auto

lemma track_loop_snoc:
  assumes "Closed \<notin> set evs" and "track_loop starved evs tr = (tr1, reps, returned)"
  shows "\<not> returned \<and> track_loop starved (evs @ [ev]) tr = (case track_step starved ev tr1 of
       None \<Rightarrow> (tr1, reps, True)
     | Some (tr2, rep) \<Rightarrow> (tr2, reps @ (case rep of None \<Rightarrow> [] | Some rep \<Rightarrow> [rep]), False))"
  using assms
proof (induction evs arbitrary: tr reps)
  case (Cons x evs)
  then have "track_step starved x tr \<noteq> None" by (cases x) auto
  then obtain tr0 rep where x: "track_step starved x tr = Some (tr0, rep)" by auto
  obtain reps0 where rest: "track_loop starved evs tr0 = (tr1, reps0, returned)"
    and reps: "reps = (case rep of None \<Rightarrow> reps0 | Some rep \<Rightarrow> rep # reps0)"
    using Cons.prems(2) x by (auto split: prod.splits)
  have "Closed \<notin> set evs" using Cons.prems(1) by simp
  from Cons.IH [OF this rest] show ?case
    using x reps by (auto split: option.splits prod.splits)
qed (auto split: option.splits prod.splits)

definition tracks :: "tracker_event list \<Rightarrow> tracker \<Rightarrow> bool" where
  "tracks evs tr \<longleftrightarrow> tr_curTs tr = media_time 0 evs \<and>
     tr_history tr = take 25 (rev (steps lag (marks 0 evs))) \<and>
     (case tr_lastClock tr of
         None \<Rightarrow> marks 0 evs = []
       | Some now \<Rightarrow> marks 0 evs \<noteq> [] \<and> (\<exists>since. last (marks 0 evs) = (tr_lastTs tr, since, now)))"

lemma tracks_tick:
  assumes "Closed \<notin> set evs" and "tracks evs tr"
  shows "tracks (evs @ [Ticked since now]) (fst (track_tick starved since now tr))"
proof (cases "tr_lastClock tr")
  case None
  with assms show ?thesis by (simp add: tracks_def track_tick_def marks_append media_time_append)
next
  case (Some lastClock)
  with assms obtain since0 where ms: "marks 0 evs \<noteq> []" "last (marks 0 evs) = (tr_lastTs tr, since0, lastClock)"
    by (auto simp: tracks_def)
  with assms Some show ?thesis
    by (simp add: tracks_def track_tick_def Let_def marks_append media_time_append steps_snoc push_history_take)
qed

lemma track_loop_tracks:
  "Closed \<notin> set evs \<Longrightarrow> track_loop starved evs new_tracker = (tr, reps, returned) \<Longrightarrow> tracks evs tr"
proof (induction evs arbitrary: tr reps returned rule: rev_induct)
  case Nil
  then show ?case by (auto simp: tracks_def new_tracker_def)
next
  case (snoc ev evs)
  obtain tr0 reps0 returned0 where before: "track_loop starved evs new_tracker = (tr0, reps0, returned0)"
    by (cases "track_loop starved evs new_tracker")
  have open_evs: "Closed \<notin> set evs" using snoc.prems(1) by simp
  note tracks = snoc.IH [OF open_evs before]
  note run = track_loop_snoc [OF open_evs before, of ev]
  show ?case
  proof (cases ev)
    case (Received tag)
    with run snoc.prems(2) tracks open_evs show ?thesis
      by (auto simp: tracks_def marks_append media_time_append split: if_splits option.splits)
  next
    case (Ticked since now)
    with run snoc.prems(2) have "tr = fst (track_tick starved since now tr0)" by (auto split: prod.splits)
    with tracks_tick [OF open_evs tracks] Ticked show ?thesis by simp
  qed (use snoc.prems in simp)
qed

section \<open>Properties\<close>

text \<open>C39. What the tracker reports. At every tick but the first, the sum it logs is the time the clock
  showed over the last 25 intervals (all of them while there are fewer) less the media time the video
  tags advanced over the same intervals, whatever came in between (64-bit arithmetic); the mean divides
  it by the number of these intervals, which is from 1 to 25; and the goroutine goes on until the
  channel is closed.\<close>

theorem starvation_is_window:
  fixes evs since now
  defines "window \<equiv> drop (length (marks 0 (evs @ [Ticked since now])) - 26) (marks 0 (evs @ [Ticked since now]))"
  assumes "track_loop starved (evs @ [Ticked since now]) new_tracker = (tr, reps, returned)"
    and "Closed \<notin> set evs" and "marks 0 evs \<noteq> []"
  shows "\<not> returned \<and> reps \<noteq> [] \<and> 1 \<le> length window - 1 \<and> length window - 1 \<le> 25 \<and>
     rep_len (last reps) = word_of_nat (length window - 1) \<and>
     rep_sum (last reps) = sum_list (steps gap window) - (fst (last window) - fst (hd window)) \<and>
     rep_starvation (last reps) = word_of_int (sint (rep_sum (last reps)) sdiv int (length window - 1))"
proof -
  obtain tr0 reps0 returned0 where before: "track_loop starved evs new_tracker = (tr0, reps0, returned0)"
    by (cases "track_loop starved evs new_tracker")
  note run = track_loop_snoc [OF assms(3) before, of "Ticked since now"]
  have tracks: "tracks (evs @ [Ticked since now]) tr" using assms(3) by (intro track_loop_tracks [OF _ assms(2)]) simp
  let ?ms = "marks 0 (evs @ [Ticked since now])"
  have ms: "?ms = marks 0 evs @ [(media_time 0 evs, since, now)]" using assms(3) by (simp add: marks_append)
  have n: "2 \<le> length ?ms" using assms(4) by (cases "marks 0 evs") (simp_all add: ms)
  have window: "window \<noteq> []" "length window - 1 = min 25 (length ?ms - 1)"
    using n by (auto simp: window_def)
  obtain lastClock where "tr_lastClock tr0 = Some lastClock"
    using track_loop_tracks [OF assms(3) before] assms(4) by (cases "tr_lastClock tr0") (simp_all add: tracks_def)
  then obtain rep where rep: "track_tick starved since now tr0 = (tr, Some rep)" "reps = reps0 @ [rep]" "\<not> returned"
    using run assms(2) by (auto simp: track_tick_def Let_def split: prod.splits)
  have "tr_history tr = rev (drop (length ?ms - 26) (steps lag ?ms))"
    using tracks by (simp add: tracks_def take_rev)
  then have history: "tr_history tr = rev (steps lag window)"
    by (simp add: drop_steps window_def)
  have "rep_sum rep = sum_list (tr_history tr)" "rep_len rep = word_of_nat (length (tr_history tr))"
    "rep_starvation rep = word_of_int (sint (rep_sum rep) sdiv int (length (tr_history tr)))"
    using rep(1) by (auto simp: track_tick_def Let_def fold_plus_sum_list split: option.splits)
  with rep(2,3) window n lag_telescopes [OF window(1)] show ?thesis
    by (simp add: history sum_list_rev)
qed

text \<open>Two ticks five seconds apart, four seconds of video in between.\<close>

definition video_at :: "u32 \<Rightarrow> flvTag" where
  "video_at ts = \<lparr>ftType = VIDEO_TYPE, ftTimestamp = ts, ftSize = 0, ftBytes = []\<rparr>"

lemma starvation_is_window_witness:
  "\<exists>tr reps. track_loop (\<lambda>_ _ _. True) [Received (video_at 1000), Ticked 0 7000000, Received (video_at 5000), Ticked 5007000000 5007000000]
       new_tracker = (tr, reps, False) \<and> rep_sum (last reps) = 1000 \<and> rep_starvation (last reps) = 1000"
proof -
  let ?evs = "[Received (video_at 1000), Ticked 0 7000000, Received (video_at 5000)]"
  obtain tr reps returned where run: "track_loop (\<lambda>_ _ _. True) (?evs @ [Ticked 5007000000 5007000000]) new_tracker = (tr, reps, returned)"
    by (cases "track_loop (\<lambda>_ _ _. True) (?evs @ [Ticked 5007000000 5007000000]) new_tracker")
  from starvation_is_window [OF run] run show ?thesis
    by (simp add: video_at_def millis_since_def signed_divide_int_def)
qed

end
