(* ===== verification/Header_Tests.thy ===== *)
theory Header_Tests
  imports Rtmp_Header
begin

text \<open>
  The tables of \<^verbatim>\<open>src/header_test.go\<close> run on the model: what the repository's own tests expect of
  \<^verbatim>\<open>ReadBaseHeader\<close>, \<^verbatim>\<open>ReadHeader\<close> and \<^verbatim>\<open>Write\<close>, and the one case in which the code does not meet it.
\<close>

text \<open>\<^verbatim>\<open>testBaseHeaderCases\<close>: the bytes, the format and the chunk stream id.\<close>

definition testBaseHeaderCases :: "(u8 list \<times> u8 \<times> u32) list" where
  "testBaseHeaderCases =
    [([0x00, 0x00], 0, 64), ([0x00, 0x01], 0, 65), ([0x00, 0xff], 0, 319), ([0x01, 0x00, 0x01], 0, 320),
     ([0x01, 0xff, 0xff], 0, 65599), ([0x02], 0, 2), ([0x03], 0, 3), ([0x3f], 0, 63), ([0x43], 1, 3),
     ([0x83], 2, 3), ([0xc3], 3, 3)]"

definition base_header_passes :: "u8 list \<times> u8 \<times> u32 \<Rightarrow> bool" where
  "base_header_passes c = (case c of (data, fmt, csi) \<Rightarrow>
     (case ReadBaseHeader \<lparr>rbytes = data, rend = EOF\<rparr> of (n, x, _) \<Rightarrow> n = length data \<and> x = Ok (fmt, csi)))"

lemma base_header_tests_pass: "list_all base_header_passes testBaseHeaderCases"
  by code_simp

text \<open>\<^verbatim>\<open>testHeaderCases\<close>: the bytes, the base header and the header.\<close>

definition test_header :: "u8 \<Rightarrow> u32 \<Rightarrow> u32 \<Rightarrow> u8 \<Rightarrow> u32 \<Rightarrow> header" where
  "test_header fmt ts len typ ext = \<lparr>hFmt = fmt, hChunkStreamID = 3, hTimestamp = ts, hMessageLength = len,
     hMessageTypeID = typ, hMessageStreamID = 4, hExtendedTimestamp = ext\<rparr>"

definition testHeaderCases :: "(u8 list \<times> u8 list \<times> header) list" where
  "testHeaderCases =
    [([0, 0, 1, 0, 0, 2, 3, 4, 0, 0, 0], [0x03], test_header 0 1 2 3 0),
     ([0xff, 0xff, 0xff, 0, 0, 2, 3, 4, 0, 0, 0, 0x10, 0, 0, 0], [0x03], test_header 0 0xffffff 2 3 0x10000000),
     ([0, 0, 0x11, 0, 0, 0x12, 0x13], [0x43], test_header 1 0x11 0x12 0x13 0),
     ([0xff, 0xff, 0xff, 0, 0, 0x12, 0x13, 0x11, 0, 0, 0], [0x43], test_header 1 0xffffff 0x12 0x13 0x11000000),
     ([0, 0, 0x21], [0x83], test_header 2 0x21 0x12 0x13 0),
     ([0xff, 0xff, 0xff, 0x21, 0, 0, 0], [0x83], test_header 2 0xffffff 0x12 0x13 0x21000000),
     ([0x21, 0, 0, 0], [0xc3], test_header 3 0xffffff 0x12 0x13 0x21000000)]"

text \<open>\<^verbatim>\<open>TestReadHeader\<close> reads all cases into one header, without a last header.\<close>

fun read_header_tests :: "header \<Rightarrow> (u8 list \<times> u8 list \<times> header) list \<Rightarrow> bool list" where
  "read_header_tests h [] = []"
| "read_header_tests h ((data, base, expected) # cs) =
     (case ReadHeader h (hFmt expected) (hChunkStreamID expected) None \<lparr>rbytes = data, rend = EOF\<rparr> of
         (n, Ok h', _) \<Rightarrow> (n = length data \<and> h' = expected) # read_header_tests h' cs
       | _ \<Rightarrow> [False])"

definition write_header_passes :: "u8 list \<times> u8 list \<times> header \<Rightarrow> bool" where
  "write_header_passes c = (case c of (data, base, h) \<Rightarrow>
     (case Header_Write h \<lparr>wout = [], wroom = None, wfail = EOF\<rparr> of (n, x, w) \<Rightarrow>
        x = Ok () \<and> n = length (base @ data) \<and> wout w = base @ data))"

text \<open>The cases of the formats 0 to 2 pass; the one of a continuation, which expects an extended timestamp
  to be written and, without a last header, to be read, passes neither way.\<close>

lemma header_tests_but_last:
  "read_header_tests zero_header testHeaderCases = [True, True, True, True, True, True, False]"
  "map write_header_passes testHeaderCases = [True, True, True, True, True, True, False]"
  by code_simp+

end
