(* ===== verification/Handshake_Keys.thy ===== *)
theory Handshake_Keys
  imports Handshake Sha256_Eval
begin

text \<open>
  The codes of the handshake, evaluated up to the message: the hashing of either pass starts with a
  block that holds the key, whatever the message.
\<close>

text \<open>The key of the players, of which a block is signed with the first 30 bytes.\<close>

lemma player_inner:
  "sha_blocks (Sha 0x6a09e667 0xbb67ae85 0x3c6ef372 0xa54ff53a 0x510e527f 0x9b05688c 0x1f83d9ab 0x5be0cd19)
     (0x71 # 0x53 # 0x58 # 0x43 # 0x5f # 0x58 # 0x53 # 0x16 # 0x77 # 0x52 # 0x59 # 0x54 # 0x53 # 0x16 # 0x70 # 0x5a #
      0x57 # 0x45 # 0x5e # 0x16 # 0x66 # 0x5a # 0x57 # 0x4f # 0x53 # 0x44 # 0x16 # 0x06 # 0x06 # 0x07 # 0x36 # 0x36 #
      0x36 # 0x36 # 0x36 # 0x36 # 0x36 # 0x36 # 0x36 # 0x36 # 0x36 # 0x36 # 0x36 # 0x36 # 0x36 # 0x36 # 0x36 # 0x36 #
      0x36 # 0x36 # 0x36 # 0x36 # 0x36 # 0x36 # 0x36 # 0x36 # 0x36 # 0x36 # 0x36 # 0x36 # 0x36 # 0x36 # 0x36 # 0x36 # rest) =
   sha_blocks (Sha 0xab9b2043 0x9d576b06 0x90cc6d17 0x9e2d20d9 0x430bbd1c 0x0a5165be 0xc8af2193 0x406c37fe) rest"
  by (simp only: sha_eval)

lemma player_outer:
  "sha_blocks (Sha 0x6a09e667 0xbb67ae85 0x3c6ef372 0xa54ff53a 0x510e527f 0x9b05688c 0x1f83d9ab 0x5be0cd19)
     (0x1b # 0x39 # 0x32 # 0x29 # 0x35 # 0x32 # 0x39 # 0x7c # 0x1d # 0x38 # 0x33 # 0x3e # 0x39 # 0x7c # 0x1a # 0x30 #
      0x3d # 0x2f # 0x34 # 0x7c # 0x0c # 0x30 # 0x3d # 0x25 # 0x39 # 0x2e # 0x7c # 0x6c # 0x6c # 0x6d # 0x5c # 0x5c #
      0x5c # 0x5c # 0x5c # 0x5c # 0x5c # 0x5c # 0x5c # 0x5c # 0x5c # 0x5c # 0x5c # 0x5c # 0x5c # 0x5c # 0x5c # 0x5c #
      0x5c # 0x5c # 0x5c # 0x5c # 0x5c # 0x5c # 0x5c # 0x5c # 0x5c # 0x5c # 0x5c # 0x5c # 0x5c # 0x5c # 0x5c # 0x5c # rest) =
   sha_blocks (Sha 0x941c2d2d 0xa04e9891 0x26ab56a5 0xa3d018f6 0xccc062d3 0xa0c3be23 0xbd8451ab 0x3f597e24) rest"
  by (simp only: sha_eval)

lemma player_block:
  "hmac_key (take 30 GENUINE_FP_KEY) =
     [0x47, 0x65, 0x6e, 0x75, 0x69, 0x6e, 0x65, 0x20, 0x41, 0x64, 0x6f, 0x62, 0x65, 0x20, 0x46,
      0x6c, 0x61, 0x73, 0x68, 0x20, 0x50, 0x6c, 0x61, 0x79, 0x65, 0x72, 0x20, 0x30, 0x30, 0x31, 0,
      0, 0, 0, 0, 0, 0, 0, 0, 0, 0, 0, 0, 0, 0, 0, 0, 0, 0, 0, 0, 0, 0, 0, 0, 0, 0, 0, 0, 0, 0, 0,
      0, 0]"
proof -
  have key: "take 30 GENUINE_FP_KEY = [0x47, 0x65, 0x6e, 0x75, 0x69, 0x6e, 0x65, 0x20, 0x41, 0x64, 0x6f, 0x62, 0x65, 0x20, 0x46,
      0x6c, 0x61, 0x73, 0x68, 0x20, 0x50, 0x6c, 0x61, 0x79, 0x65, 0x72, 0x20, 0x30, 0x30, 0x31]" by (simp add: GENUINE_FP_KEY_def)
  show ?thesis unfolding key by (simp add: hmac_key_def) (simp add: numeral_eq_Suc)
qed

lemma player_mac:
  "calculateHMACsha256 msg (take 30 GENUINE_FP_KEY) = sha_bytes (sha_blocks (Sha 0x941c2d2d 0xa04e9891 0x26ab56a5 0xa3d018f6 0xccc062d3 0xa0c3be23 0xbd8451ab 0x3f597e24) (sha_bytes
     (sha_blocks (Sha 0xab9b2043 0x9d576b06 0x90cc6d17 0x9e2d20d9 0x430bbd1c 0x0a5165be 0xc8af2193 0x406c37fe) (msg @ sha_tail (64 + length msg))) @ sha_tail 96))"
  unfolding calculateHMACsha256_def
  by (rule hmac_eval [OF player_block]) (simp_all add: player_inner player_outer sha_blocks_Nil)

lemma player_full_inner:
  "sha_blocks (Sha 0x6a09e667 0xbb67ae85 0x3c6ef372 0xa54ff53a 0x510e527f 0x9b05688c 0x1f83d9ab 0x5be0cd19)
     (0x71 # 0x53 # 0x58 # 0x43 # 0x5f # 0x58 # 0x53 # 0x16 # 0x77 # 0x52 # 0x59 # 0x54 # 0x53 # 0x16 # 0x70 # 0x5a #
      0x57 # 0x45 # 0x5e # 0x16 # 0x66 # 0x5a # 0x57 # 0x4f # 0x53 # 0x44 # 0x16 # 0x06 # 0x06 # 0x07 # 0xc6 # 0xd8 #
      0xf4 # 0x7c # 0xb6 # 0x5e # 0x88 # 0xde # 0x18 # 0x36 # 0xe6 # 0xe7 # 0x34 # 0xa8 # 0x48 # 0x61 # 0x58 # 0xda #
      0x6b # 0x1b # 0x1f # 0xb6 # 0x59 # 0x9d # 0xa5 # 0x8e # 0xd0 # 0 # 0xf9 # 0xdd # 0x07 # 0x98 # 0x36 # 0x36 # rest) =
   sha_blocks (Sha 0xf50c211e 0xb4912e4e 0xa654c4f4 0xeaa22a44 0x31f45f66 0x22754a77 0x9b30b532 0xb18de0ad) rest"
  by (simp only: sha_eval)

lemma player_full_outer:
  "sha_blocks (Sha 0x6a09e667 0xbb67ae85 0x3c6ef372 0xa54ff53a 0x510e527f 0x9b05688c 0x1f83d9ab 0x5be0cd19)
     (0x1b # 0x39 # 0x32 # 0x29 # 0x35 # 0x32 # 0x39 # 0x7c # 0x1d # 0x38 # 0x33 # 0x3e # 0x39 # 0x7c # 0x1a # 0x30 #
      0x3d # 0x2f # 0x34 # 0x7c # 0x0c # 0x30 # 0x3d # 0x25 # 0x39 # 0x2e # 0x7c # 0x6c # 0x6c # 0x6d # 0xac # 0xb2 #
      0x9e # 0x16 # 0xdc # 0x34 # 0xe2 # 0xb4 # 0x72 # 0x5c # 0x8c # 0x8d # 0x5e # 0xc2 # 0x22 # 0x0b # 0x32 # 0xb0 #
      1 # 0x71 # 0x75 # 0xdc # 0x33 # 0xf7 # 0xcf # 0xe4 # 0xba # 0x6a # 0x93 # 0xb7 # 0x6d # 0xf2 # 0x5c # 0x5c # rest) =
   sha_blocks (Sha 0x2f089c78 0x00cdebc1 0xfd6934e4 0x55f3acc6 0xe5e8c528 0x4dc7d7c3 0xb6caf065 0x34f8d755) rest"
  by (simp only: sha_eval)

lemma player_full_block:
  "hmac_key GENUINE_FP_KEY =
     [0x47, 0x65, 0x6e, 0x75, 0x69, 0x6e, 0x65, 0x20, 0x41, 0x64, 0x6f, 0x62, 0x65, 0x20, 0x46,
      0x6c, 0x61, 0x73, 0x68, 0x20, 0x50, 0x6c, 0x61, 0x79, 0x65, 0x72, 0x20, 0x30, 0x30, 0x31,
      0xf0, 0xee, 0xc2, 0x4a, 0x80, 0x68, 0xbe, 0xe8, 0x2e, 0, 0xd0, 0xd1, 0x02, 0x9e, 0x7e, 0x57,
      0x6e, 0xec, 0x5d, 0x2d, 0x29, 0x80, 0x6f, 0xab, 0x93, 0xb8, 0xe6, 0x36, 0xcf, 0xeb, 0x31,
      0xae, 0, 0]"
proof -
  have key: "GENUINE_FP_KEY = [0x47, 0x65, 0x6e, 0x75, 0x69, 0x6e, 0x65, 0x20, 0x41, 0x64, 0x6f, 0x62, 0x65, 0x20, 0x46,
      0x6c, 0x61, 0x73, 0x68, 0x20, 0x50, 0x6c, 0x61, 0x79, 0x65, 0x72, 0x20, 0x30, 0x30, 0x31,
      0xf0, 0xee, 0xc2, 0x4a, 0x80, 0x68, 0xbe, 0xe8, 0x2e, 0, 0xd0, 0xd1, 0x02, 0x9e, 0x7e, 0x57,
      0x6e, 0xec, 0x5d, 0x2d, 0x29, 0x80, 0x6f, 0xab, 0x93, 0xb8, 0xe6, 0x36, 0xcf, 0xeb, 0x31, 0xae]" by (simp add: GENUINE_FP_KEY_def)
  show ?thesis unfolding key by (simp add: hmac_key_def) (simp add: numeral_eq_Suc)
qed

lemma player_full_mac:
  "calculateHMACsha256 msg GENUINE_FP_KEY = sha_bytes (sha_blocks (Sha 0x2f089c78 0x00cdebc1 0xfd6934e4 0x55f3acc6 0xe5e8c528 0x4dc7d7c3 0xb6caf065 0x34f8d755) (sha_bytes
     (sha_blocks (Sha 0xf50c211e 0xb4912e4e 0xa654c4f4 0xeaa22a44 0x31f45f66 0x22754a77 0x9b30b532 0xb18de0ad) (msg @ sha_tail (64 + length msg))) @ sha_tail 96))"
  unfolding calculateHMACsha256_def
  by (rule hmac_eval [OF player_full_block]) (simp_all add: player_full_inner player_full_outer sha_blocks_Nil)

text \<open>The key of the servers.\<close>

lemma server_inner:
  "sha_blocks (Sha 0x6a09e667 0xbb67ae85 0x3c6ef372 0xa54ff53a 0x510e527f 0x9b05688c 0x1f83d9ab 0x5be0cd19)
     (0x71 # 0x53 # 0x58 # 0x43 # 0x5f # 0x58 # 0x53 # 0x16 # 0x77 # 0x52 # 0x59 # 0x54 # 0x53 # 0x16 # 0x70 # 0x5a #
      0x57 # 0x45 # 0x5e # 0x16 # 0x7b # 0x53 # 0x52 # 0x5f # 0x57 # 0x16 # 0x65 # 0x53 # 0x44 # 0x40 # 0x53 # 0x44 #
      0x16 # 0x06 # 0x06 # 0x07 # 0x36 # 0x36 # 0x36 # 0x36 # 0x36 # 0x36 # 0x36 # 0x36 # 0x36 # 0x36 # 0x36 # 0x36 #
      0x36 # 0x36 # 0x36 # 0x36 # 0x36 # 0x36 # 0x36 # 0x36 # 0x36 # 0x36 # 0x36 # 0x36 # 0x36 # 0x36 # 0x36 # 0x36 # rest) =
   sha_blocks (Sha 0xfbf1a037 0x2e9a60b2 0xa08c9325 0xa4fd756d 0x55368456 0xbe012b6d 0x476abc98 0xc2e1cb14) rest"
  by (simp only: sha_eval)

lemma server_outer:
  "sha_blocks (Sha 0x6a09e667 0xbb67ae85 0x3c6ef372 0xa54ff53a 0x510e527f 0x9b05688c 0x1f83d9ab 0x5be0cd19)
     (0x1b # 0x39 # 0x32 # 0x29 # 0x35 # 0x32 # 0x39 # 0x7c # 0x1d # 0x38 # 0x33 # 0x3e # 0x39 # 0x7c # 0x1a # 0x30 #
      0x3d # 0x2f # 0x34 # 0x7c # 0x11 # 0x39 # 0x38 # 0x35 # 0x3d # 0x7c # 0x0f # 0x39 # 0x2e # 0x2a # 0x39 # 0x2e #
      0x7c # 0x6c # 0x6c # 0x6d # 0x5c # 0x5c # 0x5c # 0x5c # 0x5c # 0x5c # 0x5c # 0x5c # 0x5c # 0x5c # 0x5c # 0x5c #
      0x5c # 0x5c # 0x5c # 0x5c # 0x5c # 0x5c # 0x5c # 0x5c # 0x5c # 0x5c # 0x5c # 0x5c # 0x5c # 0x5c # 0x5c # 0x5c # rest) =
   sha_blocks (Sha 0x5e768abc 0xa52128de 0xf535f675 0x8694d69c 0x9d55fb0f 0x3309589a 0xb5b12beb 0x87110ee9) rest"
  by (simp only: sha_eval)

lemma server_block:
  "hmac_key (take 36 GENUINE_FMS_KEY) =
     [0x47, 0x65, 0x6e, 0x75, 0x69, 0x6e, 0x65, 0x20, 0x41, 0x64, 0x6f, 0x62, 0x65, 0x20, 0x46,
      0x6c, 0x61, 0x73, 0x68, 0x20, 0x4d, 0x65, 0x64, 0x69, 0x61, 0x20, 0x53, 0x65, 0x72, 0x76,
      0x65, 0x72, 0x20, 0x30, 0x30, 0x31, 0, 0, 0, 0, 0, 0, 0, 0, 0, 0, 0, 0, 0, 0, 0, 0, 0, 0, 0,
      0, 0, 0, 0, 0, 0, 0, 0, 0]"
proof -
  have key: "take 36 GENUINE_FMS_KEY = [0x47, 0x65, 0x6e, 0x75, 0x69, 0x6e, 0x65, 0x20, 0x41, 0x64, 0x6f, 0x62, 0x65, 0x20, 0x46,
      0x6c, 0x61, 0x73, 0x68, 0x20, 0x4d, 0x65, 0x64, 0x69, 0x61, 0x20, 0x53, 0x65, 0x72, 0x76,
      0x65, 0x72, 0x20, 0x30, 0x30, 0x31]" by (simp add: GENUINE_FMS_KEY_def)
  show ?thesis unfolding key by (simp add: hmac_key_def) (simp add: numeral_eq_Suc)
qed

lemma server_mac:
  "calculateHMACsha256 msg (take 36 GENUINE_FMS_KEY) = sha_bytes (sha_blocks (Sha 0x5e768abc 0xa52128de 0xf535f675 0x8694d69c 0x9d55fb0f 0x3309589a 0xb5b12beb 0x87110ee9) (sha_bytes
     (sha_blocks (Sha 0xfbf1a037 0x2e9a60b2 0xa08c9325 0xa4fd756d 0x55368456 0xbe012b6d 0x476abc98 0xc2e1cb14) (msg @ sha_tail (64 + length msg))) @ sha_tail 96))"
  unfolding calculateHMACsha256_def
  by (rule hmac_eval [OF server_block]) (simp_all add: server_inner server_outer sha_blocks_Nil)

text \<open>Where a digest lies.\<close>

lemma scheme_offset_eval:
  assumes "length b = 1536"
  shows "scheme_offset 0 b = unat (sumBytes (take 4 (drop 8 b)) mod 728 + 12)"
    "scheme_offset 1 b = unat (sumBytes (take 4 (drop 772 b)) mod 728 + 776)"
  using assms
  by (simp_all add: scheme_offset_def getDigestOffset_def getDigestOffset0_def getDigestOffset1_def go_slice_def
      del: unat_plus_if')

end
