(* ===== verification/Recorded_Vlc.thy ===== *)
theory Recorded_Vlc
  imports Handshake_Keys
begin

text \<open>
  The handshake of a VLC player, recorded in \<^verbatim>\<open>src/vlc_test_bytes.go\<close>, with the codes it carries.
\<close>

definition vlc_s1 :: "u8 list" where
  "vlc_s1 =
     [0x1f, 0x95, 0x03, 0x8b, 0x04, 0x05, 0x00, 0x01, 0x7e, 0xd1, 0x31, 0x57, 0xc0, 0xa0, 0xec, 0xc8] @
     [0x49, 0xc8, 0xf0, 0x05, 0x7a, 0xd2, 0x12, 0xd4, 0xbc, 0x8c, 0xfa, 0x47, 0x76, 0x61, 0x6f, 0x24] @
     [0xd9, 0xc2, 0x4e, 0x2e, 0x47, 0x80, 0x2a, 0x5b, 0x3c, 0x09, 0xd4, 0x23, 0xc3, 0x36, 0x61, 0x5d] @
     [0x61, 0x4a, 0x65, 0xef, 0x58, 0x6d, 0x45, 0xde, 0x15, 0x13, 0xce, 0xf8, 0xb1, 0xae, 0xff, 0x0d] @
     [0xae, 0xee, 0xc6, 0x3d, 0x50, 0x2c, 0xa5, 0x6c, 0x4a, 0x23, 0x22, 0x0e, 0x93, 0xab, 0x1b, 0x29] @
     [0x92, 0xea, 0x34, 0x5e, 0x8f, 0x25, 0x53, 0xf4, 0x91, 0x37, 0x3d, 0xf9, 0x34, 0xc7, 0x33, 0x76] @
     [0xaa, 0x91, 0x81, 0xbd, 0x65, 0x4d, 0xc3, 0xe9, 0x91, 0x69, 0x3a, 0xf9, 0x9c, 0xc2, 0xb2, 0x0d] @
     [0x1c, 0xa7, 0x6c, 0x2f, 0x5e, 0x5e, 0x24, 0x4a, 0x7c, 0x15, 0xee, 0x54, 0xbd, 0x85, 0x68, 0xd9] @
     [0x31, 0x1e, 0x53, 0x14, 0xd1, 0x5f, 0x0e, 0xc2, 0x7a, 0x0c, 0x41, 0xbf, 0x34, 0x27, 0x28, 0x6b] @
     [0x7a, 0x45, 0xe0, 0x91, 0xfe, 0x27, 0x0f, 0x55, 0xb6, 0xc6, 0x15, 0x5b, 0x98, 0x97, 0x4d, 0x8a] @
     [0xa9, 0x29, 0xc5, 0xf2, 0x0d, 0x61, 0x8e, 0x56, 0x47, 0x8e, 0xbd, 0xb5, 0xd1, 0x42, 0x1c, 0x93] @
     [0xc5, 0x9c, 0xe1, 0x2e, 0x32, 0x83, 0x6e, 0x53, 0x58, 0xf4, 0xc0, 0xb1, 0x6b, 0xaf, 0x33, 0x9e] @
     [0x09, 0x42, 0x31, 0xca, 0x1e, 0x7d, 0xbc, 0xe7, 0xf2, 0x63, 0xcf, 0x4b, 0x9b, 0xa2, 0xbc, 0x24] @
     [0x3c, 0xe7, 0xfc, 0xb5, 0x5e, 0x8e, 0x7c, 0x52, 0xa1, 0x6b, 0xb1, 0xb3, 0xfe, 0xbc, 0x48, 0x67] @
     [0x32, 0xec, 0xc8, 0x4c, 0x4c, 0x0b, 0xbd, 0xd6, 0x5c, 0x9e, 0x77, 0x89, 0x47, 0x9b, 0x4a, 0x24] @
     [0x43, 0xb3, 0xbc, 0xe7, 0xc0, 0x22, 0x89, 0xbc, 0xb4, 0x86, 0x5e, 0x90, 0x65, 0x12, 0x13, 0x4c] @
     [0x99, 0x15, 0x8c, 0x81, 0x76, 0xda, 0xb8, 0x56, 0x4b, 0x16, 0x09, 0x79, 0x5f, 0x15, 0xdb, 0xab] @
     [0xff, 0x23, 0x6e, 0x6b, 0x89, 0x54, 0x81, 0xe1, 0xd4, 0x44, 0x05, 0xfe, 0x19, 0x75, 0x22, 0xf4] @
     [0x02, 0xf5, 0x35, 0xb8, 0xfb, 0xac, 0x92, 0xbb, 0xc2, 0x75, 0x80, 0x34, 0x9a, 0x09, 0x54, 0x46] @
     [0xad, 0x75, 0xad, 0xd9, 0x56, 0xd2, 0x51, 0x3c, 0x39, 0x3d, 0xf2, 0x5d, 0xd3, 0xc9, 0x97, 0xa3] @
     [0xb6, 0x99, 0x70, 0x62, 0xd6, 0xee, 0x1c, 0x1a, 0xbc, 0x3c, 0xcc, 0x96, 0xb3, 0x65, 0x8b, 0x1b] @
     [0x63, 0x0c, 0x45, 0x1c, 0x7d, 0x9a, 0x86, 0xd4, 0x9c, 0xe8, 0xc2, 0xa0, 0x7e, 0x18, 0x15, 0xd5] @
     [0xad, 0x30, 0xfa, 0x4e, 0x21, 0x2a, 0x59, 0x54, 0x49, 0x35, 0xb1, 0xeb, 0xfa, 0xae, 0xc2, 0x0e] @
     [0xd5, 0xa0, 0xf3, 0x0c, 0x3a, 0x74, 0x01, 0xf9, 0xa2, 0x9b, 0xbc, 0x18, 0x5b, 0x3a, 0x31, 0x17] @
     [0x93, 0x19, 0x39, 0x0a, 0x18, 0x3e, 0x6e, 0x1e, 0xb6, 0x12, 0x44, 0x62, 0x8f, 0x46, 0xdb, 0xb8] @
     [0x9e, 0xdf, 0x44, 0x70, 0x11, 0x38, 0x57, 0x37, 0x73, 0xe7, 0xfd, 0xf3, 0x2f, 0x02, 0x23, 0x9d] @
     [0x8a, 0x6e, 0x1c, 0x5d, 0x15, 0x55, 0x7a, 0xa6, 0xc2, 0x02, 0x62, 0x3a, 0x7f, 0xd9, 0xe1, 0x7d] @
     [0x25, 0x1f, 0x6f, 0xf2, 0xe0, 0x92, 0x70, 0x7f, 0x02, 0xc5, 0x29, 0xdd, 0xcf, 0xf1, 0x9c, 0x3a] @
     [0x85, 0xf1, 0x9a, 0xb4, 0x57, 0xd8, 0x50, 0x58, 0xea, 0x3c, 0x30, 0x1d, 0x86, 0x2c, 0xca, 0xba] @
     [0xc9, 0xcd, 0x76, 0x62, 0xdd, 0x56, 0x67, 0x44, 0x79, 0x21, 0x64, 0x29, 0x56, 0xc9, 0x64, 0xdc] @
     [0x98, 0xdc, 0x42, 0x2c, 0x3a, 0xe1, 0xe7, 0x17, 0x97, 0xe7, 0x80, 0xab, 0x0d, 0x7b, 0x5c, 0xde] @
     [0x52, 0x05, 0x62, 0xf2, 0xda, 0xf7, 0xd9, 0xf5, 0xe5, 0x16, 0x31, 0x17, 0x9d, 0x0d, 0x06, 0xfb] @
     [0xa1, 0x31, 0x73, 0x7a, 0xce, 0x13, 0x20, 0x0f, 0x0a, 0x60, 0xfe, 0x7e, 0x15, 0xdc, 0x0c, 0xfb] @
     [0x44, 0x58, 0xb7, 0x0f, 0xa7, 0x00, 0x40, 0xd3, 0x74, 0x98, 0xca, 0xc0, 0xd7, 0xe1, 0xb2, 0x2a] @
     [0x95, 0x62, 0x5a, 0x20, 0x3c, 0x17, 0xbc, 0xc8, 0x0d, 0x68, 0x25, 0xa4, 0x54, 0x51, 0x97, 0x79] @
     [0x5a, 0x73, 0x45, 0x81, 0x45, 0x11, 0xfc, 0x19, 0xc8, 0x12, 0x56, 0x84, 0x26, 0x24, 0x17, 0xe6] @
     [0x8c, 0xe7, 0xa1, 0x44, 0x40, 0x1f, 0x7f, 0x59, 0xa9, 0x53, 0x11, 0xf0, 0xea, 0x65, 0xc2, 0x8a] @
     [0x75, 0x73, 0x19, 0x92, 0x91, 0xcd, 0x73, 0x44, 0x0b, 0x78, 0xa2, 0x4c, 0x77, 0x49, 0xe1, 0x3a] @
     [0x3c, 0xfa, 0xb3, 0x26, 0x0b, 0xcb, 0xb8, 0xd0, 0xbb, 0xf7, 0xf2, 0xd3, 0xf5, 0x79, 0x7b, 0x6b] @
     [0x65, 0x90, 0xfc, 0xa4, 0x11, 0xd7, 0xff, 0x64, 0xaa, 0xb4, 0x30, 0x3d, 0x5f, 0x43, 0xa5, 0x9e] @
     [0x02, 0x2c, 0x4b, 0x57, 0x40, 0x98, 0x30, 0x98, 0x97, 0xc2, 0x3d, 0xb7, 0x33, 0xbe, 0x06, 0xaa] @
     [0x62, 0xa8, 0x07, 0x49, 0xa4, 0xfb, 0x30, 0x39, 0x0d, 0x66, 0xc5, 0x94, 0xf2, 0x93, 0x88, 0x8f] @
     [0x21, 0x6e, 0x96, 0x79, 0x3a, 0x1f, 0x64, 0x4d, 0x5d, 0xe4, 0x5d, 0x43, 0x20, 0xc9, 0xcc, 0xae] @
     [0x85, 0x8c, 0x09, 0x4c, 0x7d, 0xa3, 0xfa, 0x5d, 0xf2, 0x0e, 0x53, 0x15, 0xb8, 0x37, 0x5c, 0x60] @
     [0x48, 0x51, 0x12, 0x9d, 0xa5, 0x06, 0x88, 0x47, 0xba, 0xeb, 0x1c, 0x82, 0x4a, 0x99, 0x95, 0x08] @
     [0x1b, 0x15, 0xa9, 0x54, 0xc0, 0x78, 0xae, 0x06, 0xbb, 0xbe, 0xa2, 0x01, 0xb7, 0xcc, 0xb5, 0x1f] @
     [0xd5, 0xd0, 0x66, 0x1c, 0x59, 0x54, 0x5a, 0x9e, 0xdf, 0xc2, 0xa3, 0x47, 0x0e, 0x6b, 0xa9, 0xd1] @
     [0x44, 0x03, 0x79, 0x21, 0xbd, 0xce, 0x36, 0x58, 0xc1, 0xf4, 0x67, 0x15, 0xab, 0xc2, 0xf6, 0xe7] @
     [0x33, 0x8e, 0x73, 0xa5, 0x75, 0x74, 0x84, 0xbd, 0xd9, 0xf2, 0x2c, 0x78, 0xa6, 0x0a, 0x43, 0x3d] @
     [0x1b, 0xd2, 0x95, 0x6a, 0xfb, 0x28, 0xc6, 0x70, 0x06, 0x6e, 0x39, 0x78, 0x55, 0x5a, 0x9f, 0x4b] @
     [0xb1, 0x46, 0xf9, 0x32, 0x50, 0xe8, 0xc8, 0x48, 0xcc, 0xa3, 0xe2, 0x67, 0x42, 0x2f, 0xd7, 0xc0] @
     [0xc7, 0x76, 0xcc, 0x37, 0xda, 0xb5, 0x69, 0xa7, 0xf3, 0xe9, 0xbf, 0x09, 0xfe, 0xcb, 0x90, 0xdd] @
     [0xc9, 0xe8, 0xbc, 0x23, 0x84, 0xdd, 0x6d, 0x14, 0xd0, 0x1e, 0x7c, 0x25, 0x18, 0xee, 0x2b, 0xf7] @
     [0x93, 0x00, 0xe2, 0x53, 0xe2, 0xf6, 0x3f, 0x8d, 0x1f, 0xf1, 0xbc, 0xc5, 0x56, 0xaf, 0x08, 0x4f] @
     [0x23, 0x76, 0xa4, 0x1b, 0x17, 0x54, 0x7c, 0x12, 0xfe, 0xf7, 0x2e, 0xf5, 0xaa, 0x4e, 0x32, 0x12] @
     [0xfd, 0x7f, 0xf8, 0x48, 0x27, 0x7f, 0xa5, 0x72, 0x71, 0xa2, 0x19, 0xaa, 0x5e, 0xae, 0x55, 0xcd] @
     [0x8e, 0xcc, 0xde, 0x8f, 0x01, 0xdc, 0x5a, 0xf2, 0x36, 0xad, 0x15, 0xc5, 0x2b, 0x98, 0xd3, 0x29] @
     [0x98, 0xf2, 0xc0, 0x1a, 0xd7, 0x79, 0xbc, 0xe2, 0xea, 0x57, 0x6b, 0xf7, 0xab, 0x65, 0x9d, 0xa2] @
     [0x15, 0x53, 0x40, 0x19, 0x8e, 0xdb, 0x14, 0x7e, 0xa0, 0x33, 0x1c, 0xf9, 0xc3, 0x24, 0x9e, 0x6c] @
     [0x92, 0xcb, 0x3a, 0xb3, 0x67, 0xa9, 0xc9, 0xb2, 0xd8, 0xe9, 0xc4, 0xff, 0xe5, 0x8e, 0x95, 0xc5] @
     [0x4c, 0x5d, 0xdd, 0x24, 0x85, 0x90, 0xcb, 0x69, 0xc1, 0x00, 0xca, 0x9e, 0x75, 0xb1, 0x0a, 0x6c] @
     [0x96, 0x2c, 0xc1, 0xa8, 0xe8, 0x05, 0x87, 0xeb, 0x15, 0xf1, 0xd9, 0x53, 0xd0, 0x35, 0x47, 0x81] @
     [0xdd, 0xd2, 0xec, 0x00, 0x3f, 0x6a, 0xd5, 0xc0, 0xe6, 0xb7, 0xb2, 0xb1, 0x8d, 0xa4, 0xf2, 0x3d] @
     [0x8d, 0xd6, 0x10, 0x44, 0x66, 0xe4, 0x19, 0x59, 0xaf, 0x75, 0x15, 0x9c, 0xb1, 0x38, 0x53, 0x22] @
     [0xd8, 0xd0, 0xc2, 0xf5, 0x26, 0xda, 0x62, 0x39, 0x07, 0x74, 0x94, 0xd3, 0xf5, 0xce, 0xc4, 0x0d] @
     [0xde, 0x57, 0x8f, 0x88, 0x11, 0x61, 0x5b, 0xee, 0xc2, 0x0d, 0x49, 0x7c, 0x8c, 0xa1, 0xcf, 0xc9] @
     [0xea, 0x7f, 0x47, 0x1f, 0x3f, 0x7c, 0xb0, 0x81, 0xcf, 0x34, 0xd5, 0x70, 0xdd, 0xdd, 0x0c, 0x8e] @
     [0x7c, 0x09, 0xc4, 0x21, 0x38, 0xd6, 0xfe, 0x40, 0xd1, 0xb2, 0x60, 0x46, 0x6b, 0xec, 0x4f, 0x3c] @
     [0xfb, 0xb4, 0x19, 0x45, 0x85, 0x4d, 0x22, 0xb6, 0xc5, 0x40, 0x88, 0x62, 0x04, 0x3b, 0x69, 0xa7] @
     [0xd2, 0x14, 0xb1, 0x85, 0x0b, 0x95, 0xe7, 0xde, 0xf8, 0xae, 0xcb, 0x63, 0x58, 0xcc, 0x49, 0x64] @
     [0x06, 0xdc, 0x03, 0x7f, 0xd1, 0x87, 0xb5, 0x11, 0x4e, 0x79, 0xe8, 0xb2, 0xf9, 0x48, 0x8c, 0x41] @
     [0x2b, 0x3a, 0xef, 0x03, 0x47, 0xb9, 0xef, 0x9f, 0xa7, 0x97, 0x2d, 0x6f, 0x42, 0xf1, 0xd3, 0xf9] @
     [0xb1, 0xcb, 0x7f, 0x74, 0x7c, 0xbf, 0x40, 0xcf, 0xe7, 0xcd, 0x01, 0xcc, 0x9b, 0x92, 0xf5, 0xbc] @
     [0xb0, 0xf0, 0xf4, 0xb3, 0x28, 0x39, 0xa1, 0x56, 0x94, 0x08, 0x6b, 0x3c, 0xfd, 0x40, 0xc7, 0xda] @
     [0xb4, 0x85, 0xfa, 0xd1, 0x01, 0x56, 0x3b, 0x0f, 0x44, 0xe9, 0x0d, 0x4e, 0x51, 0x01, 0xe5, 0x82] @
     [0x1e, 0xda, 0x02, 0x9a, 0x89, 0x32, 0x21, 0x4b, 0xe8, 0x40, 0xa7, 0x6f, 0x61, 0xaa, 0x55, 0xd1] @
     [0x1f, 0xab, 0x24, 0xba, 0x0a, 0xe7, 0x36, 0xec, 0xc7, 0xb2, 0x16, 0xb8, 0x2a, 0x5d, 0x44, 0xce] @
     [0x1a, 0x05, 0xa4, 0x7c, 0xbc, 0x9e, 0xa8, 0xd9, 0xbd, 0x4d, 0xa3, 0x81, 0x4a, 0x7d, 0x9f, 0x13] @
     [0xf5, 0xa2, 0xb9, 0x6a, 0x2b, 0x2c, 0xfd, 0x9c, 0xbd, 0x73, 0xe8, 0x95, 0x69, 0xba, 0x3d, 0xa3] @
     [0x31, 0x19, 0xbd, 0x0c, 0x27, 0xfc, 0x94, 0x97, 0xfb, 0x8c, 0x4c, 0xdb, 0x9a, 0x28, 0xc6, 0x3f] @
     [0x0d, 0x31, 0x1d, 0x12, 0xa4, 0x90, 0x35, 0x75, 0xc3, 0x81, 0xb8, 0xba, 0x7a, 0xb4, 0x1c, 0xd0] @
     [0xe8, 0x3b, 0xf1, 0xbf, 0x89, 0x5d, 0x9a, 0x7f, 0xc3, 0x13, 0x06, 0x97, 0x80, 0x27, 0x07, 0xb3] @
     [0x3f, 0x0c, 0x27, 0xc0, 0x9f, 0xe5, 0x6b, 0xbe, 0x95, 0x3c, 0x6b, 0xe6, 0xa3, 0x36, 0xf4, 0xbd] @
     [0xff, 0xf9, 0x5b, 0x87, 0x2a, 0x57, 0x1a, 0x16, 0x48, 0xed, 0xd9, 0xc3, 0x0f, 0xbd, 0xf6, 0x1c] @
     [0xed, 0x2a, 0xa4, 0x9a, 0x69, 0x8a, 0x6f, 0xf9, 0x18, 0x3f, 0xd6, 0x61, 0x3b, 0x48, 0xae, 0x0e] @
     [0x09, 0xaf, 0x18, 0x82, 0x06, 0xbc, 0x51, 0xf1, 0x44, 0x81, 0x12, 0x3b, 0xe3, 0xf2, 0x79, 0xee] @
     [0xdd, 0xa2, 0x5a, 0xaa, 0xf5, 0x70, 0x73, 0x49, 0x0d, 0xf5, 0xfc, 0x18, 0xca, 0xf8, 0x76, 0xdd] @
     [0xd8, 0x56, 0x89, 0xc8, 0xe9, 0xc1, 0xf3, 0x11, 0xf9, 0xea, 0xb8, 0x7f, 0x52, 0x5f, 0x94, 0xc0] @
     [0x9d, 0xa6, 0xa9, 0xfe, 0xe0, 0xd3, 0x45, 0xe7, 0x46, 0xe3, 0x0f, 0xcd, 0x6d, 0xed, 0x12, 0x46] @
     [0xcd, 0x43, 0x40, 0x53, 0x67, 0x55, 0x60, 0x26, 0x44, 0x52, 0xc0, 0x78, 0xa2, 0x47, 0x6e, 0xd3] @
     [0xe0, 0x34, 0x7e, 0x3b, 0xd3, 0x2b, 0x68, 0xeb, 0xae, 0x9a, 0x9c, 0x50, 0xe7, 0xf7, 0x27, 0xb8] @
     [0x69, 0xa6, 0x69, 0x01, 0x8b, 0x82, 0x33, 0xe2, 0x0a, 0x82, 0xdf, 0xe8, 0x5c, 0x0d, 0xda, 0x39] @
     [0xa8, 0x33, 0x19, 0x4f, 0xd7, 0x1a, 0xf6, 0x35, 0xde, 0x8c, 0x73, 0x54, 0x5b, 0xc5, 0x60, 0xd0] @
     [0x94, 0xde, 0x1e, 0xa0, 0x14, 0x39, 0xa6, 0x44, 0x62, 0xbf, 0x0a, 0x48, 0x33, 0x8f, 0xc5, 0xcb] @
     [0x19, 0x00, 0x5e, 0x32, 0x88, 0x01, 0x69, 0xa5, 0x0d, 0x03, 0x7f, 0xf7, 0xcb, 0xb4, 0x03, 0x99] @
     [0x27, 0x4b, 0x22, 0xfd, 0x4f, 0x01, 0x13, 0xa4, 0x35, 0x6d, 0x95, 0xb6, 0x28, 0xb9, 0xdb, 0x69]"

lemma vlc_s1_length: "length vlc_s1 = 1536"
  by (simp add: vlc_s1_def)

definition vlc_c1 :: "u8 list" where
  "vlc_c1 =
     [0x00, 0x00, 0x00, 0x00, 0x09, 0x00, 0x7c, 0x02, 0xf7, 0x78, 0x55, 0x1e, 0xce, 0xab, 0x8e, 0x1e] @
     [0x36, 0x2f, 0x07, 0xc5, 0x86, 0x8a, 0x70, 0xb2, 0x66, 0xd4, 0x02, 0x20, 0xe5, 0x08, 0x61, 0x18] @
     [0xa2, 0x2e, 0x36, 0x97, 0xd5, 0xfc, 0x2b, 0x63, 0x29, 0xc2, 0x2e, 0xe7, 0xc7, 0xc9, 0xb0, 0xb5] @
     [0xb3, 0x45, 0xdf, 0xa8, 0x39, 0x8f, 0xea, 0x3b, 0xc8, 0x79, 0x20, 0x8a, 0x10, 0x68, 0x42, 0x5a] @
     [0xa1, 0x17, 0x4c, 0xb5, 0x72, 0x58, 0xcf, 0xeb, 0xe2, 0x4d, 0xa4, 0x2e, 0xc4, 0xff, 0x9d, 0xa1] @
     [0x9c, 0x7b, 0x40, 0x6f, 0x18, 0xc9, 0x5b, 0xfd, 0xd0, 0x4e, 0xe4, 0x8b, 0x6f, 0x83, 0x32, 0x14] @
     [0xa4, 0x7b, 0x8b, 0xf6, 0x8e, 0xb0, 0x52, 0x54, 0xe2, 0x5a, 0xe9, 0xa9, 0xa8, 0xb4, 0x96, 0xc5] @
     [0x49, 0x6f, 0x6e, 0x9c, 0xd7, 0xc6, 0x8c, 0xb6, 0xbc, 0xc8, 0x41, 0x69, 0xe6, 0x7f, 0x3e, 0x37] @
     [0x2f, 0xfe, 0x18, 0x6d, 0xa8, 0x51, 0x38, 0x62, 0xc5, 0xaf, 0xde, 0xb5, 0xa1, 0x21, 0x8a, 0x86] @
     [0x0b, 0xac, 0xcd, 0xd8, 0x69, 0xb2, 0x53, 0xdb, 0xab, 0x8a, 0x0e, 0xfb, 0x59, 0xa4, 0x8c, 0x44] @
     [0x20, 0x99, 0x87, 0x5e, 0x55, 0xb7, 0x4f, 0xd0, 0x7a, 0x1b, 0x69, 0xaf, 0x30, 0x3e, 0x09, 0x98] @
     [0x73, 0xcb, 0x77, 0xe2, 0xd9, 0xe2, 0xc4, 0x74, 0x1e, 0xb1, 0xf5, 0x06, 0xa7, 0xf0, 0xb2, 0x96] @
     [0x2a, 0xf9, 0x1f, 0x50, 0x51, 0xc8, 0x90, 0xa3, 0x20, 0x99, 0x4f, 0x4c, 0x8b, 0x36, 0xa0, 0x1f] @
     [0xa9, 0xc0, 0xf1, 0x5f, 0x4b, 0x7c, 0xf7, 0xb6, 0xc3, 0x81, 0x7d, 0xa6, 0x09, 0x18, 0x61, 0x1d] @
     [0x3b, 0x02, 0xff, 0x7c, 0xc9, 0x40, 0x38, 0x93, 0x75, 0x37, 0xd3, 0x38, 0x2e, 0x41, 0x6b, 0xd5] @
     [0x75, 0x77, 0x83, 0x4d, 0xf9, 0xca, 0xf7, 0x48, 0x35, 0x21, 0x50, 0xce, 0x92, 0xd0, 0xdb, 0xb4] @
     [0x0e, 0x87, 0x1f, 0xc3, 0x64, 0xe1, 0x8b, 0x7e, 0x35, 0x69, 0xe3, 0x98, 0x76, 0xc1, 0xae, 0x0c] @
     [0xb7, 0x9f, 0xf6, 0xd7, 0xab, 0x32, 0xf9, 0xf0, 0x11, 0x86, 0x9c, 0x8d, 0xa4, 0x19, 0x1e, 0xf4] @
     [0x6d, 0x3c, 0x1b, 0xc6, 0xb7, 0x2d, 0x83, 0x81, 0x2f, 0x22, 0x43, 0xd1, 0x75, 0x2a, 0x41, 0x26] @
     [0x32, 0xd6, 0x6a, 0x20, 0x75, 0xf5, 0xd3, 0x02, 0xf4, 0x5c, 0xdf, 0x2b, 0x98, 0xb8, 0x02, 0xb7] @
     [0x98, 0x05, 0xdc, 0x48, 0x37, 0xd8, 0x4e, 0xde, 0xd1, 0xcc, 0x42, 0xcb, 0xa7, 0xee, 0xc3, 0x13] @
     [0x7b, 0xf8, 0x6d, 0xd0, 0xb2, 0xd7, 0xf6, 0x24, 0xd5, 0x21, 0xa3, 0xff, 0x65, 0x5b, 0xcf, 0x0d] @
     [0xf4, 0x10, 0x13, 0x41, 0xd2, 0x30, 0xe9, 0x46, 0x51, 0x62, 0x8e, 0x45, 0xa7, 0xab, 0xf8, 0x18] @
     [0x31, 0x01, 0xce, 0x98, 0x1e, 0x5e, 0x86, 0xa6, 0xfa, 0xec, 0x5c, 0x79, 0xaa, 0x7e, 0xc7, 0x18] @
     [0x1e, 0xa4, 0x59, 0xed, 0x96, 0x6e, 0x0c, 0x93, 0x2a, 0x6f, 0x9e, 0x4b, 0xf5, 0x54, 0xab, 0x7b] @
     [0x1c, 0x90, 0x5c, 0xde, 0x05, 0x4e, 0xd4, 0x0d, 0x2f, 0xb8, 0x9b, 0xbf, 0xc6, 0x57, 0x52, 0xe5] @
     [0x8c, 0xfd, 0xe4, 0xf2, 0xa0, 0x4d, 0xc3, 0xad, 0x1e, 0x5e, 0xf4, 0xfc, 0x64, 0xd5, 0x7b, 0x07] @
     [0x1c, 0x14, 0x14, 0x6a, 0x45, 0x1f, 0x6a, 0x04, 0x31, 0x56, 0xd2, 0x88, 0x0f, 0x59, 0x57, 0xd7] @
     [0x8d, 0xfd, 0x3f, 0xf2, 0xb8, 0x80, 0xf6, 0x24, 0xac, 0x70, 0xf2, 0x70, 0x94, 0xf3, 0x77, 0x34] @
     [0xea, 0xf1, 0x92, 0x4f, 0x66, 0xac, 0x3d, 0x64, 0x8a, 0xe2, 0x32, 0x93, 0x05, 0x44, 0xa4, 0x42] @
     [0x0b, 0x65, 0xee, 0xd4, 0x69, 0x6f, 0x7f, 0x50, 0xfe, 0x05, 0xfc, 0x94, 0x85, 0x16, 0x65, 0x0b] @
     [0xfb, 0x9b, 0x65, 0xf9, 0x53, 0xd8, 0x48, 0xe3, 0x45, 0x69, 0x65, 0xd0, 0xd7, 0x6b, 0x62, 0x7a] @
     [0x84, 0xe3, 0x5e, 0x9d, 0xda, 0xbd, 0x8b, 0x43, 0xf0, 0xfa, 0xda, 0xee, 0x45, 0x8c, 0xdf, 0x59] @
     [0xeb, 0xd7, 0x73, 0x92, 0x2e, 0x0a, 0xe5, 0x07, 0xd5, 0xe6, 0x40, 0x92, 0xe9, 0x0e, 0xc6, 0x7e] @
     [0xd8, 0x43, 0x9e, 0x8f, 0x22, 0x1c, 0x75, 0x3a, 0x9f, 0x92, 0x16, 0xf1, 0xcb, 0x85, 0xb5, 0x10] @
     [0x7b, 0xc7, 0xcc, 0x7c, 0x4f, 0xb2, 0xc3, 0xee, 0xd1, 0xaf, 0xc7, 0x09, 0xb1, 0x92, 0xf5, 0x0d] @
     [0xe6, 0x9c, 0x1f, 0xfc, 0xa5, 0x65, 0x0e, 0xfb, 0x52, 0x3b, 0x5f, 0xab, 0x59, 0x97, 0xca, 0xc4] @
     [0xb7, 0xef, 0x5a, 0xf2, 0xbf, 0x59, 0x73, 0xe6, 0x29, 0x3b, 0xae, 0x1f, 0xc1, 0xda, 0x49, 0x9b] @
     [0xe5, 0x51, 0x50, 0x77, 0xde, 0x4d, 0xdb, 0x3f, 0x7f, 0xbc, 0xd7, 0x41, 0x71, 0x1c, 0x62, 0xb7] @
     [0xd8, 0x03, 0xb8, 0xd0, 0x54, 0xcf, 0x57, 0x81, 0x82, 0x71, 0x4d, 0x1c, 0x44, 0x5b, 0xd6, 0x92] @
     [0xba, 0x1b, 0x83, 0x9a, 0x09, 0xe7, 0x26, 0x6f, 0xc8, 0x5d, 0xaa, 0x8f, 0xad, 0x43, 0x3d, 0xab] @
     [0xbd, 0x20, 0x6c, 0xde, 0x1e, 0xa5, 0x71, 0x77, 0x0c, 0x6b, 0xfa, 0x79, 0x56, 0xc2, 0x66, 0xee] @
     [0x84, 0x35, 0xeb, 0x01, 0xca, 0xa6, 0xf5, 0x83, 0xc0, 0xd8, 0x3c, 0x33, 0xee, 0xfc, 0xf3, 0xf9] @
     [0x7d, 0xb9, 0x17, 0xbd, 0xb2, 0x99, 0xf8, 0xa8, 0x9f, 0xb8, 0x86, 0x0a, 0xb1, 0xcd, 0x64, 0x4c] @
     [0x1e, 0x82, 0xcc, 0xe1, 0x32, 0x3a, 0x9e, 0xb7, 0x9d, 0x25, 0xf5, 0xdc, 0x57, 0x0b, 0x70, 0xb4] @
     [0x0b, 0xb2, 0x00, 0x61, 0x74, 0x33, 0x53, 0xd0, 0x53, 0x6e, 0xcd, 0xab, 0xd8, 0x2f, 0x22, 0x77] @
     [0x75, 0x62, 0x28, 0xcb, 0x54, 0xfe, 0x69, 0x32, 0xc4, 0xc9, 0xbd, 0x13, 0x0d, 0x2b, 0xfc, 0x70] @
     [0x0b, 0xf5, 0xd8, 0x5d, 0xa6, 0x94, 0x6e, 0x96, 0xf8, 0x2e, 0x0a, 0xfd, 0x8e, 0x9c, 0x20, 0xcf] @
     [0xea, 0xbf, 0x9a, 0x6a, 0x18, 0x9b, 0xb1, 0x7b, 0xbe, 0xf5, 0x39, 0xd1, 0xd9, 0xe7, 0x3e, 0xe9] @
     [0x66, 0xfc, 0xb5, 0xd6, 0xbd, 0xbf, 0x98, 0x44, 0x4d, 0xe8, 0x65, 0xbe, 0x16, 0x05, 0xe3, 0x40] @
     [0x87, 0xb3, 0x4c, 0xdf, 0x04, 0xe3, 0xaf, 0xf5, 0x5b, 0xd4, 0x13, 0x7c, 0x52, 0x2d, 0x2e, 0x3c] @
     [0x7b, 0xf2, 0x63, 0x4d, 0xb3, 0x26, 0xb2, 0x2a, 0x47, 0x4d, 0xb7, 0xf8, 0xa0, 0x95, 0x2a, 0xb3] @
     [0x51, 0x0d, 0xe5, 0x55, 0x39, 0x6c, 0x18, 0xa3, 0x78, 0xa8, 0x39, 0x0b, 0x73, 0xbf, 0xf7, 0x77] @
     [0x2f, 0xb2, 0x76, 0x0f, 0xa5, 0x78, 0x6a, 0x3b, 0x04, 0x59, 0xc4, 0x5a, 0x1d, 0x1b, 0x0d, 0xff] @
     [0x4c, 0xbb, 0xb6, 0x5d, 0xa0, 0xed, 0x34, 0xf3, 0x21, 0x16, 0xc3, 0xc2, 0xcc, 0x2b, 0x95, 0x82] @
     [0x51, 0x11, 0xbc, 0xfb, 0xb2, 0x46, 0xc1, 0x50, 0x5a, 0xa0, 0x0c, 0x97, 0x0d, 0x06, 0xd7, 0x6c] @
     [0xc9, 0x50, 0xce, 0x36, 0x8b, 0x22, 0x0d, 0xb2, 0x04, 0x87, 0xcb, 0xa0, 0x2b, 0xb1, 0xfc, 0x54] @
     [0xb3, 0x65, 0x67, 0xb4, 0x29, 0x13, 0xd6, 0xb8, 0x85, 0x06, 0x2c, 0xd7, 0x79, 0x56, 0x01, 0xd3] @
     [0x1a, 0x4a, 0x8e, 0x6d, 0x56, 0x46, 0x7f, 0xa5, 0xc5, 0x21, 0x62, 0x67, 0x6f, 0xd5, 0x26, 0x12] @
     [0x25, 0x13, 0xc3, 0xe4, 0x7f, 0x2e, 0x6d, 0x9d, 0x6a, 0x19, 0xc4, 0xf8, 0x79, 0x54, 0x31, 0xa9] @
     [0x4c, 0xed, 0x03, 0x92, 0x21, 0xd2, 0x7a, 0xc6, 0x8a, 0x7a, 0x77, 0x0e, 0x93, 0x05, 0x25, 0x22] @
     [0x71, 0x45, 0x9b, 0x71, 0xd0, 0x55, 0x05, 0xc4, 0x97, 0x7b, 0x70, 0xe9, 0x68, 0x51, 0x20, 0x8b] @
     [0xac, 0xdc, 0xdf, 0x7e, 0x68, 0x2b, 0x38, 0x48, 0x84, 0x08, 0x80, 0xf1, 0xfe, 0xc2, 0xa3, 0x2f] @
     [0xb1, 0x40, 0x68, 0x62, 0xbc, 0x83, 0xca, 0xd8, 0x9a, 0xdf, 0x72, 0x9f, 0x3b, 0xa6, 0xff, 0xd3] @
     [0xfe, 0x80, 0x8e, 0x84, 0x03, 0xe7, 0xc6, 0xa0, 0xf6, 0xdc, 0xda, 0x32, 0x11, 0x89, 0x8f, 0x6f] @
     [0x16, 0x50, 0x5b, 0x07, 0x8c, 0xc7, 0x8b, 0x80, 0xdb, 0x60, 0x0d, 0xed, 0x2f, 0x20, 0x0f, 0x25] @
     [0xff, 0x5d, 0xcb, 0x31, 0xd3, 0x2c, 0xbe, 0x20, 0x56, 0xb8, 0xbd, 0xc3, 0x10, 0x91, 0x63, 0x1a] @
     [0xbb, 0xd2, 0xac, 0x28, 0xd6, 0x1f, 0xe3, 0x24, 0x80, 0xec, 0x50, 0x35, 0xbb, 0xf3, 0x5f, 0x17] @
     [0x33, 0x93, 0xf0, 0xd5, 0x9a, 0x21, 0xd2, 0x30, 0x0b, 0x2d, 0xb4, 0xb5, 0x9e, 0xaa, 0x63, 0xff] @
     [0xe0, 0xf9, 0x3d, 0x65, 0xdc, 0x02, 0x85, 0x16, 0x90, 0x5f, 0x22, 0xa9, 0xc7, 0xdf, 0xf3, 0x87] @
     [0xc4, 0xeb, 0x78, 0xc6, 0x30, 0x0e, 0x7e, 0xbb, 0xb2, 0xa6, 0x66, 0x3c, 0xfb, 0xe5, 0xa9, 0x97] @
     [0x7c, 0xaf, 0x57, 0x64, 0xba, 0x3f, 0x0a, 0xba, 0x57, 0xdb, 0x4e, 0x60, 0x51, 0xe0, 0xae, 0xc6] @
     [0xe0, 0x5b, 0x1b, 0xda, 0xa6, 0x49, 0xa9, 0x78, 0x75, 0xed, 0xbc, 0x40, 0xbc, 0xc4, 0x21, 0x4b] @
     [0xb7, 0xfe, 0xf7, 0x27, 0x30, 0xd4, 0x36, 0x8a, 0xcb, 0xd3, 0xe1, 0x0a, 0xb4, 0xc7, 0x64, 0x2a] @
     [0x1c, 0x53, 0xf9, 0x3c, 0xa2, 0x6d, 0xb9, 0xc7, 0x66, 0x55, 0x5b, 0xe2, 0x6f, 0xdf, 0xf0, 0xe2] @
     [0xa7, 0x21, 0x42, 0x5b, 0x95, 0x76, 0x2b, 0x0b, 0x77, 0x6f, 0xd3, 0xe3, 0xeb, 0x17, 0x31, 0x3d] @
     [0x53, 0x12, 0x9c, 0x9f, 0x34, 0x00, 0x3c, 0x99, 0xa5, 0x19, 0x6a, 0x8c, 0x6a, 0xac, 0xb6, 0xd6] @
     [0x4b, 0x51, 0xdd, 0x98, 0xb2, 0x7c, 0x5b, 0x59, 0xa7, 0x0b, 0xd9, 0x41, 0xa1, 0xba, 0x03, 0x00] @
     [0xfb, 0x74, 0x4c, 0xfc, 0x49, 0x9d, 0x99, 0x7e, 0x6d, 0x93, 0x39, 0x2d, 0x28, 0xa7, 0x67, 0xd1] @
     [0x16, 0xdf, 0xbc, 0x2c, 0xb9, 0xeb, 0x40, 0x54, 0x0d, 0x11, 0xeb, 0x30, 0x4a, 0xd9, 0x32, 0x23] @
     [0x86, 0xfd, 0xc5, 0x97, 0xd5, 0x5d, 0x3d, 0x1c, 0x67, 0xbc, 0x54, 0xdf, 0x35, 0x47, 0x9a, 0xfb] @
     [0x19, 0xea, 0x2c, 0xd2, 0x04, 0xdd, 0x33, 0x1e, 0xfb, 0x49, 0xc1, 0xe1, 0x72, 0xf6, 0xbb, 0x89] @
     [0xfb, 0xf5, 0x82, 0x07, 0xdc, 0xae, 0x6c, 0x12, 0xf8, 0xa7, 0x59, 0x8b, 0xef, 0x1e, 0x87, 0x2c] @
     [0x0c, 0x35, 0xf2, 0x2b, 0x4c, 0x29, 0xdf, 0x10, 0xf9, 0xbb, 0x1a, 0xdd, 0x3a, 0xeb, 0x88, 0x7a] @
     [0xb5, 0xfb, 0x38, 0xc0, 0x36, 0xb8, 0x83, 0x46, 0xf7, 0x61, 0xc4, 0x2f, 0x29, 0x5d, 0xfe, 0x0b] @
     [0x43, 0x7d, 0xfb, 0x4f, 0x30, 0xa7, 0x12, 0x76, 0xab, 0x7d, 0x40, 0x9c, 0xe4, 0x24, 0x96, 0x3f] @
     [0x9e, 0xbb, 0x4f, 0x1f, 0x47, 0xe5, 0x2b, 0x18, 0x78, 0x6f, 0x27, 0x9b, 0x5a, 0x87, 0x22, 0x6f] @
     [0x66, 0x98, 0x1d, 0xd6, 0xd0, 0xad, 0x11, 0xf4, 0x9a, 0xf3, 0x10, 0x55, 0xff, 0x69, 0x71, 0x0f] @
     [0xda, 0x34, 0x57, 0xc4, 0xb7, 0x85, 0x2d, 0xb2, 0xe3, 0x93, 0x6d, 0x07, 0x78, 0xbf, 0x87, 0x9f] @
     [0x17, 0x34, 0xad, 0x3a, 0x24, 0xff, 0xb1, 0xae, 0x95, 0x84, 0x76, 0x0b, 0x9c, 0xb0, 0x45, 0x2a] @
     [0x53, 0xba, 0x09, 0x62, 0xff, 0xe2, 0xf6, 0x05, 0xaf, 0x52, 0x83, 0x0b, 0xd2, 0x11, 0xa5, 0x48] @
     [0x88, 0x94, 0xcc, 0x0b, 0x05, 0x22, 0x55, 0x04, 0x87, 0x11, 0xcd, 0x19, 0x85, 0x10, 0xa9, 0xe9] @
     [0x43, 0xbf, 0x8b, 0x83, 0x91, 0x98, 0x45, 0x5f, 0xbd, 0x41, 0x07, 0x30, 0x05, 0xd3, 0x03, 0x99] @
     [0x0b, 0x88, 0xd9, 0xb6, 0x36, 0x56, 0xd4, 0x3c, 0xfe, 0xc8, 0xed, 0x83, 0x74, 0x8f, 0x4b, 0x0f] @
     [0x0f, 0xc5, 0x12, 0x02, 0x16, 0x79, 0x4b, 0x22, 0xa0, 0x54, 0xe5, 0xbc, 0x58, 0xab, 0xd8, 0xc4] @
     [0x10, 0x96, 0x07, 0x08, 0x84, 0x39, 0x34, 0x53, 0xce, 0x50, 0x96, 0x94, 0xaf, 0xbe, 0xab, 0xe0]"

lemma vlc_c1_length: "length vlc_c1 = 1536"
  by (simp add: vlc_c1_def)

definition vlc_c2 :: "u8 list" where
  "vlc_c2 =
     [0xe2, 0x5c, 0x15, 0xc2, 0x2c, 0xaf, 0x72, 0xd0, 0x98, 0x6f, 0xbd, 0x3e, 0xda, 0x0d, 0x71, 0x51] @
     [0x97, 0x3e, 0x19, 0x08, 0x3e, 0x0a, 0xbb, 0xef, 0xa7, 0x6e, 0x17, 0xd8, 0xa5, 0xfa, 0x95, 0x70] @
     [0xed, 0x54, 0x7a, 0x97, 0x86, 0xe5, 0x35, 0x61, 0x2d, 0x45, 0x22, 0x8c, 0x77, 0x3e, 0x0e, 0xbe] @
     [0xf8, 0x05, 0xac, 0x87, 0x64, 0xa6, 0x75, 0x52, 0x49, 0x6a, 0x3c, 0xc3, 0x35, 0x58, 0x05, 0xf9] @
     [0x9d, 0x03, 0x60, 0x67, 0x84, 0xb0, 0x5f, 0x55, 0x36, 0x1f, 0xb4, 0xc6, 0x6e, 0x61, 0x64, 0xf9] @
     [0xb8, 0x82, 0x15, 0x69, 0x30, 0xed, 0x76, 0xe7, 0xf2, 0x7d, 0xf8, 0xed, 0x6a, 0xe6, 0xc0, 0x83] @
     [0x7b, 0x41, 0x41, 0x3e, 0xad, 0x70, 0x23, 0xf2, 0xbd, 0x2e, 0x9d, 0xce, 0xd6, 0x63, 0xc8, 0x30] @
     [0x5c, 0xba, 0xbc, 0x22, 0xc3, 0xeb, 0xba, 0x20, 0x7e, 0xa2, 0xa8, 0xc3, 0x5e, 0xcf, 0x78, 0x28] @
     [0xdc, 0xe2, 0x63, 0x3d, 0x38, 0xc8, 0xc2, 0xe9, 0xde, 0xcf, 0x25, 0x53, 0xb1, 0x61, 0xa2, 0x12] @
     [0xfc, 0x9a, 0x96, 0x2e, 0x44, 0x90, 0xfb, 0xa3, 0x1d, 0x24, 0xa2, 0xeb, 0xa8, 0xeb, 0xb4, 0xa6] @
     [0x0d, 0x6c, 0xf4, 0x29, 0x14, 0x2a, 0xd2, 0x6f, 0xb6, 0x56, 0xb9, 0xf1, 0x2f, 0x4b, 0x1c, 0x22] @
     [0xc0, 0xcd, 0x65, 0x49, 0x78, 0x64, 0xdd, 0x83, 0xf0, 0xd0, 0x31, 0x62, 0xdd, 0xed, 0xbc, 0x4e] @
     [0x85, 0x7c, 0x0c, 0xa3, 0x91, 0xed, 0x2f, 0x1e, 0x5a, 0x64, 0x94, 0x8d, 0x09, 0x60, 0x81, 0xa1] @
     [0x14, 0x72, 0x1c, 0x0b, 0xc8, 0xa1, 0x63, 0x5b, 0xf2, 0x70, 0x36, 0xb8, 0xbc, 0xc0, 0x9e, 0xd5] @
     [0xb1, 0x1d, 0x85, 0xbd, 0x54, 0x7c, 0xa3, 0x61, 0xe2, 0xd8, 0x65, 0x84, 0x2d, 0x7f, 0xe6, 0x4b] @
     [0xc3, 0xa2, 0x98, 0x95, 0xa9, 0x7c, 0xec, 0x5b, 0x2d, 0x29, 0x29, 0x4f, 0x41, 0xab, 0xc2, 0xbc] @
     [0x46, 0x6c, 0xf3, 0x8d, 0x8d, 0x00, 0x88, 0x60, 0x36, 0xbf, 0xa4, 0x5e, 0x4b, 0xdf, 0x48, 0x4e] @
     [0x9e, 0x5f, 0xe1, 0x0b, 0x02, 0x4a, 0x98, 0x6e, 0x63, 0xf2, 0xb0, 0xe1, 0x09, 0xa3, 0xea, 0x42] @
     [0x0e, 0x25, 0x28, 0x8b, 0xca, 0xc6, 0x93, 0x11, 0x41, 0xf8, 0x76, 0xb5, 0x7e, 0x37, 0xf3, 0x9c] @
     [0x8c, 0x1b, 0xff, 0x23, 0xb5, 0x66, 0xa7, 0x88, 0x7b, 0x18, 0xb6, 0x18, 0xca, 0x4e, 0xf3, 0x47] @
     [0x00, 0x9d, 0xd5, 0x00, 0x5e, 0x7f, 0x41, 0x3b, 0xec, 0xfd, 0x0b, 0x26, 0xff, 0xfe, 0x15, 0xec] @
     [0x6e, 0xc9, 0x98, 0x22, 0x6e, 0x39, 0x36, 0x56, 0x26, 0xc5, 0x60, 0xcb, 0x24, 0x13, 0x52, 0x7c] @
     [0xe5, 0x74, 0xc0, 0xa4, 0x36, 0xf1, 0xb1, 0x78, 0x8a, 0xc8, 0xbc, 0xd8, 0xd4, 0xe0, 0xbe, 0xd1] @
     [0x3e, 0x7c, 0x79, 0x96, 0x73, 0x06, 0x9a, 0x7d, 0x82, 0x49, 0xc0, 0x03, 0xb6, 0x33, 0xec, 0x65] @
     [0x87, 0xd3, 0xe2, 0xd7, 0xd3, 0xf5, 0xaa, 0x40, 0x07, 0x14, 0x9c, 0x04, 0xac, 0x3d, 0xf0, 0xa3] @
     [0x48, 0xaa, 0x8b, 0x27, 0xc9, 0x86, 0x68, 0x4a, 0xfb, 0x93, 0x87, 0x0e, 0xc5, 0xa6, 0x23, 0xca] @
     [0xd0, 0xd0, 0x74, 0xd9, 0x8c, 0xfb, 0xc2, 0xe1, 0xc4, 0x24, 0x22, 0x9b, 0xd0, 0x20, 0xe5, 0xcc] @
     [0x45, 0x54, 0x8a, 0xc4, 0xf8, 0x93, 0x89, 0x52, 0xa4, 0xb2, 0x4c, 0xac, 0x82, 0xa6, 0x02, 0xe9] @
     [0xd8, 0xc0, 0x26, 0x48, 0x0d, 0x10, 0x89, 0x15, 0xef, 0xe0, 0xb2, 0x8d, 0x7e, 0xfc, 0xd3, 0x4e] @
     [0x38, 0x39, 0x5b, 0x71, 0x28, 0xca, 0xcd, 0xba, 0xa8, 0x35, 0x00, 0xd4, 0x08, 0xd2, 0x6a, 0xd9] @
     [0x13, 0x02, 0x4d, 0x5d, 0x9e, 0xe2, 0xa0, 0x93, 0x8d, 0xc3, 0x1f, 0x6a, 0xbc, 0x53, 0x1f, 0x5f] @
     [0x5b, 0x82, 0xac, 0x56, 0xaf, 0xd4, 0x54, 0xb1, 0xd4, 0x29, 0x95, 0x6a, 0xae, 0x6b, 0xb5, 0x83] @
     [0x6d, 0x76, 0xad, 0xe8, 0xb8, 0x27, 0x6e, 0x97, 0x95, 0xdd, 0x1e, 0x7f, 0x79, 0xa2, 0x0f, 0x5a] @
     [0x09, 0x29, 0x6a, 0x73, 0x81, 0xd5, 0x8f, 0x96, 0x70, 0xc3, 0x0b, 0x86, 0x9a, 0xc8, 0x02, 0x24] @
     [0x59, 0xfc, 0x88, 0x3c, 0xcd, 0xc1, 0x6e, 0xb6, 0x8c, 0xd6, 0xc1, 0x23, 0x56, 0x2a, 0x41, 0x6b] @
     [0x99, 0x59, 0x76, 0x35, 0x05, 0x7d, 0x85, 0x92, 0xcf, 0xaa, 0x71, 0xf4, 0xf4, 0x30, 0x05, 0x4b] @
     [0x69, 0xf5, 0x41, 0x9c, 0xf8, 0x39, 0x9c, 0x75, 0xc3, 0xc3, 0xe9, 0xb6, 0xdb, 0x0d, 0x1c, 0x02] @
     [0x92, 0xb5, 0xf8, 0x8e, 0xbd, 0x32, 0x2a, 0xa4, 0x66, 0x7e, 0x7d, 0x6a, 0xba, 0xa7, 0x52, 0x01] @
     [0x9a, 0x85, 0x0c, 0x0d, 0x05, 0x4e, 0x87, 0x9c, 0xec, 0x2b, 0x2d, 0x94, 0x3a, 0xb7, 0xbc, 0x74] @
     [0x10, 0xef, 0x71, 0x5f, 0xea, 0xad, 0x9e, 0x6a, 0x8f, 0xc6, 0xa9, 0x05, 0x3f, 0xea, 0xfc, 0x60] @
     [0xaf, 0x15, 0xe4, 0x6f, 0x47, 0xd3, 0xbf, 0x06, 0xc6, 0xe7, 0x00, 0x1c, 0x1c, 0xd7, 0x43, 0xd0] @
     [0x0d, 0x43, 0x13, 0xbf, 0xe7, 0x3c, 0xfd, 0xfa, 0x34, 0x22, 0xf1, 0x75, 0x96, 0x5a, 0x5c, 0xf2] @
     [0xf2, 0x15, 0x94, 0x57, 0xd3, 0x94, 0xb7, 0xe1, 0xfc, 0xb5, 0x73, 0xa9, 0x94, 0xdb, 0x67, 0x89] @
     [0xfb, 0xcc, 0xf7, 0xb4, 0x80, 0x56, 0xbc, 0xa2, 0x07, 0xf9, 0x03, 0x9f, 0xa7, 0x53, 0xbe, 0xa7] @
     [0xe4, 0xb5, 0x8f, 0xc6, 0x6b, 0x1e, 0x38, 0x96, 0x3f, 0xe0, 0xb6, 0x9c, 0xbd, 0x54, 0xb6, 0xd7] @
     [0x2a, 0xeb, 0x79, 0x35, 0x02, 0xaf, 0xb1, 0x9a, 0xf9, 0x49, 0xe6, 0x9a, 0x00, 0xd6, 0x1a, 0x93] @
     [0xf4, 0x53, 0x60, 0x30, 0x98, 0xbc, 0x40, 0xd3, 0xf6, 0xe2, 0x2d, 0xb5, 0x58, 0x6c, 0x54, 0xa2] @
     [0xf3, 0x4d, 0x85, 0x41, 0x53, 0x94, 0xc2, 0x77, 0xaa, 0xe2, 0x26, 0x9c, 0xb7, 0xf4, 0xd6, 0x12] @
     [0xd6, 0x99, 0xca, 0x72, 0xad, 0x22, 0x2b, 0xcc, 0xde, 0xc6, 0xba, 0x43, 0x03, 0x45, 0x5c, 0x70] @
     [0xf4, 0xc9, 0xc1, 0x9c, 0x8d, 0x0e, 0x6a, 0x07, 0x29, 0xfa, 0xfa, 0x0b, 0x69, 0x62, 0xfe, 0xc2] @
     [0xc1, 0xf4, 0x70, 0x9c, 0x70, 0x99, 0xfe, 0x64, 0x42, 0x4e, 0x03, 0xf0, 0x21, 0xd0, 0xe2, 0xb2] @
     [0x0c, 0x21, 0x96, 0xc2, 0x5d, 0x39, 0x11, 0x99, 0x5b, 0xbe, 0xe3, 0x49, 0x93, 0xc5, 0xcb, 0x42] @
     [0x09, 0x09, 0x46, 0xf4, 0x67, 0x2d, 0x53, 0xa6, 0xd5, 0xe2, 0x33, 0x4f, 0x6c, 0xa4, 0x19, 0xc2] @
     [0x55, 0xb9, 0xee, 0xb3, 0xf5, 0xc4, 0x8d, 0x04, 0xfd, 0x79, 0xe3, 0x64, 0x00, 0x2b, 0xb7, 0xe9] @
     [0x23, 0xe5, 0x23, 0x71, 0x3d, 0x86, 0xcb, 0xce, 0x77, 0x50, 0xb1, 0x11, 0x2f, 0xd5, 0x26, 0x60] @
     [0xbc, 0x5d, 0x2d, 0xf7, 0xc6, 0xf6, 0xfa, 0xf2, 0x2d, 0x2c, 0x17, 0xd8, 0x6b, 0xda, 0x72, 0xa4] @
     [0x5a, 0x83, 0x01, 0x7d, 0xd4, 0xee, 0xe9, 0xb6, 0x75, 0x4c, 0xe0, 0xed, 0x8a, 0x84, 0xfe, 0xef] @
     [0xa7, 0x10, 0x7c, 0xd9, 0x96, 0x91, 0x5b, 0xc7, 0x3f, 0xa7, 0x72, 0xbb, 0x5b, 0xba, 0xb8, 0x2d] @
     [0xc6, 0xfd, 0xf1, 0x1d, 0x60, 0xab, 0x5f, 0xac, 0x04, 0x3d, 0x73, 0x9f, 0x8d, 0x8b, 0x4d, 0xf5] @
     [0x6c, 0xbf, 0x4a, 0x26, 0x35, 0x2c, 0x5c, 0x87, 0x4a, 0xff, 0x6f, 0xf1, 0x4f, 0x95, 0x15, 0x22] @
     [0x50, 0x1d, 0x60, 0x2a, 0x12, 0x8a, 0x3d, 0x9c, 0x7c, 0x3b, 0x23, 0xbd, 0xc7, 0x87, 0x24, 0xc7] @
     [0xf1, 0x71, 0x2a, 0x4c, 0x09, 0x4d, 0x42, 0xe8, 0x4e, 0x0f, 0x7d, 0x8a, 0xbe, 0xe9, 0xe9, 0xa1] @
     [0xb9, 0xae, 0xc3, 0x4b, 0x52, 0xd4, 0x19, 0x33, 0xb1, 0xbc, 0x51, 0x82, 0x35, 0xa9, 0xca, 0x32] @
     [0x4d, 0x7e, 0x6f, 0xd9, 0x53, 0xff, 0x0b, 0xf2, 0xd7, 0x0f, 0xed, 0x5d, 0xdd, 0x11, 0xb6, 0xb0] @
     [0xec, 0xe0, 0x0f, 0x49, 0xbc, 0xcd, 0x91, 0x24, 0xbf, 0xa9, 0xbb, 0xe3, 0xa0, 0x42, 0xf4, 0x40] @
     [0xe6, 0x8d, 0x78, 0x1c, 0xc7, 0xfb, 0x57, 0x6a, 0x9b, 0xa3, 0x5a, 0x9b, 0x91, 0xe7, 0xc5, 0xd5] @
     [0x7b, 0xfa, 0x3d, 0x19, 0x49, 0x0c, 0x26, 0x8e, 0x65, 0xfc, 0x52, 0x6f, 0xc6, 0x06, 0x49, 0x41] @
     [0xab, 0x91, 0xb8, 0x79, 0xa3, 0x9d, 0x76, 0xc2, 0x5b, 0x0a, 0x86, 0xd6, 0x17, 0x9e, 0x4b, 0x4d] @
     [0x0e, 0xb8, 0x35, 0x0f, 0x08, 0xfb, 0x8a, 0x28, 0x38, 0x09, 0xd4, 0x41, 0x9e, 0xf5, 0xe0, 0x5e] @
     [0xff, 0x64, 0x22, 0x67, 0xfe, 0x64, 0x20, 0xc8, 0x09, 0xf5, 0x4e, 0x59, 0x15, 0x22, 0x19, 0x8d] @
     [0x34, 0x5b, 0x43, 0x08, 0xa4, 0x3f, 0x22, 0x09, 0x90, 0x1d, 0x9c, 0x0a, 0x9c, 0xda, 0xe3, 0x24] @
     [0x13, 0x7c, 0x24, 0x71, 0xb3, 0x6d, 0x66, 0x9c, 0xec, 0x91, 0x53, 0x10, 0xa0, 0xc9, 0x4a, 0x41] @
     [0x99, 0xf2, 0xdd, 0xa8, 0x91, 0xba, 0x41, 0x23, 0x78, 0x9f, 0x8c, 0x70, 0x17, 0x8e, 0x2f, 0xa6] @
     [0xe2, 0xdf, 0xad, 0x26, 0xc2, 0xe3, 0xd8, 0x75, 0xf5, 0x36, 0xe5, 0x4d, 0xd1, 0xdc, 0x4a, 0xb3] @
     [0x95, 0x3c, 0x96, 0x0c, 0xf2, 0x71, 0x54, 0xb9, 0x5f, 0x04, 0x1e, 0xd9, 0x2f, 0x4a, 0x75, 0x61] @
     [0x86, 0x89, 0xf6, 0xed, 0x9b, 0x27, 0x8b, 0x4d, 0x87, 0x1a, 0x3f, 0x9e, 0xac, 0xb3, 0x77, 0x32] @
     [0xff, 0x91, 0x8e, 0xf1, 0xbe, 0x7a, 0x1b, 0x44, 0x66, 0x36, 0x1c, 0xaf, 0x7e, 0x00, 0x01, 0x42] @
     [0xbd, 0x00, 0x8d, 0x6f, 0x89, 0xfd, 0x2a, 0xc8, 0x3b, 0x28, 0x9b, 0xe3, 0x2f, 0xce, 0xd5, 0xa3] @
     [0x6b, 0x55, 0xf6, 0xdf, 0xc8, 0x75, 0x63, 0xc8, 0x47, 0xf6, 0x7a, 0x0b, 0xb0, 0x89, 0x78, 0x4f] @
     [0x56, 0x67, 0x3a, 0x90, 0xe3, 0x45, 0x08, 0xa3, 0xfc, 0xe3, 0xe8, 0x9d, 0x42, 0x91, 0xa7, 0x2f] @
     [0x7e, 0x13, 0x2a, 0x89, 0xb1, 0x8a, 0xba, 0x0d, 0x56, 0xf4, 0xa9, 0x19, 0xe0, 0x70, 0xd0, 0xde] @
     [0x24, 0x7e, 0xcc, 0xcd, 0x11, 0x67, 0x4b, 0x9a, 0xd3, 0x0a, 0x09, 0x52, 0x27, 0xed, 0x83, 0x55] @
     [0x4c, 0x6f, 0xb5, 0xca, 0x6a, 0xe8, 0x20, 0x34, 0x8c, 0xb9, 0x5c, 0xb0, 0x56, 0x6f, 0xee, 0x97] @
     [0xb7, 0xf3, 0xa7, 0x95, 0xb8, 0x94, 0xb2, 0xd3, 0x60, 0x99, 0x3e, 0x7b, 0xf4, 0xa3, 0x2e, 0x8a] @
     [0x80, 0x63, 0x76, 0x91, 0xc7, 0x3f, 0xcc, 0xbb, 0x36, 0xbf, 0x74, 0xa6, 0x20, 0xdf, 0x4d, 0xa6] @
     [0x6b, 0xa3, 0x90, 0xa2, 0xe1, 0x26, 0x83, 0xd7, 0xef, 0x18, 0x40, 0xfb, 0xaf, 0x5f, 0x01, 0x47] @
     [0xef, 0x1c, 0x25, 0xfc, 0x8f, 0xcd, 0xe4, 0x5e, 0x5e, 0x4a, 0x25, 0x5b, 0x76, 0xd9, 0x56, 0x38] @
     [0x89, 0x56, 0xbb, 0xf0, 0x52, 0x8e, 0x8c, 0xc8, 0x52, 0x92, 0xb6, 0xc4, 0xcf, 0x9a, 0xa0, 0x94] @
     [0x1e, 0xbe, 0xcc, 0x7b, 0x56, 0x27, 0xfd, 0xa3, 0x2c, 0xe7, 0x5e, 0xd2, 0x79, 0x11, 0x64, 0xb8] @
     [0x6a, 0xd3, 0xb2, 0x74, 0x2f, 0x9c, 0xe7, 0x83, 0x3a, 0xe3, 0xc9, 0x0a, 0x24, 0x0b, 0x5b, 0x01] @
     [0x76, 0x0d, 0xb9, 0x48, 0x53, 0x68, 0x9c, 0x41, 0xc0, 0x8f, 0xa2, 0xc6, 0xbd, 0x29, 0xb0, 0xd5] @
     [0xcd, 0x9a, 0x8d, 0xd9, 0xbf, 0xac, 0xf0, 0x1f, 0x35, 0xd9, 0x34, 0x9f, 0x7a, 0x66, 0x3f, 0x6e] @
     [0xa8, 0xed, 0x75, 0x40, 0xce, 0x8d, 0x68, 0x3f, 0xa1, 0x4c, 0x01, 0x09, 0x5c, 0x94, 0x73, 0x5a] @
     [0x19, 0xa2, 0x3f, 0xc3, 0x86, 0xc2, 0x41, 0xe5, 0xb5, 0xa6, 0xbd, 0x93, 0x36, 0x2a, 0xaa, 0x00] @
     [0xf7, 0x27, 0x9c, 0x37, 0x9a, 0x44, 0x68, 0x06, 0x7c, 0x6f, 0x7e, 0x03, 0x30, 0x4c, 0x28, 0xe4] @
     [0x29, 0xf2, 0xa9, 0xca, 0xe6, 0x51, 0x92, 0xd0, 0xc4, 0x95, 0x1e, 0x78, 0xd9, 0x3f, 0xf5, 0xa7]"

lemma vlc_c2_length: "length vlc_c2 = 1536"
  by (simp add: vlc_c2_def)

text \<open>The block of the client.\<close>

lemma vlc_c1_offset0: "scheme_offset 0 vlc_c1 = 494"
  unfolding scheme_offset_eval [OF vlc_c1_length] by (simp add: vlc_c1_def sumBytes_def)

lemma vlc_c1_code0_pass_0:
  "sha_blocks (Sha 0xab9b2043 0x9d576b06 0x90cc6d17 0x9e2d20d9 0x430bbd1c 0x0a5165be 0xc8af2193 0x406c37fe)
     (0 # 0 # 0 # 0 # 0x09 # 0 # 0x7c # 0x02 # 0xf7 # 0x78 # 0x55 # 0x1e # 0xce # 0xab # 0x8e # 0x1e #
      0x36 # 0x2f # 0x07 # 0xc5 # 0x86 # 0x8a # 0x70 # 0xb2 # 0x66 # 0xd4 # 0x02 # 0x20 # 0xe5 # 0x08 # 0x61 # 0x18 #
      0xa2 # 0x2e # 0x36 # 0x97 # 0xd5 # 0xfc # 0x2b # 0x63 # 0x29 # 0xc2 # 0x2e # 0xe7 # 0xc7 # 0xc9 # 0xb0 # 0xb5 #
      0xb3 # 0x45 # 0xdf # 0xa8 # 0x39 # 0x8f # 0xea # 0x3b # 0xc8 # 0x79 # 0x20 # 0x8a # 0x10 # 0x68 # 0x42 # 0x5a #
      0xa1 # 0x17 # 0x4c # 0xb5 # 0x72 # 0x58 # 0xcf # 0xeb # 0xe2 # 0x4d # 0xa4 # 0x2e # 0xc4 # 0xff # 0x9d # 0xa1 #
      0x9c # 0x7b # 0x40 # 0x6f # 0x18 # 0xc9 # 0x5b # 0xfd # 0xd0 # 0x4e # 0xe4 # 0x8b # 0x6f # 0x83 # 0x32 # 0x14 #
      0xa4 # 0x7b # 0x8b # 0xf6 # 0x8e # 0xb0 # 0x52 # 0x54 # 0xe2 # 0x5a # 0xe9 # 0xa9 # 0xa8 # 0xb4 # 0x96 # 0xc5 #
      0x49 # 0x6f # 0x6e # 0x9c # 0xd7 # 0xc6 # 0x8c # 0xb6 # 0xbc # 0xc8 # 0x41 # 0x69 # 0xe6 # 0x7f # 0x3e # 0x37 # rest) =
   sha_blocks (Sha 0x9dd85a33 0xcec34a1a 0x96ef8512 0xa3c6db66 0xa9fffcc5 0xdb118480 0xd5d1b3e6 0x79e04793) rest"
  by (simp only: sha_eval)

lemma vlc_c1_code0_pass_1:
  "sha_blocks (Sha 0x9dd85a33 0xcec34a1a 0x96ef8512 0xa3c6db66 0xa9fffcc5 0xdb118480 0xd5d1b3e6 0x79e04793)
     (0x2f # 0xfe # 0x18 # 0x6d # 0xa8 # 0x51 # 0x38 # 0x62 # 0xc5 # 0xaf # 0xde # 0xb5 # 0xa1 # 0x21 # 0x8a # 0x86 #
      0x0b # 0xac # 0xcd # 0xd8 # 0x69 # 0xb2 # 0x53 # 0xdb # 0xab # 0x8a # 0x0e # 0xfb # 0x59 # 0xa4 # 0x8c # 0x44 #
      0x20 # 0x99 # 0x87 # 0x5e # 0x55 # 0xb7 # 0x4f # 0xd0 # 0x7a # 0x1b # 0x69 # 0xaf # 0x30 # 0x3e # 0x09 # 0x98 #
      0x73 # 0xcb # 0x77 # 0xe2 # 0xd9 # 0xe2 # 0xc4 # 0x74 # 0x1e # 0xb1 # 0xf5 # 0x06 # 0xa7 # 0xf0 # 0xb2 # 0x96 #
      0x2a # 0xf9 # 0x1f # 0x50 # 0x51 # 0xc8 # 0x90 # 0xa3 # 0x20 # 0x99 # 0x4f # 0x4c # 0x8b # 0x36 # 0xa0 # 0x1f #
      0xa9 # 0xc0 # 0xf1 # 0x5f # 0x4b # 0x7c # 0xf7 # 0xb6 # 0xc3 # 0x81 # 0x7d # 0xa6 # 0x09 # 0x18 # 0x61 # 0x1d #
      0x3b # 0x02 # 0xff # 0x7c # 0xc9 # 0x40 # 0x38 # 0x93 # 0x75 # 0x37 # 0xd3 # 0x38 # 0x2e # 0x41 # 0x6b # 0xd5 #
      0x75 # 0x77 # 0x83 # 0x4d # 0xf9 # 0xca # 0xf7 # 0x48 # 0x35 # 0x21 # 0x50 # 0xce # 0x92 # 0xd0 # 0xdb # 0xb4 # rest) =
   sha_blocks (Sha 0xa5702620 0x8da21614 0x9e219594 0xdf92d2e3 0x02c1cf7e 0x3f2c4cd4 0x060cd3b8 0x0f838207) rest"
  by (simp only: sha_eval)

lemma vlc_c1_code0_pass_2:
  "sha_blocks (Sha 0xa5702620 0x8da21614 0x9e219594 0xdf92d2e3 0x02c1cf7e 0x3f2c4cd4 0x060cd3b8 0x0f838207)
     (0x0e # 0x87 # 0x1f # 0xc3 # 0x64 # 0xe1 # 0x8b # 0x7e # 0x35 # 0x69 # 0xe3 # 0x98 # 0x76 # 0xc1 # 0xae # 0x0c #
      0xb7 # 0x9f # 0xf6 # 0xd7 # 0xab # 0x32 # 0xf9 # 0xf0 # 0x11 # 0x86 # 0x9c # 0x8d # 0xa4 # 0x19 # 0x1e # 0xf4 #
      0x6d # 0x3c # 0x1b # 0xc6 # 0xb7 # 0x2d # 0x83 # 0x81 # 0x2f # 0x22 # 0x43 # 0xd1 # 0x75 # 0x2a # 0x41 # 0x26 #
      0x32 # 0xd6 # 0x6a # 0x20 # 0x75 # 0xf5 # 0xd3 # 0x02 # 0xf4 # 0x5c # 0xdf # 0x2b # 0x98 # 0xb8 # 0x02 # 0xb7 #
      0x98 # 0x05 # 0xdc # 0x48 # 0x37 # 0xd8 # 0x4e # 0xde # 0xd1 # 0xcc # 0x42 # 0xcb # 0xa7 # 0xee # 0xc3 # 0x13 #
      0x7b # 0xf8 # 0x6d # 0xd0 # 0xb2 # 0xd7 # 0xf6 # 0x24 # 0xd5 # 0x21 # 0xa3 # 0xff # 0x65 # 0x5b # 0xcf # 0x0d #
      0xf4 # 0x10 # 0x13 # 0x41 # 0xd2 # 0x30 # 0xe9 # 0x46 # 0x51 # 0x62 # 0x8e # 0x45 # 0xa7 # 0xab # 0xf8 # 0x18 #
      0x31 # 1 # 0xce # 0x98 # 0x1e # 0x5e # 0x86 # 0xa6 # 0xfa # 0xec # 0x5c # 0x79 # 0xaa # 0x7e # 0xc7 # 0x18 # rest) =
   sha_blocks (Sha 0xbc37e13f 0x3228fba1 0x2873928f 0x31330dd4 0xf3d47b98 0xe5248fe7 0x41974fc7 0x520b891a) rest"
  by (simp only: sha_eval)

lemma vlc_c1_code0_pass_3:
  "sha_blocks (Sha 0xbc37e13f 0x3228fba1 0x2873928f 0x31330dd4 0xf3d47b98 0xe5248fe7 0x41974fc7 0x520b891a)
     (0x1e # 0xa4 # 0x59 # 0xed # 0x96 # 0x6e # 0x0c # 0x93 # 0x2a # 0x6f # 0x9e # 0x4b # 0xf5 # 0x54 # 0xab # 0x7b #
      0x1c # 0x90 # 0x5c # 0xde # 0x05 # 0x4e # 0xd4 # 0x0d # 0x2f # 0xb8 # 0x9b # 0xbf # 0xc6 # 0x57 # 0x52 # 0xe5 #
      0x8c # 0xfd # 0xe4 # 0xf2 # 0xa0 # 0x4d # 0xc3 # 0xad # 0x1e # 0x5e # 0xf4 # 0xfc # 0x64 # 0xd5 # 0x7b # 0x07 #
      0x1c # 0x14 # 0x14 # 0x6a # 0x45 # 0x1f # 0x6a # 0x04 # 0x31 # 0x56 # 0xd2 # 0x88 # 0x0f # 0x59 # 0x57 # 0xd7 #
      0x8d # 0xfd # 0x3f # 0xf2 # 0xb8 # 0x80 # 0xf6 # 0x24 # 0xac # 0x70 # 0xf2 # 0x70 # 0x94 # 0xf3 # 0x77 # 0x34 #
      0xea # 0xf1 # 0x92 # 0x4f # 0x66 # 0xac # 0x3d # 0x64 # 0x8a # 0xe2 # 0x32 # 0x93 # 0x05 # 0x44 # 0xa4 # 0x42 #
      0x0b # 0x65 # 0xee # 0xd4 # 0x69 # 0x6f # 0x7f # 0x50 # 0xfe # 0x05 # 0xfc # 0x94 # 0x85 # 0x16 # 0xdf # 0x59 #
      0xeb # 0xd7 # 0x73 # 0x92 # 0x2e # 0x0a # 0xe5 # 0x07 # 0xd5 # 0xe6 # 0x40 # 0x92 # 0xe9 # 0x0e # 0xc6 # 0x7e # rest) =
   sha_blocks (Sha 0xeb4c1ef1 0xcd3a8805 0x4493c1a8 0xf725724c 0x5bac56b0 0xdf68e1ca 0xeae4abd2 0xa15374d4) rest"
  by (simp only: sha_eval)

lemma vlc_c1_code0_pass_4:
  "sha_blocks (Sha 0xeb4c1ef1 0xcd3a8805 0x4493c1a8 0xf725724c 0x5bac56b0 0xdf68e1ca 0xeae4abd2 0xa15374d4)
     (0xd8 # 0x43 # 0x9e # 0x8f # 0x22 # 0x1c # 0x75 # 0x3a # 0x9f # 0x92 # 0x16 # 0xf1 # 0xcb # 0x85 # 0xb5 # 0x10 #
      0x7b # 0xc7 # 0xcc # 0x7c # 0x4f # 0xb2 # 0xc3 # 0xee # 0xd1 # 0xaf # 0xc7 # 0x09 # 0xb1 # 0x92 # 0xf5 # 0x0d #
      0xe6 # 0x9c # 0x1f # 0xfc # 0xa5 # 0x65 # 0x0e # 0xfb # 0x52 # 0x3b # 0x5f # 0xab # 0x59 # 0x97 # 0xca # 0xc4 #
      0xb7 # 0xef # 0x5a # 0xf2 # 0xbf # 0x59 # 0x73 # 0xe6 # 0x29 # 0x3b # 0xae # 0x1f # 0xc1 # 0xda # 0x49 # 0x9b #
      0xe5 # 0x51 # 0x50 # 0x77 # 0xde # 0x4d # 0xdb # 0x3f # 0x7f # 0xbc # 0xd7 # 0x41 # 0x71 # 0x1c # 0x62 # 0xb7 #
      0xd8 # 0x03 # 0xb8 # 0xd0 # 0x54 # 0xcf # 0x57 # 0x81 # 0x82 # 0x71 # 0x4d # 0x1c # 0x44 # 0x5b # 0xd6 # 0x92 #
      0xba # 0x1b # 0x83 # 0x9a # 0x09 # 0xe7 # 0x26 # 0x6f # 0xc8 # 0x5d # 0xaa # 0x8f # 0xad # 0x43 # 0x3d # 0xab #
      0xbd # 0x20 # 0x6c # 0xde # 0x1e # 0xa5 # 0x71 # 0x77 # 0x0c # 0x6b # 0xfa # 0x79 # 0x56 # 0xc2 # 0x66 # 0xee # rest) =
   sha_blocks (Sha 0xcd562329 0x9cd06856 0x332697ba 0xee4a2b58 0xaf6a69f8 0xc3d9c0e0 0xbe4404aa 0xed1316c4) rest"
  by (simp only: sha_eval)

lemma vlc_c1_code0_pass_5:
  "sha_blocks (Sha 0xcd562329 0x9cd06856 0x332697ba 0xee4a2b58 0xaf6a69f8 0xc3d9c0e0 0xbe4404aa 0xed1316c4)
     (0x84 # 0x35 # 0xeb # 1 # 0xca # 0xa6 # 0xf5 # 0x83 # 0xc0 # 0xd8 # 0x3c # 0x33 # 0xee # 0xfc # 0xf3 # 0xf9 #
      0x7d # 0xb9 # 0x17 # 0xbd # 0xb2 # 0x99 # 0xf8 # 0xa8 # 0x9f # 0xb8 # 0x86 # 0x0a # 0xb1 # 0xcd # 0x64 # 0x4c #
      0x1e # 0x82 # 0xcc # 0xe1 # 0x32 # 0x3a # 0x9e # 0xb7 # 0x9d # 0x25 # 0xf5 # 0xdc # 0x57 # 0x0b # 0x70 # 0xb4 #
      0x0b # 0xb2 # 0 # 0x61 # 0x74 # 0x33 # 0x53 # 0xd0 # 0x53 # 0x6e # 0xcd # 0xab # 0xd8 # 0x2f # 0x22 # 0x77 #
      0x75 # 0x62 # 0x28 # 0xcb # 0x54 # 0xfe # 0x69 # 0x32 # 0xc4 # 0xc9 # 0xbd # 0x13 # 0x0d # 0x2b # 0xfc # 0x70 #
      0x0b # 0xf5 # 0xd8 # 0x5d # 0xa6 # 0x94 # 0x6e # 0x96 # 0xf8 # 0x2e # 0x0a # 0xfd # 0x8e # 0x9c # 0x20 # 0xcf #
      0xea # 0xbf # 0x9a # 0x6a # 0x18 # 0x9b # 0xb1 # 0x7b # 0xbe # 0xf5 # 0x39 # 0xd1 # 0xd9 # 0xe7 # 0x3e # 0xe9 #
      0x66 # 0xfc # 0xb5 # 0xd6 # 0xbd # 0xbf # 0x98 # 0x44 # 0x4d # 0xe8 # 0x65 # 0xbe # 0x16 # 0x05 # 0xe3 # 0x40 # rest) =
   sha_blocks (Sha 0xd6395151 0x404c16fe 0xa0d77988 0xd06d1195 0x1952cd06 0x5a16bcc7 0xd5bc5d10 0x82fe80bd) rest"
  by (simp only: sha_eval)

lemma vlc_c1_code0_pass_6:
  "sha_blocks (Sha 0xd6395151 0x404c16fe 0xa0d77988 0xd06d1195 0x1952cd06 0x5a16bcc7 0xd5bc5d10 0x82fe80bd)
     (0x87 # 0xb3 # 0x4c # 0xdf # 0x04 # 0xe3 # 0xaf # 0xf5 # 0x5b # 0xd4 # 0x13 # 0x7c # 0x52 # 0x2d # 0x2e # 0x3c #
      0x7b # 0xf2 # 0x63 # 0x4d # 0xb3 # 0x26 # 0xb2 # 0x2a # 0x47 # 0x4d # 0xb7 # 0xf8 # 0xa0 # 0x95 # 0x2a # 0xb3 #
      0x51 # 0x0d # 0xe5 # 0x55 # 0x39 # 0x6c # 0x18 # 0xa3 # 0x78 # 0xa8 # 0x39 # 0x0b # 0x73 # 0xbf # 0xf7 # 0x77 #
      0x2f # 0xb2 # 0x76 # 0x0f # 0xa5 # 0x78 # 0x6a # 0x3b # 0x04 # 0x59 # 0xc4 # 0x5a # 0x1d # 0x1b # 0x0d # 0xff #
      0x4c # 0xbb # 0xb6 # 0x5d # 0xa0 # 0xed # 0x34 # 0xf3 # 0x21 # 0x16 # 0xc3 # 0xc2 # 0xcc # 0x2b # 0x95 # 0x82 #
      0x51 # 0x11 # 0xbc # 0xfb # 0xb2 # 0x46 # 0xc1 # 0x50 # 0x5a # 0xa0 # 0x0c # 0x97 # 0x0d # 0x06 # 0xd7 # 0x6c #
      0xc9 # 0x50 # 0xce # 0x36 # 0x8b # 0x22 # 0x0d # 0xb2 # 0x04 # 0x87 # 0xcb # 0xa0 # 0x2b # 0xb1 # 0xfc # 0x54 #
      0xb3 # 0x65 # 0x67 # 0xb4 # 0x29 # 0x13 # 0xd6 # 0xb8 # 0x85 # 0x06 # 0x2c # 0xd7 # 0x79 # 0x56 # 1 # 0xd3 # rest) =
   sha_blocks (Sha 0x719959dd 0x3169f44f 0x5558c9d6 0x36c86ad5 0x5dfe94be 0x26623271 0xa6a0a61b 0xf70dfc8a) rest"
  by (simp only: sha_eval)

lemma vlc_c1_code0_pass_7:
  "sha_blocks (Sha 0x719959dd 0x3169f44f 0x5558c9d6 0x36c86ad5 0x5dfe94be 0x26623271 0xa6a0a61b 0xf70dfc8a)
     (0x1a # 0x4a # 0x8e # 0x6d # 0x56 # 0x46 # 0x7f # 0xa5 # 0xc5 # 0x21 # 0x62 # 0x67 # 0x6f # 0xd5 # 0x26 # 0x12 #
      0x25 # 0x13 # 0xc3 # 0xe4 # 0x7f # 0x2e # 0x6d # 0x9d # 0x6a # 0x19 # 0xc4 # 0xf8 # 0x79 # 0x54 # 0x31 # 0xa9 #
      0x4c # 0xed # 0x03 # 0x92 # 0x21 # 0xd2 # 0x7a # 0xc6 # 0x8a # 0x7a # 0x77 # 0x0e # 0x93 # 0x05 # 0x25 # 0x22 #
      0x71 # 0x45 # 0x9b # 0x71 # 0xd0 # 0x55 # 0x05 # 0xc4 # 0x97 # 0x7b # 0x70 # 0xe9 # 0x68 # 0x51 # 0x20 # 0x8b #
      0xac # 0xdc # 0xdf # 0x7e # 0x68 # 0x2b # 0x38 # 0x48 # 0x84 # 0x08 # 0x80 # 0xf1 # 0xfe # 0xc2 # 0xa3 # 0x2f #
      0xb1 # 0x40 # 0x68 # 0x62 # 0xbc # 0x83 # 0xca # 0xd8 # 0x9a # 0xdf # 0x72 # 0x9f # 0x3b # 0xa6 # 0xff # 0xd3 #
      0xfe # 0x80 # 0x8e # 0x84 # 0x03 # 0xe7 # 0xc6 # 0xa0 # 0xf6 # 0xdc # 0xda # 0x32 # 0x11 # 0x89 # 0x8f # 0x6f #
      0x16 # 0x50 # 0x5b # 0x07 # 0x8c # 0xc7 # 0x8b # 0x80 # 0xdb # 0x60 # 0x0d # 0xed # 0x2f # 0x20 # 0x0f # 0x25 # rest) =
   sha_blocks (Sha 0x2a55f8aa 0x5f61c58f 0x2403aaca 0xff80bef2 0x743633e7 0x93243022 0x4d791966 0xd786ee45) rest"
  by (simp only: sha_eval)

lemma vlc_c1_code0_pass_8:
  "sha_blocks (Sha 0x2a55f8aa 0x5f61c58f 0x2403aaca 0xff80bef2 0x743633e7 0x93243022 0x4d791966 0xd786ee45)
     (0xff # 0x5d # 0xcb # 0x31 # 0xd3 # 0x2c # 0xbe # 0x20 # 0x56 # 0xb8 # 0xbd # 0xc3 # 0x10 # 0x91 # 0x63 # 0x1a #
      0xbb # 0xd2 # 0xac # 0x28 # 0xd6 # 0x1f # 0xe3 # 0x24 # 0x80 # 0xec # 0x50 # 0x35 # 0xbb # 0xf3 # 0x5f # 0x17 #
      0x33 # 0x93 # 0xf0 # 0xd5 # 0x9a # 0x21 # 0xd2 # 0x30 # 0x0b # 0x2d # 0xb4 # 0xb5 # 0x9e # 0xaa # 0x63 # 0xff #
      0xe0 # 0xf9 # 0x3d # 0x65 # 0xdc # 0x02 # 0x85 # 0x16 # 0x90 # 0x5f # 0x22 # 0xa9 # 0xc7 # 0xdf # 0xf3 # 0x87 #
      0xc4 # 0xeb # 0x78 # 0xc6 # 0x30 # 0x0e # 0x7e # 0xbb # 0xb2 # 0xa6 # 0x66 # 0x3c # 0xfb # 0xe5 # 0xa9 # 0x97 #
      0x7c # 0xaf # 0x57 # 0x64 # 0xba # 0x3f # 0x0a # 0xba # 0x57 # 0xdb # 0x4e # 0x60 # 0x51 # 0xe0 # 0xae # 0xc6 #
      0xe0 # 0x5b # 0x1b # 0xda # 0xa6 # 0x49 # 0xa9 # 0x78 # 0x75 # 0xed # 0xbc # 0x40 # 0xbc # 0xc4 # 0x21 # 0x4b #
      0xb7 # 0xfe # 0xf7 # 0x27 # 0x30 # 0xd4 # 0x36 # 0x8a # 0xcb # 0xd3 # 0xe1 # 0x0a # 0xb4 # 0xc7 # 0x64 # 0x2a # rest) =
   sha_blocks (Sha 0xc6170a1a 0x04b0d165 0xc379793c 0x7d1cb21d 0xeef61a6c 0xe96164b8 0x041ee90b 0x0e354af8) rest"
  by (simp only: sha_eval)

lemma vlc_c1_code0_pass_9:
  "sha_blocks (Sha 0xc6170a1a 0x04b0d165 0xc379793c 0x7d1cb21d 0xeef61a6c 0xe96164b8 0x041ee90b 0x0e354af8)
     (0x1c # 0x53 # 0xf9 # 0x3c # 0xa2 # 0x6d # 0xb9 # 0xc7 # 0x66 # 0x55 # 0x5b # 0xe2 # 0x6f # 0xdf # 0xf0 # 0xe2 #
      0xa7 # 0x21 # 0x42 # 0x5b # 0x95 # 0x76 # 0x2b # 0x0b # 0x77 # 0x6f # 0xd3 # 0xe3 # 0xeb # 0x17 # 0x31 # 0x3d #
      0x53 # 0x12 # 0x9c # 0x9f # 0x34 # 0 # 0x3c # 0x99 # 0xa5 # 0x19 # 0x6a # 0x8c # 0x6a # 0xac # 0xb6 # 0xd6 #
      0x4b # 0x51 # 0xdd # 0x98 # 0xb2 # 0x7c # 0x5b # 0x59 # 0xa7 # 0x0b # 0xd9 # 0x41 # 0xa1 # 0xba # 0x03 # 0 #
      0xfb # 0x74 # 0x4c # 0xfc # 0x49 # 0x9d # 0x99 # 0x7e # 0x6d # 0x93 # 0x39 # 0x2d # 0x28 # 0xa7 # 0x67 # 0xd1 #
      0x16 # 0xdf # 0xbc # 0x2c # 0xb9 # 0xeb # 0x40 # 0x54 # 0x0d # 0x11 # 0xeb # 0x30 # 0x4a # 0xd9 # 0x32 # 0x23 #
      0x86 # 0xfd # 0xc5 # 0x97 # 0xd5 # 0x5d # 0x3d # 0x1c # 0x67 # 0xbc # 0x54 # 0xdf # 0x35 # 0x47 # 0x9a # 0xfb #
      0x19 # 0xea # 0x2c # 0xd2 # 0x04 # 0xdd # 0x33 # 0x1e # 0xfb # 0x49 # 0xc1 # 0xe1 # 0x72 # 0xf6 # 0xbb # 0x89 # rest) =
   sha_blocks (Sha 0x408dff42 0x50dedfe1 0x7c382205 0x79c33014 0x9dd53228 0x5a1a525e 0xb6209472 0x49f6d579) rest"
  by (simp only: sha_eval)

lemma vlc_c1_code0_pass_10:
  "sha_blocks (Sha 0x408dff42 0x50dedfe1 0x7c382205 0x79c33014 0x9dd53228 0x5a1a525e 0xb6209472 0x49f6d579)
     (0xfb # 0xf5 # 0x82 # 0x07 # 0xdc # 0xae # 0x6c # 0x12 # 0xf8 # 0xa7 # 0x59 # 0x8b # 0xef # 0x1e # 0x87 # 0x2c #
      0x0c # 0x35 # 0xf2 # 0x2b # 0x4c # 0x29 # 0xdf # 0x10 # 0xf9 # 0xbb # 0x1a # 0xdd # 0x3a # 0xeb # 0x88 # 0x7a #
      0xb5 # 0xfb # 0x38 # 0xc0 # 0x36 # 0xb8 # 0x83 # 0x46 # 0xf7 # 0x61 # 0xc4 # 0x2f # 0x29 # 0x5d # 0xfe # 0x0b #
      0x43 # 0x7d # 0xfb # 0x4f # 0x30 # 0xa7 # 0x12 # 0x76 # 0xab # 0x7d # 0x40 # 0x9c # 0xe4 # 0x24 # 0x96 # 0x3f #
      0x9e # 0xbb # 0x4f # 0x1f # 0x47 # 0xe5 # 0x2b # 0x18 # 0x78 # 0x6f # 0x27 # 0x9b # 0x5a # 0x87 # 0x22 # 0x6f #
      0x66 # 0x98 # 0x1d # 0xd6 # 0xd0 # 0xad # 0x11 # 0xf4 # 0x9a # 0xf3 # 0x10 # 0x55 # 0xff # 0x69 # 0x71 # 0x0f #
      0xda # 0x34 # 0x57 # 0xc4 # 0xb7 # 0x85 # 0x2d # 0xb2 # 0xe3 # 0x93 # 0x6d # 0x07 # 0x78 # 0xbf # 0x87 # 0x9f #
      0x17 # 0x34 # 0xad # 0x3a # 0x24 # 0xff # 0xb1 # 0xae # 0x95 # 0x84 # 0x76 # 0x0b # 0x9c # 0xb0 # 0x45 # 0x2a # rest) =
   sha_blocks (Sha 0x491ce102 0x4b41569f 0x4b6931ef 0x627892a3 0x95065830 0xedd06519 0x098b6221 0x2eb643c7) rest"
  by (simp only: sha_eval)

lemma vlc_c1_code0_pass_11:
  "sha_blocks (Sha 0x491ce102 0x4b41569f 0x4b6931ef 0x627892a3 0x95065830 0xedd06519 0x098b6221 0x2eb643c7)
     (0x53 # 0xba # 0x09 # 0x62 # 0xff # 0xe2 # 0xf6 # 0x05 # 0xaf # 0x52 # 0x83 # 0x0b # 0xd2 # 0x11 # 0xa5 # 0x48 #
      0x88 # 0x94 # 0xcc # 0x0b # 0x05 # 0x22 # 0x55 # 0x04 # 0x87 # 0x11 # 0xcd # 0x19 # 0x85 # 0x10 # 0xa9 # 0xe9 #
      0x43 # 0xbf # 0x8b # 0x83 # 0x91 # 0x98 # 0x45 # 0x5f # 0xbd # 0x41 # 0x07 # 0x30 # 0x05 # 0xd3 # 0x03 # 0x99 #
      0x0b # 0x88 # 0xd9 # 0xb6 # 0x36 # 0x56 # 0xd4 # 0x3c # 0xfe # 0xc8 # 0xed # 0x83 # 0x74 # 0x8f # 0x4b # 0x0f #
      0x0f # 0xc5 # 0x12 # 0x02 # 0x16 # 0x79 # 0x4b # 0x22 # 0xa0 # 0x54 # 0xe5 # 0xbc # 0x58 # 0xab # 0xd8 # 0xc4 #
      0x10 # 0x96 # 0x07 # 0x08 # 0x84 # 0x39 # 0x34 # 0x53 # 0xce # 0x50 # 0x96 # 0x94 # 0xaf # 0xbe # 0xab # 0xe0 #
      0x80 # 0 # 0 # 0 # 0 # 0 # 0 # 0 # 0 # 0 # 0 # 0 # 0 # 0 # 0 # 0 #
      0 # 0 # 0 # 0 # 0 # 0 # 0 # 0 # 0 # 0 # 0 # 0 # 0 # 0 # 0x31 # 0 # rest) =
   sha_blocks (Sha 0x7b65f912 0xa31278e4 0xd4aebc64 0x17588027 0x519d4c6e 0xf9e7627f 0xf573c40b 0xf6231912) rest"
  by (simp only: sha_eval)

lemma vlc_c1_code0_end:
  "sha_blocks (Sha 0x941c2d2d 0xa04e9891 0x26ab56a5 0xa3d018f6 0xccc062d3 0xa0c3be23 0xbd8451ab 0x3f597e24)
     (0x7b # 0x65 # 0xf9 # 0x12 # 0xa3 # 0x12 # 0x78 # 0xe4 # 0xd4 # 0xae # 0xbc # 0x64 # 0x17 # 0x58 # 0x80 # 0x27 #
      0x51 # 0x9d # 0x4c # 0x6e # 0xf9 # 0xe7 # 0x62 # 0x7f # 0xf5 # 0x73 # 0xc4 # 0x0b # 0xf6 # 0x23 # 0x19 # 0x12 #
      0x80 # 0 # 0 # 0 # 0 # 0 # 0 # 0 # 0 # 0 # 0 # 0 # 0 # 0 # 0 # 0 #
      0 # 0 # 0 # 0 # 0 # 0 # 0 # 0 # 0 # 0 # 0 # 0 # 0 # 0 # 0x03 # 0 # rest) =
   sha_blocks (Sha 0x650bfb9b 0x65f953d8 0x48e34569 0x65d0d76b 0x627a84e3 0x5e9ddabd 0x8b43f0fa 0xdaee458c) rest"
  by (simp only: sha_eval)

lemma vlc_c1_code0_digest:
  "sha_blocks (Sha 0xab9b2043 0x9d576b06 0x90cc6d17 0x9e2d20d9 0x430bbd1c 0x0a5165be 0xc8af2193 0x406c37fe) (strip 494 vlc_c1 @ sha_tail 1568) =
     Sha 0x7b65f912 0xa31278e4 0xd4aebc64 0x17588027 0x519d4c6e 0xf9e7627f 0xf573c40b 0xf6231912"
  by (simp add: strip_def vlc_c1_def sha_tail_1568 vlc_c1_code0_pass_0 vlc_c1_code0_pass_1 vlc_c1_code0_pass_2 vlc_c1_code0_pass_3 vlc_c1_code0_pass_4 vlc_c1_code0_pass_5 vlc_c1_code0_pass_6 vlc_c1_code0_pass_7 vlc_c1_code0_pass_8 vlc_c1_code0_pass_9 vlc_c1_code0_pass_10 vlc_c1_code0_pass_11 sha_blocks_Nil)

lemma vlc_c1_code0:
  "calculateHMACsha256 (strip 494 vlc_c1) (take 30 GENUINE_FP_KEY) =
     [0x65, 0x0b, 0xfb, 0x9b, 0x65, 0xf9, 0x53, 0xd8, 0x48, 0xe3, 0x45, 0x69, 0x65, 0xd0, 0xd7,
      0x6b, 0x62, 0x7a, 0x84, 0xe3, 0x5e, 0x9d, 0xda, 0xbd, 0x8b, 0x43, 0xf0, 0xfa, 0xda, 0xee,
      0x45, 0x8c]"
proof -
  have bytes: "sha_bytes (Sha 0x7b65f912 0xa31278e4 0xd4aebc64 0x17588027 0x519d4c6e 0xf9e7627f 0xf573c40b 0xf6231912) =
      [0x7b, 0x65, 0xf9, 0x12, 0xa3, 0x12, 0x78, 0xe4, 0xd4, 0xae, 0xbc, 0x64, 0x17, 0x58, 0x80,
       0x27, 0x51, 0x9d, 0x4c, 0x6e, 0xf9, 0xe7, 0x62, 0x7f, 0xf5, 0x73, 0xc4, 0x0b, 0xf6, 0x23,
       0x19, 0x12]"
    by (simp add: be32_put_def)
  have len: "64 + length (strip 494 vlc_c1) = 1568" by (simp add: strip_def vlc_c1_def)
  have "calculateHMACsha256 (strip 494 vlc_c1) (take 30 GENUINE_FP_KEY) = sha_bytes (Sha 0x650bfb9b 0x65f953d8 0x48e34569 0x65d0d76b 0x627a84e3 0x5e9ddabd 0x8b43f0fa 0xdaee458c)"
    unfolding player_mac len vlc_c1_code0_digest bytes
    by (simp only: sha_tail_96 append_Cons append_Nil vlc_c1_code0_end sha_blocks_Nil)
  then show ?thesis by (simp add: be32_put_def)
qed

lemma vlc_c1_code0_signed: "signed 0 (take 30 GENUINE_FP_KEY) vlc_c1"
proof -
  have "digest_at 494 vlc_c1 =
     [0x65, 0x0b, 0xfb, 0x9b, 0x65, 0xf9, 0x53, 0xd8, 0x48, 0xe3, 0x45, 0x69, 0x65, 0xd0, 0xd7,
      0x6b, 0x62, 0x7a, 0x84, 0xe3, 0x5e, 0x9d, 0xda, 0xbd, 0x8b, 0x43, 0xf0, 0xfa, 0xda, 0xee,
      0x45, 0x8c]"
    by (simp add: digest_at_def vlc_c1_def)
  then show ?thesis unfolding signed_def vlc_c1_offset0 vlc_c1_code0 by simp
qed

text \<open>The block of the server it talked to.\<close>

lemma vlc_s1_offset0: "scheme_offset 0 vlc_s1 = 483"
  unfolding scheme_offset_eval [OF vlc_s1_length] by (simp add: vlc_s1_def sumBytes_def)

lemma vlc_s1_code_pass_0:
  "sha_blocks (Sha 0xfbf1a037 0x2e9a60b2 0xa08c9325 0xa4fd756d 0x55368456 0xbe012b6d 0x476abc98 0xc2e1cb14)
     (0x1f # 0x95 # 0x03 # 0x8b # 0x04 # 0x05 # 0 # 1 # 0x7e # 0xd1 # 0x31 # 0x57 # 0xc0 # 0xa0 # 0xec # 0xc8 #
      0x49 # 0xc8 # 0xf0 # 0x05 # 0x7a # 0xd2 # 0x12 # 0xd4 # 0xbc # 0x8c # 0xfa # 0x47 # 0x76 # 0x61 # 0x6f # 0x24 #
      0xd9 # 0xc2 # 0x4e # 0x2e # 0x47 # 0x80 # 0x2a # 0x5b # 0x3c # 0x09 # 0xd4 # 0x23 # 0xc3 # 0x36 # 0x61 # 0x5d #
      0x61 # 0x4a # 0x65 # 0xef # 0x58 # 0x6d # 0x45 # 0xde # 0x15 # 0x13 # 0xce # 0xf8 # 0xb1 # 0xae # 0xff # 0x0d #
      0xae # 0xee # 0xc6 # 0x3d # 0x50 # 0x2c # 0xa5 # 0x6c # 0x4a # 0x23 # 0x22 # 0x0e # 0x93 # 0xab # 0x1b # 0x29 #
      0x92 # 0xea # 0x34 # 0x5e # 0x8f # 0x25 # 0x53 # 0xf4 # 0x91 # 0x37 # 0x3d # 0xf9 # 0x34 # 0xc7 # 0x33 # 0x76 #
      0xaa # 0x91 # 0x81 # 0xbd # 0x65 # 0x4d # 0xc3 # 0xe9 # 0x91 # 0x69 # 0x3a # 0xf9 # 0x9c # 0xc2 # 0xb2 # 0x0d #
      0x1c # 0xa7 # 0x6c # 0x2f # 0x5e # 0x5e # 0x24 # 0x4a # 0x7c # 0x15 # 0xee # 0x54 # 0xbd # 0x85 # 0x68 # 0xd9 # rest) =
   sha_blocks (Sha 0xbebda106 0xd15c36f0 0x6fd7c2c7 0xf5426007 0x9b22e68c 0xdeb97a78 0x2b64d832 0x89f1e633) rest"
  by (simp only: sha_eval)

lemma vlc_s1_code_pass_1:
  "sha_blocks (Sha 0xbebda106 0xd15c36f0 0x6fd7c2c7 0xf5426007 0x9b22e68c 0xdeb97a78 0x2b64d832 0x89f1e633)
     (0x31 # 0x1e # 0x53 # 0x14 # 0xd1 # 0x5f # 0x0e # 0xc2 # 0x7a # 0x0c # 0x41 # 0xbf # 0x34 # 0x27 # 0x28 # 0x6b #
      0x7a # 0x45 # 0xe0 # 0x91 # 0xfe # 0x27 # 0x0f # 0x55 # 0xb6 # 0xc6 # 0x15 # 0x5b # 0x98 # 0x97 # 0x4d # 0x8a #
      0xa9 # 0x29 # 0xc5 # 0xf2 # 0x0d # 0x61 # 0x8e # 0x56 # 0x47 # 0x8e # 0xbd # 0xb5 # 0xd1 # 0x42 # 0x1c # 0x93 #
      0xc5 # 0x9c # 0xe1 # 0x2e # 0x32 # 0x83 # 0x6e # 0x53 # 0x58 # 0xf4 # 0xc0 # 0xb1 # 0x6b # 0xaf # 0x33 # 0x9e #
      0x09 # 0x42 # 0x31 # 0xca # 0x1e # 0x7d # 0xbc # 0xe7 # 0xf2 # 0x63 # 0xcf # 0x4b # 0x9b # 0xa2 # 0xbc # 0x24 #
      0x3c # 0xe7 # 0xfc # 0xb5 # 0x5e # 0x8e # 0x7c # 0x52 # 0xa1 # 0x6b # 0xb1 # 0xb3 # 0xfe # 0xbc # 0x48 # 0x67 #
      0x32 # 0xec # 0xc8 # 0x4c # 0x4c # 0x0b # 0xbd # 0xd6 # 0x5c # 0x9e # 0x77 # 0x89 # 0x47 # 0x9b # 0x4a # 0x24 #
      0x43 # 0xb3 # 0xbc # 0xe7 # 0xc0 # 0x22 # 0x89 # 0xbc # 0xb4 # 0x86 # 0x5e # 0x90 # 0x65 # 0x12 # 0x13 # 0x4c # rest) =
   sha_blocks (Sha 0x6fa1ea7a 0x8582cb76 0xa8becdbe 0xc646cb41 0x134808ad 0x97c9f7a2 0xae24bfd4 0xf7d8ace6) rest"
  by (simp only: sha_eval)

lemma vlc_s1_code_pass_2:
  "sha_blocks (Sha 0x6fa1ea7a 0x8582cb76 0xa8becdbe 0xc646cb41 0x134808ad 0x97c9f7a2 0xae24bfd4 0xf7d8ace6)
     (0x99 # 0x15 # 0x8c # 0x81 # 0x76 # 0xda # 0xb8 # 0x56 # 0x4b # 0x16 # 0x09 # 0x79 # 0x5f # 0x15 # 0xdb # 0xab #
      0xff # 0x23 # 0x6e # 0x6b # 0x89 # 0x54 # 0x81 # 0xe1 # 0xd4 # 0x44 # 0x05 # 0xfe # 0x19 # 0x75 # 0x22 # 0xf4 #
      0x02 # 0xf5 # 0x35 # 0xb8 # 0xfb # 0xac # 0x92 # 0xbb # 0xc2 # 0x75 # 0x80 # 0x34 # 0x9a # 0x09 # 0x54 # 0x46 #
      0xad # 0x75 # 0xad # 0xd9 # 0x56 # 0xd2 # 0x51 # 0x3c # 0x39 # 0x3d # 0xf2 # 0x5d # 0xd3 # 0xc9 # 0x97 # 0xa3 #
      0xb6 # 0x99 # 0x70 # 0x62 # 0xd6 # 0xee # 0x1c # 0x1a # 0xbc # 0x3c # 0xcc # 0x96 # 0xb3 # 0x65 # 0x8b # 0x1b #
      0x63 # 0x0c # 0x45 # 0x1c # 0x7d # 0x9a # 0x86 # 0xd4 # 0x9c # 0xe8 # 0xc2 # 0xa0 # 0x7e # 0x18 # 0x15 # 0xd5 #
      0xad # 0x30 # 0xfa # 0x4e # 0x21 # 0x2a # 0x59 # 0x54 # 0x49 # 0x35 # 0xb1 # 0xeb # 0xfa # 0xae # 0xc2 # 0x0e #
      0xd5 # 0xa0 # 0xf3 # 0x0c # 0x3a # 0x74 # 1 # 0xf9 # 0xa2 # 0x9b # 0xbc # 0x18 # 0x5b # 0x3a # 0x31 # 0x17 # rest) =
   sha_blocks (Sha 0xfb45b7b1 0xd190b4f2 0x62fd0e31 0x5848d102 0xc1e2d294 0xb9c805e9 0xd718e1b1 0xa2ee2b25) rest"
  by (simp only: sha_eval)

lemma vlc_s1_code_pass_3:
  "sha_blocks (Sha 0xfb45b7b1 0xd190b4f2 0x62fd0e31 0x5848d102 0xc1e2d294 0xb9c805e9 0xd718e1b1 0xa2ee2b25)
     (0x93 # 0x19 # 0x39 # 0x0a # 0x18 # 0x3e # 0x6e # 0x1e # 0xb6 # 0x12 # 0x44 # 0x62 # 0x8f # 0x46 # 0xdb # 0xb8 #
      0x9e # 0xdf # 0x44 # 0x70 # 0x11 # 0x38 # 0x57 # 0x37 # 0x73 # 0xe7 # 0xfd # 0xf3 # 0x2f # 0x02 # 0x23 # 0x9d #
      0x8a # 0x6e # 0x1c # 0x5d # 0x15 # 0x55 # 0x7a # 0xa6 # 0xc2 # 0x02 # 0x62 # 0x3a # 0x7f # 0xd9 # 0xe1 # 0x7d #
      0x25 # 0x1f # 0x6f # 0xf2 # 0xe0 # 0x92 # 0x70 # 0x7f # 0x02 # 0xc5 # 0x29 # 0xdd # 0xcf # 0xf1 # 0x9c # 0x3a #
      0x85 # 0xf1 # 0x9a # 0xb4 # 0x57 # 0xd8 # 0x50 # 0x58 # 0xea # 0x3c # 0x30 # 0x1d # 0x86 # 0x2c # 0xca # 0xba #
      0xc9 # 0xcd # 0x76 # 0x62 # 0xdd # 0x56 # 0x67 # 0x44 # 0x79 # 0x21 # 0x64 # 0x29 # 0x56 # 0xc9 # 0x64 # 0xdc #
      0x98 # 0xdc # 0x42 # 0x7a # 0xce # 0x13 # 0x20 # 0x0f # 0x0a # 0x60 # 0xfe # 0x7e # 0x15 # 0xdc # 0x0c # 0xfb #
      0x44 # 0x58 # 0xb7 # 0x0f # 0xa7 # 0 # 0x40 # 0xd3 # 0x74 # 0x98 # 0xca # 0xc0 # 0xd7 # 0xe1 # 0xb2 # 0x2a # rest) =
   sha_blocks (Sha 0xcd59cc99 0x6d9da4c9 0x11f71e9f 0x6f827a78 0xcf59b426 0x5f2465c5 0xb5869338 0x3248ec69) rest"
  by (simp only: sha_eval)

lemma vlc_s1_code_pass_4:
  "sha_blocks (Sha 0xcd59cc99 0x6d9da4c9 0x11f71e9f 0x6f827a78 0xcf59b426 0x5f2465c5 0xb5869338 0x3248ec69)
     (0x95 # 0x62 # 0x5a # 0x20 # 0x3c # 0x17 # 0xbc # 0xc8 # 0x0d # 0x68 # 0x25 # 0xa4 # 0x54 # 0x51 # 0x97 # 0x79 #
      0x5a # 0x73 # 0x45 # 0x81 # 0x45 # 0x11 # 0xfc # 0x19 # 0xc8 # 0x12 # 0x56 # 0x84 # 0x26 # 0x24 # 0x17 # 0xe6 #
      0x8c # 0xe7 # 0xa1 # 0x44 # 0x40 # 0x1f # 0x7f # 0x59 # 0xa9 # 0x53 # 0x11 # 0xf0 # 0xea # 0x65 # 0xc2 # 0x8a #
      0x75 # 0x73 # 0x19 # 0x92 # 0x91 # 0xcd # 0x73 # 0x44 # 0x0b # 0x78 # 0xa2 # 0x4c # 0x77 # 0x49 # 0xe1 # 0x3a #
      0x3c # 0xfa # 0xb3 # 0x26 # 0x0b # 0xcb # 0xb8 # 0xd0 # 0xbb # 0xf7 # 0xf2 # 0xd3 # 0xf5 # 0x79 # 0x7b # 0x6b #
      0x65 # 0x90 # 0xfc # 0xa4 # 0x11 # 0xd7 # 0xff # 0x64 # 0xaa # 0xb4 # 0x30 # 0x3d # 0x5f # 0x43 # 0xa5 # 0x9e #
      0x02 # 0x2c # 0x4b # 0x57 # 0x40 # 0x98 # 0x30 # 0x98 # 0x97 # 0xc2 # 0x3d # 0xb7 # 0x33 # 0xbe # 0x06 # 0xaa #
      0x62 # 0xa8 # 0x07 # 0x49 # 0xa4 # 0xfb # 0x30 # 0x39 # 0x0d # 0x66 # 0xc5 # 0x94 # 0xf2 # 0x93 # 0x88 # 0x8f # rest) =
   sha_blocks (Sha 0x3c42c8e0 0xff74736d 0x703a4e0e 0xd5d58371 0x1641a3a4 0xb98373b4 0x3848db28 0x592ae7aa) rest"
  by (simp only: sha_eval)

lemma vlc_s1_code_pass_5:
  "sha_blocks (Sha 0x3c42c8e0 0xff74736d 0x703a4e0e 0xd5d58371 0x1641a3a4 0xb98373b4 0x3848db28 0x592ae7aa)
     (0x21 # 0x6e # 0x96 # 0x79 # 0x3a # 0x1f # 0x64 # 0x4d # 0x5d # 0xe4 # 0x5d # 0x43 # 0x20 # 0xc9 # 0xcc # 0xae #
      0x85 # 0x8c # 0x09 # 0x4c # 0x7d # 0xa3 # 0xfa # 0x5d # 0xf2 # 0x0e # 0x53 # 0x15 # 0xb8 # 0x37 # 0x5c # 0x60 #
      0x48 # 0x51 # 0x12 # 0x9d # 0xa5 # 0x06 # 0x88 # 0x47 # 0xba # 0xeb # 0x1c # 0x82 # 0x4a # 0x99 # 0x95 # 0x08 #
      0x1b # 0x15 # 0xa9 # 0x54 # 0xc0 # 0x78 # 0xae # 0x06 # 0xbb # 0xbe # 0xa2 # 1 # 0xb7 # 0xcc # 0xb5 # 0x1f #
      0xd5 # 0xd0 # 0x66 # 0x1c # 0x59 # 0x54 # 0x5a # 0x9e # 0xdf # 0xc2 # 0xa3 # 0x47 # 0x0e # 0x6b # 0xa9 # 0xd1 #
      0x44 # 0x03 # 0x79 # 0x21 # 0xbd # 0xce # 0x36 # 0x58 # 0xc1 # 0xf4 # 0x67 # 0x15 # 0xab # 0xc2 # 0xf6 # 0xe7 #
      0x33 # 0x8e # 0x73 # 0xa5 # 0x75 # 0x74 # 0x84 # 0xbd # 0xd9 # 0xf2 # 0x2c # 0x78 # 0xa6 # 0x0a # 0x43 # 0x3d #
      0x1b # 0xd2 # 0x95 # 0x6a # 0xfb # 0x28 # 0xc6 # 0x70 # 0x06 # 0x6e # 0x39 # 0x78 # 0x55 # 0x5a # 0x9f # 0x4b # rest) =
   sha_blocks (Sha 0xfda88821 0x5980d419 0x8612ed50 0x7f29140f 0x7c67d0ed 0xea0f6178 0x759bc088 0x08e5b04b) rest"
  by (simp only: sha_eval)

lemma vlc_s1_code_pass_6:
  "sha_blocks (Sha 0xfda88821 0x5980d419 0x8612ed50 0x7f29140f 0x7c67d0ed 0xea0f6178 0x759bc088 0x08e5b04b)
     (0xb1 # 0x46 # 0xf9 # 0x32 # 0x50 # 0xe8 # 0xc8 # 0x48 # 0xcc # 0xa3 # 0xe2 # 0x67 # 0x42 # 0x2f # 0xd7 # 0xc0 #
      0xc7 # 0x76 # 0xcc # 0x37 # 0xda # 0xb5 # 0x69 # 0xa7 # 0xf3 # 0xe9 # 0xbf # 0x09 # 0xfe # 0xcb # 0x90 # 0xdd #
      0xc9 # 0xe8 # 0xbc # 0x23 # 0x84 # 0xdd # 0x6d # 0x14 # 0xd0 # 0x1e # 0x7c # 0x25 # 0x18 # 0xee # 0x2b # 0xf7 #
      0x93 # 0 # 0xe2 # 0x53 # 0xe2 # 0xf6 # 0x3f # 0x8d # 0x1f # 0xf1 # 0xbc # 0xc5 # 0x56 # 0xaf # 0x08 # 0x4f #
      0x23 # 0x76 # 0xa4 # 0x1b # 0x17 # 0x54 # 0x7c # 0x12 # 0xfe # 0xf7 # 0x2e # 0xf5 # 0xaa # 0x4e # 0x32 # 0x12 #
      0xfd # 0x7f # 0xf8 # 0x48 # 0x27 # 0x7f # 0xa5 # 0x72 # 0x71 # 0xa2 # 0x19 # 0xaa # 0x5e # 0xae # 0x55 # 0xcd #
      0x8e # 0xcc # 0xde # 0x8f # 1 # 0xdc # 0x5a # 0xf2 # 0x36 # 0xad # 0x15 # 0xc5 # 0x2b # 0x98 # 0xd3 # 0x29 #
      0x98 # 0xf2 # 0xc0 # 0x1a # 0xd7 # 0x79 # 0xbc # 0xe2 # 0xea # 0x57 # 0x6b # 0xf7 # 0xab # 0x65 # 0x9d # 0xa2 # rest) =
   sha_blocks (Sha 0xb9b20b58 0x02a657ed 0x105e0ad7 0x036e7c59 0x2dbc43aa 0xf988951a 0x555b57e3 0xf6baca96) rest"
  by (simp only: sha_eval)

lemma vlc_s1_code_pass_7:
  "sha_blocks (Sha 0xb9b20b58 0x02a657ed 0x105e0ad7 0x036e7c59 0x2dbc43aa 0xf988951a 0x555b57e3 0xf6baca96)
     (0x15 # 0x53 # 0x40 # 0x19 # 0x8e # 0xdb # 0x14 # 0x7e # 0xa0 # 0x33 # 0x1c # 0xf9 # 0xc3 # 0x24 # 0x9e # 0x6c #
      0x92 # 0xcb # 0x3a # 0xb3 # 0x67 # 0xa9 # 0xc9 # 0xb2 # 0xd8 # 0xe9 # 0xc4 # 0xff # 0xe5 # 0x8e # 0x95 # 0xc5 #
      0x4c # 0x5d # 0xdd # 0x24 # 0x85 # 0x90 # 0xcb # 0x69 # 0xc1 # 0 # 0xca # 0x9e # 0x75 # 0xb1 # 0x0a # 0x6c #
      0x96 # 0x2c # 0xc1 # 0xa8 # 0xe8 # 0x05 # 0x87 # 0xeb # 0x15 # 0xf1 # 0xd9 # 0x53 # 0xd0 # 0x35 # 0x47 # 0x81 #
      0xdd # 0xd2 # 0xec # 0 # 0x3f # 0x6a # 0xd5 # 0xc0 # 0xe6 # 0xb7 # 0xb2 # 0xb1 # 0x8d # 0xa4 # 0xf2 # 0x3d #
      0x8d # 0xd6 # 0x10 # 0x44 # 0x66 # 0xe4 # 0x19 # 0x59 # 0xaf # 0x75 # 0x15 # 0x9c # 0xb1 # 0x38 # 0x53 # 0x22 #
      0xd8 # 0xd0 # 0xc2 # 0xf5 # 0x26 # 0xda # 0x62 # 0x39 # 0x07 # 0x74 # 0x94 # 0xd3 # 0xf5 # 0xce # 0xc4 # 0x0d #
      0xde # 0x57 # 0x8f # 0x88 # 0x11 # 0x61 # 0x5b # 0xee # 0xc2 # 0x0d # 0x49 # 0x7c # 0x8c # 0xa1 # 0xcf # 0xc9 # rest) =
   sha_blocks (Sha 0x896f76dd 0xae25ac68 0x759ce093 0x95b57b71 0x2cb6a731 0xed081979 0x746c6e7d 0xced69ae7) rest"
  by (simp only: sha_eval)

lemma vlc_s1_code_pass_8:
  "sha_blocks (Sha 0x896f76dd 0xae25ac68 0x759ce093 0x95b57b71 0x2cb6a731 0xed081979 0x746c6e7d 0xced69ae7)
     (0xea # 0x7f # 0x47 # 0x1f # 0x3f # 0x7c # 0xb0 # 0x81 # 0xcf # 0x34 # 0xd5 # 0x70 # 0xdd # 0xdd # 0x0c # 0x8e #
      0x7c # 0x09 # 0xc4 # 0x21 # 0x38 # 0xd6 # 0xfe # 0x40 # 0xd1 # 0xb2 # 0x60 # 0x46 # 0x6b # 0xec # 0x4f # 0x3c #
      0xfb # 0xb4 # 0x19 # 0x45 # 0x85 # 0x4d # 0x22 # 0xb6 # 0xc5 # 0x40 # 0x88 # 0x62 # 0x04 # 0x3b # 0x69 # 0xa7 #
      0xd2 # 0x14 # 0xb1 # 0x85 # 0x0b # 0x95 # 0xe7 # 0xde # 0xf8 # 0xae # 0xcb # 0x63 # 0x58 # 0xcc # 0x49 # 0x64 #
      0x06 # 0xdc # 0x03 # 0x7f # 0xd1 # 0x87 # 0xb5 # 0x11 # 0x4e # 0x79 # 0xe8 # 0xb2 # 0xf9 # 0x48 # 0x8c # 0x41 #
      0x2b # 0x3a # 0xef # 0x03 # 0x47 # 0xb9 # 0xef # 0x9f # 0xa7 # 0x97 # 0x2d # 0x6f # 0x42 # 0xf1 # 0xd3 # 0xf9 #
      0xb1 # 0xcb # 0x7f # 0x74 # 0x7c # 0xbf # 0x40 # 0xcf # 0xe7 # 0xcd # 1 # 0xcc # 0x9b # 0x92 # 0xf5 # 0xbc #
      0xb0 # 0xf0 # 0xf4 # 0xb3 # 0x28 # 0x39 # 0xa1 # 0x56 # 0x94 # 0x08 # 0x6b # 0x3c # 0xfd # 0x40 # 0xc7 # 0xda # rest) =
   sha_blocks (Sha 0x423f2508 0xb499be7f 0x878a44f6 0x7cf86d7a 0xe416e4b0 0x3ecef63a 0x548e8c2c 0x5c0738c5) rest"
  by (simp only: sha_eval)

lemma vlc_s1_code_pass_9:
  "sha_blocks (Sha 0x423f2508 0xb499be7f 0x878a44f6 0x7cf86d7a 0xe416e4b0 0x3ecef63a 0x548e8c2c 0x5c0738c5)
     (0xb4 # 0x85 # 0xfa # 0xd1 # 1 # 0x56 # 0x3b # 0x0f # 0x44 # 0xe9 # 0x0d # 0x4e # 0x51 # 1 # 0xe5 # 0x82 #
      0x1e # 0xda # 0x02 # 0x9a # 0x89 # 0x32 # 0x21 # 0x4b # 0xe8 # 0x40 # 0xa7 # 0x6f # 0x61 # 0xaa # 0x55 # 0xd1 #
      0x1f # 0xab # 0x24 # 0xba # 0x0a # 0xe7 # 0x36 # 0xec # 0xc7 # 0xb2 # 0x16 # 0xb8 # 0x2a # 0x5d # 0x44 # 0xce #
      0x1a # 0x05 # 0xa4 # 0x7c # 0xbc # 0x9e # 0xa8 # 0xd9 # 0xbd # 0x4d # 0xa3 # 0x81 # 0x4a # 0x7d # 0x9f # 0x13 #
      0xf5 # 0xa2 # 0xb9 # 0x6a # 0x2b # 0x2c # 0xfd # 0x9c # 0xbd # 0x73 # 0xe8 # 0x95 # 0x69 # 0xba # 0x3d # 0xa3 #
      0x31 # 0x19 # 0xbd # 0x0c # 0x27 # 0xfc # 0x94 # 0x97 # 0xfb # 0x8c # 0x4c # 0xdb # 0x9a # 0x28 # 0xc6 # 0x3f #
      0x0d # 0x31 # 0x1d # 0x12 # 0xa4 # 0x90 # 0x35 # 0x75 # 0xc3 # 0x81 # 0xb8 # 0xba # 0x7a # 0xb4 # 0x1c # 0xd0 #
      0xe8 # 0x3b # 0xf1 # 0xbf # 0x89 # 0x5d # 0x9a # 0x7f # 0xc3 # 0x13 # 0x06 # 0x97 # 0x80 # 0x27 # 0x07 # 0xb3 # rest) =
   sha_blocks (Sha 0x067495b5 0x519d08f7 0x4cd18af3 0xd2042826 0x776c8c49 0xf82e7d20 0x26025ea9 0x9e75c6fd) rest"
  by (simp only: sha_eval)

lemma vlc_s1_code_pass_10:
  "sha_blocks (Sha 0x067495b5 0x519d08f7 0x4cd18af3 0xd2042826 0x776c8c49 0xf82e7d20 0x26025ea9 0x9e75c6fd)
     (0x3f # 0x0c # 0x27 # 0xc0 # 0x9f # 0xe5 # 0x6b # 0xbe # 0x95 # 0x3c # 0x6b # 0xe6 # 0xa3 # 0x36 # 0xf4 # 0xbd #
      0xff # 0xf9 # 0x5b # 0x87 # 0x2a # 0x57 # 0x1a # 0x16 # 0x48 # 0xed # 0xd9 # 0xc3 # 0x0f # 0xbd # 0xf6 # 0x1c #
      0xed # 0x2a # 0xa4 # 0x9a # 0x69 # 0x8a # 0x6f # 0xf9 # 0x18 # 0x3f # 0xd6 # 0x61 # 0x3b # 0x48 # 0xae # 0x0e #
      0x09 # 0xaf # 0x18 # 0x82 # 0x06 # 0xbc # 0x51 # 0xf1 # 0x44 # 0x81 # 0x12 # 0x3b # 0xe3 # 0xf2 # 0x79 # 0xee #
      0xdd # 0xa2 # 0x5a # 0xaa # 0xf5 # 0x70 # 0x73 # 0x49 # 0x0d # 0xf5 # 0xfc # 0x18 # 0xca # 0xf8 # 0x76 # 0xdd #
      0xd8 # 0x56 # 0x89 # 0xc8 # 0xe9 # 0xc1 # 0xf3 # 0x11 # 0xf9 # 0xea # 0xb8 # 0x7f # 0x52 # 0x5f # 0x94 # 0xc0 #
      0x9d # 0xa6 # 0xa9 # 0xfe # 0xe0 # 0xd3 # 0x45 # 0xe7 # 0x46 # 0xe3 # 0x0f # 0xcd # 0x6d # 0xed # 0x12 # 0x46 #
      0xcd # 0x43 # 0x40 # 0x53 # 0x67 # 0x55 # 0x60 # 0x26 # 0x44 # 0x52 # 0xc0 # 0x78 # 0xa2 # 0x47 # 0x6e # 0xd3 # rest) =
   sha_blocks (Sha 0x7e643460 0x2446f06c 0x948191c5 0xa67b0c4b 0x3f13ff37 0xb5029ca7 0x714c7522 0xd963e256) rest"
  by (simp only: sha_eval)

lemma vlc_s1_code_pass_11:
  "sha_blocks (Sha 0x7e643460 0x2446f06c 0x948191c5 0xa67b0c4b 0x3f13ff37 0xb5029ca7 0x714c7522 0xd963e256)
     (0xe0 # 0x34 # 0x7e # 0x3b # 0xd3 # 0x2b # 0x68 # 0xeb # 0xae # 0x9a # 0x9c # 0x50 # 0xe7 # 0xf7 # 0x27 # 0xb8 #
      0x69 # 0xa6 # 0x69 # 1 # 0x8b # 0x82 # 0x33 # 0xe2 # 0x0a # 0x82 # 0xdf # 0xe8 # 0x5c # 0x0d # 0xda # 0x39 #
      0xa8 # 0x33 # 0x19 # 0x4f # 0xd7 # 0x1a # 0xf6 # 0x35 # 0xde # 0x8c # 0x73 # 0x54 # 0x5b # 0xc5 # 0x60 # 0xd0 #
      0x94 # 0xde # 0x1e # 0xa0 # 0x14 # 0x39 # 0xa6 # 0x44 # 0x62 # 0xbf # 0x0a # 0x48 # 0x33 # 0x8f # 0xc5 # 0xcb #
      0x19 # 0 # 0x5e # 0x32 # 0x88 # 1 # 0x69 # 0xa5 # 0x0d # 0x03 # 0x7f # 0xf7 # 0xcb # 0xb4 # 0x03 # 0x99 #
      0x27 # 0x4b # 0x22 # 0xfd # 0x4f # 1 # 0x13 # 0xa4 # 0x35 # 0x6d # 0x95 # 0xb6 # 0x28 # 0xb9 # 0xdb # 0x69 #
      0x80 # 0 # 0 # 0 # 0 # 0 # 0 # 0 # 0 # 0 # 0 # 0 # 0 # 0 # 0 # 0 #
      0 # 0 # 0 # 0 # 0 # 0 # 0 # 0 # 0 # 0 # 0 # 0 # 0 # 0 # 0x31 # 0 # rest) =
   sha_blocks (Sha 0x9b778592 0xb9bab26d 0xaa05d452 0x537804bb 0x2debdb3b 0xb2b45826 0xf6ce9b0c 0x0dabbc82) rest"
  by (simp only: sha_eval)

lemma vlc_s1_code_end:
  "sha_blocks (Sha 0x5e768abc 0xa52128de 0xf535f675 0x8694d69c 0x9d55fb0f 0x3309589a 0xb5b12beb 0x87110ee9)
     (0x9b # 0x77 # 0x85 # 0x92 # 0xb9 # 0xba # 0xb2 # 0x6d # 0xaa # 0x05 # 0xd4 # 0x52 # 0x53 # 0x78 # 0x04 # 0xbb #
      0x2d # 0xeb # 0xdb # 0x3b # 0xb2 # 0xb4 # 0x58 # 0x26 # 0xf6 # 0xce # 0x9b # 0x0c # 0x0d # 0xab # 0xbc # 0x82 #
      0x80 # 0 # 0 # 0 # 0 # 0 # 0 # 0 # 0 # 0 # 0 # 0 # 0 # 0 # 0 # 0 #
      0 # 0 # 0 # 0 # 0 # 0 # 0 # 0 # 0 # 0 # 0 # 0 # 0 # 0 # 0x03 # 0 # rest) =
   sha_blocks (Sha 0x2c3ae1e7 0x1797e780 0xab0d7b5c 0xde520562 0xf2daf7d9 0xf5e51631 0x179d0d06 0xfba13173) rest"
  by (simp only: sha_eval)

lemma vlc_s1_code_digest:
  "sha_blocks (Sha 0xfbf1a037 0x2e9a60b2 0xa08c9325 0xa4fd756d 0x55368456 0xbe012b6d 0x476abc98 0xc2e1cb14) (strip 483 vlc_s1 @ sha_tail 1568) =
     Sha 0x9b778592 0xb9bab26d 0xaa05d452 0x537804bb 0x2debdb3b 0xb2b45826 0xf6ce9b0c 0x0dabbc82"
  by (simp add: strip_def vlc_s1_def sha_tail_1568 vlc_s1_code_pass_0 vlc_s1_code_pass_1 vlc_s1_code_pass_2 vlc_s1_code_pass_3 vlc_s1_code_pass_4 vlc_s1_code_pass_5 vlc_s1_code_pass_6 vlc_s1_code_pass_7 vlc_s1_code_pass_8 vlc_s1_code_pass_9 vlc_s1_code_pass_10 vlc_s1_code_pass_11 sha_blocks_Nil)

lemma vlc_s1_code:
  "calculateHMACsha256 (strip 483 vlc_s1) (take 36 GENUINE_FMS_KEY) =
     [0x2c, 0x3a, 0xe1, 0xe7, 0x17, 0x97, 0xe7, 0x80, 0xab, 0x0d, 0x7b, 0x5c, 0xde, 0x52, 0x05,
      0x62, 0xf2, 0xda, 0xf7, 0xd9, 0xf5, 0xe5, 0x16, 0x31, 0x17, 0x9d, 0x0d, 0x06, 0xfb, 0xa1,
      0x31, 0x73]"
proof -
  have bytes: "sha_bytes (Sha 0x9b778592 0xb9bab26d 0xaa05d452 0x537804bb 0x2debdb3b 0xb2b45826 0xf6ce9b0c 0x0dabbc82) =
      [0x9b, 0x77, 0x85, 0x92, 0xb9, 0xba, 0xb2, 0x6d, 0xaa, 0x05, 0xd4, 0x52, 0x53, 0x78, 0x04,
       0xbb, 0x2d, 0xeb, 0xdb, 0x3b, 0xb2, 0xb4, 0x58, 0x26, 0xf6, 0xce, 0x9b, 0x0c, 0x0d, 0xab,
       0xbc, 0x82]"
    by (simp add: be32_put_def)
  have len: "64 + length (strip 483 vlc_s1) = 1568" by (simp add: strip_def vlc_s1_def)
  have "calculateHMACsha256 (strip 483 vlc_s1) (take 36 GENUINE_FMS_KEY) = sha_bytes (Sha 0x2c3ae1e7 0x1797e780 0xab0d7b5c 0xde520562 0xf2daf7d9 0xf5e51631 0x179d0d06 0xfba13173)"
    unfolding server_mac len vlc_s1_code_digest bytes
    by (simp only: sha_tail_96 append_Cons append_Nil vlc_s1_code_end sha_blocks_Nil)
  then show ?thesis by (simp add: be32_put_def)
qed

lemma vlc_s1_code_signed: "signed 0 (take 36 GENUINE_FMS_KEY) vlc_s1"
proof -
  have "digest_at 483 vlc_s1 =
     [0x2c, 0x3a, 0xe1, 0xe7, 0x17, 0x97, 0xe7, 0x80, 0xab, 0x0d, 0x7b, 0x5c, 0xde, 0x52, 0x05,
      0x62, 0xf2, 0xda, 0xf7, 0xd9, 0xf5, 0xe5, 0x16, 0x31, 0x17, 0x9d, 0x0d, 0x06, 0xfb, 0xa1,
      0x31, 0x73]"
    by (simp add: digest_at_def vlc_s1_def)
  then show ?thesis unfolding signed_def vlc_s1_offset0 vlc_s1_code by simp
qed

text \<open>The acknowledgement of the client: its last 32 bytes are the code of the others under a key derived
  from the digest of the server.\<close>

lemma vlc_ack_key_pass:
  "sha_blocks (Sha 0xf50c211e 0xb4912e4e 0xa654c4f4 0xeaa22a44 0x31f45f66 0x22754a77 0x9b30b532 0xb18de0ad)
     (0x2c # 0x3a # 0xe1 # 0xe7 # 0x17 # 0x97 # 0xe7 # 0x80 # 0xab # 0x0d # 0x7b # 0x5c # 0xde # 0x52 # 0x05 # 0x62 #
      0xf2 # 0xda # 0xf7 # 0xd9 # 0xf5 # 0xe5 # 0x16 # 0x31 # 0x17 # 0x9d # 0x0d # 0x06 # 0xfb # 0xa1 # 0x31 # 0x73 #
      0x80 # 0 # 0 # 0 # 0 # 0 # 0 # 0 # 0 # 0 # 0 # 0 # 0 # 0 # 0 # 0 #
      0 # 0 # 0 # 0 # 0 # 0 # 0 # 0 # 0 # 0 # 0 # 0 # 0 # 0 # 0x03 # 0 # rest) =
   sha_blocks (Sha 0x03ceb233 0xa0326f3e 0xe4f1380e 0xeaf2799b 0x840b4ee9 0xedbcfe19 0xce677d20 0xd1dc33a2) rest"
  by (simp only: sha_eval)

lemma vlc_ack_key_end:
  "sha_blocks (Sha 0x2f089c78 0x00cdebc1 0xfd6934e4 0x55f3acc6 0xe5e8c528 0x4dc7d7c3 0xb6caf065 0x34f8d755)
     (0x03 # 0xce # 0xb2 # 0x33 # 0xa0 # 0x32 # 0x6f # 0x3e # 0xe4 # 0xf1 # 0x38 # 0x0e # 0xea # 0xf2 # 0x79 # 0x9b #
      0x84 # 0x0b # 0x4e # 0xe9 # 0xed # 0xbc # 0xfe # 0x19 # 0xce # 0x67 # 0x7d # 0x20 # 0xd1 # 0xdc # 0x33 # 0xa2 #
      0x80 # 0 # 0 # 0 # 0 # 0 # 0 # 0 # 0 # 0 # 0 # 0 # 0 # 0 # 0 # 0 #
      0 # 0 # 0 # 0 # 0 # 0 # 0 # 0 # 0 # 0 # 0 # 0 # 0 # 0 # 0x03 # 0 # rest) =
   sha_blocks (Sha 0x419ba587 0x65946831 0x6565ff30 0xa9305f86 0xdba2646f 0xb739a297 0x1a5a96b3 0x7e87196f) rest"
  by (simp only: sha_eval)

lemma vlc_ack_key_digest:
  "sha_blocks (Sha 0xf50c211e 0xb4912e4e 0xa654c4f4 0xeaa22a44 0x31f45f66 0x22754a77 0x9b30b532 0xb18de0ad) (digest_at 483 vlc_s1 @ sha_tail 96) =
     Sha 0x03ceb233 0xa0326f3e 0xe4f1380e 0xeaf2799b 0x840b4ee9 0xedbcfe19 0xce677d20 0xd1dc33a2"
  by (simp add: digest_at_def vlc_s1_def sha_tail_96 vlc_ack_key_pass sha_blocks_Nil)

lemma vlc_ack_key:
  "calculateHMACsha256 (digest_at 483 vlc_s1) GENUINE_FP_KEY =
     [0x41, 0x9b, 0xa5, 0x87, 0x65, 0x94, 0x68, 0x31, 0x65, 0x65, 0xff, 0x30, 0xa9, 0x30, 0x5f,
      0x86, 0xdb, 0xa2, 0x64, 0x6f, 0xb7, 0x39, 0xa2, 0x97, 0x1a, 0x5a, 0x96, 0xb3, 0x7e, 0x87,
      0x19, 0x6f]"
proof -
  have bytes: "sha_bytes (Sha 0x03ceb233 0xa0326f3e 0xe4f1380e 0xeaf2799b 0x840b4ee9 0xedbcfe19 0xce677d20 0xd1dc33a2) =
      [0x03, 0xce, 0xb2, 0x33, 0xa0, 0x32, 0x6f, 0x3e, 0xe4, 0xf1, 0x38, 0x0e, 0xea, 0xf2, 0x79,
       0x9b, 0x84, 0x0b, 0x4e, 0xe9, 0xed, 0xbc, 0xfe, 0x19, 0xce, 0x67, 0x7d, 0x20, 0xd1, 0xdc,
       0x33, 0xa2]"
    by (simp add: be32_put_def)
  have len: "64 + length (digest_at 483 vlc_s1) = 96" by (simp add: digest_at_def vlc_s1_def)
  have "calculateHMACsha256 (digest_at 483 vlc_s1) GENUINE_FP_KEY = sha_bytes (Sha 0x419ba587 0x65946831 0x6565ff30 0xa9305f86 0xdba2646f 0xb739a297 0x1a5a96b3 0x7e87196f)"
    unfolding player_full_mac len vlc_ack_key_digest bytes
    by (simp only: sha_tail_96 append_Cons append_Nil vlc_ack_key_end sha_blocks_Nil)
  then show ?thesis by (simp add: be32_put_def)
qed

lemma vlc_ack_inner:
  "sha_blocks (Sha 0x6a09e667 0xbb67ae85 0x3c6ef372 0xa54ff53a 0x510e527f 0x9b05688c 0x1f83d9ab 0x5be0cd19)
     (0x77 # 0xad # 0x93 # 0xb1 # 0x53 # 0xa2 # 0x5e # 0x07 # 0x53 # 0x53 # 0xc9 # 0x06 # 0x9f # 0x06 # 0x69 # 0xb0 #
      0xed # 0x94 # 0x52 # 0x59 # 0x81 # 0x0f # 0x94 # 0xa1 # 0x2c # 0x6c # 0xa0 # 0x85 # 0x48 # 0xb1 # 0x2f # 0x59 #
      0x36 # 0x36 # 0x36 # 0x36 # 0x36 # 0x36 # 0x36 # 0x36 # 0x36 # 0x36 # 0x36 # 0x36 # 0x36 # 0x36 # 0x36 # 0x36 #
      0x36 # 0x36 # 0x36 # 0x36 # 0x36 # 0x36 # 0x36 # 0x36 # 0x36 # 0x36 # 0x36 # 0x36 # 0x36 # 0x36 # 0x36 # 0x36 # rest) =
   sha_blocks (Sha 0x97883495 0xbd5e334e 0x7cc37042 0x33767f0f 0xe2e614c8 0xa9452915 0xbd36e1f6 0x7c0d10eb) rest"
  by (simp only: sha_eval)

lemma vlc_ack_outer:
  "sha_blocks (Sha 0x6a09e667 0xbb67ae85 0x3c6ef372 0xa54ff53a 0x510e527f 0x9b05688c 0x1f83d9ab 0x5be0cd19)
     (0x1d # 0xc7 # 0xf9 # 0xdb # 0x39 # 0xc8 # 0x34 # 0x6d # 0x39 # 0x39 # 0xa3 # 0x6c # 0xf5 # 0x6c # 0x03 # 0xda #
      0x87 # 0xfe # 0x38 # 0x33 # 0xeb # 0x65 # 0xfe # 0xcb # 0x46 # 0x06 # 0xca # 0xef # 0x22 # 0xdb # 0x45 # 0x33 #
      0x5c # 0x5c # 0x5c # 0x5c # 0x5c # 0x5c # 0x5c # 0x5c # 0x5c # 0x5c # 0x5c # 0x5c # 0x5c # 0x5c # 0x5c # 0x5c #
      0x5c # 0x5c # 0x5c # 0x5c # 0x5c # 0x5c # 0x5c # 0x5c # 0x5c # 0x5c # 0x5c # 0x5c # 0x5c # 0x5c # 0x5c # 0x5c # rest) =
   sha_blocks (Sha 0x7b2f1941 0x3d615dfe 0xfbee28f0 0x251bcdd8 0x3b3e09ec 0xd0cfac72 0x1891d85a 0x0aab219c) rest"
  by (simp only: sha_eval)

lemma vlc_ack_block:
  "hmac_key [0x41, 0x9b, 0xa5, 0x87, 0x65, 0x94, 0x68, 0x31, 0x65, 0x65, 0xff, 0x30, 0xa9, 0x30, 0x5f,
      0x86, 0xdb, 0xa2, 0x64, 0x6f, 0xb7, 0x39, 0xa2, 0x97, 0x1a, 0x5a, 0x96, 0xb3, 0x7e, 0x87,
      0x19, 0x6f] =
     [0x41, 0x9b, 0xa5, 0x87, 0x65, 0x94, 0x68, 0x31, 0x65, 0x65, 0xff, 0x30, 0xa9, 0x30, 0x5f,
      0x86, 0xdb, 0xa2, 0x64, 0x6f, 0xb7, 0x39, 0xa2, 0x97, 0x1a, 0x5a, 0x96, 0xb3, 0x7e, 0x87,
      0x19, 0x6f, 0, 0, 0, 0, 0, 0, 0, 0, 0, 0, 0, 0, 0, 0, 0, 0, 0, 0, 0, 0, 0, 0, 0, 0, 0, 0, 0,
      0, 0, 0, 0, 0]"
  by (simp add: hmac_key_def) (simp add: numeral_eq_Suc)

lemma vlc_ack_mac:
  "calculateHMACsha256 msg [0x41, 0x9b, 0xa5, 0x87, 0x65, 0x94, 0x68, 0x31, 0x65, 0x65, 0xff, 0x30, 0xa9, 0x30, 0x5f,
      0x86, 0xdb, 0xa2, 0x64, 0x6f, 0xb7, 0x39, 0xa2, 0x97, 0x1a, 0x5a, 0x96, 0xb3, 0x7e, 0x87,
      0x19, 0x6f] = sha_bytes (sha_blocks (Sha 0x7b2f1941 0x3d615dfe 0xfbee28f0 0x251bcdd8 0x3b3e09ec 0xd0cfac72 0x1891d85a 0x0aab219c) (sha_bytes
     (sha_blocks (Sha 0x97883495 0xbd5e334e 0x7cc37042 0x33767f0f 0xe2e614c8 0xa9452915 0xbd36e1f6 0x7c0d10eb) (msg @ sha_tail (64 + length msg))) @ sha_tail 96))"
  unfolding calculateHMACsha256_def
  by (rule hmac_eval [OF vlc_ack_block]) (simp_all add: vlc_ack_inner vlc_ack_outer sha_blocks_Nil)

lemma vlc_ack_code_pass_0:
  "sha_blocks (Sha 0x97883495 0xbd5e334e 0x7cc37042 0x33767f0f 0xe2e614c8 0xa9452915 0xbd36e1f6 0x7c0d10eb)
     (0xe2 # 0x5c # 0x15 # 0xc2 # 0x2c # 0xaf # 0x72 # 0xd0 # 0x98 # 0x6f # 0xbd # 0x3e # 0xda # 0x0d # 0x71 # 0x51 #
      0x97 # 0x3e # 0x19 # 0x08 # 0x3e # 0x0a # 0xbb # 0xef # 0xa7 # 0x6e # 0x17 # 0xd8 # 0xa5 # 0xfa # 0x95 # 0x70 #
      0xed # 0x54 # 0x7a # 0x97 # 0x86 # 0xe5 # 0x35 # 0x61 # 0x2d # 0x45 # 0x22 # 0x8c # 0x77 # 0x3e # 0x0e # 0xbe #
      0xf8 # 0x05 # 0xac # 0x87 # 0x64 # 0xa6 # 0x75 # 0x52 # 0x49 # 0x6a # 0x3c # 0xc3 # 0x35 # 0x58 # 0x05 # 0xf9 #
      0x9d # 0x03 # 0x60 # 0x67 # 0x84 # 0xb0 # 0x5f # 0x55 # 0x36 # 0x1f # 0xb4 # 0xc6 # 0x6e # 0x61 # 0x64 # 0xf9 #
      0xb8 # 0x82 # 0x15 # 0x69 # 0x30 # 0xed # 0x76 # 0xe7 # 0xf2 # 0x7d # 0xf8 # 0xed # 0x6a # 0xe6 # 0xc0 # 0x83 #
      0x7b # 0x41 # 0x41 # 0x3e # 0xad # 0x70 # 0x23 # 0xf2 # 0xbd # 0x2e # 0x9d # 0xce # 0xd6 # 0x63 # 0xc8 # 0x30 #
      0x5c # 0xba # 0xbc # 0x22 # 0xc3 # 0xeb # 0xba # 0x20 # 0x7e # 0xa2 # 0xa8 # 0xc3 # 0x5e # 0xcf # 0x78 # 0x28 # rest) =
   sha_blocks (Sha 0xd9e31dc4 0x2b405c08 0xfa52d722 0x4c77a0be 0xb746242f 0xdc51b50f 0x8a0feae1 0x4c10c3f0) rest"
  by (simp only: sha_eval)

lemma vlc_ack_code_pass_1:
  "sha_blocks (Sha 0xd9e31dc4 0x2b405c08 0xfa52d722 0x4c77a0be 0xb746242f 0xdc51b50f 0x8a0feae1 0x4c10c3f0)
     (0xdc # 0xe2 # 0x63 # 0x3d # 0x38 # 0xc8 # 0xc2 # 0xe9 # 0xde # 0xcf # 0x25 # 0x53 # 0xb1 # 0x61 # 0xa2 # 0x12 #
      0xfc # 0x9a # 0x96 # 0x2e # 0x44 # 0x90 # 0xfb # 0xa3 # 0x1d # 0x24 # 0xa2 # 0xeb # 0xa8 # 0xeb # 0xb4 # 0xa6 #
      0x0d # 0x6c # 0xf4 # 0x29 # 0x14 # 0x2a # 0xd2 # 0x6f # 0xb6 # 0x56 # 0xb9 # 0xf1 # 0x2f # 0x4b # 0x1c # 0x22 #
      0xc0 # 0xcd # 0x65 # 0x49 # 0x78 # 0x64 # 0xdd # 0x83 # 0xf0 # 0xd0 # 0x31 # 0x62 # 0xdd # 0xed # 0xbc # 0x4e #
      0x85 # 0x7c # 0x0c # 0xa3 # 0x91 # 0xed # 0x2f # 0x1e # 0x5a # 0x64 # 0x94 # 0x8d # 0x09 # 0x60 # 0x81 # 0xa1 #
      0x14 # 0x72 # 0x1c # 0x0b # 0xc8 # 0xa1 # 0x63 # 0x5b # 0xf2 # 0x70 # 0x36 # 0xb8 # 0xbc # 0xc0 # 0x9e # 0xd5 #
      0xb1 # 0x1d # 0x85 # 0xbd # 0x54 # 0x7c # 0xa3 # 0x61 # 0xe2 # 0xd8 # 0x65 # 0x84 # 0x2d # 0x7f # 0xe6 # 0x4b #
      0xc3 # 0xa2 # 0x98 # 0x95 # 0xa9 # 0x7c # 0xec # 0x5b # 0x2d # 0x29 # 0x29 # 0x4f # 0x41 # 0xab # 0xc2 # 0xbc # rest) =
   sha_blocks (Sha 0xdb71ae6d 0xedf4576d 0xc8cb0ace 0xcdcaf7f1 0xc791222a 0x66ff27ee 0x17ed49a0 0x4e49df9e) rest"
  by (simp only: sha_eval)

lemma vlc_ack_code_pass_2:
  "sha_blocks (Sha 0xdb71ae6d 0xedf4576d 0xc8cb0ace 0xcdcaf7f1 0xc791222a 0x66ff27ee 0x17ed49a0 0x4e49df9e)
     (0x46 # 0x6c # 0xf3 # 0x8d # 0x8d # 0 # 0x88 # 0x60 # 0x36 # 0xbf # 0xa4 # 0x5e # 0x4b # 0xdf # 0x48 # 0x4e #
      0x9e # 0x5f # 0xe1 # 0x0b # 0x02 # 0x4a # 0x98 # 0x6e # 0x63 # 0xf2 # 0xb0 # 0xe1 # 0x09 # 0xa3 # 0xea # 0x42 #
      0x0e # 0x25 # 0x28 # 0x8b # 0xca # 0xc6 # 0x93 # 0x11 # 0x41 # 0xf8 # 0x76 # 0xb5 # 0x7e # 0x37 # 0xf3 # 0x9c #
      0x8c # 0x1b # 0xff # 0x23 # 0xb5 # 0x66 # 0xa7 # 0x88 # 0x7b # 0x18 # 0xb6 # 0x18 # 0xca # 0x4e # 0xf3 # 0x47 #
      0 # 0x9d # 0xd5 # 0 # 0x5e # 0x7f # 0x41 # 0x3b # 0xec # 0xfd # 0x0b # 0x26 # 0xff # 0xfe # 0x15 # 0xec #
      0x6e # 0xc9 # 0x98 # 0x22 # 0x6e # 0x39 # 0x36 # 0x56 # 0x26 # 0xc5 # 0x60 # 0xcb # 0x24 # 0x13 # 0x52 # 0x7c #
      0xe5 # 0x74 # 0xc0 # 0xa4 # 0x36 # 0xf1 # 0xb1 # 0x78 # 0x8a # 0xc8 # 0xbc # 0xd8 # 0xd4 # 0xe0 # 0xbe # 0xd1 #
      0x3e # 0x7c # 0x79 # 0x96 # 0x73 # 0x06 # 0x9a # 0x7d # 0x82 # 0x49 # 0xc0 # 0x03 # 0xb6 # 0x33 # 0xec # 0x65 # rest) =
   sha_blocks (Sha 0xb84cf11d 0xc7ab570c 0x70cd7d02 0xae7491d1 0x0fd08b57 0xa1d1f76e 0x8b4accff 0x15c9c8de) rest"
  by (simp only: sha_eval)

lemma vlc_ack_code_pass_3:
  "sha_blocks (Sha 0xb84cf11d 0xc7ab570c 0x70cd7d02 0xae7491d1 0x0fd08b57 0xa1d1f76e 0x8b4accff 0x15c9c8de)
     (0x87 # 0xd3 # 0xe2 # 0xd7 # 0xd3 # 0xf5 # 0xaa # 0x40 # 0x07 # 0x14 # 0x9c # 0x04 # 0xac # 0x3d # 0xf0 # 0xa3 #
      0x48 # 0xaa # 0x8b # 0x27 # 0xc9 # 0x86 # 0x68 # 0x4a # 0xfb # 0x93 # 0x87 # 0x0e # 0xc5 # 0xa6 # 0x23 # 0xca #
      0xd0 # 0xd0 # 0x74 # 0xd9 # 0x8c # 0xfb # 0xc2 # 0xe1 # 0xc4 # 0x24 # 0x22 # 0x9b # 0xd0 # 0x20 # 0xe5 # 0xcc #
      0x45 # 0x54 # 0x8a # 0xc4 # 0xf8 # 0x93 # 0x89 # 0x52 # 0xa4 # 0xb2 # 0x4c # 0xac # 0x82 # 0xa6 # 0x02 # 0xe9 #
      0xd8 # 0xc0 # 0x26 # 0x48 # 0x0d # 0x10 # 0x89 # 0x15 # 0xef # 0xe0 # 0xb2 # 0x8d # 0x7e # 0xfc # 0xd3 # 0x4e #
      0x38 # 0x39 # 0x5b # 0x71 # 0x28 # 0xca # 0xcd # 0xba # 0xa8 # 0x35 # 0 # 0xd4 # 0x08 # 0xd2 # 0x6a # 0xd9 #
      0x13 # 0x02 # 0x4d # 0x5d # 0x9e # 0xe2 # 0xa0 # 0x93 # 0x8d # 0xc3 # 0x1f # 0x6a # 0xbc # 0x53 # 0x1f # 0x5f #
      0x5b # 0x82 # 0xac # 0x56 # 0xaf # 0xd4 # 0x54 # 0xb1 # 0xd4 # 0x29 # 0x95 # 0x6a # 0xae # 0x6b # 0xb5 # 0x83 # rest) =
   sha_blocks (Sha 0x8ff41f7d 0x9022f715 0xe7229e01 0x039ea5bc 0xfb7585d5 0xe7be307c 0x2ec1ef27 0x08be1a95) rest"
  by (simp only: sha_eval)

lemma vlc_ack_code_pass_4:
  "sha_blocks (Sha 0x8ff41f7d 0x9022f715 0xe7229e01 0x039ea5bc 0xfb7585d5 0xe7be307c 0x2ec1ef27 0x08be1a95)
     (0x6d # 0x76 # 0xad # 0xe8 # 0xb8 # 0x27 # 0x6e # 0x97 # 0x95 # 0xdd # 0x1e # 0x7f # 0x79 # 0xa2 # 0x0f # 0x5a #
      0x09 # 0x29 # 0x6a # 0x73 # 0x81 # 0xd5 # 0x8f # 0x96 # 0x70 # 0xc3 # 0x0b # 0x86 # 0x9a # 0xc8 # 0x02 # 0x24 #
      0x59 # 0xfc # 0x88 # 0x3c # 0xcd # 0xc1 # 0x6e # 0xb6 # 0x8c # 0xd6 # 0xc1 # 0x23 # 0x56 # 0x2a # 0x41 # 0x6b #
      0x99 # 0x59 # 0x76 # 0x35 # 0x05 # 0x7d # 0x85 # 0x92 # 0xcf # 0xaa # 0x71 # 0xf4 # 0xf4 # 0x30 # 0x05 # 0x4b #
      0x69 # 0xf5 # 0x41 # 0x9c # 0xf8 # 0x39 # 0x9c # 0x75 # 0xc3 # 0xc3 # 0xe9 # 0xb6 # 0xdb # 0x0d # 0x1c # 0x02 #
      0x92 # 0xb5 # 0xf8 # 0x8e # 0xbd # 0x32 # 0x2a # 0xa4 # 0x66 # 0x7e # 0x7d # 0x6a # 0xba # 0xa7 # 0x52 # 1 #
      0x9a # 0x85 # 0x0c # 0x0d # 0x05 # 0x4e # 0x87 # 0x9c # 0xec # 0x2b # 0x2d # 0x94 # 0x3a # 0xb7 # 0xbc # 0x74 #
      0x10 # 0xef # 0x71 # 0x5f # 0xea # 0xad # 0x9e # 0x6a # 0x8f # 0xc6 # 0xa9 # 0x05 # 0x3f # 0xea # 0xfc # 0x60 # rest) =
   sha_blocks (Sha 0x67043b35 0x0db9dc27 0xbccaba21 0x9a7ca660 0xfb70e60a 0x6a64590c 0xbc5279bc 0xcc451682) rest"
  by (simp only: sha_eval)

lemma vlc_ack_code_pass_5:
  "sha_blocks (Sha 0x67043b35 0x0db9dc27 0xbccaba21 0x9a7ca660 0xfb70e60a 0x6a64590c 0xbc5279bc 0xcc451682)
     (0xaf # 0x15 # 0xe4 # 0x6f # 0x47 # 0xd3 # 0xbf # 0x06 # 0xc6 # 0xe7 # 0 # 0x1c # 0x1c # 0xd7 # 0x43 # 0xd0 #
      0x0d # 0x43 # 0x13 # 0xbf # 0xe7 # 0x3c # 0xfd # 0xfa # 0x34 # 0x22 # 0xf1 # 0x75 # 0x96 # 0x5a # 0x5c # 0xf2 #
      0xf2 # 0x15 # 0x94 # 0x57 # 0xd3 # 0x94 # 0xb7 # 0xe1 # 0xfc # 0xb5 # 0x73 # 0xa9 # 0x94 # 0xdb # 0x67 # 0x89 #
      0xfb # 0xcc # 0xf7 # 0xb4 # 0x80 # 0x56 # 0xbc # 0xa2 # 0x07 # 0xf9 # 0x03 # 0x9f # 0xa7 # 0x53 # 0xbe # 0xa7 #
      0xe4 # 0xb5 # 0x8f # 0xc6 # 0x6b # 0x1e # 0x38 # 0x96 # 0x3f # 0xe0 # 0xb6 # 0x9c # 0xbd # 0x54 # 0xb6 # 0xd7 #
      0x2a # 0xeb # 0x79 # 0x35 # 0x02 # 0xaf # 0xb1 # 0x9a # 0xf9 # 0x49 # 0xe6 # 0x9a # 0 # 0xd6 # 0x1a # 0x93 #
      0xf4 # 0x53 # 0x60 # 0x30 # 0x98 # 0xbc # 0x40 # 0xd3 # 0xf6 # 0xe2 # 0x2d # 0xb5 # 0x58 # 0x6c # 0x54 # 0xa2 #
      0xf3 # 0x4d # 0x85 # 0x41 # 0x53 # 0x94 # 0xc2 # 0x77 # 0xaa # 0xe2 # 0x26 # 0x9c # 0xb7 # 0xf4 # 0xd6 # 0x12 # rest) =
   sha_blocks (Sha 0xc0d28c0e 0x82e31421 0xadd6855f 0x99155e5f 0x840b1524 0xa72a83ba 0xf4d8a982 0x319c33d4) rest"
  by (simp only: sha_eval)

lemma vlc_ack_code_pass_6:
  "sha_blocks (Sha 0xc0d28c0e 0x82e31421 0xadd6855f 0x99155e5f 0x840b1524 0xa72a83ba 0xf4d8a982 0x319c33d4)
     (0xd6 # 0x99 # 0xca # 0x72 # 0xad # 0x22 # 0x2b # 0xcc # 0xde # 0xc6 # 0xba # 0x43 # 0x03 # 0x45 # 0x5c # 0x70 #
      0xf4 # 0xc9 # 0xc1 # 0x9c # 0x8d # 0x0e # 0x6a # 0x07 # 0x29 # 0xfa # 0xfa # 0x0b # 0x69 # 0x62 # 0xfe # 0xc2 #
      0xc1 # 0xf4 # 0x70 # 0x9c # 0x70 # 0x99 # 0xfe # 0x64 # 0x42 # 0x4e # 0x03 # 0xf0 # 0x21 # 0xd0 # 0xe2 # 0xb2 #
      0x0c # 0x21 # 0x96 # 0xc2 # 0x5d # 0x39 # 0x11 # 0x99 # 0x5b # 0xbe # 0xe3 # 0x49 # 0x93 # 0xc5 # 0xcb # 0x42 #
      0x09 # 0x09 # 0x46 # 0xf4 # 0x67 # 0x2d # 0x53 # 0xa6 # 0xd5 # 0xe2 # 0x33 # 0x4f # 0x6c # 0xa4 # 0x19 # 0xc2 #
      0x55 # 0xb9 # 0xee # 0xb3 # 0xf5 # 0xc4 # 0x8d # 0x04 # 0xfd # 0x79 # 0xe3 # 0x64 # 0 # 0x2b # 0xb7 # 0xe9 #
      0x23 # 0xe5 # 0x23 # 0x71 # 0x3d # 0x86 # 0xcb # 0xce # 0x77 # 0x50 # 0xb1 # 0x11 # 0x2f # 0xd5 # 0x26 # 0x60 #
      0xbc # 0x5d # 0x2d # 0xf7 # 0xc6 # 0xf6 # 0xfa # 0xf2 # 0x2d # 0x2c # 0x17 # 0xd8 # 0x6b # 0xda # 0x72 # 0xa4 # rest) =
   sha_blocks (Sha 0xa35cbc85 0x378af65f 0xde959940 0x37098e22 0x78815524 0x4a2ee3de 0xadfd42d3 0xebabb80f) rest"
  by (simp only: sha_eval)

lemma vlc_ack_code_pass_7:
  "sha_blocks (Sha 0xa35cbc85 0x378af65f 0xde959940 0x37098e22 0x78815524 0x4a2ee3de 0xadfd42d3 0xebabb80f)
     (0x5a # 0x83 # 1 # 0x7d # 0xd4 # 0xee # 0xe9 # 0xb6 # 0x75 # 0x4c # 0xe0 # 0xed # 0x8a # 0x84 # 0xfe # 0xef #
      0xa7 # 0x10 # 0x7c # 0xd9 # 0x96 # 0x91 # 0x5b # 0xc7 # 0x3f # 0xa7 # 0x72 # 0xbb # 0x5b # 0xba # 0xb8 # 0x2d #
      0xc6 # 0xfd # 0xf1 # 0x1d # 0x60 # 0xab # 0x5f # 0xac # 0x04 # 0x3d # 0x73 # 0x9f # 0x8d # 0x8b # 0x4d # 0xf5 #
      0x6c # 0xbf # 0x4a # 0x26 # 0x35 # 0x2c # 0x5c # 0x87 # 0x4a # 0xff # 0x6f # 0xf1 # 0x4f # 0x95 # 0x15 # 0x22 #
      0x50 # 0x1d # 0x60 # 0x2a # 0x12 # 0x8a # 0x3d # 0x9c # 0x7c # 0x3b # 0x23 # 0xbd # 0xc7 # 0x87 # 0x24 # 0xc7 #
      0xf1 # 0x71 # 0x2a # 0x4c # 0x09 # 0x4d # 0x42 # 0xe8 # 0x4e # 0x0f # 0x7d # 0x8a # 0xbe # 0xe9 # 0xe9 # 0xa1 #
      0xb9 # 0xae # 0xc3 # 0x4b # 0x52 # 0xd4 # 0x19 # 0x33 # 0xb1 # 0xbc # 0x51 # 0x82 # 0x35 # 0xa9 # 0xca # 0x32 #
      0x4d # 0x7e # 0x6f # 0xd9 # 0x53 # 0xff # 0x0b # 0xf2 # 0xd7 # 0x0f # 0xed # 0x5d # 0xdd # 0x11 # 0xb6 # 0xb0 # rest) =
   sha_blocks (Sha 0x518768be 0x2638688c 0xf7cdc623 0x46d338b0 0xb809ea39 0x7f810b30 0x12496ce2 0x36863a9b) rest"
  by (simp only: sha_eval)

lemma vlc_ack_code_pass_8:
  "sha_blocks (Sha 0x518768be 0x2638688c 0xf7cdc623 0x46d338b0 0xb809ea39 0x7f810b30 0x12496ce2 0x36863a9b)
     (0xec # 0xe0 # 0x0f # 0x49 # 0xbc # 0xcd # 0x91 # 0x24 # 0xbf # 0xa9 # 0xbb # 0xe3 # 0xa0 # 0x42 # 0xf4 # 0x40 #
      0xe6 # 0x8d # 0x78 # 0x1c # 0xc7 # 0xfb # 0x57 # 0x6a # 0x9b # 0xa3 # 0x5a # 0x9b # 0x91 # 0xe7 # 0xc5 # 0xd5 #
      0x7b # 0xfa # 0x3d # 0x19 # 0x49 # 0x0c # 0x26 # 0x8e # 0x65 # 0xfc # 0x52 # 0x6f # 0xc6 # 0x06 # 0x49 # 0x41 #
      0xab # 0x91 # 0xb8 # 0x79 # 0xa3 # 0x9d # 0x76 # 0xc2 # 0x5b # 0x0a # 0x86 # 0xd6 # 0x17 # 0x9e # 0x4b # 0x4d #
      0x0e # 0xb8 # 0x35 # 0x0f # 0x08 # 0xfb # 0x8a # 0x28 # 0x38 # 0x09 # 0xd4 # 0x41 # 0x9e # 0xf5 # 0xe0 # 0x5e #
      0xff # 0x64 # 0x22 # 0x67 # 0xfe # 0x64 # 0x20 # 0xc8 # 0x09 # 0xf5 # 0x4e # 0x59 # 0x15 # 0x22 # 0x19 # 0x8d #
      0x34 # 0x5b # 0x43 # 0x08 # 0xa4 # 0x3f # 0x22 # 0x09 # 0x90 # 0x1d # 0x9c # 0x0a # 0x9c # 0xda # 0xe3 # 0x24 #
      0x13 # 0x7c # 0x24 # 0x71 # 0xb3 # 0x6d # 0x66 # 0x9c # 0xec # 0x91 # 0x53 # 0x10 # 0xa0 # 0xc9 # 0x4a # 0x41 # rest) =
   sha_blocks (Sha 0xe8b10dfa 0xf5248de5 0x2dd908a6 0x527c9e4c 0xc20e3f7a 0x85eebd05 0x1508df97 0x77f6f9fe) rest"
  by (simp only: sha_eval)

lemma vlc_ack_code_pass_9:
  "sha_blocks (Sha 0xe8b10dfa 0xf5248de5 0x2dd908a6 0x527c9e4c 0xc20e3f7a 0x85eebd05 0x1508df97 0x77f6f9fe)
     (0x99 # 0xf2 # 0xdd # 0xa8 # 0x91 # 0xba # 0x41 # 0x23 # 0x78 # 0x9f # 0x8c # 0x70 # 0x17 # 0x8e # 0x2f # 0xa6 #
      0xe2 # 0xdf # 0xad # 0x26 # 0xc2 # 0xe3 # 0xd8 # 0x75 # 0xf5 # 0x36 # 0xe5 # 0x4d # 0xd1 # 0xdc # 0x4a # 0xb3 #
      0x95 # 0x3c # 0x96 # 0x0c # 0xf2 # 0x71 # 0x54 # 0xb9 # 0x5f # 0x04 # 0x1e # 0xd9 # 0x2f # 0x4a # 0x75 # 0x61 #
      0x86 # 0x89 # 0xf6 # 0xed # 0x9b # 0x27 # 0x8b # 0x4d # 0x87 # 0x1a # 0x3f # 0x9e # 0xac # 0xb3 # 0x77 # 0x32 #
      0xff # 0x91 # 0x8e # 0xf1 # 0xbe # 0x7a # 0x1b # 0x44 # 0x66 # 0x36 # 0x1c # 0xaf # 0x7e # 0 # 1 # 0x42 #
      0xbd # 0 # 0x8d # 0x6f # 0x89 # 0xfd # 0x2a # 0xc8 # 0x3b # 0x28 # 0x9b # 0xe3 # 0x2f # 0xce # 0xd5 # 0xa3 #
      0x6b # 0x55 # 0xf6 # 0xdf # 0xc8 # 0x75 # 0x63 # 0xc8 # 0x47 # 0xf6 # 0x7a # 0x0b # 0xb0 # 0x89 # 0x78 # 0x4f #
      0x56 # 0x67 # 0x3a # 0x90 # 0xe3 # 0x45 # 0x08 # 0xa3 # 0xfc # 0xe3 # 0xe8 # 0x9d # 0x42 # 0x91 # 0xa7 # 0x2f # rest) =
   sha_blocks (Sha 0x204f387a 0x57c7e715 0x83e0bef0 0xe304dbf1 0x5870fab6 0x7bba6e24 0x183ddac1 0x2ec728e0) rest"
  by (simp only: sha_eval)

lemma vlc_ack_code_pass_10:
  "sha_blocks (Sha 0x204f387a 0x57c7e715 0x83e0bef0 0xe304dbf1 0x5870fab6 0x7bba6e24 0x183ddac1 0x2ec728e0)
     (0x7e # 0x13 # 0x2a # 0x89 # 0xb1 # 0x8a # 0xba # 0x0d # 0x56 # 0xf4 # 0xa9 # 0x19 # 0xe0 # 0x70 # 0xd0 # 0xde #
      0x24 # 0x7e # 0xcc # 0xcd # 0x11 # 0x67 # 0x4b # 0x9a # 0xd3 # 0x0a # 0x09 # 0x52 # 0x27 # 0xed # 0x83 # 0x55 #
      0x4c # 0x6f # 0xb5 # 0xca # 0x6a # 0xe8 # 0x20 # 0x34 # 0x8c # 0xb9 # 0x5c # 0xb0 # 0x56 # 0x6f # 0xee # 0x97 #
      0xb7 # 0xf3 # 0xa7 # 0x95 # 0xb8 # 0x94 # 0xb2 # 0xd3 # 0x60 # 0x99 # 0x3e # 0x7b # 0xf4 # 0xa3 # 0x2e # 0x8a #
      0x80 # 0x63 # 0x76 # 0x91 # 0xc7 # 0x3f # 0xcc # 0xbb # 0x36 # 0xbf # 0x74 # 0xa6 # 0x20 # 0xdf # 0x4d # 0xa6 #
      0x6b # 0xa3 # 0x90 # 0xa2 # 0xe1 # 0x26 # 0x83 # 0xd7 # 0xef # 0x18 # 0x40 # 0xfb # 0xaf # 0x5f # 1 # 0x47 #
      0xef # 0x1c # 0x25 # 0xfc # 0x8f # 0xcd # 0xe4 # 0x5e # 0x5e # 0x4a # 0x25 # 0x5b # 0x76 # 0xd9 # 0x56 # 0x38 #
      0x89 # 0x56 # 0xbb # 0xf0 # 0x52 # 0x8e # 0x8c # 0xc8 # 0x52 # 0x92 # 0xb6 # 0xc4 # 0xcf # 0x9a # 0xa0 # 0x94 # rest) =
   sha_blocks (Sha 0x8cb0f9c0 0x1bcc377e 0x3c84a662 0x7223aa36 0x23079ac7 0x3fdba22b 0xc4b49229 0x5dd9214a) rest"
  by (simp only: sha_eval)

lemma vlc_ack_code_pass_11:
  "sha_blocks (Sha 0x8cb0f9c0 0x1bcc377e 0x3c84a662 0x7223aa36 0x23079ac7 0x3fdba22b 0xc4b49229 0x5dd9214a)
     (0x1e # 0xbe # 0xcc # 0x7b # 0x56 # 0x27 # 0xfd # 0xa3 # 0x2c # 0xe7 # 0x5e # 0xd2 # 0x79 # 0x11 # 0x64 # 0xb8 #
      0x6a # 0xd3 # 0xb2 # 0x74 # 0x2f # 0x9c # 0xe7 # 0x83 # 0x3a # 0xe3 # 0xc9 # 0x0a # 0x24 # 0x0b # 0x5b # 1 #
      0x76 # 0x0d # 0xb9 # 0x48 # 0x53 # 0x68 # 0x9c # 0x41 # 0xc0 # 0x8f # 0xa2 # 0xc6 # 0xbd # 0x29 # 0xb0 # 0xd5 #
      0xcd # 0x9a # 0x8d # 0xd9 # 0xbf # 0xac # 0xf0 # 0x1f # 0x35 # 0xd9 # 0x34 # 0x9f # 0x7a # 0x66 # 0x3f # 0x6e #
      0xa8 # 0xed # 0x75 # 0x40 # 0xce # 0x8d # 0x68 # 0x3f # 0xa1 # 0x4c # 1 # 0x09 # 0x5c # 0x94 # 0x73 # 0x5a #
      0x19 # 0xa2 # 0x3f # 0xc3 # 0x86 # 0xc2 # 0x41 # 0xe5 # 0xb5 # 0xa6 # 0xbd # 0x93 # 0x36 # 0x2a # 0xaa # 0 #
      0x80 # 0 # 0 # 0 # 0 # 0 # 0 # 0 # 0 # 0 # 0 # 0 # 0 # 0 # 0 # 0 #
      0 # 0 # 0 # 0 # 0 # 0 # 0 # 0 # 0 # 0 # 0 # 0 # 0 # 0 # 0x31 # 0 # rest) =
   sha_blocks (Sha 0x2b79ab99 0x0ffa58b9 0x0af6b405 0x253a1e89 0x65176063 0xbb5f2524 0xd4a11cba 0xb3302565) rest"
  by (simp only: sha_eval)

lemma vlc_ack_code_end:
  "sha_blocks (Sha 0x7b2f1941 0x3d615dfe 0xfbee28f0 0x251bcdd8 0x3b3e09ec 0xd0cfac72 0x1891d85a 0x0aab219c)
     (0x2b # 0x79 # 0xab # 0x99 # 0x0f # 0xfa # 0x58 # 0xb9 # 0x0a # 0xf6 # 0xb4 # 0x05 # 0x25 # 0x3a # 0x1e # 0x89 #
      0x65 # 0x17 # 0x60 # 0x63 # 0xbb # 0x5f # 0x25 # 0x24 # 0xd4 # 0xa1 # 0x1c # 0xba # 0xb3 # 0x30 # 0x25 # 0x65 #
      0x80 # 0 # 0 # 0 # 0 # 0 # 0 # 0 # 0 # 0 # 0 # 0 # 0 # 0 # 0 # 0 #
      0 # 0 # 0 # 0 # 0 # 0 # 0 # 0 # 0 # 0 # 0 # 0 # 0 # 0 # 0x03 # 0 # rest) =
   sha_blocks (Sha 0xf7279c37 0x9a446806 0x7c6f7e03 0x304c28e4 0x29f2a9ca 0xe65192d0 0xc4951e78 0xd93ff5a7) rest"
  by (simp only: sha_eval)

lemma vlc_ack_code_digest:
  "sha_blocks (Sha 0x97883495 0xbd5e334e 0x7cc37042 0x33767f0f 0xe2e614c8 0xa9452915 0xbd36e1f6 0x7c0d10eb) (take 1504 vlc_c2 @ sha_tail 1568) =
     Sha 0x2b79ab99 0x0ffa58b9 0x0af6b405 0x253a1e89 0x65176063 0xbb5f2524 0xd4a11cba 0xb3302565"
  by (simp add: vlc_c2_def sha_tail_1568 vlc_ack_code_pass_0 vlc_ack_code_pass_1 vlc_ack_code_pass_2 vlc_ack_code_pass_3 vlc_ack_code_pass_4 vlc_ack_code_pass_5 vlc_ack_code_pass_6 vlc_ack_code_pass_7 vlc_ack_code_pass_8 vlc_ack_code_pass_9 vlc_ack_code_pass_10 vlc_ack_code_pass_11 sha_blocks_Nil)

lemma vlc_ack_code:
  "calculateHMACsha256 (take 1504 vlc_c2) [0x41, 0x9b, 0xa5, 0x87, 0x65, 0x94, 0x68, 0x31, 0x65, 0x65, 0xff, 0x30, 0xa9, 0x30, 0x5f,
      0x86, 0xdb, 0xa2, 0x64, 0x6f, 0xb7, 0x39, 0xa2, 0x97, 0x1a, 0x5a, 0x96, 0xb3, 0x7e, 0x87,
      0x19, 0x6f] =
     [0xf7, 0x27, 0x9c, 0x37, 0x9a, 0x44, 0x68, 0x06, 0x7c, 0x6f, 0x7e, 0x03, 0x30, 0x4c, 0x28,
      0xe4, 0x29, 0xf2, 0xa9, 0xca, 0xe6, 0x51, 0x92, 0xd0, 0xc4, 0x95, 0x1e, 0x78, 0xd9, 0x3f,
      0xf5, 0xa7]"
proof -
  have bytes: "sha_bytes (Sha 0x2b79ab99 0x0ffa58b9 0x0af6b405 0x253a1e89 0x65176063 0xbb5f2524 0xd4a11cba 0xb3302565) =
      [0x2b, 0x79, 0xab, 0x99, 0x0f, 0xfa, 0x58, 0xb9, 0x0a, 0xf6, 0xb4, 0x05, 0x25, 0x3a, 0x1e,
       0x89, 0x65, 0x17, 0x60, 0x63, 0xbb, 0x5f, 0x25, 0x24, 0xd4, 0xa1, 0x1c, 0xba, 0xb3, 0x30,
       0x25, 0x65]"
    by (simp add: be32_put_def)
  have len: "64 + length (take 1504 vlc_c2) = 1568" by (simp add: vlc_c2_def)
  have "calculateHMACsha256 (take 1504 vlc_c2) [0x41, 0x9b, 0xa5, 0x87, 0x65, 0x94, 0x68, 0x31, 0x65, 0x65, 0xff, 0x30, 0xa9, 0x30, 0x5f,
      0x86, 0xdb, 0xa2, 0x64, 0x6f, 0xb7, 0x39, 0xa2, 0x97, 0x1a, 0x5a, 0x96, 0xb3, 0x7e, 0x87,
      0x19, 0x6f] = sha_bytes (Sha 0xf7279c37 0x9a446806 0x7c6f7e03 0x304c28e4 0x29f2a9ca 0xe65192d0 0xc4951e78 0xd93ff5a7)"
    unfolding vlc_ack_mac len vlc_ack_code_digest bytes
    by (simp only: sha_tail_96 append_Cons append_Nil vlc_ack_code_end sha_blocks_Nil)
  then show ?thesis by (simp add: be32_put_def)
qed

lemma vlc_acknowledges:
  "drop 1504 vlc_c2 = calculateHMACsha256 (take 1504 vlc_c2)
     (calculateHMACsha256 (digest_at (scheme_offset 0 vlc_s1) vlc_s1) GENUINE_FP_KEY)"
  unfolding vlc_s1_offset0 vlc_ack_key vlc_ack_code by (simp add: vlc_c2_def)

end
