(* ===== verification/Recorded_Flash.thy ===== *)
theory Recorded_Flash
  imports Handshake_Keys
begin

text \<open>
  The handshake of a Flash player, recorded in \<^verbatim>\<open>src/fp_test_bytes.go\<close>, with the codes it carries.
\<close>

definition fp_s1 :: "u8 list" where
  "fp_s1 =
     [0x21, 0x5e, 0x73, 0xff, 0x05, 0x00, 0x01, 0x01, 0x9a, 0xf9, 0x87, 0xc1, 0xdd, 0xcf, 0xd5, 0x98] @
     [0xd1, 0xe2, 0xb4, 0x87, 0xf6, 0x82, 0x15, 0xc4, 0x47, 0x7d, 0xf8, 0x19, 0x0a, 0x67, 0x5f, 0x1c] @
     [0x1f, 0xf6, 0xc3, 0xc3, 0xbd, 0xa8, 0x62, 0x17, 0xc0, 0xaa, 0xcc, 0x5a, 0xb9, 0xb4, 0xab, 0xd0] @
     [0xe2, 0x08, 0x42, 0x59, 0xa5, 0x86, 0xe3, 0xf2, 0xf4, 0x30, 0x0c, 0x18, 0x84, 0x75, 0xf0, 0x7c] @
     [0x50, 0x88, 0x9d, 0xb6, 0x13, 0x83, 0xbd, 0x3d, 0x90, 0xea, 0x76, 0x78, 0x7a, 0x4e, 0xc4, 0xfc] @
     [0xc3, 0x08, 0x45, 0x00, 0x1a, 0x44, 0xba, 0xe7, 0x8c, 0x75, 0x45, 0xbc, 0x9a, 0x5c, 0x7b, 0x50] @
     [0x33, 0xfa, 0x9b, 0x14, 0x04, 0xcb, 0xc6, 0xbf, 0x31, 0x78, 0x97, 0x7e, 0xdc, 0x16, 0xb5, 0xd4] @
     [0x00, 0x5e, 0x66, 0x04, 0xe9, 0x28, 0xcf, 0x03, 0xdd, 0xb5, 0x03, 0xc6, 0xa2, 0xfb, 0x1f, 0x70] @
     [0xf4, 0x58, 0x13, 0xf7, 0x73, 0x1f, 0x95, 0xb3, 0x3a, 0x90, 0x4e, 0xe6, 0xe2, 0xd8, 0xf6, 0x29] @
     [0xce, 0xcb, 0x2a, 0xf1, 0x79, 0x5e, 0x5f, 0x28, 0x69, 0x5e, 0xa3, 0x06, 0x19, 0xa5, 0xfe, 0x97] @
     [0xfb, 0x81, 0x27, 0x20, 0x50, 0x76, 0x40, 0x98, 0xb3, 0xd8, 0x15, 0x60, 0x1c, 0x56, 0x96, 0x03] @
     [0xdf, 0x64, 0x87, 0xbd, 0x55, 0xeb, 0x55, 0x8e, 0xaf, 0x41, 0x45, 0x01, 0x13, 0x45, 0xba, 0x72] @
     [0x6f, 0x04, 0xf5, 0xd6, 0x03, 0x01, 0x52, 0x45, 0xad, 0xb2, 0x97, 0xe2, 0x43, 0x6a, 0x89, 0xae] @
     [0x02, 0xa0, 0x73, 0xa1, 0x50, 0x60, 0x61, 0xec, 0x57, 0xbf, 0x2b, 0x79, 0x9e, 0xdc, 0xb3, 0xfb] @
     [0xb6, 0xfd, 0x28, 0x10, 0x39, 0xf7, 0xff, 0x46, 0x5b, 0x8a, 0x36, 0x28, 0xfc, 0x19, 0x83, 0x69] @
     [0x6d, 0x22, 0xb8, 0xce, 0xde, 0x58, 0x8a, 0x49, 0x3b, 0xad, 0x06, 0xa6, 0x43, 0x2d, 0x05, 0xac] @
     [0x3e, 0xf6, 0xc4, 0x30, 0x19, 0x3f, 0x1e, 0x81, 0x60, 0x68, 0xb2, 0xf9, 0x22, 0xa0, 0xdf, 0x67] @
     [0xbf, 0x59, 0x25, 0x22, 0xb6, 0xfa, 0xa8, 0x27, 0x9b, 0x6c, 0x41, 0x6f, 0x73, 0x43, 0xf0, 0xa8] @
     [0x77, 0xb8, 0x11, 0xe0, 0x12, 0x9b, 0x13, 0x35, 0x7c, 0xc6, 0x29, 0x06, 0xaa, 0x3e, 0x2e, 0x68] @
     [0xe9, 0x2e, 0xb9, 0x4f, 0xfa, 0x0c, 0xad, 0xfd, 0x96, 0xfe, 0xb9, 0xb4, 0xed, 0xc6, 0x0f, 0xa5] @
     [0x28, 0xb2, 0x34, 0x33, 0x95, 0x89, 0xd0, 0x8f, 0x48, 0x4e, 0xe6, 0x30, 0x51, 0xeb, 0x00, 0x99] @
     [0x30, 0x3f, 0x6e, 0x68, 0xce, 0x3a, 0x84, 0x58, 0x67, 0x00, 0xf8, 0x0e, 0x67, 0xa7, 0x0b, 0x97] @
     [0xfa, 0x1e, 0x44, 0x77, 0x74, 0x6d, 0x09, 0x10, 0xed, 0xc0, 0xbd, 0xb3, 0x6d, 0x47, 0x64, 0x01] @
     [0x3d, 0xf3, 0x9a, 0x5f, 0x77, 0xa7, 0x10, 0xd5, 0x3b, 0x8e, 0x41, 0x01, 0xad, 0xc4, 0xd1, 0x1a] @
     [0x2c, 0x30, 0x44, 0xe6, 0xab, 0xa9, 0x45, 0xd7, 0xd3, 0x04, 0x03, 0x1c, 0x05, 0x2c, 0xc9, 0xc7] @
     [0x9e, 0xb2, 0x97, 0xb7, 0x3f, 0x7c, 0x19, 0xd5, 0x04, 0xfc, 0x9f, 0x38, 0xec, 0xee, 0x70, 0x90] @
     [0xb0, 0x7f, 0xff, 0x1b, 0x80, 0xb0, 0x84, 0xf1, 0x07, 0x59, 0x0d, 0xf3, 0xd4, 0x09, 0xd7, 0xe0] @
     [0x24, 0x73, 0x22, 0x4e, 0xee, 0x35, 0xfc, 0xbd, 0x0c, 0xd6, 0x5d, 0xda, 0x31, 0x21, 0xbe, 0xbf] @
     [0xc8, 0x12, 0x76, 0xf7, 0x4e, 0x2a, 0xc7, 0x9f, 0xc7, 0x3a, 0x36, 0x72, 0xcd, 0x7a, 0x15, 0xfe] @
     [0x73, 0xc5, 0x8b, 0x81, 0x94, 0x06, 0xca, 0x25, 0x97, 0x10, 0x9e, 0x2b, 0xb1, 0x13, 0xf4, 0x3c] @
     [0x7f, 0x43, 0xfa, 0x63, 0xf4, 0x63, 0x02, 0x56, 0x49, 0x1c, 0x60, 0x31, 0xdd, 0x7f, 0x20, 0xff] @
     [0x09, 0x18, 0xe3, 0xfd, 0x7b, 0x11, 0x5b, 0xf9, 0xd4, 0x05, 0xb3, 0x11, 0x25, 0x24, 0x0a, 0xbf] @
     [0x8e, 0x2f, 0xeb, 0xb2, 0xca, 0x3b, 0xdb, 0x6f, 0x34, 0x3c, 0x24, 0xae, 0xc1, 0x89, 0xf9, 0xa6] @
     [0xe0, 0x3e, 0xf3, 0x12, 0x47, 0x62, 0x24, 0x5a, 0x29, 0x67, 0x6a, 0x2d, 0xb9, 0x4e, 0x22, 0x0b] @
     [0x13, 0x34, 0x65, 0xc7, 0xbc, 0xfe, 0x5b, 0xe5, 0x87, 0x7c, 0xc5, 0x5a, 0xfe, 0x00, 0x81, 0x02] @
     [0x04, 0x7b, 0x2c, 0xa1, 0x21, 0x9c, 0xc9, 0xe3, 0xa6, 0x81, 0x32, 0xa9, 0xd8, 0xb4, 0x8c, 0xe1] @
     [0xa7, 0x4d, 0xe2, 0xe6, 0xdb, 0x9c, 0x3b, 0x1d, 0x83, 0x60, 0x81, 0x3a, 0xa8, 0x00, 0x13, 0xea] @
     [0xf6, 0xb1, 0xb9, 0xf8, 0xfe, 0x60, 0x99, 0x90, 0x70, 0x1f, 0x9c, 0xfa, 0x47, 0xf1, 0xb3, 0xc4] @
     [0x48, 0xa7, 0x74, 0x60, 0xea, 0xca, 0x4a, 0x97, 0xdd, 0x1e, 0xfd, 0x12, 0x13, 0x22, 0x32, 0xb9] @
     [0xd1, 0xfd, 0xde, 0x41, 0x80, 0xe8, 0x83, 0x29, 0x54, 0x2c, 0x9f, 0x58, 0xb0, 0x3c, 0x34, 0xa6] @
     [0x03, 0xfa, 0x0f, 0xec, 0xe6, 0xf9, 0xc7, 0x34, 0x48, 0xde, 0x13, 0x5d, 0xb9, 0xa2, 0x48, 0x7d] @
     [0x46, 0x43, 0xde, 0x3b, 0xd2, 0x11, 0x24, 0xbd, 0xf5, 0xa5, 0x75, 0xc8, 0x34, 0x53, 0xea, 0x2a] @
     [0x95, 0xbc, 0x31, 0x6c, 0x29, 0x02, 0x0d, 0xba, 0x21, 0xe1, 0x54, 0xe6, 0x22, 0x22, 0x7a, 0xc4] @
     [0xbd, 0x62, 0x27, 0x2e, 0xcd, 0x88, 0xb1, 0xef, 0x64, 0x75, 0x2c, 0x5e, 0x6a, 0xa1, 0x7f, 0x40] @
     [0xb5, 0x3f, 0xd5, 0xac, 0x6a, 0x8e, 0xd5, 0x6a, 0xfc, 0xa0, 0x32, 0x8b, 0x26, 0xde, 0x15, 0x98] @
     [0x0a, 0x91, 0x40, 0x07, 0xf1, 0x25, 0x55, 0xad, 0xb0, 0x34, 0xa8, 0xad, 0x73, 0x38, 0x57, 0xf0] @
     [0x65, 0xb0, 0x23, 0xe5, 0x62, 0x78, 0x8b, 0xd6, 0xa8, 0x09, 0xea, 0x96, 0xfe, 0xfb, 0x42, 0x82] @
     [0x58, 0x92, 0x22, 0x64, 0x7e, 0xb8, 0x8e, 0x2b, 0x5f, 0xf9, 0x0f, 0x08, 0xa3, 0x78, 0x8a, 0x9d] @
     [0x44, 0xea, 0x66, 0x5e, 0x14, 0x60, 0xb9, 0x80, 0xf5, 0x64, 0xcd, 0x3c, 0xc6, 0xa5, 0x9b, 0xcd] @
     [0x8d, 0x1a, 0x0f, 0x4b, 0xa0, 0x04, 0x81, 0x80, 0x95, 0x8c, 0x04, 0xeb, 0x00, 0x36, 0x0b, 0xb4] @
     [0xdf, 0xfa, 0x07, 0xe2, 0x25, 0x1c, 0x55, 0xaf, 0x93, 0xfd, 0x93, 0xcf, 0x56, 0xdc, 0x71, 0xf3] @
     [0x26, 0x5e, 0xb0, 0x19, 0xd6, 0x88, 0xb2, 0xb5, 0x8b, 0x1c, 0x8f, 0xcc, 0xd6, 0xcd, 0x8f, 0xd1] @
     [0x19, 0x39, 0x78, 0xf5, 0xb4, 0x58, 0x00, 0x7d, 0xd7, 0xda, 0x74, 0x6a, 0x71, 0xde, 0x8b, 0x21] @
     [0x7d, 0xa3, 0xb6, 0x53, 0xda, 0xa1, 0x12, 0x5d, 0x8f, 0x9c, 0x78, 0x25, 0x36, 0x74, 0xe6, 0x60] @
     [0x46, 0xd9, 0x7b, 0xae, 0x7a, 0x02, 0x11, 0x3d, 0x39, 0xf8, 0xd3, 0x49, 0xb9, 0xa0, 0x09, 0x37] @
     [0xf1, 0x5a, 0xa3, 0x54, 0x5f, 0x15, 0x4c, 0x34, 0x25, 0x91, 0x26, 0x02, 0x3b, 0xc8, 0x37, 0x7b] @
     [0xe6, 0xfc, 0x0e, 0x5b, 0xef, 0x1d, 0xef, 0xa3, 0xeb, 0x63, 0xb0, 0xd9, 0x9e, 0x29, 0xca, 0xe9] @
     [0x4c, 0xac, 0x94, 0xff, 0xf8, 0x3a, 0x65, 0x32, 0x55, 0x90, 0x8f, 0x07, 0x8b, 0xec, 0xb2, 0x62] @
     [0xa6, 0x77, 0x3f, 0xa4, 0xb4, 0x0c, 0x28, 0x80, 0xe2, 0x8d, 0x81, 0x2a, 0xa0, 0x51, 0x11, 0xf5] @
     [0x47, 0x43, 0x1f, 0xf7, 0xe1, 0x11, 0x3c, 0x53, 0xcd, 0xe9, 0x76, 0x7f, 0x20, 0xe5, 0x58, 0x86] @
     [0xdf, 0x15, 0xaa, 0xd3, 0xe5, 0xcc, 0x25, 0x41, 0x47, 0xe6, 0x56, 0x39, 0x57, 0x49, 0x28, 0xd7] @
     [0xce, 0x53, 0x19, 0x2d, 0x0f, 0xc0, 0xf5, 0x52, 0x18, 0x02, 0xc3, 0x5e, 0xcf, 0xff, 0x5c, 0x0d] @
     [0x86, 0xb0, 0xf4, 0xe2, 0x79, 0x7f, 0xef, 0x79, 0x3f, 0x5c, 0xda, 0xd1, 0xb3, 0x97, 0xb5, 0xa7] @
     [0x7b, 0xf1, 0x11, 0xa0, 0x9e, 0x16, 0x19, 0xd0, 0x76, 0xa8, 0x92, 0x18, 0x2b, 0x88, 0x3b, 0xd9] @
     [0x72, 0xb0, 0x16, 0x9b, 0xe0, 0xb4, 0x52, 0x4c, 0xe0, 0x02, 0x56, 0x15, 0x31, 0x0c, 0xd6, 0x88] @
     [0x4a, 0x1e, 0xf9, 0x5f, 0x42, 0x23, 0x64, 0x6e, 0xb1, 0xe9, 0x81, 0xee, 0xac, 0xda, 0xb3, 0xf7] @
     [0x31, 0x39, 0x93, 0x30, 0xf3, 0xa0, 0x5f, 0x59, 0x8e, 0x15, 0xcd, 0x85, 0x3c, 0x3c, 0x22, 0x6d] @
     [0x97, 0xb5, 0x6a, 0x7a, 0xc9, 0x3c, 0xfd, 0x16, 0x2d, 0x4d, 0xbe, 0xa1, 0xd2, 0x60, 0xa2, 0xb0] @
     [0x15, 0x5d, 0x04, 0xa0, 0x0c, 0x66, 0xd0, 0x3d, 0xca, 0x1f, 0x2d, 0xe7, 0x6a, 0x32, 0xc0, 0xdb] @
     [0x8a, 0x45, 0x46, 0x96, 0x16, 0xf5, 0x7c, 0xb1, 0x3f, 0xb2, 0xfe, 0xa8, 0x9b, 0x5c, 0xe8, 0x9f] @
     [0xc2, 0x52, 0x4f, 0x5d, 0x02, 0x49, 0x10, 0x1c, 0xcf, 0x7b, 0x74, 0xaf, 0x78, 0xda, 0xf2, 0x51] @
     [0x32, 0xb1, 0xae, 0x2c, 0xdc, 0xbb, 0x39, 0x78, 0x89, 0xe8, 0xa0, 0x02, 0x5b, 0x8b, 0x2d, 0xe1] @
     [0xb4, 0xba, 0x69, 0x01, 0x56, 0x85, 0xc7, 0xc4, 0x8c, 0x91, 0x7e, 0xce, 0x28, 0x44, 0x89, 0x24] @
     [0xab, 0x44, 0x1b, 0x8c, 0x29, 0x8d, 0xbb, 0x60, 0x2a, 0xb6, 0x31, 0xea, 0x05, 0x15, 0x88, 0x94] @
     [0x8b, 0xdd, 0x64, 0x4c, 0x39, 0x79, 0x66, 0xb6, 0xb5, 0xa0, 0x55, 0xf0, 0x77, 0x2d, 0x7d, 0x19] @
     [0x29, 0x4d, 0x1d, 0xc0, 0x09, 0x43, 0xb6, 0x29, 0x3d, 0xbf, 0xab, 0x0a, 0x2c, 0x01, 0x07, 0xa1] @
     [0x63, 0xca, 0x5f, 0x91, 0x34, 0x40, 0x02, 0xa5, 0x2a, 0x13, 0x6e, 0x84, 0x01, 0x1d, 0x26, 0x87] @
     [0xea, 0xbd, 0x52, 0x7a, 0x6b, 0x61, 0x9f, 0x99, 0xe0, 0x33, 0xe5, 0x64, 0x34, 0x13, 0xe4, 0xdc] @
     [0xe1, 0x8e, 0x98, 0xbe, 0x98, 0xa1, 0x5d, 0xac, 0x1b, 0x37, 0x04, 0xef, 0x94, 0x3e, 0x6b, 0x8b] @
     [0x8a, 0xc9, 0xd3, 0x56, 0x34, 0xdb, 0x5f, 0xe1, 0x15, 0x61, 0x46, 0x3d, 0x87, 0x3d, 0x06, 0x92] @
     [0xd5, 0x5e, 0x83, 0x80, 0x30, 0xf7, 0xe3, 0x4b, 0xd8, 0x8f, 0xce, 0xb0, 0xfe, 0x05, 0xbf, 0xe9] @
     [0xae, 0xdd, 0x50, 0xcd, 0xf2, 0x6d, 0xae, 0xfb, 0xdc, 0x1b, 0x02, 0xd0, 0x9b, 0x26, 0x03, 0xed] @
     [0xfd, 0xe3, 0x4e, 0x4b, 0xb9, 0xb3, 0x48, 0x30, 0x79, 0x73, 0x28, 0x90, 0xfa, 0x53, 0x2f, 0x94] @
     [0x6b, 0x8d, 0x3d, 0x01, 0xa1, 0xe6, 0xf9, 0x93, 0x55, 0xb1, 0x95, 0x25, 0xa3, 0xb4, 0xd1, 0xc7] @
     [0xcf, 0x4f, 0x98, 0x40, 0x4e, 0xfe, 0x84, 0x6d, 0xce, 0xbf, 0xa5, 0x6c, 0x38, 0x46, 0x72, 0xb3] @
     [0x16, 0xa8, 0x11, 0x18, 0x87, 0xe5, 0xda, 0x78, 0x38, 0xd2, 0xe9, 0xc1, 0xb9, 0xdc, 0x65, 0x76] @
     [0xdb, 0x03, 0xe6, 0x62, 0x9b, 0x97, 0x07, 0xa7, 0x54, 0x1c, 0xf9, 0xa4, 0x7c, 0x9d, 0x4b, 0x4b] @
     [0x6c, 0x89, 0xb7, 0xe5, 0x8e, 0x7d, 0x81, 0x5e, 0xcf, 0x2a, 0xda, 0xb0, 0x52, 0x33, 0x69, 0x6f] @
     [0x84, 0xca, 0xe9, 0x1c, 0xaf, 0x7b, 0x2f, 0xcb, 0x11, 0x14, 0x05, 0x0d, 0xa0, 0x67, 0xb1, 0xfe] @
     [0x3a, 0xf0, 0xcb, 0xa2, 0xe4, 0x8e, 0x7f, 0x63, 0xe0, 0x86, 0xb3, 0x63, 0xa8, 0x79, 0x69, 0xbb] @
     [0x11, 0x93, 0xa2, 0xb0, 0xcb, 0x0c, 0x0b, 0x1a, 0x23, 0xc0, 0x56, 0x3c, 0x7d, 0x4c, 0x2f, 0xca] @
     [0xff, 0xd3, 0xbf, 0x68, 0xae, 0xb0, 0x5a, 0x7c, 0xac, 0xa2, 0x67, 0x17, 0x8c, 0x05, 0xf4, 0xfb] @
     [0x09, 0x48, 0x06, 0xd0, 0x29, 0xe9, 0x92, 0xec, 0x11, 0xb0, 0x35, 0x16, 0x74, 0x23, 0xbb, 0xbd] @
     [0x00, 0xb2, 0x82, 0x27, 0x0c, 0x6d, 0xdf, 0x65, 0x78, 0xdb, 0x2b, 0x49, 0xc3, 0x94, 0xc3, 0x32] @
     [0xa7, 0x97, 0xd5, 0x52, 0xda, 0x56, 0x8b, 0x24, 0x47, 0x5c, 0xdd, 0xe7, 0x3d, 0xaa, 0x17, 0x38] @
     [0x39, 0xab, 0xe1, 0x01, 0xa4, 0xb7, 0x8f, 0x9b, 0x1f, 0x45, 0x7c, 0x0f, 0x72, 0x0c, 0x75, 0xd2]"

lemma fp_s1_length: "length fp_s1 = 1536"
  by (simp add: fp_s1_def)

definition fp_c1 :: "u8 list" where
  "fp_c1 =
     [0x00, 0xe7, 0x41, 0xd4, 0x80, 0x00, 0x07, 0x02, 0xbb, 0xab, 0xec, 0x56, 0x37, 0x87, 0x70, 0x67] @
     [0x04, 0x02, 0xf1, 0x8b, 0x36, 0x55, 0xd9, 0x2d, 0x59, 0x6b, 0xf4, 0x66, 0xd7, 0xbe, 0xdc, 0x4a] @
     [0xff, 0xc2, 0x4f, 0xdc, 0x33, 0x12, 0x06, 0x43, 0x65, 0x7b, 0x1f, 0x86, 0x68, 0x0f, 0xfd, 0x5e] @
     [0x37, 0x13, 0x0e, 0xf2, 0x6e, 0x83, 0xc3, 0x41, 0x0a, 0x76, 0x54, 0x30, 0x0a, 0x7b, 0x8d, 0x86] @
     [0x71, 0xa2, 0x3f, 0x50, 0x42, 0xcf, 0x27, 0x75, 0xd5, 0xf7, 0x5e, 0x74, 0xf7, 0x62, 0xa1, 0xed] @
     [0xf9, 0xf7, 0xf8, 0x53, 0xde, 0xcf, 0x0e, 0xfa, 0x60, 0xd9, 0xb1, 0x96, 0x5f, 0x2f, 0xeb, 0xb0] @
     [0x5c, 0x50, 0x00, 0x08, 0x5b, 0xc6, 0x61, 0x69, 0x2e, 0x69, 0x54, 0xe0, 0x64, 0x37, 0xa0, 0xec] @
     [0xe1, 0xd4, 0xa3, 0xca, 0x1f, 0xd5, 0x3b, 0x7c, 0xdf, 0x24, 0xe4, 0x74, 0xf7, 0x95, 0x3b, 0xa6] @
     [0xd9, 0xc0, 0x38, 0xb6, 0xa8, 0x98, 0xcf, 0x6f, 0x1f, 0x5c, 0x93, 0x36, 0x6e, 0x6f, 0x0c, 0xc6] @
     [0x47, 0x12, 0x93, 0xb7, 0xa1, 0x22, 0x1b, 0x7f, 0x98, 0xad, 0x43, 0xb5, 0xc7, 0xe3, 0x64, 0xfe] @
     [0x16, 0x31, 0xb7, 0x41, 0x7f, 0xf8, 0x6c, 0x22, 0x25, 0x02, 0x7d, 0x53, 0xf6, 0x7f, 0xb5, 0x7c] @
     [0x85, 0x8b, 0x18, 0x95, 0x88, 0x1d, 0xbc, 0xf3, 0x18, 0x27, 0x49, 0x1a, 0x7b, 0xdb, 0xac, 0x21] @
     [0x6b, 0x09, 0x2f, 0x4b, 0x3c, 0x0f, 0xeb, 0x95, 0x1e, 0x0d, 0x34, 0xe2, 0x3e, 0x24, 0xfe, 0xb4] @
     [0xca, 0x7b, 0xf6, 0xb8, 0xdc, 0xa3, 0x8e, 0x97, 0xa8, 0xc2, 0x06, 0x07, 0x23, 0x0c, 0x7d, 0xe2] @
     [0x4d, 0x72, 0x5d, 0x40, 0x81, 0x8e, 0x6a, 0x17, 0xbc, 0x70, 0xbf, 0xf5, 0x88, 0x42, 0x6d, 0x74] @
     [0xc7, 0xaa, 0x77, 0x7f, 0x0d, 0xa2, 0x94, 0x4c, 0x16, 0xe8, 0x6d, 0x8f, 0xc1, 0x39, 0xc4, 0xf8] @
     [0x09, 0x38, 0x92, 0x90, 0xf3, 0x98, 0x82, 0xa6, 0x2e, 0xbc, 0x52, 0xa2, 0x14, 0xed, 0x16, 0x28] @
     [0x2d, 0xc1, 0x43, 0xcf, 0xa2, 0xf4, 0xd2, 0xde, 0xa3, 0x1a, 0xca, 0x53, 0x78, 0x52, 0x18, 0x44] @
     [0xfc, 0x34, 0x21, 0x4c, 0x2a, 0xc6, 0xa4, 0x96, 0x6f, 0x1e, 0xf6, 0x85, 0x67, 0x65, 0x17, 0x29] @
     [0x24, 0x0c, 0x40, 0x06, 0x01, 0x33, 0xbb, 0x06, 0x7e, 0x76, 0x13, 0x6f, 0xf8, 0x62, 0xfa, 0x53] @
     [0x48, 0xbc, 0xec, 0x79, 0xac, 0x3e, 0x26, 0x38, 0x09, 0x20, 0x72, 0x11, 0x30, 0xee, 0xd4, 0xdd] @
     [0x50, 0xbe, 0xd3, 0x3a, 0x22, 0xba, 0x28, 0x16, 0x98, 0xc4, 0x54, 0x43, 0x1f, 0x9e, 0xa7, 0xd7] @
     [0xa9, 0x72, 0xd8, 0xd0, 0x87, 0x7e, 0xc4, 0x05, 0x2d, 0x9b, 0xe3, 0xdc, 0x37, 0x87, 0x2c, 0x04] @
     [0x01, 0x98, 0x42, 0x0b, 0x19, 0xd7, 0xee, 0x74, 0x0e, 0x0c, 0x96, 0xa0, 0xe8, 0x18, 0x40, 0x5c] @
     [0xc3, 0x84, 0x73, 0x85, 0x1a, 0x7b, 0xcc, 0x2a, 0x34, 0x02, 0x73, 0xb3, 0x79, 0x3d, 0xff, 0xec] @
     [0x15, 0x42, 0xd9, 0x07, 0x85, 0x28, 0x8d, 0xea, 0x64, 0xae, 0x9c, 0xd8, 0x0a, 0x78, 0x6b, 0xfb] @
     [0x8b, 0xb6, 0x38, 0x7e, 0x59, 0x00, 0x2e, 0x64, 0x5b, 0x78, 0x7b, 0xec, 0x9c, 0x06, 0xbc, 0x77] @
     [0xdb, 0xae, 0x59, 0x21, 0xc3, 0xc0, 0x0a, 0xc8, 0x38, 0xa9, 0xad, 0x72, 0x2f, 0xe6, 0xe0, 0x14] @
     [0x4d, 0x1a, 0x6c, 0xd6, 0x19, 0x05, 0xa5, 0x3d, 0x69, 0xd4, 0xf2, 0xcf, 0x7c, 0x88, 0x67, 0x49] @
     [0x4f, 0x99, 0xbc, 0x1e, 0xd9, 0xd6, 0x3b, 0x42, 0x92, 0x1a, 0xc9, 0x69, 0x58, 0xba, 0x90, 0x38] @
     [0x2b, 0x5f, 0x1b, 0x6a, 0xd5, 0x4e, 0x86, 0xef, 0xef, 0x3c, 0x3c, 0xfb, 0x08, 0x45, 0x9d, 0xd7] @
     [0x8d, 0x01, 0x4a, 0xb2, 0x45, 0x29, 0xab, 0x23, 0x27, 0x4b, 0x58, 0x8d, 0x1b, 0x9d, 0x18, 0x3c] @
     [0x0f, 0xab, 0x41, 0xfd, 0xf6, 0xf4, 0x77, 0xe1, 0x24, 0x91, 0x0c, 0xbd, 0xa9, 0x6a, 0xbd, 0xba] @
     [0xf2, 0x8d, 0xe2, 0x02, 0x4c, 0xf3, 0x40, 0x28, 0x36, 0x6f, 0xfb, 0x2f, 0xfb, 0xa9, 0x41, 0x0e] @
     [0x85, 0x82, 0x26, 0xe1, 0xbc, 0xa9, 0xd2, 0x21, 0x95, 0xf2, 0x27, 0x7a, 0x30, 0xef, 0xd5, 0x7c] @
     [0xda, 0xc3, 0x83, 0x05, 0xf7, 0x45, 0x41, 0x8a, 0xa8, 0xf7, 0xb3, 0x20, 0x9c, 0xb8, 0x3e, 0xa5] @
     [0x7a, 0x7a, 0x66, 0x98, 0x15, 0x36, 0xae, 0xc4, 0xa8, 0x31, 0x5c, 0x7b, 0x03, 0x8b, 0x7e, 0x78] @
     [0x09, 0x52, 0x43, 0xe2, 0xe0, 0x4d, 0x49, 0x31, 0xc3, 0x18, 0x3c, 0x63, 0x77, 0x8a, 0x5d, 0x2d] @
     [0x3a, 0x5c, 0x6c, 0xe9, 0xde, 0x1c, 0x9d, 0x48, 0xf4, 0xbc, 0xa7, 0x50, 0x1d, 0x75, 0x3b, 0x4e] @
     [0xbd, 0xb6, 0x2d, 0x0f, 0x64, 0x2a, 0x79, 0x6b, 0x9e, 0xa7, 0xe9, 0x1d, 0xd6, 0x22, 0x95, 0xd8] @
     [0xd2, 0x28, 0xb2, 0xdc, 0x8f, 0x60, 0xf2, 0xe8, 0x77, 0xc3, 0x86, 0x9b, 0xf4, 0xc6, 0x7e, 0xc4] @
     [0xea, 0x58, 0xcc, 0x74, 0xf1, 0x32, 0x4e, 0x17, 0x9a, 0x2f, 0x31, 0x03, 0x18, 0x10, 0x5c, 0xaf] @
     [0xf3, 0xcf, 0xc0, 0xe2, 0x89, 0x7f, 0xfc, 0x19, 0x1b, 0x8b, 0xc3, 0x0b, 0x89, 0x86, 0x59, 0xb4] @
     [0x82, 0x4a, 0xb9, 0xa1, 0xe1, 0xe0, 0x52, 0xcf, 0x8c, 0x9b, 0x5d, 0x14, 0x42, 0x4b, 0x96, 0xcb] @
     [0x46, 0x73, 0xbf, 0x01, 0x52, 0x8b, 0x03, 0xee, 0xdd, 0x84, 0x23, 0xd1, 0x27, 0xa1, 0x8e, 0x32] @
     [0x80, 0x5e, 0xbd, 0x91, 0x69, 0x7f, 0x08, 0x18, 0x75, 0xb4, 0xf8, 0x7f, 0x49, 0xc9, 0xc3, 0xae] @
     [0xfa, 0x13, 0xf9, 0xd3, 0xc7, 0xbd, 0x78, 0xa7, 0xfd, 0x72, 0xd9, 0xb4, 0xa6, 0x6b, 0xcb, 0x6d] @
     [0xdd, 0xea, 0xa1, 0x24, 0x5d, 0x99, 0x51, 0xad, 0x6e, 0x27, 0x23, 0x22, 0x8a, 0x68, 0x5e, 0x03] @
     [0x9d, 0xf4, 0x34, 0xd2, 0xf4, 0x3f, 0xdb, 0x17, 0x1d, 0x63, 0x6e, 0xa9, 0x22, 0xbe, 0xda, 0xf7] @
     [0x45, 0x91, 0x81, 0x62, 0xb9, 0xaf, 0xeb, 0x96, 0x27, 0x9a, 0x87, 0x07, 0x5d, 0xa8, 0x9a, 0x60] @
     [0x3d, 0x1c, 0x84, 0x29, 0xf9, 0x48, 0x50, 0x2e, 0xcd, 0xa8, 0xfe, 0xf4, 0xdb, 0x6d, 0x23, 0xb6] @
     [0xeb, 0xef, 0xcd, 0x23, 0x72, 0xd5, 0xb3, 0xe4, 0x8e, 0x0a, 0x74, 0x30, 0x07, 0xbc, 0x22, 0xc6] @
     [0x04, 0xcb, 0xfa, 0xc7, 0xb9, 0x52, 0xd5, 0x4d, 0x8b, 0xbe, 0xa3, 0xad, 0x5b, 0x09, 0x76, 0x4f] @
     [0x19, 0x3f, 0x78, 0xde, 0x2b, 0xac, 0xac, 0x12, 0x7f, 0x1e, 0x6a, 0x9c, 0x78, 0xeb, 0x13, 0xbd] @
     [0x52, 0x09, 0x64, 0xf2, 0x46, 0x28, 0x24, 0x76, 0x78, 0xd9, 0x62, 0x97, 0x98, 0x54, 0x86, 0x1d] @
     [0x29, 0x50, 0xdb, 0x42, 0x08, 0x61, 0x78, 0xf4, 0xf9, 0xfc, 0xcf, 0x01, 0xa2, 0x15, 0x62, 0x5f] @
     [0xb1, 0xb9, 0xbb, 0x44, 0xb1, 0xb7, 0xd7, 0x99, 0x0a, 0x45, 0x7a, 0xe4, 0xe4, 0xd8, 0x38, 0xa6] @
     [0x3d, 0xf3, 0x6f, 0x54, 0x44, 0x9b, 0x57, 0xeb, 0x65, 0x92, 0xbd, 0xa5, 0x1d, 0x86, 0xfb, 0x97] @
     [0x00, 0x1b, 0xf0, 0xae, 0x3f, 0xac, 0xba, 0x74, 0x72, 0xd5, 0x59, 0x7c, 0x20, 0xf3, 0x4e, 0x92] @
     [0x11, 0xa0, 0xf3, 0xdc, 0xbf, 0xbd, 0x19, 0x7d, 0xd6, 0xb1, 0x2f, 0xb3, 0xfd, 0xe7, 0x5c, 0x9b] @
     [0x72, 0x0a, 0xf8, 0x20, 0xc9, 0x91, 0x0b, 0xa6, 0xf1, 0xae, 0x32, 0x56, 0x06, 0x68, 0x55, 0x00] @
     [0x3f, 0xa0, 0x65, 0x9a, 0x15, 0xc7, 0x2e, 0xbc, 0x07, 0x4c, 0x21, 0x48, 0xfd, 0x86, 0xd2, 0x77] @
     [0xc5, 0x84, 0xa5, 0xaf, 0x83, 0x06, 0xe2, 0xc4, 0x16, 0x85, 0x44, 0x7e, 0x92, 0x8f, 0x35, 0x8a] @
     [0x45, 0x48, 0xe6, 0xae, 0xd4, 0x6e, 0xf9, 0x01, 0x70, 0xa8, 0xaf, 0x4c, 0xba, 0x53, 0xad, 0x09] @
     [0x77, 0x8f, 0xae, 0xaa, 0x5c, 0x26, 0x40, 0x7b, 0xf7, 0x25, 0x84, 0x0b, 0xab, 0x40, 0x0d, 0xb2] @
     [0x5a, 0x99, 0x11, 0x5b, 0xd5, 0x28, 0x58, 0x48, 0xf9, 0x1f, 0xd4, 0xcf, 0xbc, 0x9b, 0x15, 0xea] @
     [0xf3, 0x97, 0xed, 0x77, 0x1b, 0x15, 0xbc, 0xeb, 0x9d, 0xf6, 0x09, 0xd2, 0x0a, 0xd0, 0x83, 0xa8] @
     [0x59, 0x63, 0x85, 0x77, 0x89, 0x31, 0x1c, 0x00, 0x64, 0xb6, 0xb7, 0xd5, 0xa3, 0x21, 0xe4, 0x38] @
     [0xec, 0xbd, 0xf9, 0x9f, 0x2c, 0x1d, 0xfb, 0xef, 0xee, 0x28, 0xda, 0x75, 0x98, 0xe9, 0x74, 0x3f] @
     [0x98, 0xd8, 0x67, 0x08, 0x82, 0x12, 0x6d, 0x11, 0xef, 0x75, 0x74, 0x89, 0x69, 0xaa, 0x71, 0x8d] @
     [0x46, 0xdb, 0xd1, 0x99, 0xd9, 0xe1, 0xe5, 0x4a, 0xa4, 0x4f, 0xbb, 0x6e, 0x40, 0x01, 0x86, 0x43] @
     [0x02, 0x03, 0xc5, 0xa0, 0x16, 0x6f, 0xf9, 0x6c, 0xb1, 0xe2, 0xf8, 0xcc, 0x9a, 0x4e, 0x27, 0xb3] @
     [0x80, 0x58, 0x6f, 0x59, 0x7e, 0x58, 0xe9, 0x4a, 0xbe, 0xb2, 0x0e, 0x38, 0x40, 0xfd, 0x8d, 0x60] @
     [0x5f, 0x97, 0x52, 0x99, 0x58, 0x9d, 0x9c, 0xd0, 0x92, 0xef, 0x98, 0x6d, 0x8d, 0x7b, 0xc7, 0x88] @
     [0x45, 0xfc, 0x42, 0xfa, 0xc6, 0xad, 0x6d, 0x8b, 0x30, 0xaf, 0x9a, 0xd8, 0x6c, 0xe1, 0x23, 0xde] @
     [0x51, 0x2e, 0xc8, 0xf6, 0xa7, 0xa2, 0x1a, 0x92, 0xeb, 0xb4, 0x49, 0x1a, 0x18, 0x89, 0x47, 0x8d] @
     [0x23, 0x8e, 0x94, 0x74, 0x1c, 0x37, 0xff, 0xb8, 0x3d, 0x4e, 0x95, 0x40, 0x03, 0x70, 0xf0, 0xcd] @
     [0xed, 0xa5, 0x87, 0x8d, 0x80, 0x9c, 0x5c, 0x03, 0x54, 0x25, 0xe5, 0x65, 0x53, 0x6d, 0x3e, 0xab] @
     [0xe4, 0x06, 0x62, 0x8c, 0x2b, 0xcf, 0x64, 0x46, 0xd9, 0x4c, 0x24, 0x16, 0x25, 0xed, 0x1f, 0x94] @
     [0x5f, 0x48, 0xf1, 0x48, 0x0e, 0xd2, 0x72, 0x71, 0x42, 0xce, 0x97, 0x28, 0x48, 0x33, 0xd8, 0x40] @
     [0xe5, 0x28, 0x0e, 0x07, 0x4b, 0x08, 0x85, 0xfa, 0x5d, 0x48, 0x1f, 0x20, 0xf7, 0x8e, 0x91, 0x6d] @
     [0x30, 0x39, 0x3d, 0x30, 0x7b, 0x96, 0xd4, 0x26, 0x1a, 0x9c, 0xab, 0x91, 0x16, 0x91, 0x00, 0xe4] @
     [0x69, 0xaf, 0x8f, 0xf8, 0x8c, 0x61, 0x39, 0x43, 0xba, 0x0f, 0x6c, 0xbe, 0x7b, 0xd7, 0x72, 0x04] @
     [0x92, 0xb6, 0x17, 0x62, 0xbe, 0x6d, 0x75, 0x6f, 0x6b, 0x9b, 0x57, 0xf6, 0x7a, 0xbd, 0x48, 0xda] @
     [0x27, 0xfa, 0xa9, 0xf3, 0x6c, 0x95, 0x68, 0x73, 0x5c, 0x15, 0xcb, 0xef, 0x97, 0x02, 0x1f, 0xbb] @
     [0x76, 0x03, 0x0d, 0x70, 0x0d, 0x0b, 0xa8, 0xb4, 0xc4, 0xf8, 0x3c, 0x61, 0xce, 0xa9, 0x86, 0xc4] @
     [0x1c, 0xb6, 0x67, 0x48, 0x83, 0xf6, 0x4e, 0x82, 0x44, 0x86, 0xfb, 0x55, 0xab, 0x22, 0xf3, 0x01] @
     [0x91, 0x2a, 0x1e, 0x9e, 0x5f, 0xf6, 0x64, 0x02, 0x18, 0x82, 0x2b, 0xb3, 0x45, 0x7d, 0x45, 0x48] @
     [0x11, 0x9c, 0x83, 0xc3, 0xd3, 0x68, 0xcf, 0x35, 0xa9, 0xd5, 0x5a, 0xc2, 0xfd, 0xba, 0xa7, 0x54] @
     [0x69, 0x3a, 0xa9, 0xc7, 0x1c, 0x07, 0x94, 0xe1, 0xfa, 0x92, 0xe7, 0x85, 0x92, 0x85, 0x27, 0x27] @
     [0x33, 0xea, 0x4d, 0xa9, 0xaa, 0x17, 0xac, 0xa9, 0xf9, 0x7f, 0x5a, 0xc6, 0x3e, 0x92, 0x0e, 0xe3] @
     [0xba, 0x7a, 0xe5, 0x8d, 0x5d, 0x2a, 0x85, 0xcf, 0x82, 0xcc, 0x21, 0xd0, 0x94, 0x34, 0x8b, 0xce] @
     [0xc2, 0x07, 0x68, 0x98, 0x0d, 0x69, 0x4a, 0x3b, 0xc8, 0xbb, 0x32, 0xe4, 0xa7, 0x19, 0xf6, 0x6c] @
     [0xf0, 0xa6, 0xae, 0x4d, 0x67, 0x6f, 0xe6, 0x35, 0xd6, 0x4b, 0xb3, 0x60, 0x40, 0x2f, 0x9c, 0x41] @
     [0x2a, 0x8f, 0xf8, 0x3f, 0x6a, 0x7d, 0xbb, 0xb0, 0x67, 0x1e, 0x35, 0x24, 0xa1, 0x3b, 0xac, 0x53] @
     [0xb4, 0x17, 0x18, 0xb8, 0x02, 0x5c, 0x31, 0xd1, 0xfc, 0xcf, 0xfe, 0x41, 0x7b, 0x39, 0xc6, 0x3a]"

lemma fp_c1_length: "length fp_c1 = 1536"
  by (simp add: fp_c1_def)

definition fp_c2 :: "u8 list" where
  "fp_c2 =
     [0x24, 0x62, 0x59, 0xfd, 0x3e, 0xc2, 0xb0, 0xe6, 0x83, 0xbd, 0xa0, 0xba, 0x8d, 0x9c, 0x5e, 0x2f] @
     [0x4e, 0xbc, 0x05, 0xcd, 0x95, 0x24, 0x47, 0x5e, 0x50, 0x2f, 0x17, 0xfc, 0x73, 0xfd, 0x8a, 0x5c] @
     [0x20, 0x3a, 0x3b, 0xc9, 0x33, 0x26, 0xde, 0x51, 0xfd, 0x46, 0x8b, 0x95, 0xfe, 0x71, 0x5f, 0x95] @
     [0x7e, 0x31, 0x73, 0xd3, 0x73, 0x88, 0xe1, 0x49, 0x26, 0x8c, 0xb3, 0x97, 0xd5, 0x5c, 0x99, 0xf0] @
     [0xe2, 0xd1, 0x09, 0x17, 0x3a, 0xb7, 0x10, 0x1b, 0x61, 0x36, 0x99, 0x27, 0xd7, 0xed, 0x7b, 0x1e] @
     [0xa1, 0xad, 0x46, 0xf5, 0x45, 0xa4, 0xbc, 0xc9, 0xa6, 0x12, 0xbe, 0x6d, 0x08, 0x38, 0x88, 0x01] @
     [0x9d, 0xfc, 0x0e, 0x40, 0xe1, 0x9d, 0x5a, 0xa3, 0x12, 0x20, 0x8f, 0x21, 0xea, 0x10, 0xb5, 0xe4] @
     [0xbc, 0xa9, 0xfe, 0xde, 0xc7, 0x1a, 0xfd, 0x37, 0x9d, 0xff, 0x0b, 0x74, 0xc9, 0x0f, 0x19, 0xe2] @
     [0x29, 0xe7, 0x6e, 0x1a, 0xff, 0x18, 0xec, 0x4a, 0x8f, 0x50, 0xe1, 0x04, 0x3b, 0x9e, 0x9b, 0xab] @
     [0x84, 0x85, 0x83, 0x03, 0x8d, 0x7b, 0xec, 0x51, 0x4b, 0x51, 0x52, 0xbb, 0x42, 0x32, 0x78, 0x58] @
     [0x92, 0x9b, 0x22, 0x43, 0x27, 0xc6, 0x8b, 0x4e, 0x4f, 0x7a, 0x75, 0xea, 0xbf, 0x6b, 0xa1, 0x49] @
     [0x0b, 0x9a, 0xd0, 0xe8, 0x14, 0x71, 0x6a, 0xed, 0xd3, 0x9b, 0xd6, 0xb4, 0xa2, 0xaf, 0xdb, 0x40] @
     [0xd2, 0xeb, 0x24, 0x20, 0x2a, 0x35, 0xf6, 0x5b, 0x68, 0xa1, 0x2c, 0xe8, 0xb4, 0xf6, 0x53, 0xcc] @
     [0xb4, 0x4a, 0xce, 0x4e, 0xdd, 0x09, 0x14, 0xd8, 0x56, 0x9f, 0xf9, 0x87, 0x3f, 0x01, 0xd3, 0x09] @
     [0xef, 0xa7, 0x13, 0xf1, 0x94, 0x49, 0x93, 0x7f, 0x66, 0x16, 0xdf, 0x12, 0x11, 0xf3, 0x96, 0xaa] @
     [0xf6, 0x4f, 0x12, 0xfd, 0x52, 0xb4, 0x93, 0x8f, 0x40, 0x0f, 0x52, 0xf2, 0x1f, 0x16, 0x05, 0xb2] @
     [0x4a, 0x88, 0x9b, 0x40, 0x97, 0xa7, 0x1c, 0x86, 0x02, 0x68, 0xb6, 0x50, 0xca, 0x2f, 0x27, 0xda] @
     [0x0c, 0xe8, 0xcd, 0x7e, 0x00, 0x23, 0xeb, 0x4a, 0x13, 0x1b, 0xa5, 0x82, 0x4c, 0xe6, 0xc1, 0xe0] @
     [0x38, 0x63, 0xe2, 0x3c, 0x4a, 0x4f, 0x67, 0xaa, 0xb0, 0x44, 0xdd, 0x88, 0xb8, 0xe4, 0x81, 0x87] @
     [0x6b, 0xe2, 0xc0, 0xd3, 0x5a, 0xa3, 0x61, 0x80, 0xda, 0x78, 0x28, 0xe5, 0x55, 0xdc, 0xba, 0x19] @
     [0x9d, 0x49, 0x90, 0x62, 0xa0, 0xc1, 0xe7, 0xaa, 0x6a, 0x6c, 0x44, 0x45, 0x30, 0xd9, 0xbe, 0x18] @
     [0x69, 0x94, 0xde, 0xf5, 0xaf, 0x0f, 0x63, 0xbf, 0x54, 0xbb, 0x44, 0xb8, 0x01, 0x3c, 0x27, 0x10] @
     [0xe5, 0x21, 0xcc, 0xcc, 0xb7, 0x11, 0xe9, 0x07, 0x83, 0xbb, 0xd1, 0xba, 0x7b, 0x06, 0xa5, 0x68] @
     [0xde, 0xcb, 0xfc, 0xd1, 0xa5, 0x31, 0x6e, 0x67, 0xc7, 0xa7, 0xdd, 0xeb, 0xb6, 0x6b, 0x17, 0xf8] @
     [0xcb, 0x3c, 0x6b, 0xa6, 0x0c, 0x01, 0x2d, 0xd0, 0x6b, 0x9f, 0xf8, 0x99, 0xd0, 0x8c, 0x27, 0xbe] @
     [0x1f, 0x73, 0x16, 0xb3, 0xa7, 0x26, 0x2f, 0x4b, 0xdd, 0x0c, 0x73, 0xb6, 0x9c, 0x46, 0x23, 0x49] @
     [0x20, 0x2f, 0x81, 0x33, 0x88, 0xa3, 0xf7, 0xe6, 0x57, 0xaf, 0x28, 0x87, 0xb7, 0xfd, 0xfa, 0xff] @
     [0x44, 0x0c, 0xbe, 0xec, 0xfe, 0x11, 0x2d, 0x46, 0x70, 0x56, 0x40, 0x64, 0x2f, 0xee, 0xa2, 0xe9] @
     [0x4e, 0xdd, 0x26, 0xbc, 0xe6, 0x96, 0x39, 0x90, 0xfe, 0x69, 0xd0, 0xd1, 0xf0, 0x98, 0x2f, 0xf0] @
     [0x97, 0xa6, 0x26, 0x24, 0xae, 0xd2, 0xcd, 0xb3, 0x65, 0xf3, 0xa1, 0x45, 0x46, 0x52, 0x30, 0xc5] @
     [0x2d, 0x51, 0x3b, 0x5c, 0xa2, 0xd3, 0x9c, 0x2c, 0x55, 0x8a, 0xec, 0xc9, 0x4d, 0x30, 0x0d, 0x73] @
     [0x30, 0xdf, 0xf3, 0x45, 0x21, 0xe2, 0x14, 0x45, 0x85, 0x8e, 0xbd, 0x39, 0x5a, 0x6c, 0xd3, 0xf1] @
     [0x6e, 0xb7, 0xb7, 0x72, 0x7a, 0xf0, 0xc8, 0x41, 0xff, 0x7f, 0xd1, 0x39, 0x3a, 0xdf, 0x81, 0x47] @
     [0xc1, 0x18, 0x0b, 0x3c, 0xf0, 0x58, 0x75, 0x58, 0x50, 0x77, 0xe5, 0x3b, 0x96, 0x95, 0x8a, 0xbc] @
     [0xdf, 0xd9, 0x1c, 0xf3, 0x76, 0x51, 0x6d, 0xa5, 0x74, 0x58, 0x7b, 0x4c, 0x91, 0x70, 0xc5, 0x29] @
     [0x4f, 0xb3, 0xd4, 0x6e, 0x74, 0x57, 0x57, 0x23, 0xaf, 0xca, 0xd5, 0xe4, 0x73, 0x4e, 0x18, 0xd6] @
     [0xbb, 0x31, 0x3a, 0x20, 0x4a, 0x37, 0xc3, 0x0d, 0x2d, 0xac, 0x2c, 0x36, 0xc7, 0x33, 0x46, 0x66] @
     [0x32, 0x1e, 0xa6, 0x10, 0xb5, 0x99, 0xd0, 0xcd, 0x87, 0x94, 0x15, 0x4c, 0x75, 0x98, 0xb7, 0xfc] @
     [0xf4, 0xb4, 0xa1, 0x64, 0x28, 0xaa, 0xa0, 0x86, 0x56, 0xde, 0x88, 0x57, 0xa6, 0xba, 0x4e, 0xc9] @
     [0xe6, 0xde, 0x09, 0x9c, 0x30, 0x0b, 0xf4, 0x81, 0xee, 0x2d, 0x88, 0x9d, 0x45, 0xcc, 0x78, 0x5b] @
     [0x55, 0x0c, 0x74, 0x68, 0x08, 0xbd, 0xa4, 0x88, 0xc7, 0xdc, 0x77, 0x3d, 0x3e, 0xdf, 0x94, 0xdf] @
     [0x15, 0xf3, 0xee, 0x12, 0x5e, 0x3f, 0xdf, 0x67, 0x34, 0x50, 0x11, 0x99, 0x77, 0xed, 0x37, 0x51] @
     [0x5a, 0xc3, 0x02, 0x97, 0xf3, 0x49, 0x7d, 0x2a, 0x39, 0xc6, 0xa7, 0xc1, 0x78, 0xa0, 0xa9, 0x90] @
     [0xe0, 0xdc, 0x75, 0x59, 0xb9, 0xb0, 0x9c, 0x7c, 0x30, 0x2b, 0x32, 0x9a, 0x47, 0x06, 0x28, 0xec] @
     [0xc6, 0x57, 0xee, 0xc5, 0x14, 0x0b, 0xe1, 0xeb, 0xf7, 0xbf, 0x89, 0x27, 0xf6, 0x33, 0xae, 0xeb] @
     [0xae, 0xf1, 0x28, 0x19, 0xf6, 0x57, 0x84, 0xa1, 0x4d, 0x95, 0x9f, 0xf3, 0xe1, 0xf2, 0xc4, 0x1b] @
     [0xc0, 0x41, 0x21, 0xfe, 0xe8, 0x73, 0xf3, 0x83, 0x41, 0x4b, 0x9c, 0x70, 0x92, 0x20, 0x22, 0xbf] @
     [0xc1, 0xdc, 0x74, 0xa2, 0x32, 0x9f, 0x9b, 0x2c, 0x8c, 0xab, 0x86, 0x00, 0x6b, 0xb0, 0x8b, 0x47] @
     [0xbe, 0xaa, 0x3d, 0xca, 0x1b, 0x39, 0xcc, 0xe4, 0xb8, 0x20, 0x0a, 0x75, 0x7f, 0x36, 0x9f, 0x17] @
     [0xbc, 0x33, 0xed, 0xca, 0xa4, 0xdf, 0x27, 0x3c, 0x2f, 0xd1, 0xb5, 0x1a, 0x4d, 0xd9, 0x8c, 0x12] @
     [0x98, 0xa2, 0x92, 0x9e, 0xda, 0xf2, 0x00, 0xea, 0xe2, 0x61, 0x32, 0xc4, 0x9b, 0x86, 0x27, 0xbe] @
     [0x3b, 0x3d, 0xd6, 0x30, 0x92, 0x57, 0x02, 0x57, 0xca, 0x1a, 0xa6, 0xab, 0x3e, 0xe2, 0x20, 0xd3] @
     [0xe0, 0x43, 0xb0, 0xa6, 0x09, 0xe6, 0x10, 0x52, 0x1b, 0xb1, 0x04, 0xba, 0x57, 0x9f, 0x1f, 0x5a] @
     [0xfa, 0x5b, 0xce, 0x39, 0xda, 0x03, 0x80, 0x66, 0x8c, 0x2f, 0x5b, 0x63, 0xf0, 0x04, 0x55, 0xaa] @
     [0xe9, 0x05, 0x7c, 0xef, 0xe3, 0x08, 0x94, 0x72, 0xcc, 0x13, 0x8b, 0x15, 0x28, 0x6c, 0x19, 0x43] @
     [0xab, 0xd3, 0x79, 0xe5, 0x15, 0x27, 0x6e, 0x30, 0x91, 0x52, 0x56, 0x8c, 0xe2, 0x78, 0xcc, 0x74] @
     [0x9a, 0xae, 0x08, 0xd1, 0xbd, 0xc6, 0x92, 0x05, 0x28, 0x4c, 0x22, 0xc7, 0x1a, 0x43, 0x97, 0x92] @
     [0x7e, 0xc9, 0xa0, 0x6c, 0x54, 0x24, 0x6f, 0xad, 0x07, 0xf5, 0xe4, 0x2a, 0x4d, 0x3e, 0x54, 0xe0] @
     [0x0e, 0x1f, 0x4b, 0x92, 0x43, 0x33, 0xe4, 0x4e, 0xa5, 0x51, 0xda, 0xcf, 0xab, 0xa1, 0x5f, 0xc1] @
     [0x2e, 0x6c, 0xad, 0xfd, 0xba, 0x0a, 0x17, 0xce, 0x35, 0x67, 0x3c, 0xb4, 0xfd, 0xe2, 0xa7, 0x65] @
     [0xfc, 0xa7, 0xd5, 0xa3, 0xb8, 0x02, 0x84, 0x45, 0x9b, 0x29, 0x35, 0xc3, 0x9e, 0x55, 0x6f, 0x6c] @
     [0xaf, 0xab, 0xba, 0x6c, 0x70, 0x50, 0xfa, 0x28, 0x12, 0x30, 0x9d, 0x3c, 0xf1, 0x4d, 0x4a, 0xd6] @
     [0x48, 0xa8, 0x2a, 0x51, 0x17, 0xa3, 0xee, 0x87, 0xdf, 0x25, 0x34, 0x77, 0xb7, 0x31, 0x71, 0x55] @
     [0xf7, 0xfc, 0xfb, 0x3a, 0x54, 0xeb, 0x5d, 0xf0, 0xb4, 0x8d, 0xbd, 0xf8, 0xff, 0x76, 0xf0, 0x73] @
     [0x57, 0x57, 0x0c, 0xb5, 0xab, 0xfb, 0xd1, 0xae, 0x1d, 0xc8, 0xe0, 0xc4, 0x4a, 0xb7, 0x3c, 0x80] @
     [0x5d, 0x6c, 0xdd, 0xc9, 0x3b, 0x01, 0x91, 0xfb, 0xc6, 0x38, 0x52, 0x85, 0x18, 0x8c, 0xbd, 0x79] @
     [0xcb, 0x74, 0x6e, 0xb0, 0x4e, 0x2c, 0x2e, 0xdc, 0x08, 0xe4, 0xc4, 0x5e, 0xc4, 0x83, 0x3c, 0x4a] @
     [0x7a, 0x5f, 0x7c, 0x18, 0x36, 0xee, 0xdf, 0x44, 0xe6, 0x0d, 0xcb, 0xfc, 0x39, 0x0e, 0xae, 0x27] @
     [0x93, 0x30, 0xa0, 0x27, 0x47, 0x88, 0x37, 0xa4, 0xaf, 0xee, 0x3c, 0x69, 0x63, 0xc4, 0xb3, 0x5c] @
     [0x4b, 0xbb, 0x5f, 0x37, 0x6d, 0xa1, 0xf3, 0x2a, 0xf1, 0x4d, 0xae, 0x9b, 0x69, 0x92, 0x0c, 0xf0] @
     [0x8a, 0x0d, 0x3f, 0x02, 0xf8, 0xb8, 0x44, 0x3c, 0xcd, 0x26, 0x10, 0xf2, 0xf4, 0x57, 0xe0, 0xf6] @
     [0x72, 0x7a, 0xc9, 0x7a, 0xa4, 0x5c, 0x85, 0xcb, 0x7a, 0xd9, 0xc6, 0xd0, 0x2d, 0x25, 0xff, 0x4c] @
     [0xcf, 0x2e, 0x28, 0xc5, 0x0a, 0x48, 0x02, 0x7d, 0xdd, 0xc0, 0xb9, 0x6d, 0x26, 0xe9, 0xf4, 0x04] @
     [0x55, 0x37, 0x9a, 0x71, 0x7b, 0xcb, 0xea, 0xdd, 0x57, 0xdf, 0x24, 0x9e, 0x7e, 0x34, 0x6d, 0x5e] @
     [0x46, 0x0d, 0xd3, 0xce, 0x7d, 0xee, 0x6f, 0xd5, 0xc2, 0x71, 0xa4, 0xff, 0x49, 0x5a, 0x61, 0xbc] @
     [0x89, 0x6c, 0x45, 0x15, 0x42, 0x77, 0x6b, 0xdb, 0x97, 0xe8, 0x8d, 0xb5, 0xbf, 0x16, 0x80, 0xfa] @
     [0x81, 0x4d, 0xd5, 0x69, 0x7e, 0x69, 0x63, 0x0c, 0xb9, 0x6f, 0xfc, 0x81, 0xbe, 0xa2, 0x13, 0x38] @
     [0xfe, 0x87, 0xd0, 0x14, 0x6d, 0xdc, 0xfd, 0x59, 0x7d, 0xb2, 0xf7, 0x30, 0x29, 0x3b, 0x81, 0xeb] @
     [0xb1, 0x03, 0x69, 0xcd, 0x83, 0x4f, 0x0e, 0xd7, 0x99, 0xed, 0x84, 0x51, 0x6c, 0x18, 0x89, 0x98] @
     [0x1b, 0xdb, 0xd8, 0xe4, 0xa8, 0xc1, 0x9f, 0x5a, 0xc4, 0xb3, 0xd1, 0xb4, 0x14, 0xa2, 0x34, 0xd9] @
     [0x06, 0xaa, 0x3a, 0xa5, 0xf5, 0x64, 0x8c, 0xfa, 0xaa, 0xcd, 0x88, 0x83, 0x2b, 0x1f, 0xd7, 0x9a] @
     [0xde, 0x42, 0x84, 0xee, 0x9a, 0x2d, 0xef, 0x1a, 0xac, 0xc2, 0x8f, 0x91, 0x66, 0x42, 0x77, 0xe1] @
     [0x4c, 0x87, 0x06, 0x15, 0x05, 0x9b, 0xf5, 0xec, 0xb8, 0x2f, 0x2c, 0x7a, 0x43, 0xc8, 0x10, 0xb7] @
     [0x7b, 0x76, 0x6a, 0x79, 0x77, 0x18, 0x52, 0xa3, 0x86, 0xf6, 0x86, 0xd2, 0x61, 0x8c, 0xc9, 0xb8] @
     [0xc4, 0xf8, 0xaa, 0x0a, 0x93, 0xd3, 0xc1, 0x84, 0xaf, 0x24, 0x8f, 0xd3, 0x91, 0x50, 0x16, 0x47] @
     [0xbc, 0x8b, 0x9e, 0x92, 0x32, 0x73, 0x04, 0x44, 0xc1, 0x28, 0xc7, 0x15, 0xaa, 0x14, 0x77, 0x83] @
     [0x98, 0xac, 0x1a, 0xed, 0x82, 0x32, 0xcc, 0xb7, 0x43, 0xb3, 0xc0, 0x35, 0x8c, 0xed, 0xe5, 0x8b] @
     [0xbd, 0x0a, 0xbb, 0xef, 0x84, 0xec, 0xbc, 0x70, 0xa6, 0x74, 0x7f, 0xc9, 0x17, 0x36, 0x41, 0x93] @
     [0x3b, 0x43, 0x85, 0xe8, 0x93, 0xcd, 0x0e, 0x0e, 0x9c, 0x21, 0x61, 0x9c, 0xcd, 0x26, 0x7b, 0x71] @
     [0x3c, 0x2b, 0x32, 0xc8, 0x30, 0x4e, 0xf3, 0x74, 0xac, 0x94, 0xe3, 0xf3, 0x55, 0xed, 0x90, 0x5c] @
     [0x1f, 0x3a, 0x3d, 0x08, 0x45, 0xad, 0xcf, 0xbe, 0xe2, 0x04, 0x87, 0x7c, 0xf6, 0xc5, 0x35, 0x2c] @
     [0x12, 0xb1, 0x93, 0x88, 0x50, 0x17, 0xc3, 0x68, 0xe3, 0x6b, 0x5e, 0x45, 0x35, 0x3f, 0xbd, 0xb3] @
     [0x82, 0xb9, 0x36, 0x01, 0xbf, 0xe1, 0x24, 0x69, 0x35, 0x89, 0x42, 0xb3, 0x01, 0x11, 0x48, 0xd0] @
     [0xd5, 0x55, 0xad, 0x46, 0x93, 0xcd, 0x4c, 0x05, 0x25, 0x05, 0x98, 0x12, 0xf7, 0x08, 0xcc, 0x4d] @
     [0x85, 0xa3, 0x5e, 0xcb, 0xce, 0x08, 0x09, 0xa3, 0x9f, 0x21, 0xb6, 0x75, 0xd5, 0x06, 0x0c, 0x43] @
     [0xee, 0xc3, 0xd6, 0xa8, 0xf8, 0x6a, 0x31, 0x22, 0x31, 0x6e, 0xd8, 0xff, 0x56, 0xe9, 0xbe, 0xa9]"

lemma fp_c2_length: "length fp_c2 = 1536"
  by (simp add: fp_c2_def)

text \<open>The block of the client.\<close>

lemma fp_c1_offset0: "scheme_offset 0 fp_c1 = 692"
  unfolding scheme_offset_eval [OF fp_c1_length] by (simp add: fp_c1_def sumBytes_def)

lemma fp_c1_offset1: "scheme_offset 1 fp_c1 = 1325"
  unfolding scheme_offset_eval [OF fp_c1_length] by (simp add: fp_c1_def sumBytes_def)

lemma fp_c1_code0_pass_0:
  "sha_blocks (Sha 0xab9b2043 0x9d576b06 0x90cc6d17 0x9e2d20d9 0x430bbd1c 0x0a5165be 0xc8af2193 0x406c37fe)
     (0 # 0xe7 # 0x41 # 0xd4 # 0x80 # 0 # 0x07 # 0x02 # 0xbb # 0xab # 0xec # 0x56 # 0x37 # 0x87 # 0x70 # 0x67 #
      0x04 # 0x02 # 0xf1 # 0x8b # 0x36 # 0x55 # 0xd9 # 0x2d # 0x59 # 0x6b # 0xf4 # 0x66 # 0xd7 # 0xbe # 0xdc # 0x4a #
      0xff # 0xc2 # 0x4f # 0xdc # 0x33 # 0x12 # 0x06 # 0x43 # 0x65 # 0x7b # 0x1f # 0x86 # 0x68 # 0x0f # 0xfd # 0x5e #
      0x37 # 0x13 # 0x0e # 0xf2 # 0x6e # 0x83 # 0xc3 # 0x41 # 0x0a # 0x76 # 0x54 # 0x30 # 0x0a # 0x7b # 0x8d # 0x86 #
      0x71 # 0xa2 # 0x3f # 0x50 # 0x42 # 0xcf # 0x27 # 0x75 # 0xd5 # 0xf7 # 0x5e # 0x74 # 0xf7 # 0x62 # 0xa1 # 0xed #
      0xf9 # 0xf7 # 0xf8 # 0x53 # 0xde # 0xcf # 0x0e # 0xfa # 0x60 # 0xd9 # 0xb1 # 0x96 # 0x5f # 0x2f # 0xeb # 0xb0 #
      0x5c # 0x50 # 0 # 0x08 # 0x5b # 0xc6 # 0x61 # 0x69 # 0x2e # 0x69 # 0x54 # 0xe0 # 0x64 # 0x37 # 0xa0 # 0xec #
      0xe1 # 0xd4 # 0xa3 # 0xca # 0x1f # 0xd5 # 0x3b # 0x7c # 0xdf # 0x24 # 0xe4 # 0x74 # 0xf7 # 0x95 # 0x3b # 0xa6 # rest) =
   sha_blocks (Sha 0xbd9ab5bb 0xddb09c0c 0x13a7450a 0x2c77c947 0x7e53b51f 0xa355d293 0x52c7b59a 0x27d0e2aa) rest"
  by (simp only: sha_eval)

lemma fp_c1_code0_pass_1:
  "sha_blocks (Sha 0xbd9ab5bb 0xddb09c0c 0x13a7450a 0x2c77c947 0x7e53b51f 0xa355d293 0x52c7b59a 0x27d0e2aa)
     (0xd9 # 0xc0 # 0x38 # 0xb6 # 0xa8 # 0x98 # 0xcf # 0x6f # 0x1f # 0x5c # 0x93 # 0x36 # 0x6e # 0x6f # 0x0c # 0xc6 #
      0x47 # 0x12 # 0x93 # 0xb7 # 0xa1 # 0x22 # 0x1b # 0x7f # 0x98 # 0xad # 0x43 # 0xb5 # 0xc7 # 0xe3 # 0x64 # 0xfe #
      0x16 # 0x31 # 0xb7 # 0x41 # 0x7f # 0xf8 # 0x6c # 0x22 # 0x25 # 0x02 # 0x7d # 0x53 # 0xf6 # 0x7f # 0xb5 # 0x7c #
      0x85 # 0x8b # 0x18 # 0x95 # 0x88 # 0x1d # 0xbc # 0xf3 # 0x18 # 0x27 # 0x49 # 0x1a # 0x7b # 0xdb # 0xac # 0x21 #
      0x6b # 0x09 # 0x2f # 0x4b # 0x3c # 0x0f # 0xeb # 0x95 # 0x1e # 0x0d # 0x34 # 0xe2 # 0x3e # 0x24 # 0xfe # 0xb4 #
      0xca # 0x7b # 0xf6 # 0xb8 # 0xdc # 0xa3 # 0x8e # 0x97 # 0xa8 # 0xc2 # 0x06 # 0x07 # 0x23 # 0x0c # 0x7d # 0xe2 #
      0x4d # 0x72 # 0x5d # 0x40 # 0x81 # 0x8e # 0x6a # 0x17 # 0xbc # 0x70 # 0xbf # 0xf5 # 0x88 # 0x42 # 0x6d # 0x74 #
      0xc7 # 0xaa # 0x77 # 0x7f # 0x0d # 0xa2 # 0x94 # 0x4c # 0x16 # 0xe8 # 0x6d # 0x8f # 0xc1 # 0x39 # 0xc4 # 0xf8 # rest) =
   sha_blocks (Sha 0x2ce862f5 0xf40a2635 0x9afb801f 0x42f1c522 0xcfcf4926 0x5a6d4693 0x42046b6c 0xf9273570) rest"
  by (simp only: sha_eval)

lemma fp_c1_code0_pass_2:
  "sha_blocks (Sha 0x2ce862f5 0xf40a2635 0x9afb801f 0x42f1c522 0xcfcf4926 0x5a6d4693 0x42046b6c 0xf9273570)
     (0x09 # 0x38 # 0x92 # 0x90 # 0xf3 # 0x98 # 0x82 # 0xa6 # 0x2e # 0xbc # 0x52 # 0xa2 # 0x14 # 0xed # 0x16 # 0x28 #
      0x2d # 0xc1 # 0x43 # 0xcf # 0xa2 # 0xf4 # 0xd2 # 0xde # 0xa3 # 0x1a # 0xca # 0x53 # 0x78 # 0x52 # 0x18 # 0x44 #
      0xfc # 0x34 # 0x21 # 0x4c # 0x2a # 0xc6 # 0xa4 # 0x96 # 0x6f # 0x1e # 0xf6 # 0x85 # 0x67 # 0x65 # 0x17 # 0x29 #
      0x24 # 0x0c # 0x40 # 0x06 # 1 # 0x33 # 0xbb # 0x06 # 0x7e # 0x76 # 0x13 # 0x6f # 0xf8 # 0x62 # 0xfa # 0x53 #
      0x48 # 0xbc # 0xec # 0x79 # 0xac # 0x3e # 0x26 # 0x38 # 0x09 # 0x20 # 0x72 # 0x11 # 0x30 # 0xee # 0xd4 # 0xdd #
      0x50 # 0xbe # 0xd3 # 0x3a # 0x22 # 0xba # 0x28 # 0x16 # 0x98 # 0xc4 # 0x54 # 0x43 # 0x1f # 0x9e # 0xa7 # 0xd7 #
      0xa9 # 0x72 # 0xd8 # 0xd0 # 0x87 # 0x7e # 0xc4 # 0x05 # 0x2d # 0x9b # 0xe3 # 0xdc # 0x37 # 0x87 # 0x2c # 0x04 #
      1 # 0x98 # 0x42 # 0x0b # 0x19 # 0xd7 # 0xee # 0x74 # 0x0e # 0x0c # 0x96 # 0xa0 # 0xe8 # 0x18 # 0x40 # 0x5c # rest) =
   sha_blocks (Sha 0x7d5cdf54 0x3df8f4ca 0x73169b8e 0x61759853 0x53112cc3 0x832df0c9 0x95f2a165 0x5c8a1b88) rest"
  by (simp only: sha_eval)

lemma fp_c1_code0_pass_3:
  "sha_blocks (Sha 0x7d5cdf54 0x3df8f4ca 0x73169b8e 0x61759853 0x53112cc3 0x832df0c9 0x95f2a165 0x5c8a1b88)
     (0xc3 # 0x84 # 0x73 # 0x85 # 0x1a # 0x7b # 0xcc # 0x2a # 0x34 # 0x02 # 0x73 # 0xb3 # 0x79 # 0x3d # 0xff # 0xec #
      0x15 # 0x42 # 0xd9 # 0x07 # 0x85 # 0x28 # 0x8d # 0xea # 0x64 # 0xae # 0x9c # 0xd8 # 0x0a # 0x78 # 0x6b # 0xfb #
      0x8b # 0xb6 # 0x38 # 0x7e # 0x59 # 0 # 0x2e # 0x64 # 0x5b # 0x78 # 0x7b # 0xec # 0x9c # 0x06 # 0xbc # 0x77 #
      0xdb # 0xae # 0x59 # 0x21 # 0xc3 # 0xc0 # 0x0a # 0xc8 # 0x38 # 0xa9 # 0xad # 0x72 # 0x2f # 0xe6 # 0xe0 # 0x14 #
      0x4d # 0x1a # 0x6c # 0xd6 # 0x19 # 0x05 # 0xa5 # 0x3d # 0x69 # 0xd4 # 0xf2 # 0xcf # 0x7c # 0x88 # 0x67 # 0x49 #
      0x4f # 0x99 # 0xbc # 0x1e # 0xd9 # 0xd6 # 0x3b # 0x42 # 0x92 # 0x1a # 0xc9 # 0x69 # 0x58 # 0xba # 0x90 # 0x38 #
      0x2b # 0x5f # 0x1b # 0x6a # 0xd5 # 0x4e # 0x86 # 0xef # 0xef # 0x3c # 0x3c # 0xfb # 0x08 # 0x45 # 0x9d # 0xd7 #
      0x8d # 1 # 0x4a # 0xb2 # 0x45 # 0x29 # 0xab # 0x23 # 0x27 # 0x4b # 0x58 # 0x8d # 0x1b # 0x9d # 0x18 # 0x3c # rest) =
   sha_blocks (Sha 0x1f564165 0xa1a0c0fd 0xf7b6ca36 0xe5e751a6 0x80e4aef2 0x87975c51 0x262c42fc 0xe539e3bf) rest"
  by (simp only: sha_eval)

lemma fp_c1_code0_pass_4:
  "sha_blocks (Sha 0x1f564165 0xa1a0c0fd 0xf7b6ca36 0xe5e751a6 0x80e4aef2 0x87975c51 0x262c42fc 0xe539e3bf)
     (0x0f # 0xab # 0x41 # 0xfd # 0xf6 # 0xf4 # 0x77 # 0xe1 # 0x24 # 0x91 # 0x0c # 0xbd # 0xa9 # 0x6a # 0xbd # 0xba #
      0xf2 # 0x8d # 0xe2 # 0x02 # 0x4c # 0xf3 # 0x40 # 0x28 # 0x36 # 0x6f # 0xfb # 0x2f # 0xfb # 0xa9 # 0x41 # 0x0e #
      0x85 # 0x82 # 0x26 # 0xe1 # 0xbc # 0xa9 # 0xd2 # 0x21 # 0x95 # 0xf2 # 0x27 # 0x7a # 0x30 # 0xef # 0xd5 # 0x7c #
      0xda # 0xc3 # 0x83 # 0x05 # 0xf7 # 0x45 # 0x41 # 0x8a # 0xa8 # 0xf7 # 0xb3 # 0x20 # 0x9c # 0xb8 # 0x3e # 0xa5 #
      0x7a # 0x7a # 0x66 # 0x98 # 0x15 # 0x36 # 0xae # 0xc4 # 0xa8 # 0x31 # 0x5c # 0x7b # 0x03 # 0x8b # 0x7e # 0x78 #
      0x09 # 0x52 # 0x43 # 0xe2 # 0xe0 # 0x4d # 0x49 # 0x31 # 0xc3 # 0x18 # 0x3c # 0x63 # 0x77 # 0x8a # 0x5d # 0x2d #
      0x3a # 0x5c # 0x6c # 0xe9 # 0xde # 0x1c # 0x9d # 0x48 # 0xf4 # 0xbc # 0xa7 # 0x50 # 0x1d # 0x75 # 0x3b # 0x4e #
      0xbd # 0xb6 # 0x2d # 0x0f # 0x64 # 0x2a # 0x79 # 0x6b # 0x9e # 0xa7 # 0xe9 # 0x1d # 0xd6 # 0x22 # 0x95 # 0xd8 # rest) =
   sha_blocks (Sha 0x7bb76ddc 0x7f904de8 0x167ab184 0x9c9504a7 0xcde0ce5f 0x752feb48 0x379ab563 0xa9b79b28) rest"
  by (simp only: sha_eval)

lemma fp_c1_code0_pass_5:
  "sha_blocks (Sha 0x7bb76ddc 0x7f904de8 0x167ab184 0x9c9504a7 0xcde0ce5f 0x752feb48 0x379ab563 0xa9b79b28)
     (0xd2 # 0x28 # 0xb2 # 0xdc # 0x8f # 0x60 # 0xf2 # 0xe8 # 0x77 # 0xc3 # 0x86 # 0x9b # 0xf4 # 0xc6 # 0x7e # 0xc4 #
      0xea # 0x58 # 0xcc # 0x74 # 0xf1 # 0x32 # 0x4e # 0x17 # 0x9a # 0x2f # 0x31 # 0x03 # 0x18 # 0x10 # 0x5c # 0xaf #
      0xf3 # 0xcf # 0xc0 # 0xe2 # 0x89 # 0x7f # 0xfc # 0x19 # 0x1b # 0x8b # 0xc3 # 0x0b # 0x89 # 0x86 # 0x59 # 0xb4 #
      0x82 # 0x4a # 0xb9 # 0xa1 # 0x69 # 0x7f # 0x08 # 0x18 # 0x75 # 0xb4 # 0xf8 # 0x7f # 0x49 # 0xc9 # 0xc3 # 0xae #
      0xfa # 0x13 # 0xf9 # 0xd3 # 0xc7 # 0xbd # 0x78 # 0xa7 # 0xfd # 0x72 # 0xd9 # 0xb4 # 0xa6 # 0x6b # 0xcb # 0x6d #
      0xdd # 0xea # 0xa1 # 0x24 # 0x5d # 0x99 # 0x51 # 0xad # 0x6e # 0x27 # 0x23 # 0x22 # 0x8a # 0x68 # 0x5e # 0x03 #
      0x9d # 0xf4 # 0x34 # 0xd2 # 0xf4 # 0x3f # 0xdb # 0x17 # 0x1d # 0x63 # 0x6e # 0xa9 # 0x22 # 0xbe # 0xda # 0xf7 #
      0x45 # 0x91 # 0x81 # 0x62 # 0xb9 # 0xaf # 0xeb # 0x96 # 0x27 # 0x9a # 0x87 # 0x07 # 0x5d # 0xa8 # 0x9a # 0x60 # rest) =
   sha_blocks (Sha 0xc73cde1b 0xefa40327 0x28e5006a 0xb5376faa 0xe5c628c2 0x626ae859 0x968366b3 0x97363406) rest"
  by (simp only: sha_eval)

lemma fp_c1_code0_pass_6:
  "sha_blocks (Sha 0xc73cde1b 0xefa40327 0x28e5006a 0xb5376faa 0xe5c628c2 0x626ae859 0x968366b3 0x97363406)
     (0x3d # 0x1c # 0x84 # 0x29 # 0xf9 # 0x48 # 0x50 # 0x2e # 0xcd # 0xa8 # 0xfe # 0xf4 # 0xdb # 0x6d # 0x23 # 0xb6 #
      0xeb # 0xef # 0xcd # 0x23 # 0x72 # 0xd5 # 0xb3 # 0xe4 # 0x8e # 0x0a # 0x74 # 0x30 # 0x07 # 0xbc # 0x22 # 0xc6 #
      0x04 # 0xcb # 0xfa # 0xc7 # 0xb9 # 0x52 # 0xd5 # 0x4d # 0x8b # 0xbe # 0xa3 # 0xad # 0x5b # 0x09 # 0x76 # 0x4f #
      0x19 # 0x3f # 0x78 # 0xde # 0x2b # 0xac # 0xac # 0x12 # 0x7f # 0x1e # 0x6a # 0x9c # 0x78 # 0xeb # 0x13 # 0xbd #
      0x52 # 0x09 # 0x64 # 0xf2 # 0x46 # 0x28 # 0x24 # 0x76 # 0x78 # 0xd9 # 0x62 # 0x97 # 0x98 # 0x54 # 0x86 # 0x1d #
      0x29 # 0x50 # 0xdb # 0x42 # 0x08 # 0x61 # 0x78 # 0xf4 # 0xf9 # 0xfc # 0xcf # 1 # 0xa2 # 0x15 # 0x62 # 0x5f #
      0xb1 # 0xb9 # 0xbb # 0x44 # 0xb1 # 0xb7 # 0xd7 # 0x99 # 0x0a # 0x45 # 0x7a # 0xe4 # 0xe4 # 0xd8 # 0x38 # 0xa6 #
      0x3d # 0xf3 # 0x6f # 0x54 # 0x44 # 0x9b # 0x57 # 0xeb # 0x65 # 0x92 # 0xbd # 0xa5 # 0x1d # 0x86 # 0xfb # 0x97 # rest) =
   sha_blocks (Sha 0x57116dd5 0xe04b4af9 0xcc473372 0x71170ef0 0x9ec91c99 0x629bae2e 0x896f5dd1 0xc4e394fd) rest"
  by (simp only: sha_eval)

lemma fp_c1_code0_pass_7:
  "sha_blocks (Sha 0x57116dd5 0xe04b4af9 0xcc473372 0x71170ef0 0x9ec91c99 0x629bae2e 0x896f5dd1 0xc4e394fd)
     (0 # 0x1b # 0xf0 # 0xae # 0x3f # 0xac # 0xba # 0x74 # 0x72 # 0xd5 # 0x59 # 0x7c # 0x20 # 0xf3 # 0x4e # 0x92 #
      0x11 # 0xa0 # 0xf3 # 0xdc # 0xbf # 0xbd # 0x19 # 0x7d # 0xd6 # 0xb1 # 0x2f # 0xb3 # 0xfd # 0xe7 # 0x5c # 0x9b #
      0x72 # 0x0a # 0xf8 # 0x20 # 0xc9 # 0x91 # 0x0b # 0xa6 # 0xf1 # 0xae # 0x32 # 0x56 # 0x06 # 0x68 # 0x55 # 0 #
      0x3f # 0xa0 # 0x65 # 0x9a # 0x15 # 0xc7 # 0x2e # 0xbc # 0x07 # 0x4c # 0x21 # 0x48 # 0xfd # 0x86 # 0xd2 # 0x77 #
      0xc5 # 0x84 # 0xa5 # 0xaf # 0x83 # 0x06 # 0xe2 # 0xc4 # 0x16 # 0x85 # 0x44 # 0x7e # 0x92 # 0x8f # 0x35 # 0x8a #
      0x45 # 0x48 # 0xe6 # 0xae # 0xd4 # 0x6e # 0xf9 # 1 # 0x70 # 0xa8 # 0xaf # 0x4c # 0xba # 0x53 # 0xad # 0x09 #
      0x77 # 0x8f # 0xae # 0xaa # 0x5c # 0x26 # 0x40 # 0x7b # 0xf7 # 0x25 # 0x84 # 0x0b # 0xab # 0x40 # 0x0d # 0xb2 #
      0x5a # 0x99 # 0x11 # 0x5b # 0xd5 # 0x28 # 0x58 # 0x48 # 0xf9 # 0x1f # 0xd4 # 0xcf # 0xbc # 0x9b # 0x15 # 0xea # rest) =
   sha_blocks (Sha 0xfbc1c21a 0xd0ff132b 0x8b7bd1ac 0xdd78864b 0x3ed97f4e 0x9921aa56 0x0109fb03 0xb102cf16) rest"
  by (simp only: sha_eval)

lemma fp_c1_code0_pass_8:
  "sha_blocks (Sha 0xfbc1c21a 0xd0ff132b 0x8b7bd1ac 0xdd78864b 0x3ed97f4e 0x9921aa56 0x0109fb03 0xb102cf16)
     (0xf3 # 0x97 # 0xed # 0x77 # 0x1b # 0x15 # 0xbc # 0xeb # 0x9d # 0xf6 # 0x09 # 0xd2 # 0x0a # 0xd0 # 0x83 # 0xa8 #
      0x59 # 0x63 # 0x85 # 0x77 # 0x89 # 0x31 # 0x1c # 0 # 0x64 # 0xb6 # 0xb7 # 0xd5 # 0xa3 # 0x21 # 0xe4 # 0x38 #
      0xec # 0xbd # 0xf9 # 0x9f # 0x2c # 0x1d # 0xfb # 0xef # 0xee # 0x28 # 0xda # 0x75 # 0x98 # 0xe9 # 0x74 # 0x3f #
      0x98 # 0xd8 # 0x67 # 0x08 # 0x82 # 0x12 # 0x6d # 0x11 # 0xef # 0x75 # 0x74 # 0x89 # 0x69 # 0xaa # 0x71 # 0x8d #
      0x46 # 0xdb # 0xd1 # 0x99 # 0xd9 # 0xe1 # 0xe5 # 0x4a # 0xa4 # 0x4f # 0xbb # 0x6e # 0x40 # 1 # 0x86 # 0x43 #
      0x02 # 0x03 # 0xc5 # 0xa0 # 0x16 # 0x6f # 0xf9 # 0x6c # 0xb1 # 0xe2 # 0xf8 # 0xcc # 0x9a # 0x4e # 0x27 # 0xb3 #
      0x80 # 0x58 # 0x6f # 0x59 # 0x7e # 0x58 # 0xe9 # 0x4a # 0xbe # 0xb2 # 0x0e # 0x38 # 0x40 # 0xfd # 0x8d # 0x60 #
      0x5f # 0x97 # 0x52 # 0x99 # 0x58 # 0x9d # 0x9c # 0xd0 # 0x92 # 0xef # 0x98 # 0x6d # 0x8d # 0x7b # 0xc7 # 0x88 # rest) =
   sha_blocks (Sha 0x3571ab70 0x6f9354a5 0xd8d04182 0x3a4107d7 0xc4e6f7ec 0xbde0c993 0xfc6f3f0d 0xbe028b72) rest"
  by (simp only: sha_eval)

lemma fp_c1_code0_pass_9:
  "sha_blocks (Sha 0x3571ab70 0x6f9354a5 0xd8d04182 0x3a4107d7 0xc4e6f7ec 0xbde0c993 0xfc6f3f0d 0xbe028b72)
     (0x45 # 0xfc # 0x42 # 0xfa # 0xc6 # 0xad # 0x6d # 0x8b # 0x30 # 0xaf # 0x9a # 0xd8 # 0x6c # 0xe1 # 0x23 # 0xde #
      0x51 # 0x2e # 0xc8 # 0xf6 # 0xa7 # 0xa2 # 0x1a # 0x92 # 0xeb # 0xb4 # 0x49 # 0x1a # 0x18 # 0x89 # 0x47 # 0x8d #
      0x23 # 0x8e # 0x94 # 0x74 # 0x1c # 0x37 # 0xff # 0xb8 # 0x3d # 0x4e # 0x95 # 0x40 # 0x03 # 0x70 # 0xf0 # 0xcd #
      0xed # 0xa5 # 0x87 # 0x8d # 0x80 # 0x9c # 0x5c # 0x03 # 0x54 # 0x25 # 0xe5 # 0x65 # 0x53 # 0x6d # 0x3e # 0xab #
      0xe4 # 0x06 # 0x62 # 0x8c # 0x2b # 0xcf # 0x64 # 0x46 # 0xd9 # 0x4c # 0x24 # 0x16 # 0x25 # 0xed # 0x1f # 0x94 #
      0x5f # 0x48 # 0xf1 # 0x48 # 0x0e # 0xd2 # 0x72 # 0x71 # 0x42 # 0xce # 0x97 # 0x28 # 0x48 # 0x33 # 0xd8 # 0x40 #
      0xe5 # 0x28 # 0x0e # 0x07 # 0x4b # 0x08 # 0x85 # 0xfa # 0x5d # 0x48 # 0x1f # 0x20 # 0xf7 # 0x8e # 0x91 # 0x6d #
      0x30 # 0x39 # 0x3d # 0x30 # 0x7b # 0x96 # 0xd4 # 0x26 # 0x1a # 0x9c # 0xab # 0x91 # 0x16 # 0x91 # 0 # 0xe4 # rest) =
   sha_blocks (Sha 0x75bb05bb 0xb3baf0ae 0xf849b9c8 0x010e0f27 0xddc48df7 0x39538609 0xc7b3fb30 0xfc628035) rest"
  by (simp only: sha_eval)

lemma fp_c1_code0_pass_10:
  "sha_blocks (Sha 0x75bb05bb 0xb3baf0ae 0xf849b9c8 0x010e0f27 0xddc48df7 0x39538609 0xc7b3fb30 0xfc628035)
     (0x69 # 0xaf # 0x8f # 0xf8 # 0x8c # 0x61 # 0x39 # 0x43 # 0xba # 0x0f # 0x6c # 0xbe # 0x7b # 0xd7 # 0x72 # 0x04 #
      0x92 # 0xb6 # 0x17 # 0x62 # 0xbe # 0x6d # 0x75 # 0x6f # 0x6b # 0x9b # 0x57 # 0xf6 # 0x7a # 0xbd # 0x48 # 0xda #
      0x27 # 0xfa # 0xa9 # 0xf3 # 0x6c # 0x95 # 0x68 # 0x73 # 0x5c # 0x15 # 0xcb # 0xef # 0x97 # 0x02 # 0x1f # 0xbb #
      0x76 # 0x03 # 0x0d # 0x70 # 0x0d # 0x0b # 0xa8 # 0xb4 # 0xc4 # 0xf8 # 0x3c # 0x61 # 0xce # 0xa9 # 0x86 # 0xc4 #
      0x1c # 0xb6 # 0x67 # 0x48 # 0x83 # 0xf6 # 0x4e # 0x82 # 0x44 # 0x86 # 0xfb # 0x55 # 0xab # 0x22 # 0xf3 # 1 #
      0x91 # 0x2a # 0x1e # 0x9e # 0x5f # 0xf6 # 0x64 # 0x02 # 0x18 # 0x82 # 0x2b # 0xb3 # 0x45 # 0x7d # 0x45 # 0x48 #
      0x11 # 0x9c # 0x83 # 0xc3 # 0xd3 # 0x68 # 0xcf # 0x35 # 0xa9 # 0xd5 # 0x5a # 0xc2 # 0xfd # 0xba # 0xa7 # 0x54 #
      0x69 # 0x3a # 0xa9 # 0xc7 # 0x1c # 0x07 # 0x94 # 0xe1 # 0xfa # 0x92 # 0xe7 # 0x85 # 0x92 # 0x85 # 0x27 # 0x27 # rest) =
   sha_blocks (Sha 0x4ed540e3 0x3b16df0b 0x59f847f6 0x7c07cae9 0x7bb86f03 0xea36f9db 0xa730e0e8 0xf215844b) rest"
  by (simp only: sha_eval)

lemma fp_c1_code0_pass_11:
  "sha_blocks (Sha 0x4ed540e3 0x3b16df0b 0x59f847f6 0x7c07cae9 0x7bb86f03 0xea36f9db 0xa730e0e8 0xf215844b)
     (0x33 # 0xea # 0x4d # 0xa9 # 0xaa # 0x17 # 0xac # 0xa9 # 0xf9 # 0x7f # 0x5a # 0xc6 # 0x3e # 0x92 # 0x0e # 0xe3 #
      0xba # 0x7a # 0xe5 # 0x8d # 0x5d # 0x2a # 0x85 # 0xcf # 0x82 # 0xcc # 0x21 # 0xd0 # 0x94 # 0x34 # 0x8b # 0xce #
      0xc2 # 0x07 # 0x68 # 0x98 # 0x0d # 0x69 # 0x4a # 0x3b # 0xc8 # 0xbb # 0x32 # 0xe4 # 0xa7 # 0x19 # 0xf6 # 0x6c #
      0xf0 # 0xa6 # 0xae # 0x4d # 0x67 # 0x6f # 0xe6 # 0x35 # 0xd6 # 0x4b # 0xb3 # 0x60 # 0x40 # 0x2f # 0x9c # 0x41 #
      0x2a # 0x8f # 0xf8 # 0x3f # 0x6a # 0x7d # 0xbb # 0xb0 # 0x67 # 0x1e # 0x35 # 0x24 # 0xa1 # 0x3b # 0xac # 0x53 #
      0xb4 # 0x17 # 0x18 # 0xb8 # 0x02 # 0x5c # 0x31 # 0xd1 # 0xfc # 0xcf # 0xfe # 0x41 # 0x7b # 0x39 # 0xc6 # 0x3a #
      0x80 # 0 # 0 # 0 # 0 # 0 # 0 # 0 # 0 # 0 # 0 # 0 # 0 # 0 # 0 # 0 #
      0 # 0 # 0 # 0 # 0 # 0 # 0 # 0 # 0 # 0 # 0 # 0 # 0 # 0 # 0x31 # 0 # rest) =
   sha_blocks (Sha 0x48671870 0x423c2b12 0x1736d60c 0xfb10019c 0xbd1ca350 0x1c2f24c3 0x16588fe8 0xd45d02c7) rest"
  by (simp only: sha_eval)

lemma fp_c1_code0_end:
  "sha_blocks (Sha 0x941c2d2d 0xa04e9891 0x26ab56a5 0xa3d018f6 0xccc062d3 0xa0c3be23 0xbd8451ab 0x3f597e24)
     (0x48 # 0x67 # 0x18 # 0x70 # 0x42 # 0x3c # 0x2b # 0x12 # 0x17 # 0x36 # 0xd6 # 0x0c # 0xfb # 0x10 # 1 # 0x9c #
      0xbd # 0x1c # 0xa3 # 0x50 # 0x1c # 0x2f # 0x24 # 0xc3 # 0x16 # 0x58 # 0x8f # 0xe8 # 0xd4 # 0x5d # 0x02 # 0xc7 #
      0x80 # 0 # 0 # 0 # 0 # 0 # 0 # 0 # 0 # 0 # 0 # 0 # 0 # 0 # 0 # 0 #
      0 # 0 # 0 # 0 # 0 # 0 # 0 # 0 # 0 # 0 # 0 # 0 # 0 # 0 # 0x03 # 0 # rest) =
   sha_blocks (Sha 0xff5dbfe9 0x49d90fa9 0xdb0d42cb 0x38120c38 0x61f777c4 0x8984f107 0x8809380a 0xdfd53495) rest"
  by (simp only: sha_eval)

lemma fp_c1_code0_digest:
  "sha_blocks (Sha 0xab9b2043 0x9d576b06 0x90cc6d17 0x9e2d20d9 0x430bbd1c 0x0a5165be 0xc8af2193 0x406c37fe) (strip 692 fp_c1 @ sha_tail 1568) =
     Sha 0x48671870 0x423c2b12 0x1736d60c 0xfb10019c 0xbd1ca350 0x1c2f24c3 0x16588fe8 0xd45d02c7"
  by (simp add: strip_def fp_c1_def sha_tail_1568 fp_c1_code0_pass_0 fp_c1_code0_pass_1 fp_c1_code0_pass_2 fp_c1_code0_pass_3 fp_c1_code0_pass_4 fp_c1_code0_pass_5 fp_c1_code0_pass_6 fp_c1_code0_pass_7 fp_c1_code0_pass_8 fp_c1_code0_pass_9 fp_c1_code0_pass_10 fp_c1_code0_pass_11 sha_blocks_Nil)

lemma fp_c1_code0:
  "calculateHMACsha256 (strip 692 fp_c1) (take 30 GENUINE_FP_KEY) =
     [0xff, 0x5d, 0xbf, 0xe9, 0x49, 0xd9, 0x0f, 0xa9, 0xdb, 0x0d, 0x42, 0xcb, 0x38, 0x12, 0x0c,
      0x38, 0x61, 0xf7, 0x77, 0xc4, 0x89, 0x84, 0xf1, 0x07, 0x88, 0x09, 0x38, 0x0a, 0xdf, 0xd5,
      0x34, 0x95]"
proof -
  have bytes: "sha_bytes (Sha 0x48671870 0x423c2b12 0x1736d60c 0xfb10019c 0xbd1ca350 0x1c2f24c3 0x16588fe8 0xd45d02c7) =
      [0x48, 0x67, 0x18, 0x70, 0x42, 0x3c, 0x2b, 0x12, 0x17, 0x36, 0xd6, 0x0c, 0xfb, 0x10, 1, 0x9c,
       0xbd, 0x1c, 0xa3, 0x50, 0x1c, 0x2f, 0x24, 0xc3, 0x16, 0x58, 0x8f, 0xe8, 0xd4, 0x5d, 0x02,
       0xc7]"
    by (simp add: be32_put_def)
  have len: "64 + length (strip 692 fp_c1) = 1568" by (simp add: strip_def fp_c1_def)
  have "calculateHMACsha256 (strip 692 fp_c1) (take 30 GENUINE_FP_KEY) = sha_bytes (Sha 0xff5dbfe9 0x49d90fa9 0xdb0d42cb 0x38120c38 0x61f777c4 0x8984f107 0x8809380a 0xdfd53495)"
    unfolding player_mac len fp_c1_code0_digest bytes
    by (simp only: sha_tail_96 append_Cons append_Nil fp_c1_code0_end sha_blocks_Nil)
  then show ?thesis by (simp add: be32_put_def)
qed

lemma fp_c1_code0_signed: "\<not> signed 0 (take 30 GENUINE_FP_KEY) fp_c1"
proof -
  have "digest_at 692 fp_c1 =
     [0xe1, 0xe0, 0x52, 0xcf, 0x8c, 0x9b, 0x5d, 0x14, 0x42, 0x4b, 0x96, 0xcb, 0x46, 0x73, 0xbf, 1,
      0x52, 0x8b, 0x03, 0xee, 0xdd, 0x84, 0x23, 0xd1, 0x27, 0xa1, 0x8e, 0x32, 0x80, 0x5e, 0xbd, 0x91]"
    by (simp add: digest_at_def fp_c1_def)
  then show ?thesis unfolding signed_def fp_c1_offset0 fp_c1_code0 by simp
qed

lemma fp_c1_code1_pass_0:
  "sha_blocks (Sha 0xab9b2043 0x9d576b06 0x90cc6d17 0x9e2d20d9 0x430bbd1c 0x0a5165be 0xc8af2193 0x406c37fe)
     (0 # 0xe7 # 0x41 # 0xd4 # 0x80 # 0 # 0x07 # 0x02 # 0xbb # 0xab # 0xec # 0x56 # 0x37 # 0x87 # 0x70 # 0x67 #
      0x04 # 0x02 # 0xf1 # 0x8b # 0x36 # 0x55 # 0xd9 # 0x2d # 0x59 # 0x6b # 0xf4 # 0x66 # 0xd7 # 0xbe # 0xdc # 0x4a #
      0xff # 0xc2 # 0x4f # 0xdc # 0x33 # 0x12 # 0x06 # 0x43 # 0x65 # 0x7b # 0x1f # 0x86 # 0x68 # 0x0f # 0xfd # 0x5e #
      0x37 # 0x13 # 0x0e # 0xf2 # 0x6e # 0x83 # 0xc3 # 0x41 # 0x0a # 0x76 # 0x54 # 0x30 # 0x0a # 0x7b # 0x8d # 0x86 #
      0x71 # 0xa2 # 0x3f # 0x50 # 0x42 # 0xcf # 0x27 # 0x75 # 0xd5 # 0xf7 # 0x5e # 0x74 # 0xf7 # 0x62 # 0xa1 # 0xed #
      0xf9 # 0xf7 # 0xf8 # 0x53 # 0xde # 0xcf # 0x0e # 0xfa # 0x60 # 0xd9 # 0xb1 # 0x96 # 0x5f # 0x2f # 0xeb # 0xb0 #
      0x5c # 0x50 # 0 # 0x08 # 0x5b # 0xc6 # 0x61 # 0x69 # 0x2e # 0x69 # 0x54 # 0xe0 # 0x64 # 0x37 # 0xa0 # 0xec #
      0xe1 # 0xd4 # 0xa3 # 0xca # 0x1f # 0xd5 # 0x3b # 0x7c # 0xdf # 0x24 # 0xe4 # 0x74 # 0xf7 # 0x95 # 0x3b # 0xa6 # rest) =
   sha_blocks (Sha 0xbd9ab5bb 0xddb09c0c 0x13a7450a 0x2c77c947 0x7e53b51f 0xa355d293 0x52c7b59a 0x27d0e2aa) rest"
  by (simp only: sha_eval)

lemma fp_c1_code1_pass_1:
  "sha_blocks (Sha 0xbd9ab5bb 0xddb09c0c 0x13a7450a 0x2c77c947 0x7e53b51f 0xa355d293 0x52c7b59a 0x27d0e2aa)
     (0xd9 # 0xc0 # 0x38 # 0xb6 # 0xa8 # 0x98 # 0xcf # 0x6f # 0x1f # 0x5c # 0x93 # 0x36 # 0x6e # 0x6f # 0x0c # 0xc6 #
      0x47 # 0x12 # 0x93 # 0xb7 # 0xa1 # 0x22 # 0x1b # 0x7f # 0x98 # 0xad # 0x43 # 0xb5 # 0xc7 # 0xe3 # 0x64 # 0xfe #
      0x16 # 0x31 # 0xb7 # 0x41 # 0x7f # 0xf8 # 0x6c # 0x22 # 0x25 # 0x02 # 0x7d # 0x53 # 0xf6 # 0x7f # 0xb5 # 0x7c #
      0x85 # 0x8b # 0x18 # 0x95 # 0x88 # 0x1d # 0xbc # 0xf3 # 0x18 # 0x27 # 0x49 # 0x1a # 0x7b # 0xdb # 0xac # 0x21 #
      0x6b # 0x09 # 0x2f # 0x4b # 0x3c # 0x0f # 0xeb # 0x95 # 0x1e # 0x0d # 0x34 # 0xe2 # 0x3e # 0x24 # 0xfe # 0xb4 #
      0xca # 0x7b # 0xf6 # 0xb8 # 0xdc # 0xa3 # 0x8e # 0x97 # 0xa8 # 0xc2 # 0x06 # 0x07 # 0x23 # 0x0c # 0x7d # 0xe2 #
      0x4d # 0x72 # 0x5d # 0x40 # 0x81 # 0x8e # 0x6a # 0x17 # 0xbc # 0x70 # 0xbf # 0xf5 # 0x88 # 0x42 # 0x6d # 0x74 #
      0xc7 # 0xaa # 0x77 # 0x7f # 0x0d # 0xa2 # 0x94 # 0x4c # 0x16 # 0xe8 # 0x6d # 0x8f # 0xc1 # 0x39 # 0xc4 # 0xf8 # rest) =
   sha_blocks (Sha 0x2ce862f5 0xf40a2635 0x9afb801f 0x42f1c522 0xcfcf4926 0x5a6d4693 0x42046b6c 0xf9273570) rest"
  by (simp only: sha_eval)

lemma fp_c1_code1_pass_2:
  "sha_blocks (Sha 0x2ce862f5 0xf40a2635 0x9afb801f 0x42f1c522 0xcfcf4926 0x5a6d4693 0x42046b6c 0xf9273570)
     (0x09 # 0x38 # 0x92 # 0x90 # 0xf3 # 0x98 # 0x82 # 0xa6 # 0x2e # 0xbc # 0x52 # 0xa2 # 0x14 # 0xed # 0x16 # 0x28 #
      0x2d # 0xc1 # 0x43 # 0xcf # 0xa2 # 0xf4 # 0xd2 # 0xde # 0xa3 # 0x1a # 0xca # 0x53 # 0x78 # 0x52 # 0x18 # 0x44 #
      0xfc # 0x34 # 0x21 # 0x4c # 0x2a # 0xc6 # 0xa4 # 0x96 # 0x6f # 0x1e # 0xf6 # 0x85 # 0x67 # 0x65 # 0x17 # 0x29 #
      0x24 # 0x0c # 0x40 # 0x06 # 1 # 0x33 # 0xbb # 0x06 # 0x7e # 0x76 # 0x13 # 0x6f # 0xf8 # 0x62 # 0xfa # 0x53 #
      0x48 # 0xbc # 0xec # 0x79 # 0xac # 0x3e # 0x26 # 0x38 # 0x09 # 0x20 # 0x72 # 0x11 # 0x30 # 0xee # 0xd4 # 0xdd #
      0x50 # 0xbe # 0xd3 # 0x3a # 0x22 # 0xba # 0x28 # 0x16 # 0x98 # 0xc4 # 0x54 # 0x43 # 0x1f # 0x9e # 0xa7 # 0xd7 #
      0xa9 # 0x72 # 0xd8 # 0xd0 # 0x87 # 0x7e # 0xc4 # 0x05 # 0x2d # 0x9b # 0xe3 # 0xdc # 0x37 # 0x87 # 0x2c # 0x04 #
      1 # 0x98 # 0x42 # 0x0b # 0x19 # 0xd7 # 0xee # 0x74 # 0x0e # 0x0c # 0x96 # 0xa0 # 0xe8 # 0x18 # 0x40 # 0x5c # rest) =
   sha_blocks (Sha 0x7d5cdf54 0x3df8f4ca 0x73169b8e 0x61759853 0x53112cc3 0x832df0c9 0x95f2a165 0x5c8a1b88) rest"
  by (simp only: sha_eval)

lemma fp_c1_code1_pass_3:
  "sha_blocks (Sha 0x7d5cdf54 0x3df8f4ca 0x73169b8e 0x61759853 0x53112cc3 0x832df0c9 0x95f2a165 0x5c8a1b88)
     (0xc3 # 0x84 # 0x73 # 0x85 # 0x1a # 0x7b # 0xcc # 0x2a # 0x34 # 0x02 # 0x73 # 0xb3 # 0x79 # 0x3d # 0xff # 0xec #
      0x15 # 0x42 # 0xd9 # 0x07 # 0x85 # 0x28 # 0x8d # 0xea # 0x64 # 0xae # 0x9c # 0xd8 # 0x0a # 0x78 # 0x6b # 0xfb #
      0x8b # 0xb6 # 0x38 # 0x7e # 0x59 # 0 # 0x2e # 0x64 # 0x5b # 0x78 # 0x7b # 0xec # 0x9c # 0x06 # 0xbc # 0x77 #
      0xdb # 0xae # 0x59 # 0x21 # 0xc3 # 0xc0 # 0x0a # 0xc8 # 0x38 # 0xa9 # 0xad # 0x72 # 0x2f # 0xe6 # 0xe0 # 0x14 #
      0x4d # 0x1a # 0x6c # 0xd6 # 0x19 # 0x05 # 0xa5 # 0x3d # 0x69 # 0xd4 # 0xf2 # 0xcf # 0x7c # 0x88 # 0x67 # 0x49 #
      0x4f # 0x99 # 0xbc # 0x1e # 0xd9 # 0xd6 # 0x3b # 0x42 # 0x92 # 0x1a # 0xc9 # 0x69 # 0x58 # 0xba # 0x90 # 0x38 #
      0x2b # 0x5f # 0x1b # 0x6a # 0xd5 # 0x4e # 0x86 # 0xef # 0xef # 0x3c # 0x3c # 0xfb # 0x08 # 0x45 # 0x9d # 0xd7 #
      0x8d # 1 # 0x4a # 0xb2 # 0x45 # 0x29 # 0xab # 0x23 # 0x27 # 0x4b # 0x58 # 0x8d # 0x1b # 0x9d # 0x18 # 0x3c # rest) =
   sha_blocks (Sha 0x1f564165 0xa1a0c0fd 0xf7b6ca36 0xe5e751a6 0x80e4aef2 0x87975c51 0x262c42fc 0xe539e3bf) rest"
  by (simp only: sha_eval)

lemma fp_c1_code1_pass_4:
  "sha_blocks (Sha 0x1f564165 0xa1a0c0fd 0xf7b6ca36 0xe5e751a6 0x80e4aef2 0x87975c51 0x262c42fc 0xe539e3bf)
     (0x0f # 0xab # 0x41 # 0xfd # 0xf6 # 0xf4 # 0x77 # 0xe1 # 0x24 # 0x91 # 0x0c # 0xbd # 0xa9 # 0x6a # 0xbd # 0xba #
      0xf2 # 0x8d # 0xe2 # 0x02 # 0x4c # 0xf3 # 0x40 # 0x28 # 0x36 # 0x6f # 0xfb # 0x2f # 0xfb # 0xa9 # 0x41 # 0x0e #
      0x85 # 0x82 # 0x26 # 0xe1 # 0xbc # 0xa9 # 0xd2 # 0x21 # 0x95 # 0xf2 # 0x27 # 0x7a # 0x30 # 0xef # 0xd5 # 0x7c #
      0xda # 0xc3 # 0x83 # 0x05 # 0xf7 # 0x45 # 0x41 # 0x8a # 0xa8 # 0xf7 # 0xb3 # 0x20 # 0x9c # 0xb8 # 0x3e # 0xa5 #
      0x7a # 0x7a # 0x66 # 0x98 # 0x15 # 0x36 # 0xae # 0xc4 # 0xa8 # 0x31 # 0x5c # 0x7b # 0x03 # 0x8b # 0x7e # 0x78 #
      0x09 # 0x52 # 0x43 # 0xe2 # 0xe0 # 0x4d # 0x49 # 0x31 # 0xc3 # 0x18 # 0x3c # 0x63 # 0x77 # 0x8a # 0x5d # 0x2d #
      0x3a # 0x5c # 0x6c # 0xe9 # 0xde # 0x1c # 0x9d # 0x48 # 0xf4 # 0xbc # 0xa7 # 0x50 # 0x1d # 0x75 # 0x3b # 0x4e #
      0xbd # 0xb6 # 0x2d # 0x0f # 0x64 # 0x2a # 0x79 # 0x6b # 0x9e # 0xa7 # 0xe9 # 0x1d # 0xd6 # 0x22 # 0x95 # 0xd8 # rest) =
   sha_blocks (Sha 0x7bb76ddc 0x7f904de8 0x167ab184 0x9c9504a7 0xcde0ce5f 0x752feb48 0x379ab563 0xa9b79b28) rest"
  by (simp only: sha_eval)

lemma fp_c1_code1_pass_5:
  "sha_blocks (Sha 0x7bb76ddc 0x7f904de8 0x167ab184 0x9c9504a7 0xcde0ce5f 0x752feb48 0x379ab563 0xa9b79b28)
     (0xd2 # 0x28 # 0xb2 # 0xdc # 0x8f # 0x60 # 0xf2 # 0xe8 # 0x77 # 0xc3 # 0x86 # 0x9b # 0xf4 # 0xc6 # 0x7e # 0xc4 #
      0xea # 0x58 # 0xcc # 0x74 # 0xf1 # 0x32 # 0x4e # 0x17 # 0x9a # 0x2f # 0x31 # 0x03 # 0x18 # 0x10 # 0x5c # 0xaf #
      0xf3 # 0xcf # 0xc0 # 0xe2 # 0x89 # 0x7f # 0xfc # 0x19 # 0x1b # 0x8b # 0xc3 # 0x0b # 0x89 # 0x86 # 0x59 # 0xb4 #
      0x82 # 0x4a # 0xb9 # 0xa1 # 0xe1 # 0xe0 # 0x52 # 0xcf # 0x8c # 0x9b # 0x5d # 0x14 # 0x42 # 0x4b # 0x96 # 0xcb #
      0x46 # 0x73 # 0xbf # 1 # 0x52 # 0x8b # 0x03 # 0xee # 0xdd # 0x84 # 0x23 # 0xd1 # 0x27 # 0xa1 # 0x8e # 0x32 #
      0x80 # 0x5e # 0xbd # 0x91 # 0x69 # 0x7f # 0x08 # 0x18 # 0x75 # 0xb4 # 0xf8 # 0x7f # 0x49 # 0xc9 # 0xc3 # 0xae #
      0xfa # 0x13 # 0xf9 # 0xd3 # 0xc7 # 0xbd # 0x78 # 0xa7 # 0xfd # 0x72 # 0xd9 # 0xb4 # 0xa6 # 0x6b # 0xcb # 0x6d #
      0xdd # 0xea # 0xa1 # 0x24 # 0x5d # 0x99 # 0x51 # 0xad # 0x6e # 0x27 # 0x23 # 0x22 # 0x8a # 0x68 # 0x5e # 0x03 # rest) =
   sha_blocks (Sha 0x89805155 0xf04fe014 0x347aba0b 0xd64afeb8 0x2568973f 0x8cedffa9 0xec1d1fcf 0xce4aa708) rest"
  by (simp only: sha_eval)

lemma fp_c1_code1_pass_6:
  "sha_blocks (Sha 0x89805155 0xf04fe014 0x347aba0b 0xd64afeb8 0x2568973f 0x8cedffa9 0xec1d1fcf 0xce4aa708)
     (0x9d # 0xf4 # 0x34 # 0xd2 # 0xf4 # 0x3f # 0xdb # 0x17 # 0x1d # 0x63 # 0x6e # 0xa9 # 0x22 # 0xbe # 0xda # 0xf7 #
      0x45 # 0x91 # 0x81 # 0x62 # 0xb9 # 0xaf # 0xeb # 0x96 # 0x27 # 0x9a # 0x87 # 0x07 # 0x5d # 0xa8 # 0x9a # 0x60 #
      0x3d # 0x1c # 0x84 # 0x29 # 0xf9 # 0x48 # 0x50 # 0x2e # 0xcd # 0xa8 # 0xfe # 0xf4 # 0xdb # 0x6d # 0x23 # 0xb6 #
      0xeb # 0xef # 0xcd # 0x23 # 0x72 # 0xd5 # 0xb3 # 0xe4 # 0x8e # 0x0a # 0x74 # 0x30 # 0x07 # 0xbc # 0x22 # 0xc6 #
      0x04 # 0xcb # 0xfa # 0xc7 # 0xb9 # 0x52 # 0xd5 # 0x4d # 0x8b # 0xbe # 0xa3 # 0xad # 0x5b # 0x09 # 0x76 # 0x4f #
      0x19 # 0x3f # 0x78 # 0xde # 0x2b # 0xac # 0xac # 0x12 # 0x7f # 0x1e # 0x6a # 0x9c # 0x78 # 0xeb # 0x13 # 0xbd #
      0x52 # 0x09 # 0x64 # 0xf2 # 0x46 # 0x28 # 0x24 # 0x76 # 0x78 # 0xd9 # 0x62 # 0x97 # 0x98 # 0x54 # 0x86 # 0x1d #
      0x29 # 0x50 # 0xdb # 0x42 # 0x08 # 0x61 # 0x78 # 0xf4 # 0xf9 # 0xfc # 0xcf # 1 # 0xa2 # 0x15 # 0x62 # 0x5f # rest) =
   sha_blocks (Sha 0x64e46868 0x36cdddb1 0x02139637 0xc495cca1 0xb9f4abe1 0x754377ff 0x96972a85 0x0c4fa83a) rest"
  by (simp only: sha_eval)

lemma fp_c1_code1_pass_7:
  "sha_blocks (Sha 0x64e46868 0x36cdddb1 0x02139637 0xc495cca1 0xb9f4abe1 0x754377ff 0x96972a85 0x0c4fa83a)
     (0xb1 # 0xb9 # 0xbb # 0x44 # 0xb1 # 0xb7 # 0xd7 # 0x99 # 0x0a # 0x45 # 0x7a # 0xe4 # 0xe4 # 0xd8 # 0x38 # 0xa6 #
      0x3d # 0xf3 # 0x6f # 0x54 # 0x44 # 0x9b # 0x57 # 0xeb # 0x65 # 0x92 # 0xbd # 0xa5 # 0x1d # 0x86 # 0xfb # 0x97 #
      0 # 0x1b # 0xf0 # 0xae # 0x3f # 0xac # 0xba # 0x74 # 0x72 # 0xd5 # 0x59 # 0x7c # 0x20 # 0xf3 # 0x4e # 0x92 #
      0x11 # 0xa0 # 0xf3 # 0xdc # 0xbf # 0xbd # 0x19 # 0x7d # 0xd6 # 0xb1 # 0x2f # 0xb3 # 0xfd # 0xe7 # 0x5c # 0x9b #
      0x72 # 0x0a # 0xf8 # 0x20 # 0xc9 # 0x91 # 0x0b # 0xa6 # 0xf1 # 0xae # 0x32 # 0x56 # 0x06 # 0x68 # 0x55 # 0 #
      0x3f # 0xa0 # 0x65 # 0x9a # 0x15 # 0xc7 # 0x2e # 0xbc # 0x07 # 0x4c # 0x21 # 0x48 # 0xfd # 0x86 # 0xd2 # 0x77 #
      0xc5 # 0x84 # 0xa5 # 0xaf # 0x83 # 0x06 # 0xe2 # 0xc4 # 0x16 # 0x85 # 0x44 # 0x7e # 0x92 # 0x8f # 0x35 # 0x8a #
      0x45 # 0x48 # 0xe6 # 0xae # 0xd4 # 0x6e # 0xf9 # 1 # 0x70 # 0xa8 # 0xaf # 0x4c # 0xba # 0x53 # 0xad # 0x09 # rest) =
   sha_blocks (Sha 0x7ff73848 0x21229a9e 0x73274b10 0x96a79093 0x0bb7e199 0xf440d62c 0x690bd103 0x7856694b) rest"
  by (simp only: sha_eval)

lemma fp_c1_code1_pass_8:
  "sha_blocks (Sha 0x7ff73848 0x21229a9e 0x73274b10 0x96a79093 0x0bb7e199 0xf440d62c 0x690bd103 0x7856694b)
     (0x77 # 0x8f # 0xae # 0xaa # 0x5c # 0x26 # 0x40 # 0x7b # 0xf7 # 0x25 # 0x84 # 0x0b # 0xab # 0x40 # 0x0d # 0xb2 #
      0x5a # 0x99 # 0x11 # 0x5b # 0xd5 # 0x28 # 0x58 # 0x48 # 0xf9 # 0x1f # 0xd4 # 0xcf # 0xbc # 0x9b # 0x15 # 0xea #
      0xf3 # 0x97 # 0xed # 0x77 # 0x1b # 0x15 # 0xbc # 0xeb # 0x9d # 0xf6 # 0x09 # 0xd2 # 0x0a # 0xd0 # 0x83 # 0xa8 #
      0x59 # 0x63 # 0x85 # 0x77 # 0x89 # 0x31 # 0x1c # 0 # 0x64 # 0xb6 # 0xb7 # 0xd5 # 0xa3 # 0x21 # 0xe4 # 0x38 #
      0xec # 0xbd # 0xf9 # 0x9f # 0x2c # 0x1d # 0xfb # 0xef # 0xee # 0x28 # 0xda # 0x75 # 0x98 # 0xe9 # 0x74 # 0x3f #
      0x98 # 0xd8 # 0x67 # 0x08 # 0x82 # 0x12 # 0x6d # 0x11 # 0xef # 0x75 # 0x74 # 0x89 # 0x69 # 0xaa # 0x71 # 0x8d #
      0x46 # 0xdb # 0xd1 # 0x99 # 0xd9 # 0xe1 # 0xe5 # 0x4a # 0xa4 # 0x4f # 0xbb # 0x6e # 0x40 # 1 # 0x86 # 0x43 #
      0x02 # 0x03 # 0xc5 # 0xa0 # 0x16 # 0x6f # 0xf9 # 0x6c # 0xb1 # 0xe2 # 0xf8 # 0xcc # 0x9a # 0x4e # 0x27 # 0xb3 # rest) =
   sha_blocks (Sha 0xc6fe12b3 0x11cfc87d 0x34d37d66 0xca7d68a7 0x82dde2eb 0x0fc64dec 0x67bd12bb 0xba4592b0) rest"
  by (simp only: sha_eval)

lemma fp_c1_code1_pass_9:
  "sha_blocks (Sha 0xc6fe12b3 0x11cfc87d 0x34d37d66 0xca7d68a7 0x82dde2eb 0x0fc64dec 0x67bd12bb 0xba4592b0)
     (0x80 # 0x58 # 0x6f # 0x59 # 0x7e # 0x58 # 0xe9 # 0x4a # 0xbe # 0xb2 # 0x0e # 0x38 # 0x40 # 0xfd # 0x8d # 0x60 #
      0x5f # 0x97 # 0x52 # 0x99 # 0x58 # 0x9d # 0x9c # 0xd0 # 0x92 # 0xef # 0x98 # 0x6d # 0x8d # 0x7b # 0xc7 # 0x88 #
      0x45 # 0xfc # 0x42 # 0xfa # 0xc6 # 0xad # 0x6d # 0x8b # 0x30 # 0xaf # 0x9a # 0xd8 # 0x6c # 0xe1 # 0x23 # 0xde #
      0x51 # 0x2e # 0xc8 # 0xf6 # 0xa7 # 0xa2 # 0x1a # 0x92 # 0xeb # 0xb4 # 0x49 # 0x1a # 0x18 # 0x89 # 0x47 # 0x8d #
      0x23 # 0x8e # 0x94 # 0x74 # 0x1c # 0x37 # 0xff # 0xb8 # 0x3d # 0x4e # 0x95 # 0x40 # 0x03 # 0x70 # 0xf0 # 0xcd #
      0xed # 0xa5 # 0x87 # 0x8d # 0x80 # 0x9c # 0x5c # 0x03 # 0x54 # 0x25 # 0xe5 # 0x65 # 0x53 # 0x6d # 0x3e # 0xab #
      0xe4 # 0x06 # 0x62 # 0x8c # 0x2b # 0xcf # 0x64 # 0x46 # 0xd9 # 0x4c # 0x24 # 0x16 # 0x25 # 0xed # 0x1f # 0x94 #
      0x5f # 0x48 # 0xf1 # 0x48 # 0x0e # 0xd2 # 0x72 # 0x71 # 0x42 # 0xce # 0x97 # 0x28 # 0x48 # 0x33 # 0xd8 # 0x40 # rest) =
   sha_blocks (Sha 0x0db0a6a8 0x72b2c536 0x5284e477 0x2a26f0b6 0x4082beb4 0x5f46fb71 0x06c5ccce 0xc227b7cb) rest"
  by (simp only: sha_eval)

lemma fp_c1_code1_pass_10:
  "sha_blocks (Sha 0x0db0a6a8 0x72b2c536 0x5284e477 0x2a26f0b6 0x4082beb4 0x5f46fb71 0x06c5ccce 0xc227b7cb)
     (0xe5 # 0x28 # 0x0e # 0x07 # 0x4b # 0x08 # 0x85 # 0xfa # 0x5d # 0x48 # 0x1f # 0x20 # 0xf7 # 0x8e # 0x91 # 0x6d #
      0x30 # 0x39 # 0x3d # 0x30 # 0x7b # 0x96 # 0xd4 # 0x26 # 0x1a # 0x9c # 0xab # 0x91 # 0x16 # 0x91 # 0 # 0xe4 #
      0x69 # 0xaf # 0x8f # 0xf8 # 0x8c # 0x61 # 0x39 # 0x43 # 0xba # 0x0f # 0x6c # 0xbe # 0x7b # 0x02 # 0x1f # 0xbb #
      0x76 # 0x03 # 0x0d # 0x70 # 0x0d # 0x0b # 0xa8 # 0xb4 # 0xc4 # 0xf8 # 0x3c # 0x61 # 0xce # 0xa9 # 0x86 # 0xc4 #
      0x1c # 0xb6 # 0x67 # 0x48 # 0x83 # 0xf6 # 0x4e # 0x82 # 0x44 # 0x86 # 0xfb # 0x55 # 0xab # 0x22 # 0xf3 # 1 #
      0x91 # 0x2a # 0x1e # 0x9e # 0x5f # 0xf6 # 0x64 # 0x02 # 0x18 # 0x82 # 0x2b # 0xb3 # 0x45 # 0x7d # 0x45 # 0x48 #
      0x11 # 0x9c # 0x83 # 0xc3 # 0xd3 # 0x68 # 0xcf # 0x35 # 0xa9 # 0xd5 # 0x5a # 0xc2 # 0xfd # 0xba # 0xa7 # 0x54 #
      0x69 # 0x3a # 0xa9 # 0xc7 # 0x1c # 0x07 # 0x94 # 0xe1 # 0xfa # 0x92 # 0xe7 # 0x85 # 0x92 # 0x85 # 0x27 # 0x27 # rest) =
   sha_blocks (Sha 0xc4be59c0 0xdc97bdd6 0xabe1c0e9 0x301f7e9c 0xe1d5d6a3 0xfd8b1896 0x4bf087ee 0x34f02508) rest"
  by (simp only: sha_eval)

lemma fp_c1_code1_pass_11:
  "sha_blocks (Sha 0xc4be59c0 0xdc97bdd6 0xabe1c0e9 0x301f7e9c 0xe1d5d6a3 0xfd8b1896 0x4bf087ee 0x34f02508)
     (0x33 # 0xea # 0x4d # 0xa9 # 0xaa # 0x17 # 0xac # 0xa9 # 0xf9 # 0x7f # 0x5a # 0xc6 # 0x3e # 0x92 # 0x0e # 0xe3 #
      0xba # 0x7a # 0xe5 # 0x8d # 0x5d # 0x2a # 0x85 # 0xcf # 0x82 # 0xcc # 0x21 # 0xd0 # 0x94 # 0x34 # 0x8b # 0xce #
      0xc2 # 0x07 # 0x68 # 0x98 # 0x0d # 0x69 # 0x4a # 0x3b # 0xc8 # 0xbb # 0x32 # 0xe4 # 0xa7 # 0x19 # 0xf6 # 0x6c #
      0xf0 # 0xa6 # 0xae # 0x4d # 0x67 # 0x6f # 0xe6 # 0x35 # 0xd6 # 0x4b # 0xb3 # 0x60 # 0x40 # 0x2f # 0x9c # 0x41 #
      0x2a # 0x8f # 0xf8 # 0x3f # 0x6a # 0x7d # 0xbb # 0xb0 # 0x67 # 0x1e # 0x35 # 0x24 # 0xa1 # 0x3b # 0xac # 0x53 #
      0xb4 # 0x17 # 0x18 # 0xb8 # 0x02 # 0x5c # 0x31 # 0xd1 # 0xfc # 0xcf # 0xfe # 0x41 # 0x7b # 0x39 # 0xc6 # 0x3a #
      0x80 # 0 # 0 # 0 # 0 # 0 # 0 # 0 # 0 # 0 # 0 # 0 # 0 # 0 # 0 # 0 #
      0 # 0 # 0 # 0 # 0 # 0 # 0 # 0 # 0 # 0 # 0 # 0 # 0 # 0 # 0x31 # 0 # rest) =
   sha_blocks (Sha 0x9665ce80 0x96ca7e27 0x1050ba8c 0xb5a64b14 0x9683969e 0x81b1a2f2 0x3429403b 0x09849072) rest"
  by (simp only: sha_eval)

lemma fp_c1_code1_end:
  "sha_blocks (Sha 0x941c2d2d 0xa04e9891 0x26ab56a5 0xa3d018f6 0xccc062d3 0xa0c3be23 0xbd8451ab 0x3f597e24)
     (0x96 # 0x65 # 0xce # 0x80 # 0x96 # 0xca # 0x7e # 0x27 # 0x10 # 0x50 # 0xba # 0x8c # 0xb5 # 0xa6 # 0x4b # 0x14 #
      0x96 # 0x83 # 0x96 # 0x9e # 0x81 # 0xb1 # 0xa2 # 0xf2 # 0x34 # 0x29 # 0x40 # 0x3b # 0x09 # 0x84 # 0x90 # 0x72 #
      0x80 # 0 # 0 # 0 # 0 # 0 # 0 # 0 # 0 # 0 # 0 # 0 # 0 # 0 # 0 # 0 #
      0 # 0 # 0 # 0 # 0 # 0 # 0 # 0 # 0 # 0 # 0 # 0 # 0 # 0 # 0x03 # 0 # rest) =
   sha_blocks (Sha 0xd7720492 0xb61762be 0x6d756f6b 0x9b57f67a 0xbd48da27 0xfaa9f36c 0x9568735c 0x15cbef97) rest"
  by (simp only: sha_eval)

lemma fp_c1_code1_digest:
  "sha_blocks (Sha 0xab9b2043 0x9d576b06 0x90cc6d17 0x9e2d20d9 0x430bbd1c 0x0a5165be 0xc8af2193 0x406c37fe) (strip 1325 fp_c1 @ sha_tail 1568) =
     Sha 0x9665ce80 0x96ca7e27 0x1050ba8c 0xb5a64b14 0x9683969e 0x81b1a2f2 0x3429403b 0x09849072"
  by (simp add: strip_def fp_c1_def sha_tail_1568 fp_c1_code1_pass_0 fp_c1_code1_pass_1 fp_c1_code1_pass_2 fp_c1_code1_pass_3 fp_c1_code1_pass_4 fp_c1_code1_pass_5 fp_c1_code1_pass_6 fp_c1_code1_pass_7 fp_c1_code1_pass_8 fp_c1_code1_pass_9 fp_c1_code1_pass_10 fp_c1_code1_pass_11 sha_blocks_Nil)

lemma fp_c1_code1:
  "calculateHMACsha256 (strip 1325 fp_c1) (take 30 GENUINE_FP_KEY) =
     [0xd7, 0x72, 0x04, 0x92, 0xb6, 0x17, 0x62, 0xbe, 0x6d, 0x75, 0x6f, 0x6b, 0x9b, 0x57, 0xf6,
      0x7a, 0xbd, 0x48, 0xda, 0x27, 0xfa, 0xa9, 0xf3, 0x6c, 0x95, 0x68, 0x73, 0x5c, 0x15, 0xcb,
      0xef, 0x97]"
proof -
  have bytes: "sha_bytes (Sha 0x9665ce80 0x96ca7e27 0x1050ba8c 0xb5a64b14 0x9683969e 0x81b1a2f2 0x3429403b 0x09849072) =
      [0x96, 0x65, 0xce, 0x80, 0x96, 0xca, 0x7e, 0x27, 0x10, 0x50, 0xba, 0x8c, 0xb5, 0xa6, 0x4b,
       0x14, 0x96, 0x83, 0x96, 0x9e, 0x81, 0xb1, 0xa2, 0xf2, 0x34, 0x29, 0x40, 0x3b, 0x09, 0x84,
       0x90, 0x72]"
    by (simp add: be32_put_def)
  have len: "64 + length (strip 1325 fp_c1) = 1568" by (simp add: strip_def fp_c1_def)
  have "calculateHMACsha256 (strip 1325 fp_c1) (take 30 GENUINE_FP_KEY) = sha_bytes (Sha 0xd7720492 0xb61762be 0x6d756f6b 0x9b57f67a 0xbd48da27 0xfaa9f36c 0x9568735c 0x15cbef97)"
    unfolding player_mac len fp_c1_code1_digest bytes
    by (simp only: sha_tail_96 append_Cons append_Nil fp_c1_code1_end sha_blocks_Nil)
  then show ?thesis by (simp add: be32_put_def)
qed

lemma fp_c1_code1_signed: "signed 1 (take 30 GENUINE_FP_KEY) fp_c1"
proof -
  have "digest_at 1325 fp_c1 =
     [0xd7, 0x72, 0x04, 0x92, 0xb6, 0x17, 0x62, 0xbe, 0x6d, 0x75, 0x6f, 0x6b, 0x9b, 0x57, 0xf6,
      0x7a, 0xbd, 0x48, 0xda, 0x27, 0xfa, 0xa9, 0xf3, 0x6c, 0x95, 0x68, 0x73, 0x5c, 0x15, 0xcb,
      0xef, 0x97]"
    by (simp add: digest_at_def fp_c1_def)
  then show ?thesis unfolding signed_def fp_c1_offset1 fp_c1_code1 by simp
qed

text \<open>The block of the server it talked to.\<close>

lemma fp_s1_offset0: "scheme_offset 0 fp_s1 = 15"
  unfolding scheme_offset_eval [OF fp_s1_length] by (simp add: fp_s1_def sumBytes_def)

lemma fp_s1_code_pass_0:
  "sha_blocks (Sha 0xfbf1a037 0x2e9a60b2 0xa08c9325 0xa4fd756d 0x55368456 0xbe012b6d 0x476abc98 0xc2e1cb14)
     (0x21 # 0x5e # 0x73 # 0xff # 0x05 # 0 # 1 # 1 # 0x9a # 0xf9 # 0x87 # 0xc1 # 0xdd # 0xcf # 0xd5 # 0xd0 #
      0xe2 # 0x08 # 0x42 # 0x59 # 0xa5 # 0x86 # 0xe3 # 0xf2 # 0xf4 # 0x30 # 0x0c # 0x18 # 0x84 # 0x75 # 0xf0 # 0x7c #
      0x50 # 0x88 # 0x9d # 0xb6 # 0x13 # 0x83 # 0xbd # 0x3d # 0x90 # 0xea # 0x76 # 0x78 # 0x7a # 0x4e # 0xc4 # 0xfc #
      0xc3 # 0x08 # 0x45 # 0 # 0x1a # 0x44 # 0xba # 0xe7 # 0x8c # 0x75 # 0x45 # 0xbc # 0x9a # 0x5c # 0x7b # 0x50 #
      0x33 # 0xfa # 0x9b # 0x14 # 0x04 # 0xcb # 0xc6 # 0xbf # 0x31 # 0x78 # 0x97 # 0x7e # 0xdc # 0x16 # 0xb5 # 0xd4 #
      0 # 0x5e # 0x66 # 0x04 # 0xe9 # 0x28 # 0xcf # 0x03 # 0xdd # 0xb5 # 0x03 # 0xc6 # 0xa2 # 0xfb # 0x1f # 0x70 #
      0xf4 # 0x58 # 0x13 # 0xf7 # 0x73 # 0x1f # 0x95 # 0xb3 # 0x3a # 0x90 # 0x4e # 0xe6 # 0xe2 # 0xd8 # 0xf6 # 0x29 #
      0xce # 0xcb # 0x2a # 0xf1 # 0x79 # 0x5e # 0x5f # 0x28 # 0x69 # 0x5e # 0xa3 # 0x06 # 0x19 # 0xa5 # 0xfe # 0x97 # rest) =
   sha_blocks (Sha 0xfaee7c93 0x1b492154 0x01c8b765 0x4cfb546c 0xe3a6fc76 0xdee09d32 0xc0112b4f 0x8d6a0836) rest"
  by (simp only: sha_eval)

lemma fp_s1_code_pass_1:
  "sha_blocks (Sha 0xfaee7c93 0x1b492154 0x01c8b765 0x4cfb546c 0xe3a6fc76 0xdee09d32 0xc0112b4f 0x8d6a0836)
     (0xfb # 0x81 # 0x27 # 0x20 # 0x50 # 0x76 # 0x40 # 0x98 # 0xb3 # 0xd8 # 0x15 # 0x60 # 0x1c # 0x56 # 0x96 # 0x03 #
      0xdf # 0x64 # 0x87 # 0xbd # 0x55 # 0xeb # 0x55 # 0x8e # 0xaf # 0x41 # 0x45 # 1 # 0x13 # 0x45 # 0xba # 0x72 #
      0x6f # 0x04 # 0xf5 # 0xd6 # 0x03 # 1 # 0x52 # 0x45 # 0xad # 0xb2 # 0x97 # 0xe2 # 0x43 # 0x6a # 0x89 # 0xae #
      0x02 # 0xa0 # 0x73 # 0xa1 # 0x50 # 0x60 # 0x61 # 0xec # 0x57 # 0xbf # 0x2b # 0x79 # 0x9e # 0xdc # 0xb3 # 0xfb #
      0xb6 # 0xfd # 0x28 # 0x10 # 0x39 # 0xf7 # 0xff # 0x46 # 0x5b # 0x8a # 0x36 # 0x28 # 0xfc # 0x19 # 0x83 # 0x69 #
      0x6d # 0x22 # 0xb8 # 0xce # 0xde # 0x58 # 0x8a # 0x49 # 0x3b # 0xad # 0x06 # 0xa6 # 0x43 # 0x2d # 0x05 # 0xac #
      0x3e # 0xf6 # 0xc4 # 0x30 # 0x19 # 0x3f # 0x1e # 0x81 # 0x60 # 0x68 # 0xb2 # 0xf9 # 0x22 # 0xa0 # 0xdf # 0x67 #
      0xbf # 0x59 # 0x25 # 0x22 # 0xb6 # 0xfa # 0xa8 # 0x27 # 0x9b # 0x6c # 0x41 # 0x6f # 0x73 # 0x43 # 0xf0 # 0xa8 # rest) =
   sha_blocks (Sha 0x2e9fda6d 0x3285c8f2 0x1feed800 0xd7476cae 0xd40f61e0 0x5f149d2d 0xcab3679c 0xda06960c) rest"
  by (simp only: sha_eval)

lemma fp_s1_code_pass_2:
  "sha_blocks (Sha 0x2e9fda6d 0x3285c8f2 0x1feed800 0xd7476cae 0xd40f61e0 0x5f149d2d 0xcab3679c 0xda06960c)
     (0x77 # 0xb8 # 0x11 # 0xe0 # 0x12 # 0x9b # 0x13 # 0x35 # 0x7c # 0xc6 # 0x29 # 0x06 # 0xaa # 0x3e # 0x2e # 0x68 #
      0xe9 # 0x2e # 0xb9 # 0x4f # 0xfa # 0x0c # 0xad # 0xfd # 0x96 # 0xfe # 0xb9 # 0xb4 # 0xed # 0xc6 # 0x0f # 0xa5 #
      0x28 # 0xb2 # 0x34 # 0x33 # 0x95 # 0x89 # 0xd0 # 0x8f # 0x48 # 0x4e # 0xe6 # 0x30 # 0x51 # 0xeb # 0 # 0x99 #
      0x30 # 0x3f # 0x6e # 0x68 # 0xce # 0x3a # 0x84 # 0x58 # 0x67 # 0 # 0xf8 # 0x0e # 0x67 # 0xa7 # 0x0b # 0x97 #
      0xfa # 0x1e # 0x44 # 0x77 # 0x74 # 0x6d # 0x09 # 0x10 # 0xed # 0xc0 # 0xbd # 0xb3 # 0x6d # 0x47 # 0x64 # 1 #
      0x3d # 0xf3 # 0x9a # 0x5f # 0x77 # 0xa7 # 0x10 # 0xd5 # 0x3b # 0x8e # 0x41 # 1 # 0xad # 0xc4 # 0xd1 # 0x1a #
      0x2c # 0x30 # 0x44 # 0xe6 # 0xab # 0xa9 # 0x45 # 0xd7 # 0xd3 # 0x04 # 0x03 # 0x1c # 0x05 # 0x2c # 0xc9 # 0xc7 #
      0x9e # 0xb2 # 0x97 # 0xb7 # 0x3f # 0x7c # 0x19 # 0xd5 # 0x04 # 0xfc # 0x9f # 0x38 # 0xec # 0xee # 0x70 # 0x90 # rest) =
   sha_blocks (Sha 0x99f54994 0x49e5c3c7 0x87544b44 0x2b7cd9e6 0x6967bd3d 0xb73ca4df 0x87364590 0xbabb7474) rest"
  by (simp only: sha_eval)

lemma fp_s1_code_pass_3:
  "sha_blocks (Sha 0x99f54994 0x49e5c3c7 0x87544b44 0x2b7cd9e6 0x6967bd3d 0xb73ca4df 0x87364590 0xbabb7474)
     (0xb0 # 0x7f # 0xff # 0x1b # 0x80 # 0xb0 # 0x84 # 0xf1 # 0x07 # 0x59 # 0x0d # 0xf3 # 0xd4 # 0x09 # 0xd7 # 0xe0 #
      0x24 # 0x73 # 0x22 # 0x4e # 0xee # 0x35 # 0xfc # 0xbd # 0x0c # 0xd6 # 0x5d # 0xda # 0x31 # 0x21 # 0xbe # 0xbf #
      0xc8 # 0x12 # 0x76 # 0xf7 # 0x4e # 0x2a # 0xc7 # 0x9f # 0xc7 # 0x3a # 0x36 # 0x72 # 0xcd # 0x7a # 0x15 # 0xfe #
      0x73 # 0xc5 # 0x8b # 0x81 # 0x94 # 0x06 # 0xca # 0x25 # 0x97 # 0x10 # 0x9e # 0x2b # 0xb1 # 0x13 # 0xf4 # 0x3c #
      0x7f # 0x43 # 0xfa # 0x63 # 0xf4 # 0x63 # 0x02 # 0x56 # 0x49 # 0x1c # 0x60 # 0x31 # 0xdd # 0x7f # 0x20 # 0xff #
      0x09 # 0x18 # 0xe3 # 0xfd # 0x7b # 0x11 # 0x5b # 0xf9 # 0xd4 # 0x05 # 0xb3 # 0x11 # 0x25 # 0x24 # 0x0a # 0xbf #
      0x8e # 0x2f # 0xeb # 0xb2 # 0xca # 0x3b # 0xdb # 0x6f # 0x34 # 0x3c # 0x24 # 0xae # 0xc1 # 0x89 # 0xf9 # 0xa6 #
      0xe0 # 0x3e # 0xf3 # 0x12 # 0x47 # 0x62 # 0x24 # 0x5a # 0x29 # 0x67 # 0x6a # 0x2d # 0xb9 # 0x4e # 0x22 # 0x0b # rest) =
   sha_blocks (Sha 0x3d4333bc 0x6870c9af 0x2664f19a 0x52de2d04 0x1e2219ec 0x650f7745 0xd0e5fc66 0xa94870fc) rest"
  by (simp only: sha_eval)

lemma fp_s1_code_pass_4:
  "sha_blocks (Sha 0x3d4333bc 0x6870c9af 0x2664f19a 0x52de2d04 0x1e2219ec 0x650f7745 0xd0e5fc66 0xa94870fc)
     (0x13 # 0x34 # 0x65 # 0xc7 # 0xbc # 0xfe # 0x5b # 0xe5 # 0x87 # 0x7c # 0xc5 # 0x5a # 0xfe # 0 # 0x81 # 0x02 #
      0x04 # 0x7b # 0x2c # 0xa1 # 0x21 # 0x9c # 0xc9 # 0xe3 # 0xa6 # 0x81 # 0x32 # 0xa9 # 0xd8 # 0xb4 # 0x8c # 0xe1 #
      0xa7 # 0x4d # 0xe2 # 0xe6 # 0xdb # 0x9c # 0x3b # 0x1d # 0x83 # 0x60 # 0x81 # 0x3a # 0xa8 # 0 # 0x13 # 0xea #
      0xf6 # 0xb1 # 0xb9 # 0xf8 # 0xfe # 0x60 # 0x99 # 0x90 # 0x70 # 0x1f # 0x9c # 0xfa # 0x47 # 0xf1 # 0xb3 # 0xc4 #
      0x48 # 0xa7 # 0x74 # 0x60 # 0xea # 0xca # 0x4a # 0x97 # 0xdd # 0x1e # 0xfd # 0x12 # 0x13 # 0x22 # 0x32 # 0xb9 #
      0xd1 # 0xfd # 0xde # 0x41 # 0x80 # 0xe8 # 0x83 # 0x29 # 0x54 # 0x2c # 0x9f # 0x58 # 0xb0 # 0x3c # 0x34 # 0xa6 #
      0x03 # 0xfa # 0x0f # 0xec # 0xe6 # 0xf9 # 0xc7 # 0x34 # 0x48 # 0xde # 0x13 # 0x5d # 0xb9 # 0xa2 # 0x48 # 0x7d #
      0x46 # 0x43 # 0xde # 0x3b # 0xd2 # 0x11 # 0x24 # 0xbd # 0xf5 # 0xa5 # 0x75 # 0xc8 # 0x34 # 0x53 # 0xea # 0x2a # rest) =
   sha_blocks (Sha 0x7c8114b1 0x1777f26c 0x7ba49086 0x369f6d29 0xa6395ec1 0x48a7cbe6 0x9cc955f1 0x5e72b449) rest"
  by (simp only: sha_eval)

lemma fp_s1_code_pass_5:
  "sha_blocks (Sha 0x7c8114b1 0x1777f26c 0x7ba49086 0x369f6d29 0xa6395ec1 0x48a7cbe6 0x9cc955f1 0x5e72b449)
     (0x95 # 0xbc # 0x31 # 0x6c # 0x29 # 0x02 # 0x0d # 0xba # 0x21 # 0xe1 # 0x54 # 0xe6 # 0x22 # 0x22 # 0x7a # 0xc4 #
      0xbd # 0x62 # 0x27 # 0x2e # 0xcd # 0x88 # 0xb1 # 0xef # 0x64 # 0x75 # 0x2c # 0x5e # 0x6a # 0xa1 # 0x7f # 0x40 #
      0xb5 # 0x3f # 0xd5 # 0xac # 0x6a # 0x8e # 0xd5 # 0x6a # 0xfc # 0xa0 # 0x32 # 0x8b # 0x26 # 0xde # 0x15 # 0x98 #
      0x0a # 0x91 # 0x40 # 0x07 # 0xf1 # 0x25 # 0x55 # 0xad # 0xb0 # 0x34 # 0xa8 # 0xad # 0x73 # 0x38 # 0x57 # 0xf0 #
      0x65 # 0xb0 # 0x23 # 0xe5 # 0x62 # 0x78 # 0x8b # 0xd6 # 0xa8 # 0x09 # 0xea # 0x96 # 0xfe # 0xfb # 0x42 # 0x82 #
      0x58 # 0x92 # 0x22 # 0x64 # 0x7e # 0xb8 # 0x8e # 0x2b # 0x5f # 0xf9 # 0x0f # 0x08 # 0xa3 # 0x78 # 0x8a # 0x9d #
      0x44 # 0xea # 0x66 # 0x5e # 0x14 # 0x60 # 0xb9 # 0x80 # 0xf5 # 0x64 # 0xcd # 0x3c # 0xc6 # 0xa5 # 0x9b # 0xcd #
      0x8d # 0x1a # 0x0f # 0x4b # 0xa0 # 0x04 # 0x81 # 0x80 # 0x95 # 0x8c # 0x04 # 0xeb # 0 # 0x36 # 0x0b # 0xb4 # rest) =
   sha_blocks (Sha 0xf772d3c2 0x2de2fce4 0xbcedba01 0x5a9028c1 0xe8888a63 0xeaba8ece 0x87dae169 0x039e1d70) rest"
  by (simp only: sha_eval)

lemma fp_s1_code_pass_6:
  "sha_blocks (Sha 0xf772d3c2 0x2de2fce4 0xbcedba01 0x5a9028c1 0xe8888a63 0xeaba8ece 0x87dae169 0x039e1d70)
     (0xdf # 0xfa # 0x07 # 0xe2 # 0x25 # 0x1c # 0x55 # 0xaf # 0x93 # 0xfd # 0x93 # 0xcf # 0x56 # 0xdc # 0x71 # 0xf3 #
      0x26 # 0x5e # 0xb0 # 0x19 # 0xd6 # 0x88 # 0xb2 # 0xb5 # 0x8b # 0x1c # 0x8f # 0xcc # 0xd6 # 0xcd # 0x8f # 0xd1 #
      0x19 # 0x39 # 0x78 # 0xf5 # 0xb4 # 0x58 # 0 # 0x7d # 0xd7 # 0xda # 0x74 # 0x6a # 0x71 # 0xde # 0x8b # 0x21 #
      0x7d # 0xa3 # 0xb6 # 0x53 # 0xda # 0xa1 # 0x12 # 0x5d # 0x8f # 0x9c # 0x78 # 0x25 # 0x36 # 0x74 # 0xe6 # 0x60 #
      0x46 # 0xd9 # 0x7b # 0xae # 0x7a # 0x02 # 0x11 # 0x3d # 0x39 # 0xf8 # 0xd3 # 0x49 # 0xb9 # 0xa0 # 0x09 # 0x37 #
      0xf1 # 0x5a # 0xa3 # 0x54 # 0x5f # 0x15 # 0x4c # 0x34 # 0x25 # 0x91 # 0x26 # 0x02 # 0x3b # 0xc8 # 0x37 # 0x7b #
      0xe6 # 0xfc # 0x0e # 0x5b # 0xef # 0x1d # 0xef # 0xa3 # 0xeb # 0x63 # 0xb0 # 0xd9 # 0x9e # 0x29 # 0xca # 0xe9 #
      0x4c # 0xac # 0x94 # 0xff # 0xf8 # 0x3a # 0x65 # 0x32 # 0x55 # 0x90 # 0x8f # 0x07 # 0x8b # 0xec # 0xb2 # 0x62 # rest) =
   sha_blocks (Sha 0xa2fc8615 0xa74b18f4 0x576bee48 0x73143c30 0xe5347c05 0x942dc9f1 0x41c98942 0x6d3da038) rest"
  by (simp only: sha_eval)

lemma fp_s1_code_pass_7:
  "sha_blocks (Sha 0xa2fc8615 0xa74b18f4 0x576bee48 0x73143c30 0xe5347c05 0x942dc9f1 0x41c98942 0x6d3da038)
     (0xa6 # 0x77 # 0x3f # 0xa4 # 0xb4 # 0x0c # 0x28 # 0x80 # 0xe2 # 0x8d # 0x81 # 0x2a # 0xa0 # 0x51 # 0x11 # 0xf5 #
      0x47 # 0x43 # 0x1f # 0xf7 # 0xe1 # 0x11 # 0x3c # 0x53 # 0xcd # 0xe9 # 0x76 # 0x7f # 0x20 # 0xe5 # 0x58 # 0x86 #
      0xdf # 0x15 # 0xaa # 0xd3 # 0xe5 # 0xcc # 0x25 # 0x41 # 0x47 # 0xe6 # 0x56 # 0x39 # 0x57 # 0x49 # 0x28 # 0xd7 #
      0xce # 0x53 # 0x19 # 0x2d # 0x0f # 0xc0 # 0xf5 # 0x52 # 0x18 # 0x02 # 0xc3 # 0x5e # 0xcf # 0xff # 0x5c # 0x0d #
      0x86 # 0xb0 # 0xf4 # 0xe2 # 0x79 # 0x7f # 0xef # 0x79 # 0x3f # 0x5c # 0xda # 0xd1 # 0xb3 # 0x97 # 0xb5 # 0xa7 #
      0x7b # 0xf1 # 0x11 # 0xa0 # 0x9e # 0x16 # 0x19 # 0xd0 # 0x76 # 0xa8 # 0x92 # 0x18 # 0x2b # 0x88 # 0x3b # 0xd9 #
      0x72 # 0xb0 # 0x16 # 0x9b # 0xe0 # 0xb4 # 0x52 # 0x4c # 0xe0 # 0x02 # 0x56 # 0x15 # 0x31 # 0x0c # 0xd6 # 0x88 #
      0x4a # 0x1e # 0xf9 # 0x5f # 0x42 # 0x23 # 0x64 # 0x6e # 0xb1 # 0xe9 # 0x81 # 0xee # 0xac # 0xda # 0xb3 # 0xf7 # rest) =
   sha_blocks (Sha 0x25967e93 0xcc127663 0x62a53baf 0x6d2be306 0xc40fa400 0x1b19deb9 0x09a4ad1f 0x1195c9b1) rest"
  by (simp only: sha_eval)

lemma fp_s1_code_pass_8:
  "sha_blocks (Sha 0x25967e93 0xcc127663 0x62a53baf 0x6d2be306 0xc40fa400 0x1b19deb9 0x09a4ad1f 0x1195c9b1)
     (0x31 # 0x39 # 0x93 # 0x30 # 0xf3 # 0xa0 # 0x5f # 0x59 # 0x8e # 0x15 # 0xcd # 0x85 # 0x3c # 0x3c # 0x22 # 0x6d #
      0x97 # 0xb5 # 0x6a # 0x7a # 0xc9 # 0x3c # 0xfd # 0x16 # 0x2d # 0x4d # 0xbe # 0xa1 # 0xd2 # 0x60 # 0xa2 # 0xb0 #
      0x15 # 0x5d # 0x04 # 0xa0 # 0x0c # 0x66 # 0xd0 # 0x3d # 0xca # 0x1f # 0x2d # 0xe7 # 0x6a # 0x32 # 0xc0 # 0xdb #
      0x8a # 0x45 # 0x46 # 0x96 # 0x16 # 0xf5 # 0x7c # 0xb1 # 0x3f # 0xb2 # 0xfe # 0xa8 # 0x9b # 0x5c # 0xe8 # 0x9f #
      0xc2 # 0x52 # 0x4f # 0x5d # 0x02 # 0x49 # 0x10 # 0x1c # 0xcf # 0x7b # 0x74 # 0xaf # 0x78 # 0xda # 0xf2 # 0x51 #
      0x32 # 0xb1 # 0xae # 0x2c # 0xdc # 0xbb # 0x39 # 0x78 # 0x89 # 0xe8 # 0xa0 # 0x02 # 0x5b # 0x8b # 0x2d # 0xe1 #
      0xb4 # 0xba # 0x69 # 1 # 0x56 # 0x85 # 0xc7 # 0xc4 # 0x8c # 0x91 # 0x7e # 0xce # 0x28 # 0x44 # 0x89 # 0x24 #
      0xab # 0x44 # 0x1b # 0x8c # 0x29 # 0x8d # 0xbb # 0x60 # 0x2a # 0xb6 # 0x31 # 0xea # 0x05 # 0x15 # 0x88 # 0x94 # rest) =
   sha_blocks (Sha 0x43ba25ab 0x8bb8a061 0xaba42385 0xc86f3c73 0x9c8e4fd8 0x9e5bc9a9 0x40f2124e 0x34d67074) rest"
  by (simp only: sha_eval)

lemma fp_s1_code_pass_9:
  "sha_blocks (Sha 0x43ba25ab 0x8bb8a061 0xaba42385 0xc86f3c73 0x9c8e4fd8 0x9e5bc9a9 0x40f2124e 0x34d67074)
     (0x8b # 0xdd # 0x64 # 0x4c # 0x39 # 0x79 # 0x66 # 0xb6 # 0xb5 # 0xa0 # 0x55 # 0xf0 # 0x77 # 0x2d # 0x7d # 0x19 #
      0x29 # 0x4d # 0x1d # 0xc0 # 0x09 # 0x43 # 0xb6 # 0x29 # 0x3d # 0xbf # 0xab # 0x0a # 0x2c # 1 # 0x07 # 0xa1 #
      0x63 # 0xca # 0x5f # 0x91 # 0x34 # 0x40 # 0x02 # 0xa5 # 0x2a # 0x13 # 0x6e # 0x84 # 1 # 0x1d # 0x26 # 0x87 #
      0xea # 0xbd # 0x52 # 0x7a # 0x6b # 0x61 # 0x9f # 0x99 # 0xe0 # 0x33 # 0xe5 # 0x64 # 0x34 # 0x13 # 0xe4 # 0xdc #
      0xe1 # 0x8e # 0x98 # 0xbe # 0x98 # 0xa1 # 0x5d # 0xac # 0x1b # 0x37 # 0x04 # 0xef # 0x94 # 0x3e # 0x6b # 0x8b #
      0x8a # 0xc9 # 0xd3 # 0x56 # 0x34 # 0xdb # 0x5f # 0xe1 # 0x15 # 0x61 # 0x46 # 0x3d # 0x87 # 0x3d # 0x06 # 0x92 #
      0xd5 # 0x5e # 0x83 # 0x80 # 0x30 # 0xf7 # 0xe3 # 0x4b # 0xd8 # 0x8f # 0xce # 0xb0 # 0xfe # 0x05 # 0xbf # 0xe9 #
      0xae # 0xdd # 0x50 # 0xcd # 0xf2 # 0x6d # 0xae # 0xfb # 0xdc # 0x1b # 0x02 # 0xd0 # 0x9b # 0x26 # 0x03 # 0xed # rest) =
   sha_blocks (Sha 0x093a91d0 0x7cd0192c 0x035ce765 0x4a816959 0x6170035e 0xdb5a2c58 0xfb2e126e 0xc1f6f9ec) rest"
  by (simp only: sha_eval)

lemma fp_s1_code_pass_10:
  "sha_blocks (Sha 0x093a91d0 0x7cd0192c 0x035ce765 0x4a816959 0x6170035e 0xdb5a2c58 0xfb2e126e 0xc1f6f9ec)
     (0xfd # 0xe3 # 0x4e # 0x4b # 0xb9 # 0xb3 # 0x48 # 0x30 # 0x79 # 0x73 # 0x28 # 0x90 # 0xfa # 0x53 # 0x2f # 0x94 #
      0x6b # 0x8d # 0x3d # 1 # 0xa1 # 0xe6 # 0xf9 # 0x93 # 0x55 # 0xb1 # 0x95 # 0x25 # 0xa3 # 0xb4 # 0xd1 # 0xc7 #
      0xcf # 0x4f # 0x98 # 0x40 # 0x4e # 0xfe # 0x84 # 0x6d # 0xce # 0xbf # 0xa5 # 0x6c # 0x38 # 0x46 # 0x72 # 0xb3 #
      0x16 # 0xa8 # 0x11 # 0x18 # 0x87 # 0xe5 # 0xda # 0x78 # 0x38 # 0xd2 # 0xe9 # 0xc1 # 0xb9 # 0xdc # 0x65 # 0x76 #
      0xdb # 0x03 # 0xe6 # 0x62 # 0x9b # 0x97 # 0x07 # 0xa7 # 0x54 # 0x1c # 0xf9 # 0xa4 # 0x7c # 0x9d # 0x4b # 0x4b #
      0x6c # 0x89 # 0xb7 # 0xe5 # 0x8e # 0x7d # 0x81 # 0x5e # 0xcf # 0x2a # 0xda # 0xb0 # 0x52 # 0x33 # 0x69 # 0x6f #
      0x84 # 0xca # 0xe9 # 0x1c # 0xaf # 0x7b # 0x2f # 0xcb # 0x11 # 0x14 # 0x05 # 0x0d # 0xa0 # 0x67 # 0xb1 # 0xfe #
      0x3a # 0xf0 # 0xcb # 0xa2 # 0xe4 # 0x8e # 0x7f # 0x63 # 0xe0 # 0x86 # 0xb3 # 0x63 # 0xa8 # 0x79 # 0x69 # 0xbb # rest) =
   sha_blocks (Sha 0xd964c04f 0x2b618d91 0x6a9390a9 0xc1596f51 0x18cf71b2 0x1339bcb7 0x52dbac37 0xc423e2ef) rest"
  by (simp only: sha_eval)

lemma fp_s1_code_pass_11:
  "sha_blocks (Sha 0xd964c04f 0x2b618d91 0x6a9390a9 0xc1596f51 0x18cf71b2 0x1339bcb7 0x52dbac37 0xc423e2ef)
     (0x11 # 0x93 # 0xa2 # 0xb0 # 0xcb # 0x0c # 0x0b # 0x1a # 0x23 # 0xc0 # 0x56 # 0x3c # 0x7d # 0x4c # 0x2f # 0xca #
      0xff # 0xd3 # 0xbf # 0x68 # 0xae # 0xb0 # 0x5a # 0x7c # 0xac # 0xa2 # 0x67 # 0x17 # 0x8c # 0x05 # 0xf4 # 0xfb #
      0x09 # 0x48 # 0x06 # 0xd0 # 0x29 # 0xe9 # 0x92 # 0xec # 0x11 # 0xb0 # 0x35 # 0x16 # 0x74 # 0x23 # 0xbb # 0xbd #
      0 # 0xb2 # 0x82 # 0x27 # 0x0c # 0x6d # 0xdf # 0x65 # 0x78 # 0xdb # 0x2b # 0x49 # 0xc3 # 0x94 # 0xc3 # 0x32 #
      0xa7 # 0x97 # 0xd5 # 0x52 # 0xda # 0x56 # 0x8b # 0x24 # 0x47 # 0x5c # 0xdd # 0xe7 # 0x3d # 0xaa # 0x17 # 0x38 #
      0x39 # 0xab # 0xe1 # 1 # 0xa4 # 0xb7 # 0x8f # 0x9b # 0x1f # 0x45 # 0x7c # 0x0f # 0x72 # 0x0c # 0x75 # 0xd2 #
      0x80 # 0 # 0 # 0 # 0 # 0 # 0 # 0 # 0 # 0 # 0 # 0 # 0 # 0 # 0 # 0 #
      0 # 0 # 0 # 0 # 0 # 0 # 0 # 0 # 0 # 0 # 0 # 0 # 0 # 0 # 0x31 # 0 # rest) =
   sha_blocks (Sha 0xaeb63045 0x431ba090 0xb7f0b124 0x9849568c 0x8dc87715 0xf41a8f4a 0xee45d134 0x8815c615) rest"
  by (simp only: sha_eval)

lemma fp_s1_code_end:
  "sha_blocks (Sha 0x5e768abc 0xa52128de 0xf535f675 0x8694d69c 0x9d55fb0f 0x3309589a 0xb5b12beb 0x87110ee9)
     (0xae # 0xb6 # 0x30 # 0x45 # 0x43 # 0x1b # 0xa0 # 0x90 # 0xb7 # 0xf0 # 0xb1 # 0x24 # 0x98 # 0x49 # 0x56 # 0x8c #
      0x8d # 0xc8 # 0x77 # 0x15 # 0xf4 # 0x1a # 0x8f # 0x4a # 0xee # 0x45 # 0xd1 # 0x34 # 0x88 # 0x15 # 0xc6 # 0x15 #
      0x80 # 0 # 0 # 0 # 0 # 0 # 0 # 0 # 0 # 0 # 0 # 0 # 0 # 0 # 0 # 0 #
      0 # 0 # 0 # 0 # 0 # 0 # 0 # 0 # 0 # 0 # 0 # 0 # 0 # 0 # 0x03 # 0 # rest) =
   sha_blocks (Sha 0x98d1e2b4 0x87f68215 0xc4477df8 0x190a675f 0x1c1ff6c3 0xc3bda862 0x17c0aacc 0x5ab9b4ab) rest"
  by (simp only: sha_eval)

lemma fp_s1_code_digest:
  "sha_blocks (Sha 0xfbf1a037 0x2e9a60b2 0xa08c9325 0xa4fd756d 0x55368456 0xbe012b6d 0x476abc98 0xc2e1cb14) (strip 15 fp_s1 @ sha_tail 1568) =
     Sha 0xaeb63045 0x431ba090 0xb7f0b124 0x9849568c 0x8dc87715 0xf41a8f4a 0xee45d134 0x8815c615"
  by (simp add: strip_def fp_s1_def sha_tail_1568 fp_s1_code_pass_0 fp_s1_code_pass_1 fp_s1_code_pass_2 fp_s1_code_pass_3 fp_s1_code_pass_4 fp_s1_code_pass_5 fp_s1_code_pass_6 fp_s1_code_pass_7 fp_s1_code_pass_8 fp_s1_code_pass_9 fp_s1_code_pass_10 fp_s1_code_pass_11 sha_blocks_Nil)

lemma fp_s1_code:
  "calculateHMACsha256 (strip 15 fp_s1) (take 36 GENUINE_FMS_KEY) =
     [0x98, 0xd1, 0xe2, 0xb4, 0x87, 0xf6, 0x82, 0x15, 0xc4, 0x47, 0x7d, 0xf8, 0x19, 0x0a, 0x67,
      0x5f, 0x1c, 0x1f, 0xf6, 0xc3, 0xc3, 0xbd, 0xa8, 0x62, 0x17, 0xc0, 0xaa, 0xcc, 0x5a, 0xb9,
      0xb4, 0xab]"
proof -
  have bytes: "sha_bytes (Sha 0xaeb63045 0x431ba090 0xb7f0b124 0x9849568c 0x8dc87715 0xf41a8f4a 0xee45d134 0x8815c615) =
      [0xae, 0xb6, 0x30, 0x45, 0x43, 0x1b, 0xa0, 0x90, 0xb7, 0xf0, 0xb1, 0x24, 0x98, 0x49, 0x56,
       0x8c, 0x8d, 0xc8, 0x77, 0x15, 0xf4, 0x1a, 0x8f, 0x4a, 0xee, 0x45, 0xd1, 0x34, 0x88, 0x15,
       0xc6, 0x15]"
    by (simp add: be32_put_def)
  have len: "64 + length (strip 15 fp_s1) = 1568" by (simp add: strip_def fp_s1_def)
  have "calculateHMACsha256 (strip 15 fp_s1) (take 36 GENUINE_FMS_KEY) = sha_bytes (Sha 0x98d1e2b4 0x87f68215 0xc4477df8 0x190a675f 0x1c1ff6c3 0xc3bda862 0x17c0aacc 0x5ab9b4ab)"
    unfolding server_mac len fp_s1_code_digest bytes
    by (simp only: sha_tail_96 append_Cons append_Nil fp_s1_code_end sha_blocks_Nil)
  then show ?thesis by (simp add: be32_put_def)
qed

lemma fp_s1_code_signed: "signed 0 (take 36 GENUINE_FMS_KEY) fp_s1"
proof -
  have "digest_at 15 fp_s1 =
     [0x98, 0xd1, 0xe2, 0xb4, 0x87, 0xf6, 0x82, 0x15, 0xc4, 0x47, 0x7d, 0xf8, 0x19, 0x0a, 0x67,
      0x5f, 0x1c, 0x1f, 0xf6, 0xc3, 0xc3, 0xbd, 0xa8, 0x62, 0x17, 0xc0, 0xaa, 0xcc, 0x5a, 0xb9,
      0xb4, 0xab]"
    by (simp add: digest_at_def fp_s1_def)
  then show ?thesis unfolding signed_def fp_s1_offset0 fp_s1_code by simp
qed

text \<open>The acknowledgement of the client: its last 32 bytes are the code of the others under a key derived
  from the digest of the server.\<close>

lemma fp_ack_key_pass:
  "sha_blocks (Sha 0xf50c211e 0xb4912e4e 0xa654c4f4 0xeaa22a44 0x31f45f66 0x22754a77 0x9b30b532 0xb18de0ad)
     (0x98 # 0xd1 # 0xe2 # 0xb4 # 0x87 # 0xf6 # 0x82 # 0x15 # 0xc4 # 0x47 # 0x7d # 0xf8 # 0x19 # 0x0a # 0x67 # 0x5f #
      0x1c # 0x1f # 0xf6 # 0xc3 # 0xc3 # 0xbd # 0xa8 # 0x62 # 0x17 # 0xc0 # 0xaa # 0xcc # 0x5a # 0xb9 # 0xb4 # 0xab #
      0x80 # 0 # 0 # 0 # 0 # 0 # 0 # 0 # 0 # 0 # 0 # 0 # 0 # 0 # 0 # 0 #
      0 # 0 # 0 # 0 # 0 # 0 # 0 # 0 # 0 # 0 # 0 # 0 # 0 # 0 # 0x03 # 0 # rest) =
   sha_blocks (Sha 0xeb32cd2b 0x78d190b9 0x1d47bee3 0x9cb5de10 0x6905292b 0x8d6d19d5 0x4312969c 0x8a9ec3f3) rest"
  by (simp only: sha_eval)

lemma fp_ack_key_end:
  "sha_blocks (Sha 0x2f089c78 0x00cdebc1 0xfd6934e4 0x55f3acc6 0xe5e8c528 0x4dc7d7c3 0xb6caf065 0x34f8d755)
     (0xeb # 0x32 # 0xcd # 0x2b # 0x78 # 0xd1 # 0x90 # 0xb9 # 0x1d # 0x47 # 0xbe # 0xe3 # 0x9c # 0xb5 # 0xde # 0x10 #
      0x69 # 0x05 # 0x29 # 0x2b # 0x8d # 0x6d # 0x19 # 0xd5 # 0x43 # 0x12 # 0x96 # 0x9c # 0x8a # 0x9e # 0xc3 # 0xf3 #
      0x80 # 0 # 0 # 0 # 0 # 0 # 0 # 0 # 0 # 0 # 0 # 0 # 0 # 0 # 0 # 0 #
      0 # 0 # 0 # 0 # 0 # 0 # 0 # 0 # 0 # 0 # 0 # 0 # 0 # 0 # 0x03 # 0 # rest) =
   sha_blocks (Sha 0x07720e66 0x2f430cd6 0xc783ed12 0x465cb9c8 0x01535f20 0x66744d41 0x5038a032 0xddd24581) rest"
  by (simp only: sha_eval)

lemma fp_ack_key_digest:
  "sha_blocks (Sha 0xf50c211e 0xb4912e4e 0xa654c4f4 0xeaa22a44 0x31f45f66 0x22754a77 0x9b30b532 0xb18de0ad) (digest_at 15 fp_s1 @ sha_tail 96) =
     Sha 0xeb32cd2b 0x78d190b9 0x1d47bee3 0x9cb5de10 0x6905292b 0x8d6d19d5 0x4312969c 0x8a9ec3f3"
  by (simp add: digest_at_def fp_s1_def sha_tail_96 fp_ack_key_pass sha_blocks_Nil)

lemma fp_ack_key:
  "calculateHMACsha256 (digest_at 15 fp_s1) GENUINE_FP_KEY =
     [0x07, 0x72, 0x0e, 0x66, 0x2f, 0x43, 0x0c, 0xd6, 0xc7, 0x83, 0xed, 0x12, 0x46, 0x5c, 0xb9,
      0xc8, 1, 0x53, 0x5f, 0x20, 0x66, 0x74, 0x4d, 0x41, 0x50, 0x38, 0xa0, 0x32, 0xdd, 0xd2, 0x45,
      0x81]"
proof -
  have bytes: "sha_bytes (Sha 0xeb32cd2b 0x78d190b9 0x1d47bee3 0x9cb5de10 0x6905292b 0x8d6d19d5 0x4312969c 0x8a9ec3f3) =
      [0xeb, 0x32, 0xcd, 0x2b, 0x78, 0xd1, 0x90, 0xb9, 0x1d, 0x47, 0xbe, 0xe3, 0x9c, 0xb5, 0xde,
       0x10, 0x69, 0x05, 0x29, 0x2b, 0x8d, 0x6d, 0x19, 0xd5, 0x43, 0x12, 0x96, 0x9c, 0x8a, 0x9e,
       0xc3, 0xf3]"
    by (simp add: be32_put_def)
  have len: "64 + length (digest_at 15 fp_s1) = 96" by (simp add: digest_at_def fp_s1_def)
  have "calculateHMACsha256 (digest_at 15 fp_s1) GENUINE_FP_KEY = sha_bytes (Sha 0x07720e66 0x2f430cd6 0xc783ed12 0x465cb9c8 0x01535f20 0x66744d41 0x5038a032 0xddd24581)"
    unfolding player_full_mac len fp_ack_key_digest bytes
    by (simp only: sha_tail_96 append_Cons append_Nil fp_ack_key_end sha_blocks_Nil)
  then show ?thesis by (simp add: be32_put_def)
qed

lemma fp_ack_inner:
  "sha_blocks (Sha 0x6a09e667 0xbb67ae85 0x3c6ef372 0xa54ff53a 0x510e527f 0x9b05688c 0x1f83d9ab 0x5be0cd19)
     (0x31 # 0x44 # 0x38 # 0x50 # 0x19 # 0x75 # 0x3a # 0xe0 # 0xf1 # 0xb5 # 0xdb # 0x24 # 0x70 # 0x6a # 0x8f # 0xfe #
      0x37 # 0x65 # 0x69 # 0x16 # 0x50 # 0x42 # 0x7b # 0x77 # 0x66 # 0x0e # 0x96 # 0x04 # 0xeb # 0xe4 # 0x73 # 0xb7 #
      0x36 # 0x36 # 0x36 # 0x36 # 0x36 # 0x36 # 0x36 # 0x36 # 0x36 # 0x36 # 0x36 # 0x36 # 0x36 # 0x36 # 0x36 # 0x36 #
      0x36 # 0x36 # 0x36 # 0x36 # 0x36 # 0x36 # 0x36 # 0x36 # 0x36 # 0x36 # 0x36 # 0x36 # 0x36 # 0x36 # 0x36 # 0x36 # rest) =
   sha_blocks (Sha 0xed628192 0x9e488a19 0x9c0591ab 0xb4a533c5 0xf822f6f3 0x06ed4d53 0x85e1bd6f 0xcb7669b0) rest"
  by (simp only: sha_eval)

lemma fp_ack_outer:
  "sha_blocks (Sha 0x6a09e667 0xbb67ae85 0x3c6ef372 0xa54ff53a 0x510e527f 0x9b05688c 0x1f83d9ab 0x5be0cd19)
     (0x5b # 0x2e # 0x52 # 0x3a # 0x73 # 0x1f # 0x50 # 0x8a # 0x9b # 0xdf # 0xb1 # 0x4e # 0x1a # 0 # 0xe5 # 0x94 #
      0x5d # 0x0f # 0x03 # 0x7c # 0x3a # 0x28 # 0x11 # 0x1d # 0x0c # 0x64 # 0xfc # 0x6e # 0x81 # 0x8e # 0x19 # 0xdd #
      0x5c # 0x5c # 0x5c # 0x5c # 0x5c # 0x5c # 0x5c # 0x5c # 0x5c # 0x5c # 0x5c # 0x5c # 0x5c # 0x5c # 0x5c # 0x5c #
      0x5c # 0x5c # 0x5c # 0x5c # 0x5c # 0x5c # 0x5c # 0x5c # 0x5c # 0x5c # 0x5c # 0x5c # 0x5c # 0x5c # 0x5c # 0x5c # rest) =
   sha_blocks (Sha 0xc6c02092 0x9352c534 0x5a2c39bf 0x604ecec1 0x9b5c2b44 0xe55e8f8e 0xc8288783 0xfa7fc335) rest"
  by (simp only: sha_eval)

lemma fp_ack_block:
  "hmac_key [0x07, 0x72, 0x0e, 0x66, 0x2f, 0x43, 0x0c, 0xd6, 0xc7, 0x83, 0xed, 0x12, 0x46, 0x5c, 0xb9,
      0xc8, 1, 0x53, 0x5f, 0x20, 0x66, 0x74, 0x4d, 0x41, 0x50, 0x38, 0xa0, 0x32, 0xdd, 0xd2, 0x45,
      0x81] =
     [0x07, 0x72, 0x0e, 0x66, 0x2f, 0x43, 0x0c, 0xd6, 0xc7, 0x83, 0xed, 0x12, 0x46, 0x5c, 0xb9,
      0xc8, 1, 0x53, 0x5f, 0x20, 0x66, 0x74, 0x4d, 0x41, 0x50, 0x38, 0xa0, 0x32, 0xdd, 0xd2, 0x45,
      0x81, 0, 0, 0, 0, 0, 0, 0, 0, 0, 0, 0, 0, 0, 0, 0, 0, 0, 0, 0, 0, 0, 0, 0, 0, 0, 0, 0, 0, 0,
      0, 0, 0]"
  by (simp add: hmac_key_def) (simp add: numeral_eq_Suc)

lemma fp_ack_mac:
  "calculateHMACsha256 msg [0x07, 0x72, 0x0e, 0x66, 0x2f, 0x43, 0x0c, 0xd6, 0xc7, 0x83, 0xed, 0x12, 0x46, 0x5c, 0xb9,
      0xc8, 1, 0x53, 0x5f, 0x20, 0x66, 0x74, 0x4d, 0x41, 0x50, 0x38, 0xa0, 0x32, 0xdd, 0xd2, 0x45,
      0x81] = sha_bytes (sha_blocks (Sha 0xc6c02092 0x9352c534 0x5a2c39bf 0x604ecec1 0x9b5c2b44 0xe55e8f8e 0xc8288783 0xfa7fc335) (sha_bytes
     (sha_blocks (Sha 0xed628192 0x9e488a19 0x9c0591ab 0xb4a533c5 0xf822f6f3 0x06ed4d53 0x85e1bd6f 0xcb7669b0) (msg @ sha_tail (64 + length msg))) @ sha_tail 96))"
  unfolding calculateHMACsha256_def
  by (rule hmac_eval [OF fp_ack_block]) (simp_all add: fp_ack_inner fp_ack_outer sha_blocks_Nil)

lemma fp_ack_code_pass_0:
  "sha_blocks (Sha 0xed628192 0x9e488a19 0x9c0591ab 0xb4a533c5 0xf822f6f3 0x06ed4d53 0x85e1bd6f 0xcb7669b0)
     (0x24 # 0x62 # 0x59 # 0xfd # 0x3e # 0xc2 # 0xb0 # 0xe6 # 0x83 # 0xbd # 0xa0 # 0xba # 0x8d # 0x9c # 0x5e # 0x2f #
      0x4e # 0xbc # 0x05 # 0xcd # 0x95 # 0x24 # 0x47 # 0x5e # 0x50 # 0x2f # 0x17 # 0xfc # 0x73 # 0xfd # 0x8a # 0x5c #
      0x20 # 0x3a # 0x3b # 0xc9 # 0x33 # 0x26 # 0xde # 0x51 # 0xfd # 0x46 # 0x8b # 0x95 # 0xfe # 0x71 # 0x5f # 0x95 #
      0x7e # 0x31 # 0x73 # 0xd3 # 0x73 # 0x88 # 0xe1 # 0x49 # 0x26 # 0x8c # 0xb3 # 0x97 # 0xd5 # 0x5c # 0x99 # 0xf0 #
      0xe2 # 0xd1 # 0x09 # 0x17 # 0x3a # 0xb7 # 0x10 # 0x1b # 0x61 # 0x36 # 0x99 # 0x27 # 0xd7 # 0xed # 0x7b # 0x1e #
      0xa1 # 0xad # 0x46 # 0xf5 # 0x45 # 0xa4 # 0xbc # 0xc9 # 0xa6 # 0x12 # 0xbe # 0x6d # 0x08 # 0x38 # 0x88 # 1 #
      0x9d # 0xfc # 0x0e # 0x40 # 0xe1 # 0x9d # 0x5a # 0xa3 # 0x12 # 0x20 # 0x8f # 0x21 # 0xea # 0x10 # 0xb5 # 0xe4 #
      0xbc # 0xa9 # 0xfe # 0xde # 0xc7 # 0x1a # 0xfd # 0x37 # 0x9d # 0xff # 0x0b # 0x74 # 0xc9 # 0x0f # 0x19 # 0xe2 # rest) =
   sha_blocks (Sha 0x10e2d503 0xa6701338 0xde89a35c 0x2b49df51 0xd5c78a7e 0x8be16868 0x95c26cad 0xd5acfae5) rest"
  by (simp only: sha_eval)

lemma fp_ack_code_pass_1:
  "sha_blocks (Sha 0x10e2d503 0xa6701338 0xde89a35c 0x2b49df51 0xd5c78a7e 0x8be16868 0x95c26cad 0xd5acfae5)
     (0x29 # 0xe7 # 0x6e # 0x1a # 0xff # 0x18 # 0xec # 0x4a # 0x8f # 0x50 # 0xe1 # 0x04 # 0x3b # 0x9e # 0x9b # 0xab #
      0x84 # 0x85 # 0x83 # 0x03 # 0x8d # 0x7b # 0xec # 0x51 # 0x4b # 0x51 # 0x52 # 0xbb # 0x42 # 0x32 # 0x78 # 0x58 #
      0x92 # 0x9b # 0x22 # 0x43 # 0x27 # 0xc6 # 0x8b # 0x4e # 0x4f # 0x7a # 0x75 # 0xea # 0xbf # 0x6b # 0xa1 # 0x49 #
      0x0b # 0x9a # 0xd0 # 0xe8 # 0x14 # 0x71 # 0x6a # 0xed # 0xd3 # 0x9b # 0xd6 # 0xb4 # 0xa2 # 0xaf # 0xdb # 0x40 #
      0xd2 # 0xeb # 0x24 # 0x20 # 0x2a # 0x35 # 0xf6 # 0x5b # 0x68 # 0xa1 # 0x2c # 0xe8 # 0xb4 # 0xf6 # 0x53 # 0xcc #
      0xb4 # 0x4a # 0xce # 0x4e # 0xdd # 0x09 # 0x14 # 0xd8 # 0x56 # 0x9f # 0xf9 # 0x87 # 0x3f # 1 # 0xd3 # 0x09 #
      0xef # 0xa7 # 0x13 # 0xf1 # 0x94 # 0x49 # 0x93 # 0x7f # 0x66 # 0x16 # 0xdf # 0x12 # 0x11 # 0xf3 # 0x96 # 0xaa #
      0xf6 # 0x4f # 0x12 # 0xfd # 0x52 # 0xb4 # 0x93 # 0x8f # 0x40 # 0x0f # 0x52 # 0xf2 # 0x1f # 0x16 # 0x05 # 0xb2 # rest) =
   sha_blocks (Sha 0x122e1ac9 0x5f1443ac 0xe882e77d 0x7b7163a0 0x7c4239fb 0x72750e05 0xcea1277b 0x6cde78fa) rest"
  by (simp only: sha_eval)

lemma fp_ack_code_pass_2:
  "sha_blocks (Sha 0x122e1ac9 0x5f1443ac 0xe882e77d 0x7b7163a0 0x7c4239fb 0x72750e05 0xcea1277b 0x6cde78fa)
     (0x4a # 0x88 # 0x9b # 0x40 # 0x97 # 0xa7 # 0x1c # 0x86 # 0x02 # 0x68 # 0xb6 # 0x50 # 0xca # 0x2f # 0x27 # 0xda #
      0x0c # 0xe8 # 0xcd # 0x7e # 0 # 0x23 # 0xeb # 0x4a # 0x13 # 0x1b # 0xa5 # 0x82 # 0x4c # 0xe6 # 0xc1 # 0xe0 #
      0x38 # 0x63 # 0xe2 # 0x3c # 0x4a # 0x4f # 0x67 # 0xaa # 0xb0 # 0x44 # 0xdd # 0x88 # 0xb8 # 0xe4 # 0x81 # 0x87 #
      0x6b # 0xe2 # 0xc0 # 0xd3 # 0x5a # 0xa3 # 0x61 # 0x80 # 0xda # 0x78 # 0x28 # 0xe5 # 0x55 # 0xdc # 0xba # 0x19 #
      0x9d # 0x49 # 0x90 # 0x62 # 0xa0 # 0xc1 # 0xe7 # 0xaa # 0x6a # 0x6c # 0x44 # 0x45 # 0x30 # 0xd9 # 0xbe # 0x18 #
      0x69 # 0x94 # 0xde # 0xf5 # 0xaf # 0x0f # 0x63 # 0xbf # 0x54 # 0xbb # 0x44 # 0xb8 # 1 # 0x3c # 0x27 # 0x10 #
      0xe5 # 0x21 # 0xcc # 0xcc # 0xb7 # 0x11 # 0xe9 # 0x07 # 0x83 # 0xbb # 0xd1 # 0xba # 0x7b # 0x06 # 0xa5 # 0x68 #
      0xde # 0xcb # 0xfc # 0xd1 # 0xa5 # 0x31 # 0x6e # 0x67 # 0xc7 # 0xa7 # 0xdd # 0xeb # 0xb6 # 0x6b # 0x17 # 0xf8 # rest) =
   sha_blocks (Sha 0xf77962eb 0xe5fc366b 0xcd7c37d7 0xa5510d40 0x479b4c6d 0xce8987de 0x5d43b959 0x26562cea) rest"
  by (simp only: sha_eval)

lemma fp_ack_code_pass_3:
  "sha_blocks (Sha 0xf77962eb 0xe5fc366b 0xcd7c37d7 0xa5510d40 0x479b4c6d 0xce8987de 0x5d43b959 0x26562cea)
     (0xcb # 0x3c # 0x6b # 0xa6 # 0x0c # 1 # 0x2d # 0xd0 # 0x6b # 0x9f # 0xf8 # 0x99 # 0xd0 # 0x8c # 0x27 # 0xbe #
      0x1f # 0x73 # 0x16 # 0xb3 # 0xa7 # 0x26 # 0x2f # 0x4b # 0xdd # 0x0c # 0x73 # 0xb6 # 0x9c # 0x46 # 0x23 # 0x49 #
      0x20 # 0x2f # 0x81 # 0x33 # 0x88 # 0xa3 # 0xf7 # 0xe6 # 0x57 # 0xaf # 0x28 # 0x87 # 0xb7 # 0xfd # 0xfa # 0xff #
      0x44 # 0x0c # 0xbe # 0xec # 0xfe # 0x11 # 0x2d # 0x46 # 0x70 # 0x56 # 0x40 # 0x64 # 0x2f # 0xee # 0xa2 # 0xe9 #
      0x4e # 0xdd # 0x26 # 0xbc # 0xe6 # 0x96 # 0x39 # 0x90 # 0xfe # 0x69 # 0xd0 # 0xd1 # 0xf0 # 0x98 # 0x2f # 0xf0 #
      0x97 # 0xa6 # 0x26 # 0x24 # 0xae # 0xd2 # 0xcd # 0xb3 # 0x65 # 0xf3 # 0xa1 # 0x45 # 0x46 # 0x52 # 0x30 # 0xc5 #
      0x2d # 0x51 # 0x3b # 0x5c # 0xa2 # 0xd3 # 0x9c # 0x2c # 0x55 # 0x8a # 0xec # 0xc9 # 0x4d # 0x30 # 0x0d # 0x73 #
      0x30 # 0xdf # 0xf3 # 0x45 # 0x21 # 0xe2 # 0x14 # 0x45 # 0x85 # 0x8e # 0xbd # 0x39 # 0x5a # 0x6c # 0xd3 # 0xf1 # rest) =
   sha_blocks (Sha 0x92e6e9e0 0x14dff811 0xb8c39380 0x61cc7073 0x8af4f0f0 0xbc2ad336 0x35b64382 0xbff7477d) rest"
  by (simp only: sha_eval)

lemma fp_ack_code_pass_4:
  "sha_blocks (Sha 0x92e6e9e0 0x14dff811 0xb8c39380 0x61cc7073 0x8af4f0f0 0xbc2ad336 0x35b64382 0xbff7477d)
     (0x6e # 0xb7 # 0xb7 # 0x72 # 0x7a # 0xf0 # 0xc8 # 0x41 # 0xff # 0x7f # 0xd1 # 0x39 # 0x3a # 0xdf # 0x81 # 0x47 #
      0xc1 # 0x18 # 0x0b # 0x3c # 0xf0 # 0x58 # 0x75 # 0x58 # 0x50 # 0x77 # 0xe5 # 0x3b # 0x96 # 0x95 # 0x8a # 0xbc #
      0xdf # 0xd9 # 0x1c # 0xf3 # 0x76 # 0x51 # 0x6d # 0xa5 # 0x74 # 0x58 # 0x7b # 0x4c # 0x91 # 0x70 # 0xc5 # 0x29 #
      0x4f # 0xb3 # 0xd4 # 0x6e # 0x74 # 0x57 # 0x57 # 0x23 # 0xaf # 0xca # 0xd5 # 0xe4 # 0x73 # 0x4e # 0x18 # 0xd6 #
      0xbb # 0x31 # 0x3a # 0x20 # 0x4a # 0x37 # 0xc3 # 0x0d # 0x2d # 0xac # 0x2c # 0x36 # 0xc7 # 0x33 # 0x46 # 0x66 #
      0x32 # 0x1e # 0xa6 # 0x10 # 0xb5 # 0x99 # 0xd0 # 0xcd # 0x87 # 0x94 # 0x15 # 0x4c # 0x75 # 0x98 # 0xb7 # 0xfc #
      0xf4 # 0xb4 # 0xa1 # 0x64 # 0x28 # 0xaa # 0xa0 # 0x86 # 0x56 # 0xde # 0x88 # 0x57 # 0xa6 # 0xba # 0x4e # 0xc9 #
      0xe6 # 0xde # 0x09 # 0x9c # 0x30 # 0x0b # 0xf4 # 0x81 # 0xee # 0x2d # 0x88 # 0x9d # 0x45 # 0xcc # 0x78 # 0x5b # rest) =
   sha_blocks (Sha 0x443bbf63 0xce5e4b28 0xfdfd364a 0x6e368bcc 0x77b19e17 0xcf7bbfd7 0x4f4b1cda 0x83b2da89) rest"
  by (simp only: sha_eval)

lemma fp_ack_code_pass_5:
  "sha_blocks (Sha 0x443bbf63 0xce5e4b28 0xfdfd364a 0x6e368bcc 0x77b19e17 0xcf7bbfd7 0x4f4b1cda 0x83b2da89)
     (0x55 # 0x0c # 0x74 # 0x68 # 0x08 # 0xbd # 0xa4 # 0x88 # 0xc7 # 0xdc # 0x77 # 0x3d # 0x3e # 0xdf # 0x94 # 0xdf #
      0x15 # 0xf3 # 0xee # 0x12 # 0x5e # 0x3f # 0xdf # 0x67 # 0x34 # 0x50 # 0x11 # 0x99 # 0x77 # 0xed # 0x37 # 0x51 #
      0x5a # 0xc3 # 0x02 # 0x97 # 0xf3 # 0x49 # 0x7d # 0x2a # 0x39 # 0xc6 # 0xa7 # 0xc1 # 0x78 # 0xa0 # 0xa9 # 0x90 #
      0xe0 # 0xdc # 0x75 # 0x59 # 0xb9 # 0xb0 # 0x9c # 0x7c # 0x30 # 0x2b # 0x32 # 0x9a # 0x47 # 0x06 # 0x28 # 0xec #
      0xc6 # 0x57 # 0xee # 0xc5 # 0x14 # 0x0b # 0xe1 # 0xeb # 0xf7 # 0xbf # 0x89 # 0x27 # 0xf6 # 0x33 # 0xae # 0xeb #
      0xae # 0xf1 # 0x28 # 0x19 # 0xf6 # 0x57 # 0x84 # 0xa1 # 0x4d # 0x95 # 0x9f # 0xf3 # 0xe1 # 0xf2 # 0xc4 # 0x1b #
      0xc0 # 0x41 # 0x21 # 0xfe # 0xe8 # 0x73 # 0xf3 # 0x83 # 0x41 # 0x4b # 0x9c # 0x70 # 0x92 # 0x20 # 0x22 # 0xbf #
      0xc1 # 0xdc # 0x74 # 0xa2 # 0x32 # 0x9f # 0x9b # 0x2c # 0x8c # 0xab # 0x86 # 0 # 0x6b # 0xb0 # 0x8b # 0x47 # rest) =
   sha_blocks (Sha 0x99d0b8a7 0xa77a342a 0xe8ec6806 0x568159c8 0x57715729 0x55452806 0x44c90d91 0xef666773) rest"
  by (simp only: sha_eval)

lemma fp_ack_code_pass_6:
  "sha_blocks (Sha 0x99d0b8a7 0xa77a342a 0xe8ec6806 0x568159c8 0x57715729 0x55452806 0x44c90d91 0xef666773)
     (0xbe # 0xaa # 0x3d # 0xca # 0x1b # 0x39 # 0xcc # 0xe4 # 0xb8 # 0x20 # 0x0a # 0x75 # 0x7f # 0x36 # 0x9f # 0x17 #
      0xbc # 0x33 # 0xed # 0xca # 0xa4 # 0xdf # 0x27 # 0x3c # 0x2f # 0xd1 # 0xb5 # 0x1a # 0x4d # 0xd9 # 0x8c # 0x12 #
      0x98 # 0xa2 # 0x92 # 0x9e # 0xda # 0xf2 # 0 # 0xea # 0xe2 # 0x61 # 0x32 # 0xc4 # 0x9b # 0x86 # 0x27 # 0xbe #
      0x3b # 0x3d # 0xd6 # 0x30 # 0x92 # 0x57 # 0x02 # 0x57 # 0xca # 0x1a # 0xa6 # 0xab # 0x3e # 0xe2 # 0x20 # 0xd3 #
      0xe0 # 0x43 # 0xb0 # 0xa6 # 0x09 # 0xe6 # 0x10 # 0x52 # 0x1b # 0xb1 # 0x04 # 0xba # 0x57 # 0x9f # 0x1f # 0x5a #
      0xfa # 0x5b # 0xce # 0x39 # 0xda # 0x03 # 0x80 # 0x66 # 0x8c # 0x2f # 0x5b # 0x63 # 0xf0 # 0x04 # 0x55 # 0xaa #
      0xe9 # 0x05 # 0x7c # 0xef # 0xe3 # 0x08 # 0x94 # 0x72 # 0xcc # 0x13 # 0x8b # 0x15 # 0x28 # 0x6c # 0x19 # 0x43 #
      0xab # 0xd3 # 0x79 # 0xe5 # 0x15 # 0x27 # 0x6e # 0x30 # 0x91 # 0x52 # 0x56 # 0x8c # 0xe2 # 0x78 # 0xcc # 0x74 # rest) =
   sha_blocks (Sha 0xc4d98e69 0x8185caef 0x7a6193b8 0x17c68097 0x3eb1656e 0x19438ff0 0x8222e204 0x85e4d5aa) rest"
  by (simp only: sha_eval)

lemma fp_ack_code_pass_7:
  "sha_blocks (Sha 0xc4d98e69 0x8185caef 0x7a6193b8 0x17c68097 0x3eb1656e 0x19438ff0 0x8222e204 0x85e4d5aa)
     (0x9a # 0xae # 0x08 # 0xd1 # 0xbd # 0xc6 # 0x92 # 0x05 # 0x28 # 0x4c # 0x22 # 0xc7 # 0x1a # 0x43 # 0x97 # 0x92 #
      0x7e # 0xc9 # 0xa0 # 0x6c # 0x54 # 0x24 # 0x6f # 0xad # 0x07 # 0xf5 # 0xe4 # 0x2a # 0x4d # 0x3e # 0x54 # 0xe0 #
      0x0e # 0x1f # 0x4b # 0x92 # 0x43 # 0x33 # 0xe4 # 0x4e # 0xa5 # 0x51 # 0xda # 0xcf # 0xab # 0xa1 # 0x5f # 0xc1 #
      0x2e # 0x6c # 0xad # 0xfd # 0xba # 0x0a # 0x17 # 0xce # 0x35 # 0x67 # 0x3c # 0xb4 # 0xfd # 0xe2 # 0xa7 # 0x65 #
      0xfc # 0xa7 # 0xd5 # 0xa3 # 0xb8 # 0x02 # 0x84 # 0x45 # 0x9b # 0x29 # 0x35 # 0xc3 # 0x9e # 0x55 # 0x6f # 0x6c #
      0xaf # 0xab # 0xba # 0x6c # 0x70 # 0x50 # 0xfa # 0x28 # 0x12 # 0x30 # 0x9d # 0x3c # 0xf1 # 0x4d # 0x4a # 0xd6 #
      0x48 # 0xa8 # 0x2a # 0x51 # 0x17 # 0xa3 # 0xee # 0x87 # 0xdf # 0x25 # 0x34 # 0x77 # 0xb7 # 0x31 # 0x71 # 0x55 #
      0xf7 # 0xfc # 0xfb # 0x3a # 0x54 # 0xeb # 0x5d # 0xf0 # 0xb4 # 0x8d # 0xbd # 0xf8 # 0xff # 0x76 # 0xf0 # 0x73 # rest) =
   sha_blocks (Sha 0x3796f540 0xe394336b 0xee405997 0xa92428b3 0x8891c356 0xe2002a37 0x043ecfdd 0x93e88ab6) rest"
  by (simp only: sha_eval)

lemma fp_ack_code_pass_8:
  "sha_blocks (Sha 0x3796f540 0xe394336b 0xee405997 0xa92428b3 0x8891c356 0xe2002a37 0x043ecfdd 0x93e88ab6)
     (0x57 # 0x57 # 0x0c # 0xb5 # 0xab # 0xfb # 0xd1 # 0xae # 0x1d # 0xc8 # 0xe0 # 0xc4 # 0x4a # 0xb7 # 0x3c # 0x80 #
      0x5d # 0x6c # 0xdd # 0xc9 # 0x3b # 1 # 0x91 # 0xfb # 0xc6 # 0x38 # 0x52 # 0x85 # 0x18 # 0x8c # 0xbd # 0x79 #
      0xcb # 0x74 # 0x6e # 0xb0 # 0x4e # 0x2c # 0x2e # 0xdc # 0x08 # 0xe4 # 0xc4 # 0x5e # 0xc4 # 0x83 # 0x3c # 0x4a #
      0x7a # 0x5f # 0x7c # 0x18 # 0x36 # 0xee # 0xdf # 0x44 # 0xe6 # 0x0d # 0xcb # 0xfc # 0x39 # 0x0e # 0xae # 0x27 #
      0x93 # 0x30 # 0xa0 # 0x27 # 0x47 # 0x88 # 0x37 # 0xa4 # 0xaf # 0xee # 0x3c # 0x69 # 0x63 # 0xc4 # 0xb3 # 0x5c #
      0x4b # 0xbb # 0x5f # 0x37 # 0x6d # 0xa1 # 0xf3 # 0x2a # 0xf1 # 0x4d # 0xae # 0x9b # 0x69 # 0x92 # 0x0c # 0xf0 #
      0x8a # 0x0d # 0x3f # 0x02 # 0xf8 # 0xb8 # 0x44 # 0x3c # 0xcd # 0x26 # 0x10 # 0xf2 # 0xf4 # 0x57 # 0xe0 # 0xf6 #
      0x72 # 0x7a # 0xc9 # 0x7a # 0xa4 # 0x5c # 0x85 # 0xcb # 0x7a # 0xd9 # 0xc6 # 0xd0 # 0x2d # 0x25 # 0xff # 0x4c # rest) =
   sha_blocks (Sha 0x3e037da4 0x5294143c 0xe03aa9f1 0x1e85c5da 0x7b5c8b48 0xa0e5e8f9 0xffc0cfd2 0xef107a75) rest"
  by (simp only: sha_eval)

lemma fp_ack_code_pass_9:
  "sha_blocks (Sha 0x3e037da4 0x5294143c 0xe03aa9f1 0x1e85c5da 0x7b5c8b48 0xa0e5e8f9 0xffc0cfd2 0xef107a75)
     (0xcf # 0x2e # 0x28 # 0xc5 # 0x0a # 0x48 # 0x02 # 0x7d # 0xdd # 0xc0 # 0xb9 # 0x6d # 0x26 # 0xe9 # 0xf4 # 0x04 #
      0x55 # 0x37 # 0x9a # 0x71 # 0x7b # 0xcb # 0xea # 0xdd # 0x57 # 0xdf # 0x24 # 0x9e # 0x7e # 0x34 # 0x6d # 0x5e #
      0x46 # 0x0d # 0xd3 # 0xce # 0x7d # 0xee # 0x6f # 0xd5 # 0xc2 # 0x71 # 0xa4 # 0xff # 0x49 # 0x5a # 0x61 # 0xbc #
      0x89 # 0x6c # 0x45 # 0x15 # 0x42 # 0x77 # 0x6b # 0xdb # 0x97 # 0xe8 # 0x8d # 0xb5 # 0xbf # 0x16 # 0x80 # 0xfa #
      0x81 # 0x4d # 0xd5 # 0x69 # 0x7e # 0x69 # 0x63 # 0x0c # 0xb9 # 0x6f # 0xfc # 0x81 # 0xbe # 0xa2 # 0x13 # 0x38 #
      0xfe # 0x87 # 0xd0 # 0x14 # 0x6d # 0xdc # 0xfd # 0x59 # 0x7d # 0xb2 # 0xf7 # 0x30 # 0x29 # 0x3b # 0x81 # 0xeb #
      0xb1 # 0x03 # 0x69 # 0xcd # 0x83 # 0x4f # 0x0e # 0xd7 # 0x99 # 0xed # 0x84 # 0x51 # 0x6c # 0x18 # 0x89 # 0x98 #
      0x1b # 0xdb # 0xd8 # 0xe4 # 0xa8 # 0xc1 # 0x9f # 0x5a # 0xc4 # 0xb3 # 0xd1 # 0xb4 # 0x14 # 0xa2 # 0x34 # 0xd9 # rest) =
   sha_blocks (Sha 0x57f2be75 0xf2b421f3 0x5861b319 0x864cdb44 0xf06da3c1 0x43cb6ed2 0x0ddedfe8 0x11742b47) rest"
  by (simp only: sha_eval)

lemma fp_ack_code_pass_10:
  "sha_blocks (Sha 0x57f2be75 0xf2b421f3 0x5861b319 0x864cdb44 0xf06da3c1 0x43cb6ed2 0x0ddedfe8 0x11742b47)
     (0x06 # 0xaa # 0x3a # 0xa5 # 0xf5 # 0x64 # 0x8c # 0xfa # 0xaa # 0xcd # 0x88 # 0x83 # 0x2b # 0x1f # 0xd7 # 0x9a #
      0xde # 0x42 # 0x84 # 0xee # 0x9a # 0x2d # 0xef # 0x1a # 0xac # 0xc2 # 0x8f # 0x91 # 0x66 # 0x42 # 0x77 # 0xe1 #
      0x4c # 0x87 # 0x06 # 0x15 # 0x05 # 0x9b # 0xf5 # 0xec # 0xb8 # 0x2f # 0x2c # 0x7a # 0x43 # 0xc8 # 0x10 # 0xb7 #
      0x7b # 0x76 # 0x6a # 0x79 # 0x77 # 0x18 # 0x52 # 0xa3 # 0x86 # 0xf6 # 0x86 # 0xd2 # 0x61 # 0x8c # 0xc9 # 0xb8 #
      0xc4 # 0xf8 # 0xaa # 0x0a # 0x93 # 0xd3 # 0xc1 # 0x84 # 0xaf # 0x24 # 0x8f # 0xd3 # 0x91 # 0x50 # 0x16 # 0x47 #
      0xbc # 0x8b # 0x9e # 0x92 # 0x32 # 0x73 # 0x04 # 0x44 # 0xc1 # 0x28 # 0xc7 # 0x15 # 0xaa # 0x14 # 0x77 # 0x83 #
      0x98 # 0xac # 0x1a # 0xed # 0x82 # 0x32 # 0xcc # 0xb7 # 0x43 # 0xb3 # 0xc0 # 0x35 # 0x8c # 0xed # 0xe5 # 0x8b #
      0xbd # 0x0a # 0xbb # 0xef # 0x84 # 0xec # 0xbc # 0x70 # 0xa6 # 0x74 # 0x7f # 0xc9 # 0x17 # 0x36 # 0x41 # 0x93 # rest) =
   sha_blocks (Sha 0xf75d3a49 0xab8a33c3 0x08fc5fd2 0xd70664d4 0xc3333309 0x35f3a546 0x3f448ab7 0x9480c792) rest"
  by (simp only: sha_eval)

lemma fp_ack_code_pass_11:
  "sha_blocks (Sha 0xf75d3a49 0xab8a33c3 0x08fc5fd2 0xd70664d4 0xc3333309 0x35f3a546 0x3f448ab7 0x9480c792)
     (0x3b # 0x43 # 0x85 # 0xe8 # 0x93 # 0xcd # 0x0e # 0x0e # 0x9c # 0x21 # 0x61 # 0x9c # 0xcd # 0x26 # 0x7b # 0x71 #
      0x3c # 0x2b # 0x32 # 0xc8 # 0x30 # 0x4e # 0xf3 # 0x74 # 0xac # 0x94 # 0xe3 # 0xf3 # 0x55 # 0xed # 0x90 # 0x5c #
      0x1f # 0x3a # 0x3d # 0x08 # 0x45 # 0xad # 0xcf # 0xbe # 0xe2 # 0x04 # 0x87 # 0x7c # 0xf6 # 0xc5 # 0x35 # 0x2c #
      0x12 # 0xb1 # 0x93 # 0x88 # 0x50 # 0x17 # 0xc3 # 0x68 # 0xe3 # 0x6b # 0x5e # 0x45 # 0x35 # 0x3f # 0xbd # 0xb3 #
      0x82 # 0xb9 # 0x36 # 1 # 0xbf # 0xe1 # 0x24 # 0x69 # 0x35 # 0x89 # 0x42 # 0xb3 # 1 # 0x11 # 0x48 # 0xd0 #
      0xd5 # 0x55 # 0xad # 0x46 # 0x93 # 0xcd # 0x4c # 0x05 # 0x25 # 0x05 # 0x98 # 0x12 # 0xf7 # 0x08 # 0xcc # 0x4d #
      0x80 # 0 # 0 # 0 # 0 # 0 # 0 # 0 # 0 # 0 # 0 # 0 # 0 # 0 # 0 # 0 #
      0 # 0 # 0 # 0 # 0 # 0 # 0 # 0 # 0 # 0 # 0 # 0 # 0 # 0 # 0x31 # 0 # rest) =
   sha_blocks (Sha 0xd3fa6de9 0xba756ec6 0xa1fba794 0x1b1a1ae3 0x6145b885 0xa27a5d30 0x316c0c55 0x94ae1d35) rest"
  by (simp only: sha_eval)

lemma fp_ack_code_end:
  "sha_blocks (Sha 0xc6c02092 0x9352c534 0x5a2c39bf 0x604ecec1 0x9b5c2b44 0xe55e8f8e 0xc8288783 0xfa7fc335)
     (0xd3 # 0xfa # 0x6d # 0xe9 # 0xba # 0x75 # 0x6e # 0xc6 # 0xa1 # 0xfb # 0xa7 # 0x94 # 0x1b # 0x1a # 0x1a # 0xe3 #
      0x61 # 0x45 # 0xb8 # 0x85 # 0xa2 # 0x7a # 0x5d # 0x30 # 0x31 # 0x6c # 0x0c # 0x55 # 0x94 # 0xae # 0x1d # 0x35 #
      0x80 # 0 # 0 # 0 # 0 # 0 # 0 # 0 # 0 # 0 # 0 # 0 # 0 # 0 # 0 # 0 #
      0 # 0 # 0 # 0 # 0 # 0 # 0 # 0 # 0 # 0 # 0 # 0 # 0 # 0 # 0x03 # 0 # rest) =
   sha_blocks (Sha 0x85a35ecb 0xce0809a3 0x9f21b675 0xd5060c43 0xeec3d6a8 0xf86a3122 0x316ed8ff 0x56e9bea9) rest"
  by (simp only: sha_eval)

lemma fp_ack_code_digest:
  "sha_blocks (Sha 0xed628192 0x9e488a19 0x9c0591ab 0xb4a533c5 0xf822f6f3 0x06ed4d53 0x85e1bd6f 0xcb7669b0) (take 1504 fp_c2 @ sha_tail 1568) =
     Sha 0xd3fa6de9 0xba756ec6 0xa1fba794 0x1b1a1ae3 0x6145b885 0xa27a5d30 0x316c0c55 0x94ae1d35"
  by (simp add: fp_c2_def sha_tail_1568 fp_ack_code_pass_0 fp_ack_code_pass_1 fp_ack_code_pass_2 fp_ack_code_pass_3 fp_ack_code_pass_4 fp_ack_code_pass_5 fp_ack_code_pass_6 fp_ack_code_pass_7 fp_ack_code_pass_8 fp_ack_code_pass_9 fp_ack_code_pass_10 fp_ack_code_pass_11 sha_blocks_Nil)

lemma fp_ack_code:
  "calculateHMACsha256 (take 1504 fp_c2) [0x07, 0x72, 0x0e, 0x66, 0x2f, 0x43, 0x0c, 0xd6, 0xc7, 0x83, 0xed, 0x12, 0x46, 0x5c, 0xb9,
      0xc8, 1, 0x53, 0x5f, 0x20, 0x66, 0x74, 0x4d, 0x41, 0x50, 0x38, 0xa0, 0x32, 0xdd, 0xd2, 0x45,
      0x81] =
     [0x85, 0xa3, 0x5e, 0xcb, 0xce, 0x08, 0x09, 0xa3, 0x9f, 0x21, 0xb6, 0x75, 0xd5, 0x06, 0x0c,
      0x43, 0xee, 0xc3, 0xd6, 0xa8, 0xf8, 0x6a, 0x31, 0x22, 0x31, 0x6e, 0xd8, 0xff, 0x56, 0xe9,
      0xbe, 0xa9]"
proof -
  have bytes: "sha_bytes (Sha 0xd3fa6de9 0xba756ec6 0xa1fba794 0x1b1a1ae3 0x6145b885 0xa27a5d30 0x316c0c55 0x94ae1d35) =
      [0xd3, 0xfa, 0x6d, 0xe9, 0xba, 0x75, 0x6e, 0xc6, 0xa1, 0xfb, 0xa7, 0x94, 0x1b, 0x1a, 0x1a,
       0xe3, 0x61, 0x45, 0xb8, 0x85, 0xa2, 0x7a, 0x5d, 0x30, 0x31, 0x6c, 0x0c, 0x55, 0x94, 0xae,
       0x1d, 0x35]"
    by (simp add: be32_put_def)
  have len: "64 + length (take 1504 fp_c2) = 1568" by (simp add: fp_c2_def)
  have "calculateHMACsha256 (take 1504 fp_c2) [0x07, 0x72, 0x0e, 0x66, 0x2f, 0x43, 0x0c, 0xd6, 0xc7, 0x83, 0xed, 0x12, 0x46, 0x5c, 0xb9,
      0xc8, 1, 0x53, 0x5f, 0x20, 0x66, 0x74, 0x4d, 0x41, 0x50, 0x38, 0xa0, 0x32, 0xdd, 0xd2, 0x45,
      0x81] = sha_bytes (Sha 0x85a35ecb 0xce0809a3 0x9f21b675 0xd5060c43 0xeec3d6a8 0xf86a3122 0x316ed8ff 0x56e9bea9)"
    unfolding fp_ack_mac len fp_ack_code_digest bytes
    by (simp only: sha_tail_96 append_Cons append_Nil fp_ack_code_end sha_blocks_Nil)
  then show ?thesis by (simp add: be32_put_def)
qed

lemma fp_acknowledges:
  "drop 1504 fp_c2 = calculateHMACsha256 (take 1504 fp_c2)
     (calculateHMACsha256 (digest_at (scheme_offset 0 fp_s1) fp_s1) GENUINE_FP_KEY)"
  unfolding fp_s1_offset0 fp_ack_key fp_ack_code by (simp add: fp_c2_def)

end
