(* ===== verification/Recorded_Replay.thy ===== *)
theory Recorded_Replay
  imports Handshake_Keys
begin

text \<open>
  The handshake of a client that replays the block of the VLC player, recorded in \<^verbatim>\<open>src/my_test_bytes.go\<close>.
\<close>

definition my_s1 :: "u8 list" where
  "my_s1 =
     [0x1c, 0x65, 0x02, 0x77, 0x05, 0x00, 0x01, 0x01, 0x75, 0x3f, 0x04, 0x13, 0xd5, 0x90, 0x5f, 0xee] @
     [0x8a, 0x14, 0x64, 0x26, 0x39, 0xd5, 0xd6, 0x82, 0xd5, 0x02, 0x90, 0xae, 0x56, 0xd0, 0x3e, 0x48] @
     [0xe9, 0x3e, 0xd8, 0x81, 0x2d, 0x16, 0x03, 0xc1, 0x17, 0xe8, 0xdd, 0xa1, 0xa7, 0xed, 0x8f, 0x2a] @
     [0xa7, 0x91, 0x73, 0x1f, 0xd4, 0xfb, 0xa4, 0x20, 0x92, 0x5c, 0xd3, 0x14, 0xec, 0xb9, 0xf2, 0xf7] @
     [0x30, 0x89, 0x09, 0xd5, 0x06, 0x4d, 0xc9, 0xf9, 0xed, 0x60, 0xcb, 0x29, 0x8e, 0x38, 0xd3, 0xa0] @
     [0x81, 0xc6, 0x16, 0x63, 0x43, 0x30, 0x98, 0x98, 0x5f, 0x92, 0x1e, 0x61, 0xd1, 0x35, 0x41, 0xf7] @
     [0x27, 0x53, 0x87, 0xd3, 0x82, 0x71, 0x91, 0x99, 0x42, 0x84, 0x24, 0xdb, 0x70, 0x2e, 0x47, 0x89] @
     [0xf3, 0x7c, 0x99, 0x27, 0x11, 0x10, 0xa2, 0x64, 0xc7, 0x04, 0xb6, 0xe4, 0x16, 0x1a, 0xeb, 0xbf] @
     [0xfb, 0x2a, 0x39, 0xe4, 0x77, 0x20, 0x41, 0x16, 0x56, 0xbd, 0xa9, 0x61, 0x4b, 0x1c, 0x44, 0x2b] @
     [0xd0, 0x35, 0x9c, 0xc5, 0x40, 0x93, 0x0f, 0xd6, 0x98, 0x61, 0x2c, 0xaf, 0xa8, 0x00, 0x49, 0x8b] @
     [0xbf, 0xa5, 0x0e, 0x5f, 0x52, 0x0d, 0x9d, 0x4f, 0x05, 0x0b, 0x81, 0xf6, 0x95, 0x3c, 0xf6, 0x18] @
     [0xa9, 0xa6, 0xf3, 0x0a, 0x70, 0xa7, 0x33, 0xf7, 0xb3, 0x12, 0xae, 0x49, 0x49, 0x8c, 0x8e, 0x89] @
     [0x0b, 0x49, 0xd6, 0xcd, 0x58, 0xcf, 0x90, 0x9a, 0x98, 0x70, 0x36, 0x51, 0x45, 0x8f, 0x17, 0x21] @
     [0x5d, 0x29, 0xac, 0x43, 0xae, 0x4b, 0xf1, 0x78, 0x53, 0xba, 0x69, 0x87, 0x75, 0x4f, 0xe2, 0x75] @
     [0x48, 0xa4, 0x60, 0x32, 0x73, 0x6c, 0xd2, 0x35, 0xa8, 0xba, 0x5d, 0x4c, 0x07, 0xed, 0xa9, 0x4b] @
     [0xd6, 0x85, 0xeb, 0x9d, 0xa7, 0xcf, 0x46, 0x18, 0x82, 0x50, 0xe5, 0x39, 0xbe, 0x8f, 0x4d, 0x8e] @
     [0x1a, 0x11, 0xe5, 0x08, 0x34, 0xc1, 0xc0, 0xe4, 0xfa, 0x07, 0x21, 0x29, 0x92, 0x34, 0x87, 0xe5] @
     [0x79, 0xd1, 0x2b, 0xa3, 0x86, 0x93, 0x8b, 0x83, 0x12, 0xe5, 0xce, 0x3b, 0xcd, 0xb3, 0x3a, 0x1a] @
     [0x16, 0x2d, 0x17, 0x91, 0x46, 0xb7, 0x5e, 0x6d, 0xfe, 0xc2, 0x73, 0x95, 0x45, 0xde, 0xc4, 0x95] @
     [0x00, 0x70, 0x8f, 0x9a, 0x93, 0xd8, 0x97, 0xff, 0x54, 0x16, 0xa6, 0xf5, 0x13, 0xf1, 0x8d, 0x18] @
     [0x65, 0x12, 0x49, 0x02, 0xe4, 0xff, 0x95, 0x16, 0x59, 0x7b, 0x75, 0xc0, 0xb9, 0xcc, 0xb9, 0x98] @
     [0x01, 0xbd, 0xe1, 0x6a, 0x00, 0xa4, 0xe4, 0x25, 0xed, 0xdb, 0xec, 0x8d, 0x77, 0x80, 0x72, 0xed] @
     [0x4b, 0x4e, 0xdb, 0x90, 0x42, 0xbd, 0xc7, 0x95, 0x61, 0x87, 0x79, 0x36, 0x71, 0x9f, 0x74, 0x09] @
     [0xa0, 0x24, 0x4c, 0xaa, 0x4f, 0x20, 0x98, 0xb3, 0xbb, 0x74, 0xc2, 0x3c, 0xad, 0xdf, 0x63, 0x61] @
     [0x25, 0x46, 0x33, 0xb1, 0xf3, 0xcc, 0xd7, 0xc2, 0x79, 0x2d, 0xc9, 0x2d, 0x4c, 0x79, 0x09, 0xf8] @
     [0xa0, 0x2f, 0x3e, 0x9c, 0xe0, 0xb9, 0x77, 0xc0, 0x82, 0xe1, 0x49, 0x39, 0x77, 0x7a, 0x0d, 0xdb] @
     [0xe2, 0x27, 0xf3, 0xfa, 0x8f, 0x80, 0xc9, 0xc6, 0xc5, 0xd4, 0xaf, 0x2a, 0x0c, 0xdc, 0xc9, 0x29] @
     [0x80, 0xda, 0x15, 0x09, 0x25, 0xaa, 0x74, 0xc4, 0xc4, 0xba, 0x62, 0xbb, 0x05, 0x9f, 0x65, 0x5d] @
     [0xe4, 0x59, 0x6f, 0xec, 0xcb, 0xc6, 0xa0, 0xc2, 0x24, 0x36, 0xf9, 0x49, 0xdb, 0xd9, 0x8e, 0xe4] @
     [0x29, 0xfa, 0x6f, 0x0a, 0x0d, 0x5b, 0x56, 0x27, 0x71, 0x4e, 0x65, 0x57, 0xed, 0x07, 0xe1, 0x6b] @
     [0x37, 0xe0, 0x11, 0x4a, 0x94, 0x53, 0x68, 0x55, 0xaf, 0x43, 0x28, 0x9a, 0x49, 0xe6, 0x35, 0xbb] @
     [0x5c, 0x46, 0x9b, 0x64, 0xaf, 0x77, 0xa3, 0xd7, 0xb2, 0x53, 0x97, 0xa0, 0x8b, 0x66, 0x56, 0x58] @
     [0x9c, 0x0b, 0xc1, 0xc5, 0x98, 0xf1, 0xa6, 0x61, 0x52, 0x92, 0x90, 0x3f, 0xa3, 0x09, 0x35, 0xf1] @
     [0x75, 0x05, 0x77, 0xc2, 0x2b, 0x21, 0x17, 0x25, 0x89, 0x0f, 0xff, 0x58, 0x71, 0xfb, 0x97, 0x05] @
     [0xc0, 0xea, 0xcd, 0x41, 0x75, 0xb3, 0x37, 0x98, 0x52, 0xb1, 0x64, 0x4a, 0x80, 0x96, 0xc8, 0xb4] @
     [0xb2, 0x37, 0xab, 0x13, 0x3d, 0xa4, 0x34, 0xe1, 0x5e, 0x87, 0x97, 0x6c, 0x44, 0xfc, 0x95, 0x81] @
     [0xfd, 0xf6, 0xec, 0xa9, 0x4d, 0x56, 0xa2, 0x8b, 0xda, 0xb9, 0xd6, 0xe4, 0xc6, 0xc6, 0x3d, 0x92] @
     [0x74, 0xe6, 0x75, 0xdd, 0x5b, 0xe0, 0xae, 0x98, 0x03, 0x42, 0xb7, 0xb4, 0xea, 0xe5, 0x1d, 0x9c] @
     [0x45, 0x99, 0xe2, 0xb2, 0x6c, 0x35, 0x68, 0x64, 0x3f, 0xd2, 0x87, 0x4d, 0xf6, 0x14, 0x0b, 0x8b] @
     [0x8b, 0x80, 0x51, 0x27, 0x63, 0x22, 0x98, 0xad, 0x87, 0x27, 0x9f, 0xff, 0x0c, 0x86, 0x9f, 0x35] @
     [0x24, 0xa2, 0x44, 0xe7, 0xe6, 0x3e, 0xf3, 0x66, 0x73, 0x15, 0xd1, 0x20, 0xe7, 0x9d, 0x13, 0xfe] @
     [0x87, 0xbe, 0x94, 0x1e, 0x1d, 0xc7, 0x35, 0x1d, 0x86, 0x15, 0xf6, 0x11, 0x08, 0x2f, 0x20, 0xa2] @
     [0xfb, 0x11, 0x92, 0xb2, 0x2a, 0x22, 0x41, 0x54, 0x4e, 0x24, 0x72, 0xb9, 0x78, 0xbc, 0x4b, 0x0e] @
     [0x4b, 0x09, 0xf8, 0xf9, 0xf4, 0x32, 0xff, 0xf4, 0xc6, 0x5f, 0x43, 0x5f, 0xe6, 0x13, 0x75, 0x8b] @
     [0x64, 0x4f, 0xf6, 0x01, 0x87, 0x4c, 0x7d, 0x83, 0xa8, 0x2c, 0x86, 0x0e, 0x33, 0x52, 0x24, 0x92] @
     [0x5b, 0xc6, 0x0e, 0x54, 0x49, 0x6b, 0xc5, 0xfc, 0x7d, 0xa9, 0x6b, 0xb1, 0x04, 0x6d, 0xb5, 0x44] @
     [0xd8, 0x1f, 0x8f, 0x4c, 0x6f, 0x1b, 0xba, 0xe7, 0xf2, 0x02, 0xc3, 0x47, 0x60, 0x75, 0x46, 0xf9] @
     [0xa7, 0xd1, 0xf8, 0x3a, 0xe4, 0xe7, 0x7e, 0xa0, 0xaf, 0x01, 0x07, 0x7c, 0x39, 0x2f, 0x6f, 0x4f] @
     [0x55, 0xae, 0x0e, 0x16, 0x25, 0xb5, 0xf7, 0xb1, 0xf2, 0x89, 0xc7, 0x0a, 0xc9, 0xb8, 0xa5, 0xff] @
     [0xe7, 0xd0, 0x65, 0x88, 0xc3, 0xf2, 0x8b, 0x8f, 0x21, 0xdd, 0xce, 0xde, 0xcc, 0xf3, 0xe4, 0x97] @
     [0xf3, 0xa6, 0xef, 0xa9, 0x0f, 0x21, 0x5b, 0x4d, 0xe3, 0x68, 0x6d, 0x45, 0xff, 0x04, 0x06, 0xdf] @
     [0x28, 0xc3, 0x6f, 0x94, 0xca, 0x8b, 0xcf, 0xb9, 0xdd, 0x75, 0x0a, 0x69, 0x44, 0xf6, 0xeb, 0xfb] @
     [0x85, 0x26, 0xcc, 0xad, 0xd7, 0x9d, 0xb4, 0xb0, 0xf4, 0x34, 0xab, 0xf8, 0xbf, 0xa0, 0xf1, 0xb8] @
     [0x19, 0xe1, 0x50, 0x29, 0x72, 0x6a, 0xd1, 0x65, 0x03, 0x0e, 0xcf, 0x95, 0x2f, 0xc0, 0x91, 0x64] @
     [0x24, 0x47, 0xc2, 0x03, 0x98, 0x06, 0x81, 0x28, 0xf2, 0xfa, 0xba, 0xd3, 0x80, 0x7f, 0x05, 0xe4] @
     [0x0d, 0x37, 0xa5, 0x1d, 0x8a, 0x33, 0x81, 0x8e, 0x0b, 0xe6, 0x26, 0x7e, 0xfc, 0x74, 0xa2, 0xbe] @
     [0x6b, 0x09, 0xf0, 0x11, 0x88, 0xfb, 0xe1, 0x7e, 0xd0, 0x5a, 0x38, 0x73, 0x70, 0x5b, 0x59, 0x62] @
     [0x22, 0xf4, 0x3e, 0xc8, 0x83, 0xe4, 0x86, 0x4a, 0x61, 0x12, 0x20, 0x36, 0x83, 0xd3, 0x97, 0x35] @
     [0xd4, 0x97, 0xac, 0xf2, 0x45, 0xd8, 0xad, 0x52, 0x71, 0x32, 0x69, 0xe1, 0x2d, 0xac, 0x65, 0xc9] @
     [0x65, 0x9e, 0x69, 0x72, 0x8c, 0x67, 0xca, 0x99, 0x13, 0x2d, 0xe5, 0x47, 0xb8, 0x2a, 0xe2, 0x88] @
     [0x5a, 0x2a, 0x0b, 0x3d, 0x92, 0xba, 0x8b, 0x64, 0x9a, 0x9f, 0xf8, 0x15, 0x6b, 0xe5, 0x85, 0xec] @
     [0xa9, 0x71, 0x0b, 0x23, 0x0e, 0xa3, 0xdf, 0xde, 0x46, 0xba, 0x7a, 0xa2, 0xf9, 0x9e, 0xbe, 0xa3] @
     [0x9b, 0x51, 0xe4, 0x8b, 0xd8, 0x7e, 0x16, 0x2f, 0x41, 0x16, 0xed, 0xfa, 0xb3, 0x40, 0xad, 0xef] @
     [0x9a, 0x19, 0x03, 0x7d, 0x97, 0x6e, 0x9f, 0xd0, 0x12, 0x3d, 0x0d, 0xe7, 0xa0, 0x2f, 0x8f, 0xc3] @
     [0xce, 0x50, 0x94, 0x03, 0x15, 0x81, 0xea, 0x56, 0x90, 0x41, 0x41, 0x7a, 0xc1, 0xf8, 0x0c, 0x77] @
     [0x20, 0xc7, 0x99, 0xaf, 0x96, 0xc0, 0x7c, 0x76, 0xfb, 0xf5, 0x2a, 0x79, 0xea, 0x8c, 0x13, 0x85] @
     [0xbf, 0x27, 0xa2, 0x77, 0x42, 0x50, 0xae, 0x5d, 0x35, 0xb6, 0x8f, 0x11, 0xb0, 0xdc, 0x78, 0xe3] @
     [0x7d, 0x57, 0xe2, 0x34, 0x23, 0x4e, 0xe8, 0xe5, 0xc5, 0x54, 0x5d, 0x49, 0x06, 0x68, 0x3d, 0x57] @
     [0xcb, 0xcb, 0x5f, 0x89, 0xd3, 0x1e, 0x44, 0x7e, 0x13, 0x5d, 0xf0, 0x46, 0x39, 0x9b, 0x1e, 0x90] @
     [0x55, 0x0a, 0xf6, 0x85, 0xf9, 0x39, 0x08, 0x19, 0x83, 0x02, 0x56, 0x7f, 0xad, 0x8c, 0x26, 0xd9] @
     [0xe4, 0xf0, 0xc1, 0xd6, 0xe9, 0xe0, 0xe4, 0xc4, 0xa3, 0x8b, 0xf3, 0xc5, 0x64, 0xfc, 0x15, 0x98] @
     [0x21, 0x12, 0x7a, 0xf1, 0x3c, 0x50, 0x56, 0xf5, 0x22, 0x47, 0xe6, 0xc3, 0x8f, 0x0c, 0x35, 0xa4] @
     [0xcb, 0x30, 0x56, 0x87, 0xf5, 0x69, 0x6e, 0x2f, 0x06, 0x16, 0x44, 0x78, 0xd9, 0x18, 0xe6, 0x47] @
     [0xdc, 0x56, 0x27, 0xa1, 0x10, 0x5d, 0xb7, 0x3e, 0xfd, 0x01, 0xa3, 0x90, 0x4b, 0x78, 0xd8, 0x87] @
     [0x7c, 0x5c, 0x66, 0xb2, 0x6b, 0x2d, 0x58, 0x4e, 0x25, 0xb9, 0xed, 0xbe, 0x8c, 0x3c, 0x28, 0xc0] @
     [0x97, 0x55, 0xab, 0xb0, 0x8b, 0x1f, 0xb7, 0x80, 0x8b, 0x44, 0xc0, 0x78, 0x5b, 0x60, 0xf0, 0x02] @
     [0xa9, 0x06, 0x1c, 0x3b, 0xa1, 0x93, 0x08, 0x3f, 0x60, 0xe0, 0xae, 0xba, 0x46, 0x97, 0x4f, 0x3b] @
     [0x80, 0x6b, 0x14, 0x98, 0x3b, 0xe5, 0x8a, 0x88, 0xa1, 0x8a, 0x7e, 0x0c, 0x0f, 0x07, 0x28, 0x97] @
     [0xd5, 0x25, 0x85, 0xbb, 0x0f, 0x70, 0x7d, 0xbf, 0xaa, 0xf6, 0x8e, 0xd5, 0xe9, 0x29, 0xda, 0xf6] @
     [0x5f, 0x51, 0x0c, 0x4d, 0xbe, 0x43, 0x31, 0xe2, 0xf4, 0x9e, 0x5d, 0xfc, 0xea, 0xc7, 0x36, 0xca] @
     [0xac, 0x18, 0x96, 0xde, 0x6b, 0x73, 0x11, 0x83, 0xaa, 0x43, 0x7a, 0x31, 0x05, 0x2b, 0xef, 0xd1] @
     [0x2d, 0xaa, 0xe5, 0x62, 0xcc, 0x6d, 0xff, 0x64, 0xba, 0x5e, 0x05, 0xbe, 0x7a, 0x42, 0xba, 0x93] @
     [0x3c, 0xf1, 0x38, 0x76, 0x4e, 0x86, 0x2d, 0xb6, 0x62, 0x3a, 0x11, 0xd8, 0x06, 0x54, 0x6d, 0x10] @
     [0xf9, 0x5a, 0x5a, 0x64, 0x3b, 0xe5, 0x99, 0x47, 0x79, 0x23, 0x68, 0x34, 0x5b, 0x4a, 0xef, 0x25] @
     [0xe5, 0x5d, 0x14, 0xf3, 0x6a, 0x17, 0x6d, 0xf9, 0x27, 0x23, 0x77, 0x2f, 0x32, 0xec, 0x49, 0x00] @
     [0x0b, 0x83, 0x8b, 0x57, 0x38, 0xec, 0x31, 0x0a, 0x76, 0x5e, 0x0a, 0xf6, 0xa1, 0x51, 0xfb, 0x2a] @
     [0x02, 0x4c, 0x57, 0x2e, 0x6d, 0xa5, 0x75, 0x20, 0x16, 0x41, 0xb6, 0x35, 0x40, 0x6b, 0x7a, 0x76] @
     [0xe7, 0x79, 0xdf, 0x46, 0xea, 0x6f, 0x49, 0xd3, 0x82, 0x7c, 0xdd, 0x9d, 0x7c, 0x2b, 0xf1, 0xc6] @
     [0x26, 0x5e, 0x0b, 0x66, 0x50, 0x88, 0x66, 0x66, 0x7a, 0xf9, 0x84, 0x9e, 0xd6, 0xdc, 0xd4, 0xe5] @
     [0x86, 0x78, 0x3f, 0xfe, 0xb9, 0xe9, 0x0f, 0x23, 0xf4, 0x10, 0x62, 0xfd, 0xe9, 0x61, 0x75, 0xe9] @
     [0x3b, 0xdf, 0x09, 0x82, 0xb8, 0xa7, 0x14, 0x1d, 0x51, 0x4d, 0xd8, 0xef, 0xd1, 0x7c, 0x81, 0x56] @
     [0xc4, 0xb2, 0x66, 0xfa, 0xea, 0xba, 0x6e, 0xda, 0xcb, 0xaf, 0x21, 0x7b, 0x46, 0xa8, 0xce, 0x18] @
     [0x47, 0x3f, 0x46, 0xde, 0xd0, 0xad, 0xda, 0x7a, 0x68, 0x19, 0x90, 0x61, 0xad, 0xf5, 0xb0, 0x24] @
     [0x26, 0xf5, 0x5e, 0x38, 0x82, 0x52, 0xc6, 0x74, 0xf3, 0xde, 0xde, 0x94, 0x74, 0x0c, 0x50, 0x73] @
     [0xbf, 0xf0, 0x51, 0xf3, 0x5d, 0xd9, 0x3c, 0xc4, 0x26, 0xc4, 0xc1, 0xf7, 0x85, 0x72, 0xea, 0x62] @
     [0x1f, 0x17, 0x4c, 0xab, 0x38, 0xe6, 0xbe, 0x56, 0xc5, 0xfb, 0xc2, 0x3f, 0xeb, 0xbe, 0x29, 0xe8]"

lemma my_s1_length: "length my_s1 = 1536"
  by (simp add: my_s1_def)

definition my_c1 :: "u8 list" where
  "my_c1 =
     [0x00, 0x00, 0x00, 0x00, 0x09, 0x00, 0x7c, 0x02, 0xf7, 0x78, 0x55, 0x1e, 0xce, 0xab, 0x8e, 0x1e] @
     [0x36, 0x2f, 0x07, 0xc5, 0x86, 0x8a, 0x70, 0xb2, 0x66, 0xd4, 0x02, 0x20, 0xe5, 0x08, 0x61, 0x18] @
     [0xa2, 0x2e, 0x36, 0x97, 0xd5, 0xfc, 0x2b, 0x63, 0x29, 0xc2, 0x2e, 0xe7, 0xc7, 0xc9, 0xb0, 0xb5] @
     [0xb3, 0x45, 0xdf, 0xa8, 0x39, 0x8f, 0xea, 0x3b, 0xc8, 0x79, 0x20, 0x8a, 0x10, 0x68, 0x42, 0x5a] @
     [0xa1, 0x17, 0x4c, 0xb5, 0x72, 0x58, 0xcf, 0xeb, 0xe2, 0x4d, 0xa4, 0x2e, 0xc4, 0xff, 0x9d, 0xa1] @
     [0x9c, 0x7b, 0x40, 0x6f, 0x18, 0xc9, 0x5b, 0xfd, 0xd0, 0x4e, 0xe4, 0x8b, 0x6f, 0x83, 0x32, 0x14] @
     [0xa4, 0x7b, 0x8b, 0xf6, 0x8e, 0xb0, 0x52, 0x54, 0xe2, 0x5a, 0xe9, 0xa9, 0xa8, 0xb4, 0x96, 0xc5] @
     [0x49, 0x6f, 0x6e, 0x9c, 0xd7, 0xc6, 0x8c, 0xb6, 0xbc, 0xc8, 0x41, 0x69, 0xe6, 0x7f, 0x3e, 0x37] @
     [0x2f, 0xfe, 0x18, 0x6d, 0xa8, 0x51, 0x38, 0x62, 0xc5, 0xaf, 0xde, 0xb5, 0xa1, 0x21, 0x8a, 0x86] @
     [0x0b, 0xac, 0xcd, 0xd8, 0x69, 0xb2, 0x53, 0xdb, 0xab, 0x8a, 0x0e, 0xfb, 0x59, 0xa4, 0x8c, 0x44] @
     [0x20, 0x99, 0x87, 0x5e, 0x55, 0xb7, 0x4f, 0xd0, 0x7a, 0x1b, 0x69, 0xaf, 0x30, 0x3e, 0x09, 0x98] @
     [0x73, 0xcb, 0x77, 0xe2, 0xd9, 0xe2, 0xc4, 0x74, 0x1e, 0xb1, 0xf5, 0x06, 0xa7, 0xf0, 0xb2, 0x96] @
     [0x2a, 0xf9, 0x1f, 0x50, 0x51, 0xc8, 0x90, 0xa3, 0x20, 0x99, 0x4f, 0x4c, 0x8b, 0x36, 0xa0, 0x1f] @
     [0xa9, 0xc0, 0xf1, 0x5f, 0x4b, 0x7c, 0xf7, 0xb6, 0xc3, 0x81, 0x7d, 0xa6, 0x09, 0x18, 0x61, 0x1d] @
     [0x3b, 0x02, 0xff, 0x7c, 0xc9, 0x40, 0x38, 0x93, 0x75, 0x37, 0xd3, 0x38, 0x2e, 0x41, 0x6b, 0xd5] @
     [0x75, 0x77, 0x83, 0x4d, 0xf9, 0xca, 0xf7, 0x48, 0x35, 0x21, 0x50, 0xce, 0x92, 0xd0, 0xdb, 0xb4] @
     [0x0e, 0x87, 0x1f, 0xc3, 0x64, 0xe1, 0x8b, 0x7e, 0x35, 0x69, 0xe3, 0x98, 0x76, 0xc1, 0xae, 0x0c] @
     [0xb7, 0x9f, 0xf6, 0xd7, 0xab, 0x32, 0xf9, 0xf0, 0x11, 0x86, 0x9c, 0x8d, 0xa4, 0x19, 0x1e, 0xf4] @
     [0x6d, 0x3c, 0x1b, 0xc6, 0xb7, 0x2d, 0x83, 0x81, 0x2f, 0x22, 0x43, 0xd1, 0x75, 0x2a, 0x41, 0x26] @
     [0x32, 0xd6, 0x6a, 0x20, 0x75, 0xf5, 0xd3, 0x02, 0xf4, 0x5c, 0xdf, 0x2b, 0x98, 0xb8, 0x02, 0xb7] @
     [0x98, 0x05, 0xdc, 0x48, 0x37, 0xd8, 0x4e, 0xde, 0xd1, 0xcc, 0x42, 0xcb, 0xa7, 0xee, 0xc3, 0x13] @
     [0x7b, 0xf8, 0x6d, 0xd0, 0xb2, 0xd7, 0xf6, 0x24, 0xd5, 0x21, 0xa3, 0xff, 0x65, 0x5b, 0xcf, 0x0d] @
     [0xf4, 0x10, 0x13, 0x41, 0xd2, 0x30, 0xe9, 0x46, 0x51, 0x62, 0x8e, 0x45, 0xa7, 0xab, 0xf8, 0x18] @
     [0x31, 0x01, 0xce, 0x98, 0x1e, 0x5e, 0x86, 0xa6, 0xfa, 0xec, 0x5c, 0x79, 0xaa, 0x7e, 0xc7, 0x18] @
     [0x1e, 0xa4, 0x59, 0xed, 0x96, 0x6e, 0x0c, 0x93, 0x2a, 0x6f, 0x9e, 0x4b, 0xf5, 0x54, 0xab, 0x7b] @
     [0x1c, 0x90, 0x5c, 0xde, 0x05, 0x4e, 0xd4, 0x0d, 0x2f, 0xb8, 0x9b, 0xbf, 0xc6, 0x57, 0x52, 0xe5] @
     [0x8c, 0xfd, 0xe4, 0xf2, 0xa0, 0x4d, 0xc3, 0xad, 0x1e, 0x5e, 0xf4, 0xfc, 0x64, 0xd5, 0x7b, 0x07] @
     [0x1c, 0x14, 0x14, 0x6a, 0x45, 0x1f, 0x6a, 0x04, 0x31, 0x56, 0xd2, 0x88, 0x0f, 0x59, 0x57, 0xd7] @
     [0x8d, 0xfd, 0x3f, 0xf2, 0xb8, 0x80, 0xf6, 0x24, 0xac, 0x70, 0xf2, 0x70, 0x94, 0xf3, 0x77, 0x34] @
     [0xea, 0xf1, 0x92, 0x4f, 0x66, 0xac, 0x3d, 0x64, 0x8a, 0xe2, 0x32, 0x93, 0x05, 0x44, 0xa4, 0x42] @
     [0x0b, 0x65, 0xee, 0xd4, 0x69, 0x6f, 0x7f, 0x50, 0xfe, 0x05, 0xfc, 0x94, 0x85, 0x16, 0x65, 0x0b] @
     [0xfb, 0x9b, 0x65, 0xf9, 0x53, 0xd8, 0x48, 0xe3, 0x45, 0x69, 0x65, 0xd0, 0xd7, 0x6b, 0x62, 0x7a] @
     [0x84, 0xe3, 0x5e, 0x9d, 0xda, 0xbd, 0x8b, 0x43, 0xf0, 0xfa, 0xda, 0xee, 0x45, 0x8c, 0xdf, 0x59] @
     [0xeb, 0xd7, 0x73, 0x92, 0x2e, 0x0a, 0xe5, 0x07, 0xd5, 0xe6, 0x40, 0x92, 0xe9, 0x0e, 0xc6, 0x7e] @
     [0xd8, 0x43, 0x9e, 0x8f, 0x22, 0x1c, 0x75, 0x3a, 0x9f, 0x92, 0x16, 0xf1, 0xcb, 0x85, 0xb5, 0x10] @
     [0x7b, 0xc7, 0xcc, 0x7c, 0x4f, 0xb2, 0xc3, 0xee, 0xd1, 0xaf, 0xc7, 0x09, 0xb1, 0x92, 0xf5, 0x0d] @
     [0xe6, 0x9c, 0x1f, 0xfc, 0xa5, 0x65, 0x0e, 0xfb, 0x52, 0x3b, 0x5f, 0xab, 0x59, 0x97, 0xca, 0xc4] @
     [0xb7, 0xef, 0x5a, 0xf2, 0xbf, 0x59, 0x73, 0xe6, 0x29, 0x3b, 0xae, 0x1f, 0xc1, 0xda, 0x49, 0x9b] @
     [0xe5, 0x51, 0x50, 0x77, 0xde, 0x4d, 0xdb, 0x3f, 0x7f, 0xbc, 0xd7, 0x41, 0x71, 0x1c, 0x62, 0xb7] @
     [0xd8, 0x03, 0xb8, 0xd0, 0x54, 0xcf, 0x57, 0x81, 0x82, 0x71, 0x4d, 0x1c, 0x44, 0x5b, 0xd6, 0x92] @
     [0xba, 0x1b, 0x83, 0x9a, 0x09, 0xe7, 0x26, 0x6f, 0xc8, 0x5d, 0xaa, 0x8f, 0xad, 0x43, 0x3d, 0xab] @
     [0xbd, 0x20, 0x6c, 0xde, 0x1e, 0xa5, 0x71, 0x77, 0x0c, 0x6b, 0xfa, 0x79, 0x56, 0xc2, 0x66, 0xee] @
     [0x84, 0x35, 0xeb, 0x01, 0xca, 0xa6, 0xf5, 0x83, 0xc0, 0xd8, 0x3c, 0x33, 0xee, 0xfc, 0xf3, 0xf9] @
     [0x7d, 0xb9, 0x17, 0xbd, 0xb2, 0x99, 0xf8, 0xa8, 0x9f, 0xb8, 0x86, 0x0a, 0xb1, 0xcd, 0x64, 0x4c] @
     [0x1e, 0x82, 0xcc, 0xe1, 0x32, 0x3a, 0x9e, 0xb7, 0x9d, 0x25, 0xf5, 0xdc, 0x57, 0x0b, 0x70, 0xb4] @
     [0x0b, 0xb2, 0x00, 0x61, 0x74, 0x33, 0x53, 0xd0, 0x53, 0x6e, 0xcd, 0xab, 0xd8, 0x2f, 0x22, 0x77] @
     [0x75, 0x62, 0x28, 0xcb, 0x54, 0xfe, 0x69, 0x32, 0xc4, 0xc9, 0xbd, 0x13, 0x0d, 0x2b, 0xfc, 0x70] @
     [0x0b, 0xf5, 0xd8, 0x5d, 0xa6, 0x94, 0x6e, 0x96, 0xf8, 0x2e, 0x0a, 0xfd, 0x8e, 0x9c, 0x20, 0xcf] @
     [0xea, 0xbf, 0x9a, 0x6a, 0x18, 0x9b, 0xb1, 0x7b, 0xbe, 0xf5, 0x39, 0xd1, 0xd9, 0xe7, 0x3e, 0xe9] @
     [0x66, 0xfc, 0xb5, 0xd6, 0xbd, 0xbf, 0x98, 0x44, 0x4d, 0xe8, 0x65, 0xbe, 0x16, 0x05, 0xe3, 0x40] @
     [0x87, 0xb3, 0x4c, 0xdf, 0x04, 0xe3, 0xaf, 0xf5, 0x5b, 0xd4, 0x13, 0x7c, 0x52, 0x2d, 0x2e, 0x3c] @
     [0x7b, 0xf2, 0x63, 0x4d, 0xb3, 0x26, 0xb2, 0x2a, 0x47, 0x4d, 0xb7, 0xf8, 0xa0, 0x95, 0x2a, 0xb3] @
     [0x51, 0x0d, 0xe5, 0x55, 0x39, 0x6c, 0x18, 0xa3, 0x78, 0xa8, 0x39, 0x0b, 0x73, 0xbf, 0xf7, 0x77] @
     [0x2f, 0xb2, 0x76, 0x0f, 0xa5, 0x78, 0x6a, 0x3b, 0x04, 0x59, 0xc4, 0x5a, 0x1d, 0x1b, 0x0d, 0xff] @
     [0x4c, 0xbb, 0xb6, 0x5d, 0xa0, 0xed, 0x34, 0xf3, 0x21, 0x16, 0xc3, 0xc2, 0xcc, 0x2b, 0x95, 0x82] @
     [0x51, 0x11, 0xbc, 0xfb, 0xb2, 0x46, 0xc1, 0x50, 0x5a, 0xa0, 0x0c, 0x97, 0x0d, 0x06, 0xd7, 0x6c] @
     [0xc9, 0x50, 0xce, 0x36, 0x8b, 0x22, 0x0d, 0xb2, 0x04, 0x87, 0xcb, 0xa0, 0x2b, 0xb1, 0xfc, 0x54] @
     [0xb3, 0x65, 0x67, 0xb4, 0x29, 0x13, 0xd6, 0xb8, 0x85, 0x06, 0x2c, 0xd7, 0x79, 0x56, 0x01, 0xd3] @
     [0x1a, 0x4a, 0x8e, 0x6d, 0x56, 0x46, 0x7f, 0xa5, 0xc5, 0x21, 0x62, 0x67, 0x6f, 0xd5, 0x26, 0x12] @
     [0x25, 0x13, 0xc3, 0xe4, 0x7f, 0x2e, 0x6d, 0x9d, 0x6a, 0x19, 0xc4, 0xf8, 0x79, 0x54, 0x31, 0xa9] @
     [0x4c, 0xed, 0x03, 0x92, 0x21, 0xd2, 0x7a, 0xc6, 0x8a, 0x7a, 0x77, 0x0e, 0x93, 0x05, 0x25, 0x22] @
     [0x71, 0x45, 0x9b, 0x71, 0xd0, 0x55, 0x05, 0xc4, 0x97, 0x7b, 0x70, 0xe9, 0x68, 0x51, 0x20, 0x8b] @
     [0xac, 0xdc, 0xdf, 0x7e, 0x68, 0x2b, 0x38, 0x48, 0x84, 0x08, 0x80, 0xf1, 0xfe, 0xc2, 0xa3, 0x2f] @
     [0xb1, 0x40, 0x68, 0x62, 0xbc, 0x83, 0xca, 0xd8, 0x9a, 0xdf, 0x72, 0x9f, 0x3b, 0xa6, 0xff, 0xd3] @
     [0xfe, 0x80, 0x8e, 0x84, 0x03, 0xe7, 0xc6, 0xa0, 0xf6, 0xdc, 0xda, 0x32, 0x11, 0x89, 0x8f, 0x6f] @
     [0x16, 0x50, 0x5b, 0x07, 0x8c, 0xc7, 0x8b, 0x80, 0xdb, 0x60, 0x0d, 0xed, 0x2f, 0x20, 0x0f, 0x25] @
     [0xff, 0x5d, 0xcb, 0x31, 0xd3, 0x2c, 0xbe, 0x20, 0x56, 0xb8, 0xbd, 0xc3, 0x10, 0x91, 0x63, 0x1a] @
     [0xbb, 0xd2, 0xac, 0x28, 0xd6, 0x1f, 0xe3, 0x24, 0x80, 0xec, 0x50, 0x35, 0xbb, 0xf3, 0x5f, 0x17] @
     [0x33, 0x93, 0xf0, 0xd5, 0x9a, 0x21, 0xd2, 0x30, 0x0b, 0x2d, 0xb4, 0xb5, 0x9e, 0xaa, 0x63, 0xff] @
     [0xe0, 0xf9, 0x3d, 0x65, 0xdc, 0x02, 0x85, 0x16, 0x90, 0x5f, 0x22, 0xa9, 0xc7, 0xdf, 0xf3, 0x87] @
     [0xc4, 0xeb, 0x78, 0xc6, 0x30, 0x0e, 0x7e, 0xbb, 0xb2, 0xa6, 0x66, 0x3c, 0xfb, 0xe5, 0xa9, 0x97] @
     [0x7c, 0xaf, 0x57, 0x64, 0xba, 0x3f, 0x0a, 0xba, 0x57, 0xdb, 0x4e, 0x60, 0x51, 0xe0, 0xae, 0xc6] @
     [0xe0, 0x5b, 0x1b, 0xda, 0xa6, 0x49, 0xa9, 0x78, 0x75, 0xed, 0xbc, 0x40, 0xbc, 0xc4, 0x21, 0x4b] @
     [0xb7, 0xfe, 0xf7, 0x27, 0x30, 0xd4, 0x36, 0x8a, 0xcb, 0xd3, 0xe1, 0x0a, 0xb4, 0xc7, 0x64, 0x2a] @
     [0x1c, 0x53, 0xf9, 0x3c, 0xa2, 0x6d, 0xb9, 0xc7, 0x66, 0x55, 0x5b, 0xe2, 0x6f, 0xdf, 0xf0, 0xe2] @
     [0xa7, 0x21, 0x42, 0x5b, 0x95, 0x76, 0x2b, 0x0b, 0x77, 0x6f, 0xd3, 0xe3, 0xeb, 0x17, 0x31, 0x3d] @
     [0x53, 0x12, 0x9c, 0x9f, 0x34, 0x00, 0x3c, 0x99, 0xa5, 0x19, 0x6a, 0x8c, 0x6a, 0xac, 0xb6, 0xd6] @
     [0x4b, 0x51, 0xdd, 0x98, 0xb2, 0x7c, 0x5b, 0x59, 0xa7, 0x0b, 0xd9, 0x41, 0xa1, 0xba, 0x03, 0x00] @
     [0xfb, 0x74, 0x4c, 0xfc, 0x49, 0x9d, 0x99, 0x7e, 0x6d, 0x93, 0x39, 0x2d, 0x28, 0xa7, 0x67, 0xd1] @
     [0x16, 0xdf, 0xbc, 0x2c, 0xb9, 0xeb, 0x40, 0x54, 0x0d, 0x11, 0xeb, 0x30, 0x4a, 0xd9, 0x32, 0x23] @
     [0x86, 0xfd, 0xc5, 0x97, 0xd5, 0x5d, 0x3d, 0x1c, 0x67, 0xbc, 0x54, 0xdf, 0x35, 0x47, 0x9a, 0xfb] @
     [0x19, 0xea, 0x2c, 0xd2, 0x04, 0xdd, 0x33, 0x1e, 0xfb, 0x49, 0xc1, 0xe1, 0x72, 0xf6, 0xbb, 0x89] @
     [0xfb, 0xf5, 0x82, 0x07, 0xdc, 0xae, 0x6c, 0x12, 0xf8, 0xa7, 0x59, 0x8b, 0xef, 0x1e, 0x87, 0x2c] @
     [0x0c, 0x35, 0xf2, 0x2b, 0x4c, 0x29, 0xdf, 0x10, 0xf9, 0xbb, 0x1a, 0xdd, 0x3a, 0xeb, 0x88, 0x7a] @
     [0xb5, 0xfb, 0x38, 0xc0, 0x36, 0xb8, 0x83, 0x46, 0xf7, 0x61, 0xc4, 0x2f, 0x29, 0x5d, 0xfe, 0x0b] @
     [0x43, 0x7d, 0xfb, 0x4f, 0x30, 0xa7, 0x12, 0x76, 0xab, 0x7d, 0x40, 0x9c, 0xe4, 0x24, 0x96, 0x3f] @
     [0x9e, 0xbb, 0x4f, 0x1f, 0x47, 0xe5, 0x2b, 0x18, 0x78, 0x6f, 0x27, 0x9b, 0x5a, 0x87, 0x22, 0x6f] @
     [0x66, 0x98, 0x1d, 0xd6, 0xd0, 0xad, 0x11, 0xf4, 0x9a, 0xf3, 0x10, 0x55, 0xff, 0x69, 0x71, 0x0f] @
     [0xda, 0x34, 0x57, 0xc4, 0xb7, 0x85, 0x2d, 0xb2, 0xe3, 0x93, 0x6d, 0x07, 0x78, 0xbf, 0x87, 0x9f] @
     [0x17, 0x34, 0xad, 0x3a, 0x24, 0xff, 0xb1, 0xae, 0x95, 0x84, 0x76, 0x0b, 0x9c, 0xb0, 0x45, 0x2a] @
     [0x53, 0xba, 0x09, 0x62, 0xff, 0xe2, 0xf6, 0x05, 0xaf, 0x52, 0x83, 0x0b, 0xd2, 0x11, 0xa5, 0x48] @
     [0x88, 0x94, 0xcc, 0x0b, 0x05, 0x22, 0x55, 0x04, 0x87, 0x11, 0xcd, 0x19, 0x85, 0x10, 0xa9, 0xe9] @
     [0x43, 0xbf, 0x8b, 0x83, 0x91, 0x98, 0x45, 0x5f, 0xbd, 0x41, 0x07, 0x30, 0x05, 0xd3, 0x03, 0x99] @
     [0x0b, 0x88, 0xd9, 0xb6, 0x36, 0x56, 0xd4, 0x3c, 0xfe, 0xc8, 0xed, 0x83, 0x74, 0x8f, 0x4b, 0x0f] @
     [0x0f, 0xc5, 0x12, 0x02, 0x16, 0x79, 0x4b, 0x22, 0xa0, 0x54, 0xe5, 0xbc, 0x58, 0xab, 0xd8, 0xc4] @
     [0x10, 0x96, 0x07, 0x08, 0x84, 0x39, 0x34, 0x53, 0xce, 0x50, 0x96, 0x94, 0xaf, 0xbe, 0xab, 0xe0]"

lemma my_c1_length: "length my_c1 = 1536"
  by (simp add: my_c1_def)

definition my_c2 :: "u8 list" where
  "my_c2 =
     [0xe2, 0x5c, 0x15, 0xc2, 0x2c, 0xaf, 0x72, 0xd0, 0x98, 0x6f, 0xbd, 0x3e, 0xda, 0x0d, 0x71, 0x51] @
     [0x97, 0x3e, 0x19, 0x08, 0x3e, 0x0a, 0xbb, 0xef, 0xa7, 0x6e, 0x17, 0xd8, 0xa5, 0xfa, 0x95, 0x70] @
     [0xed, 0x54, 0x7a, 0x97, 0x86, 0xe5, 0x35, 0x61, 0x2d, 0x45, 0x22, 0x8c, 0x77, 0x3e, 0x0e, 0xbe] @
     [0xf8, 0x05, 0xac, 0x87, 0x64, 0xa6, 0x75, 0x52, 0x49, 0x6a, 0x3c, 0xc3, 0x35, 0x58, 0x05, 0xf9] @
     [0x9d, 0x03, 0x60, 0x67, 0x84, 0xb0, 0x5f, 0x55, 0x36, 0x1f, 0xb4, 0xc6, 0x6e, 0x61, 0x64, 0xf9] @
     [0xb8, 0x82, 0x15, 0x69, 0x30, 0xed, 0x76, 0xe7, 0xf2, 0x7d, 0xf8, 0xed, 0x6a, 0xe6, 0xc0, 0x83] @
     [0x7b, 0x41, 0x41, 0x3e, 0xad, 0x70, 0x23, 0xf2, 0xbd, 0x2e, 0x9d, 0xce, 0xd6, 0x63, 0xc8, 0x30] @
     [0x5c, 0xba, 0xbc, 0x22, 0xc3, 0xeb, 0xba, 0x20, 0x7e, 0xa2, 0xa8, 0xc3, 0x5e, 0xcf, 0x78, 0x28] @
     [0xdc, 0xe2, 0x63, 0x3d, 0x38, 0xc8, 0xc2, 0xe9, 0xde, 0xcf, 0x25, 0x53, 0xb1, 0x61, 0xa2, 0x12] @
     [0xfc, 0x9a, 0x96, 0x2e, 0x44, 0x90, 0xfb, 0xa3, 0x1d, 0x24, 0xa2, 0xeb, 0xa8, 0xeb, 0xb4, 0xa6] @
     [0x0d, 0x6c, 0xf4, 0x29, 0x14, 0x2a, 0xd2, 0x6f, 0xb6, 0x56, 0xb9, 0xf1, 0x2f, 0x4b, 0x1c, 0x22] @
     [0xc0, 0xcd, 0x65, 0x49, 0x78, 0x64, 0xdd, 0x83, 0xf0, 0xd0, 0x31, 0x62, 0xdd, 0xed, 0xbc, 0x4e] @
     [0x85, 0x7c, 0x0c, 0xa3, 0x91, 0xed, 0x2f, 0x1e, 0x5a, 0x64, 0x94, 0x8d, 0x09, 0x60, 0x81, 0xa1] @
     [0x14, 0x72, 0x1c, 0x0b, 0xc8, 0xa1, 0x63, 0x5b, 0xf2, 0x70, 0x36, 0xb8, 0xbc, 0xc0, 0x9e, 0xd5] @
     [0xb1, 0x1d, 0x85, 0xbd, 0x54, 0x7c, 0xa3, 0x61, 0xe2, 0xd8, 0x65, 0x84, 0x2d, 0x7f, 0xe6, 0x4b] @
     [0xc3, 0xa2, 0x98, 0x95, 0xa9, 0x7c, 0xec, 0x5b, 0x2d, 0x29, 0x29, 0x4f, 0x41, 0xab, 0xc2, 0xbc] @
     [0x46, 0x6c, 0xf3, 0x8d, 0x8d, 0x00, 0x88, 0x60, 0x36, 0xbf, 0xa4, 0x5e, 0x4b, 0xdf, 0x48, 0x4e] @
     [0x9e, 0x5f, 0xe1, 0x0b, 0x02, 0x4a, 0x98, 0x6e, 0x63, 0xf2, 0xb0, 0xe1, 0x09, 0xa3, 0xea, 0x42] @
     [0x0e, 0x25, 0x28, 0x8b, 0xca, 0xc6, 0x93, 0x11, 0x41, 0xf8, 0x76, 0xb5, 0x7e, 0x37, 0xf3, 0x9c] @
     [0x8c, 0x1b, 0xff, 0x23, 0xb5, 0x66, 0xa7, 0x88, 0x7b, 0x18, 0xb6, 0x18, 0xca, 0x4e, 0xf3, 0x47] @
     [0x00, 0x9d, 0xd5, 0x00, 0x5e, 0x7f, 0x41, 0x3b, 0xec, 0xfd, 0x0b, 0x26, 0xff, 0xfe, 0x15, 0xec] @
     [0x6e, 0xc9, 0x98, 0x22, 0x6e, 0x39, 0x36, 0x56, 0x26, 0xc5, 0x60, 0xcb, 0x24, 0x13, 0x52, 0x7c] @
     [0xe5, 0x74, 0xc0, 0xa4, 0x36, 0xf1, 0xb1, 0x78, 0x8a, 0xc8, 0xbc, 0xd8, 0xd4, 0xe0, 0xbe, 0xd1] @
     [0x3e, 0x7c, 0x79, 0x96, 0x73, 0x06, 0x9a, 0x7d, 0x82, 0x49, 0xc0, 0x03, 0xb6, 0x33, 0xec, 0x65] @
     [0x87, 0xd3, 0xe2, 0xd7, 0xd3, 0xf5, 0xaa, 0x40, 0x07, 0x14, 0x9c, 0x04, 0xac, 0x3d, 0xf0, 0xa3] @
     [0x48, 0xaa, 0x8b, 0x27, 0xc9, 0x86, 0x68, 0x4a, 0xfb, 0x93, 0x87, 0x0e, 0xc5, 0xa6, 0x23, 0xca] @
     [0xd0, 0xd0, 0x74, 0xd9, 0x8c, 0xfb, 0xc2, 0xe1, 0xc4, 0x24, 0x22, 0x9b, 0xd0, 0x20, 0xe5, 0xcc] @
     [0x45, 0x54, 0x8a, 0xc4, 0xf8, 0x93, 0x89, 0x52, 0xa4, 0xb2, 0x4c, 0xac, 0x82, 0xa6, 0x02, 0xe9] @
     [0xd8, 0xc0, 0x26, 0x48, 0x0d, 0x10, 0x89, 0x15, 0xef, 0xe0, 0xb2, 0x8d, 0x7e, 0xfc, 0xd3, 0x4e] @
     [0x38, 0x39, 0x5b, 0x71, 0x28, 0xca, 0xcd, 0xba, 0xa8, 0x35, 0x00, 0xd4, 0x08, 0xd2, 0x6a, 0xd9] @
     [0x13, 0x02, 0x4d, 0x5d, 0x9e, 0xe2, 0xa0, 0x93, 0x8d, 0xc3, 0x1f, 0x6a, 0xbc, 0x53, 0x1f, 0x5f] @
     [0x5b, 0x82, 0xac, 0x56, 0xaf, 0xd4, 0x54, 0xb1, 0xd4, 0x29, 0x95, 0x6a, 0xae, 0x6b, 0xb5, 0x83] @
     [0x6d, 0x76, 0xad, 0xe8, 0xb8, 0x27, 0x6e, 0x97, 0x95, 0xdd, 0x1e, 0x7f, 0x79, 0xa2, 0x0f, 0x5a] @
     [0x09, 0x29, 0x6a, 0x73, 0x81, 0xd5, 0x8f, 0x96, 0x70, 0xc3, 0x0b, 0x86, 0x9a, 0xc8, 0x02, 0x24] @
     [0x59, 0xfc, 0x88, 0x3c, 0xcd, 0xc1, 0x6e, 0xb6, 0x8c, 0xd6, 0xc1, 0x23, 0x56, 0x2a, 0x41, 0x6b] @
     [0x99, 0x59, 0x76, 0x35, 0x05, 0x7d, 0x85, 0x92, 0xcf, 0xaa, 0x71, 0xf4, 0xf4, 0x30, 0x05, 0x4b] @
     [0x69, 0xf5, 0x41, 0x9c, 0xf8, 0x39, 0x9c, 0x75, 0xc3, 0xc3, 0xe9, 0xb6, 0xdb, 0x0d, 0x1c, 0x02] @
     [0x92, 0xb5, 0xf8, 0x8e, 0xbd, 0x32, 0x2a, 0xa4, 0x66, 0x7e, 0x7d, 0x6a, 0xba, 0xa7, 0x52, 0x01] @
     [0x9a, 0x85, 0x0c, 0x0d, 0x05, 0x4e, 0x87, 0x9c, 0xec, 0x2b, 0x2d, 0x94, 0x3a, 0xb7, 0xbc, 0x74] @
     [0x10, 0xef, 0x71, 0x5f, 0xea, 0xad, 0x9e, 0x6a, 0x8f, 0xc6, 0xa9, 0x05, 0x3f, 0xea, 0xfc, 0x60] @
     [0xaf, 0x15, 0xe4, 0x6f, 0x47, 0xd3, 0xbf, 0x06, 0xc6, 0xe7, 0x00, 0x1c, 0x1c, 0xd7, 0x43, 0xd0] @
     [0x0d, 0x43, 0x13, 0xbf, 0xe7, 0x3c, 0xfd, 0xfa, 0x34, 0x22, 0xf1, 0x75, 0x96, 0x5a, 0x5c, 0xf2] @
     [0xf2, 0x15, 0x94, 0x57, 0xd3, 0x94, 0xb7, 0xe1, 0xfc, 0xb5, 0x73, 0xa9, 0x94, 0xdb, 0x67, 0x89] @
     [0xfb, 0xcc, 0xf7, 0xb4, 0x80, 0x56, 0xbc, 0xa2, 0x07, 0xf9, 0x03, 0x9f, 0xa7, 0x53, 0xbe, 0xa7] @
     [0xe4, 0xb5, 0x8f, 0xc6, 0x6b, 0x1e, 0x38, 0x96, 0x3f, 0xe0, 0xb6, 0x9c, 0xbd, 0x54, 0xb6, 0xd7] @
     [0x2a, 0xeb, 0x79, 0x35, 0x02, 0xaf, 0xb1, 0x9a, 0xf9, 0x49, 0xe6, 0x9a, 0x00, 0xd6, 0x1a, 0x93] @
     [0xf4, 0x53, 0x60, 0x30, 0x98, 0xbc, 0x40, 0xd3, 0xf6, 0xe2, 0x2d, 0xb5, 0x58, 0x6c, 0x54, 0xa2] @
     [0xf3, 0x4d, 0x85, 0x41, 0x53, 0x94, 0xc2, 0x77, 0xaa, 0xe2, 0x26, 0x9c, 0xb7, 0xf4, 0xd6, 0x12] @
     [0xd6, 0x99, 0xca, 0x72, 0xad, 0x22, 0x2b, 0xcc, 0xde, 0xc6, 0xba, 0x43, 0x03, 0x45, 0x5c, 0x70] @
     [0xf4, 0xc9, 0xc1, 0x9c, 0x8d, 0x0e, 0x6a, 0x07, 0x29, 0xfa, 0xfa, 0x0b, 0x69, 0x62, 0xfe, 0xc2] @
     [0xc1, 0xf4, 0x70, 0x9c, 0x70, 0x99, 0xfe, 0x64, 0x42, 0x4e, 0x03, 0xf0, 0x21, 0xd0, 0xe2, 0xb2] @
     [0x0c, 0x21, 0x96, 0xc2, 0x5d, 0x39, 0x11, 0x99, 0x5b, 0xbe, 0xe3, 0x49, 0x93, 0xc5, 0xcb, 0x42] @
     [0x09, 0x09, 0x46, 0xf4, 0x67, 0x2d, 0x53, 0xa6, 0xd5, 0xe2, 0x33, 0x4f, 0x6c, 0xa4, 0x19, 0xc2] @
     [0x55, 0xb9, 0xee, 0xb3, 0xf5, 0xc4, 0x8d, 0x04, 0xfd, 0x79, 0xe3, 0x64, 0x00, 0x2b, 0xb7, 0xe9] @
     [0x23, 0xe5, 0x23, 0x71, 0x3d, 0x86, 0xcb, 0xce, 0x77, 0x50, 0xb1, 0x11, 0x2f, 0xd5, 0x26, 0x60] @
     [0xbc, 0x5d, 0x2d, 0xf7, 0xc6, 0xf6, 0xfa, 0xf2, 0x2d, 0x2c, 0x17, 0xd8, 0x6b, 0xda, 0x72, 0xa4] @
     [0x5a, 0x83, 0x01, 0x7d, 0xd4, 0xee, 0xe9, 0xb6, 0x75, 0x4c, 0xe0, 0xed, 0x8a, 0x84, 0xfe, 0xef] @
     [0xa7, 0x10, 0x7c, 0xd9, 0x96, 0x91, 0x5b, 0xc7, 0x3f, 0xa7, 0x72, 0xbb, 0x5b, 0xba, 0xb8, 0x2d] @
     [0xc6, 0xfd, 0xf1, 0x1d, 0x60, 0xab, 0x5f, 0xac, 0x04, 0x3d, 0x73, 0x9f, 0x8d, 0x8b, 0x4d, 0xf5] @
     [0x6c, 0xbf, 0x4a, 0x26, 0x35, 0x2c, 0x5c, 0x87, 0x4a, 0xff, 0x6f, 0xf1, 0x4f, 0x95, 0x15, 0x22] @
     [0x50, 0x1d, 0x60, 0x2a, 0x12, 0x8a, 0x3d, 0x9c, 0x7c, 0x3b, 0x23, 0xbd, 0xc7, 0x87, 0x24, 0xc7] @
     [0xf1, 0x71, 0x2a, 0x4c, 0x09, 0x4d, 0x42, 0xe8, 0x4e, 0x0f, 0x7d, 0x8a, 0xbe, 0xe9, 0xe9, 0xa1] @
     [0xb9, 0xae, 0xc3, 0x4b, 0x52, 0xd4, 0x19, 0x33, 0xb1, 0xbc, 0x51, 0x82, 0x35, 0xa9, 0xca, 0x32] @
     [0x4d, 0x7e, 0x6f, 0xd9, 0x53, 0xff, 0x0b, 0xf2, 0xd7, 0x0f, 0xed, 0x5d, 0xdd, 0x11, 0xb6, 0xb0] @
     [0xec, 0xe0, 0x0f, 0x49, 0xbc, 0xcd, 0x91, 0x24, 0xbf, 0xa9, 0xbb, 0xe3, 0xa0, 0x42, 0xf4, 0x40] @
     [0xe6, 0x8d, 0x78, 0x1c, 0xc7, 0xfb, 0x57, 0x6a, 0x9b, 0xa3, 0x5a, 0x9b, 0x91, 0xe7, 0xc5, 0xd5] @
     [0x7b, 0xfa, 0x3d, 0x19, 0x49, 0x0c, 0x26, 0x8e, 0x65, 0xfc, 0x52, 0x6f, 0xc6, 0x06, 0x49, 0x41] @
     [0xab, 0x91, 0xb8, 0x79, 0xa3, 0x9d, 0x76, 0xc2, 0x5b, 0x0a, 0x86, 0xd6, 0x17, 0x9e, 0x4b, 0x4d] @
     [0x0e, 0xb8, 0x35, 0x0f, 0x08, 0xfb, 0x8a, 0x28, 0x38, 0x09, 0xd4, 0x41, 0x9e, 0xf5, 0xe0, 0x5e] @
     [0xff, 0x64, 0x22, 0x67, 0xfe, 0x64, 0x20, 0xc8, 0x09, 0xf5, 0x4e, 0x59, 0x15, 0x22, 0x19, 0x8d] @
     [0x34, 0x5b, 0x43, 0x08, 0xa4, 0x3f, 0x22, 0x09, 0x90, 0x1d, 0x9c, 0x0a, 0x9c, 0xda, 0xe3, 0x24] @
     [0x13, 0x7c, 0x24, 0x71, 0xb3, 0x6d, 0x66, 0x9c, 0xec, 0x91, 0x53, 0x10, 0xa0, 0xc9, 0x4a, 0x41] @
     [0x99, 0xf2, 0xdd, 0xa8, 0x91, 0xba, 0x41, 0x23, 0x78, 0x9f, 0x8c, 0x70, 0x17, 0x8e, 0x2f, 0xa6] @
     [0xe2, 0xdf, 0xad, 0x26, 0xc2, 0xe3, 0xd8, 0x75, 0xf5, 0x36, 0xe5, 0x4d, 0xd1, 0xdc, 0x4a, 0xb3] @
     [0x95, 0x3c, 0x96, 0x0c, 0xf2, 0x71, 0x54, 0xb9, 0x5f, 0x04, 0x1e, 0xd9, 0x2f, 0x4a, 0x75, 0x61] @
     [0x86, 0x89, 0xf6, 0xed, 0x9b, 0x27, 0x8b, 0x4d, 0x87, 0x1a, 0x3f, 0x9e, 0xac, 0xb3, 0x77, 0x32] @
     [0xff, 0x91, 0x8e, 0xf1, 0xbe, 0x7a, 0x1b, 0x44, 0x66, 0x36, 0x1c, 0xaf, 0x7e, 0x00, 0x01, 0x42] @
     [0xbd, 0x00, 0x8d, 0x6f, 0x89, 0xfd, 0x2a, 0xc8, 0x3b, 0x28, 0x9b, 0xe3, 0x2f, 0xce, 0xd5, 0xa3] @
     [0x6b, 0x55, 0xf6, 0xdf, 0xc8, 0x75, 0x63, 0xc8, 0x47, 0xf6, 0x7a, 0x0b, 0xb0, 0x89, 0x78, 0x4f] @
     [0x56, 0x67, 0x3a, 0x90, 0xe3, 0x45, 0x08, 0xa3, 0xfc, 0xe3, 0xe8, 0x9d, 0x42, 0x91, 0xa7, 0x2f] @
     [0x7e, 0x13, 0x2a, 0x89, 0xb1, 0x8a, 0xba, 0x0d, 0x56, 0xf4, 0xa9, 0x19, 0xe0, 0x70, 0xd0, 0xde] @
     [0x24, 0x7e, 0xcc, 0xcd, 0x11, 0x67, 0x4b, 0x9a, 0xd3, 0x0a, 0x09, 0x52, 0x27, 0xed, 0x83, 0x55] @
     [0x4c, 0x6f, 0xb5, 0xca, 0x6a, 0xe8, 0x20, 0x34, 0x8c, 0xb9, 0x5c, 0xb0, 0x56, 0x6f, 0xee, 0x97] @
     [0xb7, 0xf3, 0xa7, 0x95, 0xb8, 0x94, 0xb2, 0xd3, 0x60, 0x99, 0x3e, 0x7b, 0xf4, 0xa3, 0x2e, 0x8a] @
     [0x80, 0x63, 0x76, 0x91, 0xc7, 0x3f, 0xcc, 0xbb, 0x36, 0xbf, 0x74, 0xa6, 0x20, 0xdf, 0x4d, 0xa6] @
     [0x6b, 0xa3, 0x90, 0xa2, 0xe1, 0x26, 0x83, 0xd7, 0xef, 0x18, 0x40, 0xfb, 0xaf, 0x5f, 0x01, 0x47] @
     [0xef, 0x1c, 0x25, 0xfc, 0x8f, 0xcd, 0xe4, 0x5e, 0x5e, 0x4a, 0x25, 0x5b, 0x76, 0xd9, 0x56, 0x38] @
     [0x89, 0x56, 0xbb, 0xf0, 0x52, 0x8e, 0x8c, 0xc8, 0x52, 0x92, 0xb6, 0xc4, 0xcf, 0x9a, 0xa0, 0x94] @
     [0x1e, 0xbe, 0xcc, 0x7b, 0x56, 0x27, 0xfd, 0xa3, 0x2c, 0xe7, 0x5e, 0xd2, 0x79, 0x11, 0x64, 0xb8] @
     [0x6a, 0xd3, 0xb2, 0x74, 0x2f, 0x9c, 0xe7, 0x83, 0x3a, 0xe3, 0xc9, 0x0a, 0x24, 0x0b, 0x5b, 0x01] @
     [0x76, 0x0d, 0xb9, 0x48, 0x53, 0x68, 0x9c, 0x41, 0xc0, 0x8f, 0xa2, 0xc6, 0xbd, 0x29, 0xb0, 0xd5] @
     [0xcd, 0x9a, 0x8d, 0xd9, 0xbf, 0xac, 0xf0, 0x1f, 0x35, 0xd9, 0x34, 0x9f, 0x7a, 0x66, 0x3f, 0x6e] @
     [0xa8, 0xed, 0x75, 0x40, 0xce, 0x8d, 0x68, 0x3f, 0xa1, 0x4c, 0x01, 0x09, 0x5c, 0x94, 0x73, 0x5a] @
     [0x19, 0xa2, 0x3f, 0xc3, 0x86, 0xc2, 0x41, 0xe5, 0xb5, 0xa6, 0xbd, 0x93, 0x36, 0x2a, 0xaa, 0x00] @
     [0x05, 0x52, 0x8b, 0x32, 0xed, 0x5f, 0x58, 0x12, 0x79, 0xd5, 0x9c, 0x30, 0xb9, 0x55, 0xa2, 0xa0] @
     [0x8b, 0x65, 0x1c, 0xdd, 0x7a, 0x3b, 0x9c, 0x54, 0xe5, 0x85, 0xc1, 0x26, 0x21, 0x6a, 0x48, 0xea]"

lemma my_c2_length: "length my_c2 = 1536"
  by (simp add: my_c2_def)

text \<open>The block of the server it talked to.\<close>

lemma my_s1_offset0: "scheme_offset 0 my_s1 = 215"
  unfolding scheme_offset_eval [OF my_s1_length] by (simp add: my_s1_def sumBytes_def)

lemma my_s1_code_pass_0:
  "sha_blocks (Sha 0xfbf1a037 0x2e9a60b2 0xa08c9325 0xa4fd756d 0x55368456 0xbe012b6d 0x476abc98 0xc2e1cb14)
     (0x1c # 0x65 # 0x02 # 0x77 # 0x05 # 0 # 1 # 1 # 0x75 # 0x3f # 0x04 # 0x13 # 0xd5 # 0x90 # 0x5f # 0xee #
      0x8a # 0x14 # 0x64 # 0x26 # 0x39 # 0xd5 # 0xd6 # 0x82 # 0xd5 # 0x02 # 0x90 # 0xae # 0x56 # 0xd0 # 0x3e # 0x48 #
      0xe9 # 0x3e # 0xd8 # 0x81 # 0x2d # 0x16 # 0x03 # 0xc1 # 0x17 # 0xe8 # 0xdd # 0xa1 # 0xa7 # 0xed # 0x8f # 0x2a #
      0xa7 # 0x91 # 0x73 # 0x1f # 0xd4 # 0xfb # 0xa4 # 0x20 # 0x92 # 0x5c # 0xd3 # 0x14 # 0xec # 0xb9 # 0xf2 # 0xf7 #
      0x30 # 0x89 # 0x09 # 0xd5 # 0x06 # 0x4d # 0xc9 # 0xf9 # 0xed # 0x60 # 0xcb # 0x29 # 0x8e # 0x38 # 0xd3 # 0xa0 #
      0x81 # 0xc6 # 0x16 # 0x63 # 0x43 # 0x30 # 0x98 # 0x98 # 0x5f # 0x92 # 0x1e # 0x61 # 0xd1 # 0x35 # 0x41 # 0xf7 #
      0x27 # 0x53 # 0x87 # 0xd3 # 0x82 # 0x71 # 0x91 # 0x99 # 0x42 # 0x84 # 0x24 # 0xdb # 0x70 # 0x2e # 0x47 # 0x89 #
      0xf3 # 0x7c # 0x99 # 0x27 # 0x11 # 0x10 # 0xa2 # 0x64 # 0xc7 # 0x04 # 0xb6 # 0xe4 # 0x16 # 0x1a # 0xeb # 0xbf # rest) =
   sha_blocks (Sha 0xaf707b7f 0x6a9301eb 0x11d2fa28 0x4b4e0849 0x6e0a55a0 0xa37b04bc 0x1961466e 0x1c0d5a61) rest"
  by (simp only: sha_eval)

lemma my_s1_code_pass_1:
  "sha_blocks (Sha 0xaf707b7f 0x6a9301eb 0x11d2fa28 0x4b4e0849 0x6e0a55a0 0xa37b04bc 0x1961466e 0x1c0d5a61)
     (0xfb # 0x2a # 0x39 # 0xe4 # 0x77 # 0x20 # 0x41 # 0x16 # 0x56 # 0xbd # 0xa9 # 0x61 # 0x4b # 0x1c # 0x44 # 0x2b #
      0xd0 # 0x35 # 0x9c # 0xc5 # 0x40 # 0x93 # 0x0f # 0xd6 # 0x98 # 0x61 # 0x2c # 0xaf # 0xa8 # 0 # 0x49 # 0x8b #
      0xbf # 0xa5 # 0x0e # 0x5f # 0x52 # 0x0d # 0x9d # 0x4f # 0x05 # 0x0b # 0x81 # 0xf6 # 0x95 # 0x3c # 0xf6 # 0x18 #
      0xa9 # 0xa6 # 0xf3 # 0x0a # 0x70 # 0xa7 # 0x33 # 0xf7 # 0xb3 # 0x12 # 0xae # 0x49 # 0x49 # 0x8c # 0x8e # 0x89 #
      0x0b # 0x49 # 0xd6 # 0xcd # 0x58 # 0xcf # 0x90 # 0x9a # 0x98 # 0x70 # 0x36 # 0x51 # 0x45 # 0x8f # 0x17 # 0x21 #
      0x5d # 0x29 # 0xac # 0x43 # 0xae # 0x4b # 0xf1 # 0x18 # 0x82 # 0x50 # 0xe5 # 0x39 # 0xbe # 0x8f # 0x4d # 0x8e #
      0x1a # 0x11 # 0xe5 # 0x08 # 0x34 # 0xc1 # 0xc0 # 0xe4 # 0xfa # 0x07 # 0x21 # 0x29 # 0x92 # 0x34 # 0x87 # 0xe5 #
      0x79 # 0xd1 # 0x2b # 0xa3 # 0x86 # 0x93 # 0x8b # 0x83 # 0x12 # 0xe5 # 0xce # 0x3b # 0xcd # 0xb3 # 0x3a # 0x1a # rest) =
   sha_blocks (Sha 0xf914245c 0x04bd2707 0xed15eb26 0xbee16c53 0x58cc728b 0xf2244517 0xf5cc1da7 0xfcbb3bc6) rest"
  by (simp only: sha_eval)

lemma my_s1_code_pass_2:
  "sha_blocks (Sha 0xf914245c 0x04bd2707 0xed15eb26 0xbee16c53 0x58cc728b 0xf2244517 0xf5cc1da7 0xfcbb3bc6)
     (0x16 # 0x2d # 0x17 # 0x91 # 0x46 # 0xb7 # 0x5e # 0x6d # 0xfe # 0xc2 # 0x73 # 0x95 # 0x45 # 0xde # 0xc4 # 0x95 #
      0 # 0x70 # 0x8f # 0x9a # 0x93 # 0xd8 # 0x97 # 0xff # 0x54 # 0x16 # 0xa6 # 0xf5 # 0x13 # 0xf1 # 0x8d # 0x18 #
      0x65 # 0x12 # 0x49 # 0x02 # 0xe4 # 0xff # 0x95 # 0x16 # 0x59 # 0x7b # 0x75 # 0xc0 # 0xb9 # 0xcc # 0xb9 # 0x98 #
      1 # 0xbd # 0xe1 # 0x6a # 0 # 0xa4 # 0xe4 # 0x25 # 0xed # 0xdb # 0xec # 0x8d # 0x77 # 0x80 # 0x72 # 0xed #
      0x4b # 0x4e # 0xdb # 0x90 # 0x42 # 0xbd # 0xc7 # 0x95 # 0x61 # 0x87 # 0x79 # 0x36 # 0x71 # 0x9f # 0x74 # 0x09 #
      0xa0 # 0x24 # 0x4c # 0xaa # 0x4f # 0x20 # 0x98 # 0xb3 # 0xbb # 0x74 # 0xc2 # 0x3c # 0xad # 0xdf # 0x63 # 0x61 #
      0x25 # 0x46 # 0x33 # 0xb1 # 0xf3 # 0xcc # 0xd7 # 0xc2 # 0x79 # 0x2d # 0xc9 # 0x2d # 0x4c # 0x79 # 0x09 # 0xf8 #
      0xa0 # 0x2f # 0x3e # 0x9c # 0xe0 # 0xb9 # 0x77 # 0xc0 # 0x82 # 0xe1 # 0x49 # 0x39 # 0x77 # 0x7a # 0x0d # 0xdb # rest) =
   sha_blocks (Sha 0x875552a2 0x4434b2bd 0x5cd0e1f6 0x4dea0fa6 0x1da1fd9f 0xf39e7956 0x606e223c 0xeb54c4e9) rest"
  by (simp only: sha_eval)

lemma my_s1_code_pass_3:
  "sha_blocks (Sha 0x875552a2 0x4434b2bd 0x5cd0e1f6 0x4dea0fa6 0x1da1fd9f 0xf39e7956 0x606e223c 0xeb54c4e9)
     (0xe2 # 0x27 # 0xf3 # 0xfa # 0x8f # 0x80 # 0xc9 # 0xc6 # 0xc5 # 0xd4 # 0xaf # 0x2a # 0x0c # 0xdc # 0xc9 # 0x29 #
      0x80 # 0xda # 0x15 # 0x09 # 0x25 # 0xaa # 0x74 # 0xc4 # 0xc4 # 0xba # 0x62 # 0xbb # 0x05 # 0x9f # 0x65 # 0x5d #
      0xe4 # 0x59 # 0x6f # 0xec # 0xcb # 0xc6 # 0xa0 # 0xc2 # 0x24 # 0x36 # 0xf9 # 0x49 # 0xdb # 0xd9 # 0x8e # 0xe4 #
      0x29 # 0xfa # 0x6f # 0x0a # 0x0d # 0x5b # 0x56 # 0x27 # 0x71 # 0x4e # 0x65 # 0x57 # 0xed # 0x07 # 0xe1 # 0x6b #
      0x37 # 0xe0 # 0x11 # 0x4a # 0x94 # 0x53 # 0x68 # 0x55 # 0xaf # 0x43 # 0x28 # 0x9a # 0x49 # 0xe6 # 0x35 # 0xbb #
      0x5c # 0x46 # 0x9b # 0x64 # 0xaf # 0x77 # 0xa3 # 0xd7 # 0xb2 # 0x53 # 0x97 # 0xa0 # 0x8b # 0x66 # 0x56 # 0x58 #
      0x9c # 0x0b # 0xc1 # 0xc5 # 0x98 # 0xf1 # 0xa6 # 0x61 # 0x52 # 0x92 # 0x90 # 0x3f # 0xa3 # 0x09 # 0x35 # 0xf1 #
      0x75 # 0x05 # 0x77 # 0xc2 # 0x2b # 0x21 # 0x17 # 0x25 # 0x89 # 0x0f # 0xff # 0x58 # 0x71 # 0xfb # 0x97 # 0x05 # rest) =
   sha_blocks (Sha 0xbeebaf39 0x992d093d 0xa13b3fa9 0x09454825 0x62fcf482 0x3eb6259e 0xebe27802 0xd28adb08) rest"
  by (simp only: sha_eval)

lemma my_s1_code_pass_4:
  "sha_blocks (Sha 0xbeebaf39 0x992d093d 0xa13b3fa9 0x09454825 0x62fcf482 0x3eb6259e 0xebe27802 0xd28adb08)
     (0xc0 # 0xea # 0xcd # 0x41 # 0x75 # 0xb3 # 0x37 # 0x98 # 0x52 # 0xb1 # 0x64 # 0x4a # 0x80 # 0x96 # 0xc8 # 0xb4 #
      0xb2 # 0x37 # 0xab # 0x13 # 0x3d # 0xa4 # 0x34 # 0xe1 # 0x5e # 0x87 # 0x97 # 0x6c # 0x44 # 0xfc # 0x95 # 0x81 #
      0xfd # 0xf6 # 0xec # 0xa9 # 0x4d # 0x56 # 0xa2 # 0x8b # 0xda # 0xb9 # 0xd6 # 0xe4 # 0xc6 # 0xc6 # 0x3d # 0x92 #
      0x74 # 0xe6 # 0x75 # 0xdd # 0x5b # 0xe0 # 0xae # 0x98 # 0x03 # 0x42 # 0xb7 # 0xb4 # 0xea # 0xe5 # 0x1d # 0x9c #
      0x45 # 0x99 # 0xe2 # 0xb2 # 0x6c # 0x35 # 0x68 # 0x64 # 0x3f # 0xd2 # 0x87 # 0x4d # 0xf6 # 0x14 # 0x0b # 0x8b #
      0x8b # 0x80 # 0x51 # 0x27 # 0x63 # 0x22 # 0x98 # 0xad # 0x87 # 0x27 # 0x9f # 0xff # 0x0c # 0x86 # 0x9f # 0x35 #
      0x24 # 0xa2 # 0x44 # 0xe7 # 0xe6 # 0x3e # 0xf3 # 0x66 # 0x73 # 0x15 # 0xd1 # 0x20 # 0xe7 # 0x9d # 0x13 # 0xfe #
      0x87 # 0xbe # 0x94 # 0x1e # 0x1d # 0xc7 # 0x35 # 0x1d # 0x86 # 0x15 # 0xf6 # 0x11 # 0x08 # 0x2f # 0x20 # 0xa2 # rest) =
   sha_blocks (Sha 0xfd2c69e7 0xdf1ff241 0x7303d5f9 0xb444d47f 0x52bd480f 0x3c61d707 0x7a1883f8 0xa4f92b6e) rest"
  by (simp only: sha_eval)

lemma my_s1_code_pass_5:
  "sha_blocks (Sha 0xfd2c69e7 0xdf1ff241 0x7303d5f9 0xb444d47f 0x52bd480f 0x3c61d707 0x7a1883f8 0xa4f92b6e)
     (0xfb # 0x11 # 0x92 # 0xb2 # 0x2a # 0x22 # 0x41 # 0x54 # 0x4e # 0x24 # 0x72 # 0xb9 # 0x78 # 0xbc # 0x4b # 0x0e #
      0x4b # 0x09 # 0xf8 # 0xf9 # 0xf4 # 0x32 # 0xff # 0xf4 # 0xc6 # 0x5f # 0x43 # 0x5f # 0xe6 # 0x13 # 0x75 # 0x8b #
      0x64 # 0x4f # 0xf6 # 1 # 0x87 # 0x4c # 0x7d # 0x83 # 0xa8 # 0x2c # 0x86 # 0x0e # 0x33 # 0x52 # 0x24 # 0x92 #
      0x5b # 0xc6 # 0x0e # 0x54 # 0x49 # 0x6b # 0xc5 # 0xfc # 0x7d # 0xa9 # 0x6b # 0xb1 # 0x04 # 0x6d # 0xb5 # 0x44 #
      0xd8 # 0x1f # 0x8f # 0x4c # 0x6f # 0x1b # 0xba # 0xe7 # 0xf2 # 0x02 # 0xc3 # 0x47 # 0x60 # 0x75 # 0x46 # 0xf9 #
      0xa7 # 0xd1 # 0xf8 # 0x3a # 0xe4 # 0xe7 # 0x7e # 0xa0 # 0xaf # 1 # 0x07 # 0x7c # 0x39 # 0x2f # 0x6f # 0x4f #
      0x55 # 0xae # 0x0e # 0x16 # 0x25 # 0xb5 # 0xf7 # 0xb1 # 0xf2 # 0x89 # 0xc7 # 0x0a # 0xc9 # 0xb8 # 0xa5 # 0xff #
      0xe7 # 0xd0 # 0x65 # 0x88 # 0xc3 # 0xf2 # 0x8b # 0x8f # 0x21 # 0xdd # 0xce # 0xde # 0xcc # 0xf3 # 0xe4 # 0x97 # rest) =
   sha_blocks (Sha 0x68e6a351 0xfe5dcd3c 0x3e99d33a 0x038fb7af 0xb62caec3 0x48b3e993 0xee4209ac 0xea9b50e0) rest"
  by (simp only: sha_eval)

lemma my_s1_code_pass_6:
  "sha_blocks (Sha 0x68e6a351 0xfe5dcd3c 0x3e99d33a 0x038fb7af 0xb62caec3 0x48b3e993 0xee4209ac 0xea9b50e0)
     (0xf3 # 0xa6 # 0xef # 0xa9 # 0x0f # 0x21 # 0x5b # 0x4d # 0xe3 # 0x68 # 0x6d # 0x45 # 0xff # 0x04 # 0x06 # 0xdf #
      0x28 # 0xc3 # 0x6f # 0x94 # 0xca # 0x8b # 0xcf # 0xb9 # 0xdd # 0x75 # 0x0a # 0x69 # 0x44 # 0xf6 # 0xeb # 0xfb #
      0x85 # 0x26 # 0xcc # 0xad # 0xd7 # 0x9d # 0xb4 # 0xb0 # 0xf4 # 0x34 # 0xab # 0xf8 # 0xbf # 0xa0 # 0xf1 # 0xb8 #
      0x19 # 0xe1 # 0x50 # 0x29 # 0x72 # 0x6a # 0xd1 # 0x65 # 0x03 # 0x0e # 0xcf # 0x95 # 0x2f # 0xc0 # 0x91 # 0x64 #
      0x24 # 0x47 # 0xc2 # 0x03 # 0x98 # 0x06 # 0x81 # 0x28 # 0xf2 # 0xfa # 0xba # 0xd3 # 0x80 # 0x7f # 0x05 # 0xe4 #
      0x0d # 0x37 # 0xa5 # 0x1d # 0x8a # 0x33 # 0x81 # 0x8e # 0x0b # 0xe6 # 0x26 # 0x7e # 0xfc # 0x74 # 0xa2 # 0xbe #
      0x6b # 0x09 # 0xf0 # 0x11 # 0x88 # 0xfb # 0xe1 # 0x7e # 0xd0 # 0x5a # 0x38 # 0x73 # 0x70 # 0x5b # 0x59 # 0x62 #
      0x22 # 0xf4 # 0x3e # 0xc8 # 0x83 # 0xe4 # 0x86 # 0x4a # 0x61 # 0x12 # 0x20 # 0x36 # 0x83 # 0xd3 # 0x97 # 0x35 # rest) =
   sha_blocks (Sha 0x1b4e7d68 0x9f731438 0xb8515f0a 0xb416a46e 0x900ae267 0x4f138064 0xdcf38d36 0xd6683e64) rest"
  by (simp only: sha_eval)

lemma my_s1_code_pass_7:
  "sha_blocks (Sha 0x1b4e7d68 0x9f731438 0xb8515f0a 0xb416a46e 0x900ae267 0x4f138064 0xdcf38d36 0xd6683e64)
     (0xd4 # 0x97 # 0xac # 0xf2 # 0x45 # 0xd8 # 0xad # 0x52 # 0x71 # 0x32 # 0x69 # 0xe1 # 0x2d # 0xac # 0x65 # 0xc9 #
      0x65 # 0x9e # 0x69 # 0x72 # 0x8c # 0x67 # 0xca # 0x99 # 0x13 # 0x2d # 0xe5 # 0x47 # 0xb8 # 0x2a # 0xe2 # 0x88 #
      0x5a # 0x2a # 0x0b # 0x3d # 0x92 # 0xba # 0x8b # 0x64 # 0x9a # 0x9f # 0xf8 # 0x15 # 0x6b # 0xe5 # 0x85 # 0xec #
      0xa9 # 0x71 # 0x0b # 0x23 # 0x0e # 0xa3 # 0xdf # 0xde # 0x46 # 0xba # 0x7a # 0xa2 # 0xf9 # 0x9e # 0xbe # 0xa3 #
      0x9b # 0x51 # 0xe4 # 0x8b # 0xd8 # 0x7e # 0x16 # 0x2f # 0x41 # 0x16 # 0xed # 0xfa # 0xb3 # 0x40 # 0xad # 0xef #
      0x9a # 0x19 # 0x03 # 0x7d # 0x97 # 0x6e # 0x9f # 0xd0 # 0x12 # 0x3d # 0x0d # 0xe7 # 0xa0 # 0x2f # 0x8f # 0xc3 #
      0xce # 0x50 # 0x94 # 0x03 # 0x15 # 0x81 # 0xea # 0x56 # 0x90 # 0x41 # 0x41 # 0x7a # 0xc1 # 0xf8 # 0x0c # 0x77 #
      0x20 # 0xc7 # 0x99 # 0xaf # 0x96 # 0xc0 # 0x7c # 0x76 # 0xfb # 0xf5 # 0x2a # 0x79 # 0xea # 0x8c # 0x13 # 0x85 # rest) =
   sha_blocks (Sha 0x1bb7c6f0 0x8c299b82 0xd1e1279b 0xcc51ee44 0x210463bb 0xdaa44c0e 0x5cb88a64 0xa0de52f0) rest"
  by (simp only: sha_eval)

lemma my_s1_code_pass_8:
  "sha_blocks (Sha 0x1bb7c6f0 0x8c299b82 0xd1e1279b 0xcc51ee44 0x210463bb 0xdaa44c0e 0x5cb88a64 0xa0de52f0)
     (0xbf # 0x27 # 0xa2 # 0x77 # 0x42 # 0x50 # 0xae # 0x5d # 0x35 # 0xb6 # 0x8f # 0x11 # 0xb0 # 0xdc # 0x78 # 0xe3 #
      0x7d # 0x57 # 0xe2 # 0x34 # 0x23 # 0x4e # 0xe8 # 0xe5 # 0xc5 # 0x54 # 0x5d # 0x49 # 0x06 # 0x68 # 0x3d # 0x57 #
      0xcb # 0xcb # 0x5f # 0x89 # 0xd3 # 0x1e # 0x44 # 0x7e # 0x13 # 0x5d # 0xf0 # 0x46 # 0x39 # 0x9b # 0x1e # 0x90 #
      0x55 # 0x0a # 0xf6 # 0x85 # 0xf9 # 0x39 # 0x08 # 0x19 # 0x83 # 0x02 # 0x56 # 0x7f # 0xad # 0x8c # 0x26 # 0xd9 #
      0xe4 # 0xf0 # 0xc1 # 0xd6 # 0xe9 # 0xe0 # 0xe4 # 0xc4 # 0xa3 # 0x8b # 0xf3 # 0xc5 # 0x64 # 0xfc # 0x15 # 0x98 #
      0x21 # 0x12 # 0x7a # 0xf1 # 0x3c # 0x50 # 0x56 # 0xf5 # 0x22 # 0x47 # 0xe6 # 0xc3 # 0x8f # 0x0c # 0x35 # 0xa4 #
      0xcb # 0x30 # 0x56 # 0x87 # 0xf5 # 0x69 # 0x6e # 0x2f # 0x06 # 0x16 # 0x44 # 0x78 # 0xd9 # 0x18 # 0xe6 # 0x47 #
      0xdc # 0x56 # 0x27 # 0xa1 # 0x10 # 0x5d # 0xb7 # 0x3e # 0xfd # 1 # 0xa3 # 0x90 # 0x4b # 0x78 # 0xd8 # 0x87 # rest) =
   sha_blocks (Sha 0xba0bc40d 0xf14e9e1e 0x9cfa8135 0xf1c0832e 0x302181aa 0xe6fd8e21 0x5829e7d4 0xb708f9c9) rest"
  by (simp only: sha_eval)

lemma my_s1_code_pass_9:
  "sha_blocks (Sha 0xba0bc40d 0xf14e9e1e 0x9cfa8135 0xf1c0832e 0x302181aa 0xe6fd8e21 0x5829e7d4 0xb708f9c9)
     (0x7c # 0x5c # 0x66 # 0xb2 # 0x6b # 0x2d # 0x58 # 0x4e # 0x25 # 0xb9 # 0xed # 0xbe # 0x8c # 0x3c # 0x28 # 0xc0 #
      0x97 # 0x55 # 0xab # 0xb0 # 0x8b # 0x1f # 0xb7 # 0x80 # 0x8b # 0x44 # 0xc0 # 0x78 # 0x5b # 0x60 # 0xf0 # 0x02 #
      0xa9 # 0x06 # 0x1c # 0x3b # 0xa1 # 0x93 # 0x08 # 0x3f # 0x60 # 0xe0 # 0xae # 0xba # 0x46 # 0x97 # 0x4f # 0x3b #
      0x80 # 0x6b # 0x14 # 0x98 # 0x3b # 0xe5 # 0x8a # 0x88 # 0xa1 # 0x8a # 0x7e # 0x0c # 0x0f # 0x07 # 0x28 # 0x97 #
      0xd5 # 0x25 # 0x85 # 0xbb # 0x0f # 0x70 # 0x7d # 0xbf # 0xaa # 0xf6 # 0x8e # 0xd5 # 0xe9 # 0x29 # 0xda # 0xf6 #
      0x5f # 0x51 # 0x0c # 0x4d # 0xbe # 0x43 # 0x31 # 0xe2 # 0xf4 # 0x9e # 0x5d # 0xfc # 0xea # 0xc7 # 0x36 # 0xca #
      0xac # 0x18 # 0x96 # 0xde # 0x6b # 0x73 # 0x11 # 0x83 # 0xaa # 0x43 # 0x7a # 0x31 # 0x05 # 0x2b # 0xef # 0xd1 #
      0x2d # 0xaa # 0xe5 # 0x62 # 0xcc # 0x6d # 0xff # 0x64 # 0xba # 0x5e # 0x05 # 0xbe # 0x7a # 0x42 # 0xba # 0x93 # rest) =
   sha_blocks (Sha 0x24338d32 0x2dc9224f 0x7414fd57 0xbd0785c8 0x205156e2 0x0a843972 0x8bfbb2d9 0xdc96b7fd) rest"
  by (simp only: sha_eval)

lemma my_s1_code_pass_10:
  "sha_blocks (Sha 0x24338d32 0x2dc9224f 0x7414fd57 0xbd0785c8 0x205156e2 0x0a843972 0x8bfbb2d9 0xdc96b7fd)
     (0x3c # 0xf1 # 0x38 # 0x76 # 0x4e # 0x86 # 0x2d # 0xb6 # 0x62 # 0x3a # 0x11 # 0xd8 # 0x06 # 0x54 # 0x6d # 0x10 #
      0xf9 # 0x5a # 0x5a # 0x64 # 0x3b # 0xe5 # 0x99 # 0x47 # 0x79 # 0x23 # 0x68 # 0x34 # 0x5b # 0x4a # 0xef # 0x25 #
      0xe5 # 0x5d # 0x14 # 0xf3 # 0x6a # 0x17 # 0x6d # 0xf9 # 0x27 # 0x23 # 0x77 # 0x2f # 0x32 # 0xec # 0x49 # 0 #
      0x0b # 0x83 # 0x8b # 0x57 # 0x38 # 0xec # 0x31 # 0x0a # 0x76 # 0x5e # 0x0a # 0xf6 # 0xa1 # 0x51 # 0xfb # 0x2a #
      0x02 # 0x4c # 0x57 # 0x2e # 0x6d # 0xa5 # 0x75 # 0x20 # 0x16 # 0x41 # 0xb6 # 0x35 # 0x40 # 0x6b # 0x7a # 0x76 #
      0xe7 # 0x79 # 0xdf # 0x46 # 0xea # 0x6f # 0x49 # 0xd3 # 0x82 # 0x7c # 0xdd # 0x9d # 0x7c # 0x2b # 0xf1 # 0xc6 #
      0x26 # 0x5e # 0x0b # 0x66 # 0x50 # 0x88 # 0x66 # 0x66 # 0x7a # 0xf9 # 0x84 # 0x9e # 0xd6 # 0xdc # 0xd4 # 0xe5 #
      0x86 # 0x78 # 0x3f # 0xfe # 0xb9 # 0xe9 # 0x0f # 0x23 # 0xf4 # 0x10 # 0x62 # 0xfd # 0xe9 # 0x61 # 0x75 # 0xe9 # rest) =
   sha_blocks (Sha 0x1ba448aa 0x0e5d9533 0xc90efff7 0x33a6ebcf 0x89b0bbd0 0x4f34b9ee 0x0e43c4ab 0x625ec037) rest"
  by (simp only: sha_eval)

lemma my_s1_code_pass_11:
  "sha_blocks (Sha 0x1ba448aa 0x0e5d9533 0xc90efff7 0x33a6ebcf 0x89b0bbd0 0x4f34b9ee 0x0e43c4ab 0x625ec037)
     (0x3b # 0xdf # 0x09 # 0x82 # 0xb8 # 0xa7 # 0x14 # 0x1d # 0x51 # 0x4d # 0xd8 # 0xef # 0xd1 # 0x7c # 0x81 # 0x56 #
      0xc4 # 0xb2 # 0x66 # 0xfa # 0xea # 0xba # 0x6e # 0xda # 0xcb # 0xaf # 0x21 # 0x7b # 0x46 # 0xa8 # 0xce # 0x18 #
      0x47 # 0x3f # 0x46 # 0xde # 0xd0 # 0xad # 0xda # 0x7a # 0x68 # 0x19 # 0x90 # 0x61 # 0xad # 0xf5 # 0xb0 # 0x24 #
      0x26 # 0xf5 # 0x5e # 0x38 # 0x82 # 0x52 # 0xc6 # 0x74 # 0xf3 # 0xde # 0xde # 0x94 # 0x74 # 0x0c # 0x50 # 0x73 #
      0xbf # 0xf0 # 0x51 # 0xf3 # 0x5d # 0xd9 # 0x3c # 0xc4 # 0x26 # 0xc4 # 0xc1 # 0xf7 # 0x85 # 0x72 # 0xea # 0x62 #
      0x1f # 0x17 # 0x4c # 0xab # 0x38 # 0xe6 # 0xbe # 0x56 # 0xc5 # 0xfb # 0xc2 # 0x3f # 0xeb # 0xbe # 0x29 # 0xe8 #
      0x80 # 0 # 0 # 0 # 0 # 0 # 0 # 0 # 0 # 0 # 0 # 0 # 0 # 0 # 0 # 0 #
      0 # 0 # 0 # 0 # 0 # 0 # 0 # 0 # 0 # 0 # 0 # 0 # 0 # 0 # 0x31 # 0 # rest) =
   sha_blocks (Sha 0xad9dfad9 0xa50381a0 0xf154b12e 0x4c0796cd 0xa2ab60e0 0x5e1d06f7 0x86ea02f1 0x23271831) rest"
  by (simp only: sha_eval)

lemma my_s1_code_end:
  "sha_blocks (Sha 0x5e768abc 0xa52128de 0xf535f675 0x8694d69c 0x9d55fb0f 0x3309589a 0xb5b12beb 0x87110ee9)
     (0xad # 0x9d # 0xfa # 0xd9 # 0xa5 # 0x03 # 0x81 # 0xa0 # 0xf1 # 0x54 # 0xb1 # 0x2e # 0x4c # 0x07 # 0x96 # 0xcd #
      0xa2 # 0xab # 0x60 # 0xe0 # 0x5e # 0x1d # 0x06 # 0xf7 # 0x86 # 0xea # 0x02 # 0xf1 # 0x23 # 0x27 # 0x18 # 0x31 #
      0x80 # 0 # 0 # 0 # 0 # 0 # 0 # 0 # 0 # 0 # 0 # 0 # 0 # 0 # 0 # 0 #
      0 # 0 # 0 # 0 # 0 # 0 # 0 # 0 # 0 # 0 # 0 # 0 # 0 # 0 # 0x03 # 0 # rest) =
   sha_blocks (Sha 0x7853ba69 0x87754fe2 0x7548a460 0x32736cd2 0x35a8ba5d 0x4c07eda9 0x4bd685eb 0x9da7cf46) rest"
  by (simp only: sha_eval)

lemma my_s1_code_digest:
  "sha_blocks (Sha 0xfbf1a037 0x2e9a60b2 0xa08c9325 0xa4fd756d 0x55368456 0xbe012b6d 0x476abc98 0xc2e1cb14) (strip 215 my_s1 @ sha_tail 1568) =
     Sha 0xad9dfad9 0xa50381a0 0xf154b12e 0x4c0796cd 0xa2ab60e0 0x5e1d06f7 0x86ea02f1 0x23271831"
  by (simp add: strip_def my_s1_def sha_tail_1568 my_s1_code_pass_0 my_s1_code_pass_1 my_s1_code_pass_2 my_s1_code_pass_3 my_s1_code_pass_4 my_s1_code_pass_5 my_s1_code_pass_6 my_s1_code_pass_7 my_s1_code_pass_8 my_s1_code_pass_9 my_s1_code_pass_10 my_s1_code_pass_11 sha_blocks_Nil)

lemma my_s1_code:
  "calculateHMACsha256 (strip 215 my_s1) (take 36 GENUINE_FMS_KEY) =
     [0x78, 0x53, 0xba, 0x69, 0x87, 0x75, 0x4f, 0xe2, 0x75, 0x48, 0xa4, 0x60, 0x32, 0x73, 0x6c,
      0xd2, 0x35, 0xa8, 0xba, 0x5d, 0x4c, 0x07, 0xed, 0xa9, 0x4b, 0xd6, 0x85, 0xeb, 0x9d, 0xa7,
      0xcf, 0x46]"
proof -
  have bytes: "sha_bytes (Sha 0xad9dfad9 0xa50381a0 0xf154b12e 0x4c0796cd 0xa2ab60e0 0x5e1d06f7 0x86ea02f1 0x23271831) =
      [0xad, 0x9d, 0xfa, 0xd9, 0xa5, 0x03, 0x81, 0xa0, 0xf1, 0x54, 0xb1, 0x2e, 0x4c, 0x07, 0x96,
       0xcd, 0xa2, 0xab, 0x60, 0xe0, 0x5e, 0x1d, 0x06, 0xf7, 0x86, 0xea, 0x02, 0xf1, 0x23, 0x27,
       0x18, 0x31]"
    by (simp add: be32_put_def)
  have len: "64 + length (strip 215 my_s1) = 1568" by (simp add: strip_def my_s1_def)
  have "calculateHMACsha256 (strip 215 my_s1) (take 36 GENUINE_FMS_KEY) = sha_bytes (Sha 0x7853ba69 0x87754fe2 0x7548a460 0x32736cd2 0x35a8ba5d 0x4c07eda9 0x4bd685eb 0x9da7cf46)"
    unfolding server_mac len my_s1_code_digest bytes
    by (simp only: sha_tail_96 append_Cons append_Nil my_s1_code_end sha_blocks_Nil)
  then show ?thesis by (simp add: be32_put_def)
qed

lemma my_s1_code_signed: "signed 0 (take 36 GENUINE_FMS_KEY) my_s1"
proof -
  have "digest_at 215 my_s1 =
     [0x78, 0x53, 0xba, 0x69, 0x87, 0x75, 0x4f, 0xe2, 0x75, 0x48, 0xa4, 0x60, 0x32, 0x73, 0x6c,
      0xd2, 0x35, 0xa8, 0xba, 0x5d, 0x4c, 0x07, 0xed, 0xa9, 0x4b, 0xd6, 0x85, 0xeb, 0x9d, 0xa7,
      0xcf, 0x46]"
    by (simp add: digest_at_def my_s1_def)
  then show ?thesis unfolding signed_def my_s1_offset0 my_s1_code by simp
qed

text \<open>The acknowledgement of the client: its last 32 bytes are the code of the others under a key derived
  from the digest of the server.\<close>

lemma my_ack_key_pass:
  "sha_blocks (Sha 0xf50c211e 0xb4912e4e 0xa654c4f4 0xeaa22a44 0x31f45f66 0x22754a77 0x9b30b532 0xb18de0ad)
     (0x78 # 0x53 # 0xba # 0x69 # 0x87 # 0x75 # 0x4f # 0xe2 # 0x75 # 0x48 # 0xa4 # 0x60 # 0x32 # 0x73 # 0x6c # 0xd2 #
      0x35 # 0xa8 # 0xba # 0x5d # 0x4c # 0x07 # 0xed # 0xa9 # 0x4b # 0xd6 # 0x85 # 0xeb # 0x9d # 0xa7 # 0xcf # 0x46 #
      0x80 # 0 # 0 # 0 # 0 # 0 # 0 # 0 # 0 # 0 # 0 # 0 # 0 # 0 # 0 # 0 #
      0 # 0 # 0 # 0 # 0 # 0 # 0 # 0 # 0 # 0 # 0 # 0 # 0 # 0 # 0x03 # 0 # rest) =
   sha_blocks (Sha 0x80b78faf 0x333acf8e 0xeef4eae0 0xf3dd46c5 0x6c341b94 0xbe60eefc 0xa6c3ca6c 0xc55a5669) rest"
  by (simp only: sha_eval)

lemma my_ack_key_end:
  "sha_blocks (Sha 0x2f089c78 0x00cdebc1 0xfd6934e4 0x55f3acc6 0xe5e8c528 0x4dc7d7c3 0xb6caf065 0x34f8d755)
     (0x80 # 0xb7 # 0x8f # 0xaf # 0x33 # 0x3a # 0xcf # 0x8e # 0xee # 0xf4 # 0xea # 0xe0 # 0xf3 # 0xdd # 0x46 # 0xc5 #
      0x6c # 0x34 # 0x1b # 0x94 # 0xbe # 0x60 # 0xee # 0xfc # 0xa6 # 0xc3 # 0xca # 0x6c # 0xc5 # 0x5a # 0x56 # 0x69 #
      0x80 # 0 # 0 # 0 # 0 # 0 # 0 # 0 # 0 # 0 # 0 # 0 # 0 # 0 # 0 # 0 #
      0 # 0 # 0 # 0 # 0 # 0 # 0 # 0 # 0 # 0 # 0 # 0 # 0 # 0 # 0x03 # 0 # rest) =
   sha_blocks (Sha 0x2ed2cc2a 0x4388df4f 0x3ee90132 0xf640b56e 0xddf3ba35 0x423a9e6d 0x9abae119 0x8bf8f43f) rest"
  by (simp only: sha_eval)

lemma my_ack_key_digest:
  "sha_blocks (Sha 0xf50c211e 0xb4912e4e 0xa654c4f4 0xeaa22a44 0x31f45f66 0x22754a77 0x9b30b532 0xb18de0ad) (digest_at 215 my_s1 @ sha_tail 96) =
     Sha 0x80b78faf 0x333acf8e 0xeef4eae0 0xf3dd46c5 0x6c341b94 0xbe60eefc 0xa6c3ca6c 0xc55a5669"
  by (simp add: digest_at_def my_s1_def sha_tail_96 my_ack_key_pass sha_blocks_Nil)

lemma my_ack_key:
  "calculateHMACsha256 (digest_at 215 my_s1) GENUINE_FP_KEY =
     [0x2e, 0xd2, 0xcc, 0x2a, 0x43, 0x88, 0xdf, 0x4f, 0x3e, 0xe9, 1, 0x32, 0xf6, 0x40, 0xb5, 0x6e,
      0xdd, 0xf3, 0xba, 0x35, 0x42, 0x3a, 0x9e, 0x6d, 0x9a, 0xba, 0xe1, 0x19, 0x8b, 0xf8, 0xf4, 0x3f]"
proof -
  have bytes: "sha_bytes (Sha 0x80b78faf 0x333acf8e 0xeef4eae0 0xf3dd46c5 0x6c341b94 0xbe60eefc 0xa6c3ca6c 0xc55a5669) =
      [0x80, 0xb7, 0x8f, 0xaf, 0x33, 0x3a, 0xcf, 0x8e, 0xee, 0xf4, 0xea, 0xe0, 0xf3, 0xdd, 0x46,
       0xc5, 0x6c, 0x34, 0x1b, 0x94, 0xbe, 0x60, 0xee, 0xfc, 0xa6, 0xc3, 0xca, 0x6c, 0xc5, 0x5a,
       0x56, 0x69]"
    by (simp add: be32_put_def)
  have len: "64 + length (digest_at 215 my_s1) = 96" by (simp add: digest_at_def my_s1_def)
  have "calculateHMACsha256 (digest_at 215 my_s1) GENUINE_FP_KEY = sha_bytes (Sha 0x2ed2cc2a 0x4388df4f 0x3ee90132 0xf640b56e 0xddf3ba35 0x423a9e6d 0x9abae119 0x8bf8f43f)"
    unfolding player_full_mac len my_ack_key_digest bytes
    by (simp only: sha_tail_96 append_Cons append_Nil my_ack_key_end sha_blocks_Nil)
  then show ?thesis by (simp add: be32_put_def)
qed

lemma my_ack_inner:
  "sha_blocks (Sha 0x6a09e667 0xbb67ae85 0x3c6ef372 0xa54ff53a 0x510e527f 0x9b05688c 0x1f83d9ab 0x5be0cd19)
     (0x18 # 0xe4 # 0xfa # 0x1c # 0x75 # 0xbe # 0xe9 # 0x79 # 0x08 # 0xdf # 0x37 # 0x04 # 0xc0 # 0x76 # 0x83 # 0x58 #
      0xeb # 0xc5 # 0x8c # 0x03 # 0x74 # 0x0c # 0xa8 # 0x5b # 0xac # 0x8c # 0xd7 # 0x2f # 0xbd # 0xce # 0xc2 # 0x09 #
      0x36 # 0x36 # 0x36 # 0x36 # 0x36 # 0x36 # 0x36 # 0x36 # 0x36 # 0x36 # 0x36 # 0x36 # 0x36 # 0x36 # 0x36 # 0x36 #
      0x36 # 0x36 # 0x36 # 0x36 # 0x36 # 0x36 # 0x36 # 0x36 # 0x36 # 0x36 # 0x36 # 0x36 # 0x36 # 0x36 # 0x36 # 0x36 # rest) =
   sha_blocks (Sha 0xff1fbc50 0x69408df5 0x83cf8766 0x9569095a 0x840171ea 0x59e5194a 0x1e05a8e4 0x21351587) rest"
  by (simp only: sha_eval)

lemma my_ack_outer:
  "sha_blocks (Sha 0x6a09e667 0xbb67ae85 0x3c6ef372 0xa54ff53a 0x510e527f 0x9b05688c 0x1f83d9ab 0x5be0cd19)
     (0x72 # 0x8e # 0x90 # 0x76 # 0x1f # 0xd4 # 0x83 # 0x13 # 0x62 # 0xb5 # 0x5d # 0x6e # 0xaa # 0x1c # 0xe9 # 0x32 #
      0x81 # 0xaf # 0xe6 # 0x69 # 0x1e # 0x66 # 0xc2 # 0x31 # 0xc6 # 0xe6 # 0xbd # 0x45 # 0xd7 # 0xa4 # 0xa8 # 0x63 #
      0x5c # 0x5c # 0x5c # 0x5c # 0x5c # 0x5c # 0x5c # 0x5c # 0x5c # 0x5c # 0x5c # 0x5c # 0x5c # 0x5c # 0x5c # 0x5c #
      0x5c # 0x5c # 0x5c # 0x5c # 0x5c # 0x5c # 0x5c # 0x5c # 0x5c # 0x5c # 0x5c # 0x5c # 0x5c # 0x5c # 0x5c # 0x5c # rest) =
   sha_blocks (Sha 0x3a633092 0xb93a22cf 0x7c318863 0x6b20dabb 0x787e7763 0xc6e8edae 0xf4a41c1f 0xf691e45d) rest"
  by (simp only: sha_eval)

lemma my_ack_block:
  "hmac_key [0x2e, 0xd2, 0xcc, 0x2a, 0x43, 0x88, 0xdf, 0x4f, 0x3e, 0xe9, 1, 0x32, 0xf6, 0x40, 0xb5, 0x6e,
      0xdd, 0xf3, 0xba, 0x35, 0x42, 0x3a, 0x9e, 0x6d, 0x9a, 0xba, 0xe1, 0x19, 0x8b, 0xf8, 0xf4, 0x3f] =
     [0x2e, 0xd2, 0xcc, 0x2a, 0x43, 0x88, 0xdf, 0x4f, 0x3e, 0xe9, 1, 0x32, 0xf6, 0x40, 0xb5, 0x6e,
      0xdd, 0xf3, 0xba, 0x35, 0x42, 0x3a, 0x9e, 0x6d, 0x9a, 0xba, 0xe1, 0x19, 0x8b, 0xf8, 0xf4,
      0x3f, 0, 0, 0, 0, 0, 0, 0, 0, 0, 0, 0, 0, 0, 0, 0, 0, 0, 0, 0, 0, 0, 0, 0, 0, 0, 0, 0, 0, 0,
      0, 0, 0]"
  by (simp add: hmac_key_def) (simp add: numeral_eq_Suc)

lemma my_ack_mac:
  "calculateHMACsha256 msg [0x2e, 0xd2, 0xcc, 0x2a, 0x43, 0x88, 0xdf, 0x4f, 0x3e, 0xe9, 1, 0x32, 0xf6, 0x40, 0xb5, 0x6e,
      0xdd, 0xf3, 0xba, 0x35, 0x42, 0x3a, 0x9e, 0x6d, 0x9a, 0xba, 0xe1, 0x19, 0x8b, 0xf8, 0xf4, 0x3f] = sha_bytes (sha_blocks (Sha 0x3a633092 0xb93a22cf 0x7c318863 0x6b20dabb 0x787e7763 0xc6e8edae 0xf4a41c1f 0xf691e45d) (sha_bytes
     (sha_blocks (Sha 0xff1fbc50 0x69408df5 0x83cf8766 0x9569095a 0x840171ea 0x59e5194a 0x1e05a8e4 0x21351587) (msg @ sha_tail (64 + length msg))) @ sha_tail 96))"
  unfolding calculateHMACsha256_def
  by (rule hmac_eval [OF my_ack_block]) (simp_all add: my_ack_inner my_ack_outer sha_blocks_Nil)

lemma my_ack_code_pass_0:
  "sha_blocks (Sha 0xff1fbc50 0x69408df5 0x83cf8766 0x9569095a 0x840171ea 0x59e5194a 0x1e05a8e4 0x21351587)
     (0xe2 # 0x5c # 0x15 # 0xc2 # 0x2c # 0xaf # 0x72 # 0xd0 # 0x98 # 0x6f # 0xbd # 0x3e # 0xda # 0x0d # 0x71 # 0x51 #
      0x97 # 0x3e # 0x19 # 0x08 # 0x3e # 0x0a # 0xbb # 0xef # 0xa7 # 0x6e # 0x17 # 0xd8 # 0xa5 # 0xfa # 0x95 # 0x70 #
      0xed # 0x54 # 0x7a # 0x97 # 0x86 # 0xe5 # 0x35 # 0x61 # 0x2d # 0x45 # 0x22 # 0x8c # 0x77 # 0x3e # 0x0e # 0xbe #
      0xf8 # 0x05 # 0xac # 0x87 # 0x64 # 0xa6 # 0x75 # 0x52 # 0x49 # 0x6a # 0x3c # 0xc3 # 0x35 # 0x58 # 0x05 # 0xf9 #
      0x9d # 0x03 # 0x60 # 0x67 # 0x84 # 0xb0 # 0x5f # 0x55 # 0x36 # 0x1f # 0xb4 # 0xc6 # 0x6e # 0x61 # 0x64 # 0xf9 #
      0xb8 # 0x82 # 0x15 # 0x69 # 0x30 # 0xed # 0x76 # 0xe7 # 0xf2 # 0x7d # 0xf8 # 0xed # 0x6a # 0xe6 # 0xc0 # 0x83 #
      0x7b # 0x41 # 0x41 # 0x3e # 0xad # 0x70 # 0x23 # 0xf2 # 0xbd # 0x2e # 0x9d # 0xce # 0xd6 # 0x63 # 0xc8 # 0x30 #
      0x5c # 0xba # 0xbc # 0x22 # 0xc3 # 0xeb # 0xba # 0x20 # 0x7e # 0xa2 # 0xa8 # 0xc3 # 0x5e # 0xcf # 0x78 # 0x28 # rest) =
   sha_blocks (Sha 0xbd27c566 0x772f4b7a 0xd2f35ad0 0xb47f4c29 0x796564d8 0x3e06afb2 0x368fbfe4 0x15a78c12) rest"
  by (simp only: sha_eval)

lemma my_ack_code_pass_1:
  "sha_blocks (Sha 0xbd27c566 0x772f4b7a 0xd2f35ad0 0xb47f4c29 0x796564d8 0x3e06afb2 0x368fbfe4 0x15a78c12)
     (0xdc # 0xe2 # 0x63 # 0x3d # 0x38 # 0xc8 # 0xc2 # 0xe9 # 0xde # 0xcf # 0x25 # 0x53 # 0xb1 # 0x61 # 0xa2 # 0x12 #
      0xfc # 0x9a # 0x96 # 0x2e # 0x44 # 0x90 # 0xfb # 0xa3 # 0x1d # 0x24 # 0xa2 # 0xeb # 0xa8 # 0xeb # 0xb4 # 0xa6 #
      0x0d # 0x6c # 0xf4 # 0x29 # 0x14 # 0x2a # 0xd2 # 0x6f # 0xb6 # 0x56 # 0xb9 # 0xf1 # 0x2f # 0x4b # 0x1c # 0x22 #
      0xc0 # 0xcd # 0x65 # 0x49 # 0x78 # 0x64 # 0xdd # 0x83 # 0xf0 # 0xd0 # 0x31 # 0x62 # 0xdd # 0xed # 0xbc # 0x4e #
      0x85 # 0x7c # 0x0c # 0xa3 # 0x91 # 0xed # 0x2f # 0x1e # 0x5a # 0x64 # 0x94 # 0x8d # 0x09 # 0x60 # 0x81 # 0xa1 #
      0x14 # 0x72 # 0x1c # 0x0b # 0xc8 # 0xa1 # 0x63 # 0x5b # 0xf2 # 0x70 # 0x36 # 0xb8 # 0xbc # 0xc0 # 0x9e # 0xd5 #
      0xb1 # 0x1d # 0x85 # 0xbd # 0x54 # 0x7c # 0xa3 # 0x61 # 0xe2 # 0xd8 # 0x65 # 0x84 # 0x2d # 0x7f # 0xe6 # 0x4b #
      0xc3 # 0xa2 # 0x98 # 0x95 # 0xa9 # 0x7c # 0xec # 0x5b # 0x2d # 0x29 # 0x29 # 0x4f # 0x41 # 0xab # 0xc2 # 0xbc # rest) =
   sha_blocks (Sha 0xa723ea4b 0x171d34f8 0x7555fbe9 0x571a0f55 0x79a38d6f 0x354bf00c 0x42405c0d 0xd5bd4fe9) rest"
  by (simp only: sha_eval)

lemma my_ack_code_pass_2:
  "sha_blocks (Sha 0xa723ea4b 0x171d34f8 0x7555fbe9 0x571a0f55 0x79a38d6f 0x354bf00c 0x42405c0d 0xd5bd4fe9)
     (0x46 # 0x6c # 0xf3 # 0x8d # 0x8d # 0 # 0x88 # 0x60 # 0x36 # 0xbf # 0xa4 # 0x5e # 0x4b # 0xdf # 0x48 # 0x4e #
      0x9e # 0x5f # 0xe1 # 0x0b # 0x02 # 0x4a # 0x98 # 0x6e # 0x63 # 0xf2 # 0xb0 # 0xe1 # 0x09 # 0xa3 # 0xea # 0x42 #
      0x0e # 0x25 # 0x28 # 0x8b # 0xca # 0xc6 # 0x93 # 0x11 # 0x41 # 0xf8 # 0x76 # 0xb5 # 0x7e # 0x37 # 0xf3 # 0x9c #
      0x8c # 0x1b # 0xff # 0x23 # 0xb5 # 0x66 # 0xa7 # 0x88 # 0x7b # 0x18 # 0xb6 # 0x18 # 0xca # 0x4e # 0xf3 # 0x47 #
      0 # 0x9d # 0xd5 # 0 # 0x5e # 0x7f # 0x41 # 0x3b # 0xec # 0xfd # 0x0b # 0x26 # 0xff # 0xfe # 0x15 # 0xec #
      0x6e # 0xc9 # 0x98 # 0x22 # 0x6e # 0x39 # 0x36 # 0x56 # 0x26 # 0xc5 # 0x60 # 0xcb # 0x24 # 0x13 # 0x52 # 0x7c #
      0xe5 # 0x74 # 0xc0 # 0xa4 # 0x36 # 0xf1 # 0xb1 # 0x78 # 0x8a # 0xc8 # 0xbc # 0xd8 # 0xd4 # 0xe0 # 0xbe # 0xd1 #
      0x3e # 0x7c # 0x79 # 0x96 # 0x73 # 0x06 # 0x9a # 0x7d # 0x82 # 0x49 # 0xc0 # 0x03 # 0xb6 # 0x33 # 0xec # 0x65 # rest) =
   sha_blocks (Sha 0xae1526c4 0x239d2174 0x27bed902 0x09652282 0xca6ab024 0xa199c0ad 0x432cc72a 0x2d4697d0) rest"
  by (simp only: sha_eval)

lemma my_ack_code_pass_3:
  "sha_blocks (Sha 0xae1526c4 0x239d2174 0x27bed902 0x09652282 0xca6ab024 0xa199c0ad 0x432cc72a 0x2d4697d0)
     (0x87 # 0xd3 # 0xe2 # 0xd7 # 0xd3 # 0xf5 # 0xaa # 0x40 # 0x07 # 0x14 # 0x9c # 0x04 # 0xac # 0x3d # 0xf0 # 0xa3 #
      0x48 # 0xaa # 0x8b # 0x27 # 0xc9 # 0x86 # 0x68 # 0x4a # 0xfb # 0x93 # 0x87 # 0x0e # 0xc5 # 0xa6 # 0x23 # 0xca #
      0xd0 # 0xd0 # 0x74 # 0xd9 # 0x8c # 0xfb # 0xc2 # 0xe1 # 0xc4 # 0x24 # 0x22 # 0x9b # 0xd0 # 0x20 # 0xe5 # 0xcc #
      0x45 # 0x54 # 0x8a # 0xc4 # 0xf8 # 0x93 # 0x89 # 0x52 # 0xa4 # 0xb2 # 0x4c # 0xac # 0x82 # 0xa6 # 0x02 # 0xe9 #
      0xd8 # 0xc0 # 0x26 # 0x48 # 0x0d # 0x10 # 0x89 # 0x15 # 0xef # 0xe0 # 0xb2 # 0x8d # 0x7e # 0xfc # 0xd3 # 0x4e #
      0x38 # 0x39 # 0x5b # 0x71 # 0x28 # 0xca # 0xcd # 0xba # 0xa8 # 0x35 # 0 # 0xd4 # 0x08 # 0xd2 # 0x6a # 0xd9 #
      0x13 # 0x02 # 0x4d # 0x5d # 0x9e # 0xe2 # 0xa0 # 0x93 # 0x8d # 0xc3 # 0x1f # 0x6a # 0xbc # 0x53 # 0x1f # 0x5f #
      0x5b # 0x82 # 0xac # 0x56 # 0xaf # 0xd4 # 0x54 # 0xb1 # 0xd4 # 0x29 # 0x95 # 0x6a # 0xae # 0x6b # 0xb5 # 0x83 # rest) =
   sha_blocks (Sha 0x78fc762b 0x3a72b905 0x49cdcb8a 0x1d6c581d 0xdea25e7b 0x4af35957 0x5b047047 0xaaf4443c) rest"
  by (simp only: sha_eval)

lemma my_ack_code_pass_4:
  "sha_blocks (Sha 0x78fc762b 0x3a72b905 0x49cdcb8a 0x1d6c581d 0xdea25e7b 0x4af35957 0x5b047047 0xaaf4443c)
     (0x6d # 0x76 # 0xad # 0xe8 # 0xb8 # 0x27 # 0x6e # 0x97 # 0x95 # 0xdd # 0x1e # 0x7f # 0x79 # 0xa2 # 0x0f # 0x5a #
      0x09 # 0x29 # 0x6a # 0x73 # 0x81 # 0xd5 # 0x8f # 0x96 # 0x70 # 0xc3 # 0x0b # 0x86 # 0x9a # 0xc8 # 0x02 # 0x24 #
      0x59 # 0xfc # 0x88 # 0x3c # 0xcd # 0xc1 # 0x6e # 0xb6 # 0x8c # 0xd6 # 0xc1 # 0x23 # 0x56 # 0x2a # 0x41 # 0x6b #
      0x99 # 0x59 # 0x76 # 0x35 # 0x05 # 0x7d # 0x85 # 0x92 # 0xcf # 0xaa # 0x71 # 0xf4 # 0xf4 # 0x30 # 0x05 # 0x4b #
      0x69 # 0xf5 # 0x41 # 0x9c # 0xf8 # 0x39 # 0x9c # 0x75 # 0xc3 # 0xc3 # 0xe9 # 0xb6 # 0xdb # 0x0d # 0x1c # 0x02 #
      0x92 # 0xb5 # 0xf8 # 0x8e # 0xbd # 0x32 # 0x2a # 0xa4 # 0x66 # 0x7e # 0x7d # 0x6a # 0xba # 0xa7 # 0x52 # 1 #
      0x9a # 0x85 # 0x0c # 0x0d # 0x05 # 0x4e # 0x87 # 0x9c # 0xec # 0x2b # 0x2d # 0x94 # 0x3a # 0xb7 # 0xbc # 0x74 #
      0x10 # 0xef # 0x71 # 0x5f # 0xea # 0xad # 0x9e # 0x6a # 0x8f # 0xc6 # 0xa9 # 0x05 # 0x3f # 0xea # 0xfc # 0x60 # rest) =
   sha_blocks (Sha 0x78535c31 0xe2c98ea7 0x4a65289d 0x80d9361d 0xb8cb53da 0x5564b7a6 0xd46a245b 0xc453631d) rest"
  by (simp only: sha_eval)

lemma my_ack_code_pass_5:
  "sha_blocks (Sha 0x78535c31 0xe2c98ea7 0x4a65289d 0x80d9361d 0xb8cb53da 0x5564b7a6 0xd46a245b 0xc453631d)
     (0xaf # 0x15 # 0xe4 # 0x6f # 0x47 # 0xd3 # 0xbf # 0x06 # 0xc6 # 0xe7 # 0 # 0x1c # 0x1c # 0xd7 # 0x43 # 0xd0 #
      0x0d # 0x43 # 0x13 # 0xbf # 0xe7 # 0x3c # 0xfd # 0xfa # 0x34 # 0x22 # 0xf1 # 0x75 # 0x96 # 0x5a # 0x5c # 0xf2 #
      0xf2 # 0x15 # 0x94 # 0x57 # 0xd3 # 0x94 # 0xb7 # 0xe1 # 0xfc # 0xb5 # 0x73 # 0xa9 # 0x94 # 0xdb # 0x67 # 0x89 #
      0xfb # 0xcc # 0xf7 # 0xb4 # 0x80 # 0x56 # 0xbc # 0xa2 # 0x07 # 0xf9 # 0x03 # 0x9f # 0xa7 # 0x53 # 0xbe # 0xa7 #
      0xe4 # 0xb5 # 0x8f # 0xc6 # 0x6b # 0x1e # 0x38 # 0x96 # 0x3f # 0xe0 # 0xb6 # 0x9c # 0xbd # 0x54 # 0xb6 # 0xd7 #
      0x2a # 0xeb # 0x79 # 0x35 # 0x02 # 0xaf # 0xb1 # 0x9a # 0xf9 # 0x49 # 0xe6 # 0x9a # 0 # 0xd6 # 0x1a # 0x93 #
      0xf4 # 0x53 # 0x60 # 0x30 # 0x98 # 0xbc # 0x40 # 0xd3 # 0xf6 # 0xe2 # 0x2d # 0xb5 # 0x58 # 0x6c # 0x54 # 0xa2 #
      0xf3 # 0x4d # 0x85 # 0x41 # 0x53 # 0x94 # 0xc2 # 0x77 # 0xaa # 0xe2 # 0x26 # 0x9c # 0xb7 # 0xf4 # 0xd6 # 0x12 # rest) =
   sha_blocks (Sha 0xd5bc4d2e 0xff0ebbb7 0x93fd44c8 0x5368df68 0x224d5691 0x09f2994b 0x19b9824f 0x227c4d61) rest"
  by (simp only: sha_eval)

lemma my_ack_code_pass_6:
  "sha_blocks (Sha 0xd5bc4d2e 0xff0ebbb7 0x93fd44c8 0x5368df68 0x224d5691 0x09f2994b 0x19b9824f 0x227c4d61)
     (0xd6 # 0x99 # 0xca # 0x72 # 0xad # 0x22 # 0x2b # 0xcc # 0xde # 0xc6 # 0xba # 0x43 # 0x03 # 0x45 # 0x5c # 0x70 #
      0xf4 # 0xc9 # 0xc1 # 0x9c # 0x8d # 0x0e # 0x6a # 0x07 # 0x29 # 0xfa # 0xfa # 0x0b # 0x69 # 0x62 # 0xfe # 0xc2 #
      0xc1 # 0xf4 # 0x70 # 0x9c # 0x70 # 0x99 # 0xfe # 0x64 # 0x42 # 0x4e # 0x03 # 0xf0 # 0x21 # 0xd0 # 0xe2 # 0xb2 #
      0x0c # 0x21 # 0x96 # 0xc2 # 0x5d # 0x39 # 0x11 # 0x99 # 0x5b # 0xbe # 0xe3 # 0x49 # 0x93 # 0xc5 # 0xcb # 0x42 #
      0x09 # 0x09 # 0x46 # 0xf4 # 0x67 # 0x2d # 0x53 # 0xa6 # 0xd5 # 0xe2 # 0x33 # 0x4f # 0x6c # 0xa4 # 0x19 # 0xc2 #
      0x55 # 0xb9 # 0xee # 0xb3 # 0xf5 # 0xc4 # 0x8d # 0x04 # 0xfd # 0x79 # 0xe3 # 0x64 # 0 # 0x2b # 0xb7 # 0xe9 #
      0x23 # 0xe5 # 0x23 # 0x71 # 0x3d # 0x86 # 0xcb # 0xce # 0x77 # 0x50 # 0xb1 # 0x11 # 0x2f # 0xd5 # 0x26 # 0x60 #
      0xbc # 0x5d # 0x2d # 0xf7 # 0xc6 # 0xf6 # 0xfa # 0xf2 # 0x2d # 0x2c # 0x17 # 0xd8 # 0x6b # 0xda # 0x72 # 0xa4 # rest) =
   sha_blocks (Sha 0xb8371afb 0x07df13b9 0xf6cbbbd1 0xc32a6d18 0xef5264e0 0x8be8a56d 0xec9a2247 0x2d97d96a) rest"
  by (simp only: sha_eval)

lemma my_ack_code_pass_7:
  "sha_blocks (Sha 0xb8371afb 0x07df13b9 0xf6cbbbd1 0xc32a6d18 0xef5264e0 0x8be8a56d 0xec9a2247 0x2d97d96a)
     (0x5a # 0x83 # 1 # 0x7d # 0xd4 # 0xee # 0xe9 # 0xb6 # 0x75 # 0x4c # 0xe0 # 0xed # 0x8a # 0x84 # 0xfe # 0xef #
      0xa7 # 0x10 # 0x7c # 0xd9 # 0x96 # 0x91 # 0x5b # 0xc7 # 0x3f # 0xa7 # 0x72 # 0xbb # 0x5b # 0xba # 0xb8 # 0x2d #
      0xc6 # 0xfd # 0xf1 # 0x1d # 0x60 # 0xab # 0x5f # 0xac # 0x04 # 0x3d # 0x73 # 0x9f # 0x8d # 0x8b # 0x4d # 0xf5 #
      0x6c # 0xbf # 0x4a # 0x26 # 0x35 # 0x2c # 0x5c # 0x87 # 0x4a # 0xff # 0x6f # 0xf1 # 0x4f # 0x95 # 0x15 # 0x22 #
      0x50 # 0x1d # 0x60 # 0x2a # 0x12 # 0x8a # 0x3d # 0x9c # 0x7c # 0x3b # 0x23 # 0xbd # 0xc7 # 0x87 # 0x24 # 0xc7 #
      0xf1 # 0x71 # 0x2a # 0x4c # 0x09 # 0x4d # 0x42 # 0xe8 # 0x4e # 0x0f # 0x7d # 0x8a # 0xbe # 0xe9 # 0xe9 # 0xa1 #
      0xb9 # 0xae # 0xc3 # 0x4b # 0x52 # 0xd4 # 0x19 # 0x33 # 0xb1 # 0xbc # 0x51 # 0x82 # 0x35 # 0xa9 # 0xca # 0x32 #
      0x4d # 0x7e # 0x6f # 0xd9 # 0x53 # 0xff # 0x0b # 0xf2 # 0xd7 # 0x0f # 0xed # 0x5d # 0xdd # 0x11 # 0xb6 # 0xb0 # rest) =
   sha_blocks (Sha 0x8ae198b6 0x1e78efd9 0x88ac4014 0xf70af427 0xcb7b3589 0x0d074a23 0xfde30488 0xf5071247) rest"
  by (simp only: sha_eval)

lemma my_ack_code_pass_8:
  "sha_blocks (Sha 0x8ae198b6 0x1e78efd9 0x88ac4014 0xf70af427 0xcb7b3589 0x0d074a23 0xfde30488 0xf5071247)
     (0xec # 0xe0 # 0x0f # 0x49 # 0xbc # 0xcd # 0x91 # 0x24 # 0xbf # 0xa9 # 0xbb # 0xe3 # 0xa0 # 0x42 # 0xf4 # 0x40 #
      0xe6 # 0x8d # 0x78 # 0x1c # 0xc7 # 0xfb # 0x57 # 0x6a # 0x9b # 0xa3 # 0x5a # 0x9b # 0x91 # 0xe7 # 0xc5 # 0xd5 #
      0x7b # 0xfa # 0x3d # 0x19 # 0x49 # 0x0c # 0x26 # 0x8e # 0x65 # 0xfc # 0x52 # 0x6f # 0xc6 # 0x06 # 0x49 # 0x41 #
      0xab # 0x91 # 0xb8 # 0x79 # 0xa3 # 0x9d # 0x76 # 0xc2 # 0x5b # 0x0a # 0x86 # 0xd6 # 0x17 # 0x9e # 0x4b # 0x4d #
      0x0e # 0xb8 # 0x35 # 0x0f # 0x08 # 0xfb # 0x8a # 0x28 # 0x38 # 0x09 # 0xd4 # 0x41 # 0x9e # 0xf5 # 0xe0 # 0x5e #
      0xff # 0x64 # 0x22 # 0x67 # 0xfe # 0x64 # 0x20 # 0xc8 # 0x09 # 0xf5 # 0x4e # 0x59 # 0x15 # 0x22 # 0x19 # 0x8d #
      0x34 # 0x5b # 0x43 # 0x08 # 0xa4 # 0x3f # 0x22 # 0x09 # 0x90 # 0x1d # 0x9c # 0x0a # 0x9c # 0xda # 0xe3 # 0x24 #
      0x13 # 0x7c # 0x24 # 0x71 # 0xb3 # 0x6d # 0x66 # 0x9c # 0xec # 0x91 # 0x53 # 0x10 # 0xa0 # 0xc9 # 0x4a # 0x41 # rest) =
   sha_blocks (Sha 0x3f4fea1f 0x5a94cbdd 0xd121e52d 0x55dda6a0 0xc54cc950 0xda2b57b0 0x3857e32f 0x2b1f51ac) rest"
  by (simp only: sha_eval)

lemma my_ack_code_pass_9:
  "sha_blocks (Sha 0x3f4fea1f 0x5a94cbdd 0xd121e52d 0x55dda6a0 0xc54cc950 0xda2b57b0 0x3857e32f 0x2b1f51ac)
     (0x99 # 0xf2 # 0xdd # 0xa8 # 0x91 # 0xba # 0x41 # 0x23 # 0x78 # 0x9f # 0x8c # 0x70 # 0x17 # 0x8e # 0x2f # 0xa6 #
      0xe2 # 0xdf # 0xad # 0x26 # 0xc2 # 0xe3 # 0xd8 # 0x75 # 0xf5 # 0x36 # 0xe5 # 0x4d # 0xd1 # 0xdc # 0x4a # 0xb3 #
      0x95 # 0x3c # 0x96 # 0x0c # 0xf2 # 0x71 # 0x54 # 0xb9 # 0x5f # 0x04 # 0x1e # 0xd9 # 0x2f # 0x4a # 0x75 # 0x61 #
      0x86 # 0x89 # 0xf6 # 0xed # 0x9b # 0x27 # 0x8b # 0x4d # 0x87 # 0x1a # 0x3f # 0x9e # 0xac # 0xb3 # 0x77 # 0x32 #
      0xff # 0x91 # 0x8e # 0xf1 # 0xbe # 0x7a # 0x1b # 0x44 # 0x66 # 0x36 # 0x1c # 0xaf # 0x7e # 0 # 1 # 0x42 #
      0xbd # 0 # 0x8d # 0x6f # 0x89 # 0xfd # 0x2a # 0xc8 # 0x3b # 0x28 # 0x9b # 0xe3 # 0x2f # 0xce # 0xd5 # 0xa3 #
      0x6b # 0x55 # 0xf6 # 0xdf # 0xc8 # 0x75 # 0x63 # 0xc8 # 0x47 # 0xf6 # 0x7a # 0x0b # 0xb0 # 0x89 # 0x78 # 0x4f #
      0x56 # 0x67 # 0x3a # 0x90 # 0xe3 # 0x45 # 0x08 # 0xa3 # 0xfc # 0xe3 # 0xe8 # 0x9d # 0x42 # 0x91 # 0xa7 # 0x2f # rest) =
   sha_blocks (Sha 0x4666aab0 0xaa4df589 0x2265a9fb 0x786c19ca 0x185d294e 0xcc5d9be5 0x44eb287f 0x65bf8b71) rest"
  by (simp only: sha_eval)

lemma my_ack_code_pass_10:
  "sha_blocks (Sha 0x4666aab0 0xaa4df589 0x2265a9fb 0x786c19ca 0x185d294e 0xcc5d9be5 0x44eb287f 0x65bf8b71)
     (0x7e # 0x13 # 0x2a # 0x89 # 0xb1 # 0x8a # 0xba # 0x0d # 0x56 # 0xf4 # 0xa9 # 0x19 # 0xe0 # 0x70 # 0xd0 # 0xde #
      0x24 # 0x7e # 0xcc # 0xcd # 0x11 # 0x67 # 0x4b # 0x9a # 0xd3 # 0x0a # 0x09 # 0x52 # 0x27 # 0xed # 0x83 # 0x55 #
      0x4c # 0x6f # 0xb5 # 0xca # 0x6a # 0xe8 # 0x20 # 0x34 # 0x8c # 0xb9 # 0x5c # 0xb0 # 0x56 # 0x6f # 0xee # 0x97 #
      0xb7 # 0xf3 # 0xa7 # 0x95 # 0xb8 # 0x94 # 0xb2 # 0xd3 # 0x60 # 0x99 # 0x3e # 0x7b # 0xf4 # 0xa3 # 0x2e # 0x8a #
      0x80 # 0x63 # 0x76 # 0x91 # 0xc7 # 0x3f # 0xcc # 0xbb # 0x36 # 0xbf # 0x74 # 0xa6 # 0x20 # 0xdf # 0x4d # 0xa6 #
      0x6b # 0xa3 # 0x90 # 0xa2 # 0xe1 # 0x26 # 0x83 # 0xd7 # 0xef # 0x18 # 0x40 # 0xfb # 0xaf # 0x5f # 1 # 0x47 #
      0xef # 0x1c # 0x25 # 0xfc # 0x8f # 0xcd # 0xe4 # 0x5e # 0x5e # 0x4a # 0x25 # 0x5b # 0x76 # 0xd9 # 0x56 # 0x38 #
      0x89 # 0x56 # 0xbb # 0xf0 # 0x52 # 0x8e # 0x8c # 0xc8 # 0x52 # 0x92 # 0xb6 # 0xc4 # 0xcf # 0x9a # 0xa0 # 0x94 # rest) =
   sha_blocks (Sha 0xe423fba3 0x0b32feec 0x86f35fc0 0x5d933837 0xd758d43e 0x9f377a8b 0xd2f0ae15 0xf9a78eeb) rest"
  by (simp only: sha_eval)

lemma my_ack_code_pass_11:
  "sha_blocks (Sha 0xe423fba3 0x0b32feec 0x86f35fc0 0x5d933837 0xd758d43e 0x9f377a8b 0xd2f0ae15 0xf9a78eeb)
     (0x1e # 0xbe # 0xcc # 0x7b # 0x56 # 0x27 # 0xfd # 0xa3 # 0x2c # 0xe7 # 0x5e # 0xd2 # 0x79 # 0x11 # 0x64 # 0xb8 #
      0x6a # 0xd3 # 0xb2 # 0x74 # 0x2f # 0x9c # 0xe7 # 0x83 # 0x3a # 0xe3 # 0xc9 # 0x0a # 0x24 # 0x0b # 0x5b # 1 #
      0x76 # 0x0d # 0xb9 # 0x48 # 0x53 # 0x68 # 0x9c # 0x41 # 0xc0 # 0x8f # 0xa2 # 0xc6 # 0xbd # 0x29 # 0xb0 # 0xd5 #
      0xcd # 0x9a # 0x8d # 0xd9 # 0xbf # 0xac # 0xf0 # 0x1f # 0x35 # 0xd9 # 0x34 # 0x9f # 0x7a # 0x66 # 0x3f # 0x6e #
      0xa8 # 0xed # 0x75 # 0x40 # 0xce # 0x8d # 0x68 # 0x3f # 0xa1 # 0x4c # 1 # 0x09 # 0x5c # 0x94 # 0x73 # 0x5a #
      0x19 # 0xa2 # 0x3f # 0xc3 # 0x86 # 0xc2 # 0x41 # 0xe5 # 0xb5 # 0xa6 # 0xbd # 0x93 # 0x36 # 0x2a # 0xaa # 0 #
      0x80 # 0 # 0 # 0 # 0 # 0 # 0 # 0 # 0 # 0 # 0 # 0 # 0 # 0 # 0 # 0 #
      0 # 0 # 0 # 0 # 0 # 0 # 0 # 0 # 0 # 0 # 0 # 0 # 0 # 0 # 0x31 # 0 # rest) =
   sha_blocks (Sha 0xb3e8bcd7 0x04aa432f 0xf935517d 0xaeaa6ccf 0x45f678f0 0xf59395e1 0x33a5f370 0xa96e3370) rest"
  by (simp only: sha_eval)

lemma my_ack_code_end:
  "sha_blocks (Sha 0x3a633092 0xb93a22cf 0x7c318863 0x6b20dabb 0x787e7763 0xc6e8edae 0xf4a41c1f 0xf691e45d)
     (0xb3 # 0xe8 # 0xbc # 0xd7 # 0x04 # 0xaa # 0x43 # 0x2f # 0xf9 # 0x35 # 0x51 # 0x7d # 0xae # 0xaa # 0x6c # 0xcf #
      0x45 # 0xf6 # 0x78 # 0xf0 # 0xf5 # 0x93 # 0x95 # 0xe1 # 0x33 # 0xa5 # 0xf3 # 0x70 # 0xa9 # 0x6e # 0x33 # 0x70 #
      0x80 # 0 # 0 # 0 # 0 # 0 # 0 # 0 # 0 # 0 # 0 # 0 # 0 # 0 # 0 # 0 #
      0 # 0 # 0 # 0 # 0 # 0 # 0 # 0 # 0 # 0 # 0 # 0 # 0 # 0 # 0x03 # 0 # rest) =
   sha_blocks (Sha 0x05528b32 0xed5f5812 0x79d59c30 0xb955a2a0 0x8b651cdd 0x7a3b9c54 0xe585c126 0x216a48ea) rest"
  by (simp only: sha_eval)

lemma my_ack_code_digest:
  "sha_blocks (Sha 0xff1fbc50 0x69408df5 0x83cf8766 0x9569095a 0x840171ea 0x59e5194a 0x1e05a8e4 0x21351587) (take 1504 my_c2 @ sha_tail 1568) =
     Sha 0xb3e8bcd7 0x04aa432f 0xf935517d 0xaeaa6ccf 0x45f678f0 0xf59395e1 0x33a5f370 0xa96e3370"
  by (simp add: my_c2_def sha_tail_1568 my_ack_code_pass_0 my_ack_code_pass_1 my_ack_code_pass_2 my_ack_code_pass_3 my_ack_code_pass_4 my_ack_code_pass_5 my_ack_code_pass_6 my_ack_code_pass_7 my_ack_code_pass_8 my_ack_code_pass_9 my_ack_code_pass_10 my_ack_code_pass_11 sha_blocks_Nil)

lemma my_ack_code:
  "calculateHMACsha256 (take 1504 my_c2) [0x2e, 0xd2, 0xcc, 0x2a, 0x43, 0x88, 0xdf, 0x4f, 0x3e, 0xe9, 1, 0x32, 0xf6, 0x40, 0xb5, 0x6e,
      0xdd, 0xf3, 0xba, 0x35, 0x42, 0x3a, 0x9e, 0x6d, 0x9a, 0xba, 0xe1, 0x19, 0x8b, 0xf8, 0xf4, 0x3f] =
     [0x05, 0x52, 0x8b, 0x32, 0xed, 0x5f, 0x58, 0x12, 0x79, 0xd5, 0x9c, 0x30, 0xb9, 0x55, 0xa2,
      0xa0, 0x8b, 0x65, 0x1c, 0xdd, 0x7a, 0x3b, 0x9c, 0x54, 0xe5, 0x85, 0xc1, 0x26, 0x21, 0x6a,
      0x48, 0xea]"
proof -
  have bytes: "sha_bytes (Sha 0xb3e8bcd7 0x04aa432f 0xf935517d 0xaeaa6ccf 0x45f678f0 0xf59395e1 0x33a5f370 0xa96e3370) =
      [0xb3, 0xe8, 0xbc, 0xd7, 0x04, 0xaa, 0x43, 0x2f, 0xf9, 0x35, 0x51, 0x7d, 0xae, 0xaa, 0x6c,
       0xcf, 0x45, 0xf6, 0x78, 0xf0, 0xf5, 0x93, 0x95, 0xe1, 0x33, 0xa5, 0xf3, 0x70, 0xa9, 0x6e,
       0x33, 0x70]"
    by (simp add: be32_put_def)
  have len: "64 + length (take 1504 my_c2) = 1568" by (simp add: my_c2_def)
  have "calculateHMACsha256 (take 1504 my_c2) [0x2e, 0xd2, 0xcc, 0x2a, 0x43, 0x88, 0xdf, 0x4f, 0x3e, 0xe9, 1, 0x32, 0xf6, 0x40, 0xb5, 0x6e,
      0xdd, 0xf3, 0xba, 0x35, 0x42, 0x3a, 0x9e, 0x6d, 0x9a, 0xba, 0xe1, 0x19, 0x8b, 0xf8, 0xf4, 0x3f] = sha_bytes (Sha 0x05528b32 0xed5f5812 0x79d59c30 0xb955a2a0 0x8b651cdd 0x7a3b9c54 0xe585c126 0x216a48ea)"
    unfolding my_ack_mac len my_ack_code_digest bytes
    by (simp only: sha_tail_96 append_Cons append_Nil my_ack_code_end sha_blocks_Nil)
  then show ?thesis by (simp add: be32_put_def)
qed

lemma my_acknowledges:
  "drop 1504 my_c2 = calculateHMACsha256 (take 1504 my_c2)
     (calculateHMACsha256 (digest_at (scheme_offset 0 my_s1) my_s1) GENUINE_FP_KEY)"
  unfolding my_s1_offset0 my_ack_key my_ack_code by (simp add: my_c2_def)

end
