(* ===== verification/Handshake_Tests.thy ===== *)
theory Handshake_Tests
  imports Recorded_Vlc Recorded_Flash Recorded_Replay
begin

text \<open>
  The recorded handshakes against \<^verbatim>\<open>src/handshake.go\<close>: what the cases of \<^verbatim>\<open>src/handshake_test.go\<close> expect of
  the blocks, of which the client blocks are what the server validates. The third client,
  \<^verbatim>\<open>src/my_test_bytes.go\<close>, replays the block of the first.
\<close>

lemma my_c1_replayed: "my_c1 = vlc_c1"
  by (simp only: my_c1_def vlc_c1_def)

lemma recorded_client_schemes:
  "client_scheme vlc_c1 = Some 0" "client_scheme my_c1 = Some 0" "client_scheme fp_c1 = Some 1"
  using vlc_c1_code0_signed fp_c1_code0_signed fp_c1_code1_signed by (simp_all add: client_scheme_def my_c1_replayed)

lemma recorded_clients_validate:
  "validate vlc_c1 = Ok (0, None)" "validate my_c1 = Ok (0, None)" "validate fp_c1 = Ok (1, None)"
  by (simp_all add: validate_cases vlc_c1_length fp_c1_length recorded_client_schemes my_c1_replayed)

text \<open>The recorded server blocks carry the digest \<open>response_well_formed\<close> shows of \<^verbatim>\<open>s1\<close>; the acknowledgements
  (\<open>vlc_acknowledges\<close> and the like) have the form of \<^verbatim>\<open>s2\<close>, under the key of the players.\<close>

lemma recorded_servers_signed:
  "signed 0 (take 36 GENUINE_FMS_KEY) vlc_s1" "signed 0 (take 36 GENUINE_FMS_KEY) fp_s1"
  "signed 0 (take 36 GENUINE_FMS_KEY) my_s1"
  by (rule vlc_s1_code_signed fp_s1_code_signed my_s1_code_signed)+

text \<open>The exchange with the first client.\<close>

theorem SHandshake_exchange_witness:
  "validate vlc_c1 = Ok (0, None) \<and>
   SHandshake (Some (replicate 1528 5)) (Some (replicate 1504 6))
     \<lparr>rbytes = 3 # vlc_c1 @ vlc_c2 @ [77], rend = EOF\<rparr> \<lparr>wout = [], wroom = None, wfail = EOF\<rparr> =
   (Ok (), \<lparr>rbytes = [77], rend = EOF\<rparr>, \<lparr>wout = server_response vlc_c1 (replicate 1528 5)
     (replicate 1504 6), wroom = None, wfail = EOF\<rparr>)"
  using SHandshake_exchange [of vlc_c1 vlc_c2 "replicate 1528 5" "replicate 1504 6"
      "\<lparr>wout = [], wroom = None, wfail = EOF\<rparr>" 3 "[77]" EOF]
  by (simp only: length_replicate vlc_c1_length vlc_c2_length recorded_clients_validate writer.simps append_Nil simp_thms)

text \<open>A block of either scheme is validated as such.\<close>

theorem validate_accepts_signed_witness:
  "validate vlc_c1 = Ok (0, None) \<and> validate fp_c1 = Ok (1, None)"
  using validate_accepts_signed [of vlc_c1 0] validate_accepts_signed [of fp_c1 1]
    vlc_c1_code0_signed fp_c1_code0_signed fp_c1_code1_signed
  by (simp only: vlc_c1_length fp_c1_length simp_thms if_True if_False)

end
