(* ===== verification/Go_Log.thy ===== *)
theory Go_Log
  imports Main
begin

text \<open>
  The loggers of \<^verbatim>\<open>src/log.go\<close>: which lines reach \<^verbatim>\<open>log.Printf\<close>, and with which format and arguments.
\<close>

section \<open>Levels\<close>

datatype LogLevel = LogError | LogWarn | LogInfo | LogDebug | LogTrace

fun level_number :: "LogLevel \<Rightarrow> nat" where
  "level_number LogError = 0"
| "level_number LogWarn = 1"
| "level_number LogInfo = 2"
| "level_number LogDebug = 3"
| "level_number LogTrace = 4"

instantiation LogLevel :: linorder
begin

definition less_eq_LogLevel :: "LogLevel \<Rightarrow> LogLevel \<Rightarrow> bool" where
  "less_eq_LogLevel a b \<longleftrightarrow> level_number a \<le> level_number b"

definition less_LogLevel :: "LogLevel \<Rightarrow> LogLevel \<Rightarrow> bool" where
  "less_LogLevel a b \<longleftrightarrow> level_number a < level_number b"

instance
proof
  fix a b :: LogLevel
  show "a \<le> b \<Longrightarrow> b \<le> a \<Longrightarrow> a = b"
    by (cases a; cases b) (simp_all add: less_eq_LogLevel_def)
qed (auto simp: less_eq_LogLevel_def less_LogLevel_def)

end

section \<open>Lines\<close>

text \<open>An argument is a value, or a whole slice of them passed as one.\<close>

datatype 'a log_arg = Arg 'a | Slice "'a list"

record logger =
  lg_tag :: string

definition NewLogger :: "string \<Rightarrow> logger" where
  "NewLogger tag = \<lparr>lg_tag = tag\<rparr>"

definition SetTag :: "string \<Rightarrow> logger \<Rightarrow> logger" where
  "SetTag tag l = l\<lparr>lg_tag := tag\<rparr>"

text \<open>\<^verbatim>\<open>strings.Join(s, " - ")\<close>\<close>

fun logJoin :: "string list \<Rightarrow> string" where
  "logJoin [] = []"
| "logJoin [s] = s"
| "logJoin (s # t # ss) = s @ '' - '' @ logJoin (t # ss)"

text \<open>The line that is printed under the level in force, if one is.\<close>

type_synonym 'a log_line = "(string \<times> 'a log_arg list) option"

definition Log_Errorf :: "LogLevel \<Rightarrow> logger \<Rightarrow> string \<Rightarrow> 'a list \<Rightarrow> 'a log_line" where
  "Log_Errorf logLevel l format v =
     (if logLevel \<ge> LogError then Some (logJoin [''error'', lg_tag l, format], map Arg v) else None)"

definition Log_Warnf :: "LogLevel \<Rightarrow> logger \<Rightarrow> string \<Rightarrow> 'a list \<Rightarrow> 'a log_line" where
  "Log_Warnf logLevel l format v =
     (if logLevel \<ge> LogWarn then Some (logJoin [''warn'', lg_tag l, format], map Arg v) else None)"

definition Log_Infof :: "LogLevel \<Rightarrow> logger \<Rightarrow> string \<Rightarrow> 'a list \<Rightarrow> 'a log_line" where
  "Log_Infof logLevel l format v =
     (if logLevel \<ge> LogInfo then Some (logJoin [''info'', lg_tag l, format], map Arg v) else None)"

definition Log_Debugf :: "LogLevel \<Rightarrow> logger \<Rightarrow> string \<Rightarrow> 'a list \<Rightarrow> 'a log_line" where
  "Log_Debugf logLevel l format v =
     (if logLevel \<ge> LogDebug then Some (logJoin [''debug'', lg_tag l, format], map Arg v) else None)"

text \<open>\<^verbatim>\<open>Tracef\<close> passes \<^verbatim>\<open>v\<close>, not \<^verbatim>\<open>v...\<close>.\<close>

definition Log_Tracef :: "LogLevel \<Rightarrow> logger \<Rightarrow> string \<Rightarrow> 'a list \<Rightarrow> 'a log_line" where
  "Log_Tracef logLevel l format v =
     (if logLevel \<ge> LogTrace then Some (logJoin [''trace'', lg_tag l, format], [Slice v]) else None)"

lemmas log_defs = Log_Errorf_def Log_Warnf_def Log_Infof_def Log_Debugf_def Log_Tracef_def

text \<open>A higher level prints whatever a lower one prints, and errors are printed under every level.\<close>

lemma higher_level_prints_more:
  assumes "a \<le> b" and "f \<in> {Log_Errorf, Log_Warnf, Log_Infof, Log_Debugf, Log_Tracef}" and "f a l format v = Some x"
  shows "f b l format v = Some x"
  using assms by (auto simp: log_defs split: if_splits dest: order_trans)

lemma errors_always_printed: "Log_Errorf level l format v \<noteq> None"
  by (cases level) (simp_all add: Log_Errorf_def less_eq_LogLevel_def)

text \<open>The two numbers of a trace reach \<^verbatim>\<open>Printf\<close> as one argument, those of any other line as two.\<close>

lemma trace_passes_one_argument:
  "Log_Tracef LogTrace l format [x, y] = Some (logJoin [''trace'', lg_tag l, format], [Slice [x, y]])"
  "Log_Debugf LogTrace l format [x, y] = Some (logJoin [''debug'', lg_tag l, format], [Arg x, Arg y])"
  by (simp_all add: log_defs less_eq_LogLevel_def)

end
